(* ===== verification/Prelude.thy ===== *)
theory Prelude
  imports Main
begin

text \<open>
  Shared vocabulary of the development: the JavaScript string and array operations the
  modelled code calls, the two invariant interfaces every stateful component is proved
  against, and the generic list lemmas the component proofs rest on.

  A JavaScript string is a \<open>string\<close>: a list of code units, each of which fits a \<open>char\<close>.
  The empty string is falsy; every other string is truthy. \<open>undefined\<close> and \<open>null\<close> are
  \<open>None\<close> unless a definition has to tell them apart.
\<close>

named_theorems proto_simps \<open>unfolding rules of the supervision protocol\<close>
named_theorems session_simps \<open>unfolding rules of the session aggregate\<close>
named_theorems store_simps \<open>unfolding rules of the row stores\<close>

subsection \<open>Truthiness and optional values\<close>

definition truthy :: "string \<Rightarrow> bool" where
  "truthy s \<longleftrightarrow> s \<noteq> []"

fun truthy_opt :: "string option \<Rightarrow> bool" where
  "truthy_opt None = False"
| "truthy_opt (Some s) = truthy s"

text \<open>The nullish coalescing operator \<open>a ?? b\<close>.\<close>

fun coalesce :: "'a option \<Rightarrow> 'a \<Rightarrow> 'a" where
  "coalesce None d = d"
| "coalesce (Some x) d = x"

fun opt_or :: "'a option \<Rightarrow> 'a option \<Rightarrow> 'a option" where
  "opt_or None b = b"
| "opt_or (Some x) b = Some x"

lemma truthy_Nil [simp]: "\<not> truthy []"
  by (simp add: truthy_def)

lemma truthy_Cons [simp]: "truthy (c # s)"
  by (simp add: truthy_def)

lemma opt_or_None_right [simp]: "opt_or a None = a"
  by (cases a) simp_all

lemma opt_or_again [simp]: "opt_or a (opt_or a b) = opt_or a b"
  by (cases a) simp_all

lemma opt_or_eq_None [simp]: "opt_or a b = None \<longleftrightarrow> a = None \<and> b = None"
  by (cases a) simp_all

lemma opt_or_Some_right [simp]: "\<exists>y. opt_or a (Some b) = Some y"
  by (cases a) simp_all

subsection \<open>Arrays\<close>

text \<open>\<open>findIndex\<close>, with \<open>None\<close> for -1.\<close>

fun find_index :: "('a \<Rightarrow> bool) \<Rightarrow> 'a list \<Rightarrow> nat option" where
  "find_index P [] = None"
| "find_index P (x # xs) = (if P x then Some 0 else map_option Suc (find_index P xs))"

lemma find_index_Some:
  "find_index P xs = Some i \<longleftrightarrow> i < length xs \<and> P (xs ! i) \<and> (\<forall>j < i. \<not> P (xs ! j))"
proof (induction xs arbitrary: i)
  case Nil
  then show ?case by simp
next
  case (Cons x xs)
  show ?case
  proof (cases i)
    case 0
    then show ?thesis by auto
  next
    case (Suc k)
    then show ?thesis using Cons.IH [of k] by (auto simp: All_less_Suc2)
  qed
qed

lemma find_index_None: "find_index P xs = None \<longleftrightarrow> (\<forall>x \<in> set xs. \<not> P x)"
  by (induction xs) auto

lemma find_index_SomeD:
  assumes "find_index P xs = Some i"
  shows "i < length xs" and "P (xs ! i)"
  using assms by (simp_all add: find_index_Some)

text \<open>\<open>indexOf\<close> on rows identified by a key; the first row with an equal key.\<close>

definition index_of :: "'a \<Rightarrow> 'a list \<Rightarrow> nat option" where
  "index_of x xs = find_index (\<lambda>y. y = x) xs"

text \<open>\<open>at(-1)\<close>.\<close>

fun last_opt :: "'a list \<Rightarrow> 'a option" where
  "last_opt [] = None"
| "last_opt (x # xs) = Some (last (x # xs))"

lemma last_opt_eq: "last_opt xs = (if xs = [] then None else Some (last xs))"
  by (cases xs) simp_all

text \<open>\<open>xs[i]\<close>, with \<open>None\<close> (undefined) outside the array.\<close>

definition at_index :: "'a list \<Rightarrow> nat \<Rightarrow> 'a option" where
  "at_index xs i = (if i < length xs then Some (xs ! i) else None)"

text \<open>\<open>slice(-n)\<close>: the last \<open>n\<close> entries.\<close>

definition keep_last :: "nat \<Rightarrow> 'a list \<Rightarrow> 'a list" where
  "keep_last n xs = drop (length xs - n) xs"

lemma length_keep_last: "length (keep_last n xs) \<le> n"
  by (simp add: keep_last_def)

lemma set_keep_last: "set (keep_last n xs) \<subseteq> set xs"
  by (simp add: keep_last_def set_drop_subset)

lemma distinct_map_keep_last: "distinct (map f xs) \<Longrightarrow> distinct (map f (keep_last n xs))"
  by (simp add: keep_last_def drop_map [symmetric])

text \<open>\<open>array.map(x => P(x) ? f(x) : x)\<close>, the in-place update of the matching rows.\<close>

definition update_where :: "('a \<Rightarrow> bool) \<Rightarrow> ('a \<Rightarrow> 'a) \<Rightarrow> 'a list \<Rightarrow> 'a list" where
  "update_where P f xs = map (\<lambda>x. if P x then f x else x) xs"

lemma update_where_simps [simp]:
  "update_where P f [] = []"
  "update_where P f (x # xs) = (if P x then f x else x) # update_where P f xs"
  "length (update_where P f xs) = length xs"
  "update_where P f (xs @ ys) = update_where P f xs @ update_where P f ys"
  by (simp_all add: update_where_def)

lemma map_update_where:
  "(\<And>x. P x \<Longrightarrow> k (f x) = k x) \<Longrightarrow> map k (update_where P f xs) = map k xs"
  by (induction xs) auto

lemma update_where_id: "\<forall>x \<in> set xs. \<not> P x \<Longrightarrow> update_where P f xs = xs"
  by (induction xs) auto

lemma in_set_update_where:
  "y \<in> set (update_where P f xs) \<longleftrightarrow> (\<exists>x \<in> set xs. y = (if P x then f x else x))"
  by (auto simp: update_where_def)

subsection \<open>Rows with a key\<close>

text \<open>
  Maps of the source that keep insertion order, and arrays used as keyed collections, are
  lists of rows with distinct keys.
\<close>

definition keys_distinct :: "('r \<Rightarrow> 'k) \<Rightarrow> 'r list \<Rightarrow> bool" where
  "keys_distinct key rows \<longleftrightarrow> distinct (map key rows)"

lemma keys_distinct_Nil [simp]: "keys_distinct key []"
  by (simp add: keys_distinct_def)

lemma keys_distinct_append1:
  "keys_distinct key (rows @ [r]) \<longleftrightarrow> keys_distinct key rows \<and> key r \<notin> key ` set rows"
  by (auto simp: keys_distinct_def)

lemma keys_distinct_filter: "keys_distinct key rows \<Longrightarrow> keys_distinct key (filter P rows)"
  by (simp add: keys_distinct_def distinct_map_filter)

lemma keys_distinct_update:
  "(\<And>r. P r \<Longrightarrow> key (f r) = key r) \<Longrightarrow>
     keys_distinct key (update_where P f rows) = keys_distinct key rows"
  by (simp add: keys_distinct_def map_update_where)

lemma keys_distinct_inj:
  "keys_distinct key rows \<Longrightarrow> r \<in> set rows \<Longrightarrow> r' \<in> set rows \<Longrightarrow> key r = key r' \<Longrightarrow> r = r'"
  by (auto simp: keys_distinct_def distinct_map dest: inj_onD)

lemma find_key_Some:
  "List.find (\<lambda>r. key r = k) rows = Some r \<Longrightarrow> r \<in> set rows \<and> key r = k"
  by (induction rows) (auto split: if_splits)

lemma find_key_iff:
  assumes "keys_distinct key rows"
  shows "List.find (\<lambda>r. key r = k) rows = Some r \<longleftrightarrow> r \<in> set rows \<and> key r = k"
  using assms by (induction rows) (auto simp: keys_distinct_def)

lemma find_key_None: "List.find (\<lambda>r. key r = k) rows = None \<longleftrightarrow> k \<notin> key ` set rows"
  by (induction rows) auto

lemma find_update_where:
  "(\<And>r. key (f r) = key r) \<Longrightarrow>
   List.find (\<lambda>r. key r = k) (update_where (\<lambda>r. key r = k') f rows)
     = (if k = k' then map_option f (List.find (\<lambda>r. key r = k) rows)
        else List.find (\<lambda>r. key r = k) rows)"
  by (induction rows) auto

lemma find_update_key:
  "(\<And>r. key (f r) = key r) \<Longrightarrow>
   List.find (\<lambda>r. key r = k) (update_where P f rows)
     = map_option (\<lambda>r. if P r then f r else r) (List.find (\<lambda>r. key r = k) rows)"
  by (induction rows) auto

lemma find_append:
  "List.find P (xs @ ys) = (case List.find P xs of None \<Rightarrow> List.find P ys | Some x \<Rightarrow> Some x)"
  by (induction xs) auto

lemma find_cong_filter:
  "(\<And>x. P x \<Longrightarrow> Q x) \<Longrightarrow> List.find P (filter Q xs) = List.find P xs"
  by (induction xs) auto

text \<open>A \<open>Map\<close> keeps the place of a known key and appends a new one.\<close>

definition map_set :: "('r \<Rightarrow> 'k) \<Rightarrow> 'r \<Rightarrow> 'r list \<Rightarrow> 'r list" where
  "map_set key r rows =
     (if \<exists>x \<in> set rows. key x = key r then update_where (\<lambda>x. key x = key r) (\<lambda>_. r) rows
      else rows @ [r])"

lemma map_set_keys:
  "map key (map_set key r rows)
     = (if key r \<in> key ` set rows then map key rows else map key rows @ [key r])"
proof (cases "key r \<in> key ` set rows")
  case True
  have "map key (update_where (\<lambda>x. key x = key r) (\<lambda>_. r) rows) = map key rows"
    by (intro map_update_where) simp
  moreover from True have "\<exists>x \<in> set rows. key x = key r" by (metis imageE)
  ultimately show ?thesis using True by (simp add: map_set_def)
next
  case False
  then have "\<not> (\<exists>x \<in> set rows. key x = key r)" by (metis imageI)
  with False show ?thesis by (simp add: map_set_def)
qed

lemma map_set_distinct: "keys_distinct key rows \<Longrightarrow> keys_distinct key (map_set key r rows)"
  by (simp add: keys_distinct_def map_set_keys image_iff)

lemma set_map_set: "set (map_set key r rows) \<subseteq> insert r (set rows)"
  by (auto simp: map_set_def in_set_update_where)

lemma find_replace:
  assumes "\<exists>x \<in> set rows. key x = key r"
  shows "List.find (\<lambda>x. key x = k) (update_where (\<lambda>x. key x = key r) (\<lambda>_. r) rows)
      = (if k = key r then Some r else List.find (\<lambda>x. key x = k) rows)"
proof (cases "k = key r")
  case True
  have "List.find (\<lambda>x. key x = key r) (update_where (\<lambda>x. key x = key r) (\<lambda>_. r) rows) = Some r"
    using assms by (induction rows) auto
  with True show ?thesis by simp
next
  case False
  then have "List.find (\<lambda>x. key x = k) (update_where (\<lambda>x. key x = key r) (\<lambda>_. r) rows)
      = List.find (\<lambda>x. key x = k) rows"
    by (induction rows) auto
  with False show ?thesis by simp
qed

lemma find_map_set:
  "List.find (\<lambda>x. key x = k) (map_set key r rows)
     = (if k = key r then Some r else List.find (\<lambda>x. key x = k) rows)"
proof (cases "\<exists>x \<in> set rows. key x = key r")
  case True
  then show ?thesis by (simp add: map_set_def find_replace)
next
  case False
  then have "List.find (\<lambda>x. key x = key r) rows = None" by (auto simp: find_key_None)
  with False show ?thesis by (auto simp: map_set_def find_append split: option.splits)
qed

text \<open>Building a map from rows with distinct keys gives the rows back.\<close>

lemma foldl_map_set:
  "keys_distinct key (rows @ xs) \<Longrightarrow> foldl (\<lambda>rows r. map_set key r rows) rows xs = rows @ xs"
proof (induction xs arbitrary: rows)
  case Nil
  then show ?case by simp
next
  case (Cons x xs)
  from Cons.prems have "key x \<notin> key ` set rows" by (auto simp: keys_distinct_def)
  then have "\<not> (\<exists>y \<in> set rows. key y = key x)" by (metis imageI)
  then have "map_set key x rows = rows @ [x]" by (simp only: map_set_def if_False)
  then show ?case using Cons.IH [of "rows @ [x]"] Cons.prems by simp
qed

subsection \<open>Invariant systems\<close>

text \<open>
  Every stateful component offers the same contract to its callers: a step function over
  commands and a predicate its steps keep. The two interfaces below give runs and reachable
  states once; a component interprets them on its own step function.
\<close>

fun run_steps :: "('s \<Rightarrow> 'e \<Rightarrow> 's) \<Rightarrow> 's \<Rightarrow> 'e list \<Rightarrow> 's" where
  "run_steps step s [] = s"
| "run_steps step s (e # es) = run_steps step (step s e) es"

lemma run_steps_append:
  "run_steps step s (es @ fs) = run_steps step (run_steps step s es) fs"
  by (induction es arbitrary: s) simp_all

locale stepper =
  fixes step :: "'s \<Rightarrow> 'e \<Rightarrow> 's"
    and inv :: "'s \<Rightarrow> bool"
  assumes step_inv: "inv s \<Longrightarrow> inv (step s e)"
begin

lemma run_inv: "inv s \<Longrightarrow> inv (run_steps step s es)"
  by (induction es arbitrary: s) (simp_all add: step_inv)

end

text \<open>A stepper that also has states nothing but one class of commands can leave.\<close>

locale trapping_stepper = stepper step inv
  for step :: "'s \<Rightarrow> 'e \<Rightarrow> 's" and inv :: "'s \<Rightarrow> bool" +
  fixes trapped :: "'s \<Rightarrow> bool"
    and releases :: "'e \<Rightarrow> bool"
  assumes trapped_step: "trapped s \<Longrightarrow> \<not> releases e \<Longrightarrow> trapped (step s e)"
begin

lemma trapped_run:
  "trapped s \<Longrightarrow> \<forall>e \<in> set es. \<not> releases e \<Longrightarrow> trapped (run_steps step s es)"
  by (induction es arbitrary: s) (auto simp: trapped_step)

end

text \<open>Operations that raise: a rejected command leaves the caller's state as it was.\<close>

fun run_commands :: "('s \<Rightarrow> 'e \<Rightarrow> 'x + 's) \<Rightarrow> 's \<Rightarrow> 'e list \<Rightarrow> 's" where
  "run_commands step s [] = s"
| "run_commands step s (e # es) =
     (case step s e of Inl _ \<Rightarrow> run_commands step s es | Inr s' \<Rightarrow> run_commands step s' es)"

locale fallible_stepper =
  fixes fstep :: "'s \<Rightarrow> 'e \<Rightarrow> 'x + 's"
    and finv :: "'s \<Rightarrow> bool"
  assumes fstep_inv: "finv s \<Longrightarrow> fstep s e = Inr s' \<Longrightarrow> finv s'"
begin

lemma commands_inv: "finv s \<Longrightarrow> finv (run_commands fstep s es)"
  by (induction es arbitrary: s) (auto split: sum.splits intro: fstep_inv)

end

end
