(* ===== verification/Js_Value.thy ===== *)
theory Js_Value
  imports Complex_Main Prelude
begin

text \<open>
  The part of the JavaScript runtime the modelled sources rely on: character classes and
  string methods (on code units below 256, where Latin-1 and UTF-16 agree), decimal printing
  and reading of integers, untyped values as a persisted JSON record delivers them, and the
  validators every decoder of the source repeats: bounded text, enumerated text, finite and
  safe numbers.
\<close>

subsection \<open>Characters and strings\<close>

definition code :: "char \<Rightarrow> nat" where
  "code c = of_char c"

text \<open>White space and line terminators removed by \<open>trim\<close> and matched by \<open>\s\<close>.\<close>

definition js_space :: "char \<Rightarrow> bool" where
  "js_space c \<longleftrightarrow> (9 \<le> code c \<and> code c \<le> 13) \<or> code c = 32 \<or> code c = 160"

definition trim_left :: "string \<Rightarrow> string" where
  "trim_left s = dropWhile js_space s"

definition js_trim :: "string \<Rightarrow> string" where
  "js_trim s = rev (dropWhile js_space (rev (dropWhile js_space s)))"

definition is_digit :: "char \<Rightarrow> bool" where
  "is_digit c \<longleftrightarrow> 48 \<le> code c \<and> code c \<le> 57"

definition is_digit19 :: "char \<Rightarrow> bool" where
  "is_digit19 c \<longleftrightarrow> 49 \<le> code c \<and> code c \<le> 57"

definition is_lower :: "char \<Rightarrow> bool" where
  "is_lower c \<longleftrightarrow> 97 \<le> code c \<and> code c \<le> 122"

definition is_upper :: "char \<Rightarrow> bool" where
  "is_upper c \<longleftrightarrow> 65 \<le> code c \<and> code c \<le> 90"

definition is_alnum :: "char \<Rightarrow> bool" where
  "is_alnum c \<longleftrightarrow> is_digit c \<or> is_lower c \<or> is_upper c"

definition is_hex_lower :: "char \<Rightarrow> bool" where
  "is_hex_lower c \<longleftrightarrow> is_digit c \<or> (97 \<le> code c \<and> code c \<le> 102)"

definition is_hex :: "char \<Rightarrow> bool" where
  "is_hex c \<longleftrightarrow> is_hex_lower c \<or> (65 \<le> code c \<and> code c \<le> 70)"

text \<open>\<open>s.startsWith(p)\<close> and the rest of the string after the prefix.\<close>

fun strip_prefix :: "string \<Rightarrow> string \<Rightarrow> string option" where
  "strip_prefix [] s = Some s"
| "strip_prefix (p # ps) [] = None"
| "strip_prefix (p # ps) (c # s) = (if p = c then strip_prefix ps s else None)"

definition starts_with :: "string \<Rightarrow> string \<Rightarrow> bool" where
  "starts_with p s \<longleftrightarrow> strip_prefix p s \<noteq> None"

lemma strip_prefix_Some: "strip_prefix p s = Some r \<longleftrightarrow> s = p @ r"
  by (induction p s rule: strip_prefix.induct) auto

lemma strip_prefix_append [simp]: "strip_prefix p (p @ r) = Some r"
  by (simp add: strip_prefix_Some)

text \<open>\<open>s.split(c)\<close> for a one-character separator; never empty.\<close>

fun split_on :: "char \<Rightarrow> string \<Rightarrow> string list" where
  "split_on c [] = [[]]"
| "split_on c (x # xs) =
     (if x = c then [] # split_on c xs
      else case split_on c xs of [] \<Rightarrow> [[x]] | y # ys \<Rightarrow> (x # y) # ys)"

lemma split_on_ne [simp]: "split_on c s \<noteq> []"
  by (induction s) (auto split: list.splits)

lemma split_on_no_sep: "c \<notin> set s \<Longrightarrow> split_on c s = [s]"
  by (induction s) auto

lemma split_on_sep: "c \<notin> set s \<Longrightarrow> split_on c (s @ c # t) = s # split_on c t"
  by (induction s) auto

text \<open>Bytes of the UTF-8 encoding; code units below 256 take one or two.\<close>

definition utf8_length :: "string \<Rightarrow> nat" where
  "utf8_length s = sum_list (map (\<lambda>c. if code c < 128 then 1 else 2) s)"

lemma length_le_utf8_length: "length s \<le> utf8_length s"
  by (induction s) (auto simp: utf8_length_def)

subsection \<open>Decimal integers\<close>

definition digit_char :: "nat \<Rightarrow> char" where
  "digit_char n = char_of (48 + n)"

fun nat_text :: "nat \<Rightarrow> string" where
  "nat_text n = (if n < 10 then [digit_char n] else nat_text (n div 10) @ [digit_char (n mod 10)])"

declare nat_text.simps [simp del]

definition digit_value :: "char \<Rightarrow> nat" where
  "digit_value c = code c - 48"

definition text_nat :: "string \<Rightarrow> nat" where
  "text_nat s = foldl (\<lambda>a c. 10 * a + digit_value c) 0 s"

lemma code_digit_char [simp]: "n < 10 \<Longrightarrow> code (digit_char n) = 48 + n"
  by (simp add: code_def digit_char_def)

lemma digit_value_digit_char [simp]: "n < 10 \<Longrightarrow> digit_value (digit_char n) = n"
  by (simp add: digit_value_def)

lemma text_nat_snoc [simp]: "text_nat (s @ [c]) = 10 * text_nat s + digit_value c"
  by (simp add: text_nat_def)

lemma text_nat_nat_text [simp]: "text_nat (nat_text n) = n"
proof (induction n rule: nat_text.induct)
  case (1 n)
  show ?case
  proof (cases "n < 10")
    case True
    then show ?thesis by (simp add: nat_text.simps [of n] text_nat_def)
  next
    case False
    with "1.IH" show ?thesis by (simp add: nat_text.simps [of n])
  qed
qed

lemma nat_text_digits: "list_all is_digit (nat_text n)"
proof (induction n rule: nat_text.induct)
  case (1 n)
  then show ?case
    by (cases "n < 10") (simp_all add: nat_text.simps [of n] is_digit_def)
qed

lemma nat_text_ne [simp]: "nat_text n \<noteq> []"
  by (simp add: nat_text.simps [of n])

lemma nat_text_hd: "0 < n \<Longrightarrow> is_digit19 (hd (nat_text n))"
proof (induction n rule: nat_text.induct)
  case (1 n)
  then show ?case
    by (cases "n < 10") (simp_all add: nat_text.simps [of n] is_digit19_def)
qed

lemma nat_text_inj: "nat_text m = nat_text n \<longleftrightarrow> m = n"
  by (metis text_nat_nat_text)

text \<open>A positive decimal without leading zero: the regular expression \<open>[1-9]\d*\<close>.\<close>

fun positive_decimal :: "string \<Rightarrow> bool" where
  "positive_decimal [] = False"
| "positive_decimal (c # cs) = (is_digit19 c \<and> list_all is_digit cs)"

lemma positive_decimal_nat_text: "0 < n \<Longrightarrow> positive_decimal (nat_text n)"
  using nat_text_hd [of n] nat_text_digits [of n] by (cases "nat_text n") auto

lemma digit19_digit: "is_digit19 c \<Longrightarrow> is_digit c"
  by (simp add: is_digit19_def is_digit_def)

lemma positive_decimal_digits: "positive_decimal s \<Longrightarrow> list_all is_digit s"
  by (cases s) (auto simp: digit19_digit)

subsection \<open>Untyped values\<close>

text \<open>
  A value of type \<open>unknown\<close>. Every number a JSON text can hold is a rational; \<open>NaN\<close> and the
  infinities are one constructor, because the code only ever asks whether a number is finite.
\<close>

datatype jv =
    JUndef
  | JNull
  | JBool bool
  | JNum rat
  | JNonFinite
  | JStr string
  | JArr "jv list"
  | JObj "(string \<times> jv) list"

definition max_safe :: int where
  "max_safe = 2 ^ 53 - 1"

text \<open>Reading a property of an object; \<open>undefined\<close> when it is absent.\<close>

definition field_of :: "(string \<times> jv) list \<Rightarrow> string \<Rightarrow> jv" where
  "field_of fields k = (case map_of fields k of None \<Rightarrow> JUndef | Some v \<Rightarrow> v)"

text \<open>\<open>record(value)\<close> of supervised-lifecycle.ts: objects only, neither null nor arrays.\<close>

fun as_record :: "jv \<Rightarrow> (string \<times> jv) list option" where
  "as_record (JObj fields) = Some fields"
| "as_record _ = None"

fun as_array :: "jv \<Rightarrow> jv list option" where
  "as_array (JArr xs) = Some xs"
| "as_array _ = None"

fun as_string :: "jv \<Rightarrow> string option" where
  "as_string (JStr s) = Some s"
| "as_string _ = None"

text \<open>\<open>boundedText\<close>: 1 to 512 code units.\<close>

fun bounded_text :: "jv \<Rightarrow> string option" where
  "bounded_text (JStr s) = (if s \<noteq> [] \<and> length s \<le> 512 then Some s else None)"
| "bounded_text _ = None"

text \<open>\<open>nullableText\<close>: \<open>Some None\<close> is null, \<open>None\<close> is undefined (rejected).\<close>

fun nullable_text :: "jv \<Rightarrow> string option option" where
  "nullable_text JNull = Some None"
| "nullable_text (JStr s) = (if s \<noteq> [] then Some (Some s) else None)"
| "nullable_text _ = None"

text \<open>\<open>stringValue(value, values)\<close>, with the enumeration as a table of spellings.\<close>

fun enum_value :: "(string \<times> 'a) list \<Rightarrow> jv \<Rightarrow> 'a option" where
  "enum_value table (JStr s) = map_of table s"
| "enum_value table _ = None"

fun non_negative_number :: "jv \<Rightarrow> rat option" where
  "non_negative_number (JNum r) = (if 0 \<le> r then Some r else None)"
| "non_negative_number _ = None"

text \<open>\<open>nullableNonNegativeNumber\<close>: \<open>Some None\<close> is null, \<open>None\<close> is undefined (rejected).\<close>

fun nullable_non_negative_number :: "jv \<Rightarrow> rat option option" where
  "nullable_non_negative_number JNull = Some None"
| "nullable_non_negative_number v = map_option Some (non_negative_number v)"

text \<open>\<open>integer\<close>: \<open>Number.isSafeInteger\<close>.\<close>

fun js_integer :: "jv \<Rightarrow> int option" where
  "js_integer (JNum r) =
     (if r = of_int \<lfloor>r\<rfloor> \<and> \<bar>\<lfloor>r\<rfloor>\<bar> \<le> max_safe then Some \<lfloor>r\<rfloor> else None)"
| "js_integer _ = None"

definition non_negative_integer :: "jv \<Rightarrow> nat option" where
  "non_negative_integer v =
     (case js_integer v of None \<Rightarrow> None | Some n \<Rightarrow> if 0 \<le> n then Some (nat n) else None)"

lemma bounded_text_Some: "bounded_text v = Some s \<longleftrightarrow> v = JStr s \<and> s \<noteq> [] \<and> length s \<le> 512"
  by (cases v) auto

lemma nullable_text_Some:
  "nullable_text v = Some t \<longleftrightarrow>
     (v = JNull \<and> t = None) \<or> (\<exists>s. v = JStr s \<and> s \<noteq> [] \<and> t = Some s)"
  by (cases v) auto

lemma non_negative_integer_of_nat [simp]:
  "int n \<le> max_safe \<Longrightarrow> non_negative_integer (JNum (of_nat n)) = Some n"
  by (simp add: non_negative_integer_def)

text \<open>How a persisted optional text is written back: null or the text.\<close>

fun text_value :: "string option \<Rightarrow> jv" where
  "text_value None = JNull"
| "text_value (Some s) = JStr s"

lemma nullable_text_value [simp]: "t \<noteq> Some [] \<Longrightarrow> nullable_text (text_value t) = Some t"
  by (cases t) auto

subsection \<open>Numbers written as text\<close>

text \<open>
  \<open>Number(text)\<close>: blank text is 0; a prefixed literal in base 16, 8 or 2; or a signed decimal
  with fraction and exponent. \<open>None\<close> is \<open>NaN\<close> or an infinity. Rounding to the nearest double
  is not modelled; the sources use the result as an array index or a small count.
\<close>

definition base_digit :: "char \<Rightarrow> nat" where
  "base_digit c =
     (if is_digit c then code c - 48 else if is_lower c then code c - 87
      else if is_upper c then code c - 55 else 99)"

definition base_number :: "nat \<Rightarrow> string \<Rightarrow> rat option" where
  "base_number b s =
     (if s \<noteq> [] \<and> list_all (\<lambda>c. base_digit c < b) s
      then Some (of_nat (foldl (\<lambda>a c. b * a + base_digit c) 0 s)) else None)"

fun split_sign :: "string \<Rightarrow> bool \<times> string" where
  "split_sign [] = (False, [])"
| "split_sign (c # s) =
     (if c = CHR ''-'' then (True, s) else if c = CHR ''+'' then (False, s) else (False, c # s))"

text \<open>The exponent after the mantissa, as a power of ten.\<close>

fun exponent_factor :: "string \<Rightarrow> rat option" where
  "exponent_factor [] = Some 1"
| "exponent_factor (c # s) =
     (case split_sign s of (neg, ds) \<Rightarrow>
        if (c = CHR ''e'' \<or> c = CHR ''E'') \<and> ds \<noteq> [] \<and> list_all is_digit ds
        then Some (if neg then 1 / 10 ^ text_nat ds else 10 ^ text_nat ds)
        else None)"

definition decimal_number :: "string \<Rightarrow> rat option" where
  "decimal_number s =
     (let whole = takeWhile is_digit s; r1 = dropWhile is_digit s;
          (fraction, r2) = (case r1 of
             [] \<Rightarrow> ([], [])
           | c # r \<Rightarrow> if c = CHR ''.'' then (takeWhile is_digit r, dropWhile is_digit r) else ([], r1))
      in if whole = [] \<and> fraction = [] then None
         else map_option (\<lambda>f. (of_nat (text_nat (whole @ fraction)) / 10 ^ length fraction) * f)
                (exponent_factor r2))"

fun prefixed_number :: "string \<Rightarrow> rat option option" where
  "prefixed_number (z # b # s) =
     (if z \<noteq> CHR ''0'' then None
      else if b \<in> set ''xX'' then Some (base_number 16 s)
      else if b \<in> set ''oO'' then Some (base_number 8 s)
      else if b \<in> set ''bB'' then Some (base_number 2 s) else None)"
| "prefixed_number _ = None"

definition js_number :: "string \<Rightarrow> rat option" where
  "js_number text =
     (let s = js_trim text in
      if s = [] then Some 0
      else case prefixed_number s of
             Some r \<Rightarrow> r
           | None \<Rightarrow>
               (case split_sign s of (neg, u) \<Rightarrow>
                  map_option (\<lambda>r. if neg then - r else r) (decimal_number u)))"

end
