(* ===== verification/Plan_Model.thy ===== *)
theory Plan_Model
  imports Js_Value
begin

text \<open>
  The supervised plan read model (src/server/features/plans/domain/supervised-plan.ts) and the
  naming of plan positions and executor agents (src/shared/org-plan-position.ts). A level 1
  step and a level 2 step are two records: the parser never nests deeper, and level 2 steps
  carry neither a review status, skills, nor a policy.
\<close>

subsection \<open>Data\<close>

datatype todo_state = TODO | WIP | DONE | SUSPENDED
datatype plan_priority = PrioA | PrioB | PrioC
datatype review_status = UNREVIEWED | REVIEWED
datatype measure_value = MInstant string | MCount nat
datatype assurance = Configured | RuntimeAttested

record policy_necessity =
  nec_kind :: string
  nec_why :: string
  nec_evidence :: string
  nec_scope :: string
  nec_return :: string
  nec_reassessment :: "string option"

record model_policy =
  mp_model :: string
  mp_effort :: string
  mp_rationale :: string
  mp_fallbacks :: "string list"
  mp_trigger :: string
  mp_necessity :: "policy_necessity option"

record plan_child =
  child_id :: string
  child_title :: string
  child_state :: todo_state
  child_priority :: plan_priority
  child_description :: "string list"
  child_measurement :: "(string \<times> measure_value) list option"

record plan_step =
  step_id :: string
  step_title :: string
  step_state :: todo_state
  step_priority :: plan_priority
  step_review :: "review_status option"
  step_skills :: "string list"
  step_playwright :: bool
  step_description :: "string list"
  step_measurement :: "(string \<times> measure_value) list option"
  step_policy :: "model_policy option"
  step_children :: "plan_child list"

record supervised_plan =
  plan_title :: string
  plan_subtitle :: "string option"
  plan_date :: "string option"
  plan_keywords :: "string option"
  plan_policy_version :: "nat option"
  plan_assurance :: "assurance option"
  plan_steps :: "plan_step list"
  plan_total :: nat
  plan_done :: nat
  plan_all_done :: bool
  plan_execution_complete :: "bool option"
  plan_current :: string

subsection \<open>Identifier validation\<close>

definition model_char :: "char \<Rightarrow> bool" where
  "model_char c \<longleftrightarrow> is_alnum c \<or> c \<in> set ''._:/-''"

fun validPlanModel :: "string \<Rightarrow> bool" where
  "validPlanModel [] = False"
| "validPlanModel (c # cs) =
     (c # cs \<noteq> ''none'' \<and> is_alnum c \<and> length cs \<le> 63 \<and> list_all model_char cs)"

definition effort_char :: "char \<Rightarrow> bool" where
  "effort_char c \<longleftrightarrow> is_lower c \<or> is_digit c \<or> c = CHR ''_'' \<or> c = CHR ''-''"

fun validPlanEffort :: "string \<Rightarrow> bool" where
  "validPlanEffort [] = False"
| "validPlanEffort (c # cs) = (is_lower c \<and> length cs \<le> 23 \<and> list_all effort_char cs)"

subsection \<open>Which milestone may run next\<close>

definition step_is_current :: "supervised_plan \<Rightarrow> plan_step \<Rightarrow> bool" where
  "step_is_current plan step \<longleftrightarrow>
     step_id step = plan_current plan
     \<or> (\<exists>child \<in> set (step_children step). child_id child = plan_current plan)
     \<or> step_state step = WIP"

text \<open>
  \<open>eligible\<close> bounds both searches by the first suspended step. The searches run over the
  steps with their positions, as \<open>findIndex\<close> passes them; the result is \<open>None\<close> for -1.
\<close>

definition suspension_boundary :: "plan_step list \<Rightarrow> nat option" where
  "suspension_boundary steps = find_index (\<lambda>s. step_state s = SUSPENDED) steps"

definition eligible_steps :: "plan_step list \<Rightarrow> plan_step list" where
  "eligible_steps steps =
     (case suspension_boundary steps of None \<Rightarrow> steps | Some b \<Rightarrow> take b steps)"

definition currentExecutableL1Index :: "supervised_plan \<Rightarrow> nat option" where
  "currentExecutableL1Index plan =
     (let eligible = eligible_steps (plan_steps plan) in
      case find_index (step_is_current plan) eligible of
        Some i \<Rightarrow> Some i
      | None \<Rightarrow> find_index (\<lambda>s. step_state s \<noteq> DONE) eligible)"

lemma boundary_None:
  "suspension_boundary steps = None \<longleftrightarrow> (\<forall>s \<in> set steps. step_state s \<noteq> SUSPENDED)"
  by (simp add: suspension_boundary_def find_index_None)

lemma boundary_Some:
  "suspension_boundary steps = Some b \<longleftrightarrow>
     b < length steps \<and> step_state (steps ! b) = SUSPENDED
     \<and> (\<forall>j < b. step_state (steps ! j) \<noteq> SUSPENDED)"
  by (simp add: suspension_boundary_def find_index_Some)

lemma eligible_prefix:
  assumes "i < length (eligible_steps steps)"
  shows "i < length steps \<and> eligible_steps steps ! i = steps ! i
     \<and> (\<forall>j \<le> i. step_state (steps ! j) \<noteq> SUSPENDED)"
proof (cases "suspension_boundary steps")
  case None
  then have "eligible_steps steps = steps" by (simp add: eligible_steps_def)
  with None assms show ?thesis by (auto simp: boundary_None)
next
  case (Some b)
  then have "eligible_steps steps = take b steps" by (simp add: eligible_steps_def)
  with Some assms show ?thesis by (auto simp: boundary_Some)
qed

lemma eligible_complete:
  assumes "i < length steps" and "\<forall>j \<le> i. step_state (steps ! j) \<noteq> SUSPENDED"
  shows "i < length (eligible_steps steps)"
proof (cases "suspension_boundary steps")
  case None
  with assms show ?thesis by (simp add: eligible_steps_def)
next
  case (Some b)
  then have "eligible_steps steps = take b steps" by (simp add: eligible_steps_def)
  moreover from Some assms have "i < b" by (metis boundary_Some leI)
  ultimately show ?thesis using assms by simp
qed

lemma executable_index_bounds:
  assumes "currentExecutableL1Index plan = Some i"
  shows "i < length (eligible_steps (plan_steps plan))"
    and "step_is_current plan (eligible_steps (plan_steps plan) ! i)
         \<or> step_state (eligible_steps (plan_steps plan) ! i) \<noteq> DONE"
  using assms
  by (auto simp: currentExecutableL1Index_def Let_def find_index_Some split: option.splits)

subsection \<open>Plan completion\<close>

definition step_complete :: "plan_step \<Rightarrow> bool" where
  "step_complete step \<longleftrightarrow>
     step_state step = DONE \<and> step_review step = Some REVIEWED
     \<and> list_all (\<lambda>c. child_state c = DONE) (step_children step)"

text \<open>\<open>executionComplete(plan)\<close>, in policy.ts and again in supervised-lifecycle.ts.\<close>

definition executionComplete :: "supervised_plan \<Rightarrow> bool" where
  "executionComplete plan =
     coalesce (plan_execution_complete plan) (list_all step_complete (plan_steps plan))"

subsection \<open>Positions and agent names\<close>

definition orgPlanPosition :: "nat \<Rightarrow> nat option \<Rightarrow> string" where
  "orgPlanPosition l1 l2 =
     (case l2 of
        None \<Rightarrow> CHR ''L'' # nat_text l1
      | Some k \<Rightarrow> (CHR ''L'' # nat_text l1) @ CHR ''.'' # nat_text k)"

record agent_identity =
  ai_task :: string
  ai_position :: string
  ai_generation :: nat

definition path_leaf :: "string \<Rightarrow> string option" where
  "path_leaf p = last_opt (filter truthy (split_on (CHR ''/'') p))"

text \<open>The regular expression \<open>^(l([1-9]\d*))(?:_g([1-9]\d*))?$\<close>: the digits and the generation.\<close>

fun match_agent_name :: "string \<Rightarrow> (string \<times> string option) option" where
  "match_agent_name [] = None"
| "match_agent_name (c # cs) =
     (let ds = takeWhile is_digit cs; rest = dropWhile is_digit cs in
      if c \<noteq> CHR ''l'' \<or> \<not> positive_decimal ds then None
      else if rest = [] then Some (ds, None)
      else case strip_prefix ''_g'' rest of
             None \<Rightarrow> None
           | Some g \<Rightarrow> if positive_decimal g then Some (ds, Some g) else None)"

definition parseOrgPlanAgentIdentity :: "string \<Rightarrow> agent_identity option" where
  "parseOrgPlanAgentIdentity nameOrPath =
     (case match_agent_name (coalesce (path_leaf nameOrPath) nameOrPath) of
        None \<Rightarrow> None
      | Some (ds, g) \<Rightarrow>
          Some \<lparr> ai_task = CHR ''l'' # ds,
                 ai_position = orgPlanPosition (text_nat ds) None,
                 ai_generation = (case g of None \<Rightarrow> 1 | Some s \<Rightarrow> text_nat s) \<rparr>)"

definition orgPlanAgentDisplayName :: "string \<Rightarrow> string" where
  "orgPlanAgentDisplayName name =
     (case parseOrgPlanAgentIdentity name of None \<Rightarrow> name | Some i \<Rightarrow> ai_position i)"

definition l1_task_name :: "nat \<Rightarrow> string" where
  "l1_task_name n = CHR ''l'' # nat_text n"

lemma digit_chars_no_sep:
  "list_all is_digit s \<Longrightarrow> CHR ''/'' \<notin> set s"
  by (auto simp: list_all_iff is_digit_def code_def)

lemma takeWhile_digits:
  "list_all is_digit ds \<Longrightarrow> rest = [] \<or> \<not> is_digit (hd rest) \<Longrightarrow>
     takeWhile is_digit (ds @ rest) = ds \<and> dropWhile is_digit (ds @ rest) = rest"
  by (induction ds) (auto simp: takeWhile_eq_Nil_iff dropWhile_eq_self_iff)

lemma match_agent_name_plain:
  assumes "positive_decimal ds"
  shows "match_agent_name (CHR ''l'' # ds) = Some (ds, None)"
proof -
  have digits: "takeWhile is_digit ds = ds" "dropWhile is_digit ds = []"
    using takeWhile_digits [of ds "[]"] positive_decimal_digits [OF assms]
    by (simp_all del: takeWhile_eq_all_conv)
  show ?thesis using assms by (simp add: Let_def digits)
qed

lemma match_agent_name_generation:
  assumes "positive_decimal ds" and "positive_decimal g"
  shows "match_agent_name (CHR ''l'' # ds @ ''_g'' @ g) = Some (ds, Some g)"
proof -
  have "takeWhile is_digit (ds @ ''_g'' @ g) = ds \<and> dropWhile is_digit (ds @ ''_g'' @ g) = ''_g'' @ g"
    using positive_decimal_digits [OF assms(1)]
    by (intro takeWhile_digits) (simp_all add: is_digit_def code_def)
  then show ?thesis using assms by (simp add: Let_def)
qed

lemma path_leaf_name: "CHR ''/'' \<notin> set name \<Longrightarrow> name \<noteq> [] \<Longrightarrow> path_leaf name = Some name"
  by (simp add: path_leaf_def split_on_no_sep truthy_def)

lemma split_on_append: "split_on c (s @ c # t) = split_on c s @ split_on c t"
  by (induction s) (auto split: list.splits)

lemma path_leaf_append:
  assumes "CHR ''/'' \<notin> set name" and "name \<noteq> []"
  shows "path_leaf (dir @ CHR ''/'' # name) = Some name"
proof -
  have "filter truthy (split_on (CHR ''/'') (dir @ CHR ''/'' # name))
      = filter truthy (split_on (CHR ''/'') dir) @ [name]"
    using assms by (simp add: split_on_append split_on_no_sep truthy_def)
  then show ?thesis by (simp add: path_leaf_def last_opt_eq)
qed

lemma nat_text_no_sep: "CHR ''/'' \<notin> set (nat_text k)"
  using digit_chars_no_sep [OF nat_text_digits] .

lemma agent_plain_form:
  assumes "0 < n"
  shows "parseOrgPlanAgentIdentity (l1_task_name n)
    = Some \<lparr> ai_task = l1_task_name n, ai_position = orgPlanPosition n None, ai_generation = 1 \<rparr>"
  using path_leaf_name [of "l1_task_name n"] nat_text_no_sep
    match_agent_name_plain [OF positive_decimal_nat_text [OF assms]]
  by (simp add: parseOrgPlanAgentIdentity_def l1_task_name_def del: match_agent_name.simps)

lemma agent_path_form:
  assumes "0 < n"
  shows "parseOrgPlanAgentIdentity (dir @ ''/'' @ l1_task_name n)
    = Some \<lparr> ai_task = l1_task_name n, ai_position = orgPlanPosition n None, ai_generation = 1 \<rparr>"
  using path_leaf_append [of "l1_task_name n" dir] nat_text_no_sep
    match_agent_name_plain [OF positive_decimal_nat_text [OF assms]]
  by (simp add: parseOrgPlanAgentIdentity_def l1_task_name_def del: match_agent_name.simps)

lemma agent_generation_form:
  assumes "0 < n" and "0 < g"
  shows "parseOrgPlanAgentIdentity (dir @ ''/'' @ l1_task_name n @ ''_g'' @ nat_text g)
    = Some \<lparr> ai_task = l1_task_name n, ai_position = orgPlanPosition n None, ai_generation = g \<rparr>"
  using path_leaf_append [of "l1_task_name n @ ''_g'' @ nat_text g" dir] nat_text_no_sep
    match_agent_name_generation [OF positive_decimal_nat_text [OF assms(1)]
      positive_decimal_nat_text [OF assms(2)]]
  by (simp add: parseOrgPlanAgentIdentity_def l1_task_name_def del: match_agent_name.simps)

end
