(* ===== verification/Plan_Text.thy ===== *)
theory Plan_Text
  imports Plan_Model
begin

text \<open>
  The lexical layer of the plan parser
  (src/server/features/plans/application/parse-supervised-plan.ts): the regular expressions of
  the org dialect as matching functions, the drawer and description readers, the scan of the
  whole file into metadata and headings, admission of the plan path, and UTC instants.
\<close>

subsection \<open>Line syntax\<close>

abbreviation lf :: char where "lf \<equiv> CHR 0x0A"
abbreviation cr :: char where "cr \<equiv> CHR 0x0D"
abbreviation tab :: char where "tab \<equiv> CHR 0x09"

datatype plan_level = Lvl1 | Lvl2

record heading =
  h_id :: string
  h_title :: string
  h_level :: plan_level
  h_state :: todo_state
  h_priority :: plan_priority
  h_props :: "string \<rightharpoonup> string"
  h_descs :: "string \<rightharpoonup> string"

text \<open>\<open>source.replace(/\r\n?/g, '\n')\<close>: the flag says the previous unit was a carriage return.\<close>

fun normalize_newlines :: "bool \<Rightarrow> string \<Rightarrow> string" where
  "normalize_newlines after_cr [] = []"
| "normalize_newlines after_cr (c # cs) =
     (if c = cr then lf # normalize_newlines True cs
      else if c = lf \<and> after_cr then normalize_newlines False cs
      else c # normalize_newlines False cs)"

definition source_lines :: "string \<Rightarrow> string list" where
  "source_lines source = split_on lf (normalize_newlines False source)"

fun strip_any :: "(string \<times> 'a) list \<Rightarrow> string \<Rightarrow> ('a \<times> string) option" where
  "strip_any [] s = None"
| "strip_any ((p, a) # ps) s =
     (case strip_prefix p s of Some r \<Rightarrow> Some (a, r) | None \<Rightarrow> strip_any ps s)"

text \<open>\<open>headingPattern\<close>: stars, keyword, priority, and a title that is not empty.\<close>

definition match_heading :: "string \<Rightarrow> (plan_level \<times> todo_state \<times> plan_priority \<times> string) option" where
  "match_heading line =
     (case strip_any [(''** '', Lvl2), (''* '', Lvl1)] line of
        None \<Rightarrow> None
      | Some (level, r1) \<Rightarrow>
     (case strip_any [(''TODO '', TODO), (''WIP '', WIP), (''DONE '', DONE),
                      (''SUSPENDED '', SUSPENDED)] r1 of
        None \<Rightarrow> None
      | Some (state, r2) \<Rightarrow>
     (case strip_any [(''[#A] '', PrioA), (''[#B] '', PrioB), (''[#C] '', PrioC)] r2 of
        None \<Rightarrow> None
      | Some (priority, title) \<Rightarrow>
          if title = [] then None else Some (level, state, priority, title))))"

definition key_char :: "char \<Rightarrow> bool" where
  "key_char c \<longleftrightarrow> is_upper c \<or> c = CHR ''_''"

text \<open>The optional value after a colon: end of line, or a blank and the rest of the line.\<close>

fun optional_value :: "string \<Rightarrow> string option" where
  "optional_value [] = Some []"
| "optional_value (c # v) = (if c = CHR '' '' \<or> c = tab then Some v else None)"

text \<open>\<open>propertyPattern\<close> and the metadata pattern differ in what precedes the key.\<close>

definition match_keyed :: "string \<Rightarrow> string \<Rightarrow> (string \<times> string) option" where
  "match_keyed pre line =
     (case strip_prefix pre line of
        None \<Rightarrow> None
      | Some r \<Rightarrow>
          let k = takeWhile key_char r in
          if k = [] then None
          else case strip_prefix '':'' (dropWhile key_char r) of
                 None \<Rightarrow> None
               | Some t \<Rightarrow> map_option (\<lambda>v. (k, v)) (optional_value t))"

definition letter :: "char \<Rightarrow> bool" where
  "letter c \<longleftrightarrow> is_lower c \<or> is_upper c"

definition description_key :: "string \<Rightarrow> bool" where
  "description_key k \<longleftrightarrow>
     k \<noteq> [] \<and> letter (hd k) \<and> list_all (\<lambda>c. letter c \<or> c = CHR '' '') k"

text \<open>
  \<open>descriptionPattern\<close>: the key holds letters and blanks only, so it ends at the first colon,
  less the blank before it.
\<close>

definition match_description :: "string \<Rightarrow> (string \<times> string) option" where
  "match_description line =
     (case strip_prefix ''- '' line of
        None \<Rightarrow> None
      | Some r \<Rightarrow>
          let k = takeWhile (\<lambda>c. c \<noteq> CHR '':'') r in
          case strip_prefix ''::'' (dropWhile (\<lambda>c. c \<noteq> CHR '':'') r) of
            None \<Rightarrow> None
          | Some t \<Rightarrow>
              if k \<noteq> [] \<and> last k = CHR '' '' \<and> description_key (butlast k)
              then map_option (\<lambda>v. (butlast k, v)) (optional_value t)
              else None)"

definition blank_or_tab :: "char \<Rightarrow> bool" where
  "blank_or_tab c \<longleftrightarrow> c = CHR '' '' \<or> c = tab"

text \<open>The test \<open>/^[ \t]+\S/\<close> for a continuation line and the removal of its indentation.\<close>

fun is_continuation :: "string \<Rightarrow> bool" where
  "is_continuation [] = False"
| "is_continuation (c # cs) =
     (blank_or_tab c \<and>
      (case dropWhile blank_or_tab cs of [] \<Rightarrow> False | d # _ \<Rightarrow> \<not> js_space d))"

definition strip_indent :: "string \<Rightarrow> string" where
  "strip_indent line =
     (case strip_any [(''  '', ()), ([tab], ())] line of Some (_, r) \<Rightarrow> r | None \<Rightarrow> line)"

subsection \<open>Drawers and descriptions\<close>

text \<open>
  The property loop: it ends at \<open>:END:\<close>; running out of lines, a line that is no property and
  a repeated key are all \<open>MALFORMED_ORG\<close>, here \<open>None\<close>.
\<close>

fun read_properties ::
  "string list \<Rightarrow> (string \<rightharpoonup> string) \<Rightarrow> ((string \<rightharpoonup> string) \<times> string list) option" where
  "read_properties [] props = None"
| "read_properties (line # rest) props =
     (if line = '':END:'' then Some (props, rest)
      else case match_keyed '':'' line of
             None \<Rightarrow> None
           | Some (k, v) \<Rightarrow>
               if props k \<noteq> None then None else read_properties rest (props(k \<mapsto> v)))"

text \<open>
  The description loop stops before the next heading. \<open>key\<close> is \<open>descriptionKey\<close> and \<open>blanks\<close> is
  \<open>blankLines\<close>; a continuation joins the last description with the blank lines between.
\<close>

fun read_descriptions ::
  "string list \<Rightarrow> (string \<rightharpoonup> string) \<Rightarrow> string option \<Rightarrow> nat
     \<Rightarrow> ((string \<rightharpoonup> string) \<times> string list) option" where
  "read_descriptions [] descs key blanks = Some (descs, [])"
| "read_descriptions (line # rest) descs key blanks =
     (if starts_with ''*'' line then Some (descs, line # rest)
      else case match_description line of
        Some (k, v) \<Rightarrow>
          if descs k \<noteq> None then None
          else read_descriptions rest (descs(k \<mapsto> v)) (Some k) 0
      | None \<Rightarrow>
          if key \<noteq> None \<and> is_continuation line then
            read_descriptions rest
              (descs(the key \<mapsto> coalesce (descs (the key)) []
                       @ replicate (blanks + 1) lf @ strip_indent line)) key 0
          else if js_trim line = [] then read_descriptions rest descs key (blanks + 1)
          else None)"

lemma read_properties_shorter:
  "read_properties ls props = Some (props', rest) \<Longrightarrow> length rest < length ls"
  by (induction ls props rule: read_properties.induct)
     (fastforce split: if_splits option.splits)+

lemma read_descriptions_shorter:
  "read_descriptions ls descs key blanks = Some (descs', rest) \<Longrightarrow> length rest \<le> length ls"
proof (induction ls arbitrary: descs key blanks)
  case Nil
  then show ?case by simp
next
  case (Cons line ls)
  from Cons.prems consider "rest = line # ls"
    | descs'' key' blanks' where "read_descriptions ls descs'' key' blanks' = Some (descs', rest)"
    by (auto split: if_splits option.splits)
  then show ?case
    by cases (auto dest: Cons.IH)
qed

subsection \<open>The scan of the file\<close>

datatype plan_unavailable =
    PATH_OUTSIDE_WORKSPACE
  | MISSING_TITLE
  | INVALID_MODEL_POLICY
  | MALFORMED_ORG
  | DUPLICATE_ID
  | MULTIPLE_WIP
  | MISSING_REQUIRED_FIELD

definition make_heading ::
  "plan_level \<times> todo_state \<times> plan_priority \<times> string \<Rightarrow> string \<Rightarrow> (string \<rightharpoonup> string)
     \<Rightarrow> (string \<rightharpoonup> string) \<Rightarrow> heading" where
  "make_heading m hid props descs =
     (case m of (level, state, priority, title) \<Rightarrow>
        \<lparr> h_id = hid, h_title = title, h_level = level, h_state = state, h_priority = priority,
          h_props = props, h_descs = descs \<rparr>)"

text \<open>
  The body of one heading after its first line: the drawer must follow at once, then the
  descriptions, and the drawer must name an \<open>ID\<close>.
\<close>

definition read_heading ::
  "string \<Rightarrow> string list \<Rightarrow> plan_unavailable + heading \<times> string list" where
  "read_heading line rest =
     (case match_heading line of
        None \<Rightarrow> Inl MALFORMED_ORG
      | Some m \<Rightarrow>
     (case rest of
        [] \<Rightarrow> Inl MALFORMED_ORG
      | opening # drawer \<Rightarrow>
          if opening \<noteq> '':PROPERTIES:'' then Inl MALFORMED_ORG
          else
     (case read_properties drawer Map.empty of
        None \<Rightarrow> Inl MALFORMED_ORG
      | Some (props, after_drawer) \<Rightarrow>
     (case read_descriptions after_drawer Map.empty None 0 of
        None \<Rightarrow> Inl MALFORMED_ORG
      | Some (descs, remaining) \<Rightarrow>
          if truthy_opt (props ''ID'')
          then Inr (make_heading m (the (props ''ID'')) props descs, remaining)
          else Inl MISSING_REQUIRED_FIELD))))"

lemma read_heading_shorter:
  "read_heading line rest = Inr (h, remaining) \<Longrightarrow> length remaining < length rest"
  by (auto simp: read_heading_def split: option.splits list.splits if_splits
           dest!: read_properties_shorter read_descriptions_shorter)

function scan_lines ::
  "string list \<Rightarrow> (string \<rightharpoonup> string) \<Rightarrow> heading list
     \<Rightarrow> plan_unavailable + (string \<rightharpoonup> string) \<times> heading list" where
  "scan_lines [] metadata headings = Inr (metadata, headings)"
| "scan_lines (line # rest) metadata headings =
     (case match_keyed ''#+'' line of
        Some (k, v) \<Rightarrow> scan_lines rest (metadata(k \<mapsto> v)) headings
      | None \<Rightarrow>
          if \<not> starts_with ''*'' line then scan_lines rest metadata headings
          else case read_heading line rest of
                 Inl e \<Rightarrow> Inl e
               | Inr (h, remaining) \<Rightarrow> scan_lines remaining metadata (headings @ [h]))"
  by pat_completeness auto
termination
  by (relation "measure (\<lambda>(ls, _, _). length ls)") (auto dest: read_heading_shorter)

lemma read_heading_id: "read_heading line rest = Inr (h, r) \<Longrightarrow> h_id h \<noteq> []"
proof -
  assume "read_heading line rest = Inr (h, r)"
  then obtain m props descs
    where "truthy_opt (props ''ID'')" and "h = make_heading m (the (props ''ID'')) props descs"
    by (auto simp: read_heading_def split: option.splits list.splits if_splits)
  then show "h_id h \<noteq> []"
    by (cases "props ''ID''") (auto simp: make_heading_def truthy_def split: prod.splits)
qed

lemma scan_lines_ids:
  "scan_lines ls metadata hs = Inr (metadata', hs') \<Longrightarrow> \<forall>h \<in> set hs. h_id h \<noteq> [] \<Longrightarrow>
     \<forall>h \<in> set hs'. h_id h \<noteq> []"
proof (induction ls metadata hs rule: scan_lines.induct)
  case (1 metadata hs)
  then show ?case by simp
next
  case (2 line rest metadata hs)
  show ?case
  proof (cases "match_keyed ''#+'' line")
    case None
    with 2 show ?thesis
      by (auto split: if_splits sum.splits dest: read_heading_id)
  next
    case (Some kv)
    obtain k v where kv: "kv = (k, v)" by force
    from Some kv "2.prems" have "scan_lines rest (metadata(k \<mapsto> v)) hs = Inr (metadata', hs')"
      by simp
    from "2.IH"(3) [OF Some kv [symmetric] this "2.prems"(2)] show ?thesis .
  qed
qed

subsection \<open>Admission of the plan path\<close>

text \<open>
  \<open>resolve\<close> and \<open>relative\<close> of node:path on absolute POSIX paths, by segments: empty and \<open>.\<close>
  segments vanish, \<open>..\<close> removes the last segment and stops at the root.
\<close>

fun resolve_segments :: "string list \<Rightarrow> string list \<Rightarrow> string list" where
  "resolve_segments acc [] = acc"
| "resolve_segments acc (s # ss) =
     (if s = [] \<or> s = ''.'' then resolve_segments acc ss
      else if s = ''..'' then resolve_segments (butlast acc) ss
      else resolve_segments (acc @ [s]) ss)"

definition path_segments :: "string \<Rightarrow> string list" where
  "path_segments p = resolve_segments [] (split_on (CHR ''/'') p)"

fun relative_segments :: "string list \<Rightarrow> string list \<Rightarrow> string list" where
  "relative_segments (f # fs) (t # ts) =
     (if f = t then relative_segments fs ts else replicate (length (f # fs)) ''..'' @ t # ts)"
| "relative_segments fs ts = replicate (length fs) ''..'' @ ts"

definition isAbsolute :: "string \<Rightarrow> bool" where
  "isAbsolute p = starts_with ''/'' p"

fun join_path :: "string list \<Rightarrow> string" where
  "join_path [] = []"
| "join_path [s] = s"
| "join_path (s # ss) = s @ CHR ''/'' # join_path ss"

definition isPlanPathWithinWorkspace :: "string \<Rightarrow> string \<Rightarrow> bool" where
  "isPlanPathWithinWorkspace planPath workspacePath =
     (if \<not> isAbsolute planPath \<or> \<not> isAbsolute workspacePath then False
      else let inner = join_path (relative_segments (path_segments workspacePath)
                                                     (path_segments planPath)) in
           inner = [] \<or> (\<not> starts_with ''..'' inner \<and> \<not> isAbsolute inner))"

lemma relative_segments_append [simp]: "relative_segments fs (fs @ ss) = ss"
proof (induction fs)
  case Nil
  show ?case by (cases ss) simp_all
next
  case (Cons f fs)
  then show ?case by simp
qed

lemma relative_segments_outside:
  "\<nexists>ss. ts = fs @ ss \<Longrightarrow> \<exists>ss. relative_segments fs ts = ''..'' # ss"
proof (induction fs arbitrary: ts)
  case Nil
  then show ?case by simp
next
  case (Cons f fs)
  show ?case
  proof (cases ts)
    case Nil
    then show ?thesis by simp
  next
    case (Cons t ts')
    with Cons.prems Cons.IH [of ts'] show ?thesis by auto
  qed
qed

lemma resolve_segments_no_dots:
  "\<forall>s \<in> set acc. s \<noteq> ''..'' \<and> s \<noteq> [] \<Longrightarrow>
     \<forall>s \<in> set (resolve_segments acc ss). s \<noteq> ''..'' \<and> s \<noteq> []"
proof (induction ss arbitrary: acc)
  case Nil
  then show ?case by simp
next
  case (Cons s ss)
  consider (skip) "s = [] \<or> s = ''.''" | (up) "s \<noteq> []" "s \<noteq> ''.''" "s = ''..''"
    | (keep) "s \<noteq> []" "s \<noteq> ''.''" "s \<noteq> ''..''" by blast
  then show ?case
  proof cases
    case skip
    with Cons.IH [OF Cons.prems] show ?thesis by simp
  next
    case up
    have "\<forall>x \<in> set (butlast acc). x \<noteq> ''..'' \<and> x \<noteq> []"
      using Cons.prems by (blast dest: in_set_butlastD)
    from Cons.IH [OF this] up show ?thesis by simp
  next
    case keep
    with Cons.prems have "\<forall>x \<in> set (acc @ [s]). x \<noteq> ''..'' \<and> x \<noteq> []" by auto
    from Cons.IH [OF this] keep show ?thesis by simp
  qed
qed

lemma join_path_head: "\<exists>r. join_path (s # ss) = s @ r"
  by (cases ss) auto

end
