(* ===== verification/Utc_Instant.thy ===== *)
theory Utc_Instant
  imports Plan_Text
begin

text \<open>
  Instants of plan measurements: \<open>normalizeUtcIsoInstant\<close> of parse-supervised-plan.ts. The
  proleptic Gregorian calendar behind \<open>Date\<close> is computed with days counted from 1970-01-01,
  in integers; the parser only ever sees years 1 to 9999.
\<close>

subsection \<open>The civil calendar\<close>

definition days_from_civil :: "int \<Rightarrow> int \<Rightarrow> int \<Rightarrow> int" where
  "days_from_civil y m d =
     (let y' = (if m \<le> 2 then y - 1 else y);
          era = y' div 400;
          yoe = y' - era * 400;
          mp = (m + 9) mod 12;
          doy = (153 * mp + 2) div 5 + d - 1;
          doe = yoe * 365 + yoe div 4 - yoe div 100 + doy
      in era * 146097 + doe - 719468)"

definition civil_from_days :: "int \<Rightarrow> int \<times> int \<times> int" where
  "civil_from_days days =
     (let z = days + 719468;
          era = z div 146097;
          doe = z - era * 146097;
          yoe = (doe - doe div 1460 + doe div 36524 - doe div 146096) div 365;
          doy = doe - (365 * yoe + yoe div 4 - yoe div 100);
          mp = (5 * doy + 2) div 153;
          d = doy - (153 * mp + 2) div 5 + 1;
          m = (if mp < 10 then mp + 3 else mp - 9);
          y = yoe + era * 400 + (if m \<le> 2 then 1 else 0)
      in (y, m, d))"

definition leap_year :: "int \<Rightarrow> bool" where
  "leap_year y \<longleftrightarrow> y mod 4 = 0 \<and> (y mod 100 \<noteq> 0 \<or> y mod 400 = 0)"

definition days_in_month :: "int \<Rightarrow> int \<Rightarrow> int" where
  "days_in_month y m =
     (if m = 2 then (if leap_year y then 29 else 28)
      else if m \<in> {4, 6, 9, 11} then 30 else 31)"

text \<open>
  \<open>new Date(Date.UTC(year, month, 0)).getUTCDate()\<close>: the day before the first of the next
  month. \<open>Date.UTC\<close> moves the years 0 to 99 to 1900 to 1999.
\<close>

definition last_day_of_month :: "int \<Rightarrow> int \<Rightarrow> int" where
  "last_day_of_month year month =
     days_in_month (if 0 \<le> year \<and> year \<le> 99 then 1900 + year else year) month"

subsection \<open>Reading and printing\<close>

text \<open>Exactly \<open>n\<close> decimal digits, their value and the rest of the text.\<close>

definition take_digits :: "nat \<Rightarrow> string \<Rightarrow> (int \<times> string) option" where
  "take_digits n s =
     (if length (take n s) = n \<and> list_all is_digit (take n s)
      then Some (int (text_nat (take n s)), drop n s) else None)"

definition pad_digits :: "nat \<Rightarrow> int \<Rightarrow> string" where
  "pad_digits n v =
     (let t = nat_text (nat v) in replicate (n - length t) (CHR ''0'') @ t)"

datatype zone = Zulu | Offset bool int int

fun parse_zone :: "string \<Rightarrow> zone option" where
  "parse_zone [] = None"
| "parse_zone (c # s) =
     (if c = CHR ''Z'' then (if s = [] then Some Zulu else None)
      else if c \<noteq> CHR ''+'' \<and> c \<noteq> CHR ''-'' then None
      else case take_digits 2 s of
             None \<Rightarrow> None
           | Some (hh, r1) \<Rightarrow>
          (case strip_prefix '':'' r1 of
             None \<Rightarrow> None
           | Some r2 \<Rightarrow>
          (case take_digits 2 r2 of
             None \<Rightarrow> None
           | Some (mm, r3) \<Rightarrow> if r3 = [] then Some (Offset (c = CHR ''-'') hh mm) else None)))"

record instant_fields =
  f_year :: int
  f_month :: int
  f_day :: int
  f_hour :: int
  f_minute :: int
  f_second :: int
  f_millis :: int
  f_zone :: zone

text \<open>The optional fraction of exactly three digits, 0 when there is none.\<close>

definition take_millis :: "string \<Rightarrow> (int \<times> string) option" where
  "take_millis s =
     (case strip_prefix ''.'' s of None \<Rightarrow> Some (0, s) | Some r \<Rightarrow> take_digits 3 r)"

definition after_sep :: "string \<Rightarrow> nat \<Rightarrow> string \<Rightarrow> (int \<times> string) option" where
  "after_sep sep n s = (case strip_prefix sep s of None \<Rightarrow> None | Some r \<Rightarrow> take_digits n r)"

definition parse_instant :: "string \<Rightarrow> instant_fields option" where
  "parse_instant value =
     Option.bind (take_digits 4 value) (\<lambda>(y, r1).
     Option.bind (after_sep ''-'' 2 r1) (\<lambda>(mo, r2).
     Option.bind (after_sep ''-'' 2 r2) (\<lambda>(d, r3).
     Option.bind (after_sep ''T'' 2 r3) (\<lambda>(h, r4).
     Option.bind (after_sep '':'' 2 r4) (\<lambda>(mi, r5).
     Option.bind (after_sep '':'' 2 r5) (\<lambda>(sec, r6).
     Option.bind (take_millis r6) (\<lambda>(ms, r7).
     map_option (\<lambda>z. \<lparr> f_year = y, f_month = mo, f_day = d, f_hour = h, f_minute = mi,
                       f_second = sec, f_millis = ms, f_zone = z \<rparr>)
       (parse_zone r7))))))))"

definition zone_minutes :: "zone \<Rightarrow> int" where
  "zone_minutes z =
     (case z of Zulu \<Rightarrow> 0 | Offset neg hh mm \<Rightarrow> (if neg then - (hh * 60 + mm) else hh * 60 + mm))"

definition epoch_millis :: "instant_fields \<Rightarrow> int" where
  "epoch_millis f =
     (((days_from_civil (f_year f) (f_month f) (f_day f) * 24 + f_hour f) * 60 + f_minute f
        - zone_minutes (f_zone f)) * 60 + f_second f) * 1000 + f_millis f"

text \<open>\<open>toISOString\<close>: years outside 0 to 9999 are written with a sign and six digits.\<close>

definition year_text :: "int \<Rightarrow> string" where
  "year_text y =
     (if 0 \<le> y \<and> y \<le> 9999 then pad_digits 4 y
      else (if y < 0 then ''-'' else ''+'') @ pad_digits 6 \<bar>y\<bar>)"

definition iso_seconds :: "int \<Rightarrow> string" where
  "iso_seconds ms =
     (let secs = ms div 1000; days = secs div 86400; sod = secs mod 86400;
          (y, m, d) = civil_from_days days
      in year_text y @ ''-'' @ pad_digits 2 m @ ''-'' @ pad_digits 2 d @ ''T''
           @ pad_digits 2 (sod div 3600) @ '':'' @ pad_digits 2 (sod div 60 mod 60) @ '':''
           @ pad_digits 2 (sod mod 60))"

definition toISOString :: "int \<Rightarrow> string" where
  "toISOString ms = iso_seconds ms @ ''.'' @ pad_digits 3 (ms mod 1000) @ ''Z''"

text \<open>\<open>replace('.000Z', 'Z')\<close> on a printed instant.\<close>

definition drop_zero_millis :: "int \<Rightarrow> string" where
  "drop_zero_millis ms =
     (if ms mod 1000 = 0 then iso_seconds ms @ ''Z'' else toISOString ms)"

definition instant_in_range :: "instant_fields \<Rightarrow> bool" where
  "instant_in_range f \<longleftrightarrow>
     1 \<le> f_year f \<and> 1 \<le> f_month f \<and> f_month f \<le> 12
     \<and> 1 \<le> f_day f \<and> f_day f \<le> last_day_of_month (f_year f) (f_month f)
     \<and> f_hour f \<le> 23 \<and> f_minute f \<le> 59 \<and> f_second f \<le> 59
     \<and> (case f_zone f of Zulu \<Rightarrow> True | Offset _ hh mm \<Rightarrow> hh \<le> 23 \<and> mm \<le> 59)"

definition normalizeUtcIsoInstant :: "string \<Rightarrow> string option" where
  "normalizeUtcIsoInstant value =
     (case parse_instant value of
        None \<Rightarrow> None
      | Some f \<Rightarrow>
          if \<not> instant_in_range f then None
          else let ms = epoch_millis f in
               case f_zone f of
                 Zulu \<Rightarrow>
                   (if value = toISOString ms \<or> value = drop_zero_millis ms then Some value
                    else None)
               | Offset _ _ _ \<Rightarrow> Some (drop_zero_millis ms))"

text \<open>The result names the instant of the value: what an accepted Zulu text prints back.\<close>

lemma normalized_zulu:
  assumes "normalizeUtcIsoInstant value = Some w" and "parse_instant value = Some f"
    and "f_zone f = Zulu"
  shows "w = value \<and> (value = toISOString (epoch_millis f) \<or> value = drop_zero_millis (epoch_millis f))"
  using assms by (auto simp: normalizeUtcIsoInstant_def Let_def split: if_splits)

end
