(* ===== verification/Plan_Parser.thy ===== *)
theory Plan_Parser
  imports Utc_Instant
begin

text \<open>
  The semantic layer of the plan parser: the model policy of a milestone
  (parse-model-policy.ts), the construction of steps with their descriptions and measurements,
  the suspension and work-in-progress rules, the current step, and \<open>parseSupervisedPlan\<close>
  itself (parse-supervised-plan.ts). A thrown \<open>INVALID_MODEL_POLICY\<close> is \<open>None\<close>.
\<close>

subsection \<open>Model policy\<close>

definition required_keys :: "string list" where
  "required_keys = [''MODEL'', ''REASONING_EFFORT'', ''MODEL_RATIONALE'', ''MODEL_FALLBACKS'',
     ''MODEL_ESCALATION_TRIGGER'']"

definition exception_keys :: "string list" where
  "exception_keys = [''EFFORT_NECESSITY_KIND'', ''EFFORT_NECESSITY'', ''EFFORT_EVIDENCE'',
     ''EFFORT_SCOPE'', ''RETURN_TO_MEDIUM'', ''SCOPE_REASSESSMENT'']"

definition has_text :: "(string \<rightharpoonup> string) \<Rightarrow> string \<Rightarrow> bool" where
  "has_text props k \<longleftrightarrow> (case props k of None \<Rightarrow> False | Some v \<Rightarrow> js_trim v \<noteq> [])"

definition prop_text :: "(string \<rightharpoonup> string) \<Rightarrow> string \<Rightarrow> string" where
  "prop_text props k = coalesce (props k) []"

definition necessity_kinds :: "string list" where
  "necessity_kinds = [''unresolved-correctness'', ''specific-reasoning'']"

definition split_fallbacks :: "string \<Rightarrow> string list" where
  "split_fallbacks raw = (if raw = ''none'' then [] else split_on (CHR '' '') raw)"

text \<open>The effort exception: forbidden for medium effort, complete when any of it is given.\<close>

definition parse_necessity :: "(string \<rightharpoonup> string) \<Rightarrow> string \<Rightarrow> policy_necessity option option" where
  "parse_necessity props effort =
     (let given = (\<exists>k \<in> set exception_keys. props k \<noteq> None) in
      if effort = ''medium'' then (if given then None else Some None)
      else if \<not> given then Some None
      else if (\<exists>k \<in> set (take 5 exception_keys). \<not> has_text props k)
              \<or> prop_text props ''EFFORT_NECESSITY_KIND'' \<notin> set necessity_kinds
              \<or> (effort = ''xhigh'' \<and> \<not> has_text props ''SCOPE_REASSESSMENT'')
           then None
      else Some (Some \<lparr> nec_kind = prop_text props ''EFFORT_NECESSITY_KIND'',
                        nec_why = prop_text props ''EFFORT_NECESSITY'',
                        nec_evidence = prop_text props ''EFFORT_EVIDENCE'',
                        nec_scope = prop_text props ''EFFORT_SCOPE'',
                        nec_return = prop_text props ''RETURN_TO_MEDIUM'',
                        nec_reassessment = props ''SCOPE_REASSESSMENT'' \<rparr>))"

definition declared_keys :: "(string \<rightharpoonup> string) \<Rightarrow> string list" where
  "declared_keys props = filter (\<lambda>k. props k \<noteq> None) (required_keys @ exception_keys)"

text \<open>\<open>parseModelPolicy\<close>: \<open>None\<close> is the throw, \<open>Some None\<close> is \<open>undefined\<close>.\<close>

definition parseModelPolicy ::
  "(string \<rightharpoonup> string) \<Rightarrow> plan_level \<Rightarrow> nat option \<Rightarrow> model_policy option option" where
  "parseModelPolicy props level version =
     (let declared = declared_keys props;
          model = prop_text props ''MODEL'';
          effort = prop_text props ''REASONING_EFFORT'';
          fallbacks = split_fallbacks (prop_text props ''MODEL_FALLBACKS'')
      in if props ''MODEL_POLICY_VERSION'' \<noteq> None \<or> props ''MODEL_POLICY_ASSURANCE'' \<noteq> None
           then None
         else if declared \<noteq> [] \<and> (level = Lvl2 \<or> version = None) then None
         else if version = None \<or> level = Lvl2 then Some None
         else if \<exists>k \<in> set required_keys. \<not> has_text props k then None
         else if \<exists>k \<in> set declared. \<not> has_text props k \<or> utf8_length (prop_text props k) > 1024
           then None
         else if \<not> validPlanModel model \<or> \<not> validPlanEffort effort then None
         else if (\<exists>m \<in> set fallbacks. \<not> validPlanModel m \<or> m = model) \<or> \<not> distinct fallbacks
           then None
         else case parse_necessity props effort of
                None \<Rightarrow> None
              | Some nec \<Rightarrow>
                  Some (Some \<lparr> mp_model = model, mp_effort = effort,
                               mp_rationale = prop_text props ''MODEL_RATIONALE'',
                               mp_fallbacks = fallbacks,
                               mp_trigger = prop_text props ''MODEL_ESCALATION_TRIGGER'',
                               mp_necessity = nec \<rparr>))"

subsection \<open>Steps\<close>

definition measurementProperties :: "(string \<times> string) list" where
  "measurementProperties =
     [(''STARTED_AT'', ''startedAt''), (''UPDATED_AT'', ''updatedAt''),
      (''COMPLETED_AT'', ''completedAt''), (''ELAPSED_SECONDS'', ''elapsedSeconds''),
      (''WEEKLY_REMAINING_START'', ''weeklyRemainingStart''),
      (''WEEKLY_REMAINING_CURRENT'', ''weeklyRemainingCurrent''),
      (''WEEKLY_REMAINING_END'', ''weeklyRemainingEnd''),
      (''WEEKLY_PERCENT_USED'', ''weeklyPercentUsed''),
      (''TOKENS_START'', ''tokensStart''), (''TOKENS_CURRENT'', ''tokensCurrent''),
      (''TOKENS_END'', ''tokensEnd''), (''TOKENS_USED'', ''tokensUsed'')]"

definition ends_with :: "string \<Rightarrow> string \<Rightarrow> bool" where
  "ends_with p s = starts_with (rev p) (rev s)"

definition measure_of :: "string \<Rightarrow> string \<Rightarrow> measure_value option" where
  "measure_of property value =
     (if ends_with ''_AT'' property then map_option MInstant (normalizeUtcIsoInstant value)
      else if value = [] \<or> \<not> list_all is_digit value then None
      else if int (text_nat value) > max_safe
              \<or> (starts_with ''WEEKLY_'' property \<and> text_nat value > 100) then None
      else Some (MCount (text_nat value)))"

text \<open>\<open>None\<close> is the rejected measurement (null); an absent property is skipped.\<close>

fun read_measurements ::
  "(string \<times> string) list \<Rightarrow> (string \<rightharpoonup> string) \<Rightarrow> (string \<times> measure_value) list option" where
  "read_measurements [] props = Some []"
| "read_measurements ((property, field) # rest) props =
     (case props property of
        None \<Rightarrow> read_measurements rest props
      | Some value \<Rightarrow>
          (case measure_of property value of
             None \<Rightarrow> None
           | Some m \<Rightarrow> map_option ((#) (field, m)) (read_measurements rest props)))"

definition measurementFor :: "heading \<Rightarrow> (string \<times> measure_value) list option option" where
  "measurementFor h =
     map_option (\<lambda>ms. if ms = [] then None else Some ms)
       (read_measurements measurementProperties (h_props h))"

definition description_fields :: "plan_level \<Rightarrow> string list" where
  "description_fields level =
     (case level of Lvl1 \<Rightarrow> [''Effort'', ''Goal'', ''Notes'']
                  | Lvl2 \<Rightarrow> [''Why'', ''Change'', ''Tests'', ''Done when''])"

definition descriptionFor :: "heading \<Rightarrow> string list option" where
  "descriptionFor h =
     (let fields = description_fields (h_level h) in
      if list_all (\<lambda>f. h_descs h f \<noteq> None) fields
      then Some (map (\<lambda>f. prop_text (h_descs h) f) fields) else None)"

fun split_spaces :: "string \<Rightarrow> string list" where
  "split_spaces [] = [[]]"
| "split_spaces (x # xs) =
     (if js_space x then [] # split_spaces xs
      else case split_spaces xs of [] \<Rightarrow> [[x]] | y # ys \<Rightarrow> (x # y) # ys)"

text \<open>\<open>skills.split(/\s+/).filter(Boolean)\<close>.\<close>

definition skill_words :: "string \<Rightarrow> string list" where
  "skill_words s = filter truthy (split_spaces s)"

definition parse_review :: "string option \<Rightarrow> review_status option" where
  "parse_review v =
     (if v = Some ''UNREVIEWED'' then Some UNREVIEWED
      else if v = Some ''REVIEWED'' then Some REVIEWED else None)"

definition managed_refused :: "heading \<Rightarrow> bool" where
  "managed_refused h \<longleftrightarrow>
     (case h_descs h ''Managed MCP'' of
        None \<Rightarrow> False | Some m \<Rightarrow> h_level h \<noteq> Lvl1 \<or> m \<noteq> ''playwright'')"

definition make_step :: "heading \<Rightarrow> model_policy option \<Rightarrow> plan_step option" where
  "make_step h policy =
     (case (descriptionFor h, measurementFor h) of
        (Some d, Some ms) \<Rightarrow>
          if managed_refused h then None
          else (case (parse_review (h_props h ''REVIEW_STATUS''), h_props h ''SKILLS'') of
                  (Some r, Some skills) \<Rightarrow>
                    Some \<lparr> step_id = h_id h, step_title = h_title h, step_state = h_state h,
                           step_priority = h_priority h, step_review = Some r,
                           step_skills = skill_words skills,
                           step_playwright = (h_descs h ''Managed MCP'' = Some ''playwright''),
                           step_description = d, step_measurement = ms, step_policy = policy,
                           step_children = [] \<rparr>
                | _ \<Rightarrow> None)
      | _ \<Rightarrow> None)"

definition make_child :: "heading \<Rightarrow> plan_child option" where
  "make_child h =
     (case (descriptionFor h, measurementFor h) of
        (Some d, Some ms) \<Rightarrow>
          if managed_refused h \<or> h_props h ''REVIEW_STATUS'' \<noteq> None
             \<or> h_props h ''SKILLS'' \<noteq> None
          then None
          else Some \<lparr> child_id = h_id h, child_title = h_title h, child_state = h_state h,
                      child_priority = h_priority h, child_description = d,
                      child_measurement = ms \<rparr>
      | _ \<Rightarrow> None)"

definition push_child :: "plan_step list \<Rightarrow> plan_child \<Rightarrow> plan_step list" where
  "push_child parents c =
     butlast parents @ [(last parents)\<lparr>step_children := step_children (last parents) @ [c]\<rparr>]"

text \<open>\<open>buildSteps\<close>: a level 2 heading is pushed onto the last parent; none is a failure.\<close>

fun build_steps ::
  "(string \<rightharpoonup> model_policy option) \<Rightarrow> plan_step list \<Rightarrow> heading list \<Rightarrow> plan_step list option" where
  "build_steps policies parents [] = Some parents"
| "build_steps policies parents (h # hs) =
     (if h_level h = Lvl1 then
        (case make_step h (coalesce (policies (h_id h)) None) of
           None \<Rightarrow> None
         | Some s \<Rightarrow> build_steps policies (parents @ [s]) hs)
      else if parents = [] then None
      else (case make_child h of
              None \<Rightarrow> None
            | Some c \<Rightarrow> build_steps policies (push_child parents c) hs))"

subsection \<open>Suspension\<close>

text \<open>
  \<open>hasValidSuspension\<close>: \<open>k\<close> counts the level 1 headings seen, so the parent of a level 2 heading
  and the position of a level 1 heading among the parents are \<open>k - 1\<close> and \<open>k\<close>; \<open>paused\<close> holds the
  positions in \<open>pausedChildren\<close>.
\<close>

definition level1 :: "heading list \<Rightarrow> heading list" where
  "level1 hs = filter (\<lambda>h. h_level h = Lvl1) hs"

definition parent_dependency_ok :: "heading list \<Rightarrow> nat \<Rightarrow> heading \<Rightarrow> bool" where
  "parent_dependency_ok parents k h =
     (if h_state h = SUSPENDED then
        (case find_index (\<lambda>c. Some (h_id c) = h_props h ''SUSPENDED_FOR'') parents of
           None \<Rightarrow> False
         | Some i \<Rightarrow> i < k \<and> h_props h ''REVIEW_STATUS'' = Some ''UNREVIEWED'')
      else h_props h ''SUSPENDED_FOR'' = None)"

definition child_state_ok :: "nat list \<Rightarrow> nat \<Rightarrow> heading \<Rightarrow> heading \<Rightarrow> bool" where
  "child_state_ok paused k parent h \<longleftrightarrow>
     h_props h ''SUSPENDED_FOR'' = None
     \<and> \<not> (h_state h = SUSPENDED \<and> h_state parent \<noteq> SUSPENDED)
     \<and> \<not> (h_state h = SUSPENDED \<and> k - 1 \<in> set paused)
     \<and> \<not> (h_state parent = SUSPENDED \<and> h_state h = WIP)
     \<and> \<not> (h_state parent = DONE \<and> h_state h \<noteq> DONE)
     \<and> \<not> (h_state parent = TODO \<and> h_state h \<noteq> TODO)"

fun suspension_loop ::
  "heading list \<Rightarrow> nat \<Rightarrow> heading option \<Rightarrow> nat list \<Rightarrow> heading list \<Rightarrow> bool" where
  "suspension_loop parents k parent paused [] = True"
| "suspension_loop parents k parent paused (h # hs) =
     (if h_level h = Lvl1 then
        parent_dependency_ok parents k h \<and> suspension_loop parents (Suc k) (Some h) paused hs
      else case parent of
             None \<Rightarrow> False
           | Some p \<Rightarrow>
               child_state_ok paused k p h
               \<and> suspension_loop parents k parent
                   (if h_state h = SUSPENDED then (k - 1) # paused else paused) hs)"

fun linked_stack :: "heading list \<Rightarrow> bool" where
  "linked_stack (a # b # rest) =
     (h_props b ''SUSPENDED_FOR'' = Some (h_id a) \<and> linked_stack (b # rest))"
| "linked_stack _ = True"

definition hasValidSuspension :: "heading list \<Rightarrow> bool" where
  "hasValidSuspension headings =
     (let parents = level1 headings;
          suspended = filter (\<lambda>h. h_state h = SUSPENDED) parents
      in suspension_loop parents 0 None [] headings
         \<and> linked_stack suspended
         \<and> (case find_index (\<lambda>h. h_state h = SUSPENDED) parents of
              None \<Rightarrow> True
            | Some b \<Rightarrow> \<not> (\<exists>h \<in> set (drop b parents). h_state h = WIP)))"

subsection \<open>Work in progress and the current step\<close>

definition wip_at :: "plan_level \<Rightarrow> heading list \<Rightarrow> heading list" where
  "wip_at level hs = filter (\<lambda>h. h_state h = WIP \<and> h_level h = level) hs"

text \<open>The walk back from the level 2 step in progress to its parent.\<close>

definition parent_in_progress :: "heading list \<Rightarrow> bool" where
  "parent_in_progress before_reversed =
     (case List.find (\<lambda>h. h_level h = Lvl1) before_reversed of
        None \<Rightarrow> False | Some p \<Rightarrow> h_state p = WIP)"

definition hasValidWipPath :: "heading list \<Rightarrow> bool" where
  "hasValidWipPath hs =
     (if length (wip_at Lvl1 hs) > 1 \<or> length (wip_at Lvl2 hs) > 1 then False
      else case find_index (\<lambda>h. h_state h = WIP \<and> h_level h = Lvl2) hs of
             None \<Rightarrow> True
           | Some i \<Rightarrow> parent_in_progress (rev (take i hs)))"

text \<open>
  \<open>findCurrentStepId\<close>: work in progress, deepest level first; then a finished milestone that
  waits for review; then the first open step before the suspended barrier; then the barrier;
  then, when all is done, the last milestone.
\<close>

definition first_wip :: "heading list \<Rightarrow> heading option" where
  "first_wip hs =
     opt_or (List.find (\<lambda>h. h_state h = WIP \<and> h_level h = Lvl2) hs)
            (List.find (\<lambda>h. h_state h = WIP \<and> h_level h = Lvl1) hs)"

definition suspended_index :: "heading list \<Rightarrow> nat option" where
  "suspended_index hs = find_index (\<lambda>h. h_level h = Lvl1 \<and> h_state h = SUSPENDED) hs"

definition first_todo :: "heading list \<Rightarrow> heading option" where
  "first_todo hs =
     List.find (\<lambda>h. h_state h = TODO)
       (case suspended_index hs of None \<Rightarrow> hs | Some b \<Rightarrow> take b hs)"

definition findCurrentStep :: "heading list \<Rightarrow> bool \<Rightarrow> heading option" where
  "findCurrentStep hs allDone =
     opt_or (first_wip hs)
    (opt_or (List.find (\<lambda>h. h_level h = Lvl1 \<and> h_state h = DONE
                          \<and> h_props h ''REVIEW_STATUS'' = Some ''UNREVIEWED'') hs)
    (opt_or (first_todo hs)
    (opt_or (List.find (\<lambda>h. h_level h = Lvl1 \<and> h_state h = SUSPENDED) hs)
            (if allDone then last_opt (level1 hs) else None))))"

subsection \<open>The projection\<close>

text \<open>Case-insensitive metadata declarations, with their line numbers.\<close>

definition upper_char :: "char \<Rightarrow> char" where
  "upper_char c = (if is_lower c then char_of (code c - 32) else c)"

definition declarations :: "string \<Rightarrow> string list \<Rightarrow> (nat \<times> string) list" where
  "declarations marker ls =
     filter (\<lambda>(i, l). starts_with marker (map upper_char l)) (enumerate 0 ls)"

definition before_first_heading :: "string list \<Rightarrow> nat \<Rightarrow> bool" where
  "before_first_heading ls i =
     (case find_index (starts_with ''*'') ls of None \<Rightarrow> False | Some f \<Rightarrow> i < f)"

text \<open>The declared policy version: \<open>None\<close> is \<open>INVALID_MODEL_POLICY\<close>.\<close>

definition policy_version :: "string list \<Rightarrow> nat option option" where
  "policy_version ls =
     (case declarations ''#+MODEL_POLICY_VERSION:'' ls of
        [] \<Rightarrow> Some None
      | [(i, l)] \<Rightarrow>
          (if l = ''#+MODEL_POLICY_VERSION: 1'' \<and> before_first_heading ls i
           then Some (Some 1) else None)
      | _ \<Rightarrow> None)"

definition policy_assurance :: "nat option \<Rightarrow> string list \<Rightarrow> assurance option option" where
  "policy_assurance version ls =
     (case declarations ''#+MODEL_POLICY_ASSURANCE:'' ls of
        [] \<Rightarrow> Some None
      | [(i, l)] \<Rightarrow>
          (if version = None \<or> \<not> before_first_heading ls i then None
           else if l = ''#+MODEL_POLICY_ASSURANCE: configured'' then Some (Some Configured)
           else if l = ''#+MODEL_POLICY_ASSURANCE: runtime-attested'' then Some (Some RuntimeAttested)
           else None)
      | _ \<Rightarrow> None)"

text \<open>The policies of all headings, in order; \<open>None\<close> when one of them throws.\<close>

fun read_policies ::
  "nat option \<Rightarrow> heading list \<Rightarrow> (string \<times> model_policy option) list option" where
  "read_policies version [] = Some []"
| "read_policies version (h # hs) =
     (case parseModelPolicy (h_props h) (h_level h) version of
        None \<Rightarrow> None
      | Some p \<Rightarrow> map_option ((#) (h_id h, p)) (read_policies version hs))"

definition all_done :: "heading list \<Rightarrow> bool" where
  "all_done hs = list_all (\<lambda>h. h_state h = DONE) hs"

definition assemble_plan ::
  "(string \<rightharpoonup> string) \<Rightarrow> string \<Rightarrow> nat option \<Rightarrow> assurance option \<Rightarrow> heading list
     \<Rightarrow> plan_step list \<Rightarrow> string \<Rightarrow> supervised_plan" where
  "assemble_plan metadata title version assur headings built current =
     \<lparr> plan_title = title, plan_subtitle = metadata ''SUBTITLE'', plan_date = metadata ''DATE'',
       plan_keywords = metadata ''KEYWORDS'', plan_policy_version = version,
       plan_assurance = assur, plan_steps = built, plan_total = length headings,
       plan_done = length (filter (\<lambda>h. h_state h = DONE) headings),
       plan_all_done = all_done headings,
       plan_execution_complete = Some (list_all step_complete built),
       plan_current = current \<rparr>"

text \<open>The checks after the scan, in the order of the source.\<close>

definition project_headings ::
  "nat option \<Rightarrow> assurance option \<Rightarrow> (string \<rightharpoonup> string) \<Rightarrow> heading list
     \<Rightarrow> plan_unavailable + supervised_plan" where
  "project_headings version assur metadata headings =
     (if \<not> truthy_opt (metadata ''TITLE'') then Inl MISSING_TITLE
      else if headings = [] then Inl MALFORMED_ORG
      else if \<not> distinct (map h_id headings) then Inl DUPLICATE_ID
      else case read_policies version headings of
        None \<Rightarrow> Inl INVALID_MODEL_POLICY
      | Some policies \<Rightarrow>
          if \<not> hasValidSuspension headings then Inl MALFORMED_ORG
          else if \<not> hasValidWipPath headings then Inl MULTIPLE_WIP
          else (case build_steps (map_of policies) [] headings of
             None \<Rightarrow> Inl MISSING_REQUIRED_FIELD
           | Some built \<Rightarrow>
               (case findCurrentStep headings (all_done headings) of
                  None \<Rightarrow> Inl MALFORMED_ORG
                | Some current \<Rightarrow>
                    Inr (assemble_plan metadata (the (metadata ''TITLE'')) version assur headings
                           built (h_id current)))))"

definition parseSupervisedPlan ::
  "string \<Rightarrow> string \<Rightarrow> string \<Rightarrow> plan_unavailable + supervised_plan" where
  "parseSupervisedPlan source planPath workspacePath =
     (if \<not> isPlanPathWithinWorkspace planPath workspacePath then Inl PATH_OUTSIDE_WORKSPACE
      else let ls = source_lines source in
           case policy_version ls of
             None \<Rightarrow> Inl INVALID_MODEL_POLICY
           | Some version \<Rightarrow>
          (case policy_assurance version ls of
             None \<Rightarrow> Inl INVALID_MODEL_POLICY
           | Some assur \<Rightarrow>
          (case scan_lines ls Map.empty [] of
             Inl e \<Rightarrow> Inl e
           | Inr (metadata, headings) \<Rightarrow> project_headings version assur metadata headings)))"

end
