(* ===== verification/Plan_Facts.thy ===== *)
theory Plan_Facts
  imports Plan_Parser
begin

text \<open>
  What an available plan guarantees to its consumers: its rows are the headings of the file in
  order, identifiers are unique, counts and completion agree with the rows, the current step
  is a row, at most one step per level is in progress and its parent is too, and a suspended
  milestone is a barrier no work crosses.
\<close>

subsection \<open>Rows of a plan\<close>

record plan_row =
  row_level :: plan_level
  row_id :: string
  row_title :: string
  row_state :: todo_state
  row_priority :: plan_priority

definition heading_row :: "heading \<Rightarrow> plan_row" where
  "heading_row h = \<lparr> row_level = h_level h, row_id = h_id h, row_title = h_title h,
     row_state = h_state h, row_priority = h_priority h \<rparr>"

lemma heading_row_simps [simp]:
  "row_level (heading_row h) = h_level h" "row_id (heading_row h) = h_id h"
  "row_title (heading_row h) = h_title h" "row_state (heading_row h) = h_state h"
  by (simp_all add: heading_row_def)

definition child_row :: "plan_child \<Rightarrow> plan_row" where
  "child_row c = \<lparr> row_level = Lvl2, row_id = child_id c, row_title = child_title c,
     row_state = child_state c, row_priority = child_priority c \<rparr>"

definition step_row :: "plan_step \<Rightarrow> plan_row" where
  "step_row s = \<lparr> row_level = Lvl1, row_id = step_id s, row_title = step_title s,
     row_state = step_state s, row_priority = step_priority s \<rparr>"

definition step_rows :: "plan_step \<Rightarrow> plan_row list" where
  "step_rows s = step_row s # map child_row (step_children s)"

definition plan_rows :: "plan_step list \<Rightarrow> plan_row list" where
  "plan_rows steps = concat (map step_rows steps)"

lemma plan_rows_simps [simp]:
  "plan_rows [] = []"
  "plan_rows (s # ss) = step_rows s @ plan_rows ss"
  "plan_rows (ss @ ts) = plan_rows ss @ plan_rows ts"
  by (simp_all add: plan_rows_def)

lemma make_step_row: "make_step h p = Some s \<Longrightarrow> h_level h = Lvl1 \<Longrightarrow> step_rows s = [heading_row h]"
  by (auto simp: make_step_def step_rows_def step_row_def heading_row_def
           split: option.splits if_splits)

lemma make_child_row: "make_child h = Some c \<Longrightarrow> h_level h = Lvl2 \<Longrightarrow> child_row c = heading_row h"
  by (auto simp: make_child_def child_row_def heading_row_def split: option.splits if_splits)

lemma push_child_rows:
  assumes "parents \<noteq> []"
  shows "plan_rows (push_child parents c) = plan_rows parents @ [child_row c]"
proof -
  from assms obtain ps p where "parents = ps @ [p]" by (metis append_butlast_last_id)
  then show ?thesis by (simp add: push_child_def step_rows_def step_row_def)
qed

lemma build_steps_rows:
  "build_steps policies parents hs = Some built \<Longrightarrow>
     plan_rows built = plan_rows parents @ map heading_row hs"
proof (induction hs arbitrary: parents)
  case Nil
  then show ?case by simp
next
  case (Cons h hs)
  show ?case
  proof (cases "h_level h")
    case Lvl1
    with Cons.prems obtain s where s: "make_step h (coalesce (policies (h_id h)) None) = Some s"
      and rest: "build_steps policies (parents @ [s]) hs = Some built"
      by (auto split: option.splits)
    show ?thesis using Cons.IH [OF rest] make_step_row [OF s Lvl1] by simp
  next
    case Lvl2
    with Cons.prems obtain c where c: "make_child h = Some c" and "parents \<noteq> []"
      and rest: "build_steps policies (push_child parents c) hs = Some built"
      by (auto split: option.splits if_splits)
    show ?thesis using Cons.IH [OF rest] make_child_row [OF c Lvl2] push_child_rows [OF \<open>parents \<noteq> []\<close>]
      by simp
  qed
qed

lemma build_steps_level1:
  assumes "build_steps policies [] hs = Some built"
  shows "map step_row built = map heading_row (level1 hs)"
proof -
  have "map step_row steps = filter (\<lambda>r. row_level r = Lvl1) (plan_rows steps)" for steps
    by (induction steps) (auto simp: step_rows_def step_row_def child_row_def filter_empty_conv)
  then have "map step_row built = filter (\<lambda>r. row_level r = Lvl1) (map heading_row hs)"
    using build_steps_rows [OF assms] by simp
  also have "\<dots> = map heading_row (level1 hs)"
    by (simp add: level1_def filter_map heading_row_def o_def)
  finally show ?thesis .
qed

lemma step_complete_rows: "step_complete s \<Longrightarrow> \<forall>r \<in> set (step_rows s). row_state r = DONE"
  by (auto simp: step_complete_def step_rows_def step_row_def child_row_def list_all_iff)

lemma steps_complete_rows:
  "list_all step_complete steps \<Longrightarrow> \<forall>r \<in> set (plan_rows steps). row_state r = DONE"
  by (induction steps) (auto dest: step_complete_rows)

subsection \<open>Inversion of the parser\<close>

lemma project_headings_Inr:
  assumes "project_headings version assur metadata headings = Inr plan"
  shows "\<exists>built current policies.
     headings \<noteq> [] \<and> distinct (map h_id headings)
     \<and> read_policies version headings = Some policies
     \<and> hasValidSuspension headings \<and> hasValidWipPath headings
     \<and> build_steps (map_of policies) [] headings = Some built
     \<and> findCurrentStep headings (all_done headings) = Some current
     \<and> plan = assemble_plan metadata (the (metadata ''TITLE'')) version assur headings built
                (h_id current)"
  using assms by (auto simp: project_headings_def split: if_splits option.splits)

lemma parse_Inr:
  assumes "parseSupervisedPlan source planPath workspacePath = Inr plan"
  shows "\<exists>version assur metadata headings.
     scan_lines (source_lines source) Map.empty [] = Inr (metadata, headings)
     \<and> project_headings version assur metadata headings = Inr plan"
proof -
  have within: "isPlanPathWithinWorkspace planPath workspacePath"
    using assms by (auto simp: parseSupervisedPlan_def split: if_splits)
  with assms obtain version assur
    where "(case scan_lines (source_lines source) Map.empty [] of
             Inl e \<Rightarrow> Inl e
           | Inr (metadata, headings) \<Rightarrow> project_headings version assur metadata headings) = Inr plan"
    by (auto simp: parseSupervisedPlan_def Let_def split: option.splits)
  then show ?thesis by (auto split: sum.splits)
qed

subsection \<open>The current step\<close>

lemma find_in_set: "List.find P xs = Some x \<Longrightarrow> x \<in> set xs \<and> P x"
  by (induction xs) (auto split: if_splits)

lemma opt_or_Some: "opt_or a b = Some x \<longleftrightarrow> a = Some x \<or> (a = None \<and> b = Some x)"
  by (cases a) auto

lemma first_todo_in: "first_todo hs = Some h \<Longrightarrow> h \<in> set hs \<and> h_state h = TODO"
  by (auto simp: first_todo_def split: option.splits dest!: find_in_set in_set_takeD)

lemma findCurrentStep_in: "findCurrentStep hs d = Some h \<Longrightarrow> h \<in> set hs"
  by (auto simp: findCurrentStep_def first_wip_def opt_or_Some level1_def last_opt_eq
           split: if_splits dest!: find_in_set first_todo_in)
     (metis filter_is_subset last_in_set subsetD)

lemma wip_at_unique:
  assumes "length (wip_at level hs) \<le> 1"
    and "h \<in> set hs" "h' \<in> set hs" "h_state h = WIP" "h_state h' = WIP"
    and "h_level h = level" "h_level h' = level"
  shows "h = h'"
proof -
  have "h \<in> set (wip_at level hs)" and "h' \<in> set (wip_at level hs)"
    using assms by (simp_all add: wip_at_def)
  with assms(1) show ?thesis by (cases "wip_at level hs") auto
qed

text \<open>The parent of a heading is the last level 1 heading before it.\<close>

definition parent_of :: "heading list \<Rightarrow> nat \<Rightarrow> heading option" where
  "parent_of hs i = last_opt (level1 (take i hs))"

lemma find_rev_last: "List.find P (rev xs) = last_opt (filter P xs)"
  by (induction xs rule: rev_induct) (simp_all add: last_opt_eq)

lemma parent_in_progress_parent_of:
  "parent_in_progress (rev (take i hs)) =
     (case parent_of hs i of None \<Rightarrow> False | Some p \<Rightarrow> h_state p = WIP)"
  by (simp add: parent_in_progress_def find_rev_last parent_of_def level1_def)

lemma valid_wip_path_parent:
  assumes "hasValidWipPath hs" and "i < length hs"
    and "h_state (hs ! i) = WIP" and "h_level (hs ! i) = Lvl2"
  shows "\<exists>p. parent_of hs i = Some p \<and> h_state p = WIP"
proof -
  let ?P = "\<lambda>h. h_state h = WIP \<and> h_level h = Lvl2"
  have one: "length (filter ?P hs) \<le> 1"
    using assms(1) by (auto simp: hasValidWipPath_def wip_at_def split: if_splits)
  from assms obtain j where j: "find_index ?P hs = Some j"
    by (cases "find_index ?P hs") (auto simp: find_index_None)
  have "j = i"
  proof (rule ccontr)
    assume "j \<noteq> i"
    moreover have "{i, j} \<subseteq> {k. k < length hs \<and> ?P (hs ! k)}"
      using j assms by (auto simp: find_index_Some)
    moreover have "card {k. k < length hs \<and> ?P (hs ! k)} \<le> 1"
      using one by (simp add: length_filter_conv_card)
    ultimately show False
      using card_mono [of "{k. k < length hs \<and> ?P (hs ! k)}" "{i, j}"] by simp
  qed
  with j assms(1) have "parent_in_progress (rev (take i hs))"
    by (auto simp: hasValidWipPath_def split: if_splits)
  then show ?thesis by (auto simp: parent_in_progress_parent_of split: option.splits)
qed

subsection \<open>Suspension\<close>

definition has_suspended_child :: "plan_step \<Rightarrow> bool" where
  "has_suspended_child s \<longleftrightarrow> (\<exists>c \<in> set (step_children s). child_state c = SUSPENDED)"

text \<open>What the states of a milestone and of its children may be together.\<close>

definition child_follows :: "todo_state \<Rightarrow> todo_state \<Rightarrow> bool" where
  "child_follows parent c \<longleftrightarrow>
     (parent = TODO \<longrightarrow> c = TODO) \<and> (parent = DONE \<longrightarrow> c = DONE)
     \<and> (parent = SUSPENDED \<longrightarrow> c \<noteq> WIP) \<and> (c = SUSPENDED \<longrightarrow> parent = SUSPENDED)"

definition children_ok :: "plan_step \<Rightarrow> bool" where
  "children_ok s \<longleftrightarrow>
     list_all (\<lambda>c. child_follows (step_state s) (child_state c)) (step_children s)
     \<and> length (filter (\<lambda>c. child_state c = SUSPENDED) (step_children s)) \<le> 1"

lemma make_step_state:
  "make_step h p = Some s \<Longrightarrow> step_state s = h_state h \<and> step_children s = []"
  by (auto simp: make_step_def split: option.splits if_splits)

lemma make_child_state: "make_child h = Some c \<Longrightarrow> child_state c = h_state h"
  by (auto simp: make_child_def split: option.splits if_splits)

lemma child_state_ok_follows:
  assumes "child_state_ok paused k p h"
  shows "child_follows (h_state p) (h_state h)"
proof -
  from assms have "\<not> (h_state h = SUSPENDED \<and> h_state p \<noteq> SUSPENDED)"
    and "\<not> (h_state p = SUSPENDED \<and> h_state h = WIP)"
    and "\<not> (h_state p = DONE \<and> h_state h \<noteq> DONE)"
    and "\<not> (h_state p = TODO \<and> h_state h \<noteq> TODO)"
    unfolding child_state_ok_def by blast+
  then show ?thesis unfolding child_follows_def by blast
qed

lemma children_ok_push:
  assumes "children_ok s" and "child_follows (step_state s) (child_state c)"
    and "child_state c = SUSPENDED \<Longrightarrow> \<not> has_suspended_child s"
  shows "children_ok (s\<lparr>step_children := step_children s @ [c]\<rparr>)"
  using assms by (auto simp: children_ok_def has_suspended_child_def filter_empty_conv)

lemma build_steps_children:
  "build_steps policies parents hs = Some built \<Longrightarrow>
   suspension_loop all (length parents) parent paused hs \<Longrightarrow>
   \<forall>s \<in> set parents. children_ok s \<Longrightarrow>
   parents \<noteq> [] \<longrightarrow> (\<exists>p. parent = Some p \<and> h_state p = step_state (last parents)) \<Longrightarrow>
   \<forall>i < length parents. has_suspended_child (parents ! i) \<longrightarrow> i \<in> set paused \<Longrightarrow>
   \<forall>s \<in> set built. children_ok s"
proof (induction hs arbitrary: parents parent paused)
  case Nil
  then show ?case by simp
next
  case (Cons h hs)
  show ?case
  proof (cases "h_level h")
    case Lvl1
    with Cons.prems(1) obtain s where s: "make_step h (coalesce (policies (h_id h)) None) = Some s"
      and rest: "build_steps policies (parents @ [s]) hs = Some built"
      by (auto split: option.splits)
    have new: "children_ok s" "\<not> has_suspended_child s"
      using make_step_state [OF s] by (simp_all add: children_ok_def has_suspended_child_def)
    show ?thesis
    proof (rule Cons.IH [OF rest])
      show "suspension_loop all (length (parents @ [s])) (Some h) paused hs"
        using Cons.prems(2) Lvl1 by simp
      show "\<forall>s \<in> set (parents @ [s]). children_ok s" using Cons.prems(3) new by simp
      show "parents @ [s] \<noteq> [] \<longrightarrow> (\<exists>p. Some h = Some p \<and> h_state p = step_state (last (parents @ [s])))"
        using make_step_state [OF s] by simp
      show "\<forall>i < length (parents @ [s]). has_suspended_child ((parents @ [s]) ! i) \<longrightarrow> i \<in> set paused"
        using Cons.prems(5) new by (auto simp: nth_append less_Suc_eq)
    qed
  next
    case Lvl2
    with Cons.prems(1) obtain c where c: "make_child h = Some c" and ne: "parents \<noteq> []"
      and rest: "build_steps policies (push_child parents c) hs = Some built"
      by (auto split: option.splits if_splits)
    from ne Cons.prems(4) obtain p where p: "parent = Some p" "h_state p = step_state (last parents)"
      by blast
    let ?paused = "if h_state h = SUSPENDED then (length parents - 1) # paused else paused"
    from Cons.prems(2) Lvl2 p have ok: "child_state_ok paused (length parents) p h"
      and loop: "suspension_loop all (length parents) parent ?paused hs" by simp_all
    from ne obtain ps q where ps: "parents = ps @ [q]" by (metis append_butlast_last_id)
    have q: "children_ok (q\<lparr>step_children := step_children q @ [c]\<rparr>)"
    proof (rule children_ok_push)
      show "children_ok q" using Cons.prems(3) ps by simp
      show "child_follows (step_state q) (child_state c)"
        using child_state_ok_follows [OF ok] p make_child_state [OF c] ps by simp
      show "\<not> has_suspended_child q" if "child_state c = SUSPENDED"
        using that ok make_child_state [OF c] Cons.prems(5) ps
        by (auto simp: child_state_ok_def)
    qed
    have push: "push_child (ps @ [q]) c = ps @ [q\<lparr>step_children := step_children q @ [c]\<rparr>]"
      by (simp add: push_child_def)
    show ?thesis
    proof (rule Cons.IH [OF rest])
      show "suspension_loop all (length (push_child parents c)) parent ?paused hs"
        using loop by (simp add: ps push)
      show "\<forall>s \<in> set (push_child parents c). children_ok s"
        using Cons.prems(3) q by (simp add: ps push)
      show "push_child parents c \<noteq> [] \<longrightarrow>
          (\<exists>p. parent = Some p \<and> h_state p = step_state (last (push_child parents c)))"
        using p by (simp add: ps push)
      show "\<forall>i < length (push_child parents c).
          has_suspended_child (push_child parents c ! i) \<longrightarrow> i \<in> set ?paused"
        using Cons.prems(5) make_child_state [OF c]
        by (auto simp: ps push nth_append less_Suc_eq has_suspended_child_def)
    qed
  qed
qed

lemma level1_states:
  assumes "build_steps policies [] hs = Some built"
  shows "map step_state built = map h_state (level1 hs)"
proof -
  have "map row_state (map step_row built) = map row_state (map heading_row (level1 hs))"
    by (simp only: build_steps_level1 [OF assms])
  then show ?thesis by (simp add: step_row_def heading_row_def o_def)
qed

lemma suspension_barrier:
  assumes "hasValidSuspension hs" and "build_steps policies [] hs = Some built"
    and "i < length built" and "step_state (built ! i) = SUSPENDED"
    and "j < length built" and "i \<le> j"
  shows "step_state (built ! j) \<noteq> WIP"
proof -
  note states = level1_states [OF assms(2)]
  have len: "length built = length (level1 hs)" using arg_cong [OF states, of length] by simp
  have st: "step_state (built ! k) = h_state (level1 hs ! k)" if "k < length built" for k
    using arg_cong [OF states, of "\<lambda>l. l ! k"] that len by simp
  from assms st len have "h_state (level1 hs ! i) = SUSPENDED" by simp
  then obtain b where b: "find_index (\<lambda>h. h_state h = SUSPENDED) (level1 hs) = Some b"
    using assms(3) len by (cases "find_index (\<lambda>h. h_state h = SUSPENDED) (level1 hs)")
      (auto simp: find_index_None)
  then have "b \<le> i" using \<open>h_state (level1 hs ! i) = SUSPENDED\<close>
    by (auto simp: find_index_Some) (meson not_le)
  moreover from assms(1) b have "\<forall>h \<in> set (drop b (level1 hs)). h_state h \<noteq> WIP"
    by (auto simp: hasValidSuspension_def Let_def)
  moreover have "level1 hs ! j \<in> set (drop b (level1 hs))"
    using \<open>b \<le> i\<close> assms(5,6) len nth_mem [of "j - b" "drop b (level1 hs)"] by simp
  ultimately show ?thesis using assms(5) st by simp
qed

subsection \<open>Model policies\<close>

text \<open>The promises of a model policy an available plan carries.\<close>

definition policy_ok :: "model_policy \<Rightarrow> bool" where
  "policy_ok p \<longleftrightarrow>
     validPlanModel (mp_model p) \<and> validPlanEffort (mp_effort p)
     \<and> list_all validPlanModel (mp_fallbacks p) \<and> distinct (mp_model p # mp_fallbacks p)
     \<and> (mp_effort p = ''medium'' \<longrightarrow> mp_necessity p = None)
     \<and> (mp_effort p = ''xhigh'' \<longrightarrow>
          (case mp_necessity p of None \<Rightarrow> True | Some n \<Rightarrow> truthy_opt (nec_reassessment n)))"

lemma has_text_truthy: "has_text props k \<Longrightarrow> truthy_opt (props k)"
  by (cases "props k") (auto simp: has_text_def js_trim_def truthy_def)

lemma parse_necessity_medium: "parse_necessity props ''medium'' = Some n \<Longrightarrow> n = None"
  by (simp add: parse_necessity_def Let_def split: if_splits)

lemma parse_necessity_xhigh:
  "parse_necessity props ''xhigh'' = Some (Some n) \<Longrightarrow> truthy_opt (nec_reassessment n)"
  unfolding parse_necessity_def Let_def
  by (simp split: if_splits) (metis has_text_truthy policy_necessity.select_convs(6))

lemma parseModelPolicy_ok:
  assumes "parseModelPolicy props level version = Some (Some p)"
  shows "policy_ok p"
proof -
  from assms obtain nec where
    nec: "parse_necessity props (prop_text props ''REASONING_EFFORT'') = Some nec"
    and p: "mp_model p = prop_text props ''MODEL''"
      "mp_effort p = prop_text props ''REASONING_EFFORT''"
      "mp_fallbacks p = split_fallbacks (prop_text props ''MODEL_FALLBACKS'')"
      "mp_necessity p = nec"
    and valid: "validPlanModel (mp_model p)" "validPlanEffort (mp_effort p)"
      "\<forall>m \<in> set (mp_fallbacks p). validPlanModel m \<and> m \<noteq> mp_model p" "distinct (mp_fallbacks p)"
    unfolding parseModelPolicy_def Let_def by (auto split: if_splits option.splits)
  show ?thesis
    unfolding policy_ok_def
  proof (intro conjI impI)
    show "list_all validPlanModel (mp_fallbacks p)" using valid(3) by (simp add: list_all_iff)
    show "distinct (mp_model p # mp_fallbacks p)" using valid(3,4) by auto
    show "mp_necessity p = None" if "mp_effort p = ''medium''"
      using parse_necessity_medium nec p that by simp
    show "case mp_necessity p of None \<Rightarrow> True | Some n \<Rightarrow> truthy_opt (nec_reassessment n)"
      if "mp_effort p = ''xhigh''"
      using parse_necessity_xhigh [of props] nec p that by (cases nec) auto
  qed (rule valid)+
qed

lemma parseModelPolicy_version:
  "parseModelPolicy props Lvl1 version = Some q \<Longrightarrow> (version = None) = (q = None)"
  unfolding parseModelPolicy_def Let_def by (auto split: if_splits option.splits)

lemma read_policies_lookup:
  "read_policies version hs = Some policies \<Longrightarrow> distinct (map h_id hs) \<Longrightarrow> h \<in> set hs \<Longrightarrow>
     \<exists>q. map_of policies (h_id h) = Some q
         \<and> parseModelPolicy (h_props h) (h_level h) version = Some q"
proof (induction hs arbitrary: policies)
  case Nil
  then show ?case by simp
next
  case (Cons g hs)
  then obtain q rest where q: "parseModelPolicy (h_props g) (h_level g) version = Some q"
    and rest: "read_policies version hs = Some rest" and policies: "policies = (h_id g, q) # rest"
    by (auto split: option.splits)
  show ?case
  proof (cases "h = g")
    case True
    with q policies show ?thesis by simp
  next
    case False
    with Cons.prems(3) have "h \<in> set hs" by simp
    moreover from this Cons.prems(2) have "h_id h \<noteq> h_id g" by (auto simp: image_iff)
    ultimately have "h \<in> set hs" and "h_id h \<noteq> h_id g" by simp_all
    with Cons.IH [OF rest] Cons.prems(2) policies show ?thesis by simp
  qed
qed

lemma make_step_policy: "make_step h p = Some s \<Longrightarrow> step_policy s = p"
  by (auto simp: make_step_def split: option.splits if_splits)

lemma push_child_policies:
  assumes "parents \<noteq> []"
  shows "map step_policy (push_child parents c) = map step_policy parents"
proof -
  from assms obtain ps p where "parents = ps @ [p]" by (metis append_butlast_last_id)
  then show ?thesis by (simp add: push_child_def)
qed

lemma build_steps_policies:
  "build_steps policies parents hs = Some built \<Longrightarrow>
     map step_policy built
       = map step_policy parents @ map (\<lambda>h. coalesce (policies (h_id h)) None) (level1 hs)"
proof (induction hs arbitrary: parents)
  case Nil
  then show ?case by (simp add: level1_def)
next
  case (Cons h hs)
  show ?case
  proof (cases "h_level h")
    case Lvl1
    with Cons.prems obtain s where s: "make_step h (coalesce (policies (h_id h)) None) = Some s"
      and rest: "build_steps policies (parents @ [s]) hs = Some built"
      by (auto split: option.splits)
    show ?thesis using Cons.IH [OF rest] make_step_policy [OF s] Lvl1 by (simp add: level1_def)
  next
    case Lvl2
    with Cons.prems obtain c where "parents \<noteq> []"
      and rest: "build_steps policies (push_child parents c) hs = Some built"
      by (auto split: option.splits if_splits)
    show ?thesis using Cons.IH [OF rest] push_child_policies [OF \<open>parents \<noteq> []\<close>] Lvl2
      by (simp add: level1_def)
  qed
qed

lemma built_policy_source:
  assumes "read_policies version hs = Some policies" and "distinct (map h_id hs)"
    and "build_steps (map_of policies) [] hs = Some built" and "s \<in> set built"
  shows "\<exists>props. parseModelPolicy props Lvl1 version = Some (step_policy s)"
proof -
  from build_steps_policies [OF assms(3)] assms(4)
  have "step_policy s \<in> set (map (\<lambda>h. coalesce (map_of policies (h_id h)) None) (level1 hs))"
    by (metis append_Nil image_eqI list.map(1) list.set_map)
  then obtain h where h: "h \<in> set hs" "h_level h = Lvl1"
    and sp: "step_policy s = coalesce (map_of policies (h_id h)) None"
    by (auto simp: level1_def)
  from read_policies_lookup [OF assms(1,2) h(1)] obtain q
    where "map_of policies (h_id h) = Some q"
      and q: "parseModelPolicy (h_props h) Lvl1 version = Some q"
    using h(2) by auto
  with sp show ?thesis by auto
qed

lemma built_policies:
  assumes "read_policies version hs = Some policies" and "distinct (map h_id hs)"
    and "build_steps (map_of policies) [] hs = Some built" and "s \<in> set built"
  shows "(version = None) = (step_policy s = None)"
    and "step_policy s = Some p \<Longrightarrow> policy_ok p"
proof -
  from built_policy_source [OF assms] obtain props
    where q: "parseModelPolicy props Lvl1 version = Some (step_policy s)" by blast
  then show "(version = None) = (step_policy s = None)" by (rule parseModelPolicy_version)
  show "policy_ok p" if "step_policy s = Some p"
    using q unfolding that by (rule parseModelPolicy_ok)
qed

subsection \<open>Work in progress in the plan\<close>

lemma find_unique:
  assumes "x \<in> set xs" and "P x" and "\<And>y. y \<in> set xs \<Longrightarrow> P y \<Longrightarrow> y = x"
  shows "List.find P xs = Some x"
  using assms by (metis find_None_iff find_in_set not_None_eq)

lemma wip_path_unique:
  assumes "hasValidWipPath hs"
  shows "length (wip_at level hs) \<le> 1"
  using assms by (cases level) (auto simp: hasValidWipPath_def split: if_splits)

lemma current_is_wip:
  assumes "hasValidWipPath hs" and "h \<in> set hs" and "h_state h = WIP"
    and "h_level h = Lvl2 \<or> (\<forall>g \<in> set hs. h_state g = WIP \<longrightarrow> h_level g = Lvl1)"
  shows "findCurrentStep hs d = Some h"
proof -
  have unique: "g = h" if "g \<in> set hs" "h_state g = WIP" "h_level g = h_level h" for g
    using wip_at_unique [OF wip_path_unique [OF assms(1)], of g h "h_level h"] that assms by simp
  have "first_wip hs = Some h"
  proof (cases "h_level h")
    case Lvl2
    have "List.find (\<lambda>h. h_state h = WIP \<and> h_level h = Lvl2) hs = Some h"
      using assms(2,3) Lvl2 by (intro find_unique) (auto intro: unique)
    then show ?thesis by (simp add: first_wip_def)
  next
    case Lvl1
    have "List.find (\<lambda>h. h_state h = WIP \<and> h_level h = Lvl1) hs = Some h"
      using assms(2,3) Lvl1 by (intro find_unique) (auto intro: unique)
    moreover have "List.find (\<lambda>h. h_state h = WIP \<and> h_level h = Lvl2) hs = None"
      using Lvl1 assms(4) by (auto simp: find_None_iff)
    ultimately show ?thesis by (simp add: first_wip_def)
  qed
  then show ?thesis by (simp add: findCurrentStep_def)
qed

lemma step_row_in: "s \<in> set steps \<Longrightarrow> step_row s \<in> set (plan_rows steps)"
  by (auto simp: plan_rows_def step_rows_def)

lemma child_row_in:
  "s \<in> set steps \<Longrightarrow> c \<in> set (step_children s) \<Longrightarrow> child_row c \<in> set (plan_rows steps)"
  by (auto simp: plan_rows_def step_rows_def)

lemma row_heading:
  assumes "build_steps policies [] hs = Some built" and "r \<in> set (plan_rows built)"
  shows "\<exists>h \<in> set hs. r = heading_row h"
  using build_steps_rows [OF assms(1)] assms(2) by auto

lemma level2_row_child:
  "r \<in> set (plan_rows steps) \<Longrightarrow> row_level r = Lvl2 \<Longrightarrow>
     \<exists>s \<in> set steps. \<exists>c \<in> set (step_children s). r = child_row c"
  by (auto simp: plan_rows_def step_rows_def step_row_def)

lemma loop_children_ok:
  assumes "hasValidSuspension hs" and "build_steps policies [] hs = Some built"
  shows "\<forall>s \<in> set built. children_ok s"
proof (rule build_steps_children [OF assms(2)])
  show "suspension_loop (level1 hs) (length ([] :: plan_step list)) None [] hs"
    using assms(1) by (simp add: hasValidSuspension_def Let_def)
qed simp_all

lemma wip_child_step:
  "children_ok s \<Longrightarrow> c \<in> set (step_children s) \<Longrightarrow> child_state c = WIP \<Longrightarrow> step_state s = WIP"
  by (cases "step_state s") (auto simp: children_ok_def child_follows_def list_all_iff)

lemma wip_step_unique:
  assumes "hasValidWipPath hs" and "build_steps policies [] hs = Some built"
    and "distinct (map h_id hs)"
    and "s \<in> set built" "s' \<in> set built" "step_state s = WIP" "step_state s' = WIP"
  shows "step_id s = step_id s'"
proof -
  obtain h h' where h: "h \<in> set hs" "step_row s = heading_row h"
    and h': "h' \<in> set hs" "step_row s' = heading_row h'"
    using row_heading [OF assms(2)] step_row_in assms(4,5) by meson
  have "h = h'"
    using wip_at_unique [OF wip_path_unique [OF assms(1)], of h h' Lvl1] h h' assms(6,7)
    by (simp add: step_row_def heading_row_def)
  with h h' show ?thesis by (simp add: step_row_def heading_row_def)
qed

lemma built_ids_distinct:
  assumes "build_steps policies [] hs = Some built" and "distinct (map h_id hs)"
  shows "distinct (map step_id built)"
proof -
  have "map row_id (map step_row built) = map row_id (map heading_row (level1 hs))"
    by (simp only: build_steps_level1 [OF assms(1)])
  then have "map step_id built = map h_id (level1 hs)"
    by (simp add: step_row_def heading_row_def o_def)
  with assms(2) show ?thesis by (simp add: level1_def distinct_map_filter)
qed

end
