(* ===== verification/Plan_Sample.thy ===== *)
theory Plan_Sample
  imports Plan_Facts
begin

text \<open>
  A small plan the witnesses are evaluated on: one milestone in progress with one step done and
  one in progress, and one milestone suspended for it, both with a model policy.
\<close>

subsection \<open>A sample plan\<close>

definition sample_lines :: "string list" where
  "sample_lines =
     [''#+TITLE: Sample'', ''#+MODEL_POLICY_VERSION: 1'',
      ''* WIP [#A] Build'', '':PROPERTIES:'', '':ID: a'', '':REVIEW_STATUS: UNREVIEWED'',
      '':SKILLS: tdd'', '':MODEL: m'', '':REASONING_EFFORT: medium'', '':MODEL_RATIONALE: r'',
      '':MODEL_FALLBACKS: none'', '':MODEL_ESCALATION_TRIGGER: t'', '':END:'',
      ''- Effort :: e'', ''- Goal :: g'', ''- Notes :: n'',
      ''** DONE [#B] Think'', '':PROPERTIES:'', '':ID: a0'', '':END:'',
      ''- Why :: w'', ''- Change :: c'', ''- Tests :: t'', ''- Done when :: d'',
      ''** WIP [#B] Code'', '':PROPERTIES:'', '':ID: a1'', '':END:'',
      ''- Why :: w'', ''- Change :: c'', ''- Tests :: t'', ''- Done when :: d'',
      ''* SUSPENDED [#C] Later'', '':PROPERTIES:'', '':ID: b'', '':REVIEW_STATUS: UNREVIEWED'',
      '':SKILLS: tdd'', '':SUSPENDED_FOR: a'', '':MODEL: m'', '':REASONING_EFFORT: medium'',
      '':MODEL_RATIONALE: r'', '':MODEL_FALLBACKS: none'', '':MODEL_ESCALATION_TRIGGER: t'', '':END:'',
      ''- Effort :: e'', ''- Goal :: g'', ''- Notes :: n'']"

definition sample_source :: string where
  "sample_source = concat (map (\<lambda>l. l @ [lf]) sample_lines)"

definition sample_policy :: model_policy where
  "sample_policy = \<lparr> mp_model = ''m'', mp_effort = ''medium'', mp_rationale = ''r'',
     mp_fallbacks = [], mp_trigger = ''t'', mp_necessity = None \<rparr>"

definition sample_build :: plan_step where
  "sample_build = \<lparr> step_id = ''a'', step_title = ''Build'', step_state = WIP,
     step_priority = PrioA, step_review = Some UNREVIEWED, step_skills = [''tdd''],
     step_playwright = False, step_description = [''e'', ''g'', ''n''],
     step_measurement = None, step_policy = Some sample_policy,
     step_children = [\<lparr> child_id = ''a0'', child_title = ''Think'', child_state = DONE,
       child_priority = PrioB, child_description = [''w'', ''c'', ''t'', ''d''],
       child_measurement = None \<rparr>,
       \<lparr> child_id = ''a1'', child_title = ''Code'', child_state = WIP,
       child_priority = PrioB, child_description = [''w'', ''c'', ''t'', ''d''],
       child_measurement = None \<rparr>] \<rparr>"

definition sample_later :: plan_step where
  "sample_later = \<lparr> step_id = ''b'', step_title = ''Later'', step_state = SUSPENDED,
     step_priority = PrioC, step_review = Some UNREVIEWED, step_skills = [''tdd''],
     step_playwright = False, step_description = [''e'', ''g'', ''n''],
     step_measurement = None, step_policy = Some sample_policy, step_children = [] \<rparr>"

definition sample_plan :: supervised_plan where
  "sample_plan = \<lparr> plan_title = ''Sample'', plan_subtitle = None, plan_date = None,
     plan_keywords = None, plan_policy_version = Some 1, plan_assurance = None,
     plan_steps = [sample_build, sample_later], plan_total = 4, plan_done = 1,
     plan_all_done = False, plan_execution_complete = Some False, plan_current = ''a1'' \<rparr>"

lemma sample_parses:
  "parseSupervisedPlan sample_source ''/w/plan.org'' ''/w'' = Inr sample_plan"
  by code_simp

end
