(* ===== verification/Plan_Guarantees.thy ===== *)
theory Plan_Guarantees
  imports Plan_Sample
begin

text \<open>
  The guarantees of the plan component, each with its witness on the sample plan.
\<close>

subsection \<open>Rows\<close>

text \<open>
  C2: the steps of an available plan are the headings the scan found, in order, with no
  identifier empty or repeated, and the totals, completion flags and current step agree with
  them.
\<close>

theorem plan_rows_are_headings:
  assumes "parseSupervisedPlan source planPath workspacePath = Inr plan"
  shows "\<exists>metadata headings.
     scan_lines (source_lines source) Map.empty [] = Inr (metadata, headings)
     \<and> plan_rows (plan_steps plan) = map heading_row headings
     \<and> distinct (map row_id (plan_rows (plan_steps plan)))
     \<and> [] \<notin> row_id ` set (plan_rows (plan_steps plan))
     \<and> plan_total plan = length headings
     \<and> plan_done plan = length (filter (\<lambda>r. row_state r = DONE) (plan_rows (plan_steps plan)))
     \<and> (plan_all_done plan \<longleftrightarrow> plan_done plan = plan_total plan)
     \<and> plan_current plan \<in> row_id ` set (plan_rows (plan_steps plan))
     \<and> plan_execution_complete plan = Some (list_all step_complete (plan_steps plan))"
proof -
  obtain version assur metadata headings where
    scan: "scan_lines (source_lines source) Map.empty [] = Inr (metadata, headings)"
    and proj: "project_headings version assur metadata headings = Inr plan"
    using parse_Inr [OF assms] by blast
  obtain built policies and current :: heading where b: "distinct (map h_id headings)"
    "build_steps (map_of policies) [] headings = Some built"
    "findCurrentStep headings (all_done headings) = Some current"
    "plan = assemble_plan metadata (the (metadata ''TITLE'')) version assur headings built
       (h_id current)"
    using project_headings_Inr [OF proj] by blast
  have rows: "plan_rows built = map heading_row headings" using build_steps_rows [OF b(2)] by simp
  have ids: "\<forall>h \<in> set headings. h_id h \<noteq> []" using scan_lines_ids [OF scan] by simp
  have counts: "length (filter (\<lambda>h. h_state h = DONE) headings) = length headings
      \<longleftrightarrow> all_done headings"
    unfolding all_done_def list_all_iff
    by (metis (mono_tags, lifting) filter_True length_filter_less less_irrefl)
  have row_fields: "row_id \<circ> heading_row = h_id" "row_state \<circ> heading_row = h_state"
    by (simp_all add: fun_eq_iff heading_row_def)
  have current: "h_id current \<in> row_id ` set (map heading_row headings)"
    using findCurrentStep_in [OF b(3)] by (simp add: image_image heading_row_def)
  have count_done: "length (filter (\<lambda>r. row_state r = DONE) (map heading_row headings))
      = length (filter (\<lambda>h. h_state h = DONE) headings)"
    by (simp add: filter_map o_def heading_row_def)
  show ?thesis
    using scan rows ids b(1) current counts row_fields
    by (intro exI [of _ metadata] exI [of _ headings])
       (use count_done in \<open>auto simp: b(4) assemble_plan_def filter_map\<close>)
qed

theorem plan_rows_are_headings_witness:
  "distinct (map row_id (plan_rows (plan_steps sample_plan))) \<and> plan_total sample_plan = 4"
proof -
  have "distinct (map row_id (plan_rows (plan_steps sample_plan)))"
    using plan_rows_are_headings [OF sample_parses] by blast
  then show ?thesis by (simp add: sample_plan_def)
qed

text \<open>
  In an available plan at most one milestone and at most one step are in progress, the
  milestone of a step in progress is in progress, and the current step is the step in progress,
  or else the milestone in progress.
\<close>

theorem plan_single_wip:
  assumes "parseSupervisedPlan source planPath workspacePath = Inr plan"
  shows "length (filter (\<lambda>r. row_level r = level \<and> row_state r = WIP) (plan_rows (plan_steps plan))) \<le> 1
    \<and> (\<forall>s \<in> set (plan_steps plan). \<forall>c \<in> set (step_children s).
         child_state c = WIP \<longrightarrow> step_state s = WIP \<and> plan_current plan = child_id c)
    \<and> (\<forall>s \<in> set (plan_steps plan). step_state s = WIP
         \<longrightarrow> (\<forall>c \<in> set (step_children s). child_state c \<noteq> WIP) \<longrightarrow> plan_current plan = step_id s)"
proof -
  obtain version assur metadata hs where proj: "project_headings version assur metadata hs = Inr plan"
    using parse_Inr [OF assms] by blast
  obtain built policies and current :: heading where b: "distinct (map h_id hs)" "hasValidWipPath hs"
    "hasValidSuspension hs" "build_steps (map_of policies) [] hs = Some built"
    "findCurrentStep hs (all_done hs) = Some current"
    "plan = assemble_plan metadata (the (metadata ''TITLE'')) version assur hs built (h_id current)"
    using project_headings_Inr [OF proj] by blast
  have plan: "plan_steps plan = built" "plan_current plan = h_id current"
    using b(6) by (simp_all add: assemble_plan_def)
  note ok = loop_children_ok [OF b(3,4)]
  have rows: "plan_rows built = map heading_row hs" using build_steps_rows [OF b(4)] by simp
  have "filter (\<lambda>r. row_level r = level \<and> row_state r = WIP) (plan_rows built)
      = map heading_row (wip_at level hs)"
    by (simp add: rows wip_at_def filter_map heading_row_def o_def conj_commute)
  then have one: "length (filter (\<lambda>r. row_level r = level \<and> row_state r = WIP) (plan_rows built)) \<le> 1"
    using wip_path_unique [OF b(2)] by simp
  have child: "step_state s = WIP \<and> h_id current = child_id c"
    if "s \<in> set built" "c \<in> set (step_children s)" "child_state c = WIP" for s c
  proof -
    note sc = that
    obtain h where h: "h \<in> set hs" "child_row c = heading_row h"
      using row_heading [OF b(4) child_row_in [OF sc(1,2)]] by blast
    then have "findCurrentStep hs (all_done hs) = Some h"
      using that(3) by (intro current_is_wip [OF b(2)]) (simp_all add: child_row_def heading_row_def)
    then show ?thesis
      using b(5) h wip_child_step [OF _ that(2,3)] ok that(1) by (simp add: child_row_def heading_row_def)
  qed
  have step: "h_id current = step_id s"
    if "s \<in> set built" "step_state s = WIP" "\<forall>c \<in> set (step_children s). child_state c \<noteq> WIP" for s
  proof -
    note sw = that
    obtain h where h: "h \<in> set hs" "step_row s = heading_row h"
      using row_heading [OF b(4) step_row_in [OF sw(1)]] by blast
    have "\<forall>g \<in> set hs. h_state g = WIP \<longrightarrow> h_level g = Lvl1"
    proof (intro ballI impI, rule ccontr)
      fix g assume g: "g \<in> set hs" "h_state g = WIP" "h_level g \<noteq> Lvl1"
      then have "heading_row g \<in> set (plan_rows built)" "row_level (heading_row g) = Lvl2"
        by (simp_all add: rows) (cases "h_level g"; simp)
      then obtain s' c where s': "s' \<in> set built" "c \<in> set (step_children s')" "heading_row g = child_row c"
        using level2_row_child by blast
      then have "child_state c = WIP" using g by (simp add: heading_row_def child_row_def)
      moreover have "s' = s"
        using wip_step_unique [OF b(2,4,1) s'(1) that(1)] child [OF s'(1,2) calculation] that(2)
          built_ids_distinct [OF b(4,1)] s'(1) that(1) by (auto simp: distinct_map inj_onD)
      ultimately show False using that(3) s'(2) by blast
    qed
    then have "findCurrentStep hs (all_done hs) = Some h"
      using h that(2) by (intro current_is_wip [OF b(2)]) (simp_all add: step_row_def heading_row_def)
    then show ?thesis using b(5) h by (simp add: step_row_def heading_row_def)
  qed
  from one child step show ?thesis unfolding plan by blast
qed

theorem plan_single_wip_witness:
  "plan_current sample_plan = child_id (last (step_children sample_build))"
proof -
  have "\<forall>s \<in> set (plan_steps sample_plan). \<forall>c \<in> set (step_children s).
          child_state c = WIP \<longrightarrow> step_state s = WIP \<and> plan_current sample_plan = child_id c"
    using plan_single_wip [OF sample_parses] by blast
  then show ?thesis by (simp add: sample_plan_def sample_build_def)
qed

text \<open>
  C3: a suspended milestone is a barrier: no later milestone is in progress, and the milestone
  chosen to run lies before it. The states of a milestone and its steps fit together, and a
  milestone has at most one suspended step.
\<close>

theorem suspended_milestone_is_barrier:
  assumes "parseSupervisedPlan source planPath workspacePath = Inr plan"
    and "i < length (plan_steps plan)" and "step_state (plan_steps plan ! i) = SUSPENDED"
  shows "(\<forall>j. i \<le> j \<longrightarrow> j < length (plan_steps plan) \<longrightarrow> step_state (plan_steps plan ! j) \<noteq> WIP)
    \<and> (\<forall>k. currentExecutableL1Index plan = Some k \<longrightarrow> k < i)
    \<and> list_all children_ok (plan_steps plan)"
proof -
  obtain version assur metadata hs where proj: "project_headings version assur metadata hs = Inr plan"
    using parse_Inr [OF assms(1)] by blast
  obtain built policies and current :: heading where b: "hasValidSuspension hs"
    "build_steps (map_of policies) [] hs = Some built"
    "plan = assemble_plan metadata (the (metadata ''TITLE'')) version assur hs built (h_id current)"
    using project_headings_Inr [OF proj] by blast
  have plan: "plan_steps plan = built" using b(3) by (simp add: assemble_plan_def)
  have "k < i" if "currentExecutableL1Index plan = Some k" for k
    using eligible_prefix [OF executable_index_bounds(1) [OF that]] assms(3) by (meson not_le)
  then show ?thesis
    using suspension_barrier [OF b(1,2)] loop_children_ok [OF b(1,2)] assms(2,3)
    unfolding plan by (auto simp: list_all_iff)
qed

theorem suspended_milestone_is_barrier_witness:
  "currentExecutableL1Index sample_plan \<noteq> Some 1 \<and> step_state sample_later \<noteq> WIP"
  using suspended_milestone_is_barrier [OF sample_parses, of 1]
  by (auto simp: sample_plan_def sample_later_def)

text \<open>
  The milestone chosen to run exists and no milestone up to it is suspended; it is the
  current one, or else the first that is not done. When none is chosen, every milestone before
  the first suspended one is done.
\<close>

theorem executable_milestone:
  "case currentExecutableL1Index plan of
     Some k \<Rightarrow>
       k < length (plan_steps plan) \<and> (\<forall>j \<le> k. step_state (plan_steps plan ! j) \<noteq> SUSPENDED)
       \<and> (step_is_current plan (plan_steps plan ! k)
          \<or> (step_state (plan_steps plan ! k) \<noteq> DONE
             \<and> (\<forall>j < k. step_state (plan_steps plan ! j) = DONE)))
   | None \<Rightarrow>
       \<forall>k < length (plan_steps plan).
         (\<forall>j \<le> k. step_state (plan_steps plan ! j) \<noteq> SUSPENDED)
         \<longrightarrow> step_state (plan_steps plan ! k) = DONE \<and> \<not> step_is_current plan (plan_steps plan ! k)"
proof (cases "currentExecutableL1Index plan")
  case None
  then have none: "\<forall>s \<in> set (eligible_steps (plan_steps plan)).
      step_state s = DONE \<and> \<not> step_is_current plan s"
    by (auto simp: currentExecutableL1Index_def Let_def find_index_None split: option.splits)
  have "step_state (plan_steps plan ! k) = DONE \<and> \<not> step_is_current plan (plan_steps plan ! k)"
    if "k < length (plan_steps plan)" "\<forall>j \<le> k. step_state (plan_steps plan ! j) \<noteq> SUSPENDED" for k
    using none nth_mem [OF eligible_complete [OF that]] eligible_prefix [OF eligible_complete [OF that]]
    by auto
  with None show ?thesis by simp
next
  case (Some k)
  note bounds = executable_index_bounds(1) [OF Some]
  note prefix = eligible_prefix [OF bounds]
  have "step_is_current plan (plan_steps plan ! k)
      \<or> (step_state (plan_steps plan ! k) \<noteq> DONE
         \<and> (\<forall>j < k. step_state (eligible_steps (plan_steps plan) ! j) = DONE))"
    using Some prefix
    by (auto simp: currentExecutableL1Index_def Let_def find_index_Some split: option.splits)
  moreover have "eligible_steps (plan_steps plan) ! j = plan_steps plan ! j" if "j < k" for j
    using eligible_prefix [of j "plan_steps plan"] bounds that by simp
  ultimately show ?thesis using Some prefix by auto
qed

theorem executable_milestone_witness: "currentExecutableL1Index sample_plan = Some 0"
proof -
  have "find_index (step_is_current sample_plan) (eligible_steps (plan_steps sample_plan)) = Some 0"
    by code_simp
  then show ?thesis
    using executable_milestone [of sample_plan] by (simp add: currentExecutableL1Index_def)
qed

subsection \<open>Policies, path and line endings\<close>

text \<open>
  Every milestone of an available plan carries a model policy exactly when the plan
  declares a policy version, and every policy is admissible: valid identifiers, fallbacks that
  are distinct and differ from the model, no exception for medium effort, and a scope
  reassessment with an exception for the highest effort.
\<close>

theorem plan_policies_admissible:
  assumes "parseSupervisedPlan source planPath workspacePath = Inr plan"
    and "step \<in> set (plan_steps plan)"
  shows "case step_policy step of
      None \<Rightarrow> plan_policy_version plan = None
    | Some p \<Rightarrow> plan_policy_version plan \<noteq> None \<and> policy_ok p"
proof -
  obtain version assur metadata hs where proj: "project_headings version assur metadata hs = Inr plan"
    using parse_Inr [OF assms(1)] by blast
  obtain built policies and current :: heading where b: "distinct (map h_id hs)"
    "read_policies version hs = Some policies" "build_steps (map_of policies) [] hs = Some built"
    "plan = assemble_plan metadata (the (metadata ''TITLE'')) version assur hs built (h_id current)"
    using project_headings_Inr [OF proj] by blast
  have plan: "plan_steps plan = built" "plan_policy_version plan = version"
    using b(4) by (simp_all add: assemble_plan_def)
  show ?thesis
    using built_policies [OF b(2,1,3)] assms(2) plan by (auto split: option.split)
qed

theorem plan_policies_admissible_witness: "policy_ok sample_policy"
  using plan_policies_admissible [OF sample_parses, of sample_build]
  by (simp add: sample_plan_def sample_build_def)

text \<open>
  A plan path is admitted only when it lies in the workspace: both paths are absolute and,
  resolved, the plan path is the workspace path followed by names that are not \<open>..\<close>.
\<close>

theorem admitted_path_is_inside:
  assumes "isPlanPathWithinWorkspace planPath workspacePath"
  shows "starts_with ''/'' planPath \<and> starts_with ''/'' workspacePath
    \<and> (\<exists>inner. path_segments planPath = path_segments workspacePath @ inner \<and> ''..'' \<notin> set inner)"
proof -
  let ?f = "path_segments workspacePath" and ?t = "path_segments planPath"
  from assms have abs: "isAbsolute planPath" "isAbsolute workspacePath"
    and inner: "join_path (relative_segments ?f ?t) = []
      \<or> \<not> starts_with ''..'' (join_path (relative_segments ?f ?t))"
    by (auto simp: isPlanPathWithinWorkspace_def Let_def split: if_splits)
  have "\<exists>ss. ?t = ?f @ ss"
  proof (rule ccontr)
    assume "\<not> ?thesis"
    then obtain ss where "relative_segments ?f ?t = ''..'' # ss"
      using relative_segments_outside by blast
    moreover obtain r where "join_path (''..'' # ss) = ''..'' @ r" using join_path_head by blast
    ultimately show False using inner by (simp add: starts_with_def)
  qed
  then obtain ss where ss: "?t = ?f @ ss" by blast
  have "''..'' \<notin> set ?t"
    using resolve_segments_no_dots [of "[]"] unfolding path_segments_def by auto
  with ss abs show ?thesis by (auto simp: isAbsolute_def)
qed

theorem admitted_path_is_inside_witness:
  "\<exists>inner. path_segments ''/w/./a/../plan.org'' = path_segments ''/w'' @ inner \<and> ''..'' \<notin> set inner"
proof -
  have "isPlanPathWithinWorkspace ''/w/./a/../plan.org'' ''/w''" by code_simp
  from admitted_path_is_inside [OF this] show ?thesis by blast
qed

text \<open>
  C22: line endings do not matter: a file written with carriage return and line feed, or with
  carriage returns alone, parses as the file with line feeds.
\<close>

definition with_line_end :: "string \<Rightarrow> string \<Rightarrow> string" where
  "with_line_end eol s = concat (map (\<lambda>c. if c = lf then eol else [c]) s)"

lemma normalize_with_line_end:
  "cr \<notin> set s \<Longrightarrow> normalize_newlines False (with_line_end [cr, lf] s) = s"
  by (induction s) (auto simp: with_line_end_def)

lemma normalize_cr_only:
  "cr \<notin> set s \<Longrightarrow> normalize_newlines b (with_line_end [cr] s) = s"
  by (induction s arbitrary: b) (auto simp: with_line_end_def)

lemma normalize_unix: "cr \<notin> set s \<Longrightarrow> normalize_newlines False s = s"
  by (induction s) auto

theorem line_endings_do_not_matter:
  assumes "cr \<notin> set source" and "eol = [cr, lf] \<or> eol = [cr]"
  shows "parseSupervisedPlan (with_line_end eol source) planPath workspacePath
       = parseSupervisedPlan source planPath workspacePath"
proof -
  have "source_lines (with_line_end eol source) = source_lines source"
    using assms normalize_with_line_end [OF assms(1)] normalize_cr_only [OF assms(1)]
      normalize_unix [OF assms(1)]
    by (auto simp: source_lines_def)
  then show ?thesis by (simp add: parseSupervisedPlan_def)
qed

theorem line_endings_do_not_matter_witness:
  "parseSupervisedPlan (with_line_end [cr, lf] sample_source) ''/w/plan.org'' ''/w'' = Inr sample_plan"
proof -
  have "cr \<notin> set sample_source" by code_simp
  then show ?thesis using line_endings_do_not_matter [of sample_source "[cr, lf]"] sample_parses by simp
qed

subsection \<open>Agent names\<close>

text \<open>
  The agent of milestone \<open>n\<close>, generation \<open>g\<close>, is recognised under any directory, and it is
  shown by the position of its milestone.
\<close>

theorem agent_name_round_trip:
  assumes "0 < n" and "0 < g"
  shows "parseOrgPlanAgentIdentity (dir @ ''/'' @ l1_task_name n @ ''_g'' @ nat_text g)
      = Some \<lparr> ai_task = l1_task_name n, ai_position = orgPlanPosition n None, ai_generation = g \<rparr>
    \<and> parseOrgPlanAgentIdentity (l1_task_name n)
      = Some \<lparr> ai_task = l1_task_name n, ai_position = orgPlanPosition n None, ai_generation = 1 \<rparr>
    \<and> orgPlanAgentDisplayName (dir @ ''/'' @ l1_task_name n) = orgPlanPosition n None"
  using agent_generation_form [OF assms, of dir] agent_plain_form [OF assms(1)]
    agent_path_form [OF assms(1), of dir]
  by (simp add: orgPlanAgentDisplayName_def)

theorem agent_name_round_trip_witness:
  "parseOrgPlanAgentIdentity ''/root/l12_g3''
     = Some \<lparr> ai_task = ''l12'', ai_position = ''L12'', ai_generation = 3 \<rparr>"
proof -
  have "l1_task_name 12 = ''l12''" "nat_text 3 = ''3''" "orgPlanPosition 12 None = ''L12''"
    by code_simp+
  then show ?thesis using agent_name_round_trip [of 12 3 "''/root''"] by simp
qed

end
