(* ===== verification/Policy_Admission.thy ===== *)
theory Policy_Admission
  imports Plan_Sample
begin

text \<open>
  Admission of a plan to automatic execution by its model policies
  (src/server/features/plans/domain/model-policy-admission.ts). The version of a policy is
  always 1 in the read model, so \<open>step.modelPolicy?.version !== 1\<close> asks whether a step has none.
\<close>

datatype policy_status = LegacyStatus | RequiredStatus | UnavailableStatus

datatype admission_refusal =
    POLICY_PROJECTION_UNAVAILABLE
  | POLICY_VERSION_UNSUPPORTED
  | POLICY_FIELDS_INVALID
  | MODEL_PROHIBITED
  | EFFORT_UNSUPPORTED
  | RUNTIME_ATTESTATION_UNAVAILABLE

datatype admission = AllowedLegacy | AllowedConfigured | Blocked admission_refusal

definition has_trimmed_text :: "string option \<Rightarrow> bool" where
  "has_trimmed_text v = (case v of None \<Rightarrow> False | Some s \<Rightarrow> js_trim s \<noteq> [])"

definition necessity_complete :: "string \<Rightarrow> policy_necessity \<Rightarrow> bool" where
  "necessity_complete effort n \<longleftrightarrow>
     nec_kind n \<in> set necessity_kinds
     \<and> list_all (\<lambda>t. js_trim t \<noteq> []) [nec_why n, nec_evidence n, nec_scope n, nec_return n]
     \<and> (effort = ''xhigh'' \<longrightarrow> has_trimmed_text (nec_reassessment n))"

definition effort_supported :: "model_policy \<Rightarrow> bool" where
  "effort_supported p \<longleftrightarrow>
     validPlanEffort (mp_effort p)
     \<and> (if mp_effort p = ''medium'' then mp_necessity p = None
        else case mp_necessity p of None \<Rightarrow> True | Some n \<Rightarrow> necessity_complete (mp_effort p) n)"

definition step_policies :: "supervised_plan \<Rightarrow> model_policy option list" where
  "step_policies plan = map step_policy (plan_steps plan)"

text \<open>The checks once the plan declares version 1.\<close>

definition assess_configured :: "supervised_plan \<Rightarrow> admission" where
  "assess_configured plan =
     (if plan_steps plan = [] \<or> None \<in> set (step_policies plan)
      then Blocked POLICY_FIELDS_INVALID
      else if \<exists>p \<in> set (step_policies plan). \<not> validPlanModel (mp_model (the p))
      then Blocked MODEL_PROHIBITED
      else if \<exists>p \<in> set (step_policies plan). \<not> effort_supported (the p)
      then Blocked EFFORT_UNSUPPORTED
      else if coalesce (plan_assurance plan) Configured = RuntimeAttested
      then Blocked RUNTIME_ATTESTATION_UNAVAILABLE
      else AllowedConfigured)"

definition assessModelPolicyAdmission :: "supervised_plan option \<Rightarrow> policy_status \<Rightarrow> admission" where
  "assessModelPolicyAdmission plan status =
     (if status = UnavailableStatus then Blocked POLICY_PROJECTION_UNAVAILABLE
      else let version = (case plan of None \<Rightarrow> None | Some p \<Rightarrow> plan_policy_version p);
               has_policy = (case plan of
                   None \<Rightarrow> False | Some p \<Rightarrow> \<exists>q \<in> set (step_policies p). q \<noteq> None)
           in if version = None \<and> \<not> has_policy \<and> status = LegacyStatus then AllowedLegacy
              else if version \<noteq> Some 1 then Blocked POLICY_VERSION_UNSUPPORTED
              else case plan of
                     None \<Rightarrow> Blocked POLICY_FIELDS_INVALID
                   | Some p \<Rightarrow> assess_configured p)"

definition requireModelPolicyAdmission :: "supervised_plan option \<Rightarrow> policy_status \<Rightarrow> admission_refusal + unit" where
  "requireModelPolicyAdmission plan status =
     (case assessModelPolicyAdmission plan status of Blocked r \<Rightarrow> Inl r | _ \<Rightarrow> Inr ())"

subsection \<open>Parsed policies are supported\<close>

lemma has_text_trim: "has_text props k \<Longrightarrow> js_trim (prop_text props k) \<noteq> []"
  by (cases "props k") (simp_all add: has_text_def prop_text_def)

lemma parse_necessity_complete:
  assumes "parse_necessity props effort = Some (Some n)"
  shows "necessity_complete effort n"
proof -
  from assms have texts: "\<forall>k \<in> set (take 5 exception_keys). has_text props k"
    and kind: "prop_text props ''EFFORT_NECESSITY_KIND'' \<in> set necessity_kinds"
    and high: "effort = ''xhigh'' \<longrightarrow> has_text props ''SCOPE_REASSESSMENT''"
    and n: "n = \<lparr> nec_kind = prop_text props ''EFFORT_NECESSITY_KIND'',
        nec_why = prop_text props ''EFFORT_NECESSITY'',
        nec_evidence = prop_text props ''EFFORT_EVIDENCE'',
        nec_scope = prop_text props ''EFFORT_SCOPE'',
        nec_return = prop_text props ''RETURN_TO_MEDIUM'',
        nec_reassessment = props ''SCOPE_REASSESSMENT'' \<rparr>"
    unfolding parse_necessity_def Let_def by (auto split: if_splits)
  have "has_text props k \<Longrightarrow> has_trimmed_text (props k)" for k
    by (cases "props k") (simp_all add: has_text_def has_trimmed_text_def)
  with texts kind high show ?thesis
    by (simp add: necessity_complete_def n exception_keys_def has_text_trim numeral_eq_Suc)
qed

lemma parsed_effort_supported:
  assumes "parseModelPolicy props level version = Some (Some p)"
  shows "effort_supported p"
proof -
  from assms obtain nec where
    nec: "parse_necessity props (mp_effort p) = Some nec" "mp_necessity p = nec"
    and effort: "validPlanEffort (mp_effort p)"
    unfolding parseModelPolicy_def Let_def by (auto split: if_splits option.splits)
  show ?thesis
  proof (cases nec)
    case None
    with effort nec show ?thesis by (simp add: effort_supported_def)
  next
    case (Some n)
    with nec parse_necessity_complete have "necessity_complete (mp_effort p) n" by simp
    moreover have "mp_effort p \<noteq> ''medium''"
      using nec(1) Some parse_necessity_medium [of props nec] by auto
    ultimately show ?thesis using effort nec Some by (simp add: effort_supported_def)
  qed
qed

lemma policy_version_one: "policy_version ls = Some (Some v) \<Longrightarrow> v = 1"
  by (auto simp: policy_version_def split: list.splits prod.splits if_splits)

lemma parse_version:
  assumes "parseSupervisedPlan source planPath workspacePath = Inr plan"
    and "plan_policy_version plan = Some v"
  shows "v = 1"
proof -
  have within: "isPlanPathWithinWorkspace planPath workspacePath"
    using assms(1) by (auto simp: parseSupervisedPlan_def split: if_splits)
  with assms(1) obtain version assur metadata headings
    where v: "policy_version (source_lines source) = Some version"
      and p: "project_headings version assur metadata headings = Inr plan"
    by (auto simp: parseSupervisedPlan_def Let_def split: option.splits sum.splits)
  from project_headings_Inr [OF p] have "plan_policy_version plan = version"
    by (auto simp: assemble_plan_def)
  with v assms(2) policy_version_one show ?thesis by simp
qed

lemma build_steps_nonempty:
  assumes "build_steps policies [] hs = Some built" and "hs \<noteq> []"
  shows "built \<noteq> []"
proof
  assume "built = []"
  with build_steps_rows [OF assms(1)] assms(2) show False by simp
qed

text \<open>
  For an available plan the admission verdict depends on the declarations alone: a plan
  without a policy version runs only as a legacy plan, one with a version is admitted unless it
  asks for runtime attestation. The parser never lets through a policy the admission would
  refuse.
\<close>

theorem parsed_plan_admission:
  assumes "parseSupervisedPlan source planPath workspacePath = Inr plan"
  shows "assessModelPolicyAdmission (Some plan) status =
    (if status = UnavailableStatus then Blocked POLICY_PROJECTION_UNAVAILABLE
     else if plan_policy_version plan = None
     then (if status = LegacyStatus then AllowedLegacy else Blocked POLICY_VERSION_UNSUPPORTED)
     else if plan_assurance plan = Some RuntimeAttested then Blocked RUNTIME_ATTESTATION_UNAVAILABLE
     else AllowedConfigured)"
proof -
  obtain version assur metadata hs where proj: "project_headings version assur metadata hs = Inr plan"
    using parse_Inr [OF assms] by blast
  obtain built policies and current :: heading where b: "hs \<noteq> []" "distinct (map h_id hs)"
    "read_policies version hs = Some policies" "build_steps (map_of policies) [] hs = Some built"
    "plan = assemble_plan metadata (the (metadata ''TITLE'')) version assur hs built (h_id current)"
    using project_headings_Inr [OF proj] by blast
  have plan: "plan_steps plan = built" "plan_policy_version plan = version" "plan_assurance plan = assur"
    using b(5) by (simp_all add: assemble_plan_def)
  note policies = built_policies [OF b(3,2,4)]
  note source = built_policy_source [OF b(3,2,4)]
  have ne: "built \<noteq> []" using build_steps_nonempty [OF b(4,1)] .
  show ?thesis
  proof (cases version)
    case None
    then have "\<forall>q \<in> set (step_policies plan). q = None"
      using policies(1) plan(1) by (auto simp: step_policies_def)
    with None plan show ?thesis
      by (simp add: assessModelPolicyAdmission_def Let_def)
  next
    case (Some v)
    then have v: "version = Some 1" using parse_version [OF assms] plan by simp
    have "None \<noteq> step_policy s" if "s \<in> set built" for s
      using policies(1) [OF that] v by auto
    then have "None \<notin> set (step_policies plan)"
      using plan(1) by (auto simp: step_policies_def)
    moreover have "\<forall>p \<in> set (step_policies plan). validPlanModel (mp_model (the p)) \<and> effort_supported (the p)"
    proof
      fix p assume "p \<in> set (step_policies plan)"
      then obtain s where s: "s \<in> set built" "p = step_policy s"
        by (auto simp: step_policies_def plan(1))
      with policies(1) v obtain q where q: "step_policy s = Some q" by fastforce
      with source [OF s(1)] obtain props where "parseModelPolicy props Lvl1 version = Some (Some q)" by auto
      with q s show "validPlanModel (mp_model (the p)) \<and> effort_supported (the p)"
        using parseModelPolicy_ok parsed_effort_supported by (auto simp: policy_ok_def)
    qed
    ultimately show ?thesis
      using v plan ne
      by (cases "assur"; cases "the assur")
         (auto simp: assessModelPolicyAdmission_def assess_configured_def Let_def)
  qed
qed

theorem parsed_plan_admission_witness:
  "assessModelPolicyAdmission (Some sample_plan) RequiredStatus = AllowedConfigured"
  using parsed_plan_admission [OF sample_parses, of RequiredStatus] by (simp add: sample_plan_def)

end
