(* ===== verification/Js_Json.thy ===== *)
theory Js_Json
  imports Js_Value "HOL-Library.Multiset"
begin

text \<open>
  Two library routines the sources build canonical keys with: \<open>JSON.stringify\<close> on values made
  of null, booleans, integers, strings, arrays and objects (the text determines the value), and
  the stable \<open>Array.prototype.sort\<close> with a comparator (the result does not depend on the order
  of the input when the comparator separates the elements).
\<close>

subsection \<open>JSON text\<close>

datatype json =
    ONull
  | OBool bool
  | OInt int
  | OText string
  | OArr "json list"
  | OObj "(string \<times> json) list"

abbreviation quote :: char where "quote \<equiv> CHR 0x22"
abbreviation backslash :: char where "backslash \<equiv> CHR 0x5C"

definition hex_char :: "nat \<Rightarrow> char" where
  "hex_char n = (if n < 10 then char_of (48 + n) else char_of (87 + n))"

definition escape_char :: "char \<Rightarrow> string" where
  "escape_char c =
     (if c = quote then [backslash, quote]
      else if c = backslash then [backslash, backslash]
      else if code c = 8 then backslash # ''b''
      else if code c = 9 then backslash # ''t''
      else if code c = 10 then backslash # ''n''
      else if code c = 12 then backslash # ''f''
      else if code c = 13 then backslash # ''r''
      else if code c < 32 then backslash # ''u00'' @ [hex_char (code c div 16), hex_char (code c mod 16)]
      else [c])"

fun escape_text :: "string \<Rightarrow> string" where
  "escape_text [] = [quote]"
| "escape_text (c # cs) = escape_char c @ escape_text cs"

definition int_text :: "int \<Rightarrow> string" where
  "int_text i = (if i < 0 then CHR ''-'' # nat_text (nat (- i)) else nat_text (nat i))"

fun json_text :: "json \<Rightarrow> string"
  and json_items :: "json list \<Rightarrow> string"
  and json_fields :: "(string \<times> json) list \<Rightarrow> string" where
  "json_text ONull = ''null''"
| "json_text (OBool b) = (if b then ''true'' else ''false'')"
| "json_text (OInt i) = int_text i"
| "json_text (OText s) = quote # escape_text s"
| "json_text (OArr xs) = CHR ''['' # json_items xs"
| "json_text (OObj fs) = CHR ''{'' # json_fields fs"
| "json_items [] = '']''"
| "json_items [x] = json_text x @ '']''"
| "json_items (x # y # xs) = json_text x @ CHR '','' # json_items (y # xs)"
| "json_fields [] = ''}''"
| "json_fields [(k, v)] = quote # escape_text k @ CHR '':'' # json_text v @ ''}''"
| "json_fields ((k, v) # f # fs) =
     quote # escape_text k @ CHR '':'' # json_text v @ CHR '','' # json_fields (f # fs)"

text \<open>Each escaped character can be read back, whatever follows.\<close>

lemma code_char_of: "code (char_of n) = n mod 256"
  by (simp add: code_def)

lemma code_inj: "code c = code d \<longleftrightarrow> c = d"
  by (simp add: code_def)

definition hex_digit_value :: "char \<Rightarrow> nat" where
  "hex_digit_value c = (if code c < 58 then code c - 48 else code c - 87)"

definition control_of :: "char \<Rightarrow> nat option" where
  "control_of c = map_of [(CHR ''b'', 8), (CHR ''t'', 9), (CHR ''n'', 10), (CHR ''f'', 12),
     (CHR ''r'', 13)] c"

fun unescape :: "string \<Rightarrow> (char \<times> string) option" where
  "unescape [] = None"
| "unescape (c # r) =
     (if c = quote then None
      else if c \<noteq> backslash then Some (c, r)
      else case r of
             [] \<Rightarrow> None
           | d # r' \<Rightarrow>
               if d = CHR ''u'' then
                 Some (char_of (16 * hex_digit_value (r' ! 2) + hex_digit_value (r' ! 3)), drop 4 r')
               else (case control_of d of Some n \<Rightarrow> Some (char_of n, r') | None \<Rightarrow> Some (d, r')))"

lemma hex_digit_value_hex_char: "n < 16 \<Longrightarrow> hex_digit_value (hex_char n) = n"
  by (simp add: hex_digit_value_def hex_char_def code_char_of)

lemma code_eq_char_of: "code c = n \<Longrightarrow> char_of n = c"
  by (auto simp: code_def)

lemma unescape_escape: "unescape (escape_char c @ r) = Some (c, r)"
proof (cases "c = quote \<or> c = backslash \<or> code c = 8 \<or> code c = 9 \<or> code c = 10 \<or> code c = 12
    \<or> code c = 13")
  case True
  then show ?thesis
    by (elim disjE) (simp_all add: escape_char_def control_of_def code_eq_char_of)
next
  case False
  show ?thesis
  proof (cases "code c < 32")
    case True
    then have "code c div 16 < 16" "code c mod 16 < 16" by auto
    then have "16 * hex_digit_value (hex_char (code c div 16))
        + hex_digit_value (hex_char (code c mod 16)) = code c"
      by (simp add: hex_digit_value_hex_char)
    with False True show ?thesis
      by (simp add: escape_char_def code_eq_char_of)
  next
    case outside: False
    with False show ?thesis by (simp add: escape_char_def)
  qed
qed

lemma quote_not_escape: "quote # r \<noteq> escape_char c @ r'"
proof
  assume "quote # r = escape_char c @ r'"
  then have "unescape (quote # r) = Some (c, r')" by (simp only: unescape_escape)
  then show False by simp
qed

lemma escape_text_inj: "escape_text s @ r = escape_text t @ r' \<longleftrightarrow> s = t \<and> r = r'"
proof (induction s arbitrary: t)
  case Nil
  show ?case
  proof (cases t)
    case (Cons d t')
    have "quote # r \<noteq> escape_char d @ escape_text t' @ r'"
      using quote_not_escape by metis
    with Cons show ?thesis by simp
  qed simp
next
  case (Cons c s)
  show ?case
  proof (cases t)
    case Nil
    have "escape_char c @ escape_text s @ r \<noteq> quote # r'"
      using quote_not_escape by metis
    with Nil show ?thesis by simp
  next
    case (Cons d t')
    show ?thesis
    proof
      assume eq: "escape_text (c # s) @ r = escape_text t @ r'"
      then have "unescape (escape_char c @ escape_text s @ r)
          = unescape (escape_char d @ escape_text t' @ r')"
        using Cons by simp
      then have "c = d" and "escape_text s @ r = escape_text t' @ r'"
        by (simp_all add: unescape_escape)
      then show "c # s = t \<and> r = r'" using Cons.IH Cons by simp
    qed simp
  qed
qed

text \<open>What may follow a value inside a JSON text.\<close>

definition json_end :: "string \<Rightarrow> bool" where
  "json_end r \<longleftrightarrow> r = [] \<or> hd r \<in> set '',]}''"

lemma json_end_Cons [simp]: "json_end (c # r) \<longleftrightarrow> c \<in> set '',]}''"
  by (simp add: json_end_def)

lemma json_end_no_digit: "json_end r \<Longrightarrow> r = [] \<or> \<not> is_digit (hd r)"
  by (auto simp: json_end_def is_digit_def code_def)

lemma digits_end_inj:
  assumes "list_all is_digit a" "list_all is_digit b" "json_end r" "json_end r'"
    and "a @ r = b @ r'"
  shows "a = b \<and> r = r'"
proof -
  have "takeWhile is_digit (x @ y) = x" if "list_all is_digit x" "json_end y" for x y
    using json_end_no_digit [OF that(2)] that(1)
    by (auto simp: list_all_iff takeWhile_append2 takeWhile_eq_Nil_iff)
  from this [OF assms(1,3)] this [OF assms(2,4)] assms(5) show ?thesis by simp
qed

lemma nat_text_hd_digit: "is_digit (hd (nat_text n))"
  using nat_text_digits [of n] by (cases "nat_text n") auto

lemma int_text_inj:
  assumes "json_end r" "json_end r'" "int_text i @ r = int_text j @ r'"
  shows "i = j \<and> r = r'"
proof -
  have minus: "\<not> is_digit (CHR ''-'')" by (simp add: is_digit_def code_def)
  have no_minus: "nat_text n @ x \<noteq> CHR ''-'' # y" for n x y
    using nat_text_hd_digit [of n] minus by (cases "nat_text n") auto
  consider "i < 0" "j < 0" | "0 \<le> i" "0 \<le> j"
    using assms(3) no_minus no_minus [symmetric] by (fastforce simp: int_text_def split: if_splits)
  then show ?thesis
  proof cases
    case 1
    with assms(3) have "nat_text (nat (- i)) @ r = nat_text (nat (- j)) @ r'"
      by (simp add: int_text_def)
    from digits_end_inj [OF nat_text_digits nat_text_digits assms(1,2) this] 1
    show ?thesis by (simp add: nat_text_inj eq_nat_nat_iff [of "- i" "- j"])
  next
    case 2
    with assms(3) have "nat_text (nat i) @ r = nat_text (nat j) @ r'"
      by (simp add: int_text_def)
    from digits_end_inj [OF nat_text_digits nat_text_digits assms(1,2) this] 2
    show ?thesis by (simp add: nat_text_inj eq_nat_nat_iff)
  qed
qed

text \<open>The first character of a text tells which kind of value it is.\<close>

fun json_kind :: "json \<Rightarrow> nat" where
  "json_kind ONull = 0"
| "json_kind (OBool b) = 1"
| "json_kind (OInt i) = 2"
| "json_kind (OText s) = 3"
| "json_kind (OArr xs) = 4"
| "json_kind (OObj fs) = 5"

definition char_kind :: "char \<Rightarrow> nat" where
  "char_kind c = (if c = CHR ''n'' then 0 else if c = CHR ''t'' \<or> c = CHR ''f'' then 1
     else if is_digit c \<or> c = CHR ''-'' then 2 else if c = quote then 3
     else if c = CHR ''['' then 4 else if c = CHR ''{'' then 5 else 6)"

lemma char_kind_digit: "is_digit c \<Longrightarrow> char_kind c = 2"
  by (auto simp: char_kind_def is_digit_def code_def)

lemma json_text_kind: "\<exists>c s. json_text x = c # s \<and> char_kind c = json_kind x"
proof (cases x)
  case (OInt i)
  obtain c s where "nat_text (nat i) = c # s" by (cases "nat_text (nat i)") auto
  moreover from this have "char_kind c = 2"
    using nat_text_hd_digit [of "nat i"] by (simp add: char_kind_digit)
  ultimately show ?thesis using OInt by (simp add: int_text_def char_kind_def)
qed (auto simp: char_kind_def is_digit_def code_def)

lemma json_text_same_kind:
  assumes "json_text x @ r = json_text y @ r'"
  shows "json_kind x = json_kind y"
  using json_text_kind [of x] json_text_kind [of y] assms by auto

lemma json_text_hd: "json_text x @ r \<noteq> CHR '']'' # r'"
proof -
  have "char_kind (CHR '']'') = 6" by (simp add: char_kind_def is_digit_def code_def)
  moreover have "json_kind x < 6" by (cases x) simp_all
  ultimately show ?thesis using json_text_kind [of x] by auto
qed

lemma json_kind_cases:
  "json_kind x = 0 \<longleftrightarrow> x = ONull" "json_kind x = 1 \<longleftrightarrow> (\<exists>b. x = OBool b)"
  "json_kind x = Suc 0 \<longleftrightarrow> (\<exists>b. x = OBool b)"
  "json_kind x = 2 \<longleftrightarrow> (\<exists>i. x = OInt i)" "json_kind x = 3 \<longleftrightarrow> (\<exists>s. x = OText s)"
  "json_kind x = 4 \<longleftrightarrow> (\<exists>xs. x = OArr xs)" "json_kind x = 5 \<longleftrightarrow> (\<exists>fs. x = OObj fs)"
  by (cases x; simp)+

lemma list_three_cases [case_names Zero One More]:
  "(xs = [] \<Longrightarrow> P) \<Longrightarrow> (\<And>x. xs = [x] \<Longrightarrow> P) \<Longrightarrow> (\<And>x y zs. xs = x # y # zs \<Longrightarrow> P) \<Longrightarrow> P"
  by (metis list.exhaust)

lemma json_inj_aux:
  "json_end r \<Longrightarrow> json_end r' \<Longrightarrow> json_text x @ r = json_text y @ r' \<Longrightarrow> x = y \<and> r = r'"
  "json_items xs @ r = json_items ys @ r' \<Longrightarrow> xs = ys \<and> r = r'"
  "json_fields fs @ r = json_fields gs @ r' \<Longrightarrow> fs = gs \<and> r = r'"
proof (induction x and xs and fs arbitrary: y r r' and ys r r' and gs r r'
    rule: json_text_json_items_json_fields.induct)
  case 1
  then have "json_kind y = 0" using json_text_same_kind [OF 1(3)] by simp
  then have "y = ONull" by (simp add: json_kind_cases)
  with 1 show ?case by simp
next
  case (2 b)
  then obtain b' where y: "y = OBool b'" using json_text_same_kind [OF 2(3)] by (metis json_kind.simps json_kind_cases)
  with 2 show ?case by (auto split: if_splits)
next
  case (3 i)
  then obtain j where y: "y = OInt j" using json_text_same_kind [OF 3(3)] by (metis json_kind.simps json_kind_cases)
  with 3 int_text_inj show ?case by auto
next
  case (4 s)
  then obtain t where y: "y = OText t" using json_text_same_kind [OF 4(3)] by (metis json_kind.simps json_kind_cases)
  with 4 show ?case by (simp add: escape_text_inj)
next
  case (5 xs)
  then obtain ys where y: "y = OArr ys" using json_text_same_kind [OF 5(4)] by (metis json_kind.simps json_kind_cases)
  with 5(4) 5(1) [of r ys r'] show ?case by simp
next
  case (6 fs)
  then obtain gs where y: "y = OObj gs" using json_text_same_kind [OF 6(4)] by (metis json_kind.simps json_kind_cases)
  with 6(4) 6(1) [of r gs r'] show ?case by simp
next
  case 7
  then show ?case
    using json_text_hd [symmetric] by (cases ys rule: list_three_cases) auto
next
  case (8 x)
  show ?case
  proof (cases ys rule: list_three_cases)
    case Zero
    with 8 show ?thesis using json_text_hd by auto
  next
    case (One y)
    with 8(2) 8(1) [of "'']'' @ r" "'']'' @ r'" y] show ?thesis by simp
  next
    case (More y z zs)
    with 8(2) 8(1) [of "'']'' @ r" "CHR '','' # json_items (z # zs) @ r'" y] show ?thesis by simp
  qed
next
  case (9 x x' xs)
  show ?case
  proof (cases ys rule: list_three_cases)
    case Zero
    with 9 show ?thesis using json_text_hd by auto
  next
    case (One y)
    with 9(3) 9(1) [of "CHR '','' # json_items (x' # xs) @ r" "'']'' @ r'" y] show ?thesis by simp
  next
    case (More y z zs)
    with 9(3) 9(1) [of "CHR '','' # json_items (x' # xs) @ r" "CHR '','' # json_items (z # zs) @ r'" y]
      9(2) [of r "z # zs" r']
    show ?thesis by simp
  qed
next
  case 10
  then show ?case by (cases gs rule: list_three_cases) auto
next
  case (11 k v)
  show ?case
  proof (cases gs rule: list_three_cases)
    case Zero
    with 11 show ?thesis by simp
  next
    case (One g0)
    then obtain k' v' where g0: "gs = [(k', v')]" by (cases g0) simp
    with 11(2) 11(1) [of "''}'' @ r" "''}'' @ r'" v'] show ?thesis by (simp add: escape_text_inj)
  next
    case (More g0 g gs')
    then obtain k' v' where g0: "gs = (k', v') # g # gs'" by (cases g0) simp
    with 11(2) 11(1) [of "''}'' @ r" "CHR '','' # json_fields (g # gs') @ r'" v']
    show ?thesis by (simp add: escape_text_inj)
  qed
next
  case (12 k v f fs)
  show ?case
  proof (cases gs rule: list_three_cases)
    case Zero
    with 12 show ?thesis by simp
  next
    case (One g0)
    then obtain k' v' where g0: "gs = [(k', v')]" by (cases g0) simp
    with 12(3) 12(1) [of "CHR '','' # json_fields (f # fs) @ r" "''}'' @ r'" v']
    show ?thesis by (simp add: escape_text_inj)
  next
    case (More g0 g gs')
    then obtain k' v' where g0: "gs = (k', v') # g # gs'" by (cases g0) simp
    with 12(3) 12(1) [of "CHR '','' # json_fields (f # fs) @ r" "CHR '','' # json_fields (g # gs') @ r'" v']
      12(2) [of r "g # gs'" r']
    show ?thesis by (simp add: escape_text_inj)
  qed
qed

lemma json_text_inj: "json_text x = json_text y \<longleftrightarrow> x = y"
  using json_inj_aux(1) [of "[]" "[]" x y] by (auto simp: json_end_def)

subsection \<open>Sorting with a comparator\<close>

text \<open>\<open>sort\<close> is stable; insertion after every element that is not larger keeps equal ones in order.\<close>

fun insert_by :: "('a \<Rightarrow> 'a \<Rightarrow> int) \<Rightarrow> 'a \<Rightarrow> 'a list \<Rightarrow> 'a list" where
  "insert_by cmp x [] = [x]"
| "insert_by cmp x (y # ys) = (if cmp y x < 0 then y # insert_by cmp x ys else x # y # ys)"

definition sort_by :: "('a \<Rightarrow> 'a \<Rightarrow> int) \<Rightarrow> 'a list \<Rightarrow> 'a list" where
  "sort_by cmp xs = foldr (insert_by cmp) xs []"

lemma sort_by_simps [simp]:
  "sort_by cmp [] = []" "sort_by cmp (x # xs) = insert_by cmp x (sort_by cmp xs)"
  by (simp_all add: sort_by_def)

lemma mset_insert_by [simp]: "mset (insert_by cmp x ys) = add_mset x (mset ys)"
  by (induction ys) auto

lemma mset_sort_by [simp]: "mset (sort_by cmp xs) = mset xs"
  by (induction xs) auto

lemma set_sort_by [simp]: "set (sort_by cmp xs) = set xs"
  by (metis mset_sort_by set_mset_mset)

lemma length_sort_by [simp]: "length (sort_by cmp xs) = length xs"
  by (metis mset_sort_by size_mset)

text \<open>A comparator that is consistent: reflexive, antisymmetric in sign and transitive.\<close>

definition comparator :: "('a \<Rightarrow> 'a \<Rightarrow> int) \<Rightarrow> bool" where
  "comparator cmp \<longleftrightarrow>
     (\<forall>x. cmp x x = 0) \<and> (\<forall>x y. cmp x y < 0 \<longleftrightarrow> 0 < cmp y x)
     \<and> (\<forall>x y z. cmp x y \<le> 0 \<longrightarrow> cmp y z \<le> 0 \<longrightarrow> cmp x z \<le> 0)"

definition separates :: "('a \<Rightarrow> 'a \<Rightarrow> int) \<Rightarrow> 'a set \<Rightarrow> bool" where
  "separates cmp A \<longleftrightarrow> (\<forall>x \<in> A. \<forall>y \<in> A. cmp x y = 0 \<longrightarrow> x = y)"

definition le_by :: "('a \<Rightarrow> 'a \<Rightarrow> int) \<Rightarrow> 'a \<Rightarrow> 'a \<Rightarrow> bool" where
  "le_by cmp x y \<longleftrightarrow> cmp x y \<le> 0"

lemma comparator_flip: "comparator cmp \<Longrightarrow> \<not> cmp y x < 0 \<Longrightarrow> cmp x y \<le> 0"
  unfolding comparator_def by (simp add: not_less [symmetric])

lemma comparator_trans: "comparator cmp \<Longrightarrow> cmp a b \<le> 0 \<Longrightarrow> cmp b c \<le> 0 \<Longrightarrow> cmp a c \<le> 0"
  unfolding comparator_def by blast

lemma comparator_antisym: "comparator cmp \<Longrightarrow> cmp x y \<le> 0 \<Longrightarrow> cmp y x \<le> 0 \<Longrightarrow> cmp x y = 0"
  unfolding comparator_def by (metis order.antisym not_less)

lemma insert_by_sorted:
  assumes "comparator cmp" and "sorted_wrt (le_by cmp) ys"
  shows "sorted_wrt (le_by cmp) (insert_by cmp x ys)"
  using assms(2)
proof (induction ys)
  case Nil
  then show ?case by simp
next
  case (Cons y ys)
  note flip = comparator_flip [OF assms(1)] and trans = comparator_trans [OF assms(1)]
  have in_set: "set (insert_by cmp x ys) = insert x (set ys)"
    by (metis mset_insert_by set_mset_add_mset_insert set_mset_mset)
  have tail: "\<forall>z \<in> set ys. le_by cmp y z" "sorted_wrt (le_by cmp) ys"
    using Cons.prems by simp_all
  show ?case
  proof (cases "cmp y x < 0")
    case True
    then have "le_by cmp y x" by (simp add: le_by_def)
    with True tail Cons.IH show ?thesis by (simp add: in_set)
  next
    case False
    from flip [OF False] have "le_by cmp x y" by (simp add: le_by_def)
    moreover have "\<forall>z \<in> set ys. le_by cmp x z"
      using flip [OF False] tail(1) trans unfolding le_by_def by blast
    ultimately show ?thesis using False Cons.prems by simp
  qed
qed

lemma sort_by_sorted: "comparator cmp \<Longrightarrow> sorted_wrt (le_by cmp) (sort_by cmp xs)"
  by (induction xs) (simp_all add: insert_by_sorted)

lemma sorted_by_unique:
  assumes "comparator cmp" and "separates cmp (set xs)"
    and "sorted_wrt (le_by cmp) xs" "sorted_wrt (le_by cmp) ys" "mset xs = mset ys"
  shows "xs = ys"
  using assms(2-5)
proof (induction xs arbitrary: ys)
  case Nil
  then show ?case by simp
next
  case (Cons x xs)
  then obtain y zs where ys: "ys = y # zs" by (cases ys) auto
  have "x \<in> set ys" "y \<in> set (x # xs)"
    using Cons.prems(4) ys by (metis list.set_intros(1) set_mset_mset)+
  have "le_by cmp x y" if "y \<noteq> x" using Cons.prems(2) \<open>y \<in> set (x # xs)\<close> that by auto
  moreover have "le_by cmp y x" if "y \<noteq> x" using Cons.prems(3) ys \<open>x \<in> set ys\<close> that by auto
  ultimately have "x = y"
    using Cons.prems(1) \<open>y \<in> set (x # xs)\<close> assms(1)
      comparator_antisym [OF assms(1), of x y]
    unfolding separates_def le_by_def by (metis list.set_intros(1))
  moreover have "xs = zs"
    using Cons.IH [of zs] Cons.prems ys \<open>x = y\<close> by (auto simp: separates_def)
  ultimately show ?case using ys by simp
qed

lemma sort_by_perm:
  assumes "comparator cmp" and "separates cmp (set xs)" and "mset xs = mset ys"
  shows "sort_by cmp xs = sort_by cmp ys"
  using sorted_by_unique [of cmp "sort_by cmp xs" "sort_by cmp ys"] assms
  by (simp add: sort_by_sorted)

lemma insert_by_first:
  assumes "comparator cmp" and "\<forall>y \<in> set ys. le_by cmp x y"
  shows "insert_by cmp x ys = x # ys"
proof (cases ys)
  case (Cons y zs)
  with assms(2) have "cmp x y \<le> 0" by (simp add: le_by_def)
  then have "\<not> cmp y x < 0" using assms(1) unfolding comparator_def by (metis not_less)
  with Cons show ?thesis by simp
qed simp

lemma sort_by_id: "comparator cmp \<Longrightarrow> sorted_wrt (le_by cmp) xs \<Longrightarrow> sort_by cmp xs = xs"
  by (induction xs) (simp_all add: insert_by_first)

text \<open>A comparator of keys compares rows; it separates rows whose keys are distinct.\<close>

lemma comparator_key: "comparator cmp \<Longrightarrow> comparator (\<lambda>x y. cmp (f x) (f y))"
  unfolding comparator_def by blast

lemma separates_key:
  assumes "separates cmp UNIV" and "distinct (map f xs)"
  shows "separates (\<lambda>x y. cmp (f x) (f y)) (set xs)"
  using assms by (auto simp: separates_def distinct_map dest: inj_onD)

text \<open>Comparison of code units, a comparator to run the definitions with.\<close>

fun code_unit_compare :: "string \<Rightarrow> string \<Rightarrow> int" where
  "code_unit_compare [] [] = 0"
| "code_unit_compare [] (d # ds) = -1"
| "code_unit_compare (c # cs) [] = 1"
| "code_unit_compare (c # cs) (d # ds) =
     (if c = d then code_unit_compare cs ds else if code c < code d then -1 else 1)"

lemma code_unit_compare_zero: "code_unit_compare s t = 0 \<longleftrightarrow> s = t"
  by (induction s t rule: code_unit_compare.induct) auto

lemma code_unit_compare_flip: "code_unit_compare t s = - code_unit_compare s t"
  by (induction s t rule: code_unit_compare.induct) (auto simp: code_inj [symmetric])

lemma code_unit_compare_trans:
  "code_unit_compare s t \<le> 0 \<Longrightarrow> code_unit_compare t u \<le> 0 \<Longrightarrow> code_unit_compare s u \<le> 0"
proof (induction s t arbitrary: u rule: code_unit_compare.induct)
  case (4 c cs d ds)
  then show ?case by (cases u) (auto split: if_splits)
next
  case (2 d ds)
  then show ?case by (cases u) simp_all
qed auto

lemma comparator_code_units: "comparator code_unit_compare"
  unfolding comparator_def
  using code_unit_compare_zero code_unit_compare_flip code_unit_compare_trans
  by (metis neg_0_less_iff_less neg_less_0_iff_less)

lemma separates_code_units: "separates code_unit_compare UNIV"
  by (simp add: separates_def code_unit_compare_zero)

end
