(* ===== verification/Progress_Key.thy ===== *)
theory Progress_Key
  imports Js_Json Plan_Model
begin

text \<open>
  The semantic progress key of the supervision protocol (semanticProgressKey and its helpers in
  supervision-protocol.ts): canonical facts, printed as JSON text and compared for equality.
  \<open>collate\<close> stands for \<open>localeCompare\<close>.
\<close>

subsection \<open>Facts\<close>

record plan_facts =
  pf_identity :: string
  pf_fingerprint :: string
  pf_position :: "string option"

record interaction_fact =
  in_id :: string
  in_kind :: string
  in_state :: string

record owned_process =
  op_id :: string
  op_state :: string
  op_owner :: int

record child_process =
  cp_id :: string
  cp_state :: string
  cp_ownership :: string

record child_fact =
  cf_id :: string
  cf_thread :: "string option"
  cf_task :: "string option"
  cf_position :: "string option"
  cf_generation :: int
  cf_state :: string
  cf_outcome :: "string option"
  cf_processes :: "child_process list"

record agent_observation =
  ao_agent :: string
  ao_sequence :: int
  ao_state :: string

record progress_facts =
  sf_plan :: plan_facts
  sf_review :: "review_status option"
  sf_pending_turn :: "string option"
  sf_review_accepted :: bool
  sf_interactions :: "interaction_fact list"
  sf_executor_generation :: int
  sf_executor_state :: "string option"
  sf_processes :: "owned_process list"
  sf_children :: "child_fact list"
  sf_agents :: "agent_observation list"

subsection \<open>Canonical values\<close>

fun opt_json :: "string option \<Rightarrow> json" where
  "opt_json None = ONull"
| "opt_json (Some s) = OText s"

definition plan_json :: "plan_facts \<Rightarrow> json" where
  "plan_json p = OObj [(''identity'', OText (pf_identity p)),
     (''fingerprint'', OText (pf_fingerprint p)), (''currentPosition'', opt_json (pf_position p))]"

fun review_json :: "review_status option \<Rightarrow> json" where
  "review_json None = ONull"
| "review_json (Some UNREVIEWED) = OText ''UNREVIEWED''"
| "review_json (Some REVIEWED) = OText ''REVIEWED''"

definition interaction_json :: "interaction_fact \<Rightarrow> json" where
  "interaction_json i = OObj [(''id'', OText (in_id i)), (''kind'', OText (in_kind i)),
     (''state'', OText (in_state i))]"

definition process_json :: "owned_process \<Rightarrow> json" where
  "process_json p = OObj [(''id'', OText (op_id p)), (''state'', OText (op_state p)),
     (''ownerGeneration'', OInt (op_owner p))]"

definition child_process_json :: "child_process \<Rightarrow> json" where
  "child_process_json p = OObj [(''id'', OText (cp_id p)), (''state'', OText (cp_state p)),
     (''ownership'', OText (cp_ownership p))]"

text \<open>\<open>canonicalCompare\<close> compares the JSON texts of two values.\<close>

definition canonicalCompare :: "(string \<Rightarrow> string \<Rightarrow> int) \<Rightarrow> json \<Rightarrow> json \<Rightarrow> int" where
  "canonicalCompare collate x y = collate (json_text x) (json_text y)"

definition child_json :: "(string \<Rightarrow> string \<Rightarrow> int) \<Rightarrow> child_fact \<Rightarrow> json" where
  "child_json collate c = OObj
     [(''id'', OText (cf_id c)), (''threadId'', opt_json (cf_thread c)),
      (''taskName'', opt_json (cf_task c)), (''position'', opt_json (cf_position c)),
      (''generation'', OInt (cf_generation c)), (''state'', OText (cf_state c)),
      (''outcome'', opt_json (cf_outcome c)),
      (''ownedProcesses'',
        OArr (take 32 (sort_by (canonicalCompare collate)
               (map child_process_json (cf_processes c)))))]"

definition canonicalChildActivity :: "(string \<Rightarrow> string \<Rightarrow> int) \<Rightarrow> child_fact list \<Rightarrow> json list" where
  "canonicalChildActivity collate children =
     take 64 (sort_by (canonicalCompare collate) (map (child_json collate) children))"

subsection \<open>The latest observation of each agent\<close>

definition replaces ::
  "(string \<Rightarrow> string \<Rightarrow> int) \<Rightarrow> agent_observation \<Rightarrow> agent_observation \<Rightarrow> bool" where
  "replaces collate ob current \<longleftrightarrow>
     ao_sequence ob > ao_sequence current
     \<or> (ao_sequence ob = ao_sequence current \<and> collate (ao_state ob) (ao_state current) < 0)"

text \<open>\<open>latest.set\<close>: a new agent is appended, a known one keeps its place.\<close>

definition latest_step ::
  "(string \<Rightarrow> string \<Rightarrow> int) \<Rightarrow> agent_observation list \<Rightarrow> agent_observation
     \<Rightarrow> agent_observation list" where
  "latest_step collate latest ob =
     (case List.find (\<lambda>r. ao_agent r = ao_agent ob) latest of
        None \<Rightarrow> latest @ [ob]
      | Some current \<Rightarrow>
          if replaces collate ob current
          then update_where (\<lambda>r. ao_agent r = ao_agent ob) (\<lambda>_. ob) latest
          else latest)"

definition latestAgentActivity ::
  "(string \<Rightarrow> string \<Rightarrow> int) \<Rightarrow> agent_observation list \<Rightarrow> agent_observation list" where
  "latestAgentActivity collate observations =
     sort_by (\<lambda>x y. collate (ao_agent x) (ao_agent y)) (foldl (latest_step collate) [] observations)"

definition agent_json :: "agent_observation \<Rightarrow> json" where
  "agent_json a = OObj [(''agentId'', OText (ao_agent a)), (''sequence'', OInt (ao_sequence a)),
     (''state'', OText (ao_state a))]"

definition canonical_facts :: "(string \<Rightarrow> string \<Rightarrow> int) \<Rightarrow> progress_facts \<Rightarrow> json" where
  "canonical_facts collate f = OObj
     [(''plan'', plan_json (sf_plan f)),
      (''review'', OObj [(''status'', review_json (sf_review f))]),
      (''checkpoint'', OObj [(''pendingTurnId'', opt_json (sf_pending_turn f)),
         (''terminalReviewAccepted'', OBool (sf_review_accepted f))]),
      (''pendingInteractions'',
        OArr (map interaction_json
          (sort_by (\<lambda>x y. collate (in_id x) (in_id y)) (sf_interactions f)))),
      (''executor'', OObj [(''generation'', OInt (sf_executor_generation f)),
         (''state'', opt_json (sf_executor_state f))]),
      (''ownedProcesses'',
        OArr (map process_json (sort_by (\<lambda>x y. collate (op_id x) (op_id y)) (sf_processes f)))),
      (''childActivity'', OArr (canonicalChildActivity collate (sf_children f))),
      (''agentActivity'', OArr (map agent_json (latestAgentActivity collate (sf_agents f))))]"

definition semanticProgressKey :: "(string \<Rightarrow> string \<Rightarrow> int) \<Rightarrow> progress_facts \<Rightarrow> string" where
  "semanticProgressKey collate f = json_text (canonical_facts collate f)"

subsection \<open>Facts about the latest observations\<close>

lemma latest_step_cases:
  assumes "keys_distinct ao_agent rows"
  shows "keys_distinct ao_agent (latest_step collate rows ob)
    \<and> set (latest_step collate rows ob) \<subseteq> insert ob (set rows)
    \<and> ao_agent ` set (latest_step collate rows ob) = insert (ao_agent ob) (ao_agent ` set rows)"
proof (cases "List.find (\<lambda>r. ao_agent r = ao_agent ob) rows")
  case None
  then have "latest_step collate rows ob = rows @ [ob]" by (simp add: latest_step_def)
  moreover from None have "ao_agent ob \<notin> ao_agent ` set rows" by (simp only: find_key_None not_False_eq_True)
  ultimately show ?thesis using assms by (auto simp: keys_distinct_append1)
next
  case (Some cur)
  note cur = find_key_Some [OF Some]
  show ?thesis
  proof (cases "replaces collate ob cur")
    case True
    let ?upd = "update_where (\<lambda>r. ao_agent r = ao_agent ob) (\<lambda>_. ob) rows"
    have keys: "map ao_agent ?upd = map ao_agent rows"
      by (intro map_update_where) simp
    have "ao_agent ` set ?upd = ao_agent ` set rows"
      using arg_cong [OF keys, of set] by simp
    moreover have "keys_distinct ao_agent ?upd" using assms keys by (simp add: keys_distinct_def)
    moreover have "set ?upd \<subseteq> insert ob (set rows)" by (auto simp: in_set_update_where)
    moreover have "ao_agent ob \<in> ao_agent ` set rows" using cur by (metis imageI)
    ultimately show ?thesis using Some True by (simp add: latest_step_def insert_absorb)
  next
    case False
    moreover have "ao_agent ob \<in> ao_agent ` set rows" using cur by (metis imageI)
    ultimately show ?thesis using Some assms by (auto simp: latest_step_def insert_absorb)
  qed
qed

text \<open>Every observation seen is no newer than the row kept for its agent.\<close>

definition kept_latest ::
  "(string \<Rightarrow> string \<Rightarrow> int) \<Rightarrow> agent_observation list \<Rightarrow> agent_observation list \<Rightarrow> bool" where
  "kept_latest collate seen rows \<longleftrightarrow>
     (\<forall>ob \<in> set seen. \<exists>r \<in> set rows. ao_agent r = ao_agent ob \<and> \<not> replaces collate ob r)"

lemma replaces_irrefl: "comparator collate \<Longrightarrow> \<not> replaces collate ob ob"
  by (simp add: replaces_def comparator_def)

lemma replaces_trans:
  assumes "comparator collate" and "replaces collate a b" and "\<not> replaces collate c b"
  shows "\<not> replaces collate c a"
proof
  assume "replaces collate c a"
  moreover have "collate (ao_state c) (ao_state b) < 0"
    if "collate (ao_state c) (ao_state a) < 0" "collate (ao_state a) (ao_state b) < 0"
    using assms(1) that unfolding comparator_def by (metis less_imp_le not_less)
  ultimately show False using assms(2,3) by (auto simp: replaces_def)
qed

lemma latest_step_kept:
  assumes "comparator collate" and "keys_distinct ao_agent rows" and "kept_latest collate seen rows"
  shows "kept_latest collate (seen @ [ob]) (latest_step collate rows ob)"
proof (cases "List.find (\<lambda>r. ao_agent r = ao_agent ob) rows")
  case None
  with assms show ?thesis
    using replaces_irrefl [OF assms(1)] by (auto simp: latest_step_def kept_latest_def)
next
  case (Some cur)
  note cur = find_key_Some [OF Some]
  show ?thesis
  proof (cases "replaces collate ob cur")
    case False
    with Some cur assms show ?thesis by (auto simp: latest_step_def kept_latest_def)
  next
    case True
    let ?upd = "update_where (\<lambda>r. ao_agent r = ao_agent ob) (\<lambda>_. ob) rows"
    have ob: "ob \<in> set ?upd" using cur by (auto simp: in_set_update_where)
    have "\<exists>r \<in> set ?upd. ao_agent r = ao_agent o' \<and> \<not> replaces collate o' r" if o': "o' \<in> set seen" for o'
    proof -
      obtain r where r: "r \<in> set rows" "ao_agent r = ao_agent o'" "\<not> replaces collate o' r"
        using assms(3) o' by (auto simp: kept_latest_def)
      show ?thesis
      proof (cases "ao_agent r = ao_agent ob")
        case same: True
        then have "r = cur" using keys_distinct_inj [OF assms(2)] r(1) cur by metis
        with r have "\<not> replaces collate o' ob" using replaces_trans [OF assms(1) True] by blast
        with ob r(2) same show ?thesis by auto
      next
        case False
        with r show ?thesis by (auto simp: in_set_update_where intro!: bexI [of _ r])
      qed
    qed
    then show ?thesis
      using Some True ob replaces_irrefl [OF assms(1)] by (auto simp: latest_step_def kept_latest_def)
  qed
qed

lemma latest_fold:
  assumes "comparator collate"
  shows "keys_distinct ao_agent (foldl (latest_step collate) [] obs)
    \<and> set (foldl (latest_step collate) [] obs) \<subseteq> set obs
    \<and> kept_latest collate obs (foldl (latest_step collate) [] obs)"
proof (induction obs rule: rev_induct)
  case Nil
  show ?case by (simp add: kept_latest_def)
next
  case (snoc ob obs)
  then show ?case
    using latest_step_cases [of "foldl (latest_step collate) [] obs" collate ob]
      latest_step_kept [OF assms, of _ obs ob] by auto
qed

lemma latest_unique:
  assumes "comparator collate" and "separates collate UNIV" and "set obs = set obs'"
    and "r \<in> set (foldl (latest_step collate) [] obs)"
  shows "r \<in> set (foldl (latest_step collate) [] obs')"
proof -
  note one = latest_fold [OF assms(1), of obs] and two = latest_fold [OF assms(1), of obs']
  from one two assms(3,4) obtain r' where r': "r' \<in> set (foldl (latest_step collate) [] obs')"
    "ao_agent r' = ao_agent r" "\<not> replaces collate r r'"
    unfolding kept_latest_def by blast
  with one two assms(3) obtain r'' where r'': "r'' \<in> set (foldl (latest_step collate) [] obs)"
    "ao_agent r'' = ao_agent r'" "\<not> replaces collate r' r''"
    unfolding kept_latest_def by blast
  have "r'' = r" using keys_distinct_inj [of ao_agent] one r'' r'(2) assms(4) by metis
  with r' r'' have "ao_sequence r = ao_sequence r'"
    and "\<not> collate (ao_state r) (ao_state r') < 0" "\<not> collate (ao_state r') (ao_state r) < 0"
    by (auto simp: replaces_def)
  moreover from this have "ao_state r = ao_state r'"
    using comparator_antisym [OF assms(1), of "ao_state r" "ao_state r'"] comparator_flip [OF assms(1)]
      assms(2) by (auto simp: separates_def)
  ultimately have "r = r'" using r'(2) by (intro agent_observation.equality) simp_all
  with r'(1) show ?thesis by simp
qed

lemma latestAgentActivity_perm:
  assumes "comparator collate" and "separates collate UNIV" and "mset obs = mset obs'"
  shows "latestAgentActivity collate obs = latestAgentActivity collate obs'"
proof -
  let ?l = "foldl (latest_step collate) []"
  have sets: "set obs = set obs'" using assms(3) by (metis set_mset_mset)
  have d: "distinct (map ao_agent (?l obs))" "distinct (map ao_agent (?l obs'))"
    using latest_fold [OF assms(1)] by (simp_all add: keys_distinct_def)
  have "set (?l obs) = set (?l obs')"
    using latest_unique [OF assms(1,2) sets] latest_unique [OF assms(1,2) sets [symmetric]] by blast
  then have "mset (?l obs) = mset (?l obs')"
    using d by (metis distinct_map set_eq_iff_mset_eq_distinct)
  then show ?thesis
    unfolding latestAgentActivity_def
    using sort_by_perm [OF comparator_key [OF assms(1)] separates_key [OF assms(2) d(1)]] by blast
qed

subsection \<open>What the key tells\<close>

lemma opt_json_inj [simp]: "opt_json a = opt_json b \<longleftrightarrow> a = b"
  by (cases a; cases b) simp_all

lemma review_json_inj [simp]: "review_json a = review_json b \<longleftrightarrow> a = b"
  by (cases a rule: review_json.cases; cases b rule: review_json.cases) simp_all

lemma map_json_inj:
  assumes "\<And>x y. f x = f y \<Longrightarrow> x = y"
  shows "map f xs = map f ys \<longleftrightarrow> xs = ys"
  using assms by (simp add: inj_map_eq_map inj_def)

lemma row_json_inj:
  "plan_json p = plan_json q \<Longrightarrow> p = q" "interaction_json i = interaction_json j \<Longrightarrow> i = j"
  "process_json a = process_json b \<Longrightarrow> a = b" "agent_json c = agent_json d \<Longrightarrow> c = d"
  by (simp_all add: plan_json_def interaction_json_def process_json_def agent_json_def)

text \<open>
  The progress key is faithful: two snapshots with the same key have the same plan
  identity, fingerprint and position, review status, checkpoint, executor, pending
  interactions, owned processes, and latest observation per agent.
\<close>

theorem equal_keys_equal_facts:
  assumes "semanticProgressKey collate f = semanticProgressKey collate g"
  shows "sf_plan f = sf_plan g \<and> sf_review f = sf_review g
    \<and> sf_pending_turn f = sf_pending_turn g \<and> sf_review_accepted f = sf_review_accepted g
    \<and> sf_executor_generation f = sf_executor_generation g
    \<and> sf_executor_state f = sf_executor_state g
    \<and> mset (sf_interactions f) = mset (sf_interactions g)
    \<and> mset (sf_processes f) = mset (sf_processes g)
    \<and> latestAgentActivity collate (sf_agents f) = latestAgentActivity collate (sf_agents g)"
proof -
  have eq: "canonical_facts collate f = canonical_facts collate g"
    using assms by (simp add: semanticProgressKey_def json_text_inj)
  have sorted: "sort_by (\<lambda>x y. collate (in_id x) (in_id y)) (sf_interactions f)
      = sort_by (\<lambda>x y. collate (in_id x) (in_id y)) (sf_interactions g)"
    "sort_by (\<lambda>x y. collate (op_id x) (op_id y)) (sf_processes f)
      = sort_by (\<lambda>x y. collate (op_id x) (op_id y)) (sf_processes g)"
    "latestAgentActivity collate (sf_agents f) = latestAgentActivity collate (sf_agents g)"
    using eq by (simp_all add: canonical_facts_def map_json_inj row_json_inj)
  from arg_cong [OF sorted(1), of mset] arg_cong [OF sorted(2), of mset] sorted(3) eq
  show ?thesis by (simp add: canonical_facts_def row_json_inj)
qed

definition sample_facts :: progress_facts where
  "sample_facts = \<lparr> sf_plan = \<lparr> pf_identity = ''p'', pf_fingerprint = ''f'', pf_position = None \<rparr>,
     sf_review = None, sf_pending_turn = None, sf_review_accepted = False, sf_interactions = [],
     sf_executor_generation = 1, sf_executor_state = None, sf_processes = [], sf_children = [],
     sf_agents = [\<lparr> ao_agent = ''a'', ao_sequence = 1, ao_state = ''x'' \<rparr>,
                  \<lparr> ao_agent = ''a'', ao_sequence = 2, ao_state = ''y'' \<rparr>] \<rparr>"

theorem equal_keys_equal_facts_witness:
  "latestAgentActivity code_unit_compare (sf_agents sample_facts)
     = latestAgentActivity code_unit_compare [\<lparr> ao_agent = ''a'', ao_sequence = 2, ao_state = ''y'' \<rparr>]"
proof -
  let ?g = "sample_facts\<lparr>sf_agents := [\<lparr> ao_agent = ''a'', ao_sequence = 2, ao_state = ''y'' \<rparr>]\<rparr>"
  have "semanticProgressKey code_unit_compare sample_facts = semanticProgressKey code_unit_compare ?g"
    by code_simp
  from equal_keys_equal_facts [OF this] show ?thesis by simp
qed

lemma canonical_children_perm:
  assumes "comparator collate" and "separates collate UNIV" and "mset cs = mset cs'"
  shows "canonicalChildActivity collate cs = canonicalChildActivity collate cs'"
proof -
  have "sort_by (canonicalCompare collate) (map (child_json collate) cs)
      = sort_by (canonicalCompare collate) (map (child_json collate) cs')"
  proof (rule sort_by_perm)
    show "comparator (canonicalCompare collate)"
      unfolding canonicalCompare_def [abs_def] by (rule comparator_key [OF assms(1)])
    show "separates (canonicalCompare collate) (set (map (child_json collate) cs))"
      using assms(2) by (auto simp: separates_def canonicalCompare_def simp flip: json_text_inj)
    show "mset (map (child_json collate) cs) = mset (map (child_json collate) cs')"
      using assms(3) by simp
  qed
  then show ?thesis by (simp add: canonicalChildActivity_def)
qed

text \<open>
  The progress key does not depend on the order in which the facts were collected: it is
  the same for permuted interactions and processes with distinct identifiers, permuted
  children, and permuted agent observations, when the collation is a consistent order that
  separates different texts.
\<close>

theorem key_ignores_order:
  assumes "comparator collate" and "separates collate UNIV"
    and "mset (sf_interactions f) = mset is" and "distinct (map in_id (sf_interactions f))"
    and "mset (sf_processes f) = mset ps" and "distinct (map op_id (sf_processes f))"
    and "mset (sf_children f) = mset cs" and "mset (sf_agents f) = mset as"
  shows "semanticProgressKey collate
      (f\<lparr>sf_interactions := is, sf_processes := ps, sf_children := cs, sf_agents := as\<rparr>)
    = semanticProgressKey collate f"
proof -
  have "sort_by (\<lambda>x y. collate (in_id x) (in_id y)) is
      = sort_by (\<lambda>x y. collate (in_id x) (in_id y)) (sf_interactions f)"
    using sort_by_perm [OF comparator_key [OF assms(1)] separates_key [OF assms(2,4)] assms(3)] by simp
  moreover have "sort_by (\<lambda>x y. collate (op_id x) (op_id y)) ps
      = sort_by (\<lambda>x y. collate (op_id x) (op_id y)) (sf_processes f)"
    using sort_by_perm [OF comparator_key [OF assms(1)] separates_key [OF assms(2,6)] assms(5)] by simp
  moreover have "latestAgentActivity collate as = latestAgentActivity collate (sf_agents f)"
    using latestAgentActivity_perm [OF assms(1,2,8)] by simp
  moreover have "canonicalChildActivity collate cs = canonicalChildActivity collate (sf_children f)"
    using canonical_children_perm [OF assms(1,2,7)] by simp
  ultimately show ?thesis by (simp add: semanticProgressKey_def canonical_facts_def)
qed

theorem key_ignores_order_witness:
  "semanticProgressKey code_unit_compare
     (sample_facts\<lparr>sf_interactions := [], sf_processes := [], sf_children := [],
        sf_agents := [\<lparr> ao_agent = ''a'', ao_sequence = 2, ao_state = ''y'' \<rparr>,
                      \<lparr> ao_agent = ''a'', ao_sequence = 1, ao_state = ''x'' \<rparr>]\<rparr>)
   = semanticProgressKey code_unit_compare sample_facts"
  by (rule key_ignores_order [OF comparator_code_units separates_code_units])
     (simp_all add: sample_facts_def add_mset_commute)

end
