(* ===== verification/Supervision_Protocol.thy ===== *)
theory Supervision_Protocol
  imports Js_Value
begin

text \<open>
  The durable supervision protocol
  (src/server/features/autopilot/domain/supervision-protocol.ts): which work survives a
  lifecycle boundary, the semantic progress key, and the state machine of automatic
  continuations, probes, waits, retries and pauses. \<open>Date.parse\<close> and \<open>localeCompare\<close> depend on
  the host and are parameters (\<open>date_parse\<close> yields \<open>None\<close> for \<open>NaN\<close>).
\<close>

subsection \<open>Lifecycle boundaries\<close>

datatype wake_condition =
    PlanChanged | ReviewChanged | CheckpointChanged | InteractionChanged | ExecutorChanged
  | ProcessExited | ProcessResultAvailable | ProcessLimitBreached | AgentActivityChanged

datatype lifecycle_boundary =
    CheckpointPersisted | MatchingRootFinal | ProactiveWaitRegistered | WaitDeadline | ManualOff
  | ManualInterruption | ExplicitRecovery | PlanReplacement | AttentionBoundary | TerminalBoundary

datatype lifecycle_work = RootTimer | ExecutorTimer | WaitLease | PendingCheckpoint | ManualAction
datatype lifecycle_disposition = Cancel | Consume | Preserve | Arm

definition cancelledAtEveryBoundary :: "lifecycle_boundary list" where
  "cancelledAtEveryBoundary =
     [CheckpointPersisted, MatchingRootFinal, ProactiveWaitRegistered, WaitDeadline, ManualOff,
      ManualInterruption, ExplicitRecovery, PlanReplacement, AttentionBoundary, TerminalBoundary]"

fun lifecycleBoundaryDisposition ::
  "lifecycle_boundary \<Rightarrow> lifecycle_work \<Rightarrow> lifecycle_disposition" where
  "lifecycleBoundaryDisposition b RootTimer =
     (if b = MatchingRootFinal then Arm
      else if b \<in> set cancelledAtEveryBoundary then Cancel else Preserve)"
| "lifecycleBoundaryDisposition b ExecutorTimer =
     (if b \<in> set cancelledAtEveryBoundary then Cancel else Preserve)"
| "lifecycleBoundaryDisposition b WaitLease =
     (if b = ProactiveWaitRegistered then Preserve else Consume)"
| "lifecycleBoundaryDisposition b PendingCheckpoint =
     (if b = CheckpointPersisted \<or> b = MatchingRootFinal then Preserve else Cancel)"
| "lifecycleBoundaryDisposition b ManualAction =
     (if b = ManualInterruption \<or> b = ExplicitRecovery then Preserve else Cancel)"

lemma every_boundary_cancels: "b \<in> set cancelledAtEveryBoundary"
  by (cases b) (simp_all add: cancelledAtEveryBoundary_def)

text \<open>
  No timer survives a boundary: the root timer is armed by the root's own final and
  cancelled by every other boundary, the executor timer is always cancelled, nothing else is
  ever armed, and a wait lease outlives only the boundary that registers it.
\<close>

theorem no_timer_survives_a_boundary:
  "(lifecycleBoundaryDisposition b w = Arm \<longleftrightarrow> b = MatchingRootFinal \<and> w = RootTimer)
   \<and> lifecycleBoundaryDisposition b ExecutorTimer = Cancel
   \<and> lifecycleBoundaryDisposition b RootTimer \<in> {Arm, Cancel}
   \<and> (lifecycleBoundaryDisposition b WaitLease = Preserve \<longleftrightarrow> b = ProactiveWaitRegistered)"
  by (cases w) (simp_all add: every_boundary_cancels)

subsection \<open>State\<close>

datatype protocol_outcome =
    ProtoActive | ProbeRequired | Parked | Retrying | AttentionRequired | SafetyPaused

datatype pause_reason = RetryRecurrence | InvalidProbeReport

datatype wake_cause_kind = OnCondition wake_condition | OnDeadline

record acknowledged_revision =
  ack_revision :: string
  ack_control :: string
  ack_turn :: string

record wake_cause =
  wc_condition :: wake_cause_kind
  wc_lease :: string
  wc_run :: "string option"

record wait_lease =
  wl_id :: string
  wl_run :: "string option"
  wl_probe :: string
  wl_conditions :: "wake_condition list"
  wl_resume :: "string option"

text \<open>\<open>ps_wake\<close> keeps \<open>undefined\<close> (\<open>None\<close>) apart from \<open>null\<close> (\<open>Some None\<close>).\<close>

record protocol_state =
  ps_ack :: "acknowledged_revision option"
  ps_wake :: "wake_cause option option"
  ps_outcome :: protocol_outcome
  ps_progress :: string
  ps_unchanged :: nat
  ps_probe :: "string option"
  ps_last_report :: "string option"
  ps_lease :: "wait_lease option"
  ps_retry :: "string option"
  ps_pause :: "pause_reason option"

definition startSupervisionProtocol :: "string \<Rightarrow> protocol_state" where
  "startSupervisionProtocol progressKey =
     \<lparr> ps_ack = None, ps_wake = None, ps_outcome = ProtoActive, ps_progress = progressKey,
       ps_unchanged = 0, ps_probe = None, ps_last_report = None, ps_lease = None,
       ps_retry = None, ps_pause = None \<rparr>"

text \<open>\<open>{ ...startSupervisionProtocol(key), lastReportId }\<close>.\<close>

definition restart_keeping_report :: "string \<Rightarrow> protocol_state \<Rightarrow> protocol_state" where
  "restart_keeping_report key s =
     (startSupervisionProtocol key)\<lparr>ps_last_report := ps_last_report s\<rparr>"

subsection \<open>Automatic continuations\<close>

definition recordAutomaticContinuation :: "protocol_state \<Rightarrow> string \<Rightarrow> protocol_state" where
  "recordAutomaticContinuation s progressKey =
     (if ps_outcome s = Parked \<or> ps_outcome s = AttentionRequired \<or> ps_outcome s = SafetyPaused
      then s
      else if ps_outcome s = ProbeRequired \<and> Some progressKey = ps_probe s
      then s\<lparr>ps_outcome := SafetyPaused, ps_pause := Some InvalidProbeReport\<rparr>
      else if ps_outcome s = Retrying \<and> Some progressKey = ps_retry s
      then (if ps_unchanged s = 0 then s\<lparr>ps_unchanged := 1\<rparr>
            else s\<lparr>ps_outcome := SafetyPaused, ps_pause := Some RetryRecurrence\<rparr>)
      else if progressKey \<noteq> ps_progress s
      then restart_keeping_report progressKey s
      else let n = min 3 (ps_unchanged s + 1) in
           if n = 3 \<and> ps_probe s \<noteq> Some progressKey
           then s\<lparr>ps_unchanged := n, ps_outcome := ProbeRequired, ps_probe := Some progressKey\<rparr>
           else s\<lparr>ps_unchanged := n\<rparr>)"

subsection \<open>Waits and probes\<close>

definition condition_names :: "(string \<times> wake_condition) list" where
  "condition_names =
     [(''planChanged'', PlanChanged), (''reviewChanged'', ReviewChanged),
      (''checkpointChanged'', CheckpointChanged), (''interactionChanged'', InteractionChanged),
      (''executorChanged'', ExecutorChanged), (''processExited'', ProcessExited),
      (''processResultAvailable'', ProcessResultAvailable),
      (''processLimitBreached'', ProcessLimitBreached),
      (''agentActivityChanged'', AgentActivityChanged)]"

fun unique_first :: "'a list \<Rightarrow> 'a list" where
  "unique_first [] = []"
| "unique_first (x # xs) = x # filter (\<lambda>y. y \<noteq> x) (unique_first xs)"

lemma set_unique_first [simp]: "set (unique_first xs) = set xs"
  by (induction xs) auto

lemma distinct_unique_first [simp]: "distinct (unique_first xs)"
  by (induction xs) auto

lemma unique_first_id [simp]: "distinct xs \<Longrightarrow> unique_first xs = xs"
proof (induction xs)
  case (Cons x xs)
  then show ?case by (simp add: filter_id_conv) metis
qed simp

lemma length_unique_first: "length (unique_first xs) \<le> length xs"
  by (induction xs) (auto intro: order_trans [OF length_filter_le])

text \<open>
  \<open>[...new Set(conditions)]\<close> filtered to the supported names. A report may carry any value in
  the array; values that are no name of the table disappear, and equal names merge.
\<close>

definition uniqueSupportedWakeConditions :: "jv list \<Rightarrow> wake_condition list" where
  "uniqueSupportedWakeConditions conditions =
     unique_first (List.map_filter (enum_value condition_names) conditions)"

definition run_condition :: "wake_condition \<Rightarrow> bool" where
  "run_condition c \<longleftrightarrow> c = ProcessExited \<or> c = ProcessResultAvailable"

text \<open>The expression \<open>^[a-f0-9]{8}(-[a-f0-9]{4}){3}-[a-f0-9]{12}$\<close>, ignoring case.\<close>

definition is_uuid :: "string \<Rightarrow> bool" where
  "is_uuid s \<longleftrightarrow>
     map length (split_on (CHR ''-'') s) = [8, 4, 4, 4, 12]
     \<and> list_all (list_all is_hex) (split_on (CHR ''-'') s)"

definition validRunWait :: "string \<Rightarrow> wake_condition list \<Rightarrow> bool" where
  "validRunWait runId conditions \<longleftrightarrow> is_uuid runId \<and> list_ex run_condition conditions"

record wait_report =
  wr_id :: string
  wr_run :: "string option"
  wr_lease :: string
  wr_conditions :: "jv list"
  wr_resume :: string

definition registerProactiveWait ::
  "(string \<Rightarrow> int option) \<Rightarrow> protocol_state \<Rightarrow> wait_report \<Rightarrow> protocol_state" where
  "registerProactiveWait date_parse s report =
     (if ps_last_report s = Some (wr_id report) \<or> ps_outcome s = Parked
         \<or> ps_outcome s = AttentionRequired \<or> ps_outcome s = SafetyPaused
         \<or> date_parse (wr_resume report) = None
      then s
      else let conditions = uniqueSupportedWakeConditions (wr_conditions report) in
           if \<not> truthy (wr_lease report) \<or> conditions = [] then s
           else if (case wr_run report of None \<Rightarrow> False | Some r \<Rightarrow> \<not> validRunWait r conditions)
           then s
           else s\<lparr>ps_outcome := Parked, ps_last_report := Some (wr_id report),
                  ps_lease := Some \<lparr> wl_id = wr_lease report,
                    wl_run = (if truthy_opt (wr_run report) then wr_run report else None),
                    wl_probe = ps_progress s, wl_conditions = conditions,
                    wl_resume = Some (wr_resume report) \<rparr>\<rparr>)"

datatype probe_kind = ProbeAttention | ProbeActionable | ProbeWait string "jv list"

record probe_report =
  pr_id :: string
  pr_kind :: probe_kind

definition reportProbe :: "protocol_state \<Rightarrow> probe_report \<Rightarrow> protocol_state" where
  "reportProbe s report =
     (if ps_last_report s = Some (pr_id report) then s
      else if ps_outcome s \<noteq> ProbeRequired \<or> \<not> truthy_opt (ps_probe s) then s
      else case pr_kind report of
             ProbeAttention \<Rightarrow>
               s\<lparr>ps_outcome := AttentionRequired, ps_last_report := Some (pr_id report)\<rparr>
           | ProbeActionable \<Rightarrow>
               (startSupervisionProtocol (ps_progress s))\<lparr>ps_last_report := Some (pr_id report)\<rparr>
           | ProbeWait leaseId wanted \<Rightarrow>
               (let conditions = uniqueSupportedWakeConditions wanted in
                if \<not> truthy leaseId \<or> conditions = [] then s
                else s\<lparr>ps_outcome := Parked, ps_last_report := Some (pr_id report),
                       ps_lease := Some \<lparr> wl_id = leaseId, wl_run = None,
                         wl_probe = the (ps_probe s), wl_conditions = conditions,
                         wl_resume = None \<rparr>\<rparr>))"

subsection \<open>Wakes, deadlines and recovery\<close>

record observable_wake =
  ow_lease :: string
  ow_run :: "string option"
  ow_condition :: wake_condition
  ow_progress :: string

definition wake_matches :: "wait_lease \<Rightarrow> observable_wake \<Rightarrow> bool" where
  "wake_matches lease wake \<longleftrightarrow>
     ow_lease wake = wl_id lease \<and> ow_condition wake \<in> set (wl_conditions lease)
     \<and> \<not> (truthy_opt (wl_run lease) \<and> run_condition (ow_condition wake)
          \<and> ow_run wake \<noteq> wl_run lease)
     \<and> ow_progress wake \<noteq> wl_probe lease"

definition consumeObservableWake :: "protocol_state \<Rightarrow> observable_wake \<Rightarrow> protocol_state" where
  "consumeObservableWake s wake =
     (case ps_lease s of
        None \<Rightarrow> s
      | Some lease \<Rightarrow>
          if ps_outcome s \<noteq> Parked \<or> \<not> wake_matches lease wake then s
          else if truthy_opt (wl_resume lease) then restart_keeping_report (ow_progress wake) s
          else s\<lparr>ps_outcome := Retrying, ps_progress := ow_progress wake, ps_unchanged := 0,
                 ps_probe := None, ps_lease := None, ps_retry := Some (ow_progress wake)\<rparr>)"

text \<open>A comparison with \<open>NaN\<close> is false, so an unreadable \<open>resumeAt\<close> does not hold a wait back.\<close>

definition date_before :: "int option \<Rightarrow> int option \<Rightarrow> bool" where
  "date_before a b = (case (a, b) of (Some x, Some y) \<Rightarrow> x < y | _ \<Rightarrow> False)"

definition consumeWaitDeadline ::
  "(string \<Rightarrow> int option) \<Rightarrow> protocol_state \<Rightarrow> string \<Rightarrow> string \<Rightarrow> protocol_state" where
  "consumeWaitDeadline date_parse s leaseId observedAt =
     (case ps_lease s of
        None \<Rightarrow> s
      | Some lease \<Rightarrow>
          if ps_outcome s \<noteq> Parked \<or> \<not> truthy_opt (wl_resume lease) \<or> wl_id lease \<noteq> leaseId
             \<or> date_parse observedAt = None
             \<or> date_before (date_parse observedAt) (date_parse (the (wl_resume lease)))
          then s
          else restart_keeping_report (ps_progress s) s)"

definition consumeObsoleteWait :: "protocol_state \<Rightarrow> string \<Rightarrow> protocol_state" where
  "consumeObsoleteWait s progressKey =
     (if ps_outcome s = AttentionRequired \<or> ps_outcome s = SafetyPaused
      then s\<lparr>ps_progress := progressKey, ps_probe := None, ps_lease := None, ps_retry := None\<rparr>
      else restart_keeping_report progressKey s)"

definition consumeCheckpointBoundary :: "protocol_state \<Rightarrow> string \<Rightarrow> protocol_state" where
  "consumeCheckpointBoundary s progressKey = consumeObsoleteWait s progressKey"

definition recoverSafetyPause :: "protocol_state \<Rightarrow> string \<Rightarrow> protocol_state" where
  "recoverSafetyPause s progressKey =
     (if ps_outcome s = SafetyPaused then startSupervisionProtocol progressKey else s)"

lemmas protocol_operations =
  recordAutomaticContinuation_def registerProactiveWait_def reportProbe_def
  consumeObservableWake_def consumeWaitDeadline_def consumeObsoleteWait_def
  consumeCheckpointBoundary_def recoverSafetyPause_def

declare startSupervisionProtocol_def [proto_simps] restart_keeping_report_def [proto_simps]

subsection \<open>The state machine\<close>

datatype protocol_event =
    Continuation string
  | WaitReported wait_report
  | ProbeReported probe_report
  | WakeObserved observable_wake
  | DeadlineReached string string
  | WaitObsolete string
  | CheckpointReached string
  | Recovered string

fun protocol_step :: "(string \<Rightarrow> int option) \<Rightarrow> protocol_state \<Rightarrow> protocol_event \<Rightarrow> protocol_state" where
  "protocol_step dp s (Continuation key) = recordAutomaticContinuation s key"
| "protocol_step dp s (WaitReported r) = registerProactiveWait dp s r"
| "protocol_step dp s (ProbeReported r) = reportProbe s r"
| "protocol_step dp s (WakeObserved w) = consumeObservableWake s w"
| "protocol_step dp s (DeadlineReached l t) = consumeWaitDeadline dp s l t"
| "protocol_step dp s (WaitObsolete key) = consumeObsoleteWait s key"
| "protocol_step dp s (CheckpointReached key) = consumeCheckpointBoundary s key"
| "protocol_step dp s (Recovered key) = recoverSafetyPause s key"

fun is_recovery :: "protocol_event \<Rightarrow> bool" where
  "is_recovery (Recovered key) = True"
| "is_recovery _ = False"

text \<open>
  What each outcome says about the other fields: a lease exists exactly while parked, a pause
  has its reason, a probe is due for the present key after three unchanged continuations, and
  a retry watches the present key.
\<close>

definition lease_ok :: "wait_lease \<Rightarrow> bool" where
  "lease_ok l \<longleftrightarrow> wl_id l \<noteq> [] \<and> wl_conditions l \<noteq> [] \<and> distinct (wl_conditions l)
     \<and> (wl_run l \<noteq> None \<longrightarrow> wl_resume l \<noteq> None)"

definition protocol_ok :: "protocol_state \<Rightarrow> bool" where
  "protocol_ok s \<longleftrightarrow>
     ps_unchanged s \<le> 3
     \<and> (ps_outcome s = Parked \<longleftrightarrow> ps_lease s \<noteq> None)
     \<and> (ps_outcome s = SafetyPaused \<longleftrightarrow> ps_pause s \<noteq> None)
     \<and> (ps_outcome s = ProbeRequired \<longrightarrow> ps_probe s = Some (ps_progress s) \<and> ps_unchanged s = 3)
     \<and> (ps_outcome s = Retrying \<longrightarrow>
          ps_retry s = Some (ps_progress s) \<and> ps_unchanged s \<le> 1 \<and> ps_probe s = None)
     \<and> (ps_outcome s = ProtoActive \<longrightarrow> ps_unchanged s \<le> 2 \<and> ps_probe s = None)
     \<and> (case ps_lease s of None \<Rightarrow> True | Some l \<Rightarrow> lease_ok l)"

lemma start_fields [simp]:
  "ps_outcome (startSupervisionProtocol k) = ProtoActive"
  "ps_progress (startSupervisionProtocol k) = k" "ps_unchanged (startSupervisionProtocol k) = 0"
  "ps_pause (startSupervisionProtocol k) = None" "ps_lease (startSupervisionProtocol k) = None"
  by (simp_all add: proto_simps)

lemma start_ok [simp]: "protocol_ok (startSupervisionProtocol key)"
  by (simp add: protocol_ok_def proto_simps)

lemma restart_ok [simp]: "protocol_ok (restart_keeping_report key s)"
  by (simp add: protocol_ok_def proto_simps)

lemma restart_report_ok [simp]:
  "protocol_ok ((startSupervisionProtocol key)\<lparr>ps_last_report := r\<rparr>)"
  by (simp add: protocol_ok_def proto_simps)

lemma continuation_ok: "protocol_ok s \<Longrightarrow> protocol_ok (recordAutomaticContinuation s key)"
  by (cases "ps_outcome s") (auto simp: recordAutomaticContinuation_def Let_def protocol_ok_def proto_simps)

lemma register_wait_ok: "protocol_ok s \<Longrightarrow> protocol_ok (registerProactiveWait dp s r)"
  by (auto simp: registerProactiveWait_def Let_def protocol_ok_def lease_ok_def truthy_def
        uniqueSupportedWakeConditions_def split: option.splits)

lemma report_probe_ok: "protocol_ok s \<Longrightarrow> protocol_ok (reportProbe s r)"
proof (cases "pr_kind r")
  case (ProbeWait l cs)
  assume "protocol_ok s"
  then show ?thesis
    by (auto simp: reportProbe_def Let_def protocol_ok_def lease_ok_def truthy_def ProbeWait
          uniqueSupportedWakeConditions_def)
next
  case ProbeAttention
  assume "protocol_ok s"
  then show ?thesis by (auto simp: reportProbe_def protocol_ok_def ProbeAttention)
next
  case ProbeActionable
  assume "protocol_ok s"
  then show ?thesis by (simp add: reportProbe_def ProbeActionable)
qed

lemma wake_ok: "protocol_ok s \<Longrightarrow> protocol_ok (consumeObservableWake s w)"
  by (cases "ps_lease s")
     (auto simp: consumeObservableWake_def, simp add: protocol_ok_def)

lemma deadline_ok: "protocol_ok s \<Longrightarrow> protocol_ok (consumeWaitDeadline dp s l t)"
  by (cases "ps_lease s") (simp_all add: consumeWaitDeadline_def)

lemma obsolete_ok: "protocol_ok s \<Longrightarrow> protocol_ok (consumeObsoleteWait s key)"
  by (auto simp: consumeObsoleteWait_def) (auto simp: protocol_ok_def)

lemma recover_ok: "protocol_ok s \<Longrightarrow> protocol_ok (recoverSafetyPause s key)"
  by (simp add: recoverSafetyPause_def)

lemma protocol_step_ok: "protocol_ok s \<Longrightarrow> protocol_ok (protocol_step dp s e)"
  by (cases e) (simp_all add: continuation_ok register_wait_ok report_probe_ok wake_ok deadline_ok
                  obsolete_ok recover_ok consumeCheckpointBoundary_def)

lemma paused_step:
  "ps_outcome s = SafetyPaused \<Longrightarrow> \<not> is_recovery e \<Longrightarrow> ps_outcome (protocol_step dp s e) = SafetyPaused"
  by (cases e) (auto simp: protocol_operations split: option.splits)

lemma attention_step:
  "ps_outcome s = AttentionRequired \<Longrightarrow> ps_outcome (protocol_step dp s e) = AttentionRequired"
  by (cases e) (auto simp: protocol_operations split: option.splits)

interpretation pausing: trapping_stepper "protocol_step dp" protocol_ok
    "\<lambda>s. ps_outcome s = SafetyPaused" is_recovery for dp
  by unfold_locales (auto simp: protocol_step_ok paused_step)

interpretation attention: trapping_stepper "protocol_step dp" protocol_ok
    "\<lambda>s. ps_outcome s = AttentionRequired" "\<lambda>e. False" for dp
  by unfold_locales (auto simp: protocol_step_ok attention_step)

text \<open>
  After any sequence of events from a fresh protocol, a lease exists exactly while the
  supervisor is parked, a safety pause carries its reason, and the counters, keys and leases
  agree with the outcome.
\<close>

theorem protocol_reachable_ok:
  "protocol_ok (run_steps (protocol_step dp) (startSupervisionProtocol key) events)"
  by (rule pausing.run_inv) simp

text \<open>
  C4: a safety pause is left by an explicit recovery only, and a supervisor that asked for
  attention stays there whatever the protocol receives.
\<close>

theorem safety_pause_needs_recovery:
  assumes "ps_outcome s = SafetyPaused \<and> list_all (\<lambda>e. \<not> is_recovery e) events
           \<or> ps_outcome s = AttentionRequired"
  shows "ps_outcome (run_steps (protocol_step dp) s events) = ps_outcome s"
  using assms pausing.trapped_run [of s events dp] attention.trapped_run [of s events dp]
  by (auto simp: list_all_iff)

theorem safety_pause_needs_recovery_witness:
  "ps_outcome (run_steps (protocol_step (\<lambda>_. Some 0))
     ((startSupervisionProtocol ''k'')\<lparr>ps_outcome := SafetyPaused\<rparr>)
     [Continuation ''k'', CheckpointReached ''j'']) = SafetyPaused"
  using safety_pause_needs_recovery [of "(startSupervisionProtocol ''k'')\<lparr>ps_outcome := SafetyPaused\<rparr>"
      "[Continuation ''k'', CheckpointReached ''j'']" "\<lambda>_. Some 0"] by simp

subsection \<open>Bounded automatic work\<close>

lemma continuation_unchanged:
  "recordAutomaticContinuation (startSupervisionProtocol k) k
     = (startSupervisionProtocol k)\<lparr>ps_unchanged := Suc 0\<rparr>"
  "recordAutomaticContinuation ((startSupervisionProtocol k)\<lparr>ps_unchanged := Suc 0\<rparr>) k
     = (startSupervisionProtocol k)\<lparr>ps_unchanged := Suc (Suc 0)\<rparr>"
  "recordAutomaticContinuation ((startSupervisionProtocol k)\<lparr>ps_unchanged := Suc (Suc 0)\<rparr>) k
     = (startSupervisionProtocol k)\<lparr>ps_unchanged := Suc (Suc (Suc 0)), ps_outcome := ProbeRequired,
         ps_probe := Some k\<rparr>"
  by (simp_all add: recordAutomaticContinuation_def proto_simps)

lemma continuation_safety_paused:
  "ps_outcome s = SafetyPaused \<Longrightarrow> recordAutomaticContinuation s k = s"
  by (simp add: recordAutomaticContinuation_def)

lemma continuations_safety_paused:
  "ps_outcome s = SafetyPaused \<Longrightarrow>
     run_steps (protocol_step dp) s (replicate n (Continuation k)) = s"
  by (induction n) (simp_all add: continuation_safety_paused)

text \<open>
  C30: automatic work without progress is bounded: under an unchanged key the third continuation
  demands a probe, and one more without a report pauses the supervisor, for good.
\<close>

theorem unchanged_work_is_bounded:
  "let s = run_steps (protocol_step dp) (startSupervisionProtocol k) (replicate n (Continuation k)) in
     ps_outcome s = (if n < 3 then ProtoActive else if n = 3 then ProbeRequired else SafetyPaused)
     \<and> ps_pause s = (if n \<le> 3 then None else Some InvalidProbeReport)
     \<and> ps_unchanged s = min n 3"
proof -
  let ?run = "\<lambda>n. run_steps (protocol_step dp) (startSupervisionProtocol k) (replicate n (Continuation k))"
  have three: "?run 3 = (startSupervisionProtocol k)\<lparr>ps_unchanged := 3, ps_outcome := ProbeRequired,
      ps_probe := Some k\<rparr>"
    by (simp add: eval_nat_numeral continuation_unchanged)
  consider "n = 0" | "n = 1" | "n = 2" | "n = 3" | "n = 3 + Suc (n - 4)" by linarith
  then show ?thesis
  proof cases
    case 5
    have "recordAutomaticContinuation (?run 3) k
        = (startSupervisionProtocol k)\<lparr>ps_unchanged := 3, ps_outcome := SafetyPaused,
            ps_probe := Some k, ps_pause := Some InvalidProbeReport\<rparr>"
      unfolding three by (simp add: recordAutomaticContinuation_def)
    then have "?run (3 + Suc (n - 4)) = (startSupervisionProtocol k)\<lparr>ps_unchanged := 3,
        ps_outcome := SafetyPaused, ps_probe := Some k, ps_pause := Some InvalidProbeReport\<rparr>"
      by (simp only: replicate_add run_steps_append replicate_Suc run_steps.simps protocol_step.simps)
         (simp add: continuations_safety_paused)
    then have "?run n = (startSupervisionProtocol k)\<lparr>ps_unchanged := 3,
        ps_outcome := SafetyPaused, ps_probe := Some k, ps_pause := Some InvalidProbeReport\<rparr>"
      using 5 by simp
    moreover have "3 < n" using 5 by simp
    ultimately show ?thesis by simp
  qed (simp_all add: continuation_unchanged eval_nat_numeral)
qed

subsection \<open>Waits\<close>

text \<open>
  Reports are idempotent and wakes are consumed once: delivering the same wait report,
  probe report or wake again changes nothing.
\<close>

theorem deliveries_are_idempotent:
  "registerProactiveWait dp (registerProactiveWait dp s wait) wait = registerProactiveWait dp s wait
   \<and> reportProbe (reportProbe s probe) probe = reportProbe s probe
   \<and> consumeObservableWake (consumeObservableWake s wake) wake = consumeObservableWake s wake
   \<and> consumeWaitDeadline dp (consumeWaitDeadline dp s l t) l t = consumeWaitDeadline dp s l t"
proof (intro conjI)
  show "registerProactiveWait dp (registerProactiveWait dp s wait) wait = registerProactiveWait dp s wait"
    by (simp add: registerProactiveWait_def Let_def split: option.split)
  show "reportProbe (reportProbe s probe) probe = reportProbe s probe"
    by (cases "pr_kind probe") (simp_all add: reportProbe_def Let_def)
  show "consumeObservableWake (consumeObservableWake s wake) wake = consumeObservableWake s wake"
    by (cases "ps_lease s") (simp_all add: consumeObservableWake_def proto_simps)
  show "consumeWaitDeadline dp (consumeWaitDeadline dp s l t) l t = consumeWaitDeadline dp s l t"
    by (cases "ps_lease s") (simp_all add: consumeWaitDeadline_def proto_simps)
qed

text \<open>
  A parked supervisor leaves its wait through a deadline no earlier than the deadline it
  registered, through a wake that names its lease and one of its conditions and shows semantic
  progress, or by an obsolete wait; nothing else moves it.
\<close>

theorem parked_supervisor_moves:
  assumes "ps_outcome s = Parked" and "ps_lease s = Some lease"
    and "protocol_step dp s e \<noteq> s"
  shows "case e of
      WakeObserved w \<Rightarrow>
        ow_lease w = wl_id lease \<and> ow_condition w \<in> set (wl_conditions lease)
        \<and> ow_progress w \<noteq> wl_probe lease
    | DeadlineReached l t \<Rightarrow>
        l = wl_id lease \<and> dp t \<noteq> None
        \<and> \<not> date_before (dp t) (dp (the (wl_resume lease))) \<and> wl_resume lease \<noteq> None
    | WaitObsolete key \<Rightarrow> True
    | CheckpointReached key \<Rightarrow> True
    | _ \<Rightarrow> False"
proof (cases e)
  case (Continuation k)
  with assms show ?thesis by (simp add: recordAutomaticContinuation_def)
next
  case (WaitReported r)
  with assms show ?thesis by (simp add: registerProactiveWait_def)
next
  case (ProbeReported r)
  with assms show ?thesis by (simp add: reportProbe_def split: if_splits)
next
  case (WakeObserved w)
  with assms show ?thesis by (auto simp: consumeObservableWake_def wake_matches_def split: if_splits)
next
  case (DeadlineReached l t)
  with assms show ?thesis by (cases "wl_resume lease") (auto simp: consumeWaitDeadline_def split: if_splits)
next
  case (Recovered k)
  with assms show ?thesis by (simp add: recoverSafetyPause_def)
qed simp_all

definition parked_example :: protocol_state where
  "parked_example = registerProactiveWait (\<lambda>_. Some 5) (startSupervisionProtocol ''k'')
     \<lparr> wr_id = ''r'', wr_run = None, wr_lease = ''lease'', wr_conditions = [JStr ''planChanged''],
       wr_resume = ''t'' \<rparr>"

definition parked_lease :: wait_lease where
  "parked_lease = \<lparr> wl_id = ''lease'', wl_run = None, wl_probe = ''k'',
     wl_conditions = [PlanChanged], wl_resume = Some ''t'' \<rparr>"

theorem parked_supervisor_moves_witness:
  "case DeadlineReached ''lease'' ''u'' of DeadlineReached l t \<Rightarrow> l = wl_id parked_lease | _ \<Rightarrow> False"
proof -
  have "ps_outcome parked_example = Parked" and "ps_lease parked_example = Some parked_lease"
    by code_simp+
  moreover have "ps_outcome (protocol_step (\<lambda>_. Some 5) parked_example (DeadlineReached ''lease'' ''u''))
      = ProtoActive" by code_simp
  ultimately show ?thesis
    using parked_supervisor_moves
      [of parked_example parked_lease "\<lambda>_. Some 5" "DeadlineReached ''lease'' ''u''"]
    by fastforce
qed

end
