(* ===== verification/Protocol_Store.thy ===== *)
theory Protocol_Store
  imports Supervision_Protocol
begin

text \<open>
  The persisted form of the supervision protocol: \<open>parseSupervisionProtocolState\<close> and
  \<open>parseWaitLease\<close> on an untyped value, the value a state is written as, and their round trip.
\<close>

subsection \<open>Reading\<close>

definition outcome_names :: "(string \<times> protocol_outcome) list" where
  "outcome_names =
     [(''active'', ProtoActive), (''probeRequired'', ProbeRequired), (''parked'', Parked),
      (''retrying'', Retrying), (''attentionRequired'', AttentionRequired),
      (''safetyPaused'', SafetyPaused)]"

text \<open>\<open>runId !== undefined && !validRunWait(runId, ...)\<close>: \<open>None\<close> rejects.\<close>

definition parse_run :: "jv \<Rightarrow> wake_condition list \<Rightarrow> string option option" where
  "parse_run v conditions =
     (case v of
        JUndef \<Rightarrow> Some None
      | JStr r \<Rightarrow> if validRunWait r conditions then Some (Some r) else None
      | _ \<Rightarrow> None)"

definition parse_resume :: "(string \<Rightarrow> int option) \<Rightarrow> jv \<Rightarrow> string option option" where
  "parse_resume dp v =
     (case v of
        JUndef \<Rightarrow> Some None
      | JStr t \<Rightarrow> if dp t = None then None else Some (Some t)
      | _ \<Rightarrow> None)"

fun non_empty_text :: "jv \<Rightarrow> string option" where
  "non_empty_text (JStr s) = (if s = [] then None else Some s)"
| "non_empty_text _ = None"

text \<open>\<open>None\<close> is undefined (rejected), \<open>Some None\<close> is null.\<close>

definition parseWaitLease :: "(string \<Rightarrow> int option) \<Rightarrow> jv \<Rightarrow> wait_lease option option" where
  "parseWaitLease dp v =
     (case v of
        JNull \<Rightarrow> Some None
      | JObj c \<Rightarrow>
          (case (non_empty_text (field_of c ''id''), non_empty_text (field_of c ''probeKey''),
                 as_array (field_of c ''wakeConditions'')) of
             (Some lid, Some probe, Some raw) \<Rightarrow>
               (let conditions = uniqueSupportedWakeConditions raw in
                if length conditions \<noteq> length raw then None
                else case (parse_run (field_of c ''runId'') conditions,
                           parse_resume dp (field_of c ''resumeAt'')) of
                       (Some run, Some resume) \<Rightarrow>
                         if run \<noteq> None \<and> resume = None then None
                         else Some (Some \<lparr> wl_id = lid, wl_run = run, wl_probe = probe,
                                           wl_conditions = conditions, wl_resume = resume \<rparr>)
                     | _ \<Rightarrow> None)
           | _ \<Rightarrow> None)
      | _ \<Rightarrow> None)"

fun parse_cause_kind :: "jv \<Rightarrow> wake_cause_kind option" where
  "parse_cause_kind (JStr s) =
     (if s = ''deadline'' then Some OnDeadline else map_option OnCondition (map_of condition_names s))"
| "parse_cause_kind _ = None"

fun bounded_id :: "jv \<Rightarrow> string option" where
  "bounded_id (JStr s) = (if s \<noteq> [] \<and> length s \<le> 256 then Some s else None)"
| "bounded_id _ = None"

text \<open>\<open>None\<close> rejects, \<open>Some None\<close> is absent, \<open>Some (Some None)\<close> is null.\<close>

definition parse_wake_cause :: "jv \<Rightarrow> wake_cause option option option" where
  "parse_wake_cause v =
     (case v of
        JUndef \<Rightarrow> Some None
      | JNull \<Rightarrow> Some (Some None)
      | JObj w \<Rightarrow>
          (case (parse_cause_kind (field_of w ''condition''), bounded_id (field_of w ''leaseId''),
                 parse_run (field_of w ''runId'') [ProcessResultAvailable]) of
             (Some kind, Some lease, Some run) \<Rightarrow>
               Some (Some (Some \<lparr> wc_condition = kind, wc_lease = lease, wc_run = run \<rparr>))
           | _ \<Rightarrow> None)
      | _ \<Rightarrow> None)"

definition is_revision :: "string \<Rightarrow> bool" where
  "is_revision s \<longleftrightarrow>
     (case strip_prefix ''sha256:'' s of
        None \<Rightarrow> False | Some h \<Rightarrow> length h = 64 \<and> list_all is_hex_lower h)"

definition parse_revision :: "jv \<Rightarrow> string option" where
  "parse_revision v = (case v of JStr s \<Rightarrow> if is_revision s then Some s else None | _ \<Rightarrow> None)"

definition parse_ack :: "jv \<Rightarrow> acknowledged_revision option option" where
  "parse_ack v =
     (case v of
        JUndef \<Rightarrow> Some None
      | JObj a \<Rightarrow>
          (case (parse_revision (field_of a ''revision''), bounded_id (field_of a ''controlId''),
                 bounded_id (field_of a ''turnId'')) of
             (Some r, Some c, Some t) \<Rightarrow>
               Some (Some \<lparr> ack_revision = r, ack_control = c, ack_turn = t \<rparr>)
           | _ \<Rightarrow> None)
      | _ \<Rightarrow> None)"

definition parse_unchanged :: "jv \<Rightarrow> nat option" where
  "parse_unchanged v = (case non_negative_integer v of Some n \<Rightarrow> if n \<le> 3 then Some n else None | None \<Rightarrow> None)"

definition parse_pause :: "jv \<Rightarrow> pause_reason option option" where
  "parse_pause v =
     (case v of
        JNull \<Rightarrow> Some None
      | JStr s \<Rightarrow> (if s = ''retryRecurrence'' then Some (Some RetryRecurrence)
                   else if s = ''invalidProbeReport'' then Some (Some InvalidProbeReport) else None)
      | _ \<Rightarrow> None)"

text \<open>\<open>acknowledgement\<close> and \<open>wakeCause\<close>: an array is an object to \<open>typeof\<close> but has no such fields.\<close>

definition parseSupervisionProtocolState ::
  "(string \<Rightarrow> int option) \<Rightarrow> jv \<Rightarrow> protocol_state option" where
  "parseSupervisionProtocolState dp v =
     (case v of
        JObj c \<Rightarrow>
          (case (non_empty_text (field_of c ''progressKey''),
                 enum_value outcome_names (field_of c ''outcome''),
                 parse_unchanged (field_of c ''unchangedContinuations'')) of
             (Some key, Some outcome, Some unchanged) \<Rightarrow>
               (case (nullable_text (field_of c ''probeKey''), nullable_text (field_of c ''lastReportId''),
                      nullable_text (field_of c ''retryKey''), parseWaitLease dp (field_of c ''waitLease'')) of
                  (Some probe, Some last_report, Some retry, Some lease) \<Rightarrow>
                    (case (parse_wake_cause (field_of c ''wakeCause''),
                           parse_ack (field_of c ''acknowledgedRevision''),
                           parse_pause (field_of c ''safetyPauseReason'')) of
                       (Some wake, Some ack, Some pause) \<Rightarrow>
                         Some \<lparr> ps_ack = ack, ps_wake = wake, ps_outcome = outcome, ps_progress = key,
                                ps_unchanged = unchanged, ps_probe = probe,
                                ps_last_report = last_report, ps_lease = lease, ps_retry = retry,
                                ps_pause = pause \<rparr>
                     | _ \<Rightarrow> None)
                | _ \<Rightarrow> None)
           | _ \<Rightarrow> None)
      | _ \<Rightarrow> None)"

subsection \<open>Writing\<close>

text \<open>The value of a state after \<open>JSON.stringify\<close> and \<open>JSON.parse\<close>: absent fields are left out.\<close>

definition condition_name :: "wake_condition \<Rightarrow> string" where
  "condition_name c = (case c of
      PlanChanged \<Rightarrow> ''planChanged'' | ReviewChanged \<Rightarrow> ''reviewChanged''
    | CheckpointChanged \<Rightarrow> ''checkpointChanged'' | InteractionChanged \<Rightarrow> ''interactionChanged''
    | ExecutorChanged \<Rightarrow> ''executorChanged'' | ProcessExited \<Rightarrow> ''processExited''
    | ProcessResultAvailable \<Rightarrow> ''processResultAvailable''
    | ProcessLimitBreached \<Rightarrow> ''processLimitBreached''
    | AgentActivityChanged \<Rightarrow> ''agentActivityChanged'')"

definition outcome_name :: "protocol_outcome \<Rightarrow> string" where
  "outcome_name o' = (case o' of
      ProtoActive \<Rightarrow> ''active'' | ProbeRequired \<Rightarrow> ''probeRequired'' | Parked \<Rightarrow> ''parked''
    | Retrying \<Rightarrow> ''retrying'' | AttentionRequired \<Rightarrow> ''attentionRequired''
    | SafetyPaused \<Rightarrow> ''safetyPaused'')"

fun present :: "string \<Rightarrow> jv option \<Rightarrow> (string \<times> jv) list" where
  "present k None = []"
| "present k (Some v) = [(k, v)]"

fun lease_value :: "wait_lease option \<Rightarrow> jv" where
  "lease_value None = JNull"
| "lease_value (Some l) = JObj
     ([(''id'', JStr (wl_id l)), (''probeKey'', JStr (wl_probe l)),
       (''wakeConditions'', JArr (map (\<lambda>c. JStr (condition_name c)) (wl_conditions l)))]
      @ present ''resumeAt'' (map_option JStr (wl_resume l))
      @ present ''runId'' (map_option JStr (wl_run l)))"

fun cause_kind_name :: "wake_cause_kind \<Rightarrow> string" where
  "cause_kind_name OnDeadline = ''deadline''"
| "cause_kind_name (OnCondition c) = condition_name c"

fun wake_value :: "wake_cause option \<Rightarrow> jv" where
  "wake_value None = JNull"
| "wake_value (Some w) = JObj
     ([(''condition'', JStr (cause_kind_name (wc_condition w))), (''leaseId'', JStr (wc_lease w))]
      @ present ''runId'' (map_option JStr (wc_run w)))"

definition ack_value :: "acknowledged_revision \<Rightarrow> jv" where
  "ack_value a = JObj [(''revision'', JStr (ack_revision a)), (''controlId'', JStr (ack_control a)),
     (''turnId'', JStr (ack_turn a))]"

fun pause_value :: "pause_reason option \<Rightarrow> jv" where
  "pause_value None = JNull"
| "pause_value (Some RetryRecurrence) = JStr ''retryRecurrence''"
| "pause_value (Some InvalidProbeReport) = JStr ''invalidProbeReport''"

definition protocol_value :: "protocol_state \<Rightarrow> jv" where
  "protocol_value s = JObj
     ([(''outcome'', JStr (outcome_name (ps_outcome s))), (''progressKey'', JStr (ps_progress s)),
       (''unchangedContinuations'', JNum (of_nat (ps_unchanged s))),
       (''probeKey'', text_value (ps_probe s)), (''lastReportId'', text_value (ps_last_report s)),
       (''waitLease'', lease_value (ps_lease s)), (''retryKey'', text_value (ps_retry s)),
       (''safetyPauseReason'', pause_value (ps_pause s))]
      @ present ''wakeCause'' (map_option wake_value (ps_wake s))
      @ present ''acknowledgedRevision'' (map_option ack_value (ps_ack s)))"

subsection \<open>What can be stored\<close>

definition lease_storable :: "(string \<Rightarrow> int option) \<Rightarrow> wait_lease \<Rightarrow> bool" where
  "lease_storable dp l \<longleftrightarrow>
     wl_id l \<noteq> [] \<and> wl_probe l \<noteq> [] \<and> distinct (wl_conditions l)
     \<and> (case wl_resume l of None \<Rightarrow> True | Some t \<Rightarrow> dp t \<noteq> None)
     \<and> (case wl_run l of None \<Rightarrow> True | Some r \<Rightarrow> validRunWait r (wl_conditions l) \<and> wl_resume l \<noteq> None)"

definition id_storable :: "string \<Rightarrow> bool" where
  "id_storable s \<longleftrightarrow> s \<noteq> [] \<and> length s \<le> 256"

definition wake_storable :: "wake_cause \<Rightarrow> bool" where
  "wake_storable w \<longleftrightarrow> id_storable (wc_lease w)
     \<and> (case wc_run w of None \<Rightarrow> True | Some r \<Rightarrow> is_uuid r)"

definition ack_storable :: "acknowledged_revision \<Rightarrow> bool" where
  "ack_storable a \<longleftrightarrow> is_revision (ack_revision a) \<and> id_storable (ack_control a)
     \<and> id_storable (ack_turn a)"

definition protocol_storable :: "(string \<Rightarrow> int option) \<Rightarrow> protocol_state \<Rightarrow> bool" where
  "protocol_storable dp s \<longleftrightarrow>
     ps_progress s \<noteq> [] \<and> ps_unchanged s \<le> 3
     \<and> ps_probe s \<noteq> Some [] \<and> ps_last_report s \<noteq> Some [] \<and> ps_retry s \<noteq> Some []
     \<and> (case ps_lease s of None \<Rightarrow> True | Some l \<Rightarrow> lease_storable dp l)
     \<and> (case ps_wake s of None \<Rightarrow> True | Some None \<Rightarrow> True | Some (Some w) \<Rightarrow> wake_storable w)
     \<and> (case ps_ack s of None \<Rightarrow> True | Some a \<Rightarrow> ack_storable a)"

subsection \<open>Round trip\<close>

lemma condition_name_lookup [simp]: "map_of condition_names (condition_name c) = Some c"
  by (cases c) (simp_all add: condition_names_def condition_name_def)

lemma condition_name_not_deadline [simp]: "condition_name c \<noteq> ''deadline''"
  by (cases c) (simp_all add: condition_name_def)

lemma outcome_name_lookup [simp]: "map_of outcome_names (outcome_name c) = Some c"
  by (cases c) (simp_all add: outcome_names_def outcome_name_def)

lemma map_filter_names [simp]:
  "List.map_filter (enum_value condition_names) (map (\<lambda>c. JStr (condition_name c)) cs) = cs"
  by (induction cs) (simp_all add: List.map_filter_simps)

lemma parse_run_value [simp]:
  "parse_run JUndef cs = Some None"
  "parse_run (JStr r) cs = (if validRunWait r cs then Some (Some r) else None)"
  by (simp_all add: parse_run_def)

lemma parse_resume_value [simp]:
  "parse_resume dp JUndef = Some None"
  "parse_resume dp (JStr t) = (if dp t = None then None else Some (Some t))"
  by (simp_all add: parse_resume_def)

lemma parse_lease_value:
  "case l of None \<Rightarrow> True | Some l \<Rightarrow> lease_storable dp l \<Longrightarrow> parseWaitLease dp (lease_value l) = Some l"
proof (cases l)
  case (Some x)
  assume "case l of None \<Rightarrow> True | Some l \<Rightarrow> lease_storable dp l"
  then show ?thesis
    using Some
    by (cases "wl_run x"; cases "wl_resume x")
       (auto simp: parseWaitLease_def lease_storable_def field_of_def Let_def
             uniqueSupportedWakeConditions_def)
qed (simp add: parseWaitLease_def)

lemma parse_cause_name [simp]: "parse_cause_kind (JStr (cause_kind_name k)) = Some k"
  by (cases k) simp_all

declare parse_cause_kind.simps [simp del]

lemma parse_wake_value:
  "case w of None \<Rightarrow> True | Some x \<Rightarrow> wake_storable x \<Longrightarrow>
     parse_wake_cause (wake_value w) = Some (Some w)"
proof (cases w)
  case (Some x)
  assume "case w of None \<Rightarrow> True | Some x \<Rightarrow> wake_storable x"
  then show ?thesis
    using Some
    by (cases x; cases "wc_run x")
       (auto simp: parse_wake_cause_def wake_storable_def id_storable_def field_of_def
           validRunWait_def run_condition_def)
qed (simp add: parse_wake_cause_def)

lemma parse_ack_value: "ack_storable a \<Longrightarrow> parse_ack (ack_value a) = Some (Some a)"
  by (simp add: parse_ack_def ack_value_def ack_storable_def id_storable_def field_of_def
        parse_revision_def)

lemma parse_pause_value [simp]: "parse_pause (pause_value p) = Some p"
  by (cases p rule: pause_value.cases) (simp_all add: parse_pause_def)

lemma parse_unchanged_value: "n \<le> 3 \<Longrightarrow> parse_unchanged (JNum (of_nat n)) = Some n"
  by (simp add: parse_unchanged_def max_safe_def)

lemma field_of_simps [simp]:
  "field_of [] k = JUndef"
  "field_of ((k', v) # fs) k = (if k = k' then v else field_of fs k)"
  by (simp_all add: field_of_def)

lemma parse_absent [simp]: "parse_wake_cause JUndef = Some None" "parse_ack JUndef = Some None"
  by (simp_all add: parse_wake_cause_def parse_ack_def)

lemma protocol_round_trip:
  assumes "protocol_storable dp s"
  shows "parseSupervisionProtocolState dp (protocol_value s) = Some s"
proof -
  note st = assms [unfolded protocol_storable_def]
  have lease: "parseWaitLease dp (lease_value (ps_lease s)) = Some (ps_lease s)"
    using st by (intro parse_lease_value) simp
  have unchanged: "parse_unchanged (JNum (of_nat (ps_unchanged s))) = Some (ps_unchanged s)"
    using st by (intro parse_unchanged_value) simp
  show ?thesis
  proof (cases "ps_wake s")
    case None
    show ?thesis
      using st lease unchanged None
      by (cases "ps_ack s")
         (simp_all add: parseSupervisionProtocolState_def protocol_value_def parse_ack_value)
  next
    case (Some w)
    then have "parse_wake_cause (wake_value w) = Some (Some w)"
      using st by (intro parse_wake_value) (auto split: option.splits)
    then show ?thesis
      using st lease unchanged Some
      by (cases "ps_ack s")
         (simp_all add: parseSupervisionProtocolState_def protocol_value_def parse_ack_value)
  qed
qed

subsection \<open>Only storable states are accepted or reached\<close>

lemma non_empty_text_Some: "non_empty_text v = Some s \<longleftrightarrow> v = JStr s \<and> s \<noteq> []"
  by (cases v) auto

lemma bounded_id_Some: "bounded_id v = Some s \<longleftrightarrow> v = JStr s \<and> id_storable s"
  by (cases v) (auto simp: id_storable_def)

lemma parse_run_Some: "parse_run v cs = Some (Some r) \<Longrightarrow> validRunWait r cs"
  by (auto simp: parse_run_def split: jv.splits if_splits)

lemma parse_resume_Some: "parse_resume dp v = Some (Some t) \<Longrightarrow> dp t \<noteq> None"
  by (auto simp: parse_resume_def split: jv.splits if_splits)

lemma parse_lease_storable:
  assumes "parseWaitLease dp v = Some (Some l)"
  shows "lease_storable dp l"
proof -
  from assms obtain c where v: "v = JObj c"
    by (cases v) (simp_all add: parseWaitLease_def)
  from assms obtain lid probe raw run resume where
    texts: "non_empty_text (field_of c ''id'') = Some lid"
      "non_empty_text (field_of c ''probeKey'') = Some probe"
    and run: "parse_run (field_of c ''runId'') (uniqueSupportedWakeConditions raw) = Some run"
    and resume: "parse_resume dp (field_of c ''resumeAt'') = Some resume"
    and needs: "run = None \<or> resume \<noteq> None"
    and l: "l = \<lparr> wl_id = lid, wl_run = run, wl_probe = probe,
        wl_conditions = uniqueSupportedWakeConditions raw, wl_resume = resume \<rparr>"
    unfolding parseWaitLease_def v
    by (auto simp: Let_def split: option.splits if_splits)
  have "case run of None \<Rightarrow> True | Some r \<Rightarrow> validRunWait r (uniqueSupportedWakeConditions raw)"
    using parse_run_Some run by (auto split: option.split)
  moreover have "case resume of None \<Rightarrow> True | Some t \<Rightarrow> dp t \<noteq> None"
    using parse_resume_Some resume by (auto split: option.split)
  ultimately show ?thesis
    using texts needs l
    by (auto simp: lease_storable_def non_empty_text_Some uniqueSupportedWakeConditions_def
             split: option.splits)
qed

lemma parse_wake_storable:
  assumes "parse_wake_cause v = Some (Some (Some w))"
  shows "wake_storable w"
proof -
  from assms obtain f where v: "v = JObj f" by (cases v) (simp_all add: parse_wake_cause_def)
  from assms have lease: "bounded_id (field_of f ''leaseId'') = Some (wc_lease w)"
    and run: "parse_run (field_of f ''runId'') [ProcessResultAvailable] = Some (wc_run w)"
    unfolding parse_wake_cause_def v by (auto split: option.splits)
  from run show ?thesis
    using lease parse_run_Some [of "field_of f ''runId''" "[ProcessResultAvailable]"]
    by (cases "wc_run w") (auto simp: wake_storable_def bounded_id_Some validRunWait_def)
qed

lemma parse_ack_storable:
  assumes "parse_ack v = Some (Some a)"
  shows "ack_storable a"
proof -
  from assms obtain f where v: "v = JObj f" by (cases v) (simp_all add: parse_ack_def)
  from assms have "parse_revision (field_of f ''revision'') = Some (ack_revision a)"
    and "bounded_id (field_of f ''controlId'') = Some (ack_control a)"
    and "bounded_id (field_of f ''turnId'') = Some (ack_turn a)"
    unfolding parse_ack_def v by (auto split: option.splits)
  then show ?thesis
    by (auto simp: ack_storable_def bounded_id_Some parse_revision_def split: jv.splits if_splits)
qed

lemma parse_unchanged_bound: "parse_unchanged v = Some n \<Longrightarrow> n \<le> 3"
  by (auto simp: parse_unchanged_def split: option.splits if_splits)

lemma nullable_text_non_empty: "nullable_text v \<noteq> Some (Some [])"
  by (cases v) auto

lemma protocol_accepted:
  assumes "parseSupervisionProtocolState dp v = Some s"
  shows "protocol_storable dp s \<and> parseSupervisionProtocolState dp (protocol_value s) = Some s"
proof -
  from assms obtain c where v: "v = JObj c"
    by (cases v) (simp_all add: parseSupervisionProtocolState_def)
  from assms have parts:
    "non_empty_text (field_of c ''progressKey'') = Some (ps_progress s)"
    "parse_unchanged (field_of c ''unchangedContinuations'') = Some (ps_unchanged s)"
    "nullable_text (field_of c ''probeKey'') = Some (ps_probe s)"
    "nullable_text (field_of c ''lastReportId'') = Some (ps_last_report s)"
    "nullable_text (field_of c ''retryKey'') = Some (ps_retry s)"
    "parseWaitLease dp (field_of c ''waitLease'') = Some (ps_lease s)"
    "parse_wake_cause (field_of c ''wakeCause'') = Some (ps_wake s)"
    "parse_ack (field_of c ''acknowledgedRevision'') = Some (ps_ack s)"
    unfolding parseSupervisionProtocolState_def v by (auto split: option.splits)
  have "case ps_lease s of None \<Rightarrow> True | Some l \<Rightarrow> lease_storable dp l"
    using parts(6) parse_lease_storable by (auto split: option.split)
  moreover have "case ps_wake s of None \<Rightarrow> True | Some None \<Rightarrow> True | Some (Some w) \<Rightarrow> wake_storable w"
    using parts(7) parse_wake_storable by (auto split: option.split)
  moreover have "case ps_ack s of None \<Rightarrow> True | Some a \<Rightarrow> ack_storable a"
    using parts(8) parse_ack_storable by (auto split: option.split)
  ultimately have "protocol_storable dp s"
    using parts(1-5) parse_unchanged_bound nullable_text_non_empty
    by (auto simp: protocol_storable_def non_empty_text_Some)
  then show ?thesis by (simp add: protocol_round_trip)
qed

text \<open>
  Whatever value was persisted, a state that is accepted is well formed: it can be written
  back and read again unchanged.
\<close>

theorem accepted_state_is_storable:
  assumes "parseSupervisionProtocolState dp v = Some s"
  shows "protocol_storable dp s \<and> parseSupervisionProtocolState dp (protocol_value s) = Some s"
  using assms by (rule protocol_accepted)

theorem accepted_state_is_storable_witness: "protocol_storable (\<lambda>_. Some 5) parked_example"
proof -
  have "parseSupervisionProtocolState (\<lambda>_. Some 5) (protocol_value parked_example) = Some parked_example"
    by code_simp
  from accepted_state_is_storable [OF this] show ?thesis by blast
qed

fun event_storable :: "protocol_event \<Rightarrow> bool" where
  "event_storable (Continuation key) = (key \<noteq> [])"
| "event_storable (WaitReported r) = (wr_id r \<noteq> [])"
| "event_storable (ProbeReported r) = (pr_id r \<noteq> [])"
| "event_storable (WakeObserved w) = (ow_progress w \<noteq> [])"
| "event_storable (DeadlineReached l t) = True"
| "event_storable (WaitObsolete key) = (key \<noteq> [])"
| "event_storable (CheckpointReached key) = (key \<noteq> [])"
| "event_storable (Recovered key) = (key \<noteq> [])"

lemma start_storable [simp]: "key \<noteq> [] \<Longrightarrow> protocol_storable dp (startSupervisionProtocol key)"
  by (simp add: protocol_storable_def proto_simps)

lemma restart_storable [simp]:
  "key \<noteq> [] \<Longrightarrow> protocol_storable dp s \<Longrightarrow> protocol_storable dp (restart_keeping_report key s)"
  by (simp add: protocol_storable_def proto_simps)

lemma continuation_storable:
  "key \<noteq> [] \<Longrightarrow> protocol_storable dp s \<Longrightarrow> protocol_storable dp (recordAutomaticContinuation s key)"
  unfolding recordAutomaticContinuation_def Let_def
  by (simp add: proto_simps) (simp add: protocol_storable_def proto_simps)

lemma register_storable:
  assumes "wr_id r \<noteq> []" and "protocol_storable dp s"
  shows "protocol_storable dp (registerProactiveWait dp s r)"
proof (cases "registerProactiveWait dp s r = s")
  case False
  then show ?thesis
    using assms
    by (cases "wr_run r")
       (auto simp: registerProactiveWait_def Let_def protocol_storable_def lease_storable_def truthy_def
          uniqueSupportedWakeConditions_def)
qed (simp add: assms)

lemma probe_storable:
  "pr_id r \<noteq> [] \<Longrightarrow> protocol_storable dp s \<Longrightarrow> protocol_storable dp (reportProbe s r)"
  by (cases "pr_kind r"; cases "ps_probe s")
     (auto simp: reportProbe_def Let_def protocol_storable_def lease_storable_def truthy_def
        proto_simps uniqueSupportedWakeConditions_def)

lemma wake_event_storable:
  "ow_progress w \<noteq> [] \<Longrightarrow> protocol_storable dp s \<Longrightarrow> protocol_storable dp (consumeObservableWake s w)"
  by (cases "ps_lease s") (auto simp: consumeObservableWake_def, simp add: protocol_storable_def)

lemma protocol_step_storable:
  assumes "protocol_storable dp s" and "event_storable e"
  shows "protocol_storable dp (protocol_step dp s e)"
proof (cases e)
  case (DeadlineReached l t)
  have "ps_progress s \<noteq> []" using assms(1) by (simp add: protocol_storable_def)
  with DeadlineReached assms show ?thesis
    by (cases "ps_lease s") (simp_all add: consumeWaitDeadline_def)
next
  case (WaitObsolete k)
  with assms show ?thesis by (auto simp: consumeObsoleteWait_def) (auto simp: protocol_storable_def)
next
  case (CheckpointReached k)
  with assms show ?thesis
    by (auto simp: consumeCheckpointBoundary_def consumeObsoleteWait_def) (auto simp: protocol_storable_def)
next
  case (Recovered k)
  with assms show ?thesis by (simp add: recoverSafetyPause_def)
qed (use assms in \<open>simp_all add: continuation_storable register_storable probe_storable wake_event_storable\<close>)

definition guarded_protocol_step ::
  "(string \<Rightarrow> int option) \<Rightarrow> protocol_state \<Rightarrow> protocol_event \<Rightarrow> protocol_state" where
  "guarded_protocol_step dp s e = (if event_storable e then protocol_step dp s e else s)"

interpretation storing: stepper "guarded_protocol_step dp" "protocol_storable dp" for dp
  by unfold_locales (simp add: guarded_protocol_step_def protocol_step_storable)

lemma guarded_run:
  "list_all event_storable es \<Longrightarrow>
     run_steps (guarded_protocol_step dp) s es = run_steps (protocol_step dp) s es"
  by (induction es arbitrary: s) (simp_all add: guarded_protocol_step_def)

text \<open>
  C31: a restart loses nothing: every state the protocol reaches through events with non-empty
  keys and identifiers is read back from storage exactly.
\<close>

theorem restart_resumes_protocol:
  assumes "key \<noteq> []" and "list_all event_storable events"
  shows "parseSupervisionProtocolState dp
      (protocol_value (run_steps (protocol_step dp) (startSupervisionProtocol key) events))
    = Some (run_steps (protocol_step dp) (startSupervisionProtocol key) events)"
  using storing.run_inv [of dp "startSupervisionProtocol key" events] assms
  by (simp add: guarded_run protocol_round_trip)

theorem restart_resumes_protocol_witness:
  "parseSupervisionProtocolState (\<lambda>_. None)
      (protocol_value (run_steps (protocol_step (\<lambda>_. None)) (startSupervisionProtocol ''k'')
         [Continuation ''k'', Continuation ''j'', WaitObsolete ''i'']))
    = Some (run_steps (protocol_step (\<lambda>_. None)) (startSupervisionProtocol ''k'')
         [Continuation ''k'', Continuation ''j'', WaitObsolete ''i''])"
  by (rule restart_resumes_protocol) simp_all

end
