(* ===== verification/Executor_Lifecycle.thy ===== *)
theory Executor_Lifecycle
  imports Plan_Facts
begin

text \<open>
  The lifecycle of the executor of a milestone
  (src/server/features/autopilot/domain/supervised-lifecycle.ts, executor-commands.ts and
  plan-fingerprint.ts): its identity and sole-writer assignment, its command history, the
  classification of how a turn ended, and the decision what supervision does next.
\<close>

subsection \<open>Data\<close>

datatype executor_outcome =
    ObjectiveComplete | PartialOutcome | BlockedOutcome | CancelledOutcome | FailedOutcome

datatype outcome_class = DoneClass | RecoverableFailure | BlockerClass | OngoingClass

datatype blocking_reason =
    PlanChange | HardBlock | MissingDependency | PermissionRequired | ExternalState
  | MaterialAmbiguity

datatype resume_condition =
    PlanRevision | ExternalStateChanged | DependencyInstalled | PermissionGranted | UserGuidance

fun blockingResumeConditions :: "blocking_reason \<Rightarrow> resume_condition" where
  "blockingResumeConditions PlanChange = PlanRevision"
| "blockingResumeConditions HardBlock = ExternalStateChanged"
| "blockingResumeConditions MissingDependency = DependencyInstalled"
| "blockingResumeConditions PermissionRequired = PermissionGranted"
| "blockingResumeConditions ExternalState = ExternalStateChanged"
| "blockingResumeConditions MaterialAmbiguity = UserGuidance"

record structured_block =
  sb_reason :: blocking_reason
  sb_condition :: resume_condition

datatype process_ownership = ByExecutor | BySupervisor

datatype process_state =
    Running | DetachedActive | ExitedAwaitingResult | ResultConsumed | TerminatedForBudget

record executor_process =
  xp_id :: string
  xp_item :: string
  xp_thread :: string
  xp_path :: string
  xp_ownership :: process_ownership
  xp_state :: process_state
  xp_observed :: string
  xp_elapsed :: rat
  xp_cpu :: "rat option"
  xp_rss :: "rat option"
  xp_os_pid :: "nat option"
  xp_exit :: "int option"
  xp_artifact :: "string option"

datatype assignment_state = Resumable | ClosedAssignment | UnavailableAssignment

record executor_identity =
  ei_canonical :: string
  ei_position :: string
  ei_generation :: nat
  ei_name :: string

record executor_assignment =
  ea_position :: string
  ea_canonical :: string
  ea_name :: string
  ea_path :: string
  ea_thread :: string
  ea_generation :: nat
  ea_state :: assignment_state

datatype replacement_reason = ExplicitExecutorRejection | HumanPermissionGranted | UserDirectedTakeover

record executor_replacement =
  er_identity :: executor_identity
  er_plan :: string
  er_fingerprint :: string
  er_previous :: "executor_assignment option"
  er_reason :: "replacement_reason option"
  er_evidence :: "string option"

datatype command_status =
    ScheduledCommand | IssuedCommand | AcceptedCommand | FailedCommand | CancelledCommand
  | SupersededCommand

datatype command_trigger = PartialTrigger | ProcessExitedTrigger | ProcessResourceLimit

datatype process_action_kind = TransferAction | ConsumeAction | TerminateAction

record executor_command =
  ec_id :: string
  ec_status :: command_status
  ec_plan :: string
  ec_fingerprint :: string
  ec_position :: string
  ec_canonical :: string
  ec_path :: string
  ec_thread :: string
  ec_generation :: nat
  ec_attempt :: nat
  ec_superseded_before_issue :: bool
  ec_trigger :: command_trigger
  ec_action :: "(process_action_kind \<times> string) option"
  ec_created :: string
  ec_updated :: string

record executor_lifecycle =
  el_position :: string
  el_canonical :: string
  el_path :: string
  el_thread :: string
  el_l1 :: todo_state
  el_l2 :: "todo_state option"
  el_activity :: string
  el_processes :: "executor_process list"
  el_outcome :: executor_outcome
  el_blocking :: "structured_block option"
  el_generation :: nat
  el_count :: nat
  el_failures :: nat
  el_assignment :: "executor_assignment option"
  el_replacement :: "executor_replacement option"
  el_commands :: "executor_command list"

subsection \<open>Identity\<close>

text \<open>The expression \<open>^l[1-9]\d*(?:_[1-9]\d*)?$\<close>.\<close>

fun is_canonical_task :: "string \<Rightarrow> bool" where
  "is_canonical_task [] = False"
| "is_canonical_task (c # cs) =
     (let ds = takeWhile is_digit cs; rest = dropWhile is_digit cs in
      c = CHR ''l'' \<and> positive_decimal ds
      \<and> (rest = [] \<or> (hd rest = CHR ''_'' \<and> positive_decimal (tl rest))))"

text \<open>\<open>None\<close> is \<open>INVALID_EXECUTOR_IDENTITY\<close>.\<close>

definition executorIdentity :: "string \<Rightarrow> int \<Rightarrow> executor_identity option" where
  "executorIdentity canonicalTaskName generation =
     (if \<not> is_canonical_task canonicalTaskName \<or> \<bar>generation\<bar> > max_safe \<or> generation < 1 then None
      else Some \<lparr> ei_canonical = canonicalTaskName,
                  ei_position = orgPlanAgentDisplayName canonicalTaskName,
                  ei_generation = nat generation,
                  ei_name = (if generation = 1 then canonicalTaskName
                             else canonicalTaskName @ ''_g'' @ nat_text (nat generation)) \<rparr>)"

definition executorAssignment :: "executor_lifecycle \<Rightarrow> assignment_state \<Rightarrow> executor_assignment option" where
  "executorAssignment executor state =
     map_option
       (\<lambda>identity.
          \<lparr> ea_position = el_position executor, ea_canonical = el_canonical executor,
            ea_name = coalesce (path_leaf (el_path executor)) (ei_name identity),
            ea_path = el_path executor, ea_thread = el_thread executor,
            ea_generation = ei_generation identity, ea_state = state \<rparr>)
       (executorIdentity (el_canonical executor) (int (el_generation executor)))"

subsection \<open>Fingerprints\<close>

definition max_fingerprint_bytes :: nat where
  "max_fingerprint_bytes = 64 * 1024"

definition max_record_bytes :: nat where
  "max_record_bytes = 1024 * 1024"

definition parsePlanFingerprint :: "jv \<Rightarrow> string option" where
  "parsePlanFingerprint v =
     (case v of
        JStr s \<Rightarrow> if js_trim s \<noteq> [] \<and> utf8_length s \<le> max_fingerprint_bytes then Some s else None
      | _ \<Rightarrow> None)"

text \<open>\<open>None\<close> is \<open>AUTOPILOT_FINGERPRINT_INVALID\<close>.\<close>

definition requirePlanFingerprint :: "string \<Rightarrow> string option" where
  "requirePlanFingerprint s = parsePlanFingerprint (JStr s)"

subsection \<open>Commands\<close>

definition canTransitionExecutorCommand :: "command_status \<Rightarrow> command_status \<Rightarrow> bool \<Rightarrow> bool" where
  "canTransitionExecutorCommand from' to' idempotentProcessAction =
     (if from' = FailedCommand \<and> idempotentProcessAction then to' = IssuedCommand
      else if from' = ScheduledCommand
      then to' \<in> {IssuedCommand, CancelledCommand, SupersededCommand}
      else from' = IssuedCommand
           \<and> to' \<in> {AcceptedCommand, FailedCommand, CancelledCommand, SupersededCommand})"

definition unresolved :: "executor_command \<Rightarrow> bool" where
  "unresolved c \<longleftrightarrow> ec_status c = ScheduledCommand \<or> ec_status c = IssuedCommand"

text \<open>
  \<open>record_bytes\<close> is the size of the session record with the given commands, encoded twice; the
  sources measure it with \<open>TextEncoder\<close> and \<open>JSON.stringify\<close>.
\<close>

definition record_fits :: "(executor_command list \<Rightarrow> nat) \<Rightarrow> executor_command list \<Rightarrow> bool" where
  "record_fits record_bytes commands \<longleftrightarrow>
     length commands \<le> 32 \<and> record_bytes commands \<le> max_record_bytes - 4096"

definition remove_at :: "nat \<Rightarrow> 'a list \<Rightarrow> 'a list" where
  "remove_at i xs = take i xs @ drop (Suc i) xs"

lemma length_remove_at: "i < length xs \<Longrightarrow> length (remove_at i xs) < length xs"
  by (simp add: remove_at_def)

function retain_loop ::
  "(executor_command list \<Rightarrow> nat) \<Rightarrow> executor_command list \<Rightarrow> executor_command list option" where
  "retain_loop record_bytes commands =
     (if record_fits record_bytes commands then Some commands
      else case find_index (\<lambda>c. \<not> unresolved c) commands of
             None \<Rightarrow> None
           | Some i \<Rightarrow> retain_loop record_bytes (remove_at i commands))"
  by pat_completeness auto
termination
  by (relation "measure (\<lambda>(b, cs). length cs)") (auto dest: find_index_SomeD length_remove_at)

declare retain_loop.simps [simp del]

definition retainExecutorCommands ::
  "(executor_command list \<Rightarrow> nat) \<Rightarrow> executor_command list \<Rightarrow> executor_command
     \<Rightarrow> executor_command list option" where
  "retainExecutorCommands record_bytes existing command =
     retain_loop record_bytes (existing @ [command])"

subsection \<open>How a turn ended\<close>

definition validStructuredBlock :: "structured_block option \<Rightarrow> bool" where
  "validStructuredBlock b =
     (case b of None \<Rightarrow> False | Some b \<Rightarrow> blockingResumeConditions (sb_reason b) = sb_condition b)"

record outcome_report =
  or_objective_complete :: bool
  or_active :: bool
  or_outcome :: "executor_outcome option"
  or_reason :: "blocking_reason option"
  or_condition :: "resume_condition option"

record outcome_verdict =
  ov_class :: outcome_class
  ov_outcome :: executor_outcome
  ov_blocking :: "structured_block option"

definition reported_block :: "outcome_report \<Rightarrow> structured_block option" where
  "reported_block r =
     (case (or_reason r, or_condition r) of
        (Some reason, Some condition) \<Rightarrow> Some \<lparr> sb_reason = reason, sb_condition = condition \<rparr>
      | _ \<Rightarrow> None)"

definition classifyExecutorOutcome :: "outcome_report \<Rightarrow> outcome_verdict" where
  "classifyExecutorOutcome r =
     (if or_objective_complete r
      then \<lparr> ov_class = DoneClass, ov_outcome = ObjectiveComplete, ov_blocking = None \<rparr>
      else if or_outcome r = Some BlockedOutcome \<and> validStructuredBlock (reported_block r)
      then \<lparr> ov_class = BlockerClass, ov_outcome = BlockedOutcome, ov_blocking = reported_block r \<rparr>
      else if or_active r
      then \<lparr> ov_class = OngoingClass, ov_outcome = PartialOutcome, ov_blocking = None \<rparr>
      else if or_outcome r = Some CancelledOutcome \<or> or_outcome r = Some FailedOutcome
      then \<lparr> ov_class = RecoverableFailure, ov_outcome = the (or_outcome r), ov_blocking = None \<rparr>
      else \<lparr> ov_class = RecoverableFailure, ov_outcome = PartialOutcome, ov_blocking = None \<rparr>)"

subsection \<open>What supervision does next\<close>

datatype lifecycle_event =
    ExecutorTurnEnded | CheckpointEvent | WaitTimeout | UserStatusAnswered | RootFinalAttempt
  | ProcessObserved | ProcessExitedEvent | StateChanged

record lifecycle_policy =
  lp_base_delay :: rat
  lp_max_delay :: rat
  lp_poll :: rat
  lp_max_elapsed :: rat
  lp_max_rss :: rat

record lifecycle_input =
  li_plan :: supervised_plan
  li_event :: lifecycle_event
  li_executor :: "executor_lifecycle option"
  li_attention :: "structured_block option"
  li_paused :: bool
  li_policy :: lifecycle_policy

datatype lifecycle_action =
    AllowFinal
  | Reinspect
  | ContinueSupervisor
  | InvokeAttention blocking_reason resume_condition
  | ResumeExecutor string nat rat
  | MonitorProcess executor_process rat
  | ConsumeProcessResult string string string
  | TerminateProcess string string

record lifecycle_decision =
  ld_final :: bool
  ld_action :: lifecycle_action

definition process_live :: "executor_process \<Rightarrow> bool" where
  "process_live p \<longleftrightarrow> xp_state p = Running \<or> xp_state p = DetachedActive"

definition over_budget :: "lifecycle_policy \<Rightarrow> executor_process \<Rightarrow> bool" where
  "over_budget policy p \<longleftrightarrow>
     process_live p
     \<and> (xp_elapsed p > lp_max_elapsed policy
        \<or> (case xp_rss p of None \<Rightarrow> False | Some b \<Rightarrow> b > lp_max_rss policy))"

definition awaiting_result :: "executor_process \<Rightarrow> bool" where
  "awaiting_result p \<longleftrightarrow> xp_state p = ExitedAwaitingResult \<and> truthy_opt (xp_artifact p)"

text \<open>\<open>plan.steps[Number(position.slice(1)) - 1]?.state\<close>.\<close>

definition milestone_state :: "supervised_plan \<Rightarrow> string \<Rightarrow> todo_state option" where
  "milestone_state plan position =
     (case js_number (drop 1 position) of
        None \<Rightarrow> None
      | Some r \<Rightarrow>
          let i = \<lfloor>r\<rfloor> - 1 in
          if r = of_int \<lfloor>r\<rfloor> \<and> 0 \<le> i \<and> nat i < length (plan_steps plan)
          then Some (step_state (plan_steps plan ! nat i)) else None)"

definition executor_suspended :: "supervised_plan \<Rightarrow> executor_lifecycle \<Rightarrow> bool" where
  "executor_suspended plan e \<longleftrightarrow>
     el_l1 e = SUSPENDED \<or> el_l2 e = Some SUSPENDED
     \<or> milestone_state plan (el_position e) = Some SUSPENDED"

definition resume_delay :: "lifecycle_policy \<Rightarrow> nat \<Rightarrow> rat" where
  "resume_delay policy count =
     min (lp_max_delay policy) (lp_base_delay policy * 2 ^ min 30 count)"

definition not_final :: "lifecycle_action \<Rightarrow> lifecycle_decision" where
  "not_final a = \<lparr> ld_final = False, ld_action = a \<rparr>"

text \<open>The decision once the executor is known not to be suspended.\<close>

definition executor_processes :: "lifecycle_input \<Rightarrow> executor_process list" where
  "executor_processes input = (case li_executor input of None \<Rightarrow> [] | Some e \<Rightarrow> el_processes e)"

definition decide_processes :: "lifecycle_input \<Rightarrow> lifecycle_decision" where
  "decide_processes input =
     (case List.find (over_budget (li_policy input)) (executor_processes input) of
        Some p \<Rightarrow> not_final (TerminateProcess (xp_thread p) (xp_id p))
      | None \<Rightarrow>
     (case List.find awaiting_result (executor_processes input) of
        Some p \<Rightarrow> not_final (ConsumeProcessResult (xp_thread p) (xp_id p) (the (xp_artifact p)))
      | None \<Rightarrow>
     (case List.find process_live (executor_processes input) of
        Some p \<Rightarrow> not_final (MonitorProcess (p\<lparr>xp_ownership := BySupervisor, xp_state := DetachedActive\<rparr>)
                     (lp_poll (li_policy input)))
      | None \<Rightarrow>
     (case li_executor input of
        None \<Rightarrow> (if li_event input = WaitTimeout then not_final Reinspect
                 else not_final ContinueSupervisor)
      | Some e \<Rightarrow>
          if el_l1 e = DONE then not_final ContinueSupervisor
          else not_final (ResumeExecutor (el_thread e) (el_generation e + el_count e + 1)
                            (resume_delay (li_policy input) (el_count e)))))))"

definition decideSupervisedLifecycle :: "lifecycle_input \<Rightarrow> lifecycle_decision" where
  "decideSupervisedLifecycle input =
     (if li_paused input \<or> executionComplete (li_plan input)
      then \<lparr> ld_final = True, ld_action = AllowFinal \<rparr>
      else if validStructuredBlock (li_attention input)
      then \<lparr> ld_final = True,
             ld_action = InvokeAttention (sb_reason (the (li_attention input)))
                           (sb_condition (the (li_attention input))) \<rparr>
      else if (case li_executor input of
                 None \<Rightarrow> False | Some e \<Rightarrow> executor_suspended (li_plan input) e)
      then not_final ContinueSupervisor
      else decide_processes input)"

end
