(* ===== verification/Executor_Facts.thy ===== *)
theory Executor_Facts
  imports Executor_Lifecycle "HOL-Library.While_Combinator"
begin

text \<open>
  The promises of the executor lifecycle: supervision ends a turn only for cause, an executor is
  resumed only when nothing of its own runs, command statuses move one way, the command history
  keeps unresolved work, and physical task names identify their executor.
\<close>

subsection \<open>Decisions\<close>

lemma decide_processes_final: "\<not> ld_final (decide_processes input)"
  by (simp add: decide_processes_def not_final_def Let_def split: option.split)

lemma decide_processes_kind:
  "ld_action (decide_processes input) \<noteq> AllowFinal
   \<and> ld_action (decide_processes input) \<noteq> InvokeAttention r c"
  by (simp add: decide_processes_def not_final_def Let_def split: option.split)

text \<open>
  A final answer is allowed exactly when the user paused or cancelled, the plan is complete,
  or attention is asked for with a blocking reason and its own resume condition. In every other
  situation supervision goes on, whatever event is delivered.
\<close>

theorem final_only_for_cause:
  "(ld_final (decideSupervisedLifecycle input) \<longleftrightarrow>
      li_paused input \<or> executionComplete (li_plan input) \<or> validStructuredBlock (li_attention input))
   \<and> (ld_final (decideSupervisedLifecycle input) \<longleftrightarrow>
      ld_action (decideSupervisedLifecycle input) = AllowFinal
      \<or> ld_action (decideSupervisedLifecycle input)
          = InvokeAttention (sb_reason (the (li_attention input))) (sb_condition (the (li_attention input))))"
  using decide_processes_final [of input] decide_processes_kind [of input]
  by (auto simp: decideSupervisedLifecycle_def not_final_def split: option.split)

lemma find_None_all: "List.find P xs = None \<longleftrightarrow> (\<forall>x \<in> set xs. \<not> P x)"
  by (auto simp: find_None_iff)

lemma not_final_simps [simp]: "ld_action (not_final a) = a" "ld_final (not_final a) = False"
  by (simp_all add: not_final_def)

lemma decide_not_final:
  assumes "\<not> ld_final (decideSupervisedLifecycle input)"
  shows "decideSupervisedLifecycle input =
    (if (case li_executor input of None \<Rightarrow> False | Some e \<Rightarrow> executor_suspended (li_plan input) e)
     then not_final ContinueSupervisor else decide_processes input)"
  using assms by (simp add: decideSupervisedLifecycle_def split: if_splits)

text \<open>
  An executor is resumed only if it exists, is not suspended and not done, has no live
  process and no result waiting, and supervision may not end; the resume names a generation
  beyond the present one and a delay that doubles with each continuation up to the maximum.
\<close>

theorem resume_only_when_idle:
  assumes "ld_action (decideSupervisedLifecycle input) = ResumeExecutor thread generation delay"
  shows "\<exists>e. li_executor input = Some e \<and> \<not> executor_suspended (li_plan input) e
    \<and> el_l1 e \<noteq> DONE
    \<and> (\<forall>p \<in> set (el_processes e). \<not> process_live p \<and> \<not> awaiting_result p)
    \<and> \<not> li_paused input \<and> \<not> executionComplete (li_plan input)
    \<and> thread = el_thread e \<and> generation = Suc (el_generation e + el_count e)
    \<and> delay = min (lp_max_delay (li_policy input))
                  (lp_base_delay (li_policy input) * 2 ^ min 30 (el_count e))"
proof -
  have nf: "\<not> ld_final (decideSupervisedLifecycle input)"
    using final_only_for_cause [of input] assms by auto
  obtain e where e: "li_executor input = Some e" "\<not> executor_suspended (li_plan input) e"
    and d: "ld_action (decide_processes input) = ResumeExecutor thread generation delay"
    using assms unfolding decide_not_final [OF nf]
    by (cases "li_executor input")
       (auto simp: decide_processes_def executor_processes_def split: if_splits)
  then have quiet: "List.find awaiting_result (el_processes e) = None"
      "List.find process_live (el_processes e) = None"
    and "el_l1 e \<noteq> DONE" and "thread = el_thread e" and "generation = Suc (el_generation e + el_count e)"
    and "delay = resume_delay (li_policy input) (el_count e)"
    by (auto simp: decide_processes_def executor_processes_def split: option.splits if_splits)
  with e nf final_only_for_cause [of input] show ?thesis
    by (auto simp: find_None_all resume_delay_def)
qed

text \<open>
  Processes are dealt with in order of urgency: one over its time or memory budget is
  terminated, else a finished one has its result consumed, else a live one is monitored; the
  process acted on belongs to the executor and is in the state the action needs.
\<close>

theorem process_actions_are_ordered:
  assumes "\<not> ld_final (decideSupervisedLifecycle input)"
    and "li_executor input = Some e" and "\<not> executor_suspended (li_plan input) e"
  shows "case ld_action (decideSupervisedLifecycle input) of
      TerminateProcess thread pid \<Rightarrow>
        \<exists>p \<in> set (el_processes e). over_budget (li_policy input) p
          \<and> xp_thread p = thread \<and> xp_id p = pid
    | ConsumeProcessResult thread pid artifact \<Rightarrow>
        list_all (\<lambda>p. \<not> over_budget (li_policy input) p) (el_processes e)
        \<and> (\<exists>p \<in> set (el_processes e). awaiting_result p \<and> xp_thread p = thread \<and> xp_id p = pid
             \<and> xp_artifact p = Some artifact)
    | MonitorProcess q poll \<Rightarrow>
        list_all (\<lambda>p. \<not> over_budget (li_policy input) p \<and> \<not> awaiting_result p) (el_processes e)
        \<and> (\<exists>p \<in> set (el_processes e). process_live p \<and> xp_id q = xp_id p
             \<and> xp_state q = DetachedActive \<and> xp_ownership q = BySupervisor)
    | _ \<Rightarrow> list_all (\<lambda>p. \<not> process_live p \<and> \<not> awaiting_result p) (el_processes e)"
proof -
  have d: "decideSupervisedLifecycle input = decide_processes input"
    using decide_not_final [OF assms(1)] assms(2,3) by simp
  have ps: "executor_processes input = el_processes e"
    using assms(2) by (simp add: executor_processes_def)
  show ?thesis
  proof (cases "List.find (over_budget (li_policy input)) (el_processes e)")
    case (Some p)
    have "ld_action (decideSupervisedLifecycle input) = TerminateProcess (xp_thread p) (xp_id p)"
      by (simp add: d decide_processes_def ps Some)
    then show ?thesis using find_in_set [OF Some] by auto
  next
    case none1: None
    note calm = none1 [unfolded find_None_all]
    show ?thesis
    proof (cases "List.find awaiting_result (el_processes e)")
      case (Some p)
      have "xp_artifact p = Some (the (xp_artifact p))"
        using find_in_set [OF Some] by (cases "xp_artifact p") (auto simp: awaiting_result_def)
      moreover have "ld_action (decideSupervisedLifecycle input)
          = ConsumeProcessResult (xp_thread p) (xp_id p) (the (xp_artifact p))"
        by (simp add: d decide_processes_def ps none1 Some)
      ultimately show ?thesis using find_in_set [OF Some] calm by (auto simp: list_all_iff)
    next
      case none2: None
      note settled = none2 [unfolded find_None_all]
      show ?thesis
      proof (cases "List.find process_live (el_processes e)")
        case (Some p)
        have "ld_action (decideSupervisedLifecycle input)
            = MonitorProcess (p\<lparr>xp_ownership := BySupervisor, xp_state := DetachedActive\<rparr>)
                (lp_poll (li_policy input))"
          by (simp add: d decide_processes_def ps none1 none2 Some)
        then show ?thesis using find_in_set [OF Some] calm settled by (auto simp: list_all_iff)
      next
        case None
        note quiet = None [unfolded find_None_all]
        have "ld_action (decideSupervisedLifecycle input)
            = (if el_l1 e = DONE then ContinueSupervisor
               else ResumeExecutor (el_thread e) (el_generation e + el_count e + 1)
                      (resume_delay (li_policy input) (el_count e)))"
          by (simp add: d decide_processes_def ps none1 none2 None assms(2))
        then show ?thesis using quiet settled by (simp add: list_all_iff)
      qed
    qed
  qed
qed

definition sample_process :: executor_process where
  "sample_process = \<lparr> xp_id = ''p1'', xp_item = ''i'', xp_thread = ''t'', xp_path = ''/root/l1'',
     xp_ownership = ByExecutor, xp_state = Running, xp_observed = ''o'', xp_elapsed = 10,
     xp_cpu = None, xp_rss = Some 5, xp_os_pid = None, xp_exit = None, xp_artifact = None \<rparr>"

definition sample_executor :: executor_lifecycle where
  "sample_executor = \<lparr> el_position = ''L1'', el_canonical = ''l1'', el_path = ''/root/l1'',
     el_thread = ''t'', el_l1 = WIP, el_l2 = None, el_activity = ''o'', el_processes = [],
     el_outcome = PartialOutcome, el_blocking = None, el_generation = 1, el_count = 2,
     el_failures = 0, el_assignment = None, el_replacement = None, el_commands = [] \<rparr>"

definition empty_plan :: supervised_plan where
  "empty_plan = \<lparr> plan_title = ''T'', plan_subtitle = None, plan_date = None,
     plan_keywords = None, plan_policy_version = None, plan_assurance = None, plan_steps = [],
     plan_total = 0, plan_done = 0, plan_all_done = True, plan_execution_complete = Some False,
     plan_current = [] \<rparr>"

definition sample_input :: "executor_process list \<Rightarrow> lifecycle_input" where
  "sample_input ps = \<lparr> li_plan = empty_plan, li_event = ExecutorTurnEnded,
     li_executor = Some (sample_executor\<lparr>el_processes := ps\<rparr>), li_attention = None,
     li_paused = False,
     li_policy = \<lparr> lp_base_delay = 5, lp_max_delay = 100, lp_poll = 1, lp_max_elapsed = 50,
       lp_max_rss = 50 \<rparr> \<rparr>"

theorem resume_only_when_idle_witness:
  "(4::nat) = Suc (el_generation sample_executor + el_count sample_executor)"
proof -
  have "ld_action (decideSupervisedLifecycle (sample_input [])) = ResumeExecutor ''t'' 4 20"
    by code_simp
  from resume_only_when_idle [OF this] show ?thesis by (auto simp: sample_input_def)
qed

theorem process_actions_are_ordered_witness:
  "\<exists>p \<in> {sample_process}. process_live p \<and> xp_id p = ''p1''"
proof -
  let ?in = "sample_input [sample_process]" and ?e = "sample_executor\<lparr>el_processes := [sample_process]\<rparr>"
  have "\<not> ld_final (decideSupervisedLifecycle ?in)"
    and "\<not> executor_suspended (li_plan ?in) ?e"
    and act: "ld_action (decideSupervisedLifecycle ?in)
      = MonitorProcess (sample_process\<lparr>xp_ownership := BySupervisor, xp_state := DetachedActive\<rparr>) 1"
    by code_simp+
  moreover have "li_executor ?in = Some ?e" by (simp add: sample_input_def)
  ultimately show ?thesis
    using process_actions_are_ordered [of ?in ?e] by (simp add: sample_process_def)
qed

text \<open>
  The delay before a resume never exceeds the maximum, never decreases from one continuation
  to the next, and stops growing after thirty.
\<close>

theorem resume_delay_bounds:
  assumes "0 \<le> lp_base_delay policy" and "m \<le> n"
  shows "resume_delay policy n \<le> lp_max_delay policy
    \<and> resume_delay policy m \<le> resume_delay policy n
    \<and> (30 \<le> m \<longrightarrow> resume_delay policy m = resume_delay policy n)"
proof -
  have "(2::rat) ^ min 30 m \<le> 2 ^ min 30 n"
    using assms(2) by (intro power_increasing) auto
  then have "lp_base_delay policy * 2 ^ min 30 m \<le> lp_base_delay policy * 2 ^ min 30 n"
    using assms(1) by (rule mult_left_mono)
  then show ?thesis
    using assms(2) by (auto simp: resume_delay_def min_def)
qed

theorem resume_delay_bounds_witness:
  "resume_delay (li_policy (sample_input [])) 3 \<le> resume_delay (li_policy (sample_input [])) 7"
proof -
  have "0 \<le> lp_base_delay (li_policy (sample_input []))" by (simp add: sample_input_def)
  from resume_delay_bounds [OF this, of 3 7] show ?thesis by simp
qed

subsection \<open>Commands\<close>

text \<open>A command under a sequence of requested statuses; a refused request changes nothing.\<close>

definition command_step :: "command_status \<Rightarrow> command_status \<times> bool \<Rightarrow> command_status" where
  "command_step s r = (if canTransitionExecutorCommand s (fst r) (snd r) then fst r else s)"

definition closed_status :: "command_status \<Rightarrow> bool" where
  "closed_status s \<longleftrightarrow> s \<in> {AcceptedCommand, CancelledCommand, SupersededCommand}"

interpretation command: trapping_stepper command_step "\<lambda>s. True" closed_status "\<lambda>r. False"
  by unfold_locales (auto simp: command_step_def closed_status_def canTransitionExecutorCommand_def)

interpretation failed_command: trapping_stepper command_step "\<lambda>s. True" "\<lambda>s. s = FailedCommand" snd
  by unfold_locales (auto simp: command_step_def canTransitionExecutorCommand_def)

text \<open>
  Terminal evidence stays terminal: an accepted, cancelled or superseded command never
  changes, a failed one is issued again only as an idempotent process action, nothing returns to
  scheduled, and only an issued command is accepted.
\<close>

theorem command_statuses_move_forward:
  "(closed_status s \<longrightarrow> closed_status (run_steps command_step s requests))
   \<and> (s = FailedCommand \<and> list_all (\<lambda>r. \<not> snd r) requests
        \<longrightarrow> run_steps command_step s requests = FailedCommand)
   \<and> (canTransitionExecutorCommand s t idem \<longrightarrow>
        t \<noteq> ScheduledCommand
        \<and> (t \<in> {AcceptedCommand, FailedCommand} \<longrightarrow> s = IssuedCommand))"
  using command.trapped_run [of s requests] failed_command.trapped_run [of s requests]
  by (auto simp: list_all_iff canTransitionExecutorCommand_def)

theorem command_statuses_move_forward_witness:
  "closed_status (run_steps command_step AcceptedCommand [(IssuedCommand, True), (FailedCommand, False)])"
  using command_statuses_move_forward [of AcceptedCommand "[(IssuedCommand, True), (FailedCommand, False)]"]
  by (simp add: closed_status_def)

lemma filter_remove_at:
  assumes "i < length xs" and "\<not> P (xs ! i)"
  shows "filter P (remove_at i xs) = filter P xs"
  using assms id_take_nth_drop [OF assms(1)]
  by (metis filter.simps(2) filter_append remove_at_def)

lemma retain_loop_keeps:
  "retain_loop b cs = Some ds \<Longrightarrow>
     record_fits b ds \<and> filter unresolved ds = filter unresolved cs \<and> set ds \<subseteq> set cs
     \<and> (distinct (map ec_id cs) \<longrightarrow> distinct (map ec_id ds))"
proof (induction b cs rule: retain_loop.induct)
  case (1 b cs)
  show ?case
  proof (cases "record_fits b cs")
    case True
    with 1(2) show ?thesis by (simp add: retain_loop.simps [of b cs])
  next
    case False
    with 1(2) obtain i where i: "find_index (\<lambda>c. \<not> unresolved c) cs = Some i"
      and rest: "retain_loop b (remove_at i cs) = Some ds"
      by (auto simp: retain_loop.simps [of b cs] split: option.splits)
    note at = find_index_SomeD [OF i]
    have "filter unresolved (remove_at i cs) = filter unresolved cs"
      using at by (simp add: filter_remove_at)
    moreover have "set (remove_at i cs) \<subseteq> set cs"
      by (auto simp: remove_at_def dest: in_set_takeD in_set_dropD)
    moreover have "distinct (map ec_id (remove_at i cs))" if "distinct (map ec_id cs)"
    proof -
      have "distinct (take i (map ec_id cs) @ map ec_id cs ! i # drop (Suc i) (map ec_id cs))"
        using that at(1) id_take_nth_drop [of i "map ec_id cs"] by simp
      then show ?thesis by (simp add: remove_at_def take_map drop_map)
    qed
    ultimately show ?thesis using 1(1) [OF False i rest] by auto
  qed
qed

lemma retain_loop_None:
  "retain_loop b cs = None \<Longrightarrow> \<not> record_fits b (filter unresolved cs)"
proof (induction b cs rule: retain_loop.induct)
  case (1 b cs)
  show ?case
  proof (cases "find_index (\<lambda>c. \<not> unresolved c) cs")
    case None
    then have "filter unresolved cs = cs" by (simp add: find_index_None filter_id_conv)
    with 1(2) show ?thesis by (auto simp: retain_loop.simps [of b cs] split: if_splits)
  next
    case (Some i)
    note at = find_index_SomeD [OF Some]
    from 1(2) Some have nf: "\<not> record_fits b cs" and "retain_loop b (remove_at i cs) = None"
      by (auto simp: retain_loop.simps [of b cs] split: if_splits)
    then show ?thesis using 1(1) [OF nf Some] at by (simp add: filter_remove_at)
  qed
qed

text \<open>The loop as the code has it: measure, splice out the first resolved command, measure again.\<close>

definition retention_open ::
  "(executor_command list \<Rightarrow> nat) \<Rightarrow> executor_command list option \<Rightarrow> bool" where
  "retention_open record_bytes s = (case s of None \<Rightarrow> False | Some cs \<Rightarrow> \<not> record_fits record_bytes cs)"

definition retention_round :: "executor_command list option \<Rightarrow> executor_command list option" where
  "retention_round s = Option.bind s (\<lambda>cs. map_option (\<lambda>i. remove_at i cs) (find_index (\<lambda>c. \<not> unresolved c) cs))"

lemma retention_while:
  "while_option (retention_open b) retention_round (Some cs) = Some (retain_loop b cs)
     \<and> (\<exists>n \<le> Suc (length cs). (retention_round ^^ n) (Some cs) = retain_loop b cs)"
proof (induction b cs rule: retain_loop.induct)
  case (1 b cs)
  show ?case
  proof (cases "record_fits b cs")
    case True
    then have "(retention_round ^^ 0) (Some cs) = retain_loop b cs" by (simp add: retain_loop.simps [of b cs])
    with True show ?thesis
      by (subst while_option_unfold) (auto simp: retention_open_def retain_loop.simps [of b cs] intro: exI [of _ 0])
  next
    case False
    show ?thesis
    proof (cases "find_index (\<lambda>c. \<not> unresolved c) cs")
      case None
      with False have r: "retention_round (Some cs) = None" "retain_loop b cs = None"
        by (simp_all add: retention_round_def retain_loop.simps [of b cs])
      then have "(retention_round ^^ 1) (Some cs) = retain_loop b cs" by simp
      moreover have "while_option (retention_open b) retention_round None = Some None"
        by (subst while_option_unfold) (simp add: retention_open_def)
      ultimately show ?thesis using False r
        by (subst while_option_unfold) (auto simp: retention_open_def intro: exI [of _ 1])
    next
      case (Some i)
      from 1 [OF False Some] obtain n where
        loop: "while_option (retention_open b) retention_round (Some (remove_at i cs)) = Some (retain_loop b (remove_at i cs))"
        and n: "n \<le> Suc (length (remove_at i cs))" "(retention_round ^^ n) (Some (remove_at i cs)) = retain_loop b (remove_at i cs)"
        by blast
      have round: "retention_round (Some cs) = Some (remove_at i cs)" using Some by (simp add: retention_round_def)
      have rest: "retain_loop b cs = retain_loop b (remove_at i cs)"
        using False Some by (simp add: retain_loop.simps [of b cs])
      have "(retention_round ^^ Suc n) (Some cs) = retain_loop b cs"
        using n(2) round rest by (simp only: funpow_Suc_right comp_apply)
      moreover have "Suc n \<le> Suc (length cs)"
        using n(1) length_remove_at [OF find_index_SomeD(1) [OF Some]] by simp
      moreover have "while_option (retention_open b) retention_round (Some cs) = Some (retain_loop b cs)"
        by (subst while_option_unfold) (simp add: retention_open_def False round loop rest)
      ultimately show ?thesis by blast
    qed
  qed
qed

text \<open>
  C32: the retention loop returns. Run on the commands with the new one at the end it stops after at
  most one round per command and one more, and what it leaves keeps every unresolved command in
  order, the new one included, drops resolved ones only, and stays within 32 commands and the record
  budget; it gives up only if the unresolved commands alone exceed the budget.
\<close>
theorem retention_loop_returns:
  "while_option (retention_open bytes) retention_round (Some (existing @ [command]))
       = Some (retainExecutorCommands bytes existing command)
     \<and> (\<exists>n \<le> length existing + 2.
          (retention_round ^^ n) (Some (existing @ [command])) = retainExecutorCommands bytes existing command)
     \<and> (case retainExecutorCommands bytes existing command of
          Some kept \<Rightarrow>
            filter unresolved kept = filter unresolved (existing @ [command])
            \<and> set kept \<subseteq> insert command (set existing)
            \<and> length kept \<le> 32 \<and> bytes kept \<le> max_record_bytes - 4096
        | None \<Rightarrow> \<not> record_fits bytes (filter unresolved (existing @ [command])))"
  using retention_while [of bytes "existing @ [command]"] retain_loop_keeps [of bytes "existing @ [command]"]
    retain_loop_None [of bytes "existing @ [command]"]
  by (auto simp: retainExecutorCommands_def record_fits_def split: option.split)

subsection \<open>Outcomes\<close>

text \<open>
  An incomplete turn is a blocker only when it reports a blocking reason with its own resume
  condition; every other incomplete, settled turn is recoverable, and a blocking verdict carries
  the block.
\<close>

theorem blockers_need_structure:
  "(ov_class (classifyExecutorOutcome r) = BlockerClass \<longleftrightarrow>
      \<not> or_objective_complete r \<and> or_outcome r = Some BlockedOutcome
      \<and> (\<exists>reason. or_reason r = Some reason
           \<and> or_condition r = Some (blockingResumeConditions reason)))
   \<and> (ov_class (classifyExecutorOutcome r) = DoneClass \<longleftrightarrow> or_objective_complete r)
   \<and> (ov_blocking (classifyExecutorOutcome r) \<noteq> None \<longleftrightarrow>
        ov_class (classifyExecutorOutcome r) = BlockerClass)"
  by (cases "or_reason r"; cases "or_condition r")
     (auto simp: classifyExecutorOutcome_def reported_block_def validStructuredBlock_def)

subsection \<open>Identity\<close>

lemma digits_no_g: "list_all is_digit ds \<Longrightarrow> CHR ''g'' \<notin> set ds"
  by (auto simp: list_all_iff is_digit_def code_def)

lemma canonical_task_no_g:
  assumes "is_canonical_task c"
  shows "CHR ''g'' \<notin> set c"
proof (cases c)
  case (Cons l cs)
  let ?ds = "takeWhile is_digit cs" and ?rest = "dropWhile is_digit cs"
  from assms Cons have l: "l = CHR ''l''" and ds: "positive_decimal ?ds"
    and rest: "?rest = [] \<or> (hd ?rest = CHR ''_'' \<and> positive_decimal (tl ?rest))"
    by (simp_all add: Let_def)
  have "CHR ''g'' \<notin> set ?ds" using digits_no_g [OF positive_decimal_digits [OF ds]] .
  moreover have "CHR ''g'' \<notin> set ?rest"
  proof (cases ?rest)
    case (Cons u us)
    with rest have "u = CHR ''_''" "positive_decimal us" by auto
    then show ?thesis unfolding Cons using digits_no_g [OF positive_decimal_digits, of us] by simp
  next
    case Nil
    show ?thesis unfolding Nil by simp
  qed
  ultimately have "CHR ''g'' \<notin> set (?ds @ ?rest)" unfolding set_append by blast
  then have "CHR ''g'' \<notin> set cs" by simp
  then show ?thesis using Cons l by simp
qed simp

lemma takeWhile_before: "c \<notin> set s \<Longrightarrow> takeWhile (\<lambda>x. x \<noteq> c) (s @ c # t) = s"
  by (induction s) auto

lemma identity_parts:
  assumes "executorIdentity c g = Some i"
  shows "is_canonical_task c \<and> 1 \<le> g \<and> ei_canonical i = c \<and> ei_generation i = nat g
    \<and> ei_name i = (if g = 1 then c else (c @ ''_'') @ CHR ''g'' # nat_text (nat g))
    \<and> ei_position i = orgPlanAgentDisplayName c"
  using assms by (auto simp: executorIdentity_def split: if_splits)

lemma identity_name_inj:
  assumes "executorIdentity c g = Some i" and "executorIdentity c' g' = Some i'"
    and "ei_name i = ei_name i'"
  shows "c = c' \<and> g = g'"
proof -
  note p = identity_parts [OF assms(1)] and q = identity_parts [OF assms(2)]
  have no_g: "CHR ''g'' \<notin> set c" "CHR ''g'' \<notin> set c'"
    using p q canonical_task_no_g by blast+
  have gen: "g = 1 \<longleftrightarrow> CHR ''g'' \<notin> set (ei_name i)" "g' = 1 \<longleftrightarrow> CHR ''g'' \<notin> set (ei_name i')"
    using p q no_g by auto
  show ?thesis
  proof (cases "g = 1")
    case True
    then have "g' = 1" using gen assms(3) by simp
    with True p q assms(3) show ?thesis by simp
  next
    case False
    then have "g' \<noteq> 1" using gen assms(3) by simp
    with False p q assms(3)
    have names: "(c @ ''_'') @ CHR ''g'' # nat_text (nat g) = (c' @ ''_'') @ CHR ''g'' # nat_text (nat g')"
      by simp
    have "CHR ''g'' \<notin> set (c @ ''_'')" "CHR ''g'' \<notin> set (c' @ ''_'')" using no_g by auto
    from takeWhile_before [OF this(1)] takeWhile_before [OF this(2)] names
    have "c @ ''_'' = c' @ ''_''" by metis
    with names have "c = c'" "nat g = nat g'" by (simp_all add: nat_text_inj)
    then show ?thesis using p q by (simp add: eq_nat_nat_iff)
  qed
qed

text \<open>
  A physical task name identifies its executor: two identities with one name have the same
  canonical task and the same generation.
\<close>

theorem physical_names_are_unique:
  assumes "executorIdentity c g = Some i" and "executorIdentity c' g' = Some i'"
    and "ei_name i = ei_name i'"
  shows "c = c' \<and> g = g' \<and> i = i'"
  using identity_name_inj [OF assms] assms(1,2) by auto

theorem physical_names_are_unique_witness:
  "\<exists>i. executorIdentity ''l3'' 2 = Some i \<and> (2 :: int) = 2 \<and> i = i"
proof -
  obtain i where i: "executorIdentity ''l3'' 2 = Some i"
    by (cases "executorIdentity ''l3'' 2")
       (auto simp: executorIdentity_def is_digit_def is_digit19_def code_def max_safe_def Let_def)
  from physical_names_are_unique [OF i i refl] i show ?thesis by blast
qed

text \<open>
  The physical name the lifecycle gives an executor of milestone \<open>n\<close> is the name the roster
  recognises: any path ending in it is parsed to the milestone, its position and the generation.
\<close>

theorem roster_recognises_executor:
  assumes "0 < n" and "executorIdentity (l1_task_name n) (int g) = Some i"
  shows "parseOrgPlanAgentIdentity (dir @ ''/'' @ ei_name i)
      = Some \<lparr> ai_task = ei_canonical i, ai_position = ei_position i, ai_generation = ei_generation i \<rparr>
    \<and> ei_position i = orgPlanPosition n None \<and> ei_generation i = g"
proof -
  note p = identity_parts [OF assms(2)]
  have position: "ei_position i = orgPlanPosition n None"
    using p agent_plain_form [OF assms(1)] by (simp add: orgPlanAgentDisplayName_def)
  show ?thesis
  proof (cases "g = 1")
    case True
    then show ?thesis using p position agent_path_form [OF assms(1), of dir] by simp
  next
    case False
    then have "ei_name i = l1_task_name n @ ''_g'' @ nat_text g" using p by auto
    moreover have "0 < g" using p by auto
    ultimately show ?thesis using p position agent_generation_form [OF assms(1), of g dir] by simp
  qed
qed

theorem roster_recognises_executor_witness:
  "parseOrgPlanAgentIdentity ''/root/l3_g2''
     = Some \<lparr> ai_task = ''l3'', ai_position = ''L3'', ai_generation = 2 \<rparr>"
proof -
  have "executorIdentity (l1_task_name 3) (int 2)
      = Some \<lparr> ei_canonical = ''l3'', ei_position = ''L3'', ei_generation = 2, ei_name = ''l3_g2'' \<rparr>"
    by code_simp
  from roster_recognises_executor [OF _ this, of "''/root''"] show ?thesis by simp
qed

end
