(* ===== verification/Json_Read.thy ===== *)
theory Json_Read
  imports Js_Json "HOL-Library.Monad_Syntax"
begin

text \<open>
  Helpers of the decoders: reading optional fields and lists of an untyped record, and
  \<open>JSON.parse\<close> restricted to the only result the sources look at, an array of texts. Every
  other JSON text, and every text that is no JSON, is \<open>None\<close>; a \<open>\u\<close> escape above 255 is
  outside the modelled alphabet and counts as unreadable.
\<close>

subsection \<open>Fields\<close>

definition guard :: "bool \<Rightarrow> unit option" where
  "guard b = (if b then Some () else None)"

lemma guard_Some [simp]: "guard b = Some u \<longleftrightarrow> b"
  by (simp add: guard_def)

lemma guard_bind_Some [simp]: "(guard b \<bind> f) = Some x \<longleftrightarrow> b \<and> f () = Some x"
  by (simp add: guard_def)

text \<open>\<open>undefined\<close> or a value the reader accepts.\<close>

definition optional :: "(jv \<Rightarrow> 'a option) \<Rightarrow> jv \<Rightarrow> 'a option option" where
  "optional f v = (if v = JUndef then Some None else map_option Some (f v))"

lemma optional_Some:
  "optional f v = Some r \<longleftrightarrow> (v = JUndef \<and> r = None) \<or> (v \<noteq> JUndef \<and> (\<exists>x. f v = Some x \<and> r = Some x))"
  by (auto simp: optional_def)

text \<open>\<open>flatMap\<close> followed by the comparison of lengths: every element must be accepted.\<close>

fun read_all :: "('b \<Rightarrow> 'a option) \<Rightarrow> 'b list \<Rightarrow> 'a list option" where
  "read_all f [] = Some []"
| "read_all f (v # vs) = do { x \<leftarrow> f v; xs \<leftarrow> read_all f vs; Some (x # xs) }"

lemma read_all_Some: "read_all f vs = Some xs \<longleftrightarrow> list_all2 (\<lambda>v x. f v = Some x) vs xs"
  by (induction vs arbitrary: xs) (auto simp: list_all2_Cons1 bind_eq_Some_conv)

lemma read_all_forall: "read_all f vs = Some xs \<Longrightarrow> (\<And>v x. f v = Some x \<Longrightarrow> P x) \<Longrightarrow> list_all P xs"
  by (induction vs arbitrary: xs) (auto simp: bind_eq_Some_conv)

lemma read_all_length: "read_all f vs = Some xs \<Longrightarrow> length xs = length vs"
  by (simp add: read_all_Some list_all2_lengthD)

fun as_bool :: "jv \<Rightarrow> bool option" where
  "as_bool (JBool b) = Some b"
| "as_bool _ = None"

subsection \<open>Arrays of texts\<close>

definition json_blank :: "char \<Rightarrow> bool" where
  "json_blank c \<longleftrightarrow> c = CHR '' '' \<or> code c = 9 \<or> code c = 10 \<or> code c = 13"

definition skip_blank :: "string \<Rightarrow> string" where
  "skip_blank s = dropWhile json_blank s"

definition hex_value :: "char \<Rightarrow> nat" where
  "hex_value c = (if is_digit c then code c - 48 else if is_lower c then code c - 87 else code c - 55)"

text \<open>One character of a JSON string; the strict grammar of the specification.\<close>

fun json_escape :: "string \<Rightarrow> (char \<times> string) option" where
  "json_escape (e # a # b # c # d # s) =
     (if e = CHR ''u'' then
        (if list_all is_hex [a, b, c, d] \<and> hex_value a = 0 \<and> hex_value b = 0
         then Some (char_of (16 * hex_value c + hex_value d), s) else None)
      else map_option (\<lambda>x. (x, a # b # c # d # s))
             (map_of [(quote, quote), (backslash, backslash), (CHR ''/'', CHR ''/''),
                (CHR ''b'', char_of (8 :: nat)), (CHR ''f'', char_of (12 :: nat)),
                (CHR ''n'', char_of (10 :: nat)), (CHR ''r'', char_of (13 :: nat)),
                (CHR ''t'', char_of (9 :: nat))] e))"
| "json_escape (e # s) =
     map_option (\<lambda>x. (x, s))
       (map_of [(quote, quote), (backslash, backslash), (CHR ''/'', CHR ''/''),
          (CHR ''b'', char_of (8 :: nat)), (CHR ''f'', char_of (12 :: nat)),
          (CHR ''n'', char_of (10 :: nat)), (CHR ''r'', char_of (13 :: nat)),
          (CHR ''t'', char_of (9 :: nat))] e)"
| "json_escape [] = None"

lemma json_escape_shorter: "json_escape s = Some (c, r) \<Longrightarrow> length r < length s"
  by (cases s rule: json_escape.cases) (auto split: if_splits)

text \<open>The characters up to the closing quote, and what follows it.\<close>

function json_string :: "string \<Rightarrow> (string \<times> string) option" where
  "json_string [] = None"
| "json_string (c # s) =
     (if c = quote then Some ([], s)
      else if code c < 32 then None
      else if c \<noteq> backslash then map_option (\<lambda>(t, r). (c # t, r)) (json_string s)
      else case json_escape s of
             None \<Rightarrow> None
           | Some (x, r) \<Rightarrow> map_option (\<lambda>(t, r'). (x # t, r')) (json_string r))"
  by pat_completeness auto
termination
  by (relation "measure length") (auto dest: json_escape_shorter)

lemma json_string_shorter: "json_string s = Some (t, r) \<Longrightarrow> length r < length s"
proof (induction s arbitrary: t rule: json_string.induct)
  case (2 c s)
  consider "c = quote" | "c \<noteq> quote" "\<not> code c < 32" "c \<noteq> backslash"
    | "c \<noteq> quote" "\<not> code c < 32" "c = backslash" | "c \<noteq> quote" "code c < 32" by blast
  then show ?case
  proof cases
    case 1
    with 2(3) show ?thesis by simp
  next
    case 2
    with "2.prems" obtain t' where "json_string s = Some (t', r)" by auto
    with "2.IH"(1) [OF 2] show ?thesis by fastforce
  next
    case 3
    with "2.prems" obtain x r' t' where x: "json_escape s = Some (x, r')"
      and "json_string r' = Some (t', r)"
      by (auto split: option.splits)
    with "2.IH"(2) [of "(x, r')" x r' t'] 3 have "length r < length r'" by auto
    with json_escape_shorter [OF x] show ?thesis by simp
  next
    case 4
    with 2(3) show ?thesis by simp
  qed
qed simp

lemma skip_blank_shorter: "skip_blank s = c # r \<Longrightarrow> length r < length s"
  using length_dropWhile_le [of json_blank s] by (simp add: skip_blank_def)

text \<open>Elements of an array after its bracket or a comma.\<close>

function text_items :: "string \<Rightarrow> (string list \<times> string) option" where
  "text_items s =
     (case skip_blank s of
        [] \<Rightarrow> None
      | q # r \<Rightarrow>
          if q \<noteq> quote then None
          else case json_string r of
                 None \<Rightarrow> None
               | Some (t, r') \<Rightarrow>
                   (case skip_blank r' of
                      [] \<Rightarrow> None
                    | d # r'' \<Rightarrow>
                        if d = CHR '']'' then Some ([t], r'')
                        else if d = CHR '','' then
                          map_option (\<lambda>(ts, u). (t # ts, u)) (text_items r'')
                        else None))"
  by pat_completeness auto
termination
  by (relation "measure length") (auto dest!: skip_blank_shorter json_string_shorter)

declare text_items.simps [simp del]

definition text_array :: "string \<Rightarrow> string list option" where
  "text_array s =
     (case skip_blank s of
        [] \<Rightarrow> None
      | b # r \<Rightarrow>
          if b \<noteq> CHR ''['' then None
          else if (case skip_blank r of [] \<Rightarrow> False | c # u \<Rightarrow> c = CHR '']'' \<and> skip_blank u = [])
          then Some []
          else (case text_items r of
                  Some (ts, u) \<Rightarrow> if skip_blank u = [] then Some ts else None
                | None \<Rightarrow> None))"

subsection \<open>Reading back what was printed\<close>

lemma hex_value_hex_char: "n < 16 \<Longrightarrow> hex_value (hex_char n) = n \<and> is_hex (hex_char n)"
  by (auto simp: hex_value_def hex_char_def code_char_of is_digit_def is_lower_def is_hex_def
        is_hex_lower_def)

lemma json_escape_short:
  "e \<noteq> CHR ''u'' \<Longrightarrow>
   json_escape (e # s) = map_option (\<lambda>x. (x, s))
     (map_of [(quote, quote), (backslash, backslash), (CHR ''/'', CHR ''/''),
        (CHR ''b'', char_of (8 :: nat)), (CHR ''f'', char_of (12 :: nat)),
        (CHR ''n'', char_of (10 :: nat)), (CHR ''r'', char_of (13 :: nat)),
        (CHR ''t'', char_of (9 :: nat))] e)"
  by (cases "e # s" rule: json_escape.cases) simp_all

lemma json_string_escape:
  "json_string (escape_char c @ s) = map_option (\<lambda>(t, r). (c # t, r)) (json_string s)"
proof (cases "c = quote \<or> c = backslash \<or> code c = 8 \<or> code c = 9 \<or> code c = 10 \<or> code c = 12
    \<or> code c = 13")
  case True
  have codes: "\<not> code backslash < 32" "backslash \<noteq> quote" by (simp_all add: code_def)
  from True show ?thesis
    by (elim disjE) (simp_all add: escape_char_def codes json_escape_short code_eq_char_of)
next
  case False
  have codes: "\<not> code backslash < 32" "backslash \<noteq> quote" by (simp_all add: code_def)
  show ?thesis
  proof (cases "code c < 32")
    case True
    then have small: "code c div 16 < 16" "code c mod 16 < 16" by auto
    have zero: "is_hex (CHR ''0'')" "hex_value (CHR ''0'') = 0"
      by (simp_all add: is_hex_def is_hex_lower_def is_digit_def hex_value_def code_def)
    have "char_of (16 * hex_value (hex_char (code c div 16)) + hex_value (hex_char (code c mod 16))) = c"
      using hex_value_hex_char [OF small(1)] hex_value_hex_char [OF small(2)]
      by (simp add: code_eq_char_of)
    with True False codes hex_value_hex_char [OF small(1)] hex_value_hex_char [OF small(2)] zero
    show ?thesis by (simp add: escape_char_def)
  next
    case outside: False
    with False show ?thesis by (simp add: escape_char_def)
  qed
qed

lemma json_string_escape_text: "json_string (escape_text t @ r) = Some (t, r)"
  by (induction t) (simp_all add: json_string_escape)

lemma skip_blank_simps [simp]:
  "skip_blank (quote # s) = quote # s" "skip_blank (CHR '']'' # s) = CHR '']'' # s"
  "skip_blank (CHR '','' # s) = CHR '','' # s" "skip_blank (CHR ''['' # s) = CHR ''['' # s"
  "skip_blank [] = []"
  by (simp_all add: skip_blank_def json_blank_def code_def)

lemma text_items_printed:
  "text_items (json_items (map OText (t # ts)) @ r) = Some (t # ts, r)"
proof (induction ts arbitrary: t)
  case Nil
  show ?case by (simp add: text_items.simps [of "quote # _"] json_string_escape_text)
next
  case (Cons u ts)
  from Cons [of u] show ?case
    by (simp add: text_items.simps [of "quote # escape_text t @ _"] json_string_escape_text)
qed

lemma text_array_printed: "text_array (json_text (OArr (map OText ts))) = Some ts"
proof (cases ts)
  case Nil
  then show ?thesis by (simp add: text_array_def)
next
  case (Cons t us)
  have "json_items (map OText (t # us)) \<noteq> []" by (cases us) simp_all
  moreover have "hd (json_items (map OText (t # us))) = quote" by (cases us) simp_all
  ultimately obtain v where v: "json_items (map OText (t # us)) = quote # v"
    by (cases "json_items (map OText (t # us))") auto
  have "text_items (quote # v) = Some (t # us, [])"
    using text_items_printed [of t us "[]"] v by simp
  then show ?thesis using Cons v by (simp add: text_array_def)
qed

end
