(* ===== verification/Lifecycle_Store.thy ===== *)
theory Lifecycle_Store
  imports Executor_Lifecycle Protocol_Store Json_Read
begin

text \<open>
  The persisted form of a supervised lifecycle
  (\<open>parsePersistedSupervisedLifecycle\<close> and its helpers in supervised-lifecycle.ts): the executor
  with its processes, commands, assignment and replacement, a structured block, the supervision
  protocol, and the checkpoint ledger. A malformed record is rejected as a whole.
\<close>

subsection \<open>Enumerations\<close>

definition todo_names :: "(string \<times> todo_state) list" where
  "todo_names = [(''TODO'', TODO), (''WIP'', WIP), (''DONE'', DONE), (''SUSPENDED'', SUSPENDED)]"

definition process_state_names :: "(string \<times> process_state) list" where
  "process_state_names =
     [(''running'', Running), (''detached-active'', DetachedActive),
      (''exited-awaiting-result'', ExitedAwaitingResult), (''result-consumed'', ResultConsumed),
      (''terminated-for-budget'', TerminatedForBudget)]"

definition ownership_names :: "(string \<times> process_ownership) list" where
  "ownership_names = [(''executor'', ByExecutor), (''supervisor'', BySupervisor)]"

definition executor_outcome_names :: "(string \<times> executor_outcome) list" where
  "executor_outcome_names =
     [(''objective_complete'', ObjectiveComplete), (''partial'', PartialOutcome),
      (''blocked'', BlockedOutcome), (''cancelled'', CancelledOutcome), (''failed'', FailedOutcome)]"

definition assignment_state_names :: "(string \<times> assignment_state) list" where
  "assignment_state_names =
     [(''resumable'', Resumable), (''closed'', ClosedAssignment), (''unavailable'', UnavailableAssignment)]"

definition command_status_names :: "(string \<times> command_status) list" where
  "command_status_names =
     [(''scheduled'', ScheduledCommand), (''issued'', IssuedCommand), (''accepted'', AcceptedCommand),
      (''failed'', FailedCommand), (''cancelled'', CancelledCommand),
      (''superseded'', SupersededCommand)]"

definition trigger_names :: "(string \<times> command_trigger) list" where
  "trigger_names = [(''partial'', PartialTrigger), (''processExited'', ProcessExitedTrigger),
     (''processResourceLimit'', ProcessResourceLimit)]"

definition action_kind_names :: "(string \<times> process_action_kind) list" where
  "action_kind_names = [(''transfer'', TransferAction), (''consume'', ConsumeAction),
     (''terminate'', TerminateAction)]"

definition replacement_reason_names :: "(string \<times> replacement_reason) list" where
  "replacement_reason_names =
     [(''explicitExecutorRejection'', ExplicitExecutorRejection),
      (''humanPermissionGranted'', HumanPermissionGranted),
      (''userDirectedTakeover'', UserDirectedTakeover)]"

definition blocking_reason_names :: "(string \<times> blocking_reason) list" where
  "blocking_reason_names =
     [(''planChange'', PlanChange), (''hardBlock'', HardBlock),
      (''missingDependency'', MissingDependency), (''permissionRequired'', PermissionRequired),
      (''externalState'', ExternalState), (''materialAmbiguity'', MaterialAmbiguity)]"

definition resume_condition_names :: "(string \<times> resume_condition) list" where
  "resume_condition_names =
     [(''planRevision'', PlanRevision), (''externalStateChanged'', ExternalStateChanged),
      (''dependencyInstalled'', DependencyInstalled), (''permissionGranted'', PermissionGranted),
      (''userGuidance'', UserGuidance)]"

subsection \<open>Parts of the executor\<close>

definition parseStructuredBlock :: "jv \<Rightarrow> structured_block option" where
  "parseStructuredBlock v = do {
     f \<leftarrow> as_record v;
     reason \<leftarrow> enum_value blocking_reason_names (field_of f ''reason'');
     condition \<leftarrow> enum_value resume_condition_names (field_of f ''resumeCondition'');
     guard (blockingResumeConditions reason = condition);
     Some \<lparr> sb_reason = reason, sb_condition = condition \<rparr> }"

definition parse_process :: "jv \<Rightarrow> executor_process option" where
  "parse_process v = do {
     p \<leftarrow> as_record v;
     pid \<leftarrow> bounded_text (field_of p ''processId'');
     item \<leftarrow> bounded_text (field_of p ''itemId'');
     thread \<leftarrow> bounded_text (field_of p ''ownerThreadId'');
     path \<leftarrow> bounded_text (field_of p ''ownerTaskPath'');
     ownership \<leftarrow> enum_value ownership_names (field_of p ''ownership'');
     state \<leftarrow> enum_value process_state_names (field_of p ''state'');
     observed \<leftarrow> bounded_text (field_of p ''observedAt'');
     elapsed \<leftarrow> non_negative_number (field_of p ''elapsedMs'');
     cpu \<leftarrow> nullable_non_negative_number (field_of p ''cpuPercent'');
     rss \<leftarrow> nullable_non_negative_number (field_of p ''rssBytes'');
     os_pid \<leftarrow> optional non_negative_integer (field_of p ''osPid'');
     exit \<leftarrow> optional js_integer (field_of p ''exitStatus'');
     artifact \<leftarrow> optional bounded_text (field_of p ''resultArtifact'');
     Some \<lparr> xp_id = pid, xp_item = item, xp_thread = thread, xp_path = path,
            xp_ownership = ownership, xp_state = state, xp_observed = observed,
            xp_elapsed = elapsed, xp_cpu = cpu, xp_rss = rss, xp_os_pid = os_pid,
            xp_exit = exit, xp_artifact = artifact \<rparr> }"

definition parseExecutorAssignment :: "jv \<Rightarrow> executor_assignment option" where
  "parseExecutorAssignment v = do {
     f \<leftarrow> as_record v;
     position \<leftarrow> bounded_text (field_of f ''canonicalPosition'');
     canonical \<leftarrow> bounded_text (field_of f ''canonicalTaskName'');
     name \<leftarrow> bounded_text (field_of f ''taskName'');
     path \<leftarrow> bounded_text (field_of f ''taskPath'');
     thread \<leftarrow> bounded_text (field_of f ''threadId'');
     generation \<leftarrow> non_negative_integer (field_of f ''generation'');
     guard (1 \<le> generation);
     state \<leftarrow> enum_value assignment_state_names (field_of f ''state'');
     identity \<leftarrow> executorIdentity canonical (int generation);
     guard (ei_position identity = position \<and> ei_name identity = name);
     Some \<lparr> ea_position = position, ea_canonical = canonical, ea_name = name, ea_path = path,
            ea_thread = thread, ea_generation = generation, ea_state = state \<rparr> }"

text \<open>The replacement is checked against the executor's own canonical task and position.\<close>

definition parse_replacement :: "string \<Rightarrow> string \<Rightarrow> jv \<Rightarrow> executor_replacement option" where
  "parse_replacement canonical position v = do {
     f \<leftarrow> as_record v;
     generation \<leftarrow> non_negative_integer (field_of f ''generation'');
     guard (generation \<noteq> 0);
     name \<leftarrow> bounded_text (field_of f ''taskName'');
     new_canonical \<leftarrow> bounded_text (field_of f ''canonicalTaskName'');
     new_position \<leftarrow> bounded_text (field_of f ''canonicalPosition'');
     plan \<leftarrow> bounded_text (field_of f ''planIdentity'');
     fingerprint \<leftarrow> parsePlanFingerprint (field_of f ''planFingerprint'');
     previous \<leftarrow> optional parseExecutorAssignment (field_of f ''previous'');
     reason \<leftarrow> optional (enum_value replacement_reason_names) (field_of f ''reason'');
     evidence \<leftarrow> optional bounded_text (field_of f ''evidence'');
     identity \<leftarrow> executorIdentity new_canonical (int generation);
     guard (ei_name identity = name \<and> ei_position identity = new_position);
     guard (case previous of None \<Rightarrow> True
            | Some p \<Rightarrow> ea_canonical p = canonical \<and> ea_position p = position);
     Some \<lparr> er_identity = \<lparr> ei_canonical = new_canonical, ei_position = new_position,
                            ei_generation = generation, ei_name = name \<rparr>,
            er_plan = plan, er_fingerprint = fingerprint, er_previous = previous,
            er_reason = reason, er_evidence = evidence \<rparr> }"

definition parse_process_action :: "jv \<Rightarrow> (process_action_kind \<times> string) option" where
  "parse_process_action v = do {
     f \<leftarrow> as_record v;
     kind \<leftarrow> enum_value action_kind_names (field_of f ''kind'');
     key \<leftarrow> bounded_text (field_of f ''processKey'');
     Some (kind, key) }"

definition parse_command :: "jv \<Rightarrow> executor_command option" where
  "parse_command v = do {
     f \<leftarrow> as_record v;
     cid \<leftarrow> bounded_text (field_of f ''commandId'');
     status \<leftarrow> enum_value command_status_names (field_of f ''status'');
     plan \<leftarrow> bounded_text (field_of f ''planIdentity'');
     fingerprint \<leftarrow> parsePlanFingerprint (field_of f ''planFingerprint'');
     position \<leftarrow> bounded_text (field_of f ''canonicalPosition'');
     canonical \<leftarrow> bounded_text (field_of f ''canonicalTaskName'');
     path \<leftarrow> bounded_text (field_of f ''taskPath'');
     thread \<leftarrow> bounded_text (field_of f ''threadId'');
     generation \<leftarrow> non_negative_integer (field_of f ''generation'');
     attempt \<leftarrow> optional non_negative_integer (field_of f ''attempt'');
     trigger \<leftarrow> enum_value trigger_names (field_of f ''trigger'');
     guard (field_of f ''supersededBeforeIssue'' = JUndef
            \<or> (field_of f ''supersededBeforeIssue'' = JBool True
               \<and> status \<in> {CancelledCommand, SupersededCommand}));
     action \<leftarrow> optional parse_process_action (field_of f ''processAction'');
     created \<leftarrow> bounded_text (field_of f ''createdAt'');
     updated \<leftarrow> bounded_text (field_of f ''updatedAt'');
     Some \<lparr> ec_id = cid, ec_status = status, ec_plan = plan, ec_fingerprint = fingerprint,
            ec_position = position, ec_canonical = canonical, ec_path = path, ec_thread = thread,
            ec_generation = generation, ec_attempt = coalesce attempt 0,
            ec_superseded_before_issue = (field_of f ''supersededBeforeIssue'' = JBool True),
            ec_trigger = trigger, ec_action = action, ec_created = created,
            ec_updated = updated \<rparr> }"

text \<open>An absent history is empty; otherwise at most 32 commands, with distinct identifiers.\<close>

definition parse_commands :: "jv \<Rightarrow> executor_command list option" where
  "parse_commands v =
     (if v = JUndef then Some []
      else do {
        raw \<leftarrow> as_array v;
        guard (length raw \<le> 32);
        commands \<leftarrow> read_all parse_command raw;
        guard (distinct (map ec_id commands));
        Some commands })"

definition parse_executor :: "jv \<Rightarrow> executor_lifecycle option" where
  "parse_executor v = do {
     f \<leftarrow> as_record v;
     raw_processes \<leftarrow> as_array (field_of f ''ownedProcesses'');
     guard (length raw_processes \<le> 64);
     processes \<leftarrow> read_all parse_process raw_processes;
     position \<leftarrow> bounded_text (field_of f ''canonicalPosition'');
     canonical \<leftarrow> bounded_text (field_of f ''canonicalTaskName'');
     path \<leftarrow> bounded_text (field_of f ''taskPath'');
     thread \<leftarrow> bounded_text (field_of f ''threadId'');
     l1 \<leftarrow> enum_value todo_names (field_of f ''l1State'');
     l2 \<leftarrow> optional (enum_value todo_names) (field_of f ''l2State'');
     activity \<leftarrow> bounded_text (field_of f ''lastActivityAt'');
     outcome \<leftarrow> enum_value executor_outcome_names (field_of f ''outcome'');
     generation \<leftarrow> non_negative_integer (field_of f ''continuationGeneration'');
     count \<leftarrow> non_negative_integer (field_of f ''continuationCount'');
     failures \<leftarrow> optional non_negative_integer (field_of f ''resumeFailures'');
     assignment \<leftarrow> optional parseExecutorAssignment (field_of f ''assignment'');
     replacement \<leftarrow> optional (parse_replacement canonical position) (field_of f ''replacement'');
     commands \<leftarrow> parse_commands (field_of f ''commands'');
     blocking \<leftarrow> optional parseStructuredBlock (field_of f ''blocking'');
     Some \<lparr> el_position = position, el_canonical = canonical, el_path = path, el_thread = thread,
            el_l1 = l1, el_l2 = l2, el_activity = activity, el_processes = processes,
            el_outcome = outcome, el_blocking = blocking,
            el_generation = (case assignment of None \<Rightarrow> generation | Some a \<Rightarrow> ea_generation a),
            el_count = count, el_failures = coalesce failures 0, el_assignment = assignment,
            el_replacement = replacement, el_commands = commands \<rparr> }"

subsection \<open>Checkpoint targets\<close>

datatype target_kind = TargetL1 string | TargetL2 string string | TargetTerminal

fun checkpointTarget :: "target_kind \<Rightarrow> string" where
  "checkpointTarget (TargetL2 l1 l2) = json_text (OArr [OText ''l2'', OText l1, OText l2])"
| "checkpointTarget (TargetL1 l1) = json_text (OArr [OText ''l1'', OText l1])"
| "checkpointTarget TargetTerminal = json_text (OArr [OText ''terminal''])"

definition bounded :: "string \<Rightarrow> bool" where
  "bounded s \<longleftrightarrow> s \<noteq> [] \<and> length s \<le> 512"

text \<open>
  A target in JSON, or in the legacy colon form; the legacy forms start with a letter, so they
  are never JSON arrays.
\<close>

fun target_of_parts :: "string list \<Rightarrow> target_kind option" where
  "target_of_parts [k] = (if k = ''terminal'' then Some TargetTerminal else None)"
| "target_of_parts [k, a] = (if k = ''l1'' \<and> bounded a then Some (TargetL1 a) else None)"
| "target_of_parts [k, a, b] =
     (if k = ''l2'' \<and> bounded a \<and> bounded b then Some (TargetL2 a b) else None)"
| "target_of_parts _ = None"

definition canonicalCheckpointTarget :: "jv \<Rightarrow> string option" where
  "canonicalCheckpointTarget v =
     (case v of
        JStr s \<Rightarrow>
          (case text_array s of
             Some parts \<Rightarrow> map_option checkpointTarget (target_of_parts parts)
           | None \<Rightarrow> map_option checkpointTarget (target_of_parts (split_on (CHR '':'') s)))
      | _ \<Rightarrow> None)"

subsection \<open>The checkpoint ledger\<close>

record completion_epoch =
  ce_target :: string
  ce_epoch :: nat
  ce_reopened :: bool
  ce_completed :: bool

text \<open>\<open>pendingKind\<close> is kept as it was read: the code validates its text but stores the value.\<close>

record checkpoint_ledger =
  cl_plan :: string
  cl_epochs :: "completion_epoch list"
  cl_l2 :: "string list"
  cl_l1 :: "string list"
  cl_keys :: "string list"
  cl_pending_turn :: "string option"
  cl_pending_target :: "string option"
  cl_handoff :: "string option"
  cl_pending_kind :: jv
  cl_handoff_failed :: "bool option"
  cl_terminal :: bool
  cl_root_from :: "string option"
  cl_fingerprint :: "string option"

definition parse_epoch :: "jv \<Rightarrow> completion_epoch option" where
  "parse_epoch v = do {
     f \<leftarrow> as_record v;
     target \<leftarrow> canonicalCheckpointTarget (field_of f ''target'');
     epoch \<leftarrow> non_negative_integer (field_of f ''epoch'');
     reopened \<leftarrow> as_bool (field_of f ''reopened'');
     completed \<leftarrow> optional as_bool (field_of f ''completed'');
     Some \<lparr> ce_target = target, ce_epoch = epoch, ce_reopened = reopened,
            ce_completed = coalesce completed True \<rparr> }"

text \<open>A list of bounded, distinct texts of at most \<open>n\<close> entries.\<close>

definition distinct_texts :: "nat \<Rightarrow> jv \<Rightarrow> string list option" where
  "distinct_texts n v = do {
     raw \<leftarrow> as_array v;
     guard (length raw \<le> n);
     texts \<leftarrow> read_all bounded_text raw;
     guard (distinct texts);
     Some texts }"

text \<open>\<open>String(pendingKind)\<close> where it can be one of the three names: an array of one is its element.\<close>

fun kind_text :: "jv \<Rightarrow> string option" where
  "kind_text (JStr s) = Some s"
| "kind_text (JArr [v]) = kind_text v"
| "kind_text _ = None"

definition pending_kind_names :: "string list" where
  "pending_kind_names = [''l2Completed'', ''l1Accepted'', ''terminalReviewAccepted'']"

definition pending_kind_value :: "jv \<Rightarrow> string option \<Rightarrow> bool \<Rightarrow> jv" where
  "pending_kind_value v pending_turn terminal =
     (if v = JUndef then
        (if pending_turn = None then JNull
         else if terminal then JStr ''terminalReviewAccepted'' else JStr ''l1Accepted'')
      else v)"

definition pending_kind_ok :: "jv \<Rightarrow> string option \<Rightarrow> bool" where
  "pending_kind_ok kind pending_turn \<longleftrightarrow>
     (kind = JNull \<or> (case kind_text kind of None \<Rightarrow> False | Some t \<Rightarrow> t \<in> set pending_kind_names))
     \<and> (pending_turn = None \<longleftrightarrow> kind = JNull)"

text \<open>The target of a reported level 2 identifier, \<open>JSON.stringify([l1, l2])\<close>.\<close>

definition legacy_l2_target :: "string \<Rightarrow> string option" where
  "legacy_l2_target s =
     (case text_array s of Some [a, b] \<Rightarrow> Some (checkpointTarget (TargetL2 a b)) | _ \<Rightarrow> None)"

definition legacy_epochs :: "string list \<Rightarrow> completion_epoch list" where
  "legacy_epochs targets =
     map (\<lambda>t. \<lparr> ce_target = t, ce_epoch = 0, ce_reopened = False, ce_completed = True \<rparr>) targets"

definition parse_handoff :: "jv \<Rightarrow> string option option" where
  "parse_handoff v =
     (if v = JUndef \<or> v = JNull then Some None else map_option Some (bounded_text v))"

definition parse_pending_turn :: "jv \<Rightarrow> string option option" where
  "parse_pending_turn v = (if v = JNull then Some None else map_option Some (bounded_text v))"

definition parse_epochs :: "jv \<Rightarrow> completion_epoch list option option" where
  "parse_epochs v =
     (if v = JUndef then Some None
      else do {
        raw \<leftarrow> as_array v;
        guard (length raw \<le> 640);
        epochs \<leftarrow> read_all parse_epoch raw;
        guard (distinct (map ce_target epochs));
        Some (Some epochs) })"

definition parseCheckpoints :: "jv \<Rightarrow> checkpoint_ledger option" where
  "parseCheckpoints v = do {
     f \<leftarrow> as_record v;
     plan \<leftarrow> bounded_text (field_of f ''planIdentity'');
     guard (field_of f ''protocolVersion'' = JNum 1);
     epochs \<leftarrow> parse_epochs (field_of f ''completionEpochs'');
     l2 \<leftarrow> (if field_of f ''reportedL2Ids'' = JUndef then Some []
            else distinct_texts 512 (field_of f ''reportedL2Ids''));
     l1 \<leftarrow> distinct_texts 128 (field_of f ''reportedL1Ids'');
     keys \<leftarrow> distinct_texts 768 (field_of f ''acceptedKeys'');
     turn \<leftarrow> parse_pending_turn (field_of f ''pendingTurnId'');
     target \<leftarrow> optional canonicalCheckpointTarget (field_of f ''pendingTarget'');
     guard (target = None \<or> turn \<noteq> None);
     handoff \<leftarrow> parse_handoff (field_of f ''activeHandoffId'');
     failed \<leftarrow> optional as_bool (field_of f ''checkpointHandoffFailed'');
     terminal \<leftarrow> as_bool (field_of f ''terminalReviewAccepted'');
     root \<leftarrow> optional bounded_text (field_of f ''rootContinuationFromTurnId'');
     fingerprint \<leftarrow> optional parsePlanFingerprint (field_of f ''terminalReviewFingerprint'');
     guard (pending_kind_ok (pending_kind_value (field_of f ''pendingKind'') turn terminal) turn);
     l2_targets \<leftarrow> read_all legacy_l2_target l2;
     guard (case epochs of None \<Rightarrow> True
            | Some es \<Rightarrow> set (map (\<lambda>i. checkpointTarget (TargetL1 i)) l1 @ l2_targets)
                          \<subseteq> ce_target ` set es);
     Some \<lparr> cl_plan = plan,
            cl_epochs = coalesce epochs
              (legacy_epochs (map (\<lambda>i. checkpointTarget (TargetL1 i)) l1 @ l2_targets)),
            cl_l2 = l2, cl_l1 = l1, cl_keys = keys, cl_pending_turn = turn,
            cl_pending_target = target, cl_handoff = handoff,
            cl_pending_kind = pending_kind_value (field_of f ''pendingKind'') turn terminal,
            cl_handoff_failed = failed, cl_terminal = terminal, cl_root_from = root,
            cl_fingerprint = fingerprint \<rparr> }"

subsection \<open>The whole record\<close>

record persisted_lifecycle =
  pl_executor :: "executor_lifecycle option"
  pl_blocking :: "structured_block option"
  pl_supervision :: "protocol_state option"
  pl_checkpoints :: "checkpoint_ledger option"

definition parsePersistedSupervisedLifecycle ::
  "(string \<Rightarrow> int option) \<Rightarrow> jv \<Rightarrow> persisted_lifecycle option" where
  "parsePersistedSupervisedLifecycle dp v = do {
     root \<leftarrow> as_record v;
     blocking \<leftarrow> optional parseStructuredBlock (field_of root ''blocking'');
     supervision \<leftarrow> optional (parseSupervisionProtocolState dp) (field_of root ''supervision'');
     checkpoints \<leftarrow> optional parseCheckpoints (field_of root ''checkpoints'');
     executor \<leftarrow> optional parse_executor (field_of root ''executor'');
     Some \<lparr> pl_executor = executor, pl_blocking = blocking, pl_supervision = supervision,
            pl_checkpoints = checkpoints \<rparr> }"

subsection \<open>Targets are canonical\<close>

lemma checkpoint_target_parts:
  "checkpointTarget k = json_text (OArr (map OText (case k of
      TargetL1 a \<Rightarrow> [''l1'', a] | TargetL2 a b \<Rightarrow> [''l2'', a, b] | TargetTerminal \<Rightarrow> [''terminal''])))"
  by (cases k) simp_all

fun target_bounded :: "target_kind \<Rightarrow> bool" where
  "target_bounded (TargetL1 a) = bounded a"
| "target_bounded (TargetL2 a b) = (bounded a \<and> bounded b)"
| "target_bounded TargetTerminal = True"

lemma canonical_of_target:
  assumes "target_bounded k"
  shows "canonicalCheckpointTarget (JStr (checkpointTarget k)) = Some (checkpointTarget k)"
proof -
  have "text_array (checkpointTarget k) = Some (case k of
      TargetL1 a \<Rightarrow> [''l1'', a] | TargetL2 a b \<Rightarrow> [''l2'', a, b] | TargetTerminal \<Rightarrow> [''terminal''])"
    by (simp only: checkpoint_target_parts text_array_printed)
  with assms show ?thesis
    by (cases k) (simp_all add: canonicalCheckpointTarget_def)
qed

lemma target_of_parts_bounded: "target_of_parts ps = Some k \<Longrightarrow> target_bounded k"
  by (cases ps rule: target_of_parts.cases) (auto split: if_splits)

lemma canonical_target_form:
  "canonicalCheckpointTarget v = Some t \<Longrightarrow> \<exists>k. target_bounded k \<and> t = checkpointTarget k"
  by (auto simp: canonicalCheckpointTarget_def split: jv.splits option.splits
           dest: target_of_parts_bounded)

lemma checkpointTarget_inj: "checkpointTarget j = checkpointTarget k \<longleftrightarrow> j = k"
  by (cases j; cases k) (simp_all add: json_text_inj del: json_text.simps)

text \<open>
  Checkpoint targets are canonical: different boundaries have different targets, every
  accepted target is one of a boundary with bounded identifiers, and reading it again gives the
  same text. Legacy colon targets are translated to the boundary they name.
\<close>

theorem checkpoint_targets_canonical:
  "(checkpointTarget j = checkpointTarget k \<longleftrightarrow> j = k)
   \<and> (target_bounded k \<longrightarrow>
        canonicalCheckpointTarget (JStr (checkpointTarget k)) = Some (checkpointTarget k))
   \<and> (canonicalCheckpointTarget v = Some t \<longrightarrow> canonicalCheckpointTarget (JStr t) = Some t)"
  using checkpointTarget_inj canonical_of_target canonical_target_form by blast

theorem checkpoint_targets_canonical_witness:
  "canonicalCheckpointTarget (JStr (checkpointTarget (TargetL2 ''a'' ''b'')))
     = Some (checkpointTarget (TargetL2 ''a'' ''b''))"
  using checkpoint_targets_canonical [of TargetTerminal "TargetL2 ''a'' ''b''" JNull "[]"]
  by (simp add: bounded_def del: checkpointTarget.simps)

end
