(* ===== verification/Checkpoint_Contract.thy ===== *)
theory Checkpoint_Contract
  imports Plan_Model Json_Read
begin

text \<open>
  The report boundary of a supervised plan (src/shared/contracts/org-plan-checkpoint.ts): the
  three kinds of checkpoint, their strict decoder, and the answer sent back to the tool.
\<close>

subsection \<open>Data\<close>

datatype checkpoint_commit = CommitCreated string string | CommitNotRequired

datatype org_checkpoint =
    L2Completed (cp_plan: string) (cp_l1: string) (cp_l2: string) (cp_position: string)
      (cp_changes: string) (cp_files: string) (cp_l2_tests: string)
  | L1Accepted (cp_plan: string) (cp_l1: string) (cp_position: string)
      (cp_commit: checkpoint_commit) (cp_findings: "string option") (cp_tests: "string option")
  | TerminalReviewAccepted (cp_plan: string) (cp_findings: "string option")
      (cp_tests: "string option")

datatype checkpoint_kind = KindL2Completed | KindL1Accepted | KindTerminalReview

datatype record_status = Recorded | AlreadyRecorded | RecordFailed

record checkpoint_failure =
  fail_reason :: string
  fail_expected :: "(string \<times> json) list option"
  fail_observed :: "(string \<times> json) list option"
  fail_correlation :: "string option"

subsection \<open>Decoding\<close>

fun bounded_trimmed :: "nat \<Rightarrow> jv \<Rightarrow> string option" where
  "bounded_trimmed n (JStr s) = (if js_trim s \<noteq> [] \<and> length s \<le> n then Some s else None)"
| "bounded_trimmed n _ = None"

text \<open>\<open>^L[1-9][0-9]*$\<close> and \<open>^L[1-9][0-9]*\.[1-9][0-9]*$\<close>.\<close>

fun is_position :: "string \<Rightarrow> bool" where
  "is_position [] = False"
| "is_position (c # ds) = (c = CHR ''L'' \<and> positive_decimal ds)"

fun is_l2_position :: "string \<Rightarrow> bool" where
  "is_l2_position [] = False"
| "is_l2_position (c # s) =
     (let ds = takeWhile is_digit s in
      c = CHR ''L'' \<and> positive_decimal ds
      \<and> (case strip_prefix ''.'' (dropWhile is_digit s) of
           None \<Rightarrow> False | Some es \<Rightarrow> positive_decimal es))"

definition only_keys :: "string list \<Rightarrow> (string \<times> jv) list \<Rightarrow> bool" where
  "only_keys allowed fs \<longleftrightarrow> fst ` set fs \<subseteq> set allowed"

definition key_count :: "(string \<times> jv) list \<Rightarrow> nat" where
  "key_count fs = length (remdups (map fst fs))"

definition is_short_hash :: "string \<Rightarrow> bool" where
  "is_short_hash s \<longleftrightarrow> 7 \<le> length s \<and> length s \<le> 16 \<and> list_all is_hex_lower s"

definition parseCommit :: "jv \<Rightarrow> checkpoint_commit option" where
  "parseCommit v = do {
     f \<leftarrow> as_record v;
     if field_of f ''kind'' = JStr ''notRequired'' \<and> key_count f = 1 then Some CommitNotRequired
     else do {
       guard (field_of f ''kind'' = JStr ''created'' \<and> key_count f = 3);
       subject \<leftarrow> bounded_trimmed 160 (field_of f ''subject'');
       hash \<leftarrow> as_string (field_of f ''shortHash'');
       guard (is_short_hash hash);
       Some (CommitCreated subject hash) } }"

definition positioned :: "(string \<Rightarrow> bool) \<Rightarrow> jv \<Rightarrow> string option" where
  "positioned P v = (case v of JStr s \<Rightarrow> if P s then Some s else None | _ \<Rightarrow> None)"

definition parse_l2_completed :: "(string \<times> jv) list \<Rightarrow> string \<Rightarrow> org_checkpoint option" where
  "parse_l2_completed f plan = do {
     l1 \<leftarrow> bounded_trimmed 128 (field_of f ''l1Id'');
     l2 \<leftarrow> bounded_trimmed 128 (field_of f ''l2Id'');
     position \<leftarrow> positioned is_l2_position (field_of f ''position'');
     guard (field_of f ''status'' = JStr ''DONE'');
     changes \<leftarrow> bounded_trimmed 600 (field_of f ''changes'');
     files \<leftarrow> bounded_trimmed 600 (field_of f ''files'');
     tests \<leftarrow> bounded_trimmed 600 (field_of f ''tests'');
     guard (only_keys [''version'', ''kind'', ''planIdentity'', ''l1Id'', ''l2Id'', ''position'',
                       ''status'', ''changes'', ''files'', ''tests''] f);
     Some (L2Completed plan l1 l2 position changes files tests) }"

definition parse_l1_accepted ::
  "(string \<times> jv) list \<Rightarrow> string \<Rightarrow> string option \<Rightarrow> string option \<Rightarrow> org_checkpoint option" where
  "parse_l1_accepted f plan findings tests = do {
     l1 \<leftarrow> bounded_trimmed 128 (field_of f ''l1Id'');
     position \<leftarrow> positioned is_position (field_of f ''position'');
     commit \<leftarrow> parseCommit (field_of f ''commit'');
     guard (only_keys [''version'', ''kind'', ''planIdentity'', ''l1Id'', ''position'', ''verdict'',
                       ''commit'', ''findings'', ''tests''] f);
     Some (L1Accepted plan l1 position commit findings tests) }"

definition parseOrgPlanCheckpoint :: "jv \<Rightarrow> org_checkpoint option" where
  "parseOrgPlanCheckpoint v = do {
     f \<leftarrow> as_record v;
     guard (field_of f ''version'' = JNum 1);
     plan \<leftarrow> bounded_trimmed 128 (field_of f ''planIdentity'');
     if field_of f ''kind'' = JStr ''l2Completed'' then parse_l2_completed f plan
     else do {
       guard (field_of f ''verdict'' = JStr ''ACCEPT'');
       findings \<leftarrow> optional (bounded_trimmed 600) (field_of f ''findings'');
       tests \<leftarrow> optional (bounded_trimmed 600) (field_of f ''tests'');
       if field_of f ''kind'' = JStr ''terminalReviewAccepted'' then do {
         guard (only_keys [''version'', ''kind'', ''planIdentity'', ''verdict'', ''findings'',
                           ''tests''] f);
         Some (TerminalReviewAccepted plan findings tests) }
       else do {
         guard (field_of f ''kind'' = JStr ''l1Accepted'');
         parse_l1_accepted f plan findings tests } } }"

subsection \<open>The value of a checkpoint\<close>

fun commit_value :: "checkpoint_commit \<Rightarrow> jv" where
  "commit_value CommitNotRequired = JObj [(''kind'', JStr ''notRequired'')]"
| "commit_value (CommitCreated subject hash) =
     JObj [(''kind'', JStr ''created''), (''subject'', JStr subject), (''shortHash'', JStr hash)]"

definition opt_field :: "string \<Rightarrow> string option \<Rightarrow> (string \<times> jv) list" where
  "opt_field k v = (case v of None \<Rightarrow> [] | Some s \<Rightarrow> [(k, JStr s)])"

fun checkpoint_value :: "org_checkpoint \<Rightarrow> jv" where
  "checkpoint_value (L2Completed plan l1 l2 position changes files tests) = JObj
     [(''version'', JNum 1), (''kind'', JStr ''l2Completed''), (''planIdentity'', JStr plan),
      (''l1Id'', JStr l1), (''l2Id'', JStr l2), (''position'', JStr position),
      (''status'', JStr ''DONE''), (''changes'', JStr changes), (''files'', JStr files),
      (''tests'', JStr tests)]"
| "checkpoint_value (L1Accepted plan l1 position commit findings tests) = JObj
     ([(''version'', JNum 1), (''kind'', JStr ''l1Accepted''), (''planIdentity'', JStr plan),
       (''l1Id'', JStr l1), (''position'', JStr position), (''verdict'', JStr ''ACCEPT''),
       (''commit'', commit_value commit)] @ opt_field ''findings'' findings @ opt_field ''tests'' tests)"
| "checkpoint_value (TerminalReviewAccepted plan findings tests) = JObj
     ([(''version'', JNum 1), (''kind'', JStr ''terminalReviewAccepted''),
       (''planIdentity'', JStr plan), (''verdict'', JStr ''ACCEPT'')]
      @ opt_field ''findings'' findings @ opt_field ''tests'' tests)"

subsection \<open>The answer to the tool\<close>

record tool_response =
  tr_success :: bool
  tr_text :: string

definition failure_fields :: "checkpoint_failure option \<Rightarrow> (string \<times> json) list" where
  "failure_fields failure =
     (case failure of
        None \<Rightarrow> []
      | Some f \<Rightarrow>
          (case fail_expected f of None \<Rightarrow> [] | Some e \<Rightarrow> [(''expected'', OObj e)])
          @ (case fail_observed f of None \<Rightarrow> [] | Some e \<Rightarrow> [(''observed'', OObj e)])
          @ (case fail_correlation f of
               None \<Rightarrow> [] | Some c \<Rightarrow> if truthy c then [(''correlationId'', OText c)] else []))"

definition response_json :: "record_status \<Rightarrow> checkpoint_failure option \<Rightarrow> json" where
  "response_json status failure =
     (case status of
        Recorded \<Rightarrow> OObj [(''status'', OText ''recorded''), (''durable'', OBool True),
          (''next'', OText ''emitBoundaryFinalAndEndTurn''), (''allowFurtherTools'', OBool False)]
      | AlreadyRecorded \<Rightarrow> OObj [(''status'', OText ''alreadyRecorded''), (''durable'', OBool True),
          (''next'', OText ''continueFromDurableCheckpoint''), (''allowBoundaryFinal'', OBool False)]
      | RecordFailed \<Rightarrow> OObj
          ([(''status'', OText ''failed''),
            (''reasonCode'', OText (case failure of None \<Rightarrow> ''checkpointPersistenceFailed''
               | Some f \<Rightarrow> fail_reason f)),
            (''durable'', OBool False)]
           @ failure_fields failure
           @ [(''next'', OText ''reconcileCheckpointState''), (''allowBoundaryFinal'', OBool False)]))"

definition toOrgPlanCheckpointToolResponse ::
  "record_status \<Rightarrow> checkpoint_failure option \<Rightarrow> tool_response" where
  "toOrgPlanCheckpointToolResponse status failure =
     \<lparr> tr_success = (status \<noteq> RecordFailed), tr_text = json_text (response_json status failure) \<rparr>"

subsection \<open>Round trip\<close>

definition text_ok :: "nat \<Rightarrow> string \<Rightarrow> bool" where
  "text_ok n s \<longleftrightarrow> js_trim s \<noteq> [] \<and> length s \<le> n"

definition opt_text_ok :: "nat \<Rightarrow> string option \<Rightarrow> bool" where
  "opt_text_ok n v = (case v of None \<Rightarrow> True | Some s \<Rightarrow> text_ok n s)"

fun commit_ok :: "checkpoint_commit \<Rightarrow> bool" where
  "commit_ok CommitNotRequired = True"
| "commit_ok (CommitCreated subject hash) = (text_ok 160 subject \<and> is_short_hash hash)"

fun checkpoint_ok :: "org_checkpoint \<Rightarrow> bool" where
  "checkpoint_ok (L2Completed plan l1 l2 position changes files tests) =
     (text_ok 128 plan \<and> text_ok 128 l1 \<and> text_ok 128 l2 \<and> is_l2_position position
      \<and> text_ok 600 changes \<and> text_ok 600 files \<and> text_ok 600 tests)"
| "checkpoint_ok (L1Accepted plan l1 position commit findings tests) =
     (text_ok 128 plan \<and> text_ok 128 l1 \<and> is_position position \<and> commit_ok commit
      \<and> opt_text_ok 600 findings \<and> opt_text_ok 600 tests)"
| "checkpoint_ok (TerminalReviewAccepted plan findings tests) =
     (text_ok 128 plan \<and> opt_text_ok 600 findings \<and> opt_text_ok 600 tests)"

lemma bounded_trimmed_Some: "bounded_trimmed n v = Some s \<longleftrightarrow> v = JStr s \<and> text_ok n s"
  by (cases v) (auto simp: text_ok_def)

lemma optional_trimmed_Some:
  "optional (bounded_trimmed n) v = Some r \<Longrightarrow> opt_text_ok n r"
  by (auto simp: optional_Some bounded_trimmed_Some opt_text_ok_def)

lemma positioned_Some: "positioned P v = Some s \<longleftrightarrow> v = JStr s \<and> P s"
  by (auto simp: positioned_def split: jv.splits)

lemma field_lookup_simps [simp]:
  "field_of [] k = JUndef"
  "field_of ((k', v) # fs) k = (if k = k' then v else field_of fs k)"
  by (simp_all add: field_of_def)

lemma optional_trimmed_value [simp]:
  "opt_text_ok n (Some s) \<Longrightarrow> optional (bounded_trimmed n) (JStr s) = Some (Some s)"
  "optional (bounded_trimmed n) JUndef = Some None"
  by (simp_all add: optional_def opt_text_ok_def text_ok_def)

lemma parse_commit_value: "commit_ok c \<Longrightarrow> parseCommit (commit_value c) = Some c"
  by (cases c) (simp_all add: parseCommit_def key_count_def text_ok_def guard_def)

lemma parseCommit_ok: "parseCommit v = Some c \<Longrightarrow> commit_ok c"
  by (auto simp: parseCommit_def bind_eq_Some_conv bounded_trimmed_Some split: if_splits)

lemma guard_True [simp]: "guard True \<bind> f = f ()"
  by (simp add: guard_def)

lemma parse_checkpoint_value:
  assumes "checkpoint_ok c"
  shows "parseOrgPlanCheckpoint (checkpoint_value c) = Some c"
proof (cases c)
  case (L2Completed plan l1 l2 position changes files tests)
  with assms show ?thesis
    by (simp add: parseOrgPlanCheckpoint_def parse_l2_completed_def text_ok_def positioned_def
          only_keys_def)
next
  case (L1Accepted plan l1 position commit findings tests)
  with assms show ?thesis
    by (cases findings; cases tests)
       (simp_all add: parseOrgPlanCheckpoint_def parse_l1_accepted_def text_ok_def positioned_def
          only_keys_def opt_field_def parse_commit_value opt_text_ok_def optional_def)
next
  case (TerminalReviewAccepted plan findings tests)
  with assms show ?thesis
    by (cases findings; cases tests)
       (simp_all add: parseOrgPlanCheckpoint_def text_ok_def only_keys_def opt_field_def
          opt_text_ok_def optional_def)
qed

lemma parse_checkpoint_ok: "parseOrgPlanCheckpoint v = Some c \<Longrightarrow> checkpoint_ok c"
  by (auto simp: parseOrgPlanCheckpoint_def parse_l2_completed_def parse_l1_accepted_def
        bind_eq_Some_conv bounded_trimmed_Some positioned_Some parseCommit_ok
        dest: optional_trimmed_Some split: if_splits)

text \<open>
  The checkpoint decoder accepts exactly the values of well-formed checkpoints up to the
  order of the fields: every decoded checkpoint is well formed, and every well-formed one is
  read back from its own value.
\<close>

theorem checkpoint_round_trip:
  "(parseOrgPlanCheckpoint v = Some c \<longrightarrow> checkpoint_ok c)
   \<and> (parseOrgPlanCheckpoint (checkpoint_value d) = Some d \<longleftrightarrow> checkpoint_ok d)"
  using parse_checkpoint_ok parse_checkpoint_value by blast

theorem checkpoint_round_trip_witness:
  "checkpoint_ok (TerminalReviewAccepted ''p'' None (Some ''t''))"
proof -
  have "parseOrgPlanCheckpoint (checkpoint_value (TerminalReviewAccepted ''p'' None (Some ''t'')))
      = Some (TerminalReviewAccepted ''p'' None (Some ''t''))" by code_simp
  then show ?thesis using checkpoint_round_trip by blast
qed

end
