(* ===== verification/Checkpoint_Rules.thy ===== *)
theory Checkpoint_Rules
  imports Checkpoint_Contract Lifecycle_Store Plan_Sample
begin

text \<open>
  When a reported boundary is true of the plan
  (src/server/features/org-plan-checkpoint/application/validate.ts): expansion of a compact
  boundary signal from authoritative plan state, and validation of a checkpoint against the
  plan and the active writers. Steps are paired with their positions, because the sources find
  an element and then ask for its index by reference.
\<close>

subsection \<open>Validation\<close>

datatype checkpoint_refusal =
    RootNotOwner | PlanIdentityMismatch | TerminalReviewIncomplete | L1Suspended | L1NotFound
  | L2NotFound | CheckpointPositionMismatch | L2NotDone | L1AlreadyReviewed | L1NotDone
  | L1NotReviewed | L1ChildrenIncomplete | ExecutorStillActive

text \<open>A refusal with the expected and the observed facts, where the code reports them.\<close>

datatype checkpoint_validation =
    Valid
  | Invalid checkpoint_refusal "((string \<times> json) list \<times> (string \<times> json) list) option"

definition state_text :: "todo_state \<Rightarrow> string" where
  "state_text s = (case s of TODO \<Rightarrow> ''TODO'' | WIP \<Rightarrow> ''WIP'' | DONE \<Rightarrow> ''DONE''
     | SUSPENDED \<Rightarrow> ''SUSPENDED'')"

record roster_child =
  rc_position :: "string option"
  rc_state :: string

definition hasActiveL1Writer :: "roster_child list \<Rightarrow> string \<Rightarrow> bool" where
  "hasActiveL1Writer subagents position \<longleftrightarrow>
     (\<exists>c \<in> set subagents. rc_position c = Some position
        \<and> rc_state c \<in> {''working'', ''awaitingAgent'', ''awaitingHuman''})"

definition validateCompletedChildren :: "plan_step \<Rightarrow> bool \<Rightarrow> checkpoint_validation" where
  "validateCompletedChildren l1 activeWriter =
     (case List.find (\<lambda>c. child_state c \<noteq> DONE) (step_children l1) of
        Some c \<Rightarrow> Invalid L1ChildrenIncomplete
          (Some ([(''childrenDone'', OBool True)],
                 [(''childrenDone'', OBool False), (''childState'', OText (state_text (child_state c)))]))
      | None \<Rightarrow>
          if activeWriter then Invalid ExecutorStillActive
            (Some ([(''executorTerminal'', OBool True)], [(''executorTerminal'', OBool False)]))
          else Valid)"

definition l1_position :: "nat \<Rightarrow> string" where
  "l1_position i = orgPlanPosition (i + 1) None"

definition l2_position :: "nat \<Rightarrow> nat \<Rightarrow> string" where
  "l2_position i j = orgPlanPosition (i + 1) (Some (j + 1))"

text \<open>The loop over all milestones of a terminal review; \<open>i\<close> counts from the first.\<close>

fun validate_all_children :: "(string \<Rightarrow> bool) \<Rightarrow> nat \<Rightarrow> plan_step list \<Rightarrow> checkpoint_validation" where
  "validate_all_children active i [] = Valid"
| "validate_all_children active i (s # ss) =
     (case validateCompletedChildren s (active (l1_position i)) of
        Valid \<Rightarrow> validate_all_children active (Suc i) ss
      | invalid \<Rightarrow> invalid)"

definition step_reviewed :: "plan_step \<Rightarrow> bool" where
  "step_reviewed s \<longleftrightarrow> step_state s = DONE \<and> step_review s = Some REVIEWED"

definition position_mismatch :: "string \<Rightarrow> string \<Rightarrow> checkpoint_validation" where
  "position_mismatch expected observed =
     Invalid CheckpointPositionMismatch
       (Some ([(''position'', OText expected)], [(''position'', OText observed)]))"

definition validate_l2 :: "nat \<Rightarrow> plan_step \<Rightarrow> string \<Rightarrow> string \<Rightarrow> checkpoint_validation" where
  "validate_l2 i l1 l2Id position =
     (case find_index (\<lambda>c. child_id c = l2Id) (step_children l1) of
        None \<Rightarrow> Invalid L2NotFound None
      | Some j \<Rightarrow>
          if position \<noteq> l2_position i j then position_mismatch (l2_position i j) position
          else if child_state (step_children l1 ! j) \<noteq> DONE
          then Invalid L2NotDone (Some ([(''l2State'', OText ''DONE'')],
                 [(''l2State'', OText (state_text (child_state (step_children l1 ! j))))]))
          else if step_review l1 = Some UNREVIEWED then Valid
          else Invalid L1AlreadyReviewed None)"

definition review_text :: "review_status option \<Rightarrow> json" where
  "review_text r = (case r of None \<Rightarrow> ONull | Some UNREVIEWED \<Rightarrow> OText ''UNREVIEWED''
     | Some REVIEWED \<Rightarrow> OText ''REVIEWED'')"

definition validate_l1 :: "(string \<Rightarrow> bool) \<Rightarrow> nat \<Rightarrow> plan_step \<Rightarrow> string \<Rightarrow> checkpoint_validation" where
  "validate_l1 active i l1 position =
     (if position \<noteq> l1_position i then position_mismatch (l1_position i) position
      else if step_state l1 \<noteq> DONE
      then Invalid L1NotDone (Some ([(''l1State'', OText ''DONE'')],
             [(''l1State'', OText (state_text (step_state l1)))]))
      else if step_review l1 \<noteq> Some REVIEWED
      then Invalid L1NotReviewed (Some ([(''reviewStatus'', OText ''REVIEWED'')],
             [(''reviewStatus'', review_text (step_review l1))]))
      else validateCompletedChildren l1 (active (l1_position i)))"

definition find_l1 :: "supervised_plan \<Rightarrow> string \<Rightarrow> (nat \<Rightarrow> plan_step \<Rightarrow> checkpoint_validation)
    \<Rightarrow> checkpoint_validation" where
  "find_l1 plan l1Id check =
     (case find_index (\<lambda>s. step_id s = l1Id) (plan_steps plan) of
        None \<Rightarrow> Invalid L1NotFound None
      | Some i \<Rightarrow>
          if step_state (plan_steps plan ! i) = SUSPENDED then Invalid L1Suspended None
          else check i (plan_steps plan ! i))"

definition validateOrgPlanCheckpoint ::
  "org_checkpoint \<Rightarrow> supervised_plan \<Rightarrow> string \<Rightarrow> bool \<Rightarrow> (string \<Rightarrow> bool) \<Rightarrow> checkpoint_validation" where
  "validateOrgPlanCheckpoint checkpoint plan planIdentity rootOwned active =
     (if \<not> rootOwned then Invalid RootNotOwner None
      else if cp_plan checkpoint \<noteq> planIdentity then Invalid PlanIdentityMismatch None
      else case checkpoint of
        TerminalReviewAccepted _ _ _ \<Rightarrow>
          if plan_steps plan = [] \<or> \<not> list_all step_reviewed (plan_steps plan)
          then Invalid TerminalReviewIncomplete None
          else validate_all_children active 0 (plan_steps plan)
      | L2Completed _ l1Id l2Id position _ _ _ \<Rightarrow>
          find_l1 plan l1Id (\<lambda>i l1. validate_l2 i l1 l2Id position)
      | L1Accepted _ l1Id position _ _ _ \<Rightarrow>
          find_l1 plan l1Id (\<lambda>i l1. validate_l1 active i l1 position))"

definition validOrgPlanCheckpoint ::
  "org_checkpoint \<Rightarrow> supervised_plan \<Rightarrow> string \<Rightarrow> bool \<Rightarrow> (string \<Rightarrow> bool) \<Rightarrow> bool" where
  "validOrgPlanCheckpoint checkpoint plan planIdentity rootOwned active \<longleftrightarrow>
     validateOrgPlanCheckpoint checkpoint plan planIdentity rootOwned active = Valid"

subsection \<open>Publication reasons\<close>

definition measure_char :: "char \<Rightarrow> bool" where
  "measure_char c \<longleftrightarrow> is_alnum c \<or> c \<in> set ''._-''"

definition capture_ok :: "string \<Rightarrow> bool" where
  "capture_ok x \<longleftrightarrow> x \<noteq> [] \<and> length x \<le> 128"

text \<open>\<open>measure:finish:ID\<close>, \<open>review:ID:REVIEWED\<close> and \<open>l2:ID:DONE\<close>.\<close>

definition measured_id :: "string \<Rightarrow> string option" where
  "measured_id reason =
     (case split_on (CHR '':'') reason of
        [a, b, x] \<Rightarrow> if a = ''measure'' \<and> b = ''finish'' \<and> capture_ok x \<and> list_all measure_char x
                     then Some x else None
      | _ \<Rightarrow> None)"

definition reviewed_match :: "string \<Rightarrow> string option" where
  "reviewed_match reason =
     (case split_on (CHR '':'') reason of
        [a, x, b] \<Rightarrow> if a = ''review'' \<and> b = ''REVIEWED'' \<and> capture_ok x then Some x else None
      | _ \<Rightarrow> None)"

definition completed_match :: "string \<Rightarrow> string option" where
  "completed_match reason =
     (case split_on (CHR '':'') reason of
        [a, x, b] \<Rightarrow> if a = ''l2'' \<and> b = ''DONE'' \<and> capture_ok x then Some x else None
      | _ \<Rightarrow> None)"

text \<open>\<open>pending\<close> is the parsed array of the pending target.\<close>

definition pending_part :: "string \<Rightarrow> nat \<Rightarrow> string list option \<Rightarrow> string option" where
  "pending_part kind i pending =
     (case pending of
        None \<Rightarrow> None
      | Some parts \<Rightarrow> if at_index parts 0 = Some kind then at_index parts i else None)"

definition reviewed_id :: "string option \<Rightarrow> string list option \<Rightarrow> string option" where
  "reviewed_id reason pending =
     opt_or (pending_part ''l1'' 1 pending)
    (opt_or (Option.bind reason reviewed_match) (Option.bind reason measured_id))"

definition completed_id :: "string option \<Rightarrow> string list option \<Rightarrow> string option" where
  "completed_id reason pending =
     opt_or (pending_part ''l2'' 2 pending)
    (opt_or (Option.bind reason completed_match) (Option.bind reason measured_id))"

subsection \<open>Expansion of a signal\<close>

definition reviewed_rows :: "supervised_plan \<Rightarrow> (nat \<times> plan_step) list" where
  "reviewed_rows plan = filter (\<lambda>(i, s). step_reviewed s) (enumerate 0 (plan_steps plan))"

definition completed_children ::
  "string option \<Rightarrow> string list option \<Rightarrow> nat \<times> plan_step
     \<Rightarrow> ((nat \<times> plan_step) \<times> nat \<times> plan_child) list" where
  "completed_children wanted pending row =
     (let (i, parent) = row in
      if step_state parent \<noteq> SUSPENDED \<and> step_review parent = Some UNREVIEWED
      then map (\<lambda>c. (row, c))
             (filter (\<lambda>(j, c). child_state c = DONE
                        \<and> (\<not> truthy_opt wanted \<or> Some (child_id c) = wanted)
                        \<and> (case pending of None \<Rightarrow> True
                           | Some parts \<Rightarrow> at_index parts 0 \<noteq> Some ''l2''
                               \<or> Some (step_id parent) = at_index parts 1))
                (enumerate 0 (step_children parent)))
      else [])"

definition completed_rows ::
  "string option \<Rightarrow> string list option \<Rightarrow> supervised_plan
     \<Rightarrow> ((nat \<times> plan_step) \<times> nat \<times> plan_child) list" where
  "completed_rows wanted pending plan =
     concat (map (completed_children wanted pending) (enumerate 0 (plan_steps plan)))"

definition prefer_unreported :: "string option \<Rightarrow> ('a \<Rightarrow> string) \<Rightarrow> string list \<Rightarrow> 'a list \<Rightarrow> 'a list" where
  "prefer_unreported wanted target completedTargets rows =
     (let unreported = filter (\<lambda>r. target r \<notin> set completedTargets) rows in
      if truthy_opt wanted \<or> unreported = [] then rows else unreported)"

definition only_row :: "'a list \<Rightarrow> 'a option" where
  "only_row rows = (case rows of [r] \<Rightarrow> Some r | _ \<Rightarrow> None)"

definition select_reviewed ::
  "supervised_plan \<Rightarrow> string option \<Rightarrow> string list \<Rightarrow> string list option \<Rightarrow> (nat \<times> plan_step) option" where
  "select_reviewed plan reason completedTargets pending =
     (let wanted = reviewed_id reason pending;
          rows = prefer_unreported wanted (\<lambda>(i, s). checkpointTarget (TargetL1 (step_id s)))
                   completedTargets (reviewed_rows plan)
      in if truthy_opt wanted then List.find (\<lambda>(i, s). Some (step_id s) = wanted) rows
         else only_row rows)"

definition select_completed ::
  "supervised_plan \<Rightarrow> string option \<Rightarrow> string list \<Rightarrow> string list option
     \<Rightarrow> ((nat \<times> plan_step) \<times> nat \<times> plan_child) option" where
  "select_completed plan reason completedTargets pending =
     (let wanted = completed_id reason pending in
      only_row (prefer_unreported wanted
        (\<lambda>((i, s), (j, c)). checkpointTarget (TargetL2 (step_id s) (child_id c)))
        completedTargets (completed_rows wanted pending plan)))"

definition resolveOrgPlanCheckpointSignal ::
  "checkpoint_kind \<Rightarrow> supervised_plan \<Rightarrow> string \<Rightarrow> string option \<Rightarrow> string list
     \<Rightarrow> string list option \<Rightarrow> org_checkpoint option" where
  "resolveOrgPlanCheckpointSignal kind plan planIdentity reason completedTargets pending =
     (case kind of
        KindTerminalReview \<Rightarrow> Some (TerminalReviewAccepted planIdentity None None)
      | KindL1Accepted \<Rightarrow>
          map_option (\<lambda>(i, s). L1Accepted planIdentity (step_id s) (l1_position i)
                                 CommitNotRequired None None)
            (select_reviewed plan reason completedTargets pending)
      | KindL2Completed \<Rightarrow>
          map_option (\<lambda>((i, s), (j, c)). L2Completed planIdentity (step_id s) (child_id c)
                        (l2_position i j)
                        ''Validated from the authoritative Org Plan boundary.''
                        ''Recorded by the supervised executor.''
                        ''Focused verification recorded before the boundary.'')
            (select_completed plan reason completedTargets pending))"

subsection \<open>What a selection is\<close>

lemma in_enumerate: "(i, x) \<in> set (enumerate 0 xs) \<longleftrightarrow> i < length xs \<and> xs ! i = x"
  by (auto simp: in_set_enumerate_eq)

lemma reviewed_row_in:
  "(i, s) \<in> set (reviewed_rows plan) \<Longrightarrow>
     i < length (plan_steps plan) \<and> plan_steps plan ! i = s \<and> step_reviewed s"
  by (auto simp: reviewed_rows_def in_enumerate)

lemma prefer_unreported_subset: "set (prefer_unreported w t cs rows) \<subseteq> set rows"
  by (auto simp: prefer_unreported_def Let_def)

lemma only_row_in: "only_row rows = Some r \<Longrightarrow> r \<in> set rows"
  by (auto simp: only_row_def split: list.splits)

lemma select_reviewed_in:
  assumes "select_reviewed plan reason targets pending = Some (i, s)"
  shows "i < length (plan_steps plan) \<and> plan_steps plan ! i = s \<and> step_reviewed s"
proof -
  have "(i, s) \<in> set (reviewed_rows plan)"
    using assms prefer_unreported_subset
    by (fastforce simp: select_reviewed_def Let_def split: if_splits
        dest!: find_in_set only_row_in)
  then show ?thesis by (rule reviewed_row_in)
qed

lemma completed_row_in:
  assumes "((i, s), (j, c)) \<in> set (completed_rows wanted pending plan)"
  shows "i < length (plan_steps plan) \<and> plan_steps plan ! i = s
    \<and> step_state s \<noteq> SUSPENDED \<and> step_review s = Some UNREVIEWED
    \<and> j < length (step_children s) \<and> step_children s ! j = c \<and> child_state c = DONE"
  using assms
  by (auto simp: completed_rows_def completed_children_def Let_def in_enumerate split: if_splits)

lemma select_completed_in:
  assumes "select_completed plan reason targets pending = Some ((i, s), (j, c))"
  shows "i < length (plan_steps plan) \<and> plan_steps plan ! i = s
    \<and> step_state s \<noteq> SUSPENDED \<and> step_review s = Some UNREVIEWED
    \<and> j < length (step_children s) \<and> step_children s ! j = c \<and> child_state c = DONE"
proof (rule completed_row_in)
  show "((i, s), (j, c)) \<in> set (completed_rows (completed_id reason pending) pending plan)"
    using assms prefer_unreported_subset only_row_in
    unfolding select_completed_def Let_def by fastforce
qed

lemma find_index_distinct:
  assumes "distinct (map f xs)" and "i < length xs"
  shows "find_index (\<lambda>x. f x = f (xs ! i)) xs = Some i"
proof -
  have "f (xs ! j) \<noteq> f (xs ! i)" if "j < i" for j
    using nth_eq_iff_index_eq [OF assms(1), of j i] that assms(2) by simp
  with assms(2) show ?thesis by (simp add: find_index_Some)
qed

subsection \<open>Plans with distinct identifiers\<close>

definition well_formed_plan :: "supervised_plan \<Rightarrow> bool" where
  "well_formed_plan plan \<longleftrightarrow>
     distinct (map step_id (plan_steps plan))
     \<and> list_all (\<lambda>s. distinct (map child_id (step_children s)) \<and> children_ok s) (plan_steps plan)"

lemma rows_distinct_parts:
  assumes "distinct (map row_id (plan_rows steps))"
  shows "distinct (map step_id steps) \<and> (\<forall>s \<in> set steps. distinct (map child_id (step_children s)))"
  using assms
proof (induction steps)
  case Nil
  then show ?case by simp
next
  case (Cons s ss)
  have "step_id s \<notin> step_id ` set ss"
  proof
    assume "step_id s \<in> step_id ` set ss"
    then obtain t where t: "t \<in> set ss" "step_id s = step_id t" by blast
    have "row_id (step_row s) \<in> row_id ` set (plan_rows ss)"
      using step_row_in [OF t(1)] t(2) by (force simp: step_row_def)
    with Cons.prems show False by (auto simp: step_rows_def)
  qed
  moreover have "distinct (map child_id (step_children s))"
    using Cons.prems by (simp add: step_rows_def o_def child_row_def)
  moreover have "distinct (map row_id (plan_rows ss))" using Cons.prems by simp
  ultimately show ?case using Cons.IH by auto
qed

lemma parsed_well_formed:
  assumes "parseSupervisedPlan source planPath workspacePath = Inr plan"
  shows "well_formed_plan plan"
proof -
  obtain version assur metadata hs where proj: "project_headings version assur metadata hs = Inr plan"
    using parse_Inr [OF assms] by blast
  obtain built policies and current :: heading where b: "distinct (map h_id hs)" "hasValidSuspension hs"
    "build_steps (map_of policies) [] hs = Some built"
    "plan = assemble_plan metadata (the (metadata ''TITLE'')) version assur hs built (h_id current)"
    using project_headings_Inr [OF proj] by blast
  have plan: "plan_steps plan = built" using b(4) by (simp add: assemble_plan_def)
  have "map row_id (plan_rows built) = map h_id hs"
    using build_steps_rows [OF b(3)] by (simp add: o_def)
  with b(1) have "distinct (map row_id (plan_rows built))" by simp
  from rows_distinct_parts [OF this] loop_children_ok [OF b(2,3)] show ?thesis
    by (simp add: well_formed_plan_def plan list_all_iff)
qed

lemma done_children:
  assumes "well_formed_plan plan" and "s \<in> set (plan_steps plan)" and "step_state s = DONE"
  shows "\<forall>c \<in> set (step_children s). child_state c = DONE"
  using assms by (auto simp: well_formed_plan_def list_all_iff children_ok_def child_follows_def)

lemma completed_children_valid:
  assumes "\<forall>c \<in> set (step_children s). child_state c = DONE"
  shows "validateCompletedChildren s active =
    (if active then Invalid ExecutorStillActive
       (Some ([(''executorTerminal'', OBool True)], [(''executorTerminal'', OBool False)])) else Valid)"
proof -
  have "List.find (\<lambda>c. child_state c \<noteq> DONE) (step_children s) = None"
    using assms by (simp add: find_None_iff)
  then show ?thesis by (simp add: validateCompletedChildren_def)
qed

lemma all_children_valid:
  assumes "\<forall>s \<in> set ss. \<forall>c \<in> set (step_children s). child_state c = DONE"
  shows "validate_all_children active i ss =
    (if \<exists>k < length ss. active (l1_position (i + k)) then Invalid ExecutorStillActive
       (Some ([(''executorTerminal'', OBool True)], [(''executorTerminal'', OBool False)])) else Valid)"
  using assms
proof (induction ss arbitrary: i)
  case (Cons s ss)
  have "(\<exists>k < Suc (length ss). active (l1_position (i + k))) \<longleftrightarrow>
      active (l1_position i) \<or> (\<exists>k < length ss. active (l1_position (Suc i + k)))"
    by (auto simp: less_Suc_eq_0_disj)
  with Cons show ?case by (simp add: completed_children_valid)
qed simp

text \<open>
  C1: a boundary expanded from an available plan is true of that plan. A completed step is accepted
  by validation; an accepted milestone is too, unless an executor still works on it. A terminal review
  is expanded from any plan: it is refused as incomplete exactly while there is a milestone that is not
  done and reviewed, and then the only objection left is an executor that still works on a milestone.
\<close>

theorem expanded_signal_validates:
  assumes "parseSupervisedPlan source planPath workspacePath = Inr plan"
    and "resolveOrgPlanCheckpointSignal kind plan planIdentity reason targets pending = Some c"
  shows "validateOrgPlanCheckpoint c plan planIdentity True active =
    (if kind = KindTerminalReview \<and> (plan_steps plan = [] \<or> \<not> list_all step_reviewed (plan_steps plan))
     then Invalid TerminalReviewIncomplete None
     else if kind = KindL1Accepted \<and> active (cp_position c)
       \<or> kind = KindTerminalReview \<and> (\<exists>i < length (plan_steps plan). active (l1_position i))
     then Invalid ExecutorStillActive
       (Some ([(''executorTerminal'', OBool True)], [(''executorTerminal'', OBool False)]))
     else Valid)"
proof -
  note wf = parsed_well_formed [OF assms(1)]
  have steps: "distinct (map step_id (plan_steps plan))" using wf by (simp add: well_formed_plan_def)
  show ?thesis
  proof (cases kind)
    case KindTerminalReview
    with assms(2) have c: "c = TerminalReviewAccepted planIdentity None None"
      by (simp add: resolveOrgPlanCheckpointSignal_def)
    show ?thesis
    proof (cases "list_all step_reviewed (plan_steps plan)")
      case True
      then have "\<forall>s \<in> set (plan_steps plan). \<forall>c \<in> set (step_children s). child_state c = DONE"
        using done_children [OF wf] by (auto simp: list_all_iff step_reviewed_def)
      from all_children_valid [OF this, of active 0] True KindTerminalReview show ?thesis
        by (simp add: c validateOrgPlanCheckpoint_def)
    qed (simp add: c validateOrgPlanCheckpoint_def KindTerminalReview)
  next
    case KindL1Accepted
    with assms(2) obtain i s where sel: "select_reviewed plan reason targets pending = Some (i, s)"
      and c: "c = L1Accepted planIdentity (step_id s) (l1_position i) CommitNotRequired None None"
      by (auto simp: resolveOrgPlanCheckpointSignal_def)
    note row = select_reviewed_in [OF sel]
    have find: "find_index (\<lambda>x. step_id x = step_id s) (plan_steps plan) = Some i"
      using find_index_distinct [OF steps, of i] row by simp
    have "\<forall>c \<in> set (step_children s). child_state c = DONE"
      using done_children [OF wf] row nth_mem by (auto simp: step_reviewed_def)
    with row find KindL1Accepted show ?thesis
      by (simp add: c validateOrgPlanCheckpoint_def find_l1_def validate_l1_def step_reviewed_def
            completed_children_valid)
  next
    case KindL2Completed
    with assms(2) obtain i s j ch where
      sel: "select_completed plan reason targets pending = Some ((i, s), (j, ch))"
      and c: "\<exists>x y z. c = L2Completed planIdentity (step_id s) (child_id ch) (l2_position i j) x y z"
      by (auto simp: resolveOrgPlanCheckpointSignal_def)
    note row = select_completed_in [OF sel]
    have find: "find_index (\<lambda>x. step_id x = step_id s) (plan_steps plan) = Some i"
      using find_index_distinct [OF steps, of i] row by simp
    have "distinct (map child_id (step_children s))"
      using wf row nth_mem [of i "plan_steps plan"] by (auto simp: well_formed_plan_def list_all_iff)
    then have "find_index (\<lambda>x. child_id x = child_id ch) (step_children s) = Some j"
      using find_index_distinct [of child_id "step_children s" j] row by simp
    with row find KindL2Completed c show ?thesis
      by (auto simp: validateOrgPlanCheckpoint_def find_l1_def validate_l2_def)
  qed
qed

theorem expanded_signal_validates_witness:
  "validateOrgPlanCheckpoint
     (L2Completed ''plan'' ''a'' ''a0'' ''L1.1''
        ''Validated from the authoritative Org Plan boundary.''
        ''Recorded by the supervised executor.''
        ''Focused verification recorded before the boundary.'')
     sample_plan ''plan'' True (\<lambda>_. False) = Valid"
proof -
  have "resolveOrgPlanCheckpointSignal KindL2Completed sample_plan ''plan'' None [] None
    = Some (L2Completed ''plan'' ''a'' ''a0'' ''L1.1''
        ''Validated from the authoritative Org Plan boundary.''
        ''Recorded by the supervised executor.''
        ''Focused verification recorded before the boundary.'')"
    by code_simp
  from expanded_signal_validates [OF sample_parses this, of "\<lambda>_. False"] show ?thesis by simp
qed

text \<open>
  C33: a checkpoint is recorded only when it is true: the reporter owns the root, the plan is the
  one named, a completed step is done in an unreviewed milestone that is not suspended, an
  accepted milestone is done, reviewed, has only done steps and no active writer, at the position
  reported; a terminal review needs all of that of every milestone.
\<close>

theorem valid_checkpoints_are_true:
  assumes "validOrgPlanCheckpoint c plan planIdentity rootOwned active"
  shows "rootOwned \<and> cp_plan c = planIdentity
    \<and> (case c of
         L2Completed _ l1 l2 position _ _ _ \<Rightarrow>
           \<exists>i j s ch. i < length (plan_steps plan) \<and> plan_steps plan ! i = s \<and> step_id s = l1
             \<and> j < length (step_children s) \<and> step_children s ! j = ch \<and> child_id ch = l2
             \<and> position = l2_position i j \<and> child_state ch = DONE
             \<and> step_state s \<noteq> SUSPENDED \<and> step_review s = Some UNREVIEWED
       | L1Accepted _ l1 position _ _ _ \<Rightarrow>
           \<exists>i s. i < length (plan_steps plan) \<and> plan_steps plan ! i = s \<and> step_id s = l1
             \<and> position = l1_position i \<and> step_complete s \<and> \<not> active position
       | TerminalReviewAccepted _ _ _ \<Rightarrow>
           plan_steps plan \<noteq> [] \<and> list_all step_complete (plan_steps plan)
           \<and> (\<forall>i < length (plan_steps plan). \<not> active (l1_position i)))"
proof -
  have completed: "(\<forall>ch \<in> set (step_children s). child_state ch = DONE) \<and> \<not> a"
    if "validateCompletedChildren s a = Valid" for s a
    using that by (auto simp: validateCompletedChildren_def find_None_iff split: option.splits if_splits)
  have every: "list_all (\<lambda>s. \<forall>ch \<in> set (step_children s). child_state ch = DONE) ss
      \<and> (\<forall>k < length ss. \<not> active (l1_position (i + k)))"
    if "validate_all_children active i ss = Valid" for i ss
    using that
  proof (induction ss arbitrary: i)
    case (Cons s ss)
    then have s: "validateCompletedChildren s (active (l1_position i)) = Valid"
      and ss: "validate_all_children active (Suc i) ss = Valid"
      by (auto split: checkpoint_validation.splits)
    have "\<not> active (l1_position (i + k))" if "k < Suc (length ss)" for k
      using that completed [OF s] Cons.IH [OF ss] by (cases k) auto
    with completed [OF s] Cons.IH [OF ss] show ?case by simp
  qed simp
  have owner: "rootOwned" "cp_plan c = planIdentity"
    using assms by (auto simp: validOrgPlanCheckpoint_def validateOrgPlanCheckpoint_def split: if_splits)
  note valid = assms [unfolded validOrgPlanCheckpoint_def validateOrgPlanCheckpoint_def]
  show ?thesis
  proof (cases c)
    case (L2Completed p l1 l2 position x y z)
    with valid owner obtain i where i: "find_index (\<lambda>s. step_id s = l1) (plan_steps plan) = Some i"
      "step_state (plan_steps plan ! i) \<noteq> SUSPENDED"
      "validate_l2 i (plan_steps plan ! i) l2 position = Valid"
      by (auto simp: find_l1_def split: option.splits if_splits)
    from i(3) obtain j where j: "find_index (\<lambda>c. child_id c = l2) (step_children (plan_steps plan ! i)) = Some j"
      "position = l2_position i j" "child_state (step_children (plan_steps plan ! i) ! j) = DONE"
      "step_review (plan_steps plan ! i) = Some UNREVIEWED"
      by (auto simp: validate_l2_def position_mismatch_def split: option.splits if_splits)
    from find_index_SomeD [OF i(1)] find_index_SomeD [OF j(1)] i(2) j(2-4) owner L2Completed
    show ?thesis by auto
  next
    case (L1Accepted p l1 position x y z)
    with valid owner obtain i where i: "find_index (\<lambda>s. step_id s = l1) (plan_steps plan) = Some i"
      "validate_l1 active i (plan_steps plan ! i) position = Valid"
      by (auto simp: find_l1_def split: option.splits if_splits)
    then have "position = l1_position i" "step_state (plan_steps plan ! i) = DONE"
      "step_review (plan_steps plan ! i) = Some REVIEWED"
      and v: "validateCompletedChildren (plan_steps plan ! i) (active (l1_position i)) = Valid"
      by (auto simp: validate_l1_def position_mismatch_def split: if_splits)
    with completed [OF v] find_index_SomeD [OF i(1)] owner L1Accepted show ?thesis
      by (auto simp: step_complete_def list_all_iff)
  next
    case (TerminalReviewAccepted p x y)
    with valid owner have r: "plan_steps plan \<noteq> []" "list_all step_reviewed (plan_steps plan)"
      and v: "validate_all_children active 0 (plan_steps plan) = Valid"
      by (auto split: if_splits)
    from r every [OF v] owner TerminalReviewAccepted show ?thesis
      by (auto simp: step_complete_def step_reviewed_def list_all_iff)
  qed
qed

theorem valid_checkpoints_are_true_witness:
  "cp_plan (L2Completed ''plan'' ''a'' ''a0'' ''L1.1'' ''c'' ''f'' ''t'') = ''plan''"
proof -
  have "validOrgPlanCheckpoint (L2Completed ''plan'' ''a'' ''a0'' ''L1.1'' ''c'' ''f'' ''t'')
      sample_plan ''plan'' True (\<lambda>_. False)"
    by code_simp
  from valid_checkpoints_are_true [OF this] show ?thesis by blast
qed

end
