(* ===== verification/Autopilot_Session.thy ===== *)
theory Autopilot_Session
  imports Lifecycle_Store
begin

text \<open>
  The durable control state of automatic supervision and what is shown of it
  (src/server/features/autopilot/domain/autopilot-session.ts), with the structured provider
  diagnostics it carries (src/shared/contracts/provider-failure.ts) and the recovery messages
  (src/shared/contracts/autopilot-recovery.ts). \<open>dp\<close> stands for \<open>Date.parse\<close>.
\<close>

subsection \<open>Provider diagnostics\<close>

record provider_failure =
  pvf_code :: string
  pvf_http :: "int option"

record provider_retry =
  pvr_turn :: string
  pvr_attempt :: int
  pvr_not_before :: string
  pvr_settled :: bool
  pvr_pending :: bool
  pvr_resume_root :: bool

definition isTransientProviderFailure :: "provider_failure \<Rightarrow> bool" where
  "isTransientProviderFailure failure \<longleftrightarrow>
     pvf_code failure = ''serverOverloaded'' \<or> pvf_code failure = ''rateLimitExceeded''"

definition failure_descriptions :: "(string \<times> string) list" where
  "failure_descriptions =
     [(''contextWindowExceeded'',
       ''The conversation exceeds the model context window. Compact it or start a new session.''),
      (''sessionBudgetExceeded'',
       ''The Codex session budget is exhausted. Review its budget before continuing.''),
      (''usageLimitExceeded'',
       ''Codex usage limit reached. Restore available usage or wait for the limit to reset, then resume Autopilot.''),
      (''rateLimitExceeded'', ''The request rate limit was reached. Wait before retrying.''),
      (''flexUnavailable'',
       ''Flex processing is unavailable. Retry later or select another service tier.''),
      (''serverOverloaded'', ''The model service is overloaded. Retry later.''),
      (''cyberPolicy'', ''Codex blocked the request under its cybersecurity policy.''),
      (''misalignmentPolicyViolation'', ''Codex blocked the request under its safety policy.''),
      (''tooManyDenials'',
       ''Execution stopped after too many denied requests. Review the requested actions.''),
      (''httpConnectionFailed'',
       ''The provider HTTP connection failed. Check connectivity and provider availability.''),
      (''responseStreamConnectionFailed'', ''Codex could not connect to the response stream.''),
      (''responseStreamDisconnected'',
       ''The provider response stream disconnected before completion.''),
      (''responseTooManyFailedAttempts'', ''The provider response failed after repeated attempts.''),
      (''internalServerError'', ''Codex encountered an internal server error. Retry later.''),
      (''unauthorized'', ''Provider authorization failed. Check the account sign-in or credentials.''),
      (''badRequest'',
       ''The provider rejected the request. Check the selected model and request settings.''),
      (''threadRollbackFailed'', ''Codex could not roll back the thread.''),
      (''sandboxError'',
       ''Codex could not execute an action in its sandbox. Review the execution policy.''),
      (''activeTurnNotSteerable'', ''The active turn cannot accept steering. Wait for it to finish.''),
      (''other'', ''Codex reported an unclassified execution failure.'')]"

definition failure_code_char :: "char \<Rightarrow> bool" where
  "failure_code_char c \<longleftrightarrow> is_alnum c \<or> c = CHR ''_''"

text \<open>The expression \<open>^[A-Za-z][A-Za-z0-9_]{0,79}$\<close>.\<close>

fun is_failure_code :: "string \<Rightarrow> bool" where
  "is_failure_code [] = False"
| "is_failure_code (c # cs) =
     ((is_lower c \<or> is_upper c) \<and> length cs \<le> 79 \<and> list_all failure_code_char cs)"

definition parse_status_code :: "jv \<Rightarrow> int option" where
  "parse_status_code v =
     (case v of
        JNum r \<Rightarrow> if r = of_int \<lfloor>r\<rfloor> \<and> 100 \<le> r \<and> r \<le> 599 then Some \<lfloor>r\<rfloor> else None
      | _ \<Rightarrow> None)"

definition parseProviderFailure :: "jv \<Rightarrow> provider_failure option" where
  "parseProviderFailure v = do {
     f \<leftarrow> as_record v;
     failure \<leftarrow> as_string (field_of f ''code'');
     guard (is_failure_code failure);
     status \<leftarrow> optional parse_status_code (field_of f ''httpStatusCode'');
     Some \<lparr> pvf_code = failure, pvf_http = status \<rparr> }"

definition describeProviderFailure :: "provider_failure \<Rightarrow> string" where
  "describeProviderFailure failure =
     pvf_code failure
     @ (case pvf_http failure of
          None \<Rightarrow> [] | Some n \<Rightarrow> if n = 0 then [] else '' (HTTP '' @ int_text n @ '')'')
     @ '': ''
     @ coalesce (map_of failure_descriptions (pvf_code failure))
         ''Codex reported an execution failure with no known description.''"

definition parse_attempt :: "jv \<Rightarrow> int option" where
  "parse_attempt v =
     (case v of
        JNum r \<Rightarrow> if r = of_int \<lfloor>r\<rfloor> \<and> 1 \<le> r \<and> r \<le> 2 then Some \<lfloor>r\<rfloor> else None
      | _ \<Rightarrow> None)"

definition parseProviderRetry :: "(string \<Rightarrow> int option) \<Rightarrow> jv \<Rightarrow> provider_retry option" where
  "parseProviderRetry dp v = do {
     f \<leftarrow> as_record v;
     turn \<leftarrow> as_string (field_of f ''turnId'');
     guard (truthy turn \<and> length turn \<le> 256);
     attempt \<leftarrow> parse_attempt (field_of f ''attempt'');
     not_before \<leftarrow> as_string (field_of f ''notBefore'');
     guard (dp not_before \<noteq> None);
     settled \<leftarrow> as_bool (field_of f ''settled'');
     pending \<leftarrow> as_bool (field_of f ''pending'');
     resume \<leftarrow> as_bool (field_of f ''resumeRoot'');
     Some \<lparr> pvr_turn = turn, pvr_attempt = attempt, pvr_not_before = not_before,
            pvr_settled = settled, pvr_pending = pending, pvr_resume_root = resume \<rparr> }"

subsection \<open>The session's control state\<close>

datatype autopilot_state =
    PilotDisabled | PilotMonitoring | PilotBackoff | PilotAttention | PilotCompleted | PilotSafetyPaused

datatype stop_reason =
    ManualDisabled | PlanRequired | PlanComplete | SessionUnavailable | StopAttention
  | NoPlanProgress | ReconcileFailed | UsageLimitExceeded | ProviderError | StartUnavailable
  | ActionRateExceeded | PlanRemoved | PlanReplaced | SessionEnded | StopSafetyPaused
  | TextNull

text \<open>
  \<open>TextNull\<close> is the stored text ''null'': no member of the source's union type, but the reader of the
  store lets it through.
\<close>

record autopilot_session =
  au_session :: string
  au_state :: autopilot_state
  au_enabled :: bool
  au_plan :: "string option"
  au_fingerprint :: "string option"
  au_generation :: nat
  au_no_progress :: int
  au_next :: "string option"
  au_control :: "string option"
  au_stop :: "stop_reason option"
  au_failure :: "provider_failure option"
  au_failure_turn :: "string option"
  au_retry :: "provider_retry option"
  au_executor :: "executor_lifecycle option"
  au_blocking :: "structured_block option"
  au_supervision :: "protocol_state option"
  au_checkpoints :: "checkpoint_ledger option"
  au_updated :: string

definition disabledAutopilot :: "string \<Rightarrow> string \<Rightarrow> autopilot_session" where
  "disabledAutopilot session now =
     \<lparr> au_session = session, au_state = PilotDisabled, au_enabled = False, au_plan = None,
       au_fingerprint = None, au_generation = 0, au_no_progress = 0, au_next = None,
       au_control = None, au_stop = Some ManualDisabled, au_failure = None, au_failure_turn = None,
       au_retry = None, au_executor = None, au_blocking = None, au_supervision = None,
       au_checkpoints = None, au_updated = now \<rparr>"

subsection \<open>Health\<close>

datatype control_status =
    ControlScheduled | ControlIssued | ControlStarted | ControlFailed | ControlCancelled

record health_facts =
  hf_active_turn :: bool
  hf_executor :: bool
  hf_control :: "control_status option"
  hf_timer :: bool
  hf_reconciling :: bool
  hf_plan_matches :: bool
  hf_parked :: bool
  hf_fresh :: bool
  hf_observed :: string

datatype health_phase =
    PhaseOff | PhaseRootWorking | PhaseScheduled | PhaseWaiting | PhaseChecking | PhaseNeedsYou
  | PhaseSafetyPaused | PhaseComplete | PhaseCheckpointRecovery | PhaseDegraded

datatype degradation =
    MissingContinuation | InvalidWaitLease | ControllerUnavailable | StaleTransition | PlanMismatch

record pilot_health =
  ph_healthy :: bool
  ph_phase :: health_phase
  ph_supervision :: "protocol_outcome option"
  ph_wait_present :: bool
  ph_wait_categories :: "wake_condition list"
  ph_wait_resume :: "string option"
  ph_observed :: string
  ph_transition :: string
  ph_action :: string
  ph_degradation :: "degradation option"

record pilot_snapshot =
  sn_state :: autopilot_state
  sn_enabled :: bool
  sn_health :: pilot_health
  sn_reason :: "stop_reason option"
  sn_position :: int
  sn_limit :: int
  sn_action :: "(string \<times> string) option"
  sn_next :: "string option"
  sn_updated :: string
  sn_executor :: "executor_lifecycle option"
  sn_blocking :: "structured_block option"
  sn_failure :: "provider_failure option"
  sn_retry :: "provider_retry option"

definition handoff_failed :: "autopilot_session \<Rightarrow> bool" where
  "handoff_failed st \<longleftrightarrow>
     (case au_checkpoints st of None \<Rightarrow> False | Some c \<Rightarrow> cl_handoff_failed c = Some True)"

text \<open>
  The wake conditions of a typed lease are all supported; the source also accepts a lease of
  unknown shape, so it checks the number and the distinctness of the entries again.
\<close>

definition supportedWakeCategories :: "wake_condition list \<Rightarrow> wake_condition list" where
  "supportedWakeCategories conditions =
     (if length conditions > length condition_names then []
      else if distinct conditions then conditions else [])"

definition wake_categories :: "autopilot_session \<Rightarrow> wake_condition list" where
  "wake_categories st =
     supportedWakeCategories
       (case au_supervision st of
          None \<Rightarrow> []
        | Some p \<Rightarrow> (case ps_lease p of None \<Rightarrow> [] | Some l \<Rightarrow> wl_conditions l))"

definition pilot_outcome :: "autopilot_session \<Rightarrow> protocol_outcome option" where
  "pilot_outcome st = map_option ps_outcome (au_supervision st)"

definition parked_wait :: "autopilot_session \<Rightarrow> health_facts \<Rightarrow> bool" where
  "parked_wait st facts \<longleftrightarrow>
     pilot_outcome st = Some Parked \<and> wake_categories st \<noteq> [] \<and> hf_parked facts"

definition evaluation_at :: "(string \<Rightarrow> int option) \<Rightarrow> autopilot_session \<Rightarrow> int option" where
  "evaluation_at dp st =
     (case au_next st of None \<Rightarrow> None | Some t \<Rightarrow> if truthy t then dp t else None)"

definition scheduled :: "(string \<Rightarrow> int option) \<Rightarrow> autopilot_session \<Rightarrow> health_facts \<Rightarrow> bool" where
  "scheduled dp st facts \<longleftrightarrow>
     au_state st = PilotBackoff \<and> hf_control facts = Some ControlScheduled \<and> hf_timer facts
     \<and> date_before (dp (hf_observed facts)) (evaluation_at dp st)"

definition live_continuation :: "(string \<Rightarrow> int option) \<Rightarrow> autopilot_session \<Rightarrow> health_facts \<Rightarrow> bool" where
  "live_continuation dp st facts \<longleftrightarrow>
     parked_wait st facts \<or> scheduled dp st facts \<or> hf_active_turn facts \<or> hf_executor facts"

definition pilot_healthy :: "(string \<Rightarrow> int option) \<Rightarrow> autopilot_session \<Rightarrow> health_facts \<Rightarrow> bool" where
  "pilot_healthy dp st facts \<longleftrightarrow>
     au_enabled st \<and> \<not> handoff_failed st \<and> hf_plan_matches facts
     \<and> pilot_outcome st \<notin> {Some AttentionRequired, Some SafetyPaused}
     \<and> au_state st \<notin> {PilotAttention, PilotSafetyPaused, PilotCompleted, PilotDisabled}
     \<and> live_continuation dp st facts"

definition pilot_phase :: "(string \<Rightarrow> int option) \<Rightarrow> autopilot_session \<Rightarrow> health_facts \<Rightarrow> health_phase" where
  "pilot_phase dp st facts =
     (let healthy = pilot_healthy dp st facts in
      if handoff_failed st then PhaseCheckpointRecovery
      else if au_state st = PilotDisabled then PhaseOff
      else if au_state st = PilotCompleted then PhaseComplete
      else if au_state st = PilotAttention then PhaseNeedsYou
      else if au_state st = PilotSafetyPaused \<or> pilot_outcome st = Some SafetyPaused
      then PhaseSafetyPaused
      else if healthy \<and> (parked_wait st facts \<or> hf_executor facts) then PhaseWaiting
      else if healthy \<and> scheduled dp st facts then PhaseScheduled
      else if hf_reconciling facts \<or> (healthy \<and> pilot_outcome st = Some ProbeRequired)
      then PhaseChecking
      else if healthy \<and> hf_active_turn facts then PhaseRootWorking
      else PhaseDegraded)"

definition checkpointHandoffRecoveryMessage :: string where
  "checkpointHandoffRecoveryMessage =
     ''Checkpoint handoff failed. Autopilot is reconnecting this session automatically. If it cannot recover, restore or reopen the session.''"

definition usage_limit_message :: string where
  "usage_limit_message =
     ''Codex usage limit reached. Restore available usage or wait for the limit to reset, then resume Autopilot.''"

definition phase_action :: "health_phase \<Rightarrow> bool \<Rightarrow> string" where
  "phase_action phase parked =
     (case phase of
        PhaseCheckpointRecovery \<Rightarrow> checkpointHandoffRecoveryMessage
      | PhaseRootWorking \<Rightarrow> ''Wait for the root turn to settle.''
      | PhaseScheduled \<Rightarrow> ''Run the scheduled continuation.''
      | PhaseWaiting \<Rightarrow>
          if parked then ''Wait for a subscribed agent or process event.''
          else ''Wait for the active executor or owned process to settle.''
      | PhaseChecking \<Rightarrow> ''Reconcile supervised execution state.''
      | PhaseNeedsYou \<Rightarrow> ''Respond to the pending attention request.''
      | PhaseComplete \<Rightarrow> ''No further plan action is required.''
      | PhaseOff \<Rightarrow> ''Enable Autopilot to supervise an incomplete plan.''
      | PhaseSafetyPaused \<Rightarrow> ''Resume manually after reviewing the safety pause.''
      | PhaseDegraded \<Rightarrow> ''Restore a valid continuation before relying on Autopilot.'')"

definition next_expected_action ::
  "(string \<Rightarrow> int option) \<Rightarrow> autopilot_session \<Rightarrow> health_facts \<Rightarrow> string" where
  "next_expected_action dp st facts =
     (case au_failure st of
        Some failure \<Rightarrow> describeProviderFailure failure
      | None \<Rightarrow>
          if au_stop st = Some UsageLimitExceeded then usage_limit_message
          else phase_action (pilot_phase dp st facts) (parked_wait st facts))"

definition pilot_degradation ::
  "(string \<Rightarrow> int option) \<Rightarrow> autopilot_session \<Rightarrow> health_facts \<Rightarrow> degradation option" where
  "pilot_degradation dp st facts =
     (if pilot_healthy dp st facts \<or> \<not> au_enabled st then None
      else Some
        (if \<not> hf_plan_matches facts then PlanMismatch
         else if \<not> hf_fresh facts
              \<or> (case (evaluation_at dp st, dp (hf_observed facts)) of
                   (Some e, Some o') \<Rightarrow> e \<le> o' | _ \<Rightarrow> False)
         then StaleTransition
         else if (case au_supervision st of None \<Rightarrow> False | Some p \<Rightarrow> ps_lease p \<noteq> None)
                 \<and> \<not> parked_wait st facts
         then InvalidWaitLease
         else MissingContinuation))"

text \<open>The facts assumed when a caller supplies none.\<close>

definition no_facts :: "autopilot_session \<Rightarrow> health_facts" where
  "no_facts st =
     \<lparr> hf_active_turn = False, hf_executor = False, hf_control = None, hf_timer = False,
       hf_reconciling = False, hf_plan_matches = False, hf_parked = False, hf_fresh = False,
       hf_observed = au_updated st \<rparr>"

definition truthy_text :: "string option \<Rightarrow> string option" where
  "truthy_text v = (if truthy_opt v then v else None)"

definition lease_resume :: "autopilot_session \<Rightarrow> string option" where
  "lease_resume st =
     (case au_supervision st of
        None \<Rightarrow> None
      | Some p \<Rightarrow> (case ps_lease p of None \<Rightarrow> None | Some l \<Rightarrow> truthy_text (wl_resume l)))"

definition autopilotSnapshot ::
  "(string \<Rightarrow> int option) \<Rightarrow> autopilot_session \<Rightarrow> int \<Rightarrow> health_facts option \<Rightarrow> pilot_snapshot" where
  "autopilotSnapshot dp st retryLimit given =
     (let facts = coalesce given (no_facts st) in
      \<lparr> sn_state = au_state st, sn_enabled = au_enabled st,
        sn_health =
          \<lparr> ph_healthy = pilot_healthy dp st facts, ph_phase = pilot_phase dp st facts,
            ph_supervision = pilot_outcome st,
            ph_wait_present =
              (case au_supervision st of None \<Rightarrow> False | Some p \<Rightarrow> ps_lease p \<noteq> None),
            ph_wait_categories = take 9 (wake_categories st),
            ph_wait_resume = lease_resume st,
            ph_observed = hf_observed facts, ph_transition = au_updated st,
            ph_action = next_expected_action dp st facts,
            ph_degradation = pilot_degradation dp st facts \<rparr>,
        sn_reason = au_stop st, sn_position = au_no_progress st, sn_limit = retryLimit,
        sn_action =
          (if truthy_opt (au_control st)
           then Some (the (au_control st),
                  if au_state st = PilotBackoff then ''Automatic continuation scheduled.''
                  else ''Automatic continuation issued.'')
           else None),
        sn_next = truthy_text (au_next st), sn_updated = au_updated st,
        sn_executor = au_executor st, sn_blocking = au_blocking st,
        sn_failure = au_failure st, sn_retry = au_retry st \<rparr>)"

definition reconciliationRecoveryMessage :: string where
  "reconciliationRecoveryMessage =
     ''Autopilot is recovering after a continuation or agent status check failed. It will retry automatically. If recovery persists, retry Autopilot or restore the session.''"

definition isReconciliationRecovery :: "pilot_snapshot option \<Rightarrow> bool" where
  "isReconciliationRecovery snapshot =
     (case snapshot of
        None \<Rightarrow> False
      | Some s \<Rightarrow> sn_enabled s \<and> sn_state s = PilotMonitoring \<and> sn_reason s = Some ReconcileFailed
                  \<and> \<not> ph_healthy (sn_health s))"

end
