(* ===== verification/Agent_Activity.thy ===== *)
theory Agent_Activity
  imports Js_Json Executor_Lifecycle
begin

text \<open>
  The projection of what the agents of a session are doing
  (src/server/features/agent-activity/model.ts): the snapshot of a root agent and its
  subagents, and the reducer that folds observed facts into it. \<open>date_parse\<close> stands for
  \<open>Date.parse\<close> (\<open>None\<close> is NaN) and \<open>collate\<close> for \<open>localeCompare\<close>. A percentage is a finite
  number; a missing or a non-finite one is \<open>None\<close>, as both fail \<open>validPercent\<close>.
\<close>

subsection \<open>Data\<close>

datatype activity_state =
    WorkingAgent | IdleAgent | AwaitingAgent | AwaitingHuman | BlockedAgent | DisconnectedAgent

datatype activity_confidence = FreshActivity | StaleActivity | ReconcilingActivity

datatype activity_reason =
    TurnActiveReason | TurnCompletedReason | PendingInteractionReason
  | AttentionReason blocking_reason
  | CollaborationWaitReason | AgentErrorReason | ProcessExitedReason
  | MissingMetadataReason | UnknownReason

record root_activity =
  ra_state :: activity_state
  ra_reason :: activity_reason
  ra_percent :: "rat option"
  ra_observed :: string
  ra_last :: string

datatype child_outcome = PartialChild | CancelledChild | FailedChild

record subagent =
  sa_id :: string
  sa_thread :: "string option"
  sa_nickname :: "string option"
  sa_role :: "string option"
  sa_model :: "string option"
  sa_path :: "string option"
  sa_task :: "string option"
  sa_position :: "string option"
  sa_generation :: "nat option"
  sa_outcome :: "child_outcome option"
  sa_percent :: "rat option"
  sa_processes :: "executor_process list option"
  sa_state :: activity_state
  sa_reason :: activity_reason
  sa_observed :: string
  sa_last :: string

record activity_snapshot =
  as_session :: string
  as_root_thread :: "string option"
  as_root :: root_activity
  as_subagents :: "subagent list"
  as_aggregate :: activity_state
  as_confidence :: activity_confidence

datatype fact_kind =
    ThreadStarted | ThreadStatus | TurnStarted | TurnCompleted | InteractionPending
  | InteractionResolved | Collaboration | ContextUsage | ProcessExitedFact | Observed

record activity_fact =
  af_session :: string
  af_at :: string
  af_kind :: fact_kind
  af_thread :: "string option"
  af_status :: "string option"
  af_child :: "string option"
  af_child_thread :: "string option"
  af_child_nickname :: "string option"
  af_child_role :: "string option"
  af_child_model :: "string option"
  af_child_path :: "string option"
  af_child_processes :: "executor_process list option"
  af_child_status :: "string option"
  af_action :: "string option"
  af_percent :: "rat option"
  af_attention :: "blocking_reason option"
  af_has_pending :: bool

definition createAgentActivitySnapshot :: "string \<Rightarrow> string \<Rightarrow> activity_snapshot" where
  "createAgentActivitySnapshot session observedAt =
     \<lparr> as_session = session, as_root_thread = None,
       as_root = \<lparr> ra_state = DisconnectedAgent, ra_reason = UnknownReason, ra_percent = None,
                   ra_observed = observedAt, ra_last = observedAt \<rparr>,
       as_subagents = [], as_aggregate = IdleAgent, as_confidence = StaleActivity \<rparr>"

subsection \<open>Classification of one status\<close>

definition is_status :: "string option \<Rightarrow> string list \<Rightarrow> bool" where
  "is_status status names \<longleftrightarrow> (case status of None \<Rightarrow> False | Some s \<Rightarrow> s \<in> set names)"

definition set_root :: "activity_state \<Rightarrow> activity_reason \<Rightarrow> root_activity \<Rightarrow> root_activity" where
  "set_root state reason actor = actor\<lparr>ra_state := state, ra_reason := reason\<rparr>"

definition applyStatus :: "string option \<Rightarrow> root_activity \<Rightarrow> root_activity" where
  "applyStatus status actor =
     (if is_status status [''error'', ''systemError'', ''failed'']
      then set_root BlockedAgent AgentErrorReason actor
      else if is_status status [''notLoaded'']
      then set_root DisconnectedAgent ProcessExitedReason actor
      else if is_status status [''idle'', ''completed'']
      then set_root IdleAgent TurnCompletedReason actor
      else if is_status status [''active'', ''working'']
      then set_root WorkingAgent TurnActiveReason actor
      else actor)"

definition error_status :: "string option \<Rightarrow> bool" where
  "error_status status \<longleftrightarrow> is_status status [''error'', ''failed'', ''systemError'', ''errored'']"

definition running_status :: "string option \<Rightarrow> bool" where
  "running_status status \<longleftrightarrow> is_status status [''working'', ''active'', ''running'', ''pendingInit'']"

definition gone_status :: "string option \<Rightarrow> bool" where
  "gone_status status \<longleftrightarrow> is_status status [''disconnected'', ''notLoaded'', ''shutdown'', ''notFound'']"

definition finished_status :: "string option \<Rightarrow> string option \<Rightarrow> bool" where
  "finished_status status action \<longleftrightarrow>
     is_status status [''completed'', ''idle'', ''interrupted''] \<or> action = Some ''close_agent''"

definition childOutcome ::
  "string option \<Rightarrow> string option \<Rightarrow> child_outcome option \<Rightarrow> child_outcome option" where
  "childOutcome status action previous =
     (if error_status status then Some FailedChild
      else if is_status status [''shutdown''] \<or> action = Some ''close_agent'' then Some CancelledChild
      else if is_status status [''interrupted''] then Some PartialChild
      else if is_status status [''completed'', ''idle''] then Some PartialChild
      else if action = Some ''resume_agent'' \<or> running_status status then None
      else previous)"

definition childState ::
  "string option \<Rightarrow> string option \<Rightarrow> activity_state option \<Rightarrow> activity_state" where
  "childState status action previous =
     (let prev = coalesce previous WorkingAgent in
      if error_status status then BlockedAgent
      else if finished_status status action then IdleAgent
      else if gone_status status then DisconnectedAgent
      else if prev = IdleAgent \<and> action = Some ''resume_agent'' then WorkingAgent
      else if running_status status then WorkingAgent
      else prev)"

definition childReason :: "string option \<Rightarrow> string option \<Rightarrow> activity_reason" where
  "childReason status action =
     (if error_status status then AgentErrorReason
      else if gone_status status then ProcessExitedReason
      else if action = Some ''wait'' then CollaborationWaitReason
      else if finished_status status action then TurnCompletedReason
      else TurnActiveReason)"

text \<open>The most urgent state of any child, in the order the source lists the states.\<close>

definition activity_states :: "activity_state list" where
  "activity_states =
     [BlockedAgent, AwaitingHuman, WorkingAgent, AwaitingAgent, IdleAgent, DisconnectedAgent]"

definition aggregate :: "subagent list \<Rightarrow> activity_state" where
  "aggregate children =
     coalesce (List.find (\<lambda>st. \<exists>child \<in> set children. sa_state child = st) activity_states) IdleAgent"

definition validPercent :: "rat option \<Rightarrow> bool" where
  "validPercent v = (case v of None \<Rightarrow> False | Some r \<Rightarrow> r = of_int \<lfloor>r\<rfloor> \<and> 0 \<le> r \<and> r \<le> 100)"

definition later :: "(string \<Rightarrow> int option) \<Rightarrow> string \<Rightarrow> string \<Rightarrow> string" where
  "later date_parse left right =
     (case (date_parse right, date_parse left) of
        (Some r, Some l) \<Rightarrow> if r > l then right else left
      | _ \<Rightarrow> left)"

subsection \<open>The children map\<close>

definition children_map :: "subagent list \<Rightarrow> subagent list" where
  "children_map subagents = foldl (\<lambda>rows child. map_set sa_id child rows) [] subagents"

definition child_order :: "(string \<Rightarrow> string \<Rightarrow> int) \<Rightarrow> subagent \<Rightarrow> subagent \<Rightarrow> int" where
  "child_order collate a b = collate (sa_id a) (sa_id b)"

definition truthy_or :: "string option \<Rightarrow> string option \<Rightarrow> string option" where
  "truthy_or new old = (if truthy_opt new then new else if truthy_opt old then old else None)"

definition prior :: "subagent option \<Rightarrow> (subagent \<Rightarrow> 'a option) \<Rightarrow> 'a option" where
  "prior child field = (case child of None \<Rightarrow> None | Some c \<Rightarrow> field c)"

definition terminal_reviewer :: "string option \<Rightarrow> subagent option \<Rightarrow> activity_fact \<Rightarrow> bool" where
  "terminal_reviewer taskPath prev obs \<longleftrightarrow>
     (case taskPath of None \<Rightarrow> False | Some p \<Rightarrow> path_leaf p = Some ''final_review'')
     \<or> prior prev sa_task = Some ''final_review''
     \<or> af_child_role obs = Some ''org-plan-reviewer''"

definition child_path :: "subagent option \<Rightarrow> activity_fact \<Rightarrow> string option" where
  "child_path prev obs = opt_or (af_child_path obs) (prior prev sa_path)"

definition child_identity :: "string option \<Rightarrow> agent_identity option" where
  "child_identity taskPath =
     (case taskPath of None \<Rightarrow> None | Some p \<Rightarrow> if truthy p then parseOrgPlanAgentIdentity p else None)"

definition child_task :: "subagent option \<Rightarrow> activity_fact \<Rightarrow> string option" where
  "child_task prev obs =
     (case child_identity (child_path prev obs) of
        Some i \<Rightarrow> Some (ai_task i)
      | None \<Rightarrow>
          if terminal_reviewer (child_path prev obs) prev obs then Some ''final_review'' else None)"

definition child_percent :: "subagent option \<Rightarrow> activity_fact \<Rightarrow> rat option" where
  "child_percent prev obs =
     (if validPercent (af_percent obs) then af_percent obs
      else if validPercent (prior prev sa_percent) then prior prev sa_percent
      else None)"

text \<open>The child a collaboration fact describes; \<open>prev\<close> is the row known under its identifier.\<close>

definition project_child ::
  "(string \<Rightarrow> int option) \<Rightarrow> string \<Rightarrow> subagent option \<Rightarrow> activity_fact \<Rightarrow> subagent" where
  "project_child dp key prev obs =
     \<lparr> sa_id = key,
       sa_thread = truthy_or (af_child_thread obs) (prior prev sa_thread),
       sa_nickname = truthy_or (af_child_nickname obs) (prior prev sa_nickname),
       sa_role = truthy_or (af_child_role obs) (prior prev sa_role),
       sa_model = truthy_or (af_child_model obs) (prior prev sa_model),
       sa_path = truthy_or (child_path prev obs) None,
       sa_task = child_task prev obs,
       sa_position = map_option ai_position (child_identity (child_path prev obs)),
       sa_generation = map_option ai_generation (child_identity (child_path prev obs)),
       sa_outcome = childOutcome (af_child_status obs) (af_action obs) (prior prev sa_outcome),
       sa_percent = child_percent prev obs,
       sa_processes = opt_or (af_child_processes obs) (prior prev sa_processes),
       sa_state = childState (af_child_status obs) (af_action obs) (map_option sa_state prev),
       sa_reason = childReason (af_child_status obs) (af_action obs),
       sa_observed = af_at obs,
       sa_last = later dp (coalesce (map_option sa_last prev) (af_at obs)) (af_at obs) \<rparr>"

subsection \<open>The reducer\<close>

definition attention_reason :: "activity_fact \<Rightarrow> activity_reason" where
  "attention_reason obs =
     (case af_attention obs of None \<Rightarrow> PendingInteractionReason | Some r \<Rightarrow> AttentionReason r)"

definition observe_root :: "(string \<Rightarrow> int option) \<Rightarrow> activity_fact \<Rightarrow> root_activity \<Rightarrow> root_activity" where
  "observe_root dp obs actor =
     actor\<lparr>ra_observed := later dp (ra_observed actor) (af_at obs),
          ra_last := (if af_kind obs = ContextUsage then ra_last actor
                      else later dp (ra_last actor) (af_at obs))\<rparr>"

text \<open>
  The effect of a fact on the root: the source's sequence of guarded assignments, of which the
  kind of the fact selects at most one. The child bookkeeping of a collaboration follows below.
\<close>

definition root_step :: "activity_fact \<Rightarrow> root_activity \<Rightarrow> root_activity" where
  "root_step obs actor =
     (case af_kind obs of
        TurnStarted \<Rightarrow> set_root WorkingAgent TurnActiveReason actor
      | ThreadStarted \<Rightarrow> applyStatus (af_status obs) actor
      | TurnCompleted \<Rightarrow>
          if ra_state actor \<noteq> AwaitingHuman then set_root IdleAgent TurnCompletedReason actor else actor
      | InteractionPending \<Rightarrow> set_root AwaitingHuman (attention_reason obs) actor
      | InteractionResolved \<Rightarrow>
          if ra_state actor = AwaitingHuman
          then (if af_has_pending obs then set_root AwaitingHuman (attention_reason obs) actor
                else set_root WorkingAgent TurnActiveReason actor)
          else actor
      | ProcessExitedFact \<Rightarrow> set_root DisconnectedAgent ProcessExitedReason actor
      | ThreadStatus \<Rightarrow> applyStatus (af_status obs) actor
      | ContextUsage \<Rightarrow> if validPercent (af_percent obs) then actor\<lparr>ra_percent := af_percent obs\<rparr> else actor
      | Collaboration \<Rightarrow>
          if \<not> truthy_opt (af_child obs) then actor\<lparr>ra_reason := MissingMetadataReason\<rparr>
          else if af_action obs = Some ''wait'' \<and> ra_state actor = WorkingAgent
          then set_root AwaitingAgent CollaborationWaitReason actor
          else actor
      | Observed \<Rightarrow> actor)"

definition children_step ::
  "(string \<Rightarrow> int option) \<Rightarrow> activity_fact \<Rightarrow> subagent list \<Rightarrow> subagent list" where
  "children_step dp obs rows =
     (if af_kind obs = Collaboration \<and> truthy_opt (af_child obs)
      then let key = the (af_child obs) in
           map_set sa_id (project_child dp key (List.find (\<lambda>c. sa_id c = key) rows) obs) rows
      else rows)"

text \<open>What two snapshots are compared by: everything but the four clocks of the rows.\<close>

definition semantic_child :: "subagent \<Rightarrow> subagent" where
  "semantic_child c = c\<lparr>sa_observed := [], sa_last := []\<rparr>"

definition semantic :: "activity_snapshot \<Rightarrow> activity_snapshot" where
  "semantic s = s\<lparr>as_root := (as_root s)\<lparr>ra_observed := [], ra_last := []\<rparr>,
                  as_subagents := map semantic_child (as_subagents s)\<rparr>"

definition same :: "activity_snapshot \<Rightarrow> activity_snapshot \<Rightarrow> bool" where
  "same left right \<longleftrightarrow> semantic left = semantic right"

definition next_snapshot ::
  "(string \<Rightarrow> int option) \<Rightarrow> (string \<Rightarrow> string \<Rightarrow> int) \<Rightarrow> activity_snapshot \<Rightarrow> activity_fact
     \<Rightarrow> activity_snapshot" where
  "next_snapshot dp collate current obs =
     (let actor = root_step obs (observe_root dp obs (as_root current));
          subagents = sort_by (child_order collate)
                        (children_step dp obs (children_map (as_subagents current)))
      in \<lparr> as_session = as_session current,
           as_root_thread =
             (if truthy_opt (as_root_thread current) \<or> (af_kind obs = ThreadStarted \<and> truthy_opt (af_thread obs))
              then opt_or (as_root_thread current) (af_thread obs) else None),
           as_root = actor, as_subagents = subagents, as_aggregate = aggregate subagents,
           as_confidence = as_confidence current \<rparr>)"

definition project_fact ::
  "(string \<Rightarrow> int option) \<Rightarrow> (string \<Rightarrow> string \<Rightarrow> int) \<Rightarrow> activity_snapshot \<Rightarrow> activity_fact
     \<Rightarrow> activity_snapshot" where
  "project_fact dp collate current obs =
     (let next' = next_snapshot dp collate current obs in
      if same current next' then current else next')"

definition relevant :: "(string \<Rightarrow> int option) \<Rightarrow> activity_snapshot \<Rightarrow> activity_fact \<Rightarrow> bool" where
  "relevant dp current obs \<longleftrightarrow>
     af_session obs = as_session current
     \<and> (case dp (af_at obs) of
          None \<Rightarrow> False
        | Some t \<Rightarrow> (case dp (ra_observed (as_root current)) of None \<Rightarrow> True | Some seen \<Rightarrow> \<not> t < seen))"


text \<open>A fact of another thread than the root's is a fact about the child that runs it.\<close>

definition foreign_thread :: "activity_snapshot \<Rightarrow> activity_fact \<Rightarrow> bool" where
  "foreign_thread current obs \<longleftrightarrow>
     truthy_opt (af_thread obs) \<and> truthy_opt (as_root_thread current)
     \<and> af_thread obs \<noteq> as_root_thread current"

definition child_fact_of :: "subagent \<Rightarrow> activity_fact \<Rightarrow> activity_fact" where
  "child_fact_of child obs =
     obs\<lparr>af_thread := None, af_child := Some (sa_id child), af_kind := Collaboration,
          af_child_status := af_status obs\<rparr>"

definition projectAgentActivity ::
  "(string \<Rightarrow> int option) \<Rightarrow> (string \<Rightarrow> string \<Rightarrow> int) \<Rightarrow> activity_snapshot \<Rightarrow> activity_fact
     \<Rightarrow> activity_snapshot" where
  "projectAgentActivity dp collate current obs =
     (if \<not> relevant dp current obs then current
      else if foreign_thread current obs then
        (case List.find (\<lambda>c. sa_thread c = af_thread obs) (as_subagents current) of
           None \<Rightarrow> current
         | Some child \<Rightarrow>
             if af_kind obs = ContextUsage \<and> validPercent (af_percent obs)
             then current\<lparr>as_subagents :=
                    update_where (\<lambda>c. sa_id c = sa_id child) (\<lambda>c. c\<lparr>sa_percent := af_percent obs\<rparr>)
                      (as_subagents current)\<rparr>
             else project_fact dp collate current (child_fact_of child obs))
      else project_fact dp collate current obs)"

definition withActivityConfidence :: "activity_snapshot \<Rightarrow> activity_confidence \<Rightarrow> activity_snapshot" where
  "withActivityConfidence snapshot confidence =
     (if as_confidence snapshot = confidence then snapshot else snapshot\<lparr>as_confidence := confidence\<rparr>)"

definition clearAgentActivityChildren :: "activity_snapshot \<Rightarrow> activity_snapshot" where
  "clearAgentActivityChildren snapshot =
     (if as_subagents snapshot = [] \<and> as_aggregate snapshot = IdleAgent then snapshot
      else let subagents = map (\<lambda>c. c\<lparr>sa_state := DisconnectedAgent, sa_reason := ProcessExitedReason\<rparr>)
                             (as_subagents snapshot)
           in snapshot\<lparr>as_subagents := subagents, as_aggregate := aggregate subagents\<rparr>)"

end
