(* ===== verification/Agent_Activity_Facts.thy ===== *)
theory Agent_Activity_Facts
  imports Agent_Activity
begin

text \<open>
  What the activity reducer guarantees: the shape of every reachable snapshot, the harmlessness
  of repeated, foreign and outdated facts, and the separation of root and children.
\<close>

subsection \<open>The shape of a snapshot\<close>

definition child_ok :: "subagent \<Rightarrow> bool" where
  "child_ok c \<longleftrightarrow>
     (let identity = Option.bind (sa_path c) parseOrgPlanAgentIdentity in
      sa_path c \<noteq> Some [] \<and> sa_thread c \<noteq> Some []
      \<and> sa_position c = map_option ai_position identity
      \<and> sa_generation c = map_option ai_generation identity
      \<and> (case identity of
           Some i \<Rightarrow> sa_task c = Some (ai_task i)
         | None \<Rightarrow> sa_task c = None \<or> sa_task c = Some ''final_review'')
      \<and> (sa_percent c = None \<or> validPercent (sa_percent c)))"

definition activity_ok :: "(string \<Rightarrow> string \<Rightarrow> int) \<Rightarrow> activity_snapshot \<Rightarrow> bool" where
  "activity_ok collate s \<longleftrightarrow>
     keys_distinct sa_id (as_subagents s)
     \<and> (comparator collate \<longrightarrow> sorted_wrt (le_by (child_order collate)) (as_subagents s))
     \<and> as_aggregate s = aggregate (as_subagents s)
     \<and> list_all child_ok (as_subagents s)"

lemma truthy_or_Some: "truthy_or a b \<noteq> Some []"
  by (cases a; cases b) (auto simp: truthy_or_def truthy_def)

lemma child_identity_path: "child_identity p = Option.bind (truthy_or p None) parseOrgPlanAgentIdentity"
  by (cases p) (simp_all add: child_identity_def truthy_or_def)

lemma project_child_fields [simp]:
  "sa_id (project_child dp key prev obs) = key"
  "sa_thread (project_child dp key prev obs) = truthy_or (af_child_thread obs) (prior prev sa_thread)"
  "sa_path (project_child dp key prev obs) = truthy_or (child_path prev obs) None"
  "sa_task (project_child dp key prev obs) = child_task prev obs"
  "sa_position (project_child dp key prev obs) = map_option ai_position (child_identity (child_path prev obs))"
  "sa_generation (project_child dp key prev obs)
     = map_option ai_generation (child_identity (child_path prev obs))"
  "sa_percent (project_child dp key prev obs) = child_percent prev obs"
  "sa_nickname (project_child dp key prev obs)
     = truthy_or (af_child_nickname obs) (prior prev sa_nickname)"
  "sa_role (project_child dp key prev obs) = truthy_or (af_child_role obs) (prior prev sa_role)"
  "sa_model (project_child dp key prev obs) = truthy_or (af_child_model obs) (prior prev sa_model)"
  "sa_outcome (project_child dp key prev obs)
     = childOutcome (af_child_status obs) (af_action obs) (prior prev sa_outcome)"
  "sa_processes (project_child dp key prev obs)
     = opt_or (af_child_processes obs) (prior prev sa_processes)"
  "sa_state (project_child dp key prev obs)
     = childState (af_child_status obs) (af_action obs) (map_option sa_state prev)"
  "sa_reason (project_child dp key prev obs) = childReason (af_child_status obs) (af_action obs)"
  by (simp_all add: project_child_def)

lemma project_child_ok: "child_ok (project_child dp key prev obs)"
proof -
  have "child_percent prev obs = None \<or> validPercent (child_percent prev obs)"
    by (simp add: child_percent_def)
  then show ?thesis
    using truthy_or_Some [of _ None] truthy_or_Some
    by (simp add: child_ok_def Let_def child_identity_path [symmetric] child_task_def
        split: option.splits)
qed

lemma child_ok_state [simp]: "child_ok (c\<lparr>sa_state := a, sa_reason := b\<rparr>) = child_ok c"
  by (simp add: child_ok_def Let_def split: option.split)

lemma child_ok_percent [simp]: "child_ok c \<Longrightarrow> validPercent v \<Longrightarrow> child_ok (c\<lparr>sa_percent := v\<rparr>)"
  by (simp add: child_ok_def Let_def split: option.splits)

lemma children_map_id: "keys_distinct sa_id rows \<Longrightarrow> children_map rows = rows"
  using foldl_map_set [of sa_id "[]" rows] by (simp add: children_map_def)

lemma children_step_distinct:
  "keys_distinct sa_id rows \<Longrightarrow> keys_distinct sa_id (children_step dp obs rows)"
  by (simp add: children_step_def Let_def map_set_distinct)

lemma children_step_ok:
  "list_all child_ok rows \<Longrightarrow> list_all child_ok (children_step dp obs rows)"
  using set_map_set [of sa_id _ rows] project_child_ok
  by (fastforce simp: children_step_def Let_def list_all_iff)

lemma sort_by_children_distinct:
  "keys_distinct sa_id rows \<Longrightarrow> keys_distinct sa_id (sort_by cmp rows)"
  by (metis keys_distinct_def distinct_map mset_eq_imp_distinct_iff mset_sort_by set_sort_by)

lemma comparator_child: "comparator collate \<Longrightarrow> comparator (child_order collate)"
  using comparator_key [of collate sa_id] by (simp add: child_order_def [abs_def])

lemma aggregate_cong: "sa_state ` set xs = sa_state ` set ys \<Longrightarrow> aggregate xs = aggregate ys"
  unfolding aggregate_def by (metis (no_types, lifting) image_iff)

lemma next_snapshot_ok:
  assumes "activity_ok collate s"
  shows "activity_ok collate (next_snapshot dp collate s obs)"
proof -
  let ?rows = "children_step dp obs (children_map (as_subagents s))"
  have rows: "keys_distinct sa_id ?rows" "list_all child_ok ?rows"
    using assms by (simp_all add: activity_ok_def children_map_id children_step_distinct children_step_ok)
  then have "keys_distinct sa_id (sort_by (child_order collate) ?rows)"
    "list_all child_ok (sort_by (child_order collate) ?rows)"
    by (simp_all add: sort_by_children_distinct list_all_iff)
  then show ?thesis
    using sort_by_sorted comparator_child
    by (auto simp: activity_ok_def next_snapshot_def Let_def)
qed

lemma project_fact_ok: "activity_ok collate s \<Longrightarrow> activity_ok collate (project_fact dp collate s obs)"
  by (simp add: project_fact_def Let_def next_snapshot_ok)

text \<open>Rewriting rows without touching their keys keeps order and identity.\<close>

lemma sorted_by_keys:
  "sorted_wrt (le_by (child_order collate)) rows = sorted_wrt (le_by collate) (map sa_id rows)"
  by (simp add: sorted_wrt_map le_by_def [abs_def] child_order_def)

lemma rows_replaced_ok:
  assumes "activity_ok collate s" and "map sa_id rows = map sa_id (as_subagents s)"
    and "list_all child_ok rows"
  shows "activity_ok collate (s\<lparr>as_subagents := rows, as_aggregate := aggregate rows\<rparr>)"
  using assms by (simp add: activity_ok_def keys_distinct_def sorted_by_keys)

lemma percent_update_ok:
  assumes "activity_ok collate s" and "validPercent v"
  shows "activity_ok collate (s\<lparr>as_subagents :=
     update_where (\<lambda>c. sa_id c = k) (\<lambda>c. c\<lparr>sa_percent := v\<rparr>) (as_subagents s)\<rparr>)"
proof -
  define rows where "rows = update_where (\<lambda>c. sa_id c = k) (\<lambda>c. c\<lparr>sa_percent := v\<rparr>) (as_subagents s)"
  have keys: "map sa_id rows = map sa_id (as_subagents s)"
    unfolding rows_def by (intro map_update_where) simp
  have "map sa_state rows = map sa_state (as_subagents s)"
    unfolding rows_def by (intro map_update_where) simp
  from arg_cong [OF this, of set] have "aggregate rows = aggregate (as_subagents s)"
    by (intro aggregate_cong) (simp only: set_map)
  then have "s\<lparr>as_subagents := rows, as_aggregate := aggregate rows\<rparr> = s\<lparr>as_subagents := rows\<rparr>"
    using assms(1) by (simp add: activity_ok_def)
  moreover have "list_all child_ok rows"
    using assms unfolding rows_def by (auto simp: activity_ok_def list_all_iff in_set_update_where)
  ultimately show ?thesis using rows_replaced_ok [OF assms(1) keys] by (simp add: rows_def)
qed

lemma project_ok:
  assumes "activity_ok collate s"
  shows "activity_ok collate (projectAgentActivity dp collate s obs)"
  using assms percent_update_ok [OF assms] project_fact_ok
  by (simp add: projectAgentActivity_def split: option.splits)

lemma clear_ok:
  assumes "activity_ok collate s"
  shows "activity_ok collate (clearAgentActivityChildren s)"
proof -
  let ?rows = "map (\<lambda>c. c\<lparr>sa_state := DisconnectedAgent, sa_reason := ProcessExitedReason\<rparr>) (as_subagents s)"
  have "map sa_id ?rows = map sa_id (as_subagents s)" by simp
  moreover have "list_all child_ok ?rows"
    using assms by (auto simp: activity_ok_def list_all_iff)
  ultimately show ?thesis
    using rows_replaced_ok [OF assms] assms by (simp add: clearAgentActivityChildren_def Let_def)
qed

lemma create_ok: "activity_ok collate (createAgentActivitySnapshot session observedAt)"
  by (simp add: activity_ok_def createAgentActivitySnapshot_def aggregate_def activity_states_def)


subsection \<open>Repeated facts\<close>

lemma truthy_or_again [simp]: "truthy_or a (truthy_or a b) = truthy_or a b"
  by (simp add: truthy_or_def)

lemma childOutcome_again [simp]:
  "childOutcome st ac (childOutcome st ac prev) = childOutcome st ac prev"
  by (simp add: childOutcome_def)

lemma childState_again [simp]:
  "childState st ac (Some (childState st ac prev)) = childState st ac prev"
  by (simp add: childState_def Let_def)

lemma child_path_again:
  fixes dp key prev obs
  defines "c \<equiv> project_child dp key prev obs"
  shows "truthy_or (child_path (Some c) obs) None = truthy_or (child_path prev obs) None"
    and "child_task (Some c) obs = child_task prev obs"
proof -
  let ?old = "child_path prev obs"
  have new: "child_path (Some c) obs = ?old \<or> (\<not> truthy_opt ?old \<and> child_path (Some c) obs = None)"
    by (cases "af_child_path obs") (simp_all add: c_def child_path_def prior_def truthy_or_def)
  then show path: "truthy_or (child_path (Some c) obs) None = truthy_or ?old None"
    by (auto simp: truthy_or_def)
  have leaf: "(case child_path (Some c) obs of None \<Rightarrow> False | Some p \<Rightarrow> path_leaf p = Some ''final_review'')
      = (case ?old of None \<Rightarrow> False | Some p \<Rightarrow> path_leaf p = Some ''final_review'')"
    using new by (auto simp: path_leaf_def truthy_def split: option.splits)
  have identity: "child_identity (child_path (Some c) obs) = child_identity ?old"
    by (simp only: child_identity_path path)
  have "terminal_reviewer (child_path (Some c) obs) (Some c) obs \<longleftrightarrow>
      terminal_reviewer ?old prev obs" if "child_identity ?old = None"
    using leaf that unfolding terminal_reviewer_def
    by (auto simp: prior_def c_def child_task_def terminal_reviewer_def split: if_splits)
  then show "child_task (Some c) obs = child_task prev obs"
    by (simp add: child_task_def identity split: option.split)
qed

lemma project_child_again:
  "semantic_child (project_child dp key (Some (project_child dp key prev obs)) obs)
     = semantic_child (project_child dp key prev obs)"
proof -
  let ?c = "project_child dp key prev obs"
  have "child_percent (Some ?c) obs = child_percent prev obs"
    by (simp add: child_percent_def prior_def)
  moreover have "child_identity (child_path (Some ?c) obs) = child_identity (child_path prev obs)"
    by (simp only: child_identity_path child_path_again)
  ultimately show ?thesis
    using child_path_again [of dp key prev obs]
    by (intro subagent.equality) (simp_all add: semantic_child_def prior_def)
qed


lemma find_sorted_child:
  assumes "keys_distinct sa_id rows" and "c \<in> set rows"
  shows "List.find (\<lambda>x. sa_id x = sa_id c) (sort_by cmp rows) = Some c"
  using assms by (simp add: find_key_iff sort_by_children_distinct)

text \<open>The roster a fact leaves behind, and the roster the same fact leaves behind again.\<close>

abbreviation "next_rows dp collate obs rows \<equiv>
  sort_by (child_order collate) (children_step dp obs (children_map rows))"

lemma next_rows_again:
  assumes "keys_distinct sa_id rows" and "comparator collate"
  shows "map semantic_child (next_rows dp collate obs (next_rows dp collate obs rows))
    = map semantic_child (next_rows dp collate obs rows)"
proof -
  let ?rows = "next_rows dp collate obs rows"
  note cmp = comparator_child [OF assms(2)]
  have once: "children_map rows = rows" using assms(1) by (rule children_map_id)
  have distinct: "keys_distinct sa_id ?rows"
    by (simp add: once assms(1) children_step_distinct sort_by_children_distinct)
  have sorted: "sort_by (child_order collate) ?rows = ?rows"
    by (rule sort_by_id [OF cmp sort_by_sorted [OF cmp]])
  show ?thesis
  proof (cases "af_kind obs = Collaboration \<and> truthy_opt (af_child obs)")
    case False
    then have "children_step dp obs xs = xs" for xs by (auto simp: children_step_def)
    then show ?thesis using sorted distinct by (simp add: children_map_id)
  next
    case True
    define key where "key = the (af_child obs)"
    define c where "c = project_child dp key (List.find (\<lambda>x. sa_id x = key) rows) obs"
    define d where "d = project_child dp key (Some c) obs"
    have id: "sa_id c = key" "sa_id d = key" by (simp_all add: c_def d_def)
    have rows: "?rows = sort_by (child_order collate) (map_set sa_id c rows)"
      using True once by (simp add: children_step_def key_def c_def Let_def)
    have "c \<in> set (map_set sa_id c rows)"
      using find_map_set [of sa_id key c rows] id find_key_Some [of sa_id key] by metis
    then have c: "c \<in> set ?rows" by (simp only: rows set_sort_by)
    with distinct have "List.find (\<lambda>x. sa_id x = key) ?rows = Some c"
      using id by (simp only: find_key_iff)
    then have "children_step dp obs ?rows = map_set sa_id d ?rows"
      using True by (simp add: children_step_def key_def d_def Let_def)
    also have "\<dots> = update_where (\<lambda>x. sa_id x = key) (\<lambda>_. d) ?rows"
      using c id by (auto simp: map_set_def)
    finally have again: "children_step dp obs (children_map ?rows)
        = update_where (\<lambda>x. sa_id x = key) (\<lambda>_. d) ?rows"
      by (simp only: children_map_id [OF distinct])
    have keys: "map sa_id (update_where (\<lambda>x. sa_id x = key) (\<lambda>_. d) ?rows) = map sa_id ?rows"
      by (intro map_update_where) (simp add: id)
    have "sort_by (child_order collate) (children_step dp obs (children_map ?rows))
        = update_where (\<lambda>x. sa_id x = key) (\<lambda>_. d) ?rows"
      unfolding again using sort_by_sorted [OF cmp]
      by (intro sort_by_id [OF cmp]) (simp only: sorted_by_keys keys)
    moreover have "semantic_child d = semantic_child x" if "x \<in> set ?rows" "sa_id x = key" for x
    proof -
      have "x = c" using keys_distinct_inj [OF distinct that(1) c] that(2) id by simp
      then show ?thesis by (simp add: c_def d_def project_child_again)
    qed
    then have "map semantic_child (update_where (\<lambda>x. sa_id x = key) (\<lambda>_. d) ?rows)
        = map semantic_child ?rows"
      by (auto simp: update_where_def)
    ultimately show ?thesis by simp
  qed
qed

lemma applyStatus_again:
  "ra_state (applyStatus st (observe_root dp obs (applyStatus st r))) = ra_state (applyStatus st r)"
  "ra_reason (applyStatus st (observe_root dp obs (applyStatus st r))) = ra_reason (applyStatus st r)"
  "ra_percent (applyStatus st r) = ra_percent r"
  by (simp_all add: applyStatus_def set_root_def observe_root_def)

lemma observe_root_fields [simp]:
  "ra_state (observe_root dp obs r) = ra_state r"
  "ra_reason (observe_root dp obs r) = ra_reason r"
  "ra_percent (observe_root dp obs r) = ra_percent r"
  by (simp_all add: observe_root_def)

lemma set_root_fields [simp]:
  "ra_state (set_root st re r) = st" "ra_reason (set_root st re r) = re"
  "ra_percent (set_root st re r) = ra_percent r"
  by (simp_all add: set_root_def)

lemma root_step_again:
  fixes dp obs r
  defines "r' \<equiv> root_step obs (observe_root dp obs r)"
  shows "ra_state (root_step obs (observe_root dp obs r')) = ra_state r'
    \<and> ra_reason (root_step obs (observe_root dp obs r')) = ra_reason r'
    \<and> ra_percent (root_step obs (observe_root dp obs r')) = ra_percent r'"
  by (cases "af_kind obs") (auto simp: r'_def root_step_def applyStatus_def)

lemma next_snapshot_again:
  assumes "activity_ok collate s" and "comparator collate"
  shows "same (next_snapshot dp collate s obs)
    (next_snapshot dp collate (next_snapshot dp collate s obs) obs)"
proof -
  have distinct: "keys_distinct sa_id (as_subagents s)" using assms(1) by (simp add: activity_ok_def)
  note rows = next_rows_again [OF distinct assms(2), of dp obs]
  have states: "sa_state ` set xs = sa_state ` set ys"
    if "map semantic_child xs = map semantic_child ys" for xs ys
  proof -
    have st: "sa_state (semantic_child c) = sa_state c" for c by (simp add: semantic_child_def)
    have "map (\<lambda>c. sa_state (semantic_child c)) xs = map (\<lambda>c. sa_state (semantic_child c)) ys"
      using arg_cong [OF that, of "map sa_state"] by (simp add: comp_def)
    then show ?thesis using st by (metis list.set_map map_cong)
  qed
  show ?thesis
    using rows root_step_again [of obs dp "as_root s"] aggregate_cong [OF states [OF rows]]
    by (cases "as_root_thread s"; cases "af_thread obs")
      (simp_all add: same_def semantic_def next_snapshot_def Let_def)
qed


lemma project_fact_again:
  assumes "activity_ok collate s" and "comparator collate"
  shows "project_fact dp collate (project_fact dp collate s obs) obs = project_fact dp collate s obs"
  using next_snapshot_again [OF assms, of dp obs] by (simp add: project_fact_def Let_def)

lemma root_thread_kept:
  "truthy_opt (as_root_thread s) \<Longrightarrow> as_root_thread (project_fact dp collate s obs) = as_root_thread s"
  by (cases "as_root_thread s") (simp_all add: project_fact_def next_snapshot_def Let_def)

lemma root_thread_new:
  "\<not> truthy_opt (as_root_thread s) \<Longrightarrow>
     as_root_thread (project_fact dp collate s obs) \<in> {as_root_thread s, None, af_thread obs}"
  by (cases "as_root_thread s") (simp_all add: project_fact_def next_snapshot_def Let_def)

lemma not_foreign_again:
  "\<not> foreign_thread s obs \<Longrightarrow> \<not> foreign_thread (project_fact dp collate s obs) obs"
  using root_thread_kept [of s dp collate obs] root_thread_new [of s dp collate obs]
  by (cases "truthy_opt (as_root_thread s)") (auto simp: foreign_thread_def)

lemma foreign_again:
  "foreign_thread s obs \<Longrightarrow> foreign_thread (project_fact dp collate s obs') obs"
  using root_thread_kept [of s dp collate obs'] by (simp add: foreign_thread_def)

lemma child_fact_kind [simp]:
  "af_kind (child_fact_of c obs) = Collaboration" "af_child (child_fact_of c obs) = Some (sa_id c)"
  "af_child_thread (child_fact_of c obs) = af_child_thread obs"
  "af_action (child_fact_of c obs) = af_action obs" "af_at (child_fact_of c obs) = af_at obs"
  by (simp_all add: child_fact_of_def)

lemma find_map_unchanged:
  assumes "\<And>x. x \<in> set xs \<Longrightarrow> P (f x) = P x"
  shows "List.find P (map f xs) = map_option f (List.find P xs)"
  using assms by (induction xs) auto

text \<open>A fact of a child thread finds the same child in the roster it produced.\<close>

lemma same_child_again:
  assumes ok: "activity_ok collate s" and cmp: "comparator collate"
    and found: "List.find (\<lambda>c. sa_thread c = t) (as_subagents s) = Some c"
    and t: "t = Some x" "truthy x" and no_thread: "af_child_thread obs = None"
  shows "\<exists>d. List.find (\<lambda>c. sa_thread c = t)
      (as_subagents (project_fact dp collate s (child_fact_of c obs))) = Some d \<and> sa_id d = sa_id c"
proof -
  let ?obs = "child_fact_of c obs"
  have distinct: "keys_distinct sa_id (as_subagents s)" using ok by (simp add: activity_ok_def)
  have c: "c \<in> set (as_subagents s)" "sa_thread c = t"
    using find_key_Some [OF found] by simp_all
  define d where "d = project_child dp (sa_id c) (Some c) ?obs"
  have d: "sa_thread d = t" "sa_id d = sa_id c"
    using c t no_thread by (simp_all add: d_def prior_def truthy_or_def)
  have known: "List.find (\<lambda>x. sa_id x = sa_id c) (as_subagents s) = Some c"
    using c distinct by (simp add: find_key_iff)
  have step: "children_step dp ?obs (children_map (as_subagents s))
      = (if truthy (sa_id c) then map_set sa_id d (as_subagents s) else as_subagents s)"
    using known by (simp add: children_step_def children_map_id [OF distinct] d_def Let_def)
  let ?upd = "\<lambda>x. if sa_id x = sa_id c then d else x"
  have set: "map_set sa_id d (as_subagents s) = map ?upd (as_subagents s)"
    using c(1) d(2) by (auto simp: map_set_def update_where_def)
  have keys: "map sa_id (map ?upd (as_subagents s)) = map sa_id (as_subagents s)"
    using d(2) by simp
  have sorted: "sort_by (child_order collate) xs = xs"
    if "map sa_id xs = map sa_id (as_subagents s)" for xs
    using ok cmp that by (intro sort_by_id comparator_child) (simp_all add: activity_ok_def sorted_by_keys)
  have "sa_thread (?upd x) = sa_thread x" if "x \<in> set (as_subagents s)" for x
    using keys_distinct_inj [OF distinct that c(1)] c(2) d(1) by auto
  then have find: "List.find (\<lambda>x. sa_thread x = t) (map ?upd (as_subagents s)) = Some (?upd c)"
    using find_map_unchanged [of "as_subagents s" "\<lambda>x. sa_thread x = t" ?upd] found by simp
  show ?thesis
  proof (cases "as_subagents (project_fact dp collate s ?obs) = as_subagents s")
    case True
    with found show ?thesis by simp
  next
    case False
    then have "as_subagents (project_fact dp collate s ?obs)
        = sort_by (child_order collate) (children_step dp ?obs (children_map (as_subagents s)))"
      by (simp add: project_fact_def next_snapshot_def Let_def split: if_splits)
    also have "\<dots> = map ?upd (as_subagents s) \<or> \<dots> = as_subagents s"
      using step sorted keys by (simp add: set)
    finally show ?thesis using find found d(2) by auto
  qed
qed

lemma project_again:
  assumes ok: "activity_ok collate s" and cmp: "comparator collate"
    and no_thread: "foreign_thread s obs \<Longrightarrow> af_child_thread obs = None"
  shows "projectAgentActivity dp collate (projectAgentActivity dp collate s obs) obs
    = projectAgentActivity dp collate s obs"
proof (cases "relevant dp s obs")
  case False
  then show ?thesis by (simp add: projectAgentActivity_def)
next
  case relevant: True
  show ?thesis
  proof (cases "foreign_thread s obs")
    case False
    with relevant have "projectAgentActivity dp collate s obs = project_fact dp collate s obs"
      by (simp add: projectAgentActivity_def)
    with not_foreign_again [OF False] project_fact_again [OF ok cmp] show ?thesis
      by (simp add: projectAgentActivity_def)
  next
    case foreign: True
    show ?thesis
    proof (cases "List.find (\<lambda>c. sa_thread c = af_thread obs) (as_subagents s)")
      case None
      with relevant foreign show ?thesis by (simp add: projectAgentActivity_def)
    next
      case (Some c)
      show ?thesis
      proof (cases "af_kind obs = ContextUsage \<and> validPercent (af_percent obs)")
        case True
        let ?f = "\<lambda>c'. if sa_id c' = sa_id c then c'\<lparr>sa_percent := af_percent obs\<rparr> else c'"
        have once: "projectAgentActivity dp collate s obs = s\<lparr>as_subagents := map ?f (as_subagents s)\<rparr>"
          using relevant foreign Some True by (simp add: projectAgentActivity_def update_where_def)
        have "List.find (\<lambda>c. sa_thread c = af_thread obs) (map ?f (as_subagents s)) = Some (?f c)"
          using find_map_unchanged [of "as_subagents s" "\<lambda>c. sa_thread c = af_thread obs" ?f] Some
          by simp
        then show ?thesis
          using relevant foreign True unfolding once
          by (simp add: projectAgentActivity_def relevant_def foreign_thread_def update_where_def comp_def)
      next
        case False
        let ?s = "project_fact dp collate s (child_fact_of c obs)"
        have once: "projectAgentActivity dp collate s obs = ?s"
          using relevant foreign Some False by (auto simp: projectAgentActivity_def)
        obtain x where "af_thread obs = Some x" "truthy x"
          using foreign by (cases "af_thread obs") (auto simp: foreign_thread_def)
        then obtain d where d: "List.find (\<lambda>c. sa_thread c = af_thread obs) (as_subagents ?s) = Some d"
          "sa_id d = sa_id c"
          using same_child_again [OF ok cmp Some _ _ no_thread [OF foreign]] by blast
        from d(2) have "child_fact_of d obs = child_fact_of c obs" by (simp add: child_fact_of_def)
        with d(1) False project_fact_again [OF ok cmp] foreign_again [OF foreign] show ?thesis
          unfolding once by (auto simp: projectAgentActivity_def)
      qed
    qed
  qed
qed

subsection \<open>Runs\<close>

datatype activity_event =
    ActivityFact activity_fact | Confidence activity_confidence | ClearChildren

fun activity_step ::
  "(string \<Rightarrow> int option) \<Rightarrow> (string \<Rightarrow> string \<Rightarrow> int) \<Rightarrow> activity_snapshot \<Rightarrow> activity_event
     \<Rightarrow> activity_snapshot" where
  "activity_step dp collate s (ActivityFact obs) = projectAgentActivity dp collate s obs"
| "activity_step dp collate s (Confidence c) = withActivityConfidence s c"
| "activity_step dp collate s ClearChildren = clearAgentActivityChildren s"

interpretation activity: stepper "activity_step dp collate" "activity_ok collate" for dp collate
proof
  fix s e
  assume ok: "activity_ok collate s"
  show "activity_ok collate (activity_step dp collate s e)"
  proof (cases e)
    case (Confidence c)
    with ok show ?thesis by (simp add: withActivityConfidence_def activity_ok_def)
  qed (simp_all add: ok project_ok clear_ok)
qed


lemma later_cases: "later dp a b = a \<or> later dp a b = b"
  by (simp add: later_def split: option.splits)

lemma later_ge:
  assumes "dp a = Some m" shows "\<exists>n. dp (later dp a b) = Some n \<and> m \<le> n"
  using assms by (auto simp: later_def split: option.splits)

lemma project_cases:
  "projectAgentActivity dp collate s obs = s
   \<or> (relevant dp s obs \<and> \<not> foreign_thread s obs
      \<and> projectAgentActivity dp collate s obs = next_snapshot dp collate s obs
      \<and> \<not> same s (next_snapshot dp collate s obs))
   \<or> (relevant dp s obs \<and> foreign_thread s obs
      \<and> (as_root (projectAgentActivity dp collate s obs) = as_root s
          \<or> (\<exists>c. projectAgentActivity dp collate s obs = next_snapshot dp collate s (child_fact_of c obs))))"
  by (auto simp: projectAgentActivity_def project_fact_def Let_def split: option.splits)

subsection \<open>Samples\<close>

definition quiet_fact :: "fact_kind \<Rightarrow> string \<Rightarrow> activity_fact" where
  "quiet_fact kind t =
     \<lparr> af_session = ''s'', af_at = t, af_kind = kind, af_thread = None, af_status = None, af_child = None,
       af_child_thread = None, af_child_nickname = None, af_child_role = None, af_child_model = None,
       af_child_path = None, af_child_processes = None, af_child_status = None, af_action = None,
       af_percent = None, af_attention = None, af_has_pending = False \<rparr>"

definition spawn_fact :: activity_fact where
  "spawn_fact = (quiet_fact Collaboration ''b'')\<lparr>af_child := Some ''c1'', af_child_thread := Some ''t1'',
     af_child_path := Some ''/root/l2_g3'', af_child_status := Some ''running''\<rparr>"

definition roster_example :: activity_snapshot where
  "roster_example =
     run_steps (activity_step (\<lambda>t. Some (int (code (hd t)))) code_unit_compare)
       (createAgentActivitySnapshot ''s'' ''a'')
       [ActivityFact ((quiet_fact ThreadStarted ''a'')\<lparr>af_thread := Some ''root'', af_status := Some ''active''\<rparr>),
        ActivityFact spawn_fact]"

lemma roster_example_ok: "activity_ok code_unit_compare roster_example"
  unfolding roster_example_def by (intro activity.run_inv create_ok)

subsection \<open>Properties\<close>

text \<open>
  C39: whatever facts, confidence changes and disconnections a session sees, its snapshot stays
  well formed: one row per child identifier, in the order of the identifiers, the aggregate is
  the most urgent state of the rows, percentages are valid, and the canonical name, position and
  generation of every child are exactly those its task path spells.
\<close>
theorem activity_snapshots_stay_ok:
  "activity_ok collate
     (run_steps (activity_step dp collate) (createAgentActivitySnapshot session observedAt) events)"
  by (intro activity.run_inv create_ok)

text \<open>
  A fact that is delivered twice has the effect of one delivery: projecting it again changes
  nothing at all. (A fact about another thread must not itself rename that thread.)
\<close>
theorem duplicate_facts_are_harmless:
  assumes "activity_ok collate s" and "comparator collate"
    and "foreign_thread s obs \<Longrightarrow> af_child_thread obs = None"
  shows "projectAgentActivity dp collate (projectAgentActivity dp collate s obs) obs
    = projectAgentActivity dp collate s obs"
  using assms by (rule project_again)

theorem duplicate_facts_are_harmless_witness:
  "projectAgentActivity (\<lambda>t. Some (int (code (hd t)))) code_unit_compare
     (projectAgentActivity (\<lambda>t. Some (int (code (hd t)))) code_unit_compare roster_example
       (spawn_fact\<lparr>af_child_status := Some ''failed''\<rparr>))
     (spawn_fact\<lparr>af_child_status := Some ''failed''\<rparr>)
   = projectAgentActivity (\<lambda>t. Some (int (code (hd t)))) code_unit_compare roster_example
       (spawn_fact\<lparr>af_child_status := Some ''failed''\<rparr>)"
  by (rule duplicate_facts_are_harmless [OF roster_example_ok comparator_code_units])
    (simp add: foreign_thread_def spawn_fact_def quiet_fact_def)

text \<open>
  The state of the root agent moves only for a cause: the fact names this session, carries a
  readable time not before what was already observed, is neither a heartbeat nor a context
  measurement, and belongs to the root's own thread unless it reports that an agent waits.
\<close>
theorem root_moves_only_for_cause:
  assumes "ra_state (as_root (projectAgentActivity dp collate s obs)) \<noteq> ra_state (as_root s)"
  shows "af_session obs = as_session s
    \<and> (\<exists>t. dp (af_at obs) = Some t \<and> (case dp (ra_observed (as_root s)) of None \<Rightarrow> True | Some seen \<Rightarrow> seen \<le> t))
    \<and> (\<not> foreign_thread s obs \<or> af_action obs = Some ''wait'')
    \<and> (foreign_thread s obs \<or> af_kind obs \<notin> {Observed, ContextUsage})"
proof -
  from project_cases [of dp collate s obs] assms have rel: "relevant dp s obs" by auto
  have foreign: "af_action obs = Some ''wait''"
    if "foreign_thread s obs"
  proof -
    from project_cases [of dp collate s obs] assms that
    obtain c where "projectAgentActivity dp collate s obs = next_snapshot dp collate s (child_fact_of c obs)"
      by auto
    with assms show ?thesis
      by (auto simp: next_snapshot_def Let_def root_step_def split: if_splits)
  qed
  have kind: "af_kind obs \<notin> {Observed, ContextUsage}" if "\<not> foreign_thread s obs"
    using project_cases [of dp collate s obs] assms that
    by (auto simp: next_snapshot_def Let_def root_step_def split: if_splits)
  from rel foreign kind show ?thesis
    by (auto simp: relevant_def not_less split: option.splits)
qed

theorem root_moves_only_for_cause_witness:
  "ra_state (as_root roster_example) = WorkingAgent
   \<and> af_session ((quiet_fact TurnCompleted ''c'')\<lparr>af_thread := Some ''root''\<rparr>) = as_session roster_example
   \<and> \<not> foreign_thread roster_example ((quiet_fact TurnCompleted ''c'')\<lparr>af_thread := Some ''root''\<rparr>)"
proof -
  have "ra_state (as_root (projectAgentActivity (\<lambda>t. Some (int (code (hd t)))) code_unit_compare roster_example
      ((quiet_fact TurnCompleted ''c'')\<lparr>af_thread := Some ''root''\<rparr>))) \<noteq> ra_state (as_root roster_example)"
    by code_simp
  note root_moves_only_for_cause [OF this]
  moreover have "ra_state (as_root roster_example) = WorkingAgent" by code_simp
  ultimately show ?thesis by (auto simp: quiet_fact_def)
qed

end
