(* ===== verification/Autopilot_Policy.thy ===== *)
theory Autopilot_Policy
  imports Autopilot_Session Agent_Activity_Facts Utc_Instant
begin

text \<open>
  The decision of the autopilot (src/server/features/autopilot/application/policy.ts): the
  classification of what agents are doing against the plan, and the pure safety gate that says
  whether to observe, reconcile, schedule a continuation, ask for attention, complete or stop.
  The prompt texts are not modelled. \<open>dp\<close> stands for \<open>Date.parse\<close>.
\<close>

subsection \<open>Policy\<close>

record pilot_policy =
  ap_quiescence :: int
  ap_stale_after :: int
  ap_retry_limit :: int
  ap_action_limit :: int
  ap_action_window :: int
  ap_base :: rat
  ap_max :: rat
  ap_poll :: rat
  ap_elapsed :: rat
  ap_rss :: rat
  ap_backoff :: "int \<Rightarrow> int"

definition default_backoff :: "int \<Rightarrow> int" where
  "default_backoff attempt = min 60000 (1000 * 2 ^ nat (max 0 attempt))"

definition defaultAutopilotPolicy :: pilot_policy where
  "defaultAutopilotPolicy =
     \<lparr> ap_quiescence = 1000, ap_stale_after = 30000, ap_retry_limit = 3, ap_action_limit = 12,
       ap_action_window = 10 * 60000, ap_base = 1000, ap_max = 60000, ap_poll = 1000,
       ap_elapsed = 2 * 60 * 60000, ap_rss = 12 * 1024 * 1024 * 1024,
       ap_backoff = default_backoff \<rparr>"

datatype attention_cause =
    AttnRequired | AttnNoProgress | AttnReconcileFailed | AttnStartUnavailable | AttnActionRate

datatype disable_cause = DisManual | DisPlanRequired | DisPlanComplete | DisSessionUnavailable

datatype pilot_decision =
    Observe
  | Reconcile
  | ScheduleContinuation string
  | RequestAttention attention_cause
  | Complete
  | SafetyPause
  | Disable disable_cause

datatype disposition = ActiveDisp | SettledDisp | AttentionDisp | ReconcileDisp | ObserveDisp

subsection \<open>What the agents are doing\<close>

definition root_settled :: "activity_snapshot \<Rightarrow> bool" where
  "root_settled activity \<longleftrightarrow>
     ra_state (as_root activity) \<in> {IdleAgent, BlockedAgent, AwaitingAgent}"

definition classifyAgentActivity :: "activity_snapshot \<Rightarrow> disposition" where
  "classifyAgentActivity activity =
     (let root_state = ra_state (as_root activity); children = as_aggregate activity in
      if root_state = AwaitingHuman \<or> children = AwaitingHuman then AttentionDisp
      else if root_state = DisconnectedAgent \<or> children = DisconnectedAgent then ReconcileDisp
      else if root_state = WorkingAgent \<or> children = WorkingAgent \<or> children = AwaitingAgent
      then ActiveDisp
      else if root_settled activity \<and> (children = IdleAgent \<or> children = BlockedAgent)
      then SettledDisp else ObserveDisp)"

definition some_process :: "(executor_process \<Rightarrow> bool) \<Rightarrow> subagent \<Rightarrow> bool" where
  "some_process P child \<longleftrightarrow>
     (case sa_processes child of None \<Rightarrow> False | Some ps \<Rightarrow> list_ex P ps)"

definition retired_auxiliary :: "subagent \<Rightarrow> bool" where
  "retired_auxiliary child \<longleftrightarrow>
     sa_state child = DisconnectedAgent \<and> sa_reason child = ProcessExitedReason
     \<and> truthy_opt (sa_path child) \<and> \<not> truthy_opt (sa_position child)
     \<and> \<not> truthy_opt (sa_task child)
     \<and> Option.bind (sa_path child) parseOrgPlanAgentIdentity = None
     \<and> \<not> some_process (\<lambda>p. xp_state p \<noteq> ResultConsumed \<and> xp_state p \<noteq> TerminatedForBudget) child"

text \<open>The expression \<open>^L([1-9]\d*)$\<close>, as the number it spells.\<close>

definition position_number :: "string option \<Rightarrow> nat option" where
  "position_number position =
     (case position of
        Some (c # ds) \<Rightarrow> if c = CHR ''L'' \<and> positive_decimal ds then Some (text_nat ds) else None
      | _ \<Rightarrow> None)"

definition supervised_live :: "executor_process \<Rightarrow> bool" where
  "supervised_live p \<longleftrightarrow> xp_ownership p = BySupervisor \<and> process_live p"

definition retain_numbered :: "supervised_plan \<Rightarrow> nat \<Rightarrow> subagent \<Rightarrow> nat \<Rightarrow> bool" where
  "retain_numbered plan position child n =
     (let assigned = at_index (plan_steps plan) (n - 1);
          completedLater = n > position
            \<and> (case assigned of None \<Rightarrow> False
               | Some s \<Rightarrow> step_state s = DONE \<and> step_review s = Some REVIEWED);
          suspended = (case assigned of None \<Rightarrow> False | Some s \<Rightarrow> step_state s = SUSPENDED)
      in if (suspended \<or> completedLater)
            \<and> sa_state child \<in> {IdleAgent, BlockedAgent, DisconnectedAgent}
            \<and> \<not> some_process process_live child
         then False
         else \<not> n < position \<or> some_process supervised_live child)"

definition retain_child :: "supervised_plan \<Rightarrow> nat \<Rightarrow> subagent \<Rightarrow> bool" where
  "retain_child plan position child =
     (if retired_auxiliary child then False
      else case position_number (sa_position child) of
             None \<Rightarrow> True
           | Some n \<Rightarrow> retain_numbered plan position child n)"

definition resumable :: "nat \<Rightarrow> subagent \<Rightarrow> bool" where
  "resumable position child \<longleftrightarrow>
     sa_position child = Some (CHR ''L'' # nat_text position)
     \<and> truthy_opt (sa_path child) \<and> truthy_opt (sa_task child)
     \<and> sa_state child = DisconnectedAgent"

definition child_active :: "subagent \<Rightarrow> bool" where
  "child_active child \<longleftrightarrow>
     sa_state child = WorkingAgent \<or> sa_state child = AwaitingAgent
     \<or> some_process
         (\<lambda>p. (sa_state child \<noteq> DisconnectedAgent \<or> xp_ownership p = BySupervisor) \<and> process_live p)
         child"

definition classify_retained :: "activity_snapshot \<Rightarrow> nat \<Rightarrow> subagent list \<Rightarrow> disposition" where
  "classify_retained activity position retained =
     (let root_state = ra_state (as_root activity) in
      if root_state = AwaitingHuman \<or> list_ex (\<lambda>c. sa_state c = AwaitingHuman) retained
      then AttentionDisp
      else if root_state = WorkingAgent \<or> list_ex child_active retained then ActiveDisp
      else if root_state = DisconnectedAgent
              \<or> list_ex (\<lambda>c. sa_state c = DisconnectedAgent \<and> \<not> resumable position c) retained
      then ReconcileDisp
      else if root_settled activity
              \<and> list_all (\<lambda>c. sa_state c = IdleAgent \<or> sa_state c = BlockedAgent \<or> resumable position c)
                  retained
      then SettledDisp else ObserveDisp)"

text \<open>The milestone the roster is read against: the executable one, or the suspended barrier.\<close>

definition supervised_index :: "supervised_plan \<Rightarrow> nat option" where
  "supervised_index plan =
     opt_or (currentExecutableL1Index plan)
       (find_index (\<lambda>s. step_state s = SUSPENDED) (plan_steps plan))"

definition retained_children :: "activity_snapshot \<Rightarrow> supervised_plan \<Rightarrow> nat \<Rightarrow> subagent list" where
  "retained_children activity plan position =
     filter (retain_child plan position) (as_subagents activity)"

definition classifySupervisedActivity :: "activity_snapshot \<Rightarrow> supervised_plan \<Rightarrow> disposition" where
  "classifySupervisedActivity activity plan =
     (case supervised_index plan of
        None \<Rightarrow> classifyAgentActivity activity
      | Some index \<Rightarrow>
          let position = index + 1; retained = retained_children activity plan position in
          if length retained = length (as_subagents activity) \<and> \<not> list_ex (resumable position) retained
          then classifyAgentActivity activity
          else classify_retained activity position retained)"

subsection \<open>The decision\<close>

record pilot_input =
  pi_state :: autopilot_session
  pi_plan :: "supervised_plan option"
  pi_activity :: "activity_snapshot option"
  pi_pending :: bool
  pi_attention :: bool
  pi_actions :: "nat option"
  pi_key :: "string option"
  pi_now :: string
  pi_policy :: pilot_policy

definition attention_cause :: "stop_reason option \<Rightarrow> attention_cause" where
  "attention_cause stop =
     (case stop of
        Some NoPlanProgress \<Rightarrow> AttnNoProgress
      | Some ReconcileFailed \<Rightarrow> AttnReconcileFailed
      | Some StartUnavailable \<Rightarrow> AttnStartUnavailable
      | Some ActionRateExceeded \<Rightarrow> AttnActionRate
      | _ \<Rightarrow> AttnRequired)"

definition max_time :: int where
  "max_time = 8640000000000000"

text \<open>\<open>new Date(Date.parse(now) + ms).toISOString()\<close>; \<open>None\<close> is the RangeError of an invalid time.\<close>

definition continuation_at :: "(string \<Rightarrow> int option) \<Rightarrow> string \<Rightarrow> int \<Rightarrow> string option" where
  "continuation_at dp now delay =
     (case dp now of
        None \<Rightarrow> None
      | Some t \<Rightarrow> if \<bar>t + delay\<bar> \<le> max_time then Some (toISOString (t + delay)) else None)"

definition schedule :: "(string \<Rightarrow> int option) \<Rightarrow> pilot_input \<Rightarrow> pilot_decision option" where
  "schedule dp input =
     map_option ScheduleContinuation
       (continuation_at dp (pi_now input)
          (ap_backoff (pi_policy input) (au_no_progress (pi_state input))))"

definition progress_observed :: "pilot_input \<Rightarrow> bool" where
  "progress_observed input \<longleftrightarrow>
     (case (pi_key input, au_supervision (pi_state input)) of
        (Some key, Some p) \<Rightarrow> truthy key \<and> key \<noteq> ps_progress p
      | _ \<Rightarrow> False)"

definition loop_confirmed :: "pilot_input \<Rightarrow> bool" where
  "loop_confirmed input \<longleftrightarrow>
     (case au_supervision (pi_state input) of None \<Rightarrow> True | Some p \<Rightarrow> ps_unchanged p \<ge> 3)"

definition action_rate_exceeded :: "pilot_input \<Rightarrow> bool" where
  "action_rate_exceeded input \<longleftrightarrow>
     int (coalesce (pi_actions input) 0) > ap_action_limit (pi_policy input)
     \<and> \<not> progress_observed input \<and> loop_confirmed input"

definition observation_stale :: "(string \<Rightarrow> int option) \<Rightarrow> pilot_input \<Rightarrow> activity_snapshot \<Rightarrow> bool" where
  "observation_stale dp input activity \<longleftrightarrow>
     (case (dp (pi_now input), dp (ra_observed (as_root activity))) of
        (Some now, Some seen) \<Rightarrow> now - seen > ap_stale_after (pi_policy input)
      | _ \<Rightarrow> False)"

definition review_outstanding :: "autopilot_session \<Rightarrow> bool" where
  "review_outstanding st \<longleftrightarrow> (case au_checkpoints st of None \<Rightarrow> False | Some c \<Rightarrow> \<not> cl_terminal c)"

definition barrier_waits :: "autopilot_session \<Rightarrow> supervised_plan \<Rightarrow> bool" where
  "barrier_waits st plan \<longleftrightarrow>
     list_ex (\<lambda>s. step_state s = SUSPENDED) (plan_steps plan)
     \<and> currentExecutableL1Index plan = None
     \<and> \<not> (case au_checkpoints st of None \<Rightarrow> False | Some c \<Rightarrow> truthy_opt (cl_root_from c))"

text \<open>The part of the decision that reads the observed activity.\<close>

definition decide_activity :: "(string \<Rightarrow> int option) \<Rightarrow> pilot_input \<Rightarrow> supervised_plan \<Rightarrow> pilot_decision option" where
  "decide_activity dp input plan =
     (case pi_activity input of
        None \<Rightarrow> Some Reconcile
      | Some activity \<Rightarrow>
          if as_confidence activity \<noteq> FreshActivity then Some Reconcile
          else if observation_stale dp input activity then Some Reconcile
          else case classifySupervisedActivity activity plan of
                 AttentionDisp \<Rightarrow> Some Observe
               | ReconcileDisp \<Rightarrow> Some Reconcile
               | SettledDisp \<Rightarrow> schedule dp input
               | _ \<Rightarrow> Some Observe)"

text \<open>\<open>None\<close> is the RangeError raised for an unreadable clock.\<close>

definition decideAutopilot :: "(string \<Rightarrow> int option) \<Rightarrow> pilot_input \<Rightarrow> pilot_decision option" where
  "decideAutopilot dp input =
     (let st = pi_state input in
      if au_state st = PilotSafetyPaused then Some Observe
      else if pi_attention input then Some (RequestAttention (attention_cause (au_stop st)))
      else if \<not> au_enabled st then Some (Disable DisManual)
      else case pi_plan input of
             None \<Rightarrow> Some (Disable DisPlanRequired)
           | Some plan \<Rightarrow>
               if executionComplete plan
               then (if review_outstanding st then schedule dp input else Some Complete)
               else if barrier_waits st plan then Some Observe
               else if pi_pending input then Some Observe
               else if action_rate_exceeded input then Some SafetyPause
               else decide_activity dp input plan)"

end
