(* ===== verification/Autopilot_Facts.thy ===== *)
theory Autopilot_Facts
  imports Autopilot_Policy Plan_Sample
begin

text \<open>
  What the autopilot's decision and its health report guarantee: when a continuation is
  scheduled, when it stops, and that every phase shown has live evidence behind it.
\<close>

subsection \<open>Settled sessions\<close>

lemma aggregate_idle:
  "aggregate children = IdleAgent \<Longrightarrow> c \<in> set children \<Longrightarrow> sa_state c \<in> {IdleAgent, DisconnectedAgent}"
  unfolding aggregate_def activity_states_def
  by (cases "sa_state c") (auto split: if_splits)

lemma aggregate_blocked:
  "aggregate children = BlockedAgent \<longleftrightarrow> (\<exists>c \<in> set children. sa_state c = BlockedAgent)"
  unfolding aggregate_def activity_states_def by auto

lemma classify_agent_settled:
  "classifyAgentActivity a = SettledDisp \<Longrightarrow>
     root_settled a \<and> (as_aggregate a = IdleAgent \<or> as_aggregate a = BlockedAgent)"
  by (auto simp: classifyAgentActivity_def Let_def split: if_splits)

definition busy :: "subagent \<Rightarrow> bool" where
  "busy c \<longleftrightarrow> sa_state c \<in> {WorkingAgent, AwaitingAgent, AwaitingHuman}"

lemma classify_retained_settled:
  assumes "classify_retained a position retained = SettledDisp" and "c \<in> set retained"
  shows "root_settled a \<and> \<not> busy c \<and> \<not> child_active c"
  using assms
  by (auto simp: classify_retained_def Let_def list_ex_iff list_all_iff busy_def resumable_def
      split: if_splits)

lemma classify_agent_unmasked:
  assumes "classifyAgentActivity a = SettledDisp" and "as_aggregate a = aggregate (as_subagents a)"
    and "c \<in> set (as_subagents a)" and "busy c"
  shows "\<exists>b \<in> set (as_subagents a). sa_state b = BlockedAgent"
proof (rule ccontr)
  assume none: "\<not> ?thesis"
  then have "aggregate (as_subagents a) \<noteq> BlockedAgent" by (simp add: aggregate_blocked)
  with classify_agent_settled [OF assms(1)] assms(2) have "aggregate (as_subagents a) = IdleAgent" by simp
  from aggregate_idle [OF this assms(3)] assms(4) show False by (auto simp: busy_def)
qed

lemma settled_children:
  assumes settled: "classifySupervisedActivity a plan = SettledDisp"
    and agg: "as_aggregate a = aggregate (as_subagents a)"
    and c: "c \<in> set (as_subagents a)" "busy c"
  shows "(\<exists>b \<in> set (as_subagents a). sa_state b = BlockedAgent)
    \<or> (\<exists>i. supervised_index plan = Some i \<and> \<not> retain_child plan (i + 1) c)"
proof (cases "supervised_index plan")
  case None
  with settled have "classifyAgentActivity a = SettledDisp" by (simp add: classifySupervisedActivity_def)
  from classify_agent_unmasked [OF this agg c] show ?thesis by simp
next
  case (Some i)
  let ?kept = "retained_children a plan (i + 1)"
  from Some settled consider
      "classifyAgentActivity a = SettledDisp" | "classify_retained a (i + 1) ?kept = SettledDisp"
    by (auto simp: classifySupervisedActivity_def Let_def split: if_splits)
  then show ?thesis
  proof cases
    case 1
    from classify_agent_unmasked [OF this agg c] show ?thesis by simp
  next
    case 2
    then have "c \<notin> set ?kept" using classify_retained_settled [OF 2] c(2) by blast
    with c(1) Some show ?thesis by (simp add: retained_children_def)
  qed
qed

lemma settled_root:
  assumes "classifySupervisedActivity a plan = SettledDisp" shows "root_settled a"
  using assms classify_agent_settled
  by (auto simp: classifySupervisedActivity_def classify_retained_def Let_def
      split: option.splits if_splits)

lemma schedule_Some:
  "schedule dp input = Some d \<Longrightarrow> \<exists>t now. d = ScheduleContinuation t \<and> dp (pi_now input) = Some now
     \<and> t = toISOString (now + ap_backoff (pi_policy input) (au_no_progress (pi_state input)))"
  by (auto simp: schedule_def continuation_at_def split: option.splits if_splits)

lemma decide_activity_schedules:
  assumes "decide_activity dp input plan = Some (ScheduleContinuation t)"
  shows "\<exists>a. pi_activity input = Some a \<and> as_confidence a = FreshActivity
    \<and> \<not> observation_stale dp input a \<and> classifySupervisedActivity a plan = SettledDisp
    \<and> schedule dp input = Some (ScheduleContinuation t)"
  using assms by (auto simp: decide_activity_def split: option.splits if_splits disposition.splits)

lemma decide_cases:
  assumes "decideAutopilot dp input = Some (ScheduleContinuation t)"
  shows "au_state (pi_state input) \<noteq> PilotSafetyPaused \<and> \<not> pi_attention input
    \<and> au_enabled (pi_state input)
    \<and> (\<exists>plan. pi_plan input = Some plan
        \<and> ((executionComplete plan \<and> review_outstanding (pi_state input)
              \<and> schedule dp input = Some (ScheduleContinuation t))
           \<or> (\<not> executionComplete plan \<and> \<not> barrier_waits (pi_state input) plan
              \<and> \<not> pi_pending input \<and> \<not> action_rate_exceeded input
              \<and> decide_activity dp input plan = Some (ScheduleContinuation t))))"
  using assms by (auto simp: decideAutopilot_def Let_def split: option.splits if_splits)

subsection \<open>Samples\<close>

definition sample_pilot :: autopilot_session where
  "sample_pilot = (disabledAutopilot ''s'' ''a'')\<lparr>au_state := PilotMonitoring, au_enabled := True,
     au_stop := None\<rparr>"

definition settled_activity :: activity_snapshot where
  "settled_activity = (createAgentActivitySnapshot ''s'' ''a'')\<lparr>
     as_root := \<lparr> ra_state = IdleAgent, ra_reason = TurnCompletedReason, ra_percent = None,
                  ra_observed = ''a'', ra_last = ''a'' \<rparr>, as_confidence := FreshActivity\<rparr>"

definition open_plan :: supervised_plan where
  "open_plan =
     \<lparr> plan_title = ''T'', plan_subtitle = None, plan_date = None, plan_keywords = None,
       plan_policy_version = None, plan_assurance = None, plan_steps = [], plan_total = 0,
       plan_done = 0, plan_all_done = False, plan_execution_complete = Some False,
       plan_current = [] \<rparr>"

definition sample_pilot_input :: pilot_input where
  "sample_pilot_input =
     \<lparr> pi_state = sample_pilot, pi_plan = Some open_plan, pi_activity = Some settled_activity,
       pi_pending = False, pi_attention = False, pi_actions = None, pi_key = None, pi_now = ''b'',
       pi_policy = defaultAutopilotPolicy \<rparr>"

definition char_clock :: "string \<Rightarrow> int option" where
  "char_clock t = (case t of [] \<Rightarrow> None | c # cs \<Rightarrow> Some (int (code c)))"

lemma sample_decision:
  "\<exists>t. decideAutopilot char_clock sample_pilot_input = Some (ScheduleContinuation t)"
  by (simp add: decideAutopilot_def sample_pilot_input_def sample_pilot_def disabledAutopilot_def
      open_plan_def executionComplete_def barrier_waits_def action_rate_exceeded_def
      defaultAutopilotPolicy_def decide_activity_def settled_activity_def
      createAgentActivitySnapshot_def observation_stale_def char_clock_def code_def
      classifySupervisedActivity_def supervised_index_def currentExecutableL1Index_def
      eligible_steps_def suspension_boundary_def classifyAgentActivity_def root_settled_def
      schedule_def continuation_at_def max_time_def default_backoff_def Let_def)

subsection \<open>Properties\<close>

text \<open>
  C34: when an automatic continuation is scheduled, supervision is enabled, not paused for safety, and
  no attention request is active; and one of two things holds. Either the plan is complete and its
  terminal review is outstanding, and then neither a pending interaction nor the activity is asked
  about. Or the plan is incomplete and does not wait at a suspension, no interaction is pending, the
  action rate is within bounds, the observation is fresh and not seen to be stale, and the root is
  settled; a child that is busy all the same is one the plan excludes (an earlier milestone without
  supervised live processes, say), or a blocked child is present, which makes the aggregate of the
  roster blocked and hides the others. The continuation is due exactly one backoff after the decision.
\<close>
theorem automatic_continuation_is_safe:
  assumes "decideAutopilot dp input = Some (ScheduleContinuation t)"
    and "\<And>a. pi_activity input = Some a \<Longrightarrow> as_aggregate a = aggregate (as_subagents a)"
  shows "au_enabled (pi_state input) \<and> au_state (pi_state input) \<noteq> PilotSafetyPaused
    \<and> \<not> pi_attention input
    \<and> (\<exists>now. dp (pi_now input) = Some now
         \<and> t = toISOString (now + ap_backoff (pi_policy input) (au_no_progress (pi_state input))))
    \<and> (\<exists>plan. pi_plan input = Some plan
         \<and> ((executionComplete plan \<and> review_outstanding (pi_state input))
            \<or> (\<not> executionComplete plan \<and> \<not> barrier_waits (pi_state input) plan
               \<and> \<not> pi_pending input \<and> \<not> action_rate_exceeded input
               \<and> (\<exists>a. pi_activity input = Some a \<and> as_confidence a = FreshActivity
                      \<and> \<not> observation_stale dp input a \<and> root_settled a
                      \<and> (\<forall>c \<in> set (as_subagents a). busy c \<longrightarrow>
                           (\<exists>b \<in> set (as_subagents a). sa_state b = BlockedAgent)
                           \<or> (\<exists>i. supervised_index plan = Some i
                                  \<and> \<not> retain_child plan (i + 1) c))))))"
proof -
  from decide_cases [OF assms(1)] obtain plan where
    plan: "pi_plan input = Some plan"
    and choice: "(executionComplete plan \<and> review_outstanding (pi_state input)
              \<and> schedule dp input = Some (ScheduleContinuation t))
           \<or> (\<not> executionComplete plan \<and> \<not> barrier_waits (pi_state input) plan
              \<and> \<not> pi_pending input \<and> \<not> action_rate_exceeded input
              \<and> decide_activity dp input plan = Some (ScheduleContinuation t))"
    by blast
  from choice have sched: "schedule dp input = Some (ScheduleContinuation t)"
    using decide_activity_schedules by blast
  show ?thesis
  proof (cases "executionComplete plan")
    case True
    with choice plan decide_cases [OF assms(1)] schedule_Some [OF sched] show ?thesis by auto
  next
    case False
    with choice obtain a where a: "pi_activity input = Some a" "as_confidence a = FreshActivity"
      "\<not> observation_stale dp input a" "classifySupervisedActivity a plan = SettledDisp"
      using decide_activity_schedules by blast
    have "root_settled a" using settled_root [OF a(4)] .
    moreover have "\<forall>c \<in> set (as_subagents a). busy c \<longrightarrow>
        (\<exists>b \<in> set (as_subagents a). sa_state b = BlockedAgent)
        \<or> (\<exists>i. supervised_index plan = Some i \<and> \<not> retain_child plan (i + 1) c)"
      using settled_children [OF a(4) assms(2) [OF a(1)]] by blast
    ultimately show ?thesis
      using False choice plan a decide_cases [OF assms(1)] schedule_Some [OF sched] by auto
  qed
qed


theorem automatic_continuation_is_safe_witness:
  "au_enabled (pi_state sample_pilot_input) \<and> \<not> pi_attention sample_pilot_input"
proof -
  obtain t where t: "decideAutopilot char_clock sample_pilot_input = Some (ScheduleContinuation t)"
    using sample_decision by blast
  have "as_aggregate a = aggregate (as_subagents a)" if "pi_activity sample_pilot_input = Some a" for a
    using that by (auto simp: sample_pilot_input_def settled_activity_def createAgentActivitySnapshot_def
        aggregate_def activity_states_def)
  from automatic_continuation_is_safe [OF t this] show ?thesis by blast
qed

lemma schedule_not:
  "schedule dp input \<noteq> Some Complete" "schedule dp input \<noteq> Some SafetyPause"
  "schedule dp input \<noteq> Some (RequestAttention c)" "schedule dp input \<noteq> Some (Disable d)"
  by (auto simp: schedule_def)

lemma decide_activity_not:
  "decide_activity dp input plan \<noteq> Some Complete" "decide_activity dp input plan \<noteq> Some SafetyPause"
  "decide_activity dp input plan \<noteq> Some (RequestAttention c)"
  "decide_activity dp input plan \<noteq> Some (Disable d)"
  using schedule_not by (auto simp: decide_activity_def split: option.splits disposition.splits)

text \<open>
  Supervision stops only for a cause. It completes exactly when an enabled, unpaused session
  without an attention request has a complete plan with no terminal review outstanding; it pauses
  for safety only when more actions were taken than the limit allows, without observed progress
  and after at least three unchanged continuations; it asks for attention exactly when an attention
  request is active outside a safety pause; and it switches itself off only when supervision was
  disabled or the plan is gone.
\<close>
theorem stops_have_cause:
  "(decideAutopilot dp input = Some Complete \<longleftrightarrow>
      au_state (pi_state input) \<noteq> PilotSafetyPaused \<and> \<not> pi_attention input \<and> au_enabled (pi_state input)
      \<and> (\<exists>plan. pi_plan input = Some plan \<and> executionComplete plan \<and> \<not> review_outstanding (pi_state input)))
    \<and> (decideAutopilot dp input = Some SafetyPause \<longleftrightarrow>
      au_state (pi_state input) \<noteq> PilotSafetyPaused \<and> \<not> pi_attention input \<and> au_enabled (pi_state input)
      \<and> (\<exists>plan. pi_plan input = Some plan \<and> \<not> executionComplete plan \<and> \<not> barrier_waits (pi_state input) plan)
      \<and> \<not> pi_pending input \<and> action_rate_exceeded input)
    \<and> ((\<exists>c. decideAutopilot dp input = Some (RequestAttention c)) \<longleftrightarrow>
      au_state (pi_state input) \<noteq> PilotSafetyPaused \<and> pi_attention input)
    \<and> ((\<exists>d. decideAutopilot dp input = Some (Disable d)) \<longleftrightarrow>
      au_state (pi_state input) \<noteq> PilotSafetyPaused \<and> \<not> pi_attention input
      \<and> \<not> (au_enabled (pi_state input) \<and> pi_plan input \<noteq> None))"
  using schedule_not decide_activity_not
  by (auto simp: decideAutopilot_def Let_def split: option.splits)

text \<open>
  The decision raises no error except through the clock: it yields a decision whenever
  adding the backoff to the given time is a representable time, and when it fails it was about to
  schedule a continuation.
\<close>
theorem decision_fails_only_on_clock:
  "decideAutopilot dp input = None \<longrightarrow>
     schedule dp input = None
     \<and> (\<forall>now. dp (pi_now input) = Some now \<longrightarrow>
          max_time < \<bar>now + ap_backoff (pi_policy input) (au_no_progress (pi_state input))\<bar>)"
  by (auto simp: decideAutopilot_def decide_activity_def schedule_def continuation_at_def Let_def not_le
      split: option.splits if_splits disposition.splits)

theorem decision_fails_only_on_clock_witness:
  "schedule (\<lambda>_. None) sample_pilot_input = None"
proof -
  have "decideAutopilot (\<lambda>_. None) sample_pilot_input = None"
    by (simp add: decideAutopilot_def sample_pilot_input_def sample_pilot_def disabledAutopilot_def
        open_plan_def executionComplete_def barrier_waits_def action_rate_exceeded_def
        defaultAutopilotPolicy_def decide_activity_def settled_activity_def
        createAgentActivitySnapshot_def observation_stale_def
        classifySupervisedActivity_def supervised_index_def currentExecutableL1Index_def
        eligible_steps_def suspension_boundary_def classifyAgentActivity_def root_settled_def
        schedule_def continuation_at_def Let_def)
  with decision_fails_only_on_clock [of "\<lambda>_. None" sample_pilot_input] show ?thesis by blast
qed

text \<open>
  A session at rest is continued. If supervision is enabled and unpaused, no human is needed,
  the plan is incomplete and not held at a suspended barrier, nothing is pending, the action rate
  is within bounds, the observation is fresh and recent, the root is idle and no child is left, then
  a continuation is scheduled, provided the clock is readable.
\<close>
theorem quiet_session_continues:
  assumes "au_enabled (pi_state input)" "au_state (pi_state input) \<noteq> PilotSafetyPaused"
    and "\<not> pi_attention input" "\<not> pi_pending input" "\<not> action_rate_exceeded input"
    and "pi_plan input = Some plan" "\<not> executionComplete plan" "\<not> barrier_waits (pi_state input) plan"
    and "pi_activity input = Some a" "as_confidence a = FreshActivity" "\<not> observation_stale dp input a"
    and "ra_state (as_root a) = IdleAgent" "as_aggregate a = aggregate (as_subagents a)"
    and "\<forall>c \<in> set (as_subagents a). sa_state c = IdleAgent" "\<forall>c \<in> set (as_subagents a). sa_processes c = None"
    and "dp (pi_now input) = Some now"
    and "\<bar>now + ap_backoff (pi_policy input) (au_no_progress (pi_state input))\<bar> \<le> max_time"
  shows "decideAutopilot dp input = Some (ScheduleContinuation
    (toISOString (now + ap_backoff (pi_policy input) (au_no_progress (pi_state input)))))"
proof -
  have agg: "as_aggregate a = IdleAgent"
    using assms(13,14) by (auto simp: aggregate_def activity_states_def)
  have "classifyAgentActivity a = SettledDisp"
    using assms(12) agg by (simp add: classifyAgentActivity_def root_settled_def Let_def)
  moreover have "classify_retained a k (retained_children a plan k) = SettledDisp" for k
    using assms(12,14,15)
    by (auto simp: classify_retained_def root_settled_def Let_def list_ex_iff list_all_iff
        retained_children_def child_active_def some_process_def)
  ultimately have "classifySupervisedActivity a plan = SettledDisp"
    by (simp add: classifySupervisedActivity_def Let_def split: option.split)
  with assms have "decideAutopilot dp input = schedule dp input"
    by (simp add: decideAutopilot_def decide_activity_def Let_def)
  with assms(16,17) show ?thesis by (simp add: schedule_def continuation_at_def)
qed

theorem quiet_session_continues_witness:
  "\<exists>t. decideAutopilot char_clock sample_pilot_input = Some (ScheduleContinuation t)"
proof -
  note defs = sample_pilot_input_def sample_pilot_def disabledAutopilot_def open_plan_def
    executionComplete_def barrier_waits_def action_rate_exceeded_def defaultAutopilotPolicy_def
    settled_activity_def createAgentActivitySnapshot_def observation_stale_def char_clock_def code_def
    max_time_def default_backoff_def aggregate_def activity_states_def
  have "decideAutopilot char_clock sample_pilot_input = Some (ScheduleContinuation
      (toISOString (98 + ap_backoff (pi_policy sample_pilot_input) (au_no_progress (pi_state sample_pilot_input)))))"
    by (rule quiet_session_continues [where plan = open_plan and a = settled_activity])
      (simp_all add: defs)
  then show ?thesis by blast
qed

text \<open>
  A blocked child hides what the other children do. Whenever no child is excluded by the plan
  and none is the resumable executor, one blocked child makes a roster with a settled root count as
  settled, even while another child works or waits for a human.
\<close>
theorem blocked_child_hides_others:
  assumes "as_aggregate a = aggregate (as_subagents a)"
    and "ra_state (as_root a) \<in> {IdleAgent, BlockedAgent, AwaitingAgent}"
    and "b \<in> set (as_subagents a)" "sa_state b = BlockedAgent"
    and "supervised_index plan = Some i"
    and "\<forall>c \<in> set (as_subagents a). retain_child plan (i + 1) c \<and> \<not> resumable (i + 1) c"
  shows "classifySupervisedActivity a plan = SettledDisp"
proof -
  have "as_aggregate a = BlockedAgent" using assms(1,3,4) by (simp add: aggregate_blocked) blast
  then have "classifyAgentActivity a = SettledDisp"
    using assms(2) by (auto simp: classifyAgentActivity_def root_settled_def Let_def)
  moreover have "retained_children a plan (i + 1) = as_subagents a"
    using assms(6) by (simp add: retained_children_def)
  ultimately show ?thesis
    using assms(5,6) by (simp add: classifySupervisedActivity_def Let_def list_ex_iff)
qed

definition masked_child :: "string \<Rightarrow> activity_state \<Rightarrow> subagent" where
  "masked_child key state =
     \<lparr> sa_id = key, sa_thread = None, sa_nickname = None, sa_role = None, sa_model = None, sa_path = None,
       sa_task = None, sa_position = None, sa_generation = None, sa_outcome = None, sa_percent = None,
       sa_processes = None, sa_state = state, sa_reason = UnknownReason, sa_observed = ''a'',
       sa_last = ''a'' \<rparr>"

definition masked_activity :: activity_snapshot where
  "masked_activity = settled_activity\<lparr>as_subagents :=
     [masked_child ''a'' BlockedAgent, masked_child ''b'' WorkingAgent, masked_child ''c'' AwaitingHuman],
     as_aggregate := BlockedAgent\<rparr>"

theorem blocked_child_hides_others_witness:
  "classifySupervisedActivity masked_activity sample_plan = SettledDisp
   \<and> list_ex (\<lambda>c. sa_state c = WorkingAgent) (as_subagents masked_activity)
   \<and> list_ex (\<lambda>c. sa_state c = AwaitingHuman) (as_subagents masked_activity)"
proof -
  obtain i where i: "supervised_index sample_plan = Some i"
    using that by (simp add: supervised_index_def currentExecutableL1Index_def eligible_steps_def
        suspension_boundary_def sample_plan_def sample_build_def sample_later_def step_is_current_def)
  have "classifySupervisedActivity masked_activity sample_plan = SettledDisp"
    by (rule blocked_child_hides_others [where i = i and b = "masked_child ''a'' BlockedAgent"])
      (simp_all add: i masked_activity_def settled_activity_def createAgentActivitySnapshot_def
        masked_child_def aggregate_def activity_states_def retain_child_def retired_auxiliary_def
        position_number_def resumable_def)
  then show ?thesis by (simp add: masked_activity_def masked_child_def)
qed

text \<open>
  The health report is honest. A healthy report has an enabled session on the matching plan,
  without a failed checkpoint handoff, an attention request or a safety pause, and live evidence
  (an owned wait, an armed future timer, an active turn or an active executor); its phase is one of
  the working phases. An unhealthy enabled session always names a reason, and no waiting, scheduled
  or working phase is shown for it.
\<close>
theorem health_report_is_honest:
  fixes dp st retryLimit facts
  defines "h \<equiv> sn_health (autopilotSnapshot dp st retryLimit (Some facts))"
  shows "(ph_healthy h \<longrightarrow>
      au_enabled st \<and> hf_plan_matches facts \<and> \<not> handoff_failed st
      \<and> au_state st \<in> {PilotMonitoring, PilotBackoff}
      \<and> ph_supervision h \<notin> {Some AttentionRequired, Some SafetyPaused}
      \<and> live_continuation dp st facts \<and> ph_degradation h = None
      \<and> ph_phase h \<in> {PhaseWaiting, PhaseScheduled, PhaseChecking, PhaseRootWorking})
    \<and> (\<not> ph_healthy h \<longrightarrow> (ph_degradation h = None \<longleftrightarrow> \<not> au_enabled st)
      \<and> ph_phase h \<notin> {PhaseWaiting, PhaseScheduled, PhaseRootWorking})"
proof -
  have states: "s \<in> {PilotMonitoring, PilotBackoff} \<longleftrightarrow>
      s \<notin> {PilotAttention, PilotSafetyPaused, PilotCompleted, PilotDisabled}" for s
    by (cases s) simp_all
  have h: "ph_healthy h = pilot_healthy dp st facts" "ph_phase h = pilot_phase dp st facts"
    "ph_supervision h = pilot_outcome st" "ph_degradation h = pilot_degradation dp st facts"
    by (simp_all add: h_def autopilotSnapshot_def Let_def)
  have healthy: "pilot_healthy dp st facts \<Longrightarrow>
      pilot_degradation dp st facts = None \<and> live_continuation dp st facts
      \<and> pilot_phase dp st facts \<in> {PhaseWaiting, PhaseScheduled, PhaseChecking, PhaseRootWorking}"
    by (auto simp: pilot_healthy_def pilot_phase_def pilot_degradation_def live_continuation_def Let_def)
  have unhealthy: "\<not> pilot_healthy dp st facts \<Longrightarrow>
      (pilot_degradation dp st facts = None \<longleftrightarrow> \<not> au_enabled st)
      \<and> pilot_phase dp st facts \<notin> {PhaseWaiting, PhaseScheduled, PhaseRootWorking}"
    by (simp add: pilot_degradation_def pilot_phase_def Let_def)
  show ?thesis
    unfolding h states using healthy unhealthy by (auto simp: pilot_healthy_def)
qed

definition working_facts :: health_facts where
  "working_facts = (no_facts sample_pilot)\<lparr>hf_active_turn := True, hf_plan_matches := True\<rparr>"

theorem health_report_is_honest_witness:
  "live_continuation char_clock sample_pilot working_facts
   \<and> ph_degradation (sn_health (autopilotSnapshot char_clock sample_pilot 3 (Some working_facts))) = None"
proof -
  have "ph_healthy (sn_health (autopilotSnapshot char_clock sample_pilot 3 (Some working_facts)))"
    by (simp add: autopilotSnapshot_def pilot_healthy_def handoff_failed_def live_continuation_def
        pilot_outcome_def working_facts_def no_facts_def sample_pilot_def disabledAutopilot_def Let_def)
  with health_report_is_honest [of char_clock sample_pilot 3 working_facts] show ?thesis by blast
qed

end
