(* ===== verification/Lifecycle_Writer.thy ===== *)
theory Lifecycle_Writer
  imports Lifecycle_Store
begin

text \<open>
  The other direction of the persisted lifecycle: the value \<open>JSON.stringify\<close> writes for an
  executor, its processes, commands, assignment and replacement, for a structured block and for
  the checkpoint ledger (\<open>save\<close> of sqlite-autopilot-store.ts), and the proof that whatever the
  reader accepts is read back unchanged after being written.
\<close>

subsection \<open>Writing\<close>

text \<open>The spelling of a value in a table of names.\<close>

fun name_of :: "(string \<times> 'a) list \<Rightarrow> 'a \<Rightarrow> string" where
  "name_of [] x = []"
| "name_of ((k, v) # rest) x = (if v = x then k else name_of rest x)"

abbreviation enum_json :: "(string \<times> 'a) list \<Rightarrow> 'a \<Rightarrow> jv" where
  "enum_json table x \<equiv> JStr (name_of table x)"

definition nat_json :: "nat \<Rightarrow> jv" where
  "nat_json n = JNum (of_nat n)"

fun rat_json :: "rat option \<Rightarrow> jv" where
  "rat_json None = JNull"
| "rat_json (Some r) = JNum r"

definition block_value :: "structured_block \<Rightarrow> jv" where
  "block_value b = JObj
     [(''reason'', enum_json blocking_reason_names (sb_reason b)),
      (''resumeCondition'', enum_json resume_condition_names (sb_condition b))]"

definition process_value :: "executor_process \<Rightarrow> jv" where
  "process_value p = JObj
     ([(''processId'', JStr (xp_id p)), (''itemId'', JStr (xp_item p)),
       (''ownerThreadId'', JStr (xp_thread p)), (''ownerTaskPath'', JStr (xp_path p)),
       (''ownership'', enum_json ownership_names (xp_ownership p)),
       (''state'', enum_json process_state_names (xp_state p)),
       (''observedAt'', JStr (xp_observed p)), (''elapsedMs'', JNum (xp_elapsed p)),
       (''cpuPercent'', rat_json (xp_cpu p)), (''rssBytes'', rat_json (xp_rss p))]
      @ present ''osPid'' (map_option nat_json (xp_os_pid p))
      @ present ''exitStatus'' (map_option (\<lambda>i. JNum (of_int i)) (xp_exit p))
      @ present ''resultArtifact'' (map_option JStr (xp_artifact p)))"

definition assignment_value :: "executor_assignment \<Rightarrow> jv" where
  "assignment_value a = JObj
     [(''canonicalPosition'', JStr (ea_position a)), (''canonicalTaskName'', JStr (ea_canonical a)),
      (''taskName'', JStr (ea_name a)), (''taskPath'', JStr (ea_path a)),
      (''threadId'', JStr (ea_thread a)), (''generation'', nat_json (ea_generation a)),
      (''state'', enum_json assignment_state_names (ea_state a))]"

definition replacement_value :: "executor_replacement \<Rightarrow> jv" where
  "replacement_value r = JObj
     ([(''canonicalTaskName'', JStr (ei_canonical (er_identity r))),
       (''canonicalPosition'', JStr (ei_position (er_identity r))),
       (''generation'', nat_json (ei_generation (er_identity r))),
       (''taskName'', JStr (ei_name (er_identity r))),
       (''planIdentity'', JStr (er_plan r)), (''planFingerprint'', JStr (er_fingerprint r))]
      @ present ''previous'' (map_option assignment_value (er_previous r))
      @ present ''reason'' (map_option (enum_json replacement_reason_names) (er_reason r))
      @ present ''evidence'' (map_option JStr (er_evidence r)))"

fun action_value :: "process_action_kind \<times> string \<Rightarrow> jv" where
  "action_value (kind, key) =
     JObj [(''kind'', enum_json action_kind_names kind), (''processKey'', JStr key)]"

text \<open>Counts of zero are left out; the reader takes an absent count for zero.\<close>

definition count_json :: "nat \<Rightarrow> jv option" where
  "count_json n = (if n = 0 then None else Some (nat_json n))"

definition command_value :: "executor_command \<Rightarrow> jv" where
  "command_value c = JObj
     ([(''commandId'', JStr (ec_id c)), (''status'', enum_json command_status_names (ec_status c)),
       (''planIdentity'', JStr (ec_plan c)), (''planFingerprint'', JStr (ec_fingerprint c)),
       (''canonicalPosition'', JStr (ec_position c)),
       (''canonicalTaskName'', JStr (ec_canonical c)), (''taskPath'', JStr (ec_path c)),
       (''threadId'', JStr (ec_thread c)), (''generation'', nat_json (ec_generation c)),
       (''trigger'', enum_json trigger_names (ec_trigger c)),
       (''createdAt'', JStr (ec_created c)), (''updatedAt'', JStr (ec_updated c))]
      @ present ''attempt'' (count_json (ec_attempt c))
      @ present ''supersededBeforeIssue''
          (if ec_superseded_before_issue c then Some (JBool True) else None)
      @ present ''processAction'' (map_option action_value (ec_action c)))"

definition executor_value :: "executor_lifecycle \<Rightarrow> jv" where
  "executor_value e = JObj
     ([(''canonicalPosition'', JStr (el_position e)), (''canonicalTaskName'', JStr (el_canonical e)),
       (''taskPath'', JStr (el_path e)), (''threadId'', JStr (el_thread e)),
       (''l1State'', enum_json todo_names (el_l1 e)), (''lastActivityAt'', JStr (el_activity e)),
       (''ownedProcesses'', JArr (map process_value (el_processes e))),
       (''outcome'', enum_json executor_outcome_names (el_outcome e)),
       (''continuationGeneration'', nat_json (el_generation e)),
       (''continuationCount'', nat_json (el_count e)),
       (''commands'', JArr (map command_value (el_commands e)))]
      @ present ''resumeFailures'' (count_json (el_failures e))
      @ present ''l2State'' (map_option (enum_json todo_names) (el_l2 e))
      @ present ''blocking'' (map_option block_value (el_blocking e))
      @ present ''assignment'' (map_option assignment_value (el_assignment e))
      @ present ''replacement'' (map_option replacement_value (el_replacement e)))"

definition epoch_value :: "completion_epoch \<Rightarrow> jv" where
  "epoch_value e = JObj
     [(''target'', JStr (ce_target e)), (''epoch'', nat_json (ce_epoch e)),
      (''reopened'', JBool (ce_reopened e)), (''completed'', JBool (ce_completed e))]"

definition ledger_value :: "checkpoint_ledger \<Rightarrow> jv" where
  "ledger_value c = JObj
     ([(''protocolVersion'', JNum 1), (''planIdentity'', JStr (cl_plan c)),
       (''completionEpochs'', JArr (map epoch_value (cl_epochs c))),
       (''reportedL2Ids'', JArr (map JStr (cl_l2 c))), (''reportedL1Ids'', JArr (map JStr (cl_l1 c))),
       (''acceptedKeys'', JArr (map JStr (cl_keys c))),
       (''pendingTurnId'', text_value (cl_pending_turn c)),
       (''pendingKind'', cl_pending_kind c), (''terminalReviewAccepted'', JBool (cl_terminal c))]
      @ present ''activeHandoffId'' (map_option JStr (cl_handoff c))
      @ present ''pendingTarget'' (map_option JStr (cl_pending_target c))
      @ present ''checkpointHandoffFailed'' (map_option JBool (cl_handoff_failed c))
      @ present ''rootContinuationFromTurnId'' (map_option JStr (cl_root_from c))
      @ present ''terminalReviewFingerprint'' (map_option JStr (cl_fingerprint c)))"

definition lifecycle_fields :: "persisted_lifecycle \<Rightarrow> (string \<times> jv) list" where
  "lifecycle_fields pl =
     present ''executor'' (map_option executor_value (pl_executor pl))
     @ present ''blocking'' (map_option block_value (pl_blocking pl))
     @ present ''supervision'' (map_option protocol_value (pl_supervision pl))
     @ present ''checkpoints'' (map_option ledger_value (pl_checkpoints pl))"

subsection \<open>Reading what was written\<close>

lemma field_of_present [simp]:
  "field_of (present k v @ xs) j = (if j = k then coalesce v (field_of xs j) else field_of xs j)"
  "field_of (present k v) j = (if j = k then coalesce v JUndef else JUndef)"
  by (cases v; simp add: field_of_def)+

lemma name_of_lookup:
  "distinct (map fst table) \<Longrightarrow> x \<in> snd ` set table \<Longrightarrow> map_of table (name_of table x) = Some x"
proof (induction table)
  case (Cons row rest)
  obtain k v where row: "row = (k, v)" by (cases row)
  show ?case
  proof (cases "v = x")
    case False
    with Cons.prems row have "x \<in> snd ` set rest" by auto
    with Cons False row have found: "map_of rest (name_of rest x) = Some x" by simp
    then have "name_of rest x \<in> fst ` set rest" by (metis domI dom_map_of_conv_image_fst)
    with Cons.prems(1) row have "name_of rest x \<noteq> k" by auto
    with False row found show ?thesis by simp
  qed (simp add: row)
qed simp

lemma enum_again:
  assumes "enum_value table v = Some x" and "distinct (map fst table)"
  shows "enum_value table (JStr (name_of table x)) = Some x"
proof -
  from assms(1) obtain s where "map_of table s = Some x" by (cases v) auto
  then have "x \<in> snd ` set table" by (force dest: map_of_SomeD)
  then show ?thesis using name_of_lookup [OF assms(2)] by simp
qed

lemma tables_distinct [simp]:
  "distinct (map fst todo_names)" "distinct (map fst process_state_names)"
  "distinct (map fst ownership_names)" "distinct (map fst executor_outcome_names)"
  "distinct (map fst assignment_state_names)" "distinct (map fst command_status_names)"
  "distinct (map fst trigger_names)" "distinct (map fst action_kind_names)"
  "distinct (map fst replacement_reason_names)" "distinct (map fst blocking_reason_names)"
  "distinct (map fst resume_condition_names)"
  by (simp_all add: todo_names_def process_state_names_def ownership_names_def
      executor_outcome_names_def assignment_state_names_def command_status_names_def
      trigger_names_def action_kind_names_def replacement_reason_names_def
      blocking_reason_names_def resume_condition_names_def)

lemma bounded_again: "bounded_text v = Some s \<Longrightarrow> bounded_text (JStr s) = Some s"
  by (simp add: bounded_text_Some)

lemma integer_again: "non_negative_integer v = Some n \<Longrightarrow> non_negative_integer (nat_json n) = Some n"
  by (cases v) (auto simp: non_negative_integer_def nat_json_def split: option.splits if_splits)

lemma exit_again: "js_integer v = Some i \<Longrightarrow> js_integer (JNum (of_int i)) = Some i"
  by (cases v) (auto split: if_splits)

lemma number_again: "non_negative_number v = Some r \<Longrightarrow> non_negative_number (JNum r) = Some r"
  by (cases v) (auto split: if_splits)

lemma nullable_number_again:
  "nullable_non_negative_number v = Some r \<Longrightarrow> nullable_non_negative_number (rat_json r) = Some r"
  by (cases v; cases r) (auto split: if_splits)

lemma fingerprint_again: "parsePlanFingerprint v = Some s \<Longrightarrow> parsePlanFingerprint (JStr s) = Some s"
  by (cases v) (auto simp: parsePlanFingerprint_def split: if_splits)

lemma optional_again:
  assumes "optional f v = Some r" and "\<And>w x. f w = Some x \<Longrightarrow> f (g x) = Some x"
    and "\<And>x. g x \<noteq> JUndef"
  shows "optional f (coalesce (map_option g r) JUndef) = Some r"
  using assms by (auto simp: optional_def split: if_splits)

lemma read_all_again:
  assumes "read_all f vs = Some xs" and "\<And>v x. f v = Some x \<Longrightarrow> f (g x) = Some x"
  shows "read_all f (map g xs) = Some xs"
  using assms by (induction vs arbitrary: xs) (auto simp: bind_eq_Some_conv)

lemmas again_rules = bounded_again integer_again exit_again number_again nullable_number_again
  fingerprint_again


lemma written_defined [simp]:
  "nat_json n \<noteq> JUndef" "block_value b \<noteq> JUndef" "process_value p \<noteq> JUndef"
  "assignment_value a \<noteq> JUndef" "replacement_value r \<noteq> JUndef" "action_value ka \<noteq> JUndef"
  "command_value c \<noteq> JUndef" "executor_value e \<noteq> JUndef" "ledger_value l \<noteq> JUndef"
  "protocol_value s \<noteq> JUndef"
  by (simp_all add: nat_json_def block_value_def process_value_def assignment_value_def
      replacement_value_def command_value_def executor_value_def ledger_value_def protocol_value_def)
    (cases ka, simp)

lemma optional_count:
  "optional non_negative_integer v = Some r \<Longrightarrow>
     optional non_negative_integer (coalesce (count_json (coalesce r 0)) JUndef)
       = Some (if coalesce r 0 = 0 then None else Some (coalesce r 0))"
  by (cases r) (auto simp: optional_def count_json_def integer_again split: if_splits)

lemmas optional_rules = optional_again [OF _ bounded_again] optional_again [OF _ integer_again]
  optional_again [OF _ exit_again] optional_again [OF _ fingerprint_again]

lemma optional_enum:
  "optional (enum_value table) v = Some r \<Longrightarrow> distinct (map fst table) \<Longrightarrow>
     optional (enum_value table) (coalesce (map_option (\<lambda>x. JStr (name_of table x)) r) JUndef) = Some r"
  by (rule optional_again) (simp_all add: enum_again del: enum_value.simps)

lemmas reader_rules = enum_value.simps bounded_text.simps non_negative_number.simps
  nullable_non_negative_number.simps js_integer.simps

lemma block_again: "parseStructuredBlock v = Some b \<Longrightarrow> parseStructuredBlock (block_value b) = Some b"
  by (auto simp: parseStructuredBlock_def block_value_def bind_eq_Some_conv enum_again
      simp del: reader_rules)

lemma process_again: "parse_process v = Some p \<Longrightarrow> parse_process (process_value p) = Some p"
  apply (clarsimp simp: parse_process_def bind_eq_Some_conv simp del: reader_rules)
  apply (simp add: process_value_def enum_again again_rules optional_rules del: reader_rules)
  done

lemma assignment_again:
  "parseExecutorAssignment v = Some a \<Longrightarrow> parseExecutorAssignment (assignment_value a) = Some a"
  apply (clarsimp simp: parseExecutorAssignment_def bind_eq_Some_conv simp del: reader_rules)
  apply (simp add: assignment_value_def enum_again again_rules optional_rules del: reader_rules)
  done

lemma replacement_again:
  "parse_replacement canonical position v = Some r \<Longrightarrow>
     parse_replacement canonical position (replacement_value r) = Some r"
  apply (clarsimp simp: parse_replacement_def bind_eq_Some_conv simp del: reader_rules)
  apply (simp add: replacement_value_def enum_again again_rules optional_rules optional_enum
      optional_again [OF _ assignment_again] del: reader_rules)
  done

lemma action_again: "parse_process_action v = Some a \<Longrightarrow> parse_process_action (action_value a) = Some a"
  by (auto simp: parse_process_action_def bind_eq_Some_conv enum_again again_rules simp del: reader_rules)

lemma command_again: "parse_command v = Some c \<Longrightarrow> parse_command (command_value c) = Some c"
  apply (clarsimp simp: parse_command_def bind_eq_Some_conv simp del: reader_rules)
  apply (simp add: command_value_def enum_again again_rules optional_rules optional_count
      optional_again [OF _ action_again] del: reader_rules)
  apply auto
  done

lemma commands_again: "parse_commands v = Some cs \<Longrightarrow> parse_commands (JArr (map command_value cs)) = Some cs"
  by (cases v) (auto simp: parse_commands_def bind_eq_Some_conv read_all_length
      intro: read_all_again command_again split: if_splits)

lemma assignment_generation:
  "parseExecutorAssignment v = Some a \<Longrightarrow>
     non_negative_integer (nat_json (ea_generation a)) = Some (ea_generation a)"
  by (clarsimp simp: parseExecutorAssignment_def bind_eq_Some_conv integer_again simp del: reader_rules)

lemma processes_again:
  "read_all parse_process vs = Some ps \<Longrightarrow> read_all parse_process (map process_value ps) = Some ps"
  by (erule read_all_again) (rule process_again)

lemma executor_again: "parse_executor v = Some e \<Longrightarrow> parse_executor (executor_value e) = Some e"
  apply (clarsimp simp: parse_executor_def bind_eq_Some_conv simp del: reader_rules)
  apply (simp add: executor_value_def enum_again again_rules optional_rules optional_enum optional_count
      optional_again [OF _ assignment_again] optional_again [OF _ replacement_again]
      optional_again [OF _ block_again] commands_again processes_again
      del: reader_rules)
  apply (auto simp: optional_Some read_all_length integer_again assignment_generation split: option.split)
  done

subsection \<open>The checkpoint ledger\<close>

text \<open>
  A ledger whose epochs were read from the record itself; a legacy record without epochs gets them
  from its reported identifiers, without the checks the reader applies to written epochs.
\<close>

definition ledger_canonical :: "checkpoint_ledger \<Rightarrow> bool" where
  "ledger_canonical c \<longleftrightarrow>
     length (cl_epochs c) \<le> 640 \<and> distinct (map ce_target (cl_epochs c))
     \<and> list_all (\<lambda>e. parse_epoch (epoch_value e) = Some e) (cl_epochs c)"

lemma epoch_again:
  assumes "parse_epoch v = Some e" shows "parse_epoch (epoch_value e) = Some e"
proof -
  from assms obtain w where "canonicalCheckpointTarget w = Some (ce_target e)"
    by (auto simp: parse_epoch_def bind_eq_Some_conv)
  then obtain k where "target_bounded k" "ce_target e = checkpointTarget k"
    using canonical_target_form by blast
  then have target: "canonicalCheckpointTarget (JStr (ce_target e)) = Some (ce_target e)"
    by (simp add: canonical_of_target)
  from assms have "non_negative_integer (nat_json (ce_epoch e)) = Some (ce_epoch e)"
    by (auto simp: parse_epoch_def bind_eq_Some_conv integer_again simp del: reader_rules)
  with target show ?thesis by (simp add: parse_epoch_def epoch_value_def optional_def field_of_def)
qed

lemma distinct_texts_again:
  assumes "distinct_texts n v = Some ts" shows "distinct_texts n (JArr (map JStr ts)) = Some ts"
proof -
  from assms obtain vs where vs: "read_all bounded_text vs = Some ts" "length vs \<le> n" "distinct ts"
    by (auto simp: distinct_texts_def bind_eq_Some_conv)
  then have "read_all bounded_text (map JStr ts) = Some ts"
    using bounded_again by (blast intro: read_all_again)
  with vs show ?thesis by (simp add: distinct_texts_def read_all_length)
qed

lemma epochs_canonical:
  assumes "parse_epochs v = Some (Some es)"
  shows "length es \<le> 640 \<and> distinct (map ce_target es)
    \<and> list_all (\<lambda>e. parse_epoch (epoch_value e) = Some e) es"
  using assms read_all_forall [of parse_epoch _ es] epoch_again
  by (auto simp: parse_epochs_def bind_eq_Some_conv read_all_length split: if_splits)

lemma epochs_written:
  assumes "length es \<le> 640" "distinct (map ce_target es)"
    and "list_all (\<lambda>e. parse_epoch (epoch_value e) = Some e) es"
  shows "parse_epochs (JArr (map epoch_value es)) = Some (Some es)"
proof -
  from assms(3) have "read_all parse_epoch (map epoch_value es) = Some es"
    by (induction es) auto
  with assms show ?thesis by (simp add: parse_epochs_def)
qed

lemma pending_turn_again: "parse_pending_turn v = Some t \<Longrightarrow> parse_pending_turn (text_value t) = Some t"
  by (cases t) (auto simp: parse_pending_turn_def bounded_text_Some simp del: reader_rules split: if_splits)

lemma handoff_again:
  "parse_handoff v = Some h \<Longrightarrow> parse_handoff (coalesce (map_option JStr h) JUndef) = Some h"
  by (cases h) (auto simp: parse_handoff_def bounded_text_Some simp del: reader_rules split: if_splits)

lemma as_bool_again: "as_bool v = Some b \<Longrightarrow> as_bool (JBool b) = Some b"
  by simp

lemma target_again:
  "canonicalCheckpointTarget v = Some t \<Longrightarrow> canonicalCheckpointTarget (JStr t) = Some t"
  using canonical_target_form [of v t] canonical_of_target by auto

lemma legacy_epoch_targets [simp]: "ce_target ` set (legacy_epochs ts) = set ts"
  by (simp add: legacy_epochs_def image_image)

text \<open>The parts a ledger was read from.\<close>

lemma ledger_parts:
  assumes "parseCheckpoints v = Some c"
  shows "\<exists>f epochs l2_targets. as_record v = Some f \<and> bounded_text (field_of f ''planIdentity'') = Some (cl_plan c)
    \<and> parse_epochs (field_of f ''completionEpochs'') = Some epochs
    \<and> (cl_l2 c = [] \<or> distinct_texts 512 (field_of f ''reportedL2Ids'') = Some (cl_l2 c))
    \<and> distinct_texts 128 (field_of f ''reportedL1Ids'') = Some (cl_l1 c)
    \<and> distinct_texts 768 (field_of f ''acceptedKeys'') = Some (cl_keys c)
    \<and> parse_pending_turn (field_of f ''pendingTurnId'') = Some (cl_pending_turn c)
    \<and> optional canonicalCheckpointTarget (field_of f ''pendingTarget'') = Some (cl_pending_target c)
    \<and> (cl_pending_target c = None \<or> cl_pending_turn c \<noteq> None)
    \<and> parse_handoff (field_of f ''activeHandoffId'') = Some (cl_handoff c)
    \<and> optional as_bool (field_of f ''checkpointHandoffFailed'') = Some (cl_handoff_failed c)
    \<and> optional bounded_text (field_of f ''rootContinuationFromTurnId'') = Some (cl_root_from c)
    \<and> optional parsePlanFingerprint (field_of f ''terminalReviewFingerprint'') = Some (cl_fingerprint c)
    \<and> pending_kind_ok (cl_pending_kind c) (cl_pending_turn c)
    \<and> read_all legacy_l2_target (cl_l2 c) = Some l2_targets
    \<and> set (map (\<lambda>i. checkpointTarget (TargetL1 i)) (cl_l1 c) @ l2_targets) \<subseteq> ce_target ` set (cl_epochs c)
    \<and> (case epochs of None \<Rightarrow> True | Some es \<Rightarrow> cl_epochs c = es)"
  using assms
  apply (clarsimp simp: parseCheckpoints_def bind_eq_Some_conv simp del: reader_rules checkpointTarget.simps)
  apply (intro exI conjI; assumption?)
  apply (auto split: if_splits option.splits simp del: reader_rules checkpointTarget.simps)
  done


lemma ledger_again:
  assumes "parseCheckpoints v = Some c" and "ledger_canonical c"
  shows "parseCheckpoints (ledger_value c) = Some c"
proof -
  obtain f epochs l2_targets where p:
    "bounded_text (field_of f ''planIdentity'') = Some (cl_plan c)"
    "cl_l2 c = [] \<or> distinct_texts 512 (field_of f ''reportedL2Ids'') = Some (cl_l2 c)"
    "distinct_texts 128 (field_of f ''reportedL1Ids'') = Some (cl_l1 c)"
    "distinct_texts 768 (field_of f ''acceptedKeys'') = Some (cl_keys c)"
    "parse_pending_turn (field_of f ''pendingTurnId'') = Some (cl_pending_turn c)"
    "optional canonicalCheckpointTarget (field_of f ''pendingTarget'') = Some (cl_pending_target c)"
    "cl_pending_target c = None \<or> cl_pending_turn c \<noteq> None"
    "parse_handoff (field_of f ''activeHandoffId'') = Some (cl_handoff c)"
    "optional as_bool (field_of f ''checkpointHandoffFailed'') = Some (cl_handoff_failed c)"
    "optional bounded_text (field_of f ''rootContinuationFromTurnId'') = Some (cl_root_from c)"
    "optional parsePlanFingerprint (field_of f ''terminalReviewFingerprint'') = Some (cl_fingerprint c)"
    "pending_kind_ok (cl_pending_kind c) (cl_pending_turn c)"
    "read_all legacy_l2_target (cl_l2 c) = Some l2_targets"
    "set (map (\<lambda>i. checkpointTarget (TargetL1 i)) (cl_l1 c) @ l2_targets) \<subseteq> ce_target ` set (cl_epochs c)"
    using ledger_parts [OF assms(1)] by blast
  have l2: "distinct_texts 512 (JArr (map JStr (cl_l2 c))) = Some (cl_l2 c)"
    using p(2) distinct_texts_again by (auto simp: distinct_texts_def)
  have epochs: "parse_epochs (JArr (map epoch_value (cl_epochs c))) = Some (Some (cl_epochs c))"
    using assms(2) by (simp add: ledger_canonical_def epochs_written)
  have kind: "cl_pending_kind c \<noteq> JUndef" using p(12) by (auto simp: pending_kind_ok_def)
  have opt: "optional canonicalCheckpointTarget (coalesce (map_option JStr (cl_pending_target c)) JUndef)
      = Some (cl_pending_target c)"
    "optional as_bool (coalesce (map_option JBool (cl_handoff_failed c)) JUndef) = Some (cl_handoff_failed c)"
    using optional_again [OF p(6) target_again] optional_again [OF p(9) as_bool_again] by simp_all
  show ?thesis
    using p(1,7,10-14) l2 epochs kind opt
      distinct_texts_again [OF p(3)] distinct_texts_again [OF p(4)]
      pending_turn_again [OF p(5)] handoff_again [OF p(8)]
    by (simp add: parseCheckpoints_def ledger_value_def bind_eq_Some_conv again_rules optional_rules
        pending_kind_value_def field_of_def [of "(''protocolVersion'', JNum 1) # _"]
        del: reader_rules checkpointTarget.simps)
qed


subsection \<open>The whole record\<close>

lemma optional_stored:
  assumes "\<And>x. r = Some x \<Longrightarrow> f (g x) = Some x" and "\<And>x. g x \<noteq> JUndef"
  shows "optional f (coalesce (map_option g r) JUndef) = Some r"
  using assms by (cases r) (simp_all add: optional_def)

lemma field_of_Nil [simp]: "field_of [] k = JUndef"
  by (simp add: field_of_def)

definition lifecycle_canonical :: "persisted_lifecycle \<Rightarrow> bool" where
  "lifecycle_canonical pl \<longleftrightarrow>
     (case pl_checkpoints pl of None \<Rightarrow> True | Some c \<Rightarrow> ledger_canonical c)"

lemma lifecycle_again:
  assumes "parsePersistedSupervisedLifecycle dp v = Some pl" and "lifecycle_canonical pl"
    and "\<forall>k \<in> {''executor'', ''blocking'', ''supervision'', ''checkpoints''}. field_of rest k = JUndef"
  shows "parsePersistedSupervisedLifecycle dp (JObj (lifecycle_fields pl @ rest)) = Some pl"
proof -
  from assms(1) obtain f where f:
    "optional parse_executor (field_of f ''executor'') = Some (pl_executor pl)"
    "optional parseStructuredBlock (field_of f ''blocking'') = Some (pl_blocking pl)"
    "optional (parseSupervisionProtocolState dp) (field_of f ''supervision'') = Some (pl_supervision pl)"
    "optional parseCheckpoints (field_of f ''checkpoints'') = Some (pl_checkpoints pl)"
    by (auto simp: parsePersistedSupervisedLifecycle_def bind_eq_Some_conv)
  have parts: "optional parse_executor (coalesce (map_option executor_value (pl_executor pl)) JUndef)
      = Some (pl_executor pl)"
    "optional parseStructuredBlock (coalesce (map_option block_value (pl_blocking pl)) JUndef)
      = Some (pl_blocking pl)"
    "optional (parseSupervisionProtocolState dp)
      (coalesce (map_option protocol_value (pl_supervision pl)) JUndef) = Some (pl_supervision pl)"
    "optional parseCheckpoints (coalesce (map_option ledger_value (pl_checkpoints pl)) JUndef)
      = Some (pl_checkpoints pl)"
    using f assms(2) executor_again block_again protocol_accepted ledger_again
    by (auto intro!: optional_stored simp: optional_Some lifecycle_canonical_def)
  have fields: "field_of (lifecycle_fields pl @ rest) ''executor'' = coalesce (map_option executor_value (pl_executor pl)) JUndef"
    "field_of (lifecycle_fields pl @ rest) ''blocking'' = coalesce (map_option block_value (pl_blocking pl)) JUndef"
    "field_of (lifecycle_fields pl @ rest) ''supervision'' = coalesce (map_option protocol_value (pl_supervision pl)) JUndef"
    "field_of (lifecycle_fields pl @ rest) ''checkpoints'' = coalesce (map_option ledger_value (pl_checkpoints pl)) JUndef"
    using assms(3) by (simp_all add: lifecycle_fields_def)
  show ?thesis
    by (simp add: parsePersistedSupervisedLifecycle_def fields parts)
qed

text \<open>
  A lifecycle record the reader accepts is read back unchanged after being written: executor,
  processes, assignment, replacement, command history, block, protocol state and checkpoint ledger
  survive a restart of the relay exactly. The ledger must carry its own completion epochs.
\<close>
theorem persisted_lifecycle_round_trip:
  assumes "parsePersistedSupervisedLifecycle dp v = Some pl" and "lifecycle_canonical pl"
  shows "parsePersistedSupervisedLifecycle dp (JObj (lifecycle_fields pl)) = Some pl"
  using lifecycle_again [OF assms, of "[]"] by simp

definition sample_ledger :: checkpoint_ledger where
  "sample_ledger =
     \<lparr> cl_plan = ''p'', cl_epochs = [\<lparr> ce_target = checkpointTarget (TargetL1 ''a''), ce_epoch = 1,
         ce_reopened = False, ce_completed = True \<rparr>], cl_l2 = [], cl_l1 = [''a''], cl_keys = [''k''],
       cl_pending_turn = Some ''t'', cl_pending_target = Some (checkpointTarget (TargetL1 ''a'')),
       cl_handoff = None, cl_pending_kind = JStr ''l1Accepted'', cl_handoff_failed = None,
       cl_terminal = False, cl_root_from = None, cl_fingerprint = None \<rparr>"

definition sample_lifecycle :: persisted_lifecycle where
  "sample_lifecycle =
     \<lparr> pl_executor = Some
         \<lparr> el_position = ''L1'', el_canonical = ''l1'', el_path = ''/root/l1_g2'', el_thread = ''t'',
           el_l1 = WIP, el_l2 = None, el_activity = ''a'', el_processes = [], el_outcome = PartialOutcome,
           el_blocking = None, el_generation = 2, el_count = 1, el_failures = 0,
           el_assignment = Some \<lparr> ea_position = ''L1'', ea_canonical = ''l1'', ea_name = ''l1_g2'',
             ea_path = ''/root/l1_g2'', ea_thread = ''t'', ea_generation = 2, ea_state = Resumable \<rparr>,
           el_replacement = None, el_commands = [] \<rparr>,
       pl_blocking = None, pl_supervision = None, pl_checkpoints = Some sample_ledger \<rparr>"

theorem persisted_lifecycle_round_trip_witness:
  "parsePersistedSupervisedLifecycle (\<lambda>_. Some 5) (JObj (lifecycle_fields sample_lifecycle))
     = Some sample_lifecycle"
proof -
  have "parsePersistedSupervisedLifecycle (\<lambda>_. Some 5) (JObj (lifecycle_fields sample_lifecycle))
      = Some sample_lifecycle" by code_simp
  moreover have "lifecycle_canonical sample_lifecycle" by code_simp
  ultimately show ?thesis by (rule persisted_lifecycle_round_trip)
qed

text \<open>
  A ledger of an older record, without completion epochs, can be accepted and yet not be
  readable once it is written back: the epochs derived from its reported identifiers are not
  checked like written ones, so an empty identifier inside a reported pair is accepted only once.
\<close>
theorem legacy_ledger_may_not_survive_writing:
  "\<exists>v c. parseCheckpoints v = Some c \<and> parseCheckpoints (ledger_value c) = None"
proof -
  let ?v = "JObj [(''protocolVersion'', JNum 1), (''planIdentity'', JStr ''p''),
      (''reportedL2Ids'', JArr [JStr (json_text (OArr [OText ''a'', OText []]))]),
      (''reportedL1Ids'', JArr []), (''acceptedKeys'', JArr []), (''pendingTurnId'', JNull),
      (''terminalReviewAccepted'', JBool False)]"
  have found: "parseCheckpoints ?v \<noteq> None"
    and lost: "map_option (\<lambda>c. parseCheckpoints (ledger_value c)) (parseCheckpoints ?v) = Some None"
    by code_simp+
  from found obtain c where c: "parseCheckpoints ?v = Some c" by blast
  with lost have "parseCheckpoints (ledger_value c) = None" by simp
  with c show ?thesis by blast
qed

end
