(* ===== verification/Autopilot_Store.thy ===== *)
theory Autopilot_Store
  imports Autopilot_Session Lifecycle_Writer
begin

text \<open>
  The durable store of automatic supervision
  (src/server/platform/persistence/sqlite-autopilot-store.ts): control states, control commands
  and the outbox of audit events. A table is a list of rows with a key; a transaction yields
  either a new database or an error, and an error leaves the database as it was.

  A stored lifecycle text is the value it spells; \<open>JUndef\<close>, which no JSON text spells, stands for a
  text that does not parse. The parameters \<open>text_bytes\<close> and \<open>row_bytes\<close> are the encoded sizes the
  code measures, \<open>dp\<close> is \<open>Date.parse\<close>.
\<close>

subsection \<open>Tables\<close>

record pilot_row =
  pr_session :: string
  pr_state :: string
  pr_enabled :: int
  pr_plan :: "string option"
  pr_fingerprint :: "string option"
  pr_generation :: int
  pr_count :: int
  pr_next :: "string option"
  pr_control :: "string option"
  pr_stop :: "string option"
  pr_lifecycle :: "jv option"
  pr_updated :: string

datatype start_failure = StartFailedCode | StartUnavailableCode

record pilot_control =
  co_session :: string
  co_id :: string
  co_status :: control_status
  co_created :: string
  co_updated :: string
  co_failure :: "start_failure option"
  co_turn :: "string option"

record audit_event =
  ae_session :: string
  ae_type :: string
  ae_payload :: jv
  ae_at :: string

record pilot_db =
  pd_rows :: "pilot_row list"
  pd_controls :: "pilot_control list"
  pd_outbox :: "(nat \<times> audit_event) list"
  pd_next :: nat
  pd_quarantine :: "(string \<times> pilot_row \<times> string) list"

datatype store_error = StateInvalid string | ControlMissing

subsection \<open>Reading a row\<close>

definition pilot_state_names :: "(string \<times> autopilot_state) list" where
  "pilot_state_names =
     [(''disabled'', PilotDisabled), (''monitoring'', PilotMonitoring), (''backoff'', PilotBackoff),
      (''attentionRequired'', PilotAttention), (''completed'', PilotCompleted),
      (''safetyPaused'', PilotSafetyPaused)]"

definition stop_reason_names :: "(string \<times> stop_reason) list" where
  "stop_reason_names =
     [(''manualDisabled'', ManualDisabled), (''planRequired'', PlanRequired),
      (''planComplete'', PlanComplete), (''sessionUnavailable'', SessionUnavailable),
      (''attentionRequired'', StopAttention), (''noPlanProgress'', NoPlanProgress),
      (''reconcileFailed'', ReconcileFailed), (''usageLimitExceeded'', UsageLimitExceeded),
      (''providerError'', ProviderError), (''startUnavailable'', StartUnavailable),
      (''actionRateExceeded'', ActionRateExceeded), (''planRemoved'', PlanRemoved),
      (''planReplaced'', PlanReplaced), (''sessionEnded'', SessionEnded),
      (''safetyPaused'', StopSafetyPaused), (''null'', TextNull)]"

text \<open>
  The list of admitted texts ends with ''null'', meant for the missing reason that \<open>String\<close> spells that
  way; the column is then handed on as it is.
\<close>

fun decode_stop :: "string option \<Rightarrow> stop_reason option option" where
  "decode_stop None = Some None"
| "decode_stop (Some s) = map_option Some (map_of stop_reason_names s)"

record stored_lifecycle =
  st_lifecycle :: persisted_lifecycle
  st_failure :: "provider_failure option"
  st_failure_turn :: "string option"
  st_retry :: "provider_retry option"

definition no_lifecycle :: stored_lifecycle where
  "no_lifecycle =
     \<lparr> st_lifecycle = \<lparr> pl_executor = None, pl_blocking = None, pl_supervision = None,
         pl_checkpoints = None \<rparr>, st_failure = None, st_failure_turn = None, st_retry = None \<rparr>"

definition turn_text :: "jv \<Rightarrow> string option" where
  "turn_text v = (case v of JStr s \<Rightarrow> if truthy s \<and> length s \<le> 256 then Some s else None | _ \<Rightarrow> None)"

definition parseLifecycle ::
  "(string \<Rightarrow> int option) \<Rightarrow> (jv \<Rightarrow> nat) \<Rightarrow> jv option \<Rightarrow> stored_lifecycle option" where
  "parseLifecycle dp text_bytes column =
     (case column of
        None \<Rightarrow> Some no_lifecycle
      | Some v \<Rightarrow>
          if text_bytes v > max_record_bytes then None
          else do {
            f \<leftarrow> as_record v;
            lifecycle \<leftarrow> parsePersistedSupervisedLifecycle dp v;
            failure \<leftarrow> optional parseProviderFailure (field_of f ''providerFailure'');
            turn \<leftarrow> optional turn_text (field_of f ''providerFailureTurnId'');
            retry \<leftarrow> optional (parseProviderRetry dp) (field_of f ''providerRetry'');
            Some \<lparr> st_lifecycle = lifecycle, st_failure = failure, st_failure_turn = turn,
                   st_retry = retry \<rparr> })"

definition safe_count :: "int \<Rightarrow> bool" where
  "safe_count n \<longleftrightarrow> 0 \<le> n \<and> n \<le> max_safe"

definition session_of ::
  "pilot_row \<Rightarrow> autopilot_state \<Rightarrow> stop_reason option \<Rightarrow> stored_lifecycle \<Rightarrow> autopilot_session" where
  "session_of row state stop lifecycle =
     \<lparr> au_session = pr_session row, au_state = state, au_enabled = (pr_enabled row = 1),
       au_plan = pr_plan row, au_fingerprint = pr_fingerprint row,
       au_generation = nat (pr_generation row), au_no_progress = pr_count row,
       au_next = pr_next row, au_control = pr_control row, au_stop = stop,
       au_failure = st_failure lifecycle, au_failure_turn = st_failure_turn lifecycle,
       au_retry = st_retry lifecycle,
       au_executor = pl_executor (st_lifecycle lifecycle),
       au_blocking = pl_blocking (st_lifecycle lifecycle),
       au_supervision = pl_supervision (st_lifecycle lifecycle),
       au_checkpoints = pl_checkpoints (st_lifecycle lifecycle),
       au_updated = pr_updated row \<rparr>"

text \<open>\<open>Inl\<close> is the \<open>AutopilotStateError\<close> of the session.\<close>

definition decodeRow ::
  "(string \<Rightarrow> int option) \<Rightarrow> (jv \<Rightarrow> nat) \<Rightarrow> (pilot_row \<Rightarrow> nat) \<Rightarrow> pilot_row
     \<Rightarrow> store_error + autopilot_session" where
  "decodeRow dp text_bytes row_bytes row =
     (case do {
        lifecycle \<leftarrow> parseLifecycle dp text_bytes (pr_lifecycle row);
        guard (row_bytes row \<le> max_record_bytes);
        guard (case pr_fingerprint row of None \<Rightarrow> True | Some f \<Rightarrow> parsePlanFingerprint (JStr f) \<noteq> None);
        state \<leftarrow> map_of pilot_state_names (pr_state row);
        stop \<leftarrow> decode_stop (pr_stop row);
        guard (safe_count (pr_generation row) \<and> safe_count (pr_count row));
        guard (pr_enabled row = 0 \<or> pr_enabled row = 1);
        Some (session_of row state stop lifecycle) }
      of None \<Rightarrow> Inl (StateInvalid (pr_session row)) | Some s \<Rightarrow> Inr s)"

subsection \<open>Writing a row\<close>

definition failure_value :: "provider_failure \<Rightarrow> jv" where
  "failure_value f = JObj ((''code'', JStr (pvf_code f))
     # present ''httpStatusCode'' (map_option (\<lambda>i. JNum (of_int i)) (pvf_http f)))"

definition retry_value :: "provider_retry \<Rightarrow> jv" where
  "retry_value r = JObj
     [(''turnId'', JStr (pvr_turn r)), (''attempt'', JNum (of_int (pvr_attempt r))),
      (''notBefore'', JStr (pvr_not_before r)), (''settled'', JBool (pvr_settled r)),
      (''pending'', JBool (pvr_pending r)), (''resumeRoot'', JBool (pvr_resume_root r))]"

definition pilot_lifecycle :: "autopilot_session \<Rightarrow> persisted_lifecycle" where
  "pilot_lifecycle st =
     \<lparr> pl_executor = au_executor st, pl_blocking = au_blocking st,
       pl_supervision = au_supervision st, pl_checkpoints = au_checkpoints st \<rparr>"

definition provider_fields :: "autopilot_session \<Rightarrow> (string \<times> jv) list" where
  "provider_fields st =
     present ''providerFailure'' (map_option failure_value (au_failure st))
     @ present ''providerRetry'' (map_option retry_value (au_retry st))
     @ present ''providerFailureTurnId'' (map_option JStr (au_failure_turn st))"

definition lifecycle_json :: "autopilot_session \<Rightarrow> jv option" where
  "lifecycle_json st =
     (let fields = lifecycle_fields (pilot_lifecycle st) @ provider_fields st in
      if fields = [] then None else Some (JObj fields))"

definition row_of :: "autopilot_session \<Rightarrow> pilot_row" where
  "row_of st =
     \<lparr> pr_session = au_session st, pr_state = name_of pilot_state_names (au_state st),
       pr_enabled = (if au_enabled st then 1 else 0), pr_plan = au_plan st,
       pr_fingerprint = au_fingerprint st, pr_generation = int (au_generation st),
       pr_count = au_no_progress st, pr_next = au_next st, pr_control = au_control st,
       pr_stop = map_option (name_of stop_reason_names) (au_stop st),
       pr_lifecycle = lifecycle_json st, pr_updated = au_updated st \<rparr>"

subsection \<open>Operations\<close>

definition pilot_find ::
  "(pilot_row \<Rightarrow> store_error + autopilot_session) \<Rightarrow> pilot_db \<Rightarrow> string
     \<Rightarrow> store_error + autopilot_session option" where
  "pilot_find decode db session =
     (case List.find (\<lambda>r. pr_session r = session) (pd_rows db) of
        None \<Rightarrow> Inr None
      | Some row \<Rightarrow> (case decode row of Inl e \<Rightarrow> Inl e | Inr st \<Rightarrow> Inr (Some st)))"

text \<open>A row is written only if the reader accepts it.\<close>

definition pilot_save ::
  "(pilot_row \<Rightarrow> store_error + autopilot_session) \<Rightarrow> pilot_db \<Rightarrow> autopilot_session
     \<Rightarrow> store_error + pilot_db" where
  "pilot_save decode db st =
     (case decode (row_of st) of
        Inl e \<Rightarrow> Inl e
      | Inr _ \<Rightarrow> Inr (db\<lparr>pd_rows := map_set pr_session (row_of st) (pd_rows db)\<rparr>))"

definition cancel_scheduled :: "string \<Rightarrow> string \<Rightarrow> pilot_control \<Rightarrow> pilot_control" where
  "cancel_scheduled session now c =
     (if co_session c = session \<and> co_status c = ControlScheduled
      then c\<lparr>co_status := ControlCancelled, co_updated := now\<rparr> else c)"

definition recoverInvalid ::
  "(pilot_row \<Rightarrow> store_error + autopilot_session) \<Rightarrow> pilot_db \<Rightarrow> string \<Rightarrow> string
     \<Rightarrow> store_error + pilot_db" where
  "recoverInvalid decode db session now =
     (case List.find (\<lambda>r. pr_session r = session) (pd_rows db) of
        None \<Rightarrow> Inr db
      | Some row \<Rightarrow>
          (case decode row of
             Inr _ \<Rightarrow> Inr db
           | Inl _ \<Rightarrow>
               (case pilot_save decode
                       (db\<lparr>pd_quarantine := pd_quarantine db @ [(session, row, now)]\<rparr>)
                       (disabledAutopilot session now) of
                  Inl e \<Rightarrow> Inl e
                | Inr db' \<Rightarrow>
                    Inr (db'\<lparr>pd_controls := map (cancel_scheduled session now) (pd_controls db')\<rparr>))))"

definition control_key :: "pilot_control \<Rightarrow> string \<times> string" where
  "control_key c = (co_session c, co_id c)"

definition find_control :: "pilot_db \<Rightarrow> string \<Rightarrow> string \<Rightarrow> pilot_control option" where
  "find_control db session control =
     List.find (\<lambda>c. control_key c = (session, control)) (pd_controls db)"

definition control_moves :: "control_status \<Rightarrow> control_status \<Rightarrow> bool" where
  "control_moves old new \<longleftrightarrow>
     old = new
     \<or> (old = ControlScheduled \<and> new \<in> {ControlIssued, ControlCancelled})
     \<or> (old = ControlIssued \<and> new \<in> {ControlStarted, ControlFailed})"

text \<open>The upsert: a known control changes only along a legal move and keeps its creation time.\<close>

definition update_control :: "pilot_control \<Rightarrow> pilot_control \<Rightarrow> pilot_control" where
  "update_control new old =
     (if control_moves (co_status old) (co_status new)
      then old\<lparr>co_status := co_status new, co_updated := co_updated new, co_failure := co_failure new,
               co_turn := opt_or (co_turn new) (co_turn old)\<rparr>
      else old)"

definition saveControl :: "pilot_db \<Rightarrow> pilot_control \<Rightarrow> pilot_db" where
  "saveControl db control =
     db\<lparr>pd_controls :=
        (if \<exists>c \<in> set (pd_controls db). control_key c = control_key control
         then update_where (\<lambda>c. control_key c = control_key control) (update_control control) (pd_controls db)
         else pd_controls db @ [control])\<rparr>"

text \<open>Identifiers are assigned by AUTOINCREMENT and never reused.\<close>

fun append_outbox :: "pilot_db \<Rightarrow> audit_event list \<Rightarrow> pilot_db" where
  "append_outbox db [] = db"
| "append_outbox db (e # es) =
     append_outbox (db\<lparr>pd_outbox := pd_outbox db @ [(pd_next db, e)], pd_next := pd_next db + 1\<rparr>) es"

definition pilot_commit ::
  "(pilot_row \<Rightarrow> store_error + autopilot_session) \<Rightarrow> pilot_db \<Rightarrow> autopilot_session option
     \<Rightarrow> pilot_control option \<Rightarrow> audit_event list \<Rightarrow> store_error + pilot_db" where
  "pilot_commit decode db state control events =
     (case (case state of None \<Rightarrow> Inr db | Some st \<Rightarrow> pilot_save decode db st) of
        Inl e \<Rightarrow> Inl e
      | Inr db' \<Rightarrow>
          Inr (append_outbox (case control of None \<Rightarrow> db' | Some c \<Rightarrow> saveControl db' c) events))"

definition issue_control :: "string \<Rightarrow> pilot_control \<Rightarrow> pilot_control" where
  "issue_control now c = c\<lparr>co_status := ControlIssued, co_updated := now\<rparr>"

definition claimControlIssued ::
  "(pilot_row \<Rightarrow> store_error + autopilot_session) \<Rightarrow> pilot_db \<Rightarrow> string \<Rightarrow> string \<Rightarrow> string
     \<Rightarrow> autopilot_session option \<Rightarrow> audit_event list
     \<Rightarrow> store_error + (pilot_control option \<times> pilot_db)" where
  "claimControlIssued decode db session control now state events =
     (case find_control db session control of
        None \<Rightarrow> Inr (None, db)
      | Some c \<Rightarrow>
          if co_status c \<noteq> ControlScheduled then Inr (None, db)
          else let db' = db\<lparr>pd_controls := update_where (\<lambda>c. control_key c = (session, control)
                              \<and> co_status c = ControlScheduled) (issue_control now) (pd_controls db)\<rparr> in
               (case find_control db' session control of
                  None \<Rightarrow> Inl ControlMissing
                | Some claimed \<Rightarrow>
                    (case pilot_commit decode db' state None events of
                       Inl e \<Rightarrow> Inl e
                     | Inr db'' \<Rightarrow> Inr (Some claimed, db''))))"

definition drainOutbox :: "pilot_db \<Rightarrow> string \<Rightarrow> (nat \<times> audit_event) list" where
  "drainOutbox db session = filter (\<lambda>(i, e). ae_session e = session) (pd_outbox db)"

definition acknowledgeOutbox :: "pilot_db \<Rightarrow> nat \<Rightarrow> pilot_db" where
  "acknowledgeOutbox db i = db\<lparr>pd_outbox := filter (\<lambda>(j, e). j \<noteq> i) (pd_outbox db)\<rparr>"

definition acceptedControlTurns :: "pilot_db \<Rightarrow> string \<Rightarrow> (string \<times> string) list" where
  "acceptedControlTurns db session =
     map (\<lambda>c. (the (co_turn c), co_id c))
       (filter (\<lambda>c. co_session c = session \<and> co_status c = ControlStarted \<and> co_turn c \<noteq> None)
         (pd_controls db))"

definition automaticActionsSince :: "pilot_db \<Rightarrow> string \<Rightarrow> string \<Rightarrow> nat" where
  "automaticActionsSince db session since =
     length (filter (\<lambda>c. co_session c = session
         \<and> co_status c \<in> {ControlIssued, ControlStarted, ControlFailed}
         \<and> 0 \<le> code_unit_compare (co_updated c) since) (pd_controls db))"

definition controlIds :: "pilot_db \<Rightarrow> string \<Rightarrow> string list" where
  "controlIds db session = map co_id (filter (\<lambda>c. co_session c = session) (pd_controls db))"

definition pilot_remove :: "pilot_db \<Rightarrow> string \<Rightarrow> pilot_db" where
  "pilot_remove db session = db\<lparr>pd_rows := filter (\<lambda>r. pr_session r \<noteq> session) (pd_rows db)\<rparr>"

end
