(* ===== verification/Autopilot_Store_Facts.thy ===== *)
theory Autopilot_Store_Facts
  imports Autopilot_Store
begin

text \<open>
  What the store of automatic supervision promises: a saved session is read back, every row written
  is readable, a control command is claimed at most once and never moves backwards, recovery of an
  unreadable row keeps the evidence and cancels what was scheduled.
\<close>

subsection \<open>Reading back what was written\<close>

lemma state_names_again [simp]: "map_of pilot_state_names (name_of pilot_state_names s) = Some s"
  by (cases s) (simp_all add: pilot_state_names_def)

lemma stop_names_again [simp]:
  "decode_stop (map_option (name_of stop_reason_names) r) = Some r"
proof (cases r)
  case (Some x)
  then show ?thesis by (cases x) (simp_all add: stop_reason_names_def)
qed simp

lemma status_again:
  "parse_status_code v = Some i \<Longrightarrow> parse_status_code (JNum (of_int i)) = Some i"
  by (auto simp: parse_status_code_def split: jv.splits if_splits)

lemma attempt_again: "parse_attempt v = Some i \<Longrightarrow> parse_attempt (JNum (of_int i)) = Some i"
  by (auto simp: parse_attempt_def split: jv.splits if_splits)

lemma failure_again:
  assumes "parseProviderFailure v = Some f"
  shows "parseProviderFailure (failure_value f) = Some f"
proof -
  from assms obtain fs where "is_failure_code (pvf_code f)"
    and http: "optional parse_status_code (field_of fs ''httpStatusCode'') = Some (pvf_http f)"
    by (clarsimp simp: parseProviderFailure_def bind_eq_Some_conv)
  moreover have "optional parse_status_code
      (coalesce (map_option (\<lambda>i. JNum (of_int i)) (pvf_http f)) JUndef) = Some (pvf_http f)"
    by (rule optional_again [OF http status_again]) simp_all
  ultimately show ?thesis
    by (simp add: parseProviderFailure_def failure_value_def)
qed

lemma retry_again:
  assumes "parseProviderRetry dp v = Some r"
  shows "parseProviderRetry dp (retry_value r) = Some r"
  using assms attempt_again
  by (clarsimp simp: parseProviderRetry_def retry_value_def bind_eq_Some_conv)

text \<open>The parts of a session that earlier passed a reader.\<close>

definition admitted :: "(string \<Rightarrow> int option) \<Rightarrow> autopilot_session \<Rightarrow> bool" where
  "admitted dp st \<longleftrightarrow>
     (\<exists>v. parsePersistedSupervisedLifecycle dp v = Some (pilot_lifecycle st))
     \<and> lifecycle_canonical (pilot_lifecycle st)
     \<and> (\<forall>f. au_failure st = Some f \<longrightarrow> (\<exists>v. parseProviderFailure v = Some f))
     \<and> (\<forall>r. au_retry st = Some r \<longrightarrow> (\<exists>v. parseProviderRetry dp v = Some r))
     \<and> (\<forall>t. au_failure_turn st = Some t \<longrightarrow> t \<noteq> [] \<and> length t \<le> 256)"

definition stored_parts :: "autopilot_session \<Rightarrow> stored_lifecycle" where
  "stored_parts st =
     \<lparr> st_lifecycle = pilot_lifecycle st, st_failure = au_failure st,
       st_failure_turn = au_failure_turn st, st_retry = au_retry st \<rparr>"

lemma provider_keys [simp]:
  "field_of (provider_fields st) k = JUndef"
  if "k \<in> {''executor'', ''blocking'', ''supervision'', ''checkpoints''}" for k
  using that by (auto simp: provider_fields_def)

lemma provider_values:
  "field_of (lifecycle_fields pl @ provider_fields st) ''providerFailure''
     = coalesce (map_option failure_value (au_failure st)) JUndef"
  "field_of (lifecycle_fields pl @ provider_fields st) ''providerRetry''
     = coalesce (map_option retry_value (au_retry st)) JUndef"
  "field_of (lifecycle_fields pl @ provider_fields st) ''providerFailureTurnId''
     = coalesce (map_option JStr (au_failure_turn st)) JUndef"
  by (simp_all add: lifecycle_fields_def provider_fields_def)

lemma provider_again:
  assumes "admitted dp st"
  shows "optional parseProviderFailure (coalesce (map_option failure_value (au_failure st)) JUndef)
      = Some (au_failure st)"
    and "optional (parseProviderRetry dp) (coalesce (map_option retry_value (au_retry st)) JUndef)
      = Some (au_retry st)"
    and "optional turn_text (coalesce (map_option JStr (au_failure_turn st)) JUndef)
      = Some (au_failure_turn st)"
  using assms failure_again retry_again
  by (cases "au_failure st"; cases "au_retry st"; cases "au_failure_turn st";
      force simp: admitted_def optional_def failure_value_def retry_value_def turn_text_def truthy_def)+

lemma present_Nil [simp]: "present k v = [] \<longleftrightarrow> v = None"
  by (cases v) simp_all

lemma lifecycle_read_back:
  assumes "admitted dp st"
  shows "parseLifecycle dp text_bytes (lifecycle_json st)
      = (case lifecycle_json st of
           None \<Rightarrow> Some (stored_parts st)
         | Some v \<Rightarrow> if text_bytes v > max_record_bytes then None else Some (stored_parts st))"
proof (cases "lifecycle_json st")
  case None
  then have "stored_parts st = no_lifecycle"
    by (simp add: lifecycle_json_def Let_def lifecycle_fields_def provider_fields_def
        stored_parts_def pilot_lifecycle_def no_lifecycle_def split: if_splits)
  with None show ?thesis by (simp add: parseLifecycle_def)
next
  case (Some v)
  then have v: "v = JObj (lifecycle_fields (pilot_lifecycle st) @ provider_fields st)"
    by (simp add: lifecycle_json_def Let_def split: if_splits)
  from assms have "parsePersistedSupervisedLifecycle dp v = Some (pilot_lifecycle st)"
    unfolding v admitted_def by (auto intro!: lifecycle_again)
  with Some show ?thesis
    by (simp add: parseLifecycle_def v provider_values provider_again [OF assms] stored_parts_def)
qed

lemma decodeRow_Inr:
  "decodeRow dp text_bytes row_bytes row = Inr st \<longleftrightarrow>
     (\<exists>l state stop. parseLifecycle dp text_bytes (pr_lifecycle row) = Some l
        \<and> row_bytes row \<le> max_record_bytes
        \<and> (case pr_fingerprint row of None \<Rightarrow> True | Some f \<Rightarrow> parsePlanFingerprint (JStr f) \<noteq> None)
        \<and> map_of pilot_state_names (pr_state row) = Some state \<and> decode_stop (pr_stop row) = Some stop
        \<and> safe_count (pr_generation row) \<and> safe_count (pr_count row)
        \<and> (pr_enabled row = 0 \<or> pr_enabled row = 1) \<and> st = session_of row state stop l)"
  by (cases "parseLifecycle dp text_bytes (pr_lifecycle row)";
      cases "map_of pilot_state_names (pr_state row)"; cases "decode_stop (pr_stop row)")
    (auto simp: decodeRow_def guard_def)

lemma session_of_row: "session_of (row_of st) (au_state st) (au_stop st) (stored_parts st) = st"
  by (simp add: session_of_def row_of_def stored_parts_def pilot_lifecycle_def)

lemma row_of_fields [simp]:
  "pr_session (row_of st) = au_session st" "pr_lifecycle (row_of st) = lifecycle_json st"
  "pr_state (row_of st) = name_of pilot_state_names (au_state st)"
  "pr_stop (row_of st) = map_option (name_of stop_reason_names) (au_stop st)"
  by (simp_all add: row_of_def)

lemma decodeRow_own:
  assumes "admitted dp st" and "decodeRow dp text_bytes row_bytes (row_of st) = Inr st'"
  shows "st' = st"
proof -
  from assms(2) obtain l where "parseLifecycle dp text_bytes (lifecycle_json st) = Some l"
    and "st' = session_of (row_of st) (au_state st) (au_stop st) l"
    by (auto simp: decodeRow_Inr)
  moreover from this(1) have "l = stored_parts st"
    by (simp add: lifecycle_read_back [OF assms(1)] split: option.splits if_splits)
  ultimately show ?thesis by (simp add: session_of_row)
qed

lemma find_after_save:
  assumes "pilot_save decode db st = Inr db'"
  shows "List.find (\<lambda>r. pr_session r = s) (pd_rows db')
      = (if s = au_session st then Some (row_of st) else List.find (\<lambda>r. pr_session r = s) (pd_rows db))"
    and "\<exists>st'. decode (row_of st) = Inr st'"
  using assms by (auto simp: pilot_save_def find_map_set split: sum.splits)

text \<open>
  C35: a saved session is read back exactly as it was, executor, protocol state, checkpoint ledger and
  provider diagnostics included, and saving it changes no other session, control or outbox event.
\<close>
theorem saved_session_is_read_back:
  assumes "pilot_save (decodeRow dp text_bytes row_bytes) db st = Inr db'" and "admitted dp st"
  shows "pilot_find (decodeRow dp text_bytes row_bytes) db' (au_session st) = Inr (Some st)
    \<and> (\<forall>s. s \<noteq> au_session st \<longrightarrow>
          pilot_find (decodeRow dp text_bytes row_bytes) db' s
            = pilot_find (decodeRow dp text_bytes row_bytes) db s)
    \<and> pd_controls db' = pd_controls db \<and> pd_outbox db' = pd_outbox db"
proof -
  let ?decode = "decodeRow dp text_bytes row_bytes"
  note found = find_after_save [OF assms(1)]
  from found(2) have "?decode (row_of st) = Inr st" using decodeRow_own [OF assms(2)] by blast
  with found(1) have "pilot_find ?decode db' (au_session st) = Inr (Some st)"
    by (simp add: pilot_find_def)
  moreover have "pd_controls db' = pd_controls db \<and> pd_outbox db' = pd_outbox db"
    using assms(1) by (auto simp: pilot_save_def split: sum.splits)
  ultimately show ?thesis using found(1) by (simp add: pilot_find_def)
qed

definition stored_session :: autopilot_session where
  "stored_session =
     (disabledAutopilot ''s'' ''2026-01-01T00:00:00.000Z'')
       \<lparr>au_state := PilotBackoff, au_enabled := True, au_stop := None, au_generation := 4,
        au_executor := pl_executor sample_lifecycle, au_checkpoints := Some sample_ledger,
        au_failure := Some \<lparr> pvf_code = ''serverOverloaded'', pvf_http = Some 503 \<rparr>,
        au_failure_turn := Some ''t''\<rparr>"

definition empty_db :: pilot_db where
  "empty_db = \<lparr> pd_rows = [], pd_controls = [], pd_outbox = [], pd_next = 1, pd_quarantine = [] \<rparr>"

abbreviation "plain_decode \<equiv> decodeRow (\<lambda>_. Some 5) (\<lambda>_. 100) (\<lambda>_. 200)"

lemma stored_session_admitted: "admitted (\<lambda>_. Some 5) stored_session"
proof -
  have "parsePersistedSupervisedLifecycle (\<lambda>_. Some 5) (JObj (lifecycle_fields sample_lifecycle))
      = Some (pilot_lifecycle stored_session)"
    by code_simp
  moreover have "lifecycle_canonical (pilot_lifecycle stored_session)" by code_simp
  moreover have "parseProviderFailure (JObj [(''code'', JStr ''serverOverloaded''), (''httpStatusCode'', JNum 503)])
      = au_failure stored_session"
    by code_simp
  ultimately show ?thesis
    by (auto simp: admitted_def stored_session_def disabledAutopilot_def)
qed

theorem saved_session_is_read_back_witness:
  "\<exists>db. pilot_save plain_decode empty_db stored_session = Inr db
     \<and> pilot_find plain_decode db ''s'' = Inr (Some stored_session)"
proof -
  have "parseLifecycle (\<lambda>_. Some 5) (\<lambda>_. 100) (lifecycle_json stored_session)
      = Some (stored_parts stored_session)"
    by (simp add: lifecycle_read_back [OF stored_session_admitted] max_record_bytes_def
        split: option.splits)
  moreover have "au_fingerprint stored_session = None" "au_no_progress stored_session = 0"
    "au_generation stored_session = 4"
    by (simp_all add: stored_session_def disabledAutopilot_def)
  ultimately have "\<exists>st. plain_decode (row_of stored_session) = Inr st"
    by (auto simp: decodeRow_Inr row_of_def safe_count_def max_safe_def max_record_bytes_def)
  then obtain db where db: "pilot_save plain_decode empty_db stored_session = Inr db"
    by (auto simp: pilot_save_def split: sum.splits)
  have "au_session stored_session = ''s''" by (simp add: stored_session_def disabledAutopilot_def)
  with saved_session_is_read_back [OF db stored_session_admitted] db show ?thesis by auto
qed

subsection \<open>Every sequence of operations\<close>

datatype pilot_event =
    SaveState autopilot_session
  | RecoverState string string
  | CommitAll "autopilot_session option" "pilot_control option" "audit_event list"
  | ClaimControl string string string "autopilot_session option" "audit_event list"
  | Acknowledge nat
  | RemoveState string

text \<open>An operation that raises leaves the database as it was: the transaction is rolled back.\<close>

fun pilot_try ::
  "(pilot_row \<Rightarrow> store_error + autopilot_session) \<Rightarrow> pilot_db \<Rightarrow> pilot_event \<Rightarrow> store_error + pilot_db" where
  "pilot_try decode db (SaveState st) = pilot_save decode db st"
| "pilot_try decode db (RecoverState s now) = recoverInvalid decode db s now"
| "pilot_try decode db (CommitAll st c es) = pilot_commit decode db st c es"
| "pilot_try decode db (ClaimControl s c now st es) = map_sum id snd (claimControlIssued decode db s c now st es)"
| "pilot_try decode db (Acknowledge i) = Inr (acknowledgeOutbox db i)"
| "pilot_try decode db (RemoveState s) = Inr (pilot_remove db s)"

definition pilot_step ::
  "(pilot_row \<Rightarrow> store_error + autopilot_session) \<Rightarrow> pilot_db \<Rightarrow> pilot_event \<Rightarrow> pilot_db" where
  "pilot_step decode db e = (case pilot_try decode db e of Inl _ \<Rightarrow> db | Inr db' \<Rightarrow> db')"

definition unreadable :: "(pilot_row \<Rightarrow> store_error + autopilot_session) \<Rightarrow> pilot_row \<Rightarrow> bool" where
  "unreadable decode row \<longleftrightarrow> \<not> (\<exists>st. decode row = Inr st)"

definition outbox_ok :: "pilot_db \<Rightarrow> bool" where
  "outbox_ok db \<longleftrightarrow> sorted_wrt (<) (map fst (pd_outbox db)) \<and> (\<forall>i \<in> set (map fst (pd_outbox db)). i < pd_next db)"

definition tables_ok :: "pilot_db \<Rightarrow> bool" where
  "tables_ok db \<longleftrightarrow> keys_distinct pr_session (pd_rows db) \<and> keys_distinct control_key (pd_controls db) \<and> outbox_ok db"

definition store_ok ::
  "(pilot_row \<Rightarrow> store_error + autopilot_session) \<Rightarrow> pilot_row set \<Rightarrow> pilot_db \<Rightarrow> bool" where
  "store_ok decode bad db \<longleftrightarrow> tables_ok db \<and> (\<forall>r \<in> set (pd_rows db). unreadable decode r \<longrightarrow> r \<in> bad)"

lemma append_outbox_keeps [simp]:
  "pd_rows (append_outbox db es) = pd_rows db" "pd_controls (append_outbox db es) = pd_controls db"
  "pd_quarantine (append_outbox db es) = pd_quarantine db"
  by (induction db es rule: append_outbox.induct) simp_all

lemma append_outbox_ok: "outbox_ok db \<Longrightarrow> outbox_ok (append_outbox db es)"
  by (induction db es rule: append_outbox.induct)
    (auto simp: outbox_ok_def sorted_wrt_append less_Suc_eq)

lemma update_control_key [simp]: "control_key (update_control new old) = control_key old"
  by (simp add: update_control_def control_key_def)

lemma issue_control_key [simp]: "control_key (issue_control now c) = control_key c"
  by (simp add: issue_control_def control_key_def)

lemma cancel_scheduled_key [simp]: "control_key (cancel_scheduled s now c) = control_key c"
  by (simp add: cancel_scheduled_def control_key_def)

lemma saveControl_ok:
  assumes "store_ok decode bad db"
  shows "store_ok decode bad (saveControl db c)"
  using assms
  by (auto simp: store_ok_def tables_ok_def outbox_ok_def saveControl_def keys_distinct_update
      keys_distinct_append1)

lemma save_ok:
  assumes "store_ok decode bad db" and "pilot_save decode db st = Inr db'"
  shows "store_ok decode bad db'"
proof -
  from assms(2) obtain st' where "decode (row_of st) = Inr st'"
    and db': "db' = db\<lparr>pd_rows := map_set pr_session (row_of st) (pd_rows db)\<rparr>"
    by (auto simp: pilot_save_def split: sum.splits)
  then have "\<not> unreadable decode (row_of st)" by (simp add: unreadable_def)
  with set_map_set [of pr_session "row_of st" "pd_rows db"] assms(1) show ?thesis
    unfolding db' by (auto simp: store_ok_def tables_ok_def outbox_ok_def map_set_distinct)
qed

lemma commit_cases:
  assumes "pilot_commit decode db st c es = Inr db'"
  obtains db1 where "db1 = db \<or> (\<exists>st. pilot_save decode db st = Inr db1)"
    and "db' = append_outbox (case c of None \<Rightarrow> db1 | Some c \<Rightarrow> saveControl db1 c) es"
  using assms by (auto simp: pilot_commit_def split: sum.splits option.splits)

lemma commit_ok:
  assumes "store_ok decode bad db" and "pilot_commit decode db st c es = Inr db'"
  shows "store_ok decode bad db'"
proof -
  from assms(2) obtain db1 where db1: "db1 = db \<or> (\<exists>st. pilot_save decode db st = Inr db1)"
    and db': "db' = append_outbox (case c of None \<Rightarrow> db1 | Some c \<Rightarrow> saveControl db1 c) es"
    by (rule commit_cases)
  from db1 assms(1) save_ok have "store_ok decode bad db1" by blast
  then have "store_ok decode bad (case c of None \<Rightarrow> db1 | Some c \<Rightarrow> saveControl db1 c)"
    by (auto simp: saveControl_ok split: option.splits)
  then show ?thesis unfolding db' by (auto simp: store_ok_def tables_ok_def append_outbox_ok)
qed

lemma recover_cases:
  assumes "recoverInvalid decode db s now = Inr db'"
  obtains "db' = db"
  | row db1 where "List.find (\<lambda>r. pr_session r = s) (pd_rows db) = Some row" and "unreadable decode row"
      and "pilot_save decode (db\<lparr>pd_quarantine := pd_quarantine db @ [(s, row, now)]\<rparr>)
             (disabledAutopilot s now) = Inr db1"
      and "db' = db1\<lparr>pd_controls := map (cancel_scheduled s now) (pd_controls db1)\<rparr>"
  using assms by (auto simp: recoverInvalid_def unreadable_def split: option.splits sum.splits)

lemma map_cancel_keys: "keys_distinct control_key (map (cancel_scheduled s now) cs) = keys_distinct control_key cs"
  by (simp add: keys_distinct_def comp_def)

lemma store_recover_ok:
  assumes "store_ok decode bad db" and "recoverInvalid decode db s now = Inr db'"
  shows "store_ok decode bad db'"
  using assms(2)
proof (cases rule: recover_cases)
  case 1
  with assms(1) show ?thesis by simp
next
  case (2 row db1)
  from assms(1) have "store_ok decode bad (db\<lparr>pd_quarantine := pd_quarantine db @ [(s, row, now)]\<rparr>)"
    by (simp add: store_ok_def tables_ok_def outbox_ok_def)
  with 2(3) have "store_ok decode bad db1" by (rule save_ok [rotated])
  then show ?thesis by (simp add: 2(4) store_ok_def tables_ok_def outbox_ok_def map_cancel_keys)
qed

lemma find_control_key: "find_control db s c = Some k \<Longrightarrow> control_key k = (s, c)"
  by (auto simp: find_control_def dest: find_key_Some)

lemma claim_cases:
  assumes "claimControlIssued decode db s c now st es = Inr (k, db')"
  obtains "k = None" and "db' = db"
  | k0 where "find_control db s c = Some k0" and "co_status k0 = ControlScheduled"
      and "k = Some (issue_control now k0)"
      and "pilot_commit decode (db\<lparr>pd_controls := update_where (\<lambda>k. control_key k = (s, c)
             \<and> co_status k = ControlScheduled) (issue_control now) (pd_controls db)\<rparr>) st None es = Inr db'"
proof (cases "find_control db s c")
  case None
  with assms that(1) show ?thesis by (simp add: claimControlIssued_def)
next
  case (Some k0)
  then have "control_key k0 = (s, c)" by (rule find_control_key)
  with Some assms that show ?thesis
    by (auto simp: claimControlIssued_def Let_def find_control_def find_update_key
        split: option.splits sum.splits if_splits)
qed

lemma claim_ok:
  assumes "store_ok decode bad db" and "claimControlIssued decode db s c now st es = Inr (k, db')"
  shows "store_ok decode bad db'"
  using assms(2)
proof (cases rule: claim_cases)
  case 1
  with assms(1) show ?thesis by simp
next
  case (2 k0)
  from assms(1) have "store_ok decode bad (db\<lparr>pd_controls := update_where (\<lambda>k. control_key k = (s, c)
      \<and> co_status k = ControlScheduled) (issue_control now) (pd_controls db)\<rparr>)"
    by (simp add: store_ok_def tables_ok_def outbox_ok_def keys_distinct_update)
  with 2(4) show ?thesis by (rule commit_ok [rotated])
qed

lemma pilot_try_ok:
  assumes "store_ok decode bad db" and "pilot_try decode db e = Inr db'"
  shows "store_ok decode bad db'"
proof (cases e)
  case (ClaimControl s c now st es)
  with assms show ?thesis
    by (cases "claimControlIssued decode db s c now st es") (auto intro: claim_ok)
next
  case (Acknowledge i)
  with assms show ?thesis
    by (fastforce simp: store_ok_def tables_ok_def outbox_ok_def acknowledgeOutbox_def sorted_wrt_map
        sorted_wrt_filter)
next
  case (RemoveState s)
  with assms show ?thesis
    by (fastforce simp: store_ok_def tables_ok_def outbox_ok_def pilot_remove_def keys_distinct_filter)
qed (use assms in \<open>auto intro: save_ok commit_ok store_recover_ok\<close>)

interpretation pilot_store: stepper "pilot_step decode" "store_ok decode bad"
  by unfold_locales (auto simp: pilot_step_def intro: pilot_try_ok split: sum.splits)

text \<open>
  C37: whatever sequence of operations is applied to a database, accepted or rejected, sessions and
  controls stay unique, the outbox stays in the order of its identifiers, none of which is reused, and
  every row that the reader rejects was already in the database at the start: nothing the store
  writes is unreadable.
\<close>
theorem store_writes_are_readable:
  assumes "tables_ok db"
  shows "tables_ok (run_steps (pilot_step decode) db es)
    \<and> {r \<in> set (pd_rows (run_steps (pilot_step decode) db es)). unreadable decode r}
        \<subseteq> {r \<in> set (pd_rows db). unreadable decode r}"
proof -
  have "store_ok decode {r \<in> set (pd_rows db). unreadable decode r} db"
    using assms by (simp add: store_ok_def)
  from pilot_store.run_inv [OF this] show ?thesis by (auto simp: store_ok_def)
qed

theorem store_writes_are_readable_witness:
  "{r \<in> set (pd_rows (run_steps (pilot_step plain_decode) empty_db [SaveState stored_session])).
      unreadable plain_decode r} = {}"
proof -
  have "tables_ok empty_db" by (simp add: tables_ok_def outbox_ok_def empty_db_def)
  from store_writes_are_readable [OF this, of plain_decode "[SaveState stored_session]"]
  show ?thesis by (simp add: empty_db_def)
qed

subsection \<open>Controls move forward\<close>

definition control_after :: "control_status \<Rightarrow> control_status \<Rightarrow> bool" where
  "control_after old new \<longleftrightarrow>
     old = new \<or> (old = ControlScheduled \<and> new \<noteq> ControlScheduled)
     \<or> (old = ControlIssued \<and> (new = ControlStarted \<or> new = ControlFailed))"

definition control_from :: "pilot_control \<Rightarrow> pilot_db \<Rightarrow> bool" where
  "control_from k db \<longleftrightarrow>
     (\<exists>k'. find_control db (co_session k) (co_id k) = Some k' \<and> co_created k' = co_created k
        \<and> control_after (co_status k) (co_status k') \<and> (co_turn k \<noteq> None \<longrightarrow> co_turn k' \<noteq> None))"

lemma control_from_update:
  assumes "control_from k db"
    and keys: "\<And>c. control_key (f c) = control_key c" and created: "\<And>c. co_created (f c) = co_created c"
    and moves: "\<And>c. P c \<Longrightarrow> control_after (co_status c) (co_status (f c)) \<and> (co_turn c \<noteq> None \<longrightarrow> co_turn (f c) \<noteq> None)"
    and rows: "pd_controls db' = update_where P f (pd_controls db)"
  shows "control_from k db'"
proof -
  have "find_control db' s c = map_option (\<lambda>k. if P k then f k else k) (find_control db s c)" for s c
    by (simp add: find_control_def rows find_update_key keys)
  with assms(1) obtain k' where k': "find_control db' (co_session k) (co_id k) = Some (if P k' then f k' else k')"
    "co_created k' = co_created k" "control_after (co_status k) (co_status k')"
    "co_turn k \<noteq> None \<longrightarrow> co_turn k' \<noteq> None"
    by (auto simp: control_from_def)
  moreover have "P k' \<Longrightarrow> control_after (co_status k) (co_status (f k'))"
    using moves [of k'] k'(3) by (auto simp: control_after_def)
  ultimately show ?thesis
    using created moves [of k'] by (auto simp: control_from_def)
qed

lemma control_from_cong: "pd_controls db' = pd_controls db \<Longrightarrow> control_from k db' = control_from k db"
  by (simp add: control_from_def find_control_def)

lemma save_controls: "pilot_save decode db st = Inr db' \<Longrightarrow> pd_controls db' = pd_controls db"
  by (auto simp: pilot_save_def split: sum.splits)

lemma saveControl_from:
  assumes "control_from k db"
  shows "control_from k (saveControl db c)"
proof (cases "\<exists>x \<in> set (pd_controls db). control_key x = control_key c")
  case True
  show ?thesis
  proof (rule control_from_update [OF assms, where f = "update_control c"
        and P = "\<lambda>x. control_key x = control_key c"])
    show "co_created (update_control c x) = co_created x" for x
      by (simp add: update_control_def)
    show "control_after (co_status x) (co_status (update_control c x))
        \<and> (co_turn x \<noteq> None \<longrightarrow> co_turn (update_control c x) \<noteq> None)" for x
      by (cases "co_status x"; cases "co_status c"; cases "co_turn x")
        (simp_all add: update_control_def control_moves_def control_after_def)
  qed (use True in \<open>auto simp: saveControl_def\<close>)
next
  case False
  with assms show ?thesis
    by (auto simp: control_from_def find_control_def saveControl_def find_append)
qed

lemma commit_from:
  assumes "control_from k db" and "pilot_commit decode db st c es = Inr db'"
  shows "control_from k db'"
proof -
  from assms(2) obtain db1 where "db1 = db \<or> (\<exists>st. pilot_save decode db st = Inr db1)"
    and db': "db' = append_outbox (case c of None \<Rightarrow> db1 | Some c \<Rightarrow> saveControl db1 c) es"
    by (rule commit_cases)
  then have "pd_controls db1 = pd_controls db" by (auto dest: save_controls)
  from control_from_cong [OF this] assms(1) have "control_from k db1" by blast
  then have "control_from k (case c of None \<Rightarrow> db1 | Some c \<Rightarrow> saveControl db1 c)"
    by (auto simp: saveControl_from split: option.splits)
  then show ?thesis unfolding db' by (simp add: control_from_def find_control_def)
qed

lemma cancel_scheduled_update:
  "map (cancel_scheduled s now) cs
     = update_where (\<lambda>c. co_session c = s \<and> co_status c = ControlScheduled)
         (\<lambda>c. c\<lparr>co_status := ControlCancelled, co_updated := now\<rparr>) cs"
  by (induction cs) (simp_all add: cancel_scheduled_def)

lemma recover_from:
  assumes "control_from k db" and "recoverInvalid decode db s now = Inr db'"
  shows "control_from k db'"
  using assms(2)
proof (cases rule: recover_cases)
  case 1
  with assms(1) show ?thesis by simp
next
  case (2 row db1)
  from save_controls [OF 2(3)] have
    "pd_controls db' = update_where (\<lambda>c. co_session c = s \<and> co_status c = ControlScheduled)
       (\<lambda>c. c\<lparr>co_status := ControlCancelled, co_updated := now\<rparr>) (pd_controls db)"
    by (simp add: 2(4) cancel_scheduled_update)
  then show ?thesis
    by (rule control_from_update [OF assms(1), rotated -1]) (simp_all add: control_key_def control_after_def)
qed

lemma claim_from:
  assumes "control_from k db" and "claimControlIssued decode db s c now st es = Inr (claimed, db')"
  shows "control_from k db'"
  using assms(2)
proof (cases rule: claim_cases)
  case 1
  with assms(1) show ?thesis by simp
next
  case (2 k0)
  let ?db = "db\<lparr>pd_controls := update_where (\<lambda>k. control_key k = (s, c) \<and> co_status k = ControlScheduled)
      (issue_control now) (pd_controls db)\<rparr>"
  have "pd_controls ?db = update_where (\<lambda>k. control_key k = (s, c) \<and> co_status k = ControlScheduled)
      (issue_control now) (pd_controls db)"
    by simp
  then have "control_from k ?db"
    by (rule control_from_update [OF assms(1), rotated -1])
      (simp_all add: issue_control_def control_key_def control_after_def)
  from commit_from [OF this 2(4)] show ?thesis .
qed

lemma pilot_try_from:
  assumes "control_from k db" and "pilot_try decode db e = Inr db'"
  shows "control_from k db'"
proof (cases e)
  case (SaveState st)
  with assms have "pilot_save decode db st = Inr db'" by simp
  from control_from_cong [OF save_controls [OF this]] assms(1) show ?thesis by blast
next
  case (ClaimControl s c now st es)
  with assms show ?thesis
    by (cases "claimControlIssued decode db s c now st es") (auto intro: claim_from)
next
  case (Acknowledge i)
  with assms show ?thesis by (auto simp: acknowledgeOutbox_def control_from_def find_control_def)
next
  case (RemoveState s)
  with assms show ?thesis by (auto simp: pilot_remove_def control_from_def find_control_def)
qed (use assms in \<open>auto intro: commit_from recover_from\<close>)

interpretation pilot_control: trapping_stepper "pilot_step decode" "\<lambda>_. True" "control_from k" "\<lambda>_. False"
  by unfold_locales (auto simp: pilot_step_def intro: pilot_try_from split: sum.splits)

text \<open>
  C36: a control command is claimed at most once. After a claim has succeeded, whatever is done to the
  database, saves, commits of stale copies of the control, recoveries and other claims included, a
  second claim of the same command finds nothing to claim and changes nothing; its status has only
  moved forward, from issued to started or failed, and its creation time is the original one.
\<close>
theorem control_is_claimed_once:
  assumes "claimControlIssued decode db s c now st es = Inr (Some k, db')"
  shows "claimControlIssued decode (run_steps (pilot_step decode) db' ops) s c now' st' es'
        = Inr (None, run_steps (pilot_step decode) db' ops)
    \<and> (\<exists>k'. find_control (run_steps (pilot_step decode) db' ops) s c = Some k'
          \<and> co_status k' \<in> {ControlIssued, ControlStarted, ControlFailed} \<and> co_created k' = co_created k)"
  using assms
proof (cases rule: claim_cases)
  case (2 k0)
  let ?db = "db\<lparr>pd_controls := update_where (\<lambda>k. control_key k = (s, c) \<and> co_status k = ControlScheduled)
      (issue_control now) (pd_controls db)\<rparr>"
  let ?final = "run_steps (pilot_step decode) db' ops"
  have key: "co_session k0 = s" "co_id k0 = c"
    using find_control_key [OF 2(1)] by (simp_all add: control_key_def)
  have k: "k = issue_control now k0" using 2(3) by simp
  have "find_control ?db s c = Some k"
    using 2(1,2) find_control_key [OF 2(1)] by (simp add: find_control_def find_update_key k)
  then have "control_from k ?db"
    using key by (auto simp: control_from_def control_after_def k issue_control_def)
  from commit_from [OF this 2(4)] have "control_from k db'" .
  then have "control_from k ?final" by (rule pilot_control.trapped_run) simp
  then obtain k' where k': "find_control ?final s c = Some k'"
    and "co_status k' \<in> {ControlIssued, ControlStarted, ControlFailed}" and "co_created k' = co_created k"
    using key by (auto simp: control_from_def control_after_def k issue_control_def)
  then show ?thesis by (auto simp: claimControlIssued_def)
qed simp

theorem control_is_claimed_once_witness:
  "\<exists>db. claimControlIssued plain_decode
      (empty_db\<lparr>pd_controls := [\<lparr> co_session = ''s'', co_id = ''c'', co_status = ControlScheduled,
         co_created = ''1'', co_updated = ''1'', co_failure = None, co_turn = None \<rparr>]\<rparr>)
      ''s'' ''c'' ''2'' None [] = Inr (Some \<lparr> co_session = ''s'', co_id = ''c'', co_status = ControlIssued,
         co_created = ''1'', co_updated = ''2'', co_failure = None, co_turn = None \<rparr>, db)
    \<and> claimControlIssued plain_decode db ''s'' ''c'' ''3'' None [] = Inr (None, db)"
proof -
  let ?k = "\<lparr> co_session = ''s'', co_id = ''c'', co_status = ControlScheduled,
      co_created = ''1'', co_updated = ''1'', co_failure = None, co_turn = None \<rparr>"
  let ?k' = "\<lparr> co_session = ''s'', co_id = ''c'', co_status = ControlIssued,
      co_created = ''1'', co_updated = ''2'', co_failure = None, co_turn = None \<rparr>"
  let ?db = "empty_db\<lparr>pd_controls := [?k']\<rparr>"
  have claim: "claimControlIssued plain_decode (empty_db\<lparr>pd_controls := [?k]\<rparr>) ''s'' ''c'' ''2'' None []
      = Inr (Some ?k', ?db)"
    by (simp add: claimControlIssued_def find_control_def control_key_def pilot_commit_def issue_control_def)
  from control_is_claimed_once [OF claim, where ops = "[]"] claim show ?thesis by auto
qed

subsection \<open>Recovery of an unreadable row\<close>

lemma cancelled_not_scheduled:
  "\<not> (co_session (cancel_scheduled s now c) = s \<and> co_status (cancel_scheduled s now c) = ControlScheduled)"
  by (cases "co_session c = s \<and> co_status c = ControlScheduled") (simp_all add: cancel_scheduled_def)

lemma others_uncancelled:
  "filter (\<lambda>c. co_session c \<noteq> s) (map (cancel_scheduled s now) cs) = filter (\<lambda>c. co_session c \<noteq> s) cs"
  by (induction cs) (simp_all add: cancel_scheduled_def)

lemma other_rows_set: "k r = x \<Longrightarrow> filter (\<lambda>y. k y \<noteq> x) (map_set k r rows) = filter (\<lambda>y. k y \<noteq> x) rows"
  by (auto simp: map_set_def update_where_def filter_map comp_def intro!: map_idI)

lemma nothing_scheduled:
  "filter (\<lambda>c. co_session c = s \<and> co_status c = ControlScheduled) (map (cancel_scheduled s now) cs) = []"
  using cancelled_not_scheduled by (induction cs) simp_all

lemma disabled_row_readable:
  assumes "row_bytes (row_of (disabledAutopilot s now)) \<le> max_record_bytes"
  shows "decodeRow dp text_bytes row_bytes (row_of (disabledAutopilot s now)) = Inr (disabledAutopilot s now)"
proof -
  have "lifecycle_json (disabledAutopilot s now) = None"
    by (simp add: lifecycle_json_def lifecycle_fields_def provider_fields_def pilot_lifecycle_def
        disabledAutopilot_def)
  moreover have "pilot_lifecycle (disabledAutopilot s now) = st_lifecycle no_lifecycle"
    by (simp add: pilot_lifecycle_def disabledAutopilot_def no_lifecycle_def)
  ultimately show ?thesis
    using assms
    by (simp add: decodeRow_Inr parseLifecycle_def row_of_def session_of_def disabledAutopilot_def
        no_lifecycle_def safe_count_def max_safe_def stop_reason_names_def)
qed

text \<open>
  C38: recovery of a session whose row the reader rejects replaces it by the disabled state, keeps the
  rejected row in quarantine and cancels exactly the controls of the session that were still scheduled.
  Every other control, the rows and controls of every other session, and the outbox stay as they were.
\<close>
theorem unreadable_state_is_quarantined:
  assumes "List.find (\<lambda>r. pr_session r = s) (pd_rows db) = Some row"
    and "unreadable (decodeRow dp text_bytes row_bytes) row"
    and "row_bytes (row_of (disabledAutopilot s now)) \<le> max_record_bytes"
  shows "\<exists>db'. recoverInvalid (decodeRow dp text_bytes row_bytes) db s now = Inr db'
    \<and> pilot_find (decodeRow dp text_bytes row_bytes) db' s = Inr (Some (disabledAutopilot s now))
    \<and> pd_quarantine db' = pd_quarantine db @ [(s, row, now)]
    \<and> pd_controls db' = map (\<lambda>c. if co_session c = s \<and> co_status c = ControlScheduled
          then c\<lparr>co_status := ControlCancelled, co_updated := now\<rparr> else c) (pd_controls db)
    \<and> filter (\<lambda>c. co_session c \<noteq> s) (pd_controls db') = filter (\<lambda>c. co_session c \<noteq> s) (pd_controls db)
    \<and> filter (\<lambda>r. pr_session r \<noteq> s) (pd_rows db') = filter (\<lambda>r. pr_session r \<noteq> s) (pd_rows db)
    \<and> pd_outbox db' = pd_outbox db \<and> pd_next db' = pd_next db
    \<and> {c \<in> set (pd_controls db'). co_session c = s \<and> co_status c = ControlScheduled} = {}
    \<and> (\<forall>s'. s' \<noteq> s \<longrightarrow> pilot_find (decodeRow dp text_bytes row_bytes) db' s'
                          = pilot_find (decodeRow dp text_bytes row_bytes) db s')"
proof -
  let ?decode = "decodeRow dp text_bytes row_bytes"
  let ?off = "disabledAutopilot s now"
  have own: "au_session ?off = s" by (simp add: disabledAutopilot_def)
  let ?db = "db\<lparr>pd_rows := map_set pr_session (row_of ?off) (pd_rows db),
      pd_controls := map (cancel_scheduled s now) (pd_controls db),
      pd_quarantine := pd_quarantine db @ [(s, row, now)]\<rparr>"
  have off: "?decode (row_of ?off) = Inr ?off"
    using assms(3) by (rule disabled_row_readable)
  from assms(2) obtain e where "?decode row = Inl e"
    by (cases "?decode row") (auto simp: unreadable_def)
  then have recovered: "recoverInvalid ?decode db s now = Inr ?db"
    by (simp add: recoverInvalid_def pilot_save_def assms(1) off)
  have found: "pilot_find ?decode ?db s' = (if s' = s then Inr (Some ?off) else pilot_find ?decode db s')" for s'
    by (simp add: pilot_find_def find_map_set own off)
  have "filter (\<lambda>c. co_session c = s \<and> co_status c = ControlScheduled) (pd_controls ?db) = []"
    by (simp add: nothing_scheduled)
  then have "{c \<in> set (pd_controls ?db). co_session c = s \<and> co_status c = ControlScheduled} = {}"
    unfolding filter_empty_conv by blast
  moreover have "pd_controls ?db = map (\<lambda>c. if co_session c = s \<and> co_status c = ControlScheduled
      then c\<lparr>co_status := ControlCancelled, co_updated := now\<rparr> else c) (pd_controls db)"
    by (simp add: cancel_scheduled_def)
  moreover have "pr_session (row_of ?off) = s" by (simp add: own row_of_def)
  ultimately show ?thesis
    using recovered found by (intro exI [of _ ?db] conjI) (simp_all add: others_uncancelled other_rows_set)
qed

definition waiting_control :: "string \<Rightarrow> pilot_control" where
  "waiting_control session = \<lparr> co_session = session, co_id = ''c'', co_status = ControlScheduled, co_created = ''1'',
     co_updated = ''1'', co_failure = None, co_turn = None \<rparr>"

theorem unreadable_state_is_quarantined_witness:
  "\<exists>db'. recoverInvalid plain_decode
       (empty_db\<lparr>pd_rows := [(row_of (disabledAutopilot ''s'' ''1''))\<lparr>pr_generation := - 1\<rparr>],
          pd_controls := [waiting_control ''s'', waiting_control ''t'']\<rparr>) ''s'' ''2'' = Inr db'
     \<and> pilot_find plain_decode db' ''s'' = Inr (Some (disabledAutopilot ''s'' ''2''))
     \<and> pd_controls db' = [(waiting_control ''s'')\<lparr>co_status := ControlCancelled, co_updated := ''2''\<rparr>, waiting_control ''t'']"
proof -
  let ?row = "(row_of (disabledAutopilot ''s'' ''1''))\<lparr>pr_generation := - 1\<rparr>"
  let ?db = "empty_db\<lparr>pd_rows := [?row], pd_controls := [waiting_control ''s'', waiting_control ''t'']\<rparr>"
  have row: "List.find (\<lambda>r. pr_session r = ''s'') (pd_rows ?db) = Some ?row"
    by (simp add: disabledAutopilot_def)
  moreover have "unreadable plain_decode ?row"
    by (simp add: unreadable_def decodeRow_Inr safe_count_def)
  moreover have "(200::nat) \<le> max_record_bytes" by (simp add: max_record_bytes_def)
  ultimately obtain db' where "recoverInvalid plain_decode ?db ''s'' ''2'' = Inr db'"
    "pilot_find plain_decode db' ''s'' = Inr (Some (disabledAutopilot ''s'' ''2''))"
    "pd_controls db' = map (\<lambda>c. if co_session c = ''s'' \<and> co_status c = ControlScheduled
       then c\<lparr>co_status := ControlCancelled, co_updated := ''2''\<rparr> else c) (pd_controls ?db)"
    using unreadable_state_is_quarantined [of "''s''" ?db] by blast
  then show ?thesis by (intro exI [of _ db']) (simp add: waiting_control_def)
qed

text \<open>The reader hands the text ''null'' on as a reason to stop, which is no reason of the union type.\<close>

lemma text_null_is_admitted:
  "\<exists>row st. plain_decode row = Inr st \<and> pr_stop row = Some ''null'' \<and> au_stop st = Some TextNull"
proof -
  let ?st = "(disabledAutopilot ''s'' ''1'')\<lparr>au_stop := Some TextNull\<rparr>"
  have "lifecycle_json ?st = None"
    by (simp add: lifecycle_json_def lifecycle_fields_def provider_fields_def pilot_lifecycle_def
        disabledAutopilot_def)
  moreover have "pilot_lifecycle ?st = st_lifecycle no_lifecycle"
    by (simp add: pilot_lifecycle_def disabledAutopilot_def no_lifecycle_def)
  ultimately have "plain_decode (row_of ?st) = Inr ?st"
    by (simp add: decodeRow_Inr parseLifecycle_def row_of_def session_of_def disabledAutopilot_def
        no_lifecycle_def safe_count_def max_safe_def max_record_bytes_def stop_reason_names_def)
  moreover have "pr_stop (row_of ?st) = Some ''null''" by (simp add: stop_reason_names_def)
  moreover have "au_stop ?st = Some TextNull" by simp
  ultimately show ?thesis by blast
qed

end
