(* ===== verification/Plan_Fingerprint.thy ===== *)
theory Plan_Fingerprint
  imports Progress_Key Lifecycle_Writer
begin

text \<open>
  \<open>fingerprint(plan)\<close> of src/server/features/autopilot/application/service.ts: the revision of a plan
  that fences commands, replacements, reviews and takeovers. Two plans have the same fingerprint
  exactly when their milestones and steps have the same identifiers, states, reviews and execution
  policies.
\<close>

definition child_row :: "plan_child \<Rightarrow> json" where
  "child_row c = OArr [OText (child_id c), OText (name_of todo_names (child_state c))]"

definition necessity_row :: "policy_necessity \<Rightarrow> json" where
  "necessity_row n = OObj
     ([(''kind'', OText (nec_kind n)), (''whyMediumInadequate'', OText (nec_why n)),
       (''evidence'', OText (nec_evidence n)), (''affectedScope'', OText (nec_scope n)),
       (''returnToMedium'', OText (nec_return n))]
      @ (case nec_reassessment n of None \<Rightarrow> [] | Some s \<Rightarrow> [(''scopeReassessment'', OText s)]))"

fun assurance_text :: "assurance option \<Rightarrow> string" where
  "assurance_text (Some RuntimeAttested) = ''runtime-attested''"
| "assurance_text _ = ''configured''"

text \<open>An absent policy leaves its three properties undefined, and \<open>JSON.stringify\<close> leaves them out.\<close>

definition policy_row :: "nat \<Rightarrow> assurance option \<Rightarrow> model_policy option \<Rightarrow> json" where
  "policy_row version assurance policy = OObj
     ([(''version'', OInt (int version)), (''assurance'', OText (assurance_text assurance))]
      @ (case policy of
           None \<Rightarrow> []
         | Some p \<Rightarrow> [(''model'', OText (mp_model p)), (''reasoningEffort'', OText (mp_effort p)),
             (''necessity'', (case mp_necessity p of None \<Rightarrow> ONull | Some n \<Rightarrow> necessity_row n))]))"

definition milestone_row :: "supervised_plan \<Rightarrow> plan_step \<Rightarrow> json" where
  "milestone_row plan s = OArr
     ([OText (step_id s), OText (name_of todo_names (step_state s)), review_json (step_review s),
       OArr (map child_row (step_children s))]
      @ (case plan_policy_version plan of
           Some v \<Rightarrow> if v = 0 then [] else [policy_row v (plan_assurance plan) (step_policy s)]
         | None \<Rightarrow> []))"

text \<open>\<open>None\<close> is \<open>AUTOPILOT_FINGERPRINT_INVALID\<close>, thrown for a text above the size limit.\<close>

definition plan_fingerprint :: "supervised_plan \<Rightarrow> string option" where
  "plan_fingerprint plan = requirePlanFingerprint (json_text (OArr (map (milestone_row plan) (plan_steps plan))))"

subsection \<open>What a fingerprint identifies\<close>

definition step_outline where
  "step_outline s = (step_id s, step_state s, step_review s, map (\<lambda>c. (child_id c, child_state c)) (step_children s))"

definition policy_outline where
  "policy_outline p = (mp_model p, mp_effort p, mp_necessity p)"

text \<open>The declared policies of a plan: absent in a plan without a version.\<close>

definition step_policy_outline where
  "step_policy_outline plan s =
     (case plan_policy_version plan of
        Some v \<Rightarrow> if v = 0 then None
          else Some (v, plan_assurance plan = Some RuntimeAttested, map_option policy_outline (step_policy s))
      | None \<Rightarrow> None)"

text \<open>The revision of a plan: everything the fingerprint depends on.\<close>

definition plan_outline where
  "plan_outline plan = map (\<lambda>s. (step_outline s, step_policy_outline plan s)) (plan_steps plan)"

lemma todo_text_inj [simp]: "name_of todo_names s = name_of todo_names t \<longleftrightarrow> s = t"
  by (cases s; cases t) (simp_all add: todo_names_def)

lemma child_row_inj: "child_row c = child_row d \<longleftrightarrow> child_id c = child_id d \<and> child_state c = child_state d"
  by (simp add: child_row_def)

lemma child_rows_inj:
  "map child_row cs = map child_row ds \<longleftrightarrow>
     map (\<lambda>c. (child_id c, child_state c)) cs = map (\<lambda>c. (child_id c, child_state c)) ds"
  by (induction cs arbitrary: ds) (auto simp: Cons_eq_map_conv child_row_inj)

lemma necessity_row_inj [simp]: "necessity_row n = necessity_row m \<longleftrightarrow> n = m"
  by (cases n; cases m) (auto simp: necessity_row_def split: option.splits)

lemma assurance_text_inj:
  "assurance_text a = assurance_text b \<longleftrightarrow> (a = Some RuntimeAttested) = (b = Some RuntimeAttested)"
  by (cases a rule: assurance_text.cases; cases b rule: assurance_text.cases) simp_all

lemma necessity_not_null [simp]: "necessity_row n \<noteq> ONull" "ONull \<noteq> necessity_row n"
  by (simp_all add: necessity_row_def)

lemma policy_row_inj:
  "policy_row v a p = policy_row v' a' p' \<longleftrightarrow>
     v = v' \<and> (a = Some RuntimeAttested) = (a' = Some RuntimeAttested)
     \<and> map_option policy_outline p = map_option policy_outline p'"
  by (cases p; cases p')
    (auto simp: policy_row_def policy_outline_def assurance_text_inj split: option.splits)

lemma milestone_row_inj:
  "milestone_row p s = milestone_row q t \<longleftrightarrow>
     step_outline s = step_outline t \<and> step_policy_outline p s = step_policy_outline q t"
  by (auto simp: milestone_row_def step_outline_def step_policy_outline_def child_rows_inj policy_row_inj
      split: option.splits)

lemma milestone_rows_inj:
  "map (milestone_row p) ss = map (milestone_row q) ts \<longleftrightarrow>
     map (\<lambda>s. (step_outline s, step_policy_outline p s)) ss
       = map (\<lambda>s. (step_outline s, step_policy_outline q s)) ts"
  by (induction ss arbitrary: ts) (auto simp: Cons_eq_map_conv milestone_row_inj)

lemma fingerprint_text: "plan_fingerprint p = Some f \<Longrightarrow> f = json_text (OArr (map (milestone_row p) (plan_steps p)))"
  by (simp add: plan_fingerprint_def requirePlanFingerprint_def parsePlanFingerprint_def split: if_splits)

text \<open>
  C40: two plans have the same fingerprint exactly when their milestones and steps agree, in order, in
  identifier, state and review, and their milestones in the declared execution policies. A command,
  replacement or review fenced by a fingerprint is therefore fenced by that state of the plan: titles,
  descriptions and measurements do not matter, everything else does.
\<close>
theorem fingerprint_identifies_revision:
  assumes "plan_fingerprint p = Some f" and "plan_fingerprint q = Some g"
  shows "f = g \<longleftrightarrow> plan_outline p = plan_outline q"
proof -
  have "f = g \<longleftrightarrow> map (milestone_row p) (plan_steps p) = map (milestone_row q) (plan_steps q)"
    using fingerprint_text [OF assms(1)] fingerprint_text [OF assms(2)]
    by (simp only: json_text_inj json.inject)
  then show ?thesis by (simp add: milestone_rows_inj plan_outline_def)
qed

definition small_plan :: "todo_state \<Rightarrow> supervised_plan" where
  "small_plan state =
     \<lparr> plan_title = ''t'', plan_subtitle = None, plan_date = None, plan_keywords = None,
       plan_policy_version = None, plan_assurance = None,
       plan_steps = [\<lparr> step_id = ''a'', step_title = ''A'', step_state = state, step_priority = PrioB,
         step_review = Some UNREVIEWED, step_skills = [], step_playwright = False,
         step_description = [], step_measurement = None, step_policy = None, step_children = [] \<rparr>],
       plan_total = 1, plan_done = 0, plan_all_done = False, plan_execution_complete = None,
       plan_current = ''a'' \<rparr>"

lemma small_plan_fingerprint: "\<exists>f. plan_fingerprint (small_plan state) = Some f"
proof -
  have texts: "json_text (OArr (map (milestone_row (small_plan state)) (plan_steps (small_plan state))))
      = (case state of TODO \<Rightarrow> ''[[\"a\",\"TODO\",\"UNREVIEWED\",[]]]'' | WIP \<Rightarrow> ''[[\"a\",\"WIP\",\"UNREVIEWED\",[]]]''
         | DONE \<Rightarrow> ''[[\"a\",\"DONE\",\"UNREVIEWED\",[]]]'' | SUSPENDED \<Rightarrow> ''[[\"a\",\"SUSPENDED\",\"UNREVIEWED\",[]]]'')"
    by (cases state; hypsubst; code_simp)
  show ?thesis
    unfolding plan_fingerprint_def texts requirePlanFingerprint_def parsePlanFingerprint_def
    by (cases state) (simp_all add: js_trim_def trim_left_def js_space_def code_def utf8_length_def max_fingerprint_bytes_def)
qed

theorem fingerprint_identifies_revision_witness:
  "plan_fingerprint (small_plan WIP) \<noteq> None
    \<and> plan_fingerprint (small_plan WIP) \<noteq> plan_fingerprint (small_plan DONE)"
proof -
  from small_plan_fingerprint obtain f g
    where fg: "plan_fingerprint (small_plan WIP) = Some f" "plan_fingerprint (small_plan DONE) = Some g"
    by metis
  have "plan_outline (small_plan WIP) \<noteq> plan_outline (small_plan DONE)"
    by (simp add: plan_outline_def small_plan_def step_outline_def)
  with fingerprint_identifies_revision [OF fg] fg show ?thesis by simp
qed

end
