(* ===== verification/Supervision_Takeover.thy ===== *)
theory Supervision_Takeover
  imports Autopilot_Store_Facts Plan_Fingerprint
begin

text \<open>
  Takeover of a plan by a new supervisor: the durable claim of a plan with its epoch and the retired
  predecessors (src/server/platform/persistence/sqlite-supervision-takeover-store.ts), and the run
  that fences and stops every previous writer before it commits ownership
  (src/server/features/autopilot/application/takeover-supervision.ts).

  The run awaits the stop of each predecessor. While it waits, anybody may use the database: the
  steps of others are an argument of the model, a list of store events for every wait.
\<close>

subsection \<open>Tables\<close>

datatype claim_phase = StoppingPhase | ReadyPhase

text \<open>A row of \<open>org_plan_takeovers\<close>, and the \<open>TakeoverClaim\<close> handed to the caller.\<close>

record takeover_claim =
  tc_plan :: string
  tc_session :: string
  tc_epoch :: nat
  tc_phase :: claim_phase

record retired_row =
  rt_plan :: string
  rt_session :: string
  rt_stopped :: bool

record relay_row =
  rr_id :: string
  rr_turn_active :: bool
  rr_thread :: "string option"
  rr_turn :: "string option"

record takeover_db =
  td_pilot :: pilot_db
  td_owners :: "takeover_claim list"
  td_retired :: "retired_row list"
  td_relay :: "relay_row list"

definition takeover_owner :: "takeover_db \<Rightarrow> string \<Rightarrow> takeover_claim option" where
  "takeover_owner db plan = List.find (\<lambda>c. tc_plan c = plan) (td_owners db)"

definition is_retired :: "takeover_db \<Rightarrow> string \<Rightarrow> string \<Rightarrow> bool" where
  "is_retired db plan session \<longleftrightarrow>
     (\<exists>r \<in> set (td_retired db). rt_plan r = plan \<and> rt_session r = session)"

definition is_stopped :: "takeover_db \<Rightarrow> string \<Rightarrow> string \<Rightarrow> bool" where
  "is_stopped db plan session \<longleftrightarrow>
     (\<exists>r \<in> set (td_retired db). rt_plan r = plan \<and> rt_session r = session \<and> rt_stopped r)"

text \<open>The claim still owns its plan and has not been completed.\<close>

definition claim_current :: "takeover_db \<Rightarrow> takeover_claim \<Rightarrow> bool" where
  "claim_current db claim \<longleftrightarrow>
     (case takeover_owner db (tc_plan claim) of
        None \<Rightarrow> False
      | Some current \<Rightarrow> tc_session current = tc_session claim \<and> tc_epoch current = tc_epoch claim
                        \<and> tc_phase current = StoppingPhase)"

definition retired_key :: "retired_row \<Rightarrow> string \<times> string" where
  "retired_key r = (rt_plan r, rt_session r)"

subsection \<open>Store operations\<close>

definition markStopped :: "takeover_db \<Rightarrow> takeover_claim \<Rightarrow> string \<Rightarrow> bool \<times> takeover_db" where
  "markStopped db claim session =
     (if claim_current db claim \<and> is_retired db (tc_plan claim) session
      then (True, db\<lparr>td_retired := update_where (\<lambda>r. retired_key r = (tc_plan claim, session))
                        (\<lambda>r. r\<lparr>rt_stopped := True\<rparr>) (td_retired db)\<rparr>)
      else (False, db))"

text \<open>\<open>INSERT OR IGNORE\<close>.\<close>

definition retire_one :: "string \<Rightarrow> retired_row list \<Rightarrow> string \<Rightarrow> retired_row list" where
  "retire_one plan rows session =
     (if \<exists>r \<in> set rows. retired_key r = (plan, session) then rows
      else rows @ [\<lparr> rt_plan = plan, rt_session = session, rt_stopped = False \<rparr>])"

definition retireAll :: "takeover_db \<Rightarrow> takeover_claim \<Rightarrow> string list \<Rightarrow> bool \<times> takeover_db" where
  "retireAll db claim sessions =
     (if claim_current db claim
      then (True, db\<lparr>td_retired := foldl (retire_one (tc_plan claim)) (td_retired db) sessions\<rparr>)
      else (False, db))"

definition owner_busy :: "takeover_db \<Rightarrow> string \<Rightarrow> bool" where
  "owner_busy db session =
     (case List.find (\<lambda>r. rr_id r = session) (td_relay db) of
        None \<Rightarrow> False | Some r \<Rightarrow> rr_turn_active r \<or> truthy_opt (rr_turn r))"

definition claimTakeover :: "takeover_db \<Rightarrow> string \<Rightarrow> string \<Rightarrow> takeover_claim option \<times> takeover_db" where
  "claimTakeover db plan session =
     (let previous = takeover_owner db plan;
          blocked = (case previous of None \<Rightarrow> False
            | Some p \<Rightarrow> tc_phase p = StoppingPhase \<and> tc_session p \<noteq> session \<and> owner_busy db (tc_session p));
          claim = (case previous of
              None \<Rightarrow> \<lparr> tc_plan = plan, tc_session = session, tc_epoch = 1, tc_phase = StoppingPhase \<rparr>
            | Some p \<Rightarrow>
                if tc_session p = session
                then \<lparr> tc_plan = plan, tc_session = session, tc_epoch = tc_epoch p, tc_phase = tc_phase p \<rparr>
                else \<lparr> tc_plan = plan, tc_session = session, tc_epoch = tc_epoch p + 1,
                       tc_phase = StoppingPhase \<rparr>) in
      if blocked then (None, db)
      else (Some claim, db\<lparr>td_owners := map_set tc_plan claim (td_owners db)\<rparr>))"

definition root_is :: "takeover_db \<Rightarrow> string \<Rightarrow> string \<Rightarrow> string \<Rightarrow> bool" where
  "root_is db session thread turn \<longleftrightarrow>
     (case List.find (\<lambda>r. rr_id r = session) (td_relay db) of
        None \<Rightarrow> False | Some r \<Rightarrow> rr_thread r = Some thread \<and> rr_turn r = Some turn)"

text \<open>\<open>Inl\<close> is an unreadable row; the transaction is then rolled back and the error thrown on.\<close>

definition completeTakeover ::
  "(pilot_row \<Rightarrow> store_error + autopilot_session) \<Rightarrow> takeover_db \<Rightarrow> takeover_claim \<Rightarrow> autopilot_session
     \<Rightarrow> audit_event list \<Rightarrow> string \<Rightarrow> string \<Rightarrow> store_error + (bool \<times> takeover_db)" where
  "completeTakeover decode db claim state events thread turn =
     (case pilot_find decode (td_pilot db) (au_session state) of
        Inl e \<Rightarrow> Inl e
      | Inr base \<Rightarrow>
          if \<not> root_is db (au_session state) thread turn \<or> \<not> claim_current db claim
             \<or> int (coalesce (map_option au_generation base) 0) \<noteq> int (au_generation state) - 1
          then Inr (False, db)
          else (case pilot_save decode (td_pilot db) state of
                  Inl e \<Rightarrow> Inl e
                | Inr pilot \<Rightarrow>
                    Inr (True, db\<lparr>td_pilot := append_outbox pilot events,
                      td_owners := update_where (\<lambda>c. tc_plan c = tc_plan claim)
                        (\<lambda>c. c\<lparr>tc_phase := ReadyPhase\<rparr>) (td_owners db)\<rparr>)))"

subsection \<open>The run of a takeover\<close>

text \<open>\<open>tp_*\<close> is what the coordinator knows of a session: a predecessor, or the claimant's context.\<close>

record root_session =
  rs_id :: string
  rs_codex :: bool
  rs_workspace :: string
  rs_thread :: "string option"
  rs_turn :: "string option"

record takeover_context =
  tx_session :: root_session
  tx_plan :: supervised_plan
  tx_identity :: string
  tx_state :: "autopilot_session option"
  tx_admission :: bool
  tx_held :: bool
  tx_local :: bool

record predecessor =
  tp_session :: root_session
  tp_state :: autopilot_session

datatype takeover_code =
    RuntimeUnavailable | CurrentRootRequired | ExecutionPolicyUnavailable | PendingInteractionCode
  | NoUnfinishedMilestone | CurrentExecutorPresent | PreviousNotFound | TakeoverInProgress
  | ContextChanged | WriterNotStopped

datatype takeover_result =
    Refused takeover_code
  | AlreadyOwner
  | Accepted bool executor_identity "string list" bool

datatype stop_answer = WriterStopped | WriterRunning | StopFailed

definition milestone_position :: "nat \<Rightarrow> string" where
  "milestone_position i = CHR ''L'' # nat_text (i + 1)"

definition milestone_task :: "nat \<Rightarrow> string" where
  "milestone_task i = CHR ''l'' # nat_text (i + 1)"

text \<open>The guards before the store is asked: the root of the current turn, admission, and a milestone to run.\<close>

definition takeover_guard ::
  "takeover_context option \<Rightarrow> string \<Rightarrow> string \<Rightarrow> takeover_code + (takeover_context \<times> nat)" where
  "takeover_guard context thread turn =
     (case context of
        None \<Rightarrow> Inl CurrentRootRequired
      | Some c \<Rightarrow>
          if \<not> rs_codex (tx_session c) \<or> rs_thread (tx_session c) \<noteq> Some thread
             \<or> rs_turn (tx_session c) \<noteq> Some turn then Inl CurrentRootRequired
          else if \<not> tx_admission c then Inl ExecutionPolicyUnavailable
          else if tx_held c then Inl PendingInteractionCode
          else (case currentExecutableL1Index (tx_plan c) of
                  None \<Rightarrow> Inl NoUnfinishedMilestone
                | Some i \<Rightarrow> if plan_execution_complete (tx_plan c) = Some True
                            then Inl NoUnfinishedMilestone else Inr (c, i)))"

text \<open>
  The answer to a session that already owns the plan: its pending replacement, or the first identity
  if it has no executor yet. \<open>None\<close> is a throw, of the fingerprint or of the identity.
\<close>

definition owner_identity :: "takeover_context \<Rightarrow> nat \<Rightarrow> executor_identity option option" where
  "owner_identity c i =
     (let executor = Option.bind (tx_state c) au_executor in
      case Option.bind executor el_replacement of
        None \<Rightarrow> if executor = None then map_option Some (executorIdentity (milestone_task i) 1) else Some None
      | Some pending \<Rightarrow>
          if er_plan pending \<noteq> tx_identity c then Some None
          else (case plan_fingerprint (tx_plan c) of
                  None \<Rightarrow> None
                | Some f \<Rightarrow>
                    if er_fingerprint pending = f \<and> ei_position (er_identity pending) = milestone_position i
                    then map_option Some (executorIdentity (ei_canonical (er_identity pending))
                           (int (ei_generation (er_identity pending))))
                    else Some None))"

definition pending_turn_of :: "autopilot_session option \<Rightarrow> bool" where
  "pending_turn_of state = truthy_opt (Option.bind (Option.bind state au_checkpoints) cl_pending_turn)"

definition owner_answer :: "takeover_context \<Rightarrow> nat \<Rightarrow> takeover_result" where
  "owner_answer c i =
     (case owner_identity c i of
        None \<Rightarrow> Refused RuntimeUnavailable
      | Some None \<Rightarrow> AlreadyOwner
      | Some (Some identity) \<Rightarrow>
          if tx_local c then AlreadyOwner
          else Accepted True identity [] (pending_turn_of (tx_state c)))"

definition eligible_predecessors :: "takeover_context \<Rightarrow> string \<Rightarrow> predecessor list \<Rightarrow> predecessor list" where
  "eligible_predecessors c session ps =
     filter (\<lambda>p. rs_id (tp_session p) \<noteq> session \<and> rs_codex (tp_session p)
               \<and> rs_workspace (tp_session p) = rs_workspace (tx_session c)
               \<and> au_plan (tp_state p) = Some (tx_identity c)) ps"

definition previous_ids :: "predecessor list \<Rightarrow> string list" where
  "previous_ids ps = map (\<lambda>p. rs_id (tp_session p)) ps"

definition foreign_owner :: "takeover_claim option \<Rightarrow> string \<Rightarrow> predecessor list \<Rightarrow> bool" where
  "foreign_owner existing session ps =
     (case existing of
        None \<Rightarrow> False
      | Some c \<Rightarrow> tc_session c \<noteq> session \<and> tc_session c \<notin> set (previous_ids ps))"

subsection \<open>The steps of others\<close>

datatype takeover_event =
    ClaimPlan string string
  | RetireSessions takeover_claim "string list"
  | MarkStopped takeover_claim string
  | CompletePlan takeover_claim autopilot_session "audit_event list" string string
  | PilotOperation pilot_event
  | RelayWrite "relay_row list"

fun takeover_step ::
  "(pilot_row \<Rightarrow> store_error + autopilot_session) \<Rightarrow> takeover_db \<Rightarrow> takeover_event \<Rightarrow> takeover_db" where
  "takeover_step decode db (ClaimPlan plan session) = snd (claimTakeover db plan session)"
| "takeover_step decode db (RetireSessions claim sessions) = snd (retireAll db claim sessions)"
| "takeover_step decode db (MarkStopped claim session) = snd (markStopped db claim session)"
| "takeover_step decode db (CompletePlan claim state events thread turn) =
     (case completeTakeover decode db claim state events thread turn of
        Inl _ \<Rightarrow> db | Inr (_, db') \<Rightarrow> db')"
| "takeover_step decode db (PilotOperation e) = db\<lparr>td_pilot := pilot_step decode (td_pilot db) e\<rparr>"
| "takeover_step decode db (RelayWrite rows) = db\<lparr>td_relay := rows\<rparr>"

abbreviation takeover_run_steps where
  "takeover_run_steps decode \<equiv> run_steps (takeover_step decode)"

text \<open>
  Fencing every predecessor that is not yet stopped, before the first wait; \<open>fence\<close> is what the
  coordinator of that session does to the stores.
\<close>

fun fence_all ::
  "(pilot_row \<Rightarrow> store_error + autopilot_session) \<Rightarrow> (string \<Rightarrow> takeover_event list) \<Rightarrow> string
     \<Rightarrow> string list \<Rightarrow> takeover_db \<Rightarrow> takeover_db" where
  "fence_all decode fence plan [] db = db"
| "fence_all decode fence plan (p # ps) db =
     fence_all decode fence plan ps
       (if is_stopped db plan p then db else takeover_run_steps decode db (fence p))"

text \<open>
  Stopping the predecessors one after the other. \<open>env\<close> is what others do while the answer for a
  predecessor is awaited, \<open>answer\<close> what the runtime says of its processes.
\<close>

fun stop_all ::
  "(pilot_row \<Rightarrow> store_error + autopilot_session) \<Rightarrow> (string \<Rightarrow> takeover_event list)
     \<Rightarrow> (string \<Rightarrow> stop_answer) \<Rightarrow> takeover_claim \<Rightarrow> string list \<Rightarrow> takeover_db
     \<Rightarrow> takeover_code option \<times> takeover_db" where
  "stop_all decode env answer claim [] db = (None, db)"
| "stop_all decode env answer claim (p # ps) db =
     (if is_stopped db (tc_plan claim) p then stop_all decode env answer claim ps db
      else let db1 = takeover_run_steps decode db (env p) in
        (case answer p of
           StopFailed \<Rightarrow> (Some RuntimeUnavailable, db1)
         | WriterRunning \<Rightarrow> (Some WriterNotStopped, db1)
         | WriterStopped \<Rightarrow>
             (case markStopped db1 claim p of
                (False, db2) \<Rightarrow> (Some ContextChanged, db2)
              | (True, db2) \<Rightarrow> stop_all decode env answer claim ps db2)))"

subsection \<open>The state the claimant commits\<close>

definition physical_generation :: "executor_lifecycle \<Rightarrow> nat" where
  "physical_generation e =
     (case el_replacement e of None \<Rightarrow> el_generation e | Some r \<Rightarrow> ei_generation (er_identity r))"

definition previous_executors :: "nat \<Rightarrow> predecessor list \<Rightarrow> executor_lifecycle list" where
  "previous_executors i ps =
     filter (\<lambda>e. el_canonical e = milestone_task i)
       (List.map_filter (\<lambda>p. au_executor (tp_state p)) ps)"

definition source_executor :: "executor_lifecycle list \<Rightarrow> executor_lifecycle option" where
  "source_executor es =
     (case sort_by (\<lambda>a b. int (physical_generation b) - int (physical_generation a)) es of
        [] \<Rightarrow> None | e # _ \<Rightarrow> Some e)"

definition next_generation :: "executor_lifecycle list \<Rightarrow> nat" where
  "next_generation es = (if es = [] then 1 else Max (set (map physical_generation es)) + 1)"

definition inherited_ledger ::
  "(string \<Rightarrow> string \<Rightarrow> int) \<Rightarrow> takeover_context \<Rightarrow> string \<Rightarrow> predecessor list \<Rightarrow> checkpoint_ledger option" where
  "inherited_ledger collate current identity ps =
     opt_or (Option.bind (tx_state current) au_checkpoints)
       (case sort_by (\<lambda>a b. collate (au_updated (tp_state b)) (au_updated (tp_state a)))
               (filter (\<lambda>p. map_option cl_plan (au_checkpoints (tp_state p)) = Some identity) ps) of
          [] \<Rightarrow> None | p # _ \<Rightarrow> au_checkpoints (tp_state p))"

definition adopt_ledger :: "string \<Rightarrow> checkpoint_ledger \<Rightarrow> checkpoint_ledger" where
  "adopt_ledger turn c =
     c\<lparr>cl_pending_turn := (if truthy_opt (cl_pending_turn c) then Some turn else None),
       cl_handoff_failed := Some False, cl_root_from := None\<rparr>"

definition replaced_executor ::
  "executor_lifecycle \<Rightarrow> todo_state \<Rightarrow> executor_identity \<Rightarrow> string \<Rightarrow> string \<Rightarrow> executor_assignment
     \<Rightarrow> executor_lifecycle" where
  "replaced_executor e l1 identity plan fp previous =
     e\<lparr>el_l1 := l1, el_outcome := FailedOutcome, el_blocking := None, el_processes := [],
       el_commands := [], el_count := 0, el_failures := 0, el_assignment := Some previous,
       el_replacement := Some \<lparr> er_identity = identity, er_plan = plan, er_fingerprint = fp,
         er_previous = Some previous, er_reason = Some UserDirectedTakeover,
         er_evidence = Some ''explicit-user-takeover'' \<rparr>\<rparr>"

definition taken_over_state ::
  "autopilot_session \<Rightarrow> string \<Rightarrow> string \<Rightarrow> nat \<Rightarrow> string \<Rightarrow> checkpoint_ledger option
     \<Rightarrow> executor_lifecycle option \<Rightarrow> string \<Rightarrow> autopilot_session" where
  "taken_over_state base plan fp generation now history executor turn =
     base\<lparr>au_enabled := True, au_state := PilotMonitoring, au_stop := None, au_blocking := None,
       au_plan := Some plan, au_fingerprint := Some fp, au_generation := generation + 1,
       au_control := None, au_next := None, au_no_progress := 0,
       au_supervision := Some (startSupervisionProtocol fp),
       au_checkpoints := (case history of None \<Rightarrow> au_checkpoints base | Some h \<Rightarrow> Some (adopt_ledger turn h)),
       au_executor := executor, au_updated := now\<rparr>"

text \<open>\<open>None\<close> is a throw, of an identity or of a milestone that is no longer there.\<close>

definition takeover_executor ::
  "takeover_context \<Rightarrow> nat \<Rightarrow> string \<Rightarrow> string \<Rightarrow> predecessor list
     \<Rightarrow> (executor_identity \<times> executor_lifecycle option) option" where
  "takeover_executor current i identity fp ps =
     (let es = previous_executors i ps in
      do {
        new \<leftarrow> executorIdentity (milestone_task i) (int (next_generation es));
        (case source_executor es of
           None \<Rightarrow> Some (new, None)
         | Some source \<Rightarrow> do {
             step \<leftarrow> at_index (plan_steps (tx_plan current)) i;
             previous \<leftarrow> executorAssignment source UnavailableAssignment;
             Some (new, Some (replaced_executor source (step_state step) new identity fp previous)) }) })"

definition takeover_audit ::
  "string \<Rightarrow> string \<Rightarrow> string list \<Rightarrow> nat \<Rightarrow> executor_identity \<Rightarrow> audit_event" where
  "takeover_audit session now previous i identity =
     \<lparr> ae_session = session, ae_type = ''autopilot.supervisor-taken-over'',
       ae_payload = JObj [(''previousSessionIds'', JArr (map JStr previous)),
         (''canonicalTaskName'', JStr (milestone_task i)), (''taskName'', JStr (ei_name identity)),
         (''generation'', nat_json (ei_generation identity)),
         (''authority'', JStr ''explicit-user-takeover'')],
       ae_at = now \<rparr>"

definition state_generation :: "takeover_context \<Rightarrow> nat" where
  "state_generation c = coalesce (map_option au_generation (tx_state c)) 0"

text \<open>The context read after the waits must be the one the run started with; \<open>None\<close> is a throw.\<close>

definition context_kept ::
  "takeover_context \<Rightarrow> takeover_context option \<Rightarrow> string \<Rightarrow> string \<Rightarrow> string \<Rightarrow> takeover_context option option" where
  "context_kept start current thread turn fp =
     (case current of
        None \<Rightarrow> Some None
      | Some c \<Rightarrow>
          if rs_thread (tx_session c) \<noteq> Some thread \<or> rs_turn (tx_session c) \<noteq> Some turn
             \<or> tx_identity c \<noteq> tx_identity start then Some None
          else (case plan_fingerprint (tx_plan c) of
                  None \<Rightarrow> None
                | Some f \<Rightarrow>
                    if f \<noteq> fp \<or> state_generation c \<noteq> state_generation start \<or> tx_held c \<or> tx_local c
                       \<or> \<not> tx_admission c
                    then Some None else Some (Some c)))"

definition commit_takeover ::
  "(pilot_row \<Rightarrow> store_error + autopilot_session) \<Rightarrow> (string \<Rightarrow> string \<Rightarrow> int) \<Rightarrow> takeover_context
     \<Rightarrow> takeover_context \<Rightarrow> nat \<Rightarrow> predecessor list \<Rightarrow> string \<Rightarrow> string \<Rightarrow> string \<Rightarrow> string \<Rightarrow> string
     \<Rightarrow> takeover_claim \<Rightarrow> takeover_db \<Rightarrow> takeover_result \<times> takeover_db" where
  "commit_takeover decode collate start current i ps fp now session thread turn claim db =
     (case takeover_executor current i (tx_identity start) fp ps of
        None \<Rightarrow> (Refused RuntimeUnavailable, db)
      | Some (identity, executor) \<Rightarrow>
          let history = inherited_ledger collate current (tx_identity start) ps;
              state = taken_over_state (coalesce (tx_state current) (disabledAutopilot session now))
                (tx_identity current) fp (state_generation start) now history executor turn in
          (case completeTakeover decode db claim state
                  [takeover_audit session now (previous_ids ps) i identity] thread turn of
             Inl _ \<Rightarrow> (Refused RuntimeUnavailable, db)
           | Inr (False, db') \<Rightarrow> (Refused ContextChanged, db')
           | Inr (True, db') \<Rightarrow>
               (Accepted False identity (previous_ids ps)
                  (truthy_opt (Option.bind history cl_pending_turn)), db')))"

definition run_takeover ::
  "(pilot_row \<Rightarrow> store_error + autopilot_session) \<Rightarrow> (string \<Rightarrow> string \<Rightarrow> int)
     \<Rightarrow> (string \<Rightarrow> takeover_event list) \<Rightarrow> (string \<Rightarrow> takeover_event list) \<Rightarrow> (string \<Rightarrow> stop_answer)
     \<Rightarrow> takeover_context option \<Rightarrow> takeover_context option \<Rightarrow> predecessor list \<Rightarrow> string
     \<Rightarrow> string \<Rightarrow> string \<Rightarrow> string \<Rightarrow> takeover_db \<Rightarrow> takeover_result \<times> takeover_db" where
  "run_takeover decode collate fence env answer context later predecessors now session thread turn db =
     (case takeover_guard context thread turn of
        Inl refusal \<Rightarrow> (Refused refusal, db)
      | Inr (c, i) \<Rightarrow>
          let existing = takeover_owner db (tx_identity c);
              ps = eligible_predecessors c session predecessors in
          if map_option (\<lambda>e. (tc_session e, tc_phase e)) existing = Some (session, ReadyPhase)
          then (owner_answer c i, db)
          else if tx_local c then (Refused CurrentExecutorPresent, db)
          else if ps = [] \<or> foreign_owner existing session ps then (Refused PreviousNotFound, db)
          else (case plan_fingerprint (tx_plan c) of
             None \<Rightarrow> (Refused RuntimeUnavailable, db)
           | Some fp \<Rightarrow>
               (case claimTakeover db (tx_identity c) session of
                  (None, db1) \<Rightarrow> (Refused TakeoverInProgress, db1)
                | (Some claim, db1) \<Rightarrow>
                    (case retireAll db1 claim (previous_ids ps) of
                       (False, db2) \<Rightarrow> (Refused ContextChanged, db2)
                     | (True, db2) \<Rightarrow>
                         (case stop_all decode env answer claim (previous_ids ps)
                                 (fence_all decode fence (tx_identity c) (previous_ids ps) db2) of
                            (Some refusal, db3) \<Rightarrow> (Refused refusal, db3)
                          | (None, db3) \<Rightarrow>
                              (case context_kept c later thread turn fp of
                                 None \<Rightarrow> (Refused RuntimeUnavailable, db3)
                               | Some None \<Rightarrow> (Refused ContextChanged, db3)
                               | Some (Some current) \<Rightarrow>
                                   commit_takeover decode collate c current i ps fp now session
                                     thread turn claim db3))))))"

end
