(* ===== verification/Takeover_Facts.thy ===== *)
theory Takeover_Facts
  imports Supervision_Takeover
begin

text \<open>
  What a takeover guarantees: the epoch of a plan only grows and names one session, so a claim that
  was superseded or completed can do nothing any more; an accepted takeover has every previous
  writer marked as stopped and a generation above all of theirs; a retry gets the same identity.
\<close>

subsection \<open>A quantity that only grows\<close>

text \<open>The interface of a fence: a number no step of anybody lowers.\<close>

locale growing =
  fixes gstep :: "'s \<Rightarrow> 'e \<Rightarrow> 's"
    and rank :: "'s \<Rightarrow> nat"
  assumes rank_step: "rank s \<le> rank (gstep s e)"
begin

lemma rank_run: "rank s \<le> rank (run_steps gstep s es)"
  by (induction es arbitrary: s) (auto intro: order_trans [OF rank_step])

end

text \<open>Twice the epoch, plus one once the takeover is complete; zero for a plan never claimed.\<close>

definition takeover_rank :: "string \<Rightarrow> takeover_db \<Rightarrow> nat" where
  "takeover_rank plan db =
     (case takeover_owner db plan of
        None \<Rightarrow> 0 | Some c \<Rightarrow> 2 * tc_epoch c + (if tc_phase c = ReadyPhase then 1 else 0))"

lemma owner_after_claim:
  assumes "claimTakeover db plan s = (Some k, db')"
  shows "takeover_owner db' p = (if p = plan then Some k else takeover_owner db p)"
    and "tc_plan k = plan" and "tc_session k = s"
proof -
  from assms have k: "tc_plan k = plan" "tc_session k = s"
    and db': "db' = db\<lparr>td_owners := map_set tc_plan k (td_owners db)\<rparr>"
    by (auto simp: claimTakeover_def Let_def split: option.splits if_splits)
  from k db' show "takeover_owner db' p = (if p = plan then Some k else takeover_owner db p)"
    by (simp add: takeover_owner_def find_map_set)
  from k show "tc_plan k = plan" "tc_session k = s" by simp_all
qed

lemma claim_result:
  assumes "claimTakeover db plan s = (Some k, db')" and "takeover_owner db plan = Some c"
  shows "if tc_session c = s then tc_epoch k = tc_epoch c \<and> tc_phase k = tc_phase c
    else tc_epoch k = tc_epoch c + 1 \<and> tc_phase k = StoppingPhase"
  using assms by (auto simp: claimTakeover_def Let_def split: if_splits)

lemma claim_refused: "claimTakeover db plan s = (None, db') \<Longrightarrow> db' = db"
  by (auto simp: claimTakeover_def Let_def split: option.splits if_splits)

lemma retire_owner: "takeover_owner (snd (retireAll db claim ids)) = takeover_owner db"
  by (simp add: retireAll_def takeover_owner_def fun_eq_iff)

lemma mark_owner: "takeover_owner (snd (markStopped db claim s)) = takeover_owner db"
  by (simp add: markStopped_def takeover_owner_def fun_eq_iff)

lemma complete_cases:
  assumes "completeTakeover decode db k st evs th tu = Inr (b, db')"
  obtains "\<not> b" and "db' = db"
  | pilot where b and "claim_current db k" and "root_is db (au_session st) th tu"
      and "pilot_save decode (td_pilot db) st = Inr pilot"
      and "db' = db\<lparr>td_pilot := append_outbox pilot evs,
             td_owners := update_where (\<lambda>c. tc_plan c = tc_plan k) (\<lambda>c. c\<lparr>tc_phase := ReadyPhase\<rparr>) (td_owners db)\<rparr>"
proof (cases "pilot_find decode (td_pilot db) (au_session st)")
  case (Inl e)
  with assms show ?thesis by (simp add: completeTakeover_def)
next
  case (Inr base)
  show ?thesis
  proof (cases "\<not> root_is db (au_session st) th tu \<or> \<not> claim_current db k
      \<or> int (coalesce (map_option au_generation base) 0) \<noteq> int (au_generation st) - 1")
    case True
    with assms Inr have "\<not> b" "db' = db" by (auto simp: completeTakeover_def)
    then show ?thesis by (rule that(1))
  next
    case False
    with assms Inr show ?thesis
      by (cases "pilot_save decode (td_pilot db) st") (auto simp: completeTakeover_def intro: that(2))
  qed
qed

lemma complete_owner:
  assumes "db' = db\<lparr>td_pilot := p, td_owners := update_where (\<lambda>c. tc_plan c = tc_plan k)
      (\<lambda>c. c\<lparr>tc_phase := ReadyPhase\<rparr>) (td_owners db)\<rparr>"
  shows "takeover_owner db' plan = (if plan = tc_plan k
      then map_option (\<lambda>c. c\<lparr>tc_phase := ReadyPhase\<rparr>) (takeover_owner db plan) else takeover_owner db plan)"
  using find_update_where [of tc_plan "\<lambda>c. c\<lparr>tc_phase := ReadyPhase\<rparr>" plan "tc_plan k" "td_owners db"]
  by (simp add: assms takeover_owner_def)

text \<open>
  What one step may do to the owner of a plan: leave it, complete it, keep it for the same session,
  or hand it to another session under the next epoch.
\<close>

lemma owner_step:
  assumes "takeover_owner db plan = Some c"
  obtains c' where "takeover_owner (takeover_step decode db e) plan = Some c'"
    and "(tc_epoch c' = tc_epoch c \<and> tc_session c' = tc_session c \<and> (tc_phase c = ReadyPhase \<longrightarrow> tc_phase c' = ReadyPhase))
         \<or> tc_epoch c < tc_epoch c'"
proof (cases e)
  case (ClaimPlan p s)
  show ?thesis
  proof (cases "claimTakeover db p s")
    case (Pair r db')
    show ?thesis
    proof (cases r)
      case None
      with Pair ClaimPlan assms claim_refused [of db p s db'] that show ?thesis by auto
    next
      case (Some k)
      with Pair have claim: "claimTakeover db p s = (Some k, db')" by simp
      with ClaimPlan have step: "takeover_step decode db e = db'" by simp
      show ?thesis
      proof (cases "plan = p")
        case True
        with claim_result [OF claim] assms owner_after_claim [OF claim] step that [of k] show ?thesis
          by (auto split: if_splits)
      next
        case False
        with owner_after_claim(1) [OF claim] step assms that [of c] show ?thesis by auto
      qed
    qed
  qed
next
  case (CompletePlan k st evs th tu)
  show ?thesis
  proof (cases "completeTakeover decode db k st evs th tu")
    case (Inl x)
    with CompletePlan assms that [of c] show ?thesis by auto
  next
    case (Inr r)
    obtain b db' where r: "r = (b, db')" by force
    with Inr CompletePlan have step: "takeover_step decode db e = db'" by simp
    from Inr r have "completeTakeover decode db k st evs th tu = Inr (b, db')" by simp
    then show ?thesis
    proof (cases rule: complete_cases)
      case 1
      with step assms that [of c] show ?thesis by auto
    next
      case (2 pilot)
      from complete_owner [OF 2(5), of plan] assms step
        that [of "if plan = tc_plan k then c\<lparr>tc_phase := ReadyPhase\<rparr> else c"]
      show ?thesis by (auto split: if_splits)
    qed
  qed
next
  case (RetireSessions k ids)
  with assms that [of c] retire_owner [of db k ids] show ?thesis by simp
next
  case (MarkStopped k s)
  with assms that [of c] mark_owner [of db k s] show ?thesis by simp
next
  case (PilotOperation x)
  with assms that [of c] show ?thesis by (simp add: takeover_owner_def)
next
  case (RelayWrite rows)
  with assms that [of c] show ?thesis by (simp add: takeover_owner_def)
qed

lemma takeover_rank_step: "takeover_rank plan db \<le> takeover_rank plan (takeover_step decode db e)"
proof (cases "takeover_owner db plan")
  case None
  then show ?thesis by (simp add: takeover_rank_def)
next
  case (Some c)
  from owner_step [OF Some] obtain c' where "takeover_owner (takeover_step decode db e) plan = Some c'"
    and "(tc_epoch c' = tc_epoch c \<and> tc_session c' = tc_session c \<and> (tc_phase c = ReadyPhase \<longrightarrow> tc_phase c' = ReadyPhase))
         \<or> tc_epoch c < tc_epoch c'" .
  with Some show ?thesis by (auto simp: takeover_rank_def)
qed

interpretation epochs: growing "takeover_step decode" "takeover_rank plan"
  by unfold_locales (rule takeover_rank_step)

text \<open>From here on the epoch of the plan is above this one, or it still names this session.\<close>

definition epoch_names :: "string \<Rightarrow> nat \<Rightarrow> string \<Rightarrow> takeover_db \<Rightarrow> bool" where
  "epoch_names plan n session db \<longleftrightarrow>
     (\<exists>c. takeover_owner db plan = Some c \<and> (n < tc_epoch c \<or> tc_epoch c = n \<and> tc_session c = session))"

lemma epoch_names_step:
  assumes "epoch_names plan n session db"
  shows "epoch_names plan n session (takeover_step decode db e)"
proof -
  from assms obtain c where c: "takeover_owner db plan = Some c"
    and n: "n < tc_epoch c \<or> tc_epoch c = n \<and> tc_session c = session"
    by (auto simp: epoch_names_def)
  from owner_step [OF c] obtain c' where "takeover_owner (takeover_step decode db e) plan = Some c'"
    and "(tc_epoch c' = tc_epoch c \<and> tc_session c' = tc_session c \<and> (tc_phase c = ReadyPhase \<longrightarrow> tc_phase c' = ReadyPhase))
         \<or> tc_epoch c < tc_epoch c'" .
  with n show ?thesis by (auto simp: epoch_names_def)
qed

interpretation naming: trapping_stepper "takeover_step decode" "\<lambda>_. True" "epoch_names plan n session" "\<lambda>_. False"
  by unfold_locales (simp_all add: epoch_names_step)

lemma rank_above_not_current:
  "2 * tc_epoch k < takeover_rank (tc_plan k) db \<Longrightarrow> \<not> claim_current db k"
  by (auto simp: claim_current_def takeover_rank_def split: option.splits if_splits)

lemma not_current_does_nothing:
  assumes "\<not> claim_current db k"
  shows "retireAll db k ids = (False, db)" and "markStopped db k s = (False, db)"
    and "completeTakeover decode db k st evs th tu \<noteq> Inr (True, db')"
proof -
  show "retireAll db k ids = (False, db)" "markStopped db k s = (False, db)"
    using assms by (simp_all add: retireAll_def markStopped_def)
  show "completeTakeover decode db k st evs th tu \<noteq> Inr (True, db')"
    using assms by (auto elim: complete_cases)
qed

subsection \<open>Spent claims are dead\<close>

lemma superseded_rank:
  assumes "epoch_names (tc_plan k) (tc_epoch k) (tc_session k) db"
    and "claimTakeover db (tc_plan k) s' = (Some k', db')" and "s' \<noteq> tc_session k"
  shows "2 * tc_epoch k < takeover_rank (tc_plan k) db'"
proof -
  from assms(1) obtain c where c: "takeover_owner db (tc_plan k) = Some c"
    and n: "tc_epoch k < tc_epoch c \<or> tc_epoch c = tc_epoch k \<and> tc_session c = tc_session k"
    by (auto simp: epoch_names_def)
  from claim_result [OF assms(2) c] n assms(3) have "tc_epoch k < tc_epoch k'"
    by (auto split: if_splits)
  with owner_after_claim(1) [OF assms(2)] show ?thesis by (simp add: takeover_rank_def)
qed

lemma completed_rank:
  assumes "completeTakeover decode db k st evs th tu = Inr (True, db')"
  shows "2 * tc_epoch k < takeover_rank (tc_plan k) db'"
  using assms
proof (cases rule: complete_cases)
  case (2 pilot)
  from 2(2) obtain c where "takeover_owner db (tc_plan k) = Some c" "tc_epoch c = tc_epoch k"
    by (auto simp: claim_current_def split: option.splits)
  with complete_owner [OF 2(5), of "tc_plan k"] show ?thesis by (simp add: takeover_rank_def)
qed simp

lemma granted_names:
  assumes "claimTakeover db0 plan s = (Some k, db1)"
  shows "epoch_names (tc_plan k) (tc_epoch k) (tc_session k) (run_steps (takeover_step decode) db1 es)"
proof -
  from owner_after_claim [OF assms] have "epoch_names (tc_plan k) (tc_epoch k) (tc_session k) db1"
    by (simp add: epoch_names_def)
  then show ?thesis by (rule naming.trapped_run) simp
qed

text \<open>
  C6: a spent claim is dead. Once a takeover was granted to a session and then either another session
  was granted the same plan, or the takeover was completed, that claim can do nothing any more,
  whatever happens to the database in between and afterwards: it can retire no session, mark no
  writer as stopped and commit no ownership.
\<close>
theorem spent_claims_are_dead:
  assumes "claimTakeover old plan s = (Some k, granted)"
    and "mid = run_steps (takeover_step decode) granted es"
    and "(\<exists>s' k'. s' \<noteq> s \<and> claimTakeover mid plan s' = (Some k', spent))
      \<or> (\<exists>st evs th tu. completeTakeover decode mid k st evs th tu = Inr (True, spent))"
    and "db = run_steps (takeover_step decode) spent later"
  shows "retireAll db k ids = (False, db) \<and> markStopped db k writer = (False, db)
    \<and> (\<forall>db'. completeTakeover decode db k st' evs' th' tu' \<noteq> Inr (True, db'))"
proof -
  note k = owner_after_claim(2,3) [OF assms(1)]
  from granted_names [OF assms(1)] have "epoch_names (tc_plan k) (tc_epoch k) (tc_session k) mid"
    unfolding assms(2) .
  with superseded_rank completed_rank assms(3) k have "2 * tc_epoch k < takeover_rank (tc_plan k) spent"
    by blast
  with epochs.rank_run have "2 * tc_epoch k < takeover_rank (tc_plan k) db"
    unfolding assms(4) by (rule less_le_trans [rotated])
  then have "\<not> claim_current db k" by (rule rank_above_not_current)
  with not_current_does_nothing show ?thesis by blast
qed

definition bare_db :: takeover_db where
  "bare_db = \<lparr> td_pilot = empty_db, td_owners = [], td_retired = [],
     td_relay = [\<lparr> rr_id = ''s'', rr_turn_active = True, rr_thread = Some ''h'', rr_turn = Some ''t'' \<rparr>] \<rparr>"

theorem spent_claims_are_dead_witness:
  "\<exists>k db db'. claimTakeover bare_db ''p'' ''a'' = (Some k, db)
     \<and> claimTakeover db ''p'' ''b'' = (Some \<lparr> tc_plan = ''p'', tc_session = ''b'', tc_epoch = 2,
          tc_phase = StoppingPhase \<rparr>, db')
     \<and> retireAll db' k [''x''] = (False, db')"
proof -
  let ?k = "\<lparr> tc_plan = ''p'', tc_session = ''a'', tc_epoch = 1, tc_phase = StoppingPhase \<rparr>"
  let ?k' = "\<lparr> tc_plan = ''p'', tc_session = ''b'', tc_epoch = 2, tc_phase = StoppingPhase \<rparr>"
  have first: "claimTakeover bare_db ''p'' ''a'' = (Some ?k, bare_db\<lparr>td_owners := [?k]\<rparr>)"
    by (simp add: claimTakeover_def takeover_owner_def bare_db_def map_set_def Let_def)
  have second: "claimTakeover (bare_db\<lparr>td_owners := [?k]\<rparr>) ''p'' ''b'' = (Some ?k', bare_db\<lparr>td_owners := [?k']\<rparr>)"
    by (simp add: claimTakeover_def takeover_owner_def bare_db_def map_set_def owner_busy_def Let_def)
  have none: "db = run_steps (takeover_step plain_decode) db []" for db by simp
  have "\<exists>s' k'. s' \<noteq> ''a'' \<and> claimTakeover (bare_db\<lparr>td_owners := [?k]\<rparr>) ''p'' s'
      = (Some k', bare_db\<lparr>td_owners := [?k']\<rparr>)"
    by (rule exI [of _ "''b''"], rule exI [of _ ?k'], rule conjI [OF _ second]) simp
  from spent_claims_are_dead [OF first none disjI1 [OF this] none, of "[''x'']"]
  have "retireAll (bare_db\<lparr>td_owners := [?k']\<rparr>) ?k [''x''] = (False, bare_db\<lparr>td_owners := [?k']\<rparr>)"
    by (rule conjunct1)
  with first second show ?thesis by (intro exI conjI)
qed

subsection \<open>Every writer is stopped\<close>

lemma retire_fold_stopped:
  "\<exists>r \<in> set rows. retired_key r = key \<and> rt_stopped r \<Longrightarrow>
     \<exists>r \<in> set (foldl (retire_one plan) rows ids). retired_key r = key \<and> rt_stopped r"
proof (induction ids arbitrary: rows)
  case (Cons i ids)
  then have "\<exists>r \<in> set (retire_one plan rows i). retired_key r = key \<and> rt_stopped r"
    by (auto simp: retire_one_def)
  then show ?case using Cons.IH by simp
qed simp

lemma stopped_key:
  "is_stopped db plan s \<longleftrightarrow> (\<exists>r \<in> set (td_retired db). retired_key r = (plan, s) \<and> rt_stopped r)"
  by (auto simp: is_stopped_def retired_key_def)

lemma retire_stopped: "is_stopped db plan s \<Longrightarrow> is_stopped (snd (retireAll db k ids)) plan s"
  using retire_fold_stopped [of "td_retired db" "(plan, s)" "tc_plan k" ids]
  by (simp add: stopped_key retireAll_def)

lemma stopped_update:
  assumes "r \<in> set rows" and "retired_key r = key" and "rt_stopped r \<or> P r"
  shows "\<exists>r \<in> set (update_where P (\<lambda>r. r\<lparr>rt_stopped := True\<rparr>) rows). retired_key r = key \<and> rt_stopped r"
proof -
  let ?r = "if P r then r\<lparr>rt_stopped := True\<rparr> else r"
  have "?r \<in> set (update_where P (\<lambda>r. r\<lparr>rt_stopped := True\<rparr>) rows)"
    using assms(1) by (auto simp: update_where_def)
  moreover have "retired_key ?r = key" "rt_stopped ?r"
    using assms(2,3) by (auto simp: retired_key_def)
  ultimately show ?thesis by blast
qed

lemma mark_stopped:
  assumes "is_stopped db plan s"
  shows "is_stopped (snd (markStopped db k s')) plan s"
proof -
  from assms obtain r where "r \<in> set (td_retired db)" "retired_key r = (plan, s)" "rt_stopped r"
    by (auto simp: stopped_key)
  with stopped_update [of r "td_retired db" "(plan, s)"] assms show ?thesis
    by (simp add: markStopped_def stopped_key)
qed

lemma mark_sets:
  assumes "markStopped db k s = (True, db')"
  shows "is_stopped db' (tc_plan k) s"
proof -
  from assms obtain r where "r \<in> set (td_retired db)" "retired_key r = (tc_plan k, s)"
    and db': "db' = db\<lparr>td_retired := update_where (\<lambda>r. retired_key r = (tc_plan k, s))
        (\<lambda>r. r\<lparr>rt_stopped := True\<rparr>) (td_retired db)\<rparr>"
    by (auto simp: markStopped_def is_retired_def retired_key_def split: if_splits)
  then show ?thesis
    using stopped_update [of r "td_retired db" "(tc_plan k, s)"] by (simp add: db' stopped_key)
qed

lemma claim_retired: "td_retired (snd (claimTakeover db plan s)) = td_retired db"
  by (auto simp: claimTakeover_def Let_def split: option.splits)

lemma complete_retired:
  "completeTakeover decode db k st evs th tu = Inr (b, db') \<Longrightarrow> td_retired db' = td_retired db"
  by (erule complete_cases) simp_all

lemma stopped_cong: "td_retired db' = td_retired db \<Longrightarrow> is_stopped db' plan s = is_stopped db plan s"
  by (simp add: is_stopped_def)

lemma stopped_step:
  assumes "is_stopped db plan s"
  shows "is_stopped (takeover_step decode db e) plan s"
proof (cases e)
  case (CompletePlan k st evs th tu)
  show ?thesis
  proof (cases "completeTakeover decode db k st evs th tu")
    case (Inr r)
    obtain b db' where r: "r = (b, db')" by force
    with Inr have "td_retired db' = td_retired db" by (simp add: complete_retired)
    with assms Inr r CompletePlan show ?thesis by (simp add: is_stopped_def)
  qed (use assms CompletePlan in simp)
next
  case (ClaimPlan p t)
  with assms claim_retired [of db p t] show ?thesis by (simp add: is_stopped_def)
next
  case (RetireSessions k ids)
  with assms show ?thesis by (simp add: retire_stopped)
next
  case (MarkStopped k t)
  with assms show ?thesis by (simp add: mark_stopped)
qed (use assms in \<open>simp_all add: is_stopped_def\<close>)

interpretation stopping: trapping_stepper "takeover_step decode" "\<lambda>_. True" "\<lambda>db. is_stopped db plan s" "\<lambda>_. False"
  by unfold_locales (simp_all add: stopped_step)

lemma stop_all_keeps:
  "is_stopped db plan s \<Longrightarrow> is_stopped (snd (stop_all decode env answer k ps db)) plan s"
proof (induction decode env answer k ps db rule: stop_all.induct)
  case (2 decode env answer k p ps db)
  let ?db1 = "run_steps (takeover_step decode) db (env p)"
  from "2.prems" have env: "is_stopped ?db1 plan s" by (rule stopping.trapped_run) simp
  show ?case
  proof (cases "is_stopped db (tc_plan k) p")
    case True
    with 2 show ?thesis by simp
  next
    case False
    obtain m db2 where mark: "markStopped ?db1 k p = (m, db2)" by force
    with mark_stopped [OF env, of k p] have "is_stopped db2 plan s" by simp
    with 2 False env mark show ?thesis
      by (cases "answer p"; cases m) (auto simp: Let_def)
  qed
qed simp

lemma stop_all_stops:
  "stop_all decode env answer k ps db = (None, db') \<Longrightarrow> p \<in> set ps \<Longrightarrow> is_stopped db' (tc_plan k) p"
proof (induction decode env answer k ps db rule: stop_all.induct)
  case (2 decode env answer k q ps db)
  let ?db1 = "run_steps (takeover_step decode) db (env q)"
  show ?case
  proof (cases "is_stopped db (tc_plan k) q")
    case True
    with "2.prems" have rest: "stop_all decode env answer k ps db = (None, db')" by simp
    with stop_all_keeps [OF True, of decode env answer k ps] have "is_stopped db' (tc_plan k) q" by simp
    with "2.IH"(1) True rest "2.prems"(2) show ?thesis by auto
  next
    case False
    then obtain db2 where answer: "answer q = WriterStopped" and mark: "markStopped ?db1 k q = (True, db2)"
      and rest: "stop_all decode env answer k ps db2 = (None, db')"
      using "2.prems"(1) by (auto simp: Let_def split: stop_answer.splits prod.splits bool.splits)
    from stop_all_keeps [OF mark_sets [OF mark], of decode env answer k ps] rest
    have "is_stopped db' (tc_plan k) q" by simp
    with "2.IH"(2) [OF False refl answer mark [symmetric] refl rest] "2.prems"(2) show ?thesis by auto
  qed
qed simp

text \<open>Nobody is recorded as stopped unless a step of somebody, or the answer of the runtime, says so.\<close>

definition marks :: "string \<Rightarrow> string \<Rightarrow> takeover_event list \<Rightarrow> bool" where
  "marks plan p es \<longleftrightarrow> (\<exists>k. MarkStopped k p \<in> set es \<and> tc_plan k = plan)"

lemma stopped_rows:
  "\<exists>r \<in> set (update_where P (\<lambda>r. r\<lparr>rt_stopped := True\<rparr>) rows). retired_key r = key \<and> rt_stopped r \<Longrightarrow>
     (\<exists>r \<in> set rows. retired_key r = key \<and> rt_stopped r) \<or> (\<exists>r. P r \<and> retired_key r = key)"
proof -
  assume "\<exists>r \<in> set (update_where P (\<lambda>r. r\<lparr>rt_stopped := True\<rparr>) rows). retired_key r = key \<and> rt_stopped r"
  then obtain r where r: "r \<in> set rows" "retired_key (if P r then r\<lparr>rt_stopped := True\<rparr> else r) = key"
    "rt_stopped (if P r then r\<lparr>rt_stopped := True\<rparr> else r)"
    by (auto simp: in_set_update_where)
  then have "retired_key r = key" by (simp add: retired_key_def split: if_splits)
  with r show ?thesis by (cases "P r") auto
qed

lemma marked_before:
  assumes "is_stopped (snd (markStopped db k t)) plan p"
  shows "is_stopped db plan p \<or> (tc_plan k = plan \<and> t = p)"
proof (cases "claim_current db k \<and> is_retired db (tc_plan k) t")
  case True
  with assms stopped_rows [of "\<lambda>r. retired_key r = (tc_plan k, t)" "td_retired db" "(plan, p)"] show ?thesis
    by (auto simp: markStopped_def stopped_key)
qed (use assms in \<open>auto simp: markStopped_def\<close>)

lemma retired_before:
  "\<exists>r \<in> set (foldl (retire_one plan) rows ids). retired_key r = key \<and> rt_stopped r \<Longrightarrow>
     \<exists>r \<in> set rows. retired_key r = key \<and> rt_stopped r"
proof (induction ids arbitrary: rows)
  case (Cons i ids)
  then have "\<exists>r \<in> set (retire_one plan rows i). retired_key r = key \<and> rt_stopped r" by simp
  then show ?case by (auto simp: retire_one_def split: if_splits)
qed simp

lemma stopped_before:
  assumes "is_stopped (takeover_step decode db e) plan p"
  shows "is_stopped db plan p \<or> marks plan p [e]"
proof (cases e)
  case (CompletePlan k st evs th tu)
  show ?thesis
  proof (cases "completeTakeover decode db k st evs th tu")
    case (Inr r)
    obtain b db' where r: "r = (b, db')" by force
    with Inr have "td_retired db' = td_retired db" by (simp add: complete_retired)
    with assms Inr r CompletePlan show ?thesis by (simp add: is_stopped_def)
  qed (use assms CompletePlan in simp)
next
  case (ClaimPlan q t)
  with assms claim_retired [of db q t] show ?thesis by (simp add: is_stopped_def)
next
  case (RetireSessions k ids)
  with assms retired_before [of "tc_plan k" "td_retired db" ids "(plan, p)"] show ?thesis
    by (auto simp: stopped_key retireAll_def split: if_splits)
next
  case (MarkStopped k t)
  with assms marked_before [of db k t plan p] show ?thesis by (auto simp: marks_def)
qed (use assms in \<open>simp_all add: is_stopped_def\<close>)

lemma stopped_run:
  "is_stopped (run_steps (takeover_step decode) db es) plan p \<Longrightarrow> is_stopped db plan p \<or> marks plan p es"
proof (induction es arbitrary: db)
  case (Cons e es)
  then have "is_stopped (takeover_step decode db e) plan p \<or> marks plan p es" by simp
  with stopped_before [of decode db e plan p] show ?case by (auto simp: marks_def)
qed simp

lemma fence_all_stopped:
  "is_stopped (fence_all decode fence plan ps db) plan' p \<Longrightarrow>
     is_stopped db plan' p \<or> (\<exists>q \<in> set ps. marks plan' p (fence q))"
proof (induction decode fence plan ps db rule: fence_all.induct)
  case (2 decode fence plan q ps db)
  then have "is_stopped (if is_stopped db plan q then db else run_steps (takeover_step decode) db (fence q)) plan' p
      \<or> (\<exists>q \<in> set ps. marks plan' p (fence q))" by simp
  with stopped_run [of decode db "fence q" plan' p] show ?case by (auto split: if_splits)
qed simp

lemma stop_all_stopped:
  "stop_all decode env answer k ps db = (None, db') \<Longrightarrow> is_stopped db' (tc_plan k) p \<Longrightarrow>
     is_stopped db (tc_plan k) p \<or> (\<exists>q \<in> set ps. marks (tc_plan k) p (env q)) \<or> answer p = WriterStopped"
proof (induction decode env answer k ps db rule: stop_all.induct)
  case (2 decode env answer k q ps db)
  let ?db1 = "run_steps (takeover_step decode) db (env q)"
  show ?case
  proof (cases "is_stopped db (tc_plan k) q")
    case True
    with 2 show ?thesis by auto
  next
    case False
    then obtain db2 where answer: "answer q = WriterStopped" and mark: "markStopped ?db1 k q = (True, db2)"
      and rest: "stop_all decode env answer k ps db2 = (None, db')"
      using "2.prems"(1) by (auto simp: Let_def split: stop_answer.splits prod.splits bool.splits)
    from "2.IH"(2) [OF False refl answer mark [symmetric] refl rest "2.prems"(2)]
    consider "is_stopped db2 (tc_plan k) p" | "\<exists>q \<in> set ps. marks (tc_plan k) p (env q)" | "answer p = WriterStopped" by blast
    then show ?thesis
    proof cases
      case 1
      with marked_before [of ?db1 k q "tc_plan k" p] mark have "is_stopped ?db1 (tc_plan k) p \<or> q = p" by auto
      with stopped_run [of decode db "env q" "tc_plan k" p] answer show ?thesis by auto
    qed auto
  qed
qed simp

lemma owner_answer_old: "owner_answer c i \<noteq> Accepted False identity prev b"
  by (simp add: owner_answer_def split: option.splits)

lemma accepted_cases:
  assumes "run_takeover decode collate fence env answer context later preds now session thread turn db
      = (Accepted False identity prev b, db')"
  obtains c i fp claim granted retired current stopped where
    "takeover_guard context thread turn = Inr (c, i)"
    "eligible_predecessors c session preds \<noteq> []" "plan_fingerprint (tx_plan c) = Some fp"
    "claimTakeover db (tx_identity c) session = (Some claim, granted)"
    "retireAll granted claim (previous_ids (eligible_predecessors c session preds)) = (True, retired)"
    "stop_all decode env answer claim (previous_ids (eligible_predecessors c session preds))
       (fence_all decode fence (tx_identity c) (previous_ids (eligible_predecessors c session preds)) retired)
     = (None, stopped)"
    "context_kept c later thread turn fp = Some (Some current)"
    "commit_takeover decode collate c current i (eligible_predecessors c session preds) fp now session
       thread turn claim stopped = (Accepted False identity prev b, db')"
  using assms owner_answer_old
  by (auto simp: run_takeover_def Let_def split: sum.splits if_splits option.splits prod.splits bool.splits)

lemma commit_cases_takeover:
  assumes "commit_takeover decode collate start current i ps fp now session thread turn claim db
      = (Accepted False identity prev b, db')"
  obtains executor state evs where
    "takeover_executor current i (tx_identity start) fp ps = Some (identity, executor)"
    "state = taken_over_state (coalesce (tx_state current) (disabledAutopilot session now))
       (tx_identity current) fp (state_generation start) now
       (inherited_ledger collate current (tx_identity start) ps) executor turn"
    "completeTakeover decode db claim state evs thread turn = Inr (True, db')" "prev = previous_ids ps"
  using assms
  by (auto simp: commit_takeover_def Let_def split: option.splits prod.splits sum.splits bool.splits)

lemma next_generation_above:
  assumes "e \<in> set es"
  shows "physical_generation e < next_generation es"
proof -
  from assms have "physical_generation e \<le> Max (set (map physical_generation es))"
    by (intro Max_ge) auto
  with assms show ?thesis by (auto simp: next_generation_def less_Suc_eq_le)
qed

lemma executor_identity_of:
  assumes "takeover_executor current i plan fp ps = Some (identity, executor)"
  shows "executorIdentity (milestone_task i) (int (next_generation (previous_executors i ps))) = Some identity"
  using assms by (auto simp: takeover_executor_def Let_def bind_eq_Some_conv split: option.splits)

lemma identity_fields:
  assumes "executorIdentity name n = Some identity"
  shows "ei_canonical identity = name" and "int (ei_generation identity) = n"
    and "ei_position identity = orgPlanAgentDisplayName name"
  using assms by (auto simp: executorIdentity_def split: if_splits)

lemma guard_passed:
  assumes "takeover_guard context thread turn = Inr (c, i)"
  shows "context = Some c" and "currentExecutableL1Index (tx_plan c) = Some i"
  using assms by (auto simp: takeover_guard_def split: option.splits if_splits)

lemma previous_executor_in:
  "p \<in> set ps \<Longrightarrow> au_executor (tp_state p) = Some e \<Longrightarrow> el_canonical e = milestone_task i
     \<Longrightarrow> e \<in> set (previous_executors i ps)"
  by (auto simp: previous_executors_def List.map_filter_def intro!: image_eqI [where x = p])

text \<open>
  C5: a takeover is accepted only after every previous writer was stopped. An accepted takeover names
  the sessions it took over from, all eligible predecessors and at least one; each of them is retired
  and recorded as stopped for the plan. An answer that its processes still run never counts: either the
  runtime answered in this run that they have stopped, or the session was recorded as stopped before
  the run, or somebody else recorded it under a claim of the same plan while this run fenced or
  waited. The plan belongs to the claimant,
  completed; and the new executor is of the milestone that may run next, in a generation above that
  of every executor of the milestone the predecessors had.
\<close>
theorem takeover_stops_every_writer:
  assumes "run_takeover decode collate fence env answer context later preds now session thread turn db
      = (Accepted False identity prev b, db')"
  shows "\<exists>c i. context = Some c \<and> currentExecutableL1Index (tx_plan c) = Some i
    \<and> prev = previous_ids (eligible_predecessors c session preds) \<and> prev \<noteq> []
    \<and> (\<forall>p \<in> set prev. is_retired db' (tx_identity c) p \<and> is_stopped db' (tx_identity c) p
          \<and> (answer p = WriterStopped \<or> is_stopped db (tx_identity c) p
             \<or> (\<exists>q \<in> set prev. marks (tx_identity c) p (fence q) \<or> marks (tx_identity c) p (env q))))
    \<and> map_option (\<lambda>k. (tc_session k, tc_phase k)) (takeover_owner db' (tx_identity c))
        = Some (session, ReadyPhase)
    \<and> ei_canonical identity = milestone_task i
    \<and> (\<forall>p \<in> set (eligible_predecessors c session preds). \<forall>e. au_executor (tp_state p) = Some e
          \<and> el_canonical e = milestone_task i \<longrightarrow> physical_generation e < ei_generation identity)"
proof -
  from accepted_cases [OF assms] obtain c i fp claim granted retired current stopped where
    guard: "takeover_guard context thread turn = Inr (c, i)"
    and some: "eligible_predecessors c session preds \<noteq> []"
    and claim: "claimTakeover db (tx_identity c) session = (Some claim, granted)"
    and retire: "retireAll granted claim (previous_ids (eligible_predecessors c session preds)) = (True, retired)"
    and stop: "stop_all decode env answer claim (previous_ids (eligible_predecessors c session preds))
       (fence_all decode fence (tx_identity c) (previous_ids (eligible_predecessors c session preds)) retired)
     = (None, stopped)"
    and commit: "commit_takeover decode collate c current i (eligible_predecessors c session preds) fp now
       session thread turn claim stopped = (Accepted False identity prev b, db')"
    by metis
  let ?ps = "eligible_predecessors c session preds"
  note owner = owner_after_claim(2,3) [OF claim]
  from commit_cases_takeover [OF commit] obtain executor state evs where
    new: "takeover_executor current i (tx_identity c) fp ?ps = Some (identity, executor)"
    and complete: "completeTakeover decode stopped claim state evs thread turn = Inr (True, db')"
    and prev: "prev = previous_ids ?ps"
    by metis
  note identity = identity_fields [OF executor_identity_of [OF new]]
  have stopped: "is_stopped db' (tx_identity c) p" if "p \<in> set prev" for p
    using stop_all_stops [OF stop] stopped_cong [OF complete_retired [OF complete]] owner(1) prev that by auto
  moreover from this have "is_retired db' (tx_identity c) p" if "p \<in> set prev" for p
    using that by (auto simp: is_stopped_def is_retired_def)
  moreover have "answer p = WriterStopped \<or> is_stopped db (tx_identity c) p
      \<or> (\<exists>q \<in> set prev. marks (tx_identity c) p (fence q) \<or> marks (tx_identity c) p (env q))" if "p \<in> set prev" for p
  proof -
    have "is_stopped stopped (tc_plan claim) p"
      using stop_all_stops [OF stop] that prev by simp
    from stop_all_stopped [OF stop this] fence_all_stopped
      [of decode fence "tx_identity c" "previous_ids ?ps" retired "tx_identity c" p]
    consider "is_stopped retired (tx_identity c) p" | "answer p = WriterStopped"
      | "\<exists>q \<in> set prev. marks (tx_identity c) p (fence q) \<or> marks (tx_identity c) p (env q)"
      unfolding owner(1) prev by blast
    then show ?thesis
    proof cases
      case 1
      then have "is_stopped (takeover_step decode granted (RetireSessions claim (previous_ids ?ps))) (tx_identity c) p"
        using retire by simp
      with stopped_before have "is_stopped granted (tx_identity c) p" by (fastforce simp: marks_def)
      moreover have "td_retired granted = td_retired db" using claim_retired [of db "tx_identity c" session] claim by simp
      ultimately show ?thesis by (simp add: is_stopped_def)
    qed simp_all
  qed
  moreover have "map_option (\<lambda>k. (tc_session k, tc_phase k)) (takeover_owner db' (tx_identity c))
      = Some (session, ReadyPhase)"
    using complete
  proof (cases rule: complete_cases)
    case (2 pilot)
    from 2(2) obtain k where k: "takeover_owner stopped (tc_plan claim) = Some k" "tc_session k = session"
      using owner(2) by (auto simp: claim_current_def split: option.splits)
    from complete_owner [OF 2(5), of "tx_identity c"] k owner(1) show ?thesis by simp
  qed simp
  moreover have "physical_generation e < ei_generation identity"
    if "p \<in> set ?ps" "au_executor (tp_state p) = Some e" "el_canonical e = milestone_task i" for p e
    using next_generation_above [OF previous_executor_in [OF that]] identity(2) by simp
  ultimately show ?thesis
    using guard_passed [OF guard] prev some identity(1) by (auto simp: previous_ids_def)
qed

definition claimant :: takeover_context where
  "claimant =
     \<lparr> tx_session = \<lparr> rs_id = ''s'', rs_codex = True, rs_workspace = ''/w'', rs_thread = Some ''h'',
         rs_turn = Some ''t'' \<rparr>,
       tx_plan = small_plan WIP, tx_identity = ''p'', tx_state = None, tx_admission = True,
       tx_held = False, tx_local = False \<rparr>"

definition previous_writer :: predecessor where
  "previous_writer =
     \<lparr> tp_session = \<lparr> rs_id = ''q'', rs_codex = True, rs_workspace = ''/w'', rs_thread = None, rs_turn = None \<rparr>,
       tp_state = stored_session\<lparr>au_plan := Some ''p''\<rparr> \<rparr>"

abbreviation "sample_takeover \<equiv>
  run_takeover (\<lambda>_. Inr stored_session) (\<lambda>_ _. 0) (\<lambda>_. []) (\<lambda>_. []) (\<lambda>_. WriterStopped)
    (Some claimant) (Some claimant) [previous_writer] ''u'' ''s'' ''h'' ''t'' bare_db"

lemma sample_takeover_accepted:
  "\<exists>identity prev b db. sample_takeover = (Accepted False identity prev b, db)"
proof -
  from small_plan_fingerprint obtain fp where fp: "plan_fingerprint (small_plan WIP) = Some fp"
    by blast
  let ?k = "\<lparr> tc_plan = ''p'', tc_session = ''s'', tc_epoch = 1, tc_phase = StoppingPhase \<rparr>"
  let ?r = "\<lparr> rt_plan = ''p'', rt_session = ''q'', rt_stopped = False \<rparr>"
  have guard: "takeover_guard (Some claimant) ''h'' ''t'' = Inr (claimant, 0)" by code_simp
  have ps: "eligible_predecessors claimant ''s'' [previous_writer] = [previous_writer]" by code_simp
  have ids: "previous_ids [previous_writer] = [''q'']" by code_simp
  have claim: "claimTakeover bare_db ''p'' ''s'' = (Some ?k, bare_db\<lparr>td_owners := [?k]\<rparr>)"
    by (simp add: claimTakeover_def takeover_owner_def bare_db_def map_set_def Let_def)
  have retire: "retireAll (bare_db\<lparr>td_owners := [?k]\<rparr>) ?k [''q'']
      = (True, bare_db\<lparr>td_owners := [?k], td_retired := [?r]\<rparr>)"
    by (simp add: retireAll_def retire_one_def claim_current_def takeover_owner_def bare_db_def)
  have stop: "stop_all (\<lambda>_. Inr stored_session) (\<lambda>_. []) (\<lambda>_. WriterStopped) ?k [''q'']
       (bare_db\<lparr>td_owners := [?k], td_retired := [?r]\<rparr>)
     = (None, bare_db\<lparr>td_owners := [?k], td_retired := [\<lparr> rt_plan = ''p'', rt_session = ''q'', rt_stopped = True \<rparr>]\<rparr>)"
    by (simp add: is_stopped_def is_retired_def markStopped_def claim_current_def takeover_owner_def
        bare_db_def retired_key_def Let_def)
  have fence: "fence_all (\<lambda>_. Inr stored_session) (\<lambda>_. []) ''p'' [''q''] db = db" for db
    by simp
  have es: "previous_executors 0 [previous_writer] = [the (pl_executor sample_lifecycle)]"
    "source_executor [the (pl_executor sample_lifecycle)] = pl_executor sample_lifecycle"
    "executorIdentity (milestone_task 0) (int (next_generation [the (pl_executor sample_lifecycle)]))
      = Some \<lparr> ei_canonical = ''l1'', ei_position = ''L1'', ei_generation = 3, ei_name = ''l1_g3'' \<rparr>"
    "executorAssignment (the (pl_executor sample_lifecycle)) UnavailableAssignment \<noteq> None"
    "pl_executor sample_lifecycle \<noteq> None"
    by code_simp+
  have executor: "\<exists>identity e. takeover_executor claimant 0 ''p'' fp [previous_writer] = Some (identity, Some e)"
    using es by (auto simp: takeover_executor_def Let_def claimant_def small_plan_def at_index_def)
  then obtain identity e where
    executor: "takeover_executor claimant 0 ''p'' fp [previous_writer] = Some (identity, Some e)" by blast
  let ?db = "bare_db\<lparr>td_owners := [?k], td_retired := [\<lparr> rt_plan = ''p'', rt_session = ''q'', rt_stopped = True \<rparr>]\<rparr>"
  have complete: "\<exists>db. completeTakeover (\<lambda>_. Inr stored_session) ?db ?k
      (taken_over_state (disabledAutopilot ''s'' ''u'') ''p'' fp 0 ''u'' history (Some e) ''t'') evs ''h'' ''t''
      = Inr (True, db)" for history evs
    by (simp add: completeTakeover_def taken_over_state_def pilot_find_def pilot_save_def root_is_def
        claim_current_def takeover_owner_def bare_db_def empty_db_def disabledAutopilot_def)
  obtain history where history: "inherited_ledger (\<lambda>_ _. 0) claimant ''p'' [previous_writer] = history" by blast
  from complete [of history "[takeover_audit ''s'' ''u'' [''q''] 0 identity]"] obtain db where
    commit: "commit_takeover (\<lambda>_. Inr stored_session) (\<lambda>_ _. 0) claimant claimant 0 [previous_writer] fp ''u''
      ''s'' ''h'' ''t'' ?k ?db
      = (Accepted False identity [''q''] (truthy_opt (Option.bind history cl_pending_turn)), db)"
    using executor history ids by (auto simp: commit_takeover_def Let_def claimant_def state_generation_def)
  have kept: "context_kept claimant (Some claimant) ''h'' ''t'' fp = Some (Some claimant)"
    using fp by (simp add: context_kept_def claimant_def)
  have "tx_identity claimant = ''p''" "tx_plan claimant = small_plan WIP" "\<not> tx_local claimant"
    by (simp_all add: claimant_def)
  moreover have "takeover_owner bare_db ''p'' = None" by (simp add: takeover_owner_def bare_db_def)
  ultimately have "sample_takeover
      = (Accepted False identity [''q''] (truthy_opt (Option.bind history cl_pending_turn)), db)"
    by (simp add: run_takeover_def guard ps ids claim retire stop fence fp kept commit foreign_owner_def
        Let_def
        del: stop_all.simps fence_all.simps One_nat_def)
  then show ?thesis by blast
qed

theorem takeover_stops_every_writer_witness:
  "\<exists>identity prev b db. sample_takeover = (Accepted False identity prev b, db)
     \<and> prev = [''q''] \<and> is_stopped db ''p'' ''q'' \<and> ei_canonical identity = ''l1'' \<and> 2 < ei_generation identity"
proof -
  from sample_takeover_accepted obtain identity prev b db
    where run: "sample_takeover = (Accepted False identity prev b, db)" by blast
  have ps: "eligible_predecessors claimant ''s'' [previous_writer] = [previous_writer]"
    "previous_ids [previous_writer] = [''q'']" "milestone_task 0 = ''l1''"
    "currentExecutableL1Index (tx_plan claimant) = Some 0" "tx_identity claimant = ''p''"
    "map_option (\<lambda>e. (el_canonical e, physical_generation e)) (au_executor (tp_state previous_writer))
       = Some (''l1'', 2)"
    by code_simp+
  from takeover_stops_every_writer [OF run] ps run show ?thesis by auto
qed

end
