(* ===== verification/Session_Progress.thy ===== *)
theory Session_Progress
  imports Progress_Key Agent_Activity_Facts Lifecycle_Writer Plan_Fingerprint Autopilot_Session
begin

text \<open>
  The progress key of a session: what \<open>progressKeyFor\<close> and \<open>supervisionRevision\<close> of
  src/server/features/autopilot/application/service.ts collect from the control state, the retained
  plan and the observed agents. \<open>digest\<close> stands for SHA-256 in hexadecimal, \<open>collate\<close> for
  \<open>localeCompare\<close>.
\<close>

record retained_plan =
  rp_plan :: supervised_plan
  rp_identity :: string

definition activity_state_names :: "(string \<times> activity_state) list" where
  "activity_state_names =
     [(''working'', WorkingAgent), (''idle'', IdleAgent), (''awaitingAgent'', AwaitingAgent),
      (''awaitingHuman'', AwaitingHuman), (''blocked'', BlockedAgent),
      (''disconnected'', DisconnectedAgent)]"

definition child_outcome_names :: "(string \<times> child_outcome) list" where
  "child_outcome_names =
     [(''partial'', PartialChild), (''cancelled'', CancelledChild), (''failed'', FailedChild)]"

definition child_progress :: "subagent \<Rightarrow> child_fact" where
  "child_progress child =
     \<lparr> cf_id = sa_id child, cf_thread = sa_thread child, cf_task = sa_task child,
       cf_position = sa_position child, cf_generation = int (coalesce (sa_generation child) 0),
       cf_state = name_of activity_state_names (sa_state child),
       cf_outcome = map_option (name_of child_outcome_names) (sa_outcome child),
       cf_processes = map (\<lambda>p. \<lparr> cp_id = xp_id p, cp_state = name_of process_state_names (xp_state p),
           cp_ownership = name_of ownership_names (xp_ownership p) \<rparr>)
         (coalesce (sa_processes child) []) \<rparr>"

definition executor_generation :: "autopilot_session option \<Rightarrow> int" where
  "executor_generation state =
     int (coalesce (map_option el_generation (Option.bind state au_executor)) 0)"

text \<open>\<open>None\<close> is a throw of the plan fingerprint.\<close>

definition session_facts ::
  "autopilot_session option \<Rightarrow> retained_plan option \<Rightarrow> activity_snapshot option \<Rightarrow> bool \<Rightarrow> bool
     \<Rightarrow> progress_facts option" where
  "session_facts state retained activity pending include_root =
     do {
       fingerprint \<leftarrow> (case retained of None \<Rightarrow> Some ''none'' | Some r \<Rightarrow> plan_fingerprint (rp_plan r));
       Some \<lparr>
         sf_plan = \<lparr> pf_identity = coalesce (map_option rp_identity retained) ''none'',
                     pf_fingerprint = fingerprint,
                     pf_position = map_option (\<lambda>r. plan_current (rp_plan r)) retained \<rparr>,
         sf_review = None,
         sf_pending_turn = Option.bind (Option.bind state au_checkpoints) cl_pending_turn,
         sf_review_accepted =
           coalesce (map_option cl_terminal (Option.bind state au_checkpoints)) False,
         sf_interactions =
           (if pending then [\<lparr> in_id = ''pending'', in_kind = ''session'', in_state = ''pending'' \<rparr>] else []),
         sf_executor_generation = executor_generation state,
         sf_executor_state =
           map_option (\<lambda>e. name_of executor_outcome_names (el_outcome e)) (Option.bind state au_executor),
         sf_processes =
           map (\<lambda>p. \<lparr> op_id = xp_id p, op_state = name_of process_state_names (xp_state p),
                      op_owner = executor_generation state \<rparr>)
             (coalesce (map_option el_processes (Option.bind state au_executor)) []),
         sf_children =
           map child_progress (coalesce (map_option as_subagents activity) []),
         sf_agents =
           (case activity of
              None \<Rightarrow> []
            | Some a \<Rightarrow>
                if include_root
                then [\<lparr> ao_agent = ''root'', ao_sequence = 0,
                        ao_state = name_of activity_state_names (ra_state (as_root a)) \<rparr>]
                else []) \<rparr> }"

definition progressKeyFor ::
  "(string \<Rightarrow> string \<Rightarrow> int) \<Rightarrow> autopilot_session option \<Rightarrow> retained_plan option
     \<Rightarrow> activity_snapshot option \<Rightarrow> bool \<Rightarrow> bool \<Rightarrow> string option" where
  "progressKeyFor collate state retained activity pending include_root =
     map_option (semanticProgressKey collate)
       (session_facts state retained activity pending include_root)"

definition supervisionRevision ::
  "(string \<Rightarrow> string) \<Rightarrow> (string \<Rightarrow> string \<Rightarrow> int) \<Rightarrow> autopilot_session \<Rightarrow> retained_plan option
     \<Rightarrow> activity_snapshot option \<Rightarrow> bool \<Rightarrow> string option" where
  "supervisionRevision digest collate state retained activity pending =
     map_option (\<lambda>k. ''sha256:'' @ digest k)
       (progressKeyFor collate (Some state) retained activity pending True)"

end
