(* ===== verification/Checkpoint_Ledger.thy ===== *)
theory Checkpoint_Ledger
  imports Session_Progress Checkpoint_Contract Autopilot_Store_Facts
begin

text \<open>
  The durable ledger of plan boundaries: how the service of
  src/server/features/autopilot/application/service.ts records an accepted checkpoint, releases it
  with the final of its turn, keeps a failed handoff, reopens epochs after a change of the plan, and
  decides that the next continuation belongs to the root.

  \<open>digest\<close> stands for SHA-256 in hexadecimal, \<open>collate\<close> for \<open>localeCompare\<close>; \<open>None\<close> as the result of an
  operation is a throw. The state an operation hands to \<open>persist\<close> is its result, merged with the
  acknowledgements of the stored one as \<open>persist\<close> does; the audit events of \<open>persist\<close> itself are not
  modelled.
\<close>

subsection \<open>Bounds\<close>

definition boundedUnique :: "string list \<Rightarrow> nat \<Rightarrow> string list" where
  "boundedUnique values limit = keep_last limit (unique_first values)"

definition by_target :: "(string \<Rightarrow> string \<Rightarrow> int) \<Rightarrow> completion_epoch \<Rightarrow> completion_epoch \<Rightarrow> int" where
  "by_target collate a b = collate (ce_target a) (ce_target b)"

definition boundEpochs ::
  "(string \<Rightarrow> string \<Rightarrow> int) \<Rightarrow> completion_epoch list \<Rightarrow> string \<Rightarrow> completion_epoch list" where
  "boundEpochs collate epochs currentTarget =
     (let current = List.find (\<lambda>e. ce_target e = currentTarget) epochs;
          retained = sort_by (by_target collate) (filter (\<lambda>e. ce_target e \<noteq> currentTarget) epochs) in
      sort_by (by_target collate)
        (case current of
           None \<Rightarrow> take 640 retained
         | Some c \<Rightarrow> take 639 retained @ [c]))"

subsection \<open>What a checkpoint reports\<close>

fun checkpoint_target :: "org_checkpoint \<Rightarrow> string" where
  "checkpoint_target (L2Completed _ l1 l2 _ _ _ _) = checkpointTarget (TargetL2 l1 l2)"
| "checkpoint_target (L1Accepted _ l1 _ _ _ _) = checkpointTarget (TargetL1 l1)"
| "checkpoint_target (TerminalReviewAccepted _ _ _) = checkpointTarget TargetTerminal"

fun checkpoint_kind_name :: "org_checkpoint \<Rightarrow> string" where
  "checkpoint_kind_name (L2Completed _ _ _ _ _ _ _) = ''l2Completed''"
| "checkpoint_kind_name (L1Accepted _ _ _ _ _ _) = ''l1Accepted''"
| "checkpoint_kind_name (TerminalReviewAccepted _ _ _) = ''terminalReviewAccepted''"

definition reported_pair :: "string \<Rightarrow> string \<Rightarrow> string" where
  "reported_pair l1 l2 = json_text (OArr [OText l1, OText l2])"

definition boundary_key :: "(string \<Rightarrow> string) \<Rightarrow> string \<Rightarrow> string \<Rightarrow> nat \<Rightarrow> string" where
  "boundary_key digest plan target epoch =
     digest (json_text (OArr [OText plan, OText target, OInt (int epoch)]))"

definition epoch_of :: "checkpoint_ledger option \<Rightarrow> string \<Rightarrow> completion_epoch option" where
  "epoch_of previous target =
     Option.bind previous (\<lambda>c. List.find (\<lambda>e. ce_target e = target) (cl_epochs c))"

definition reported_epoch :: "checkpoint_ledger option \<Rightarrow> string \<Rightarrow> nat" where
  "reported_epoch previous target = coalesce (map_option ce_epoch (epoch_of previous target)) 0"

subsection \<open>Recording a checkpoint\<close>

text \<open>The answer that needs no write: a refusal, or an acknowledgement of what is already there.\<close>

definition settled_answer ::
  "(string \<Rightarrow> string) \<Rightarrow> checkpoint_ledger option \<Rightarrow> string \<Rightarrow> org_checkpoint \<Rightarrow> record_status option" where
  "settled_answer digest previous plan cp =
     (let target = checkpoint_target cp;
          key = boundary_key digest plan target (reported_epoch previous target) in
      if key \<in> set (coalesce (map_option cl_keys previous) []) then Some AlreadyRecorded
      else if is_TerminalReviewAccepted cp \<and> coalesce (map_option cl_terminal previous) False
      then Some AlreadyRecorded
      else if (case epoch_of previous target of
                 None \<Rightarrow> False | Some e \<Rightarrow> ce_completed e \<and> \<not> ce_reopened e) then Some AlreadyRecorded
      else if truthy_opt (Option.bind previous cl_pending_turn) then Some RecordFailed
      else None)"

definition recorded_ledger ::
  "(string \<Rightarrow> string) \<Rightarrow> (string \<Rightarrow> string \<Rightarrow> int) \<Rightarrow> checkpoint_ledger option \<Rightarrow> string
     \<Rightarrow> string option \<Rightarrow> org_checkpoint \<Rightarrow> string \<Rightarrow> checkpoint_ledger" where
  "recorded_ledger digest collate previous plan fingerprint cp turn =
     (let target = checkpoint_target cp;
          epoch = reported_epoch previous target;
          key = boundary_key digest plan target epoch;
          l2 = coalesce (map_option cl_l2 previous) [];
          l1 = coalesce (map_option cl_l1 previous) [];
          terminal = is_TerminalReviewAccepted cp in
      \<lparr> cl_plan = plan,
        cl_epochs = boundEpochs collate
          (filter (\<lambda>e. ce_target e \<noteq> target) (coalesce (map_option cl_epochs previous) [])
            @ [\<lparr> ce_target = target, ce_epoch = epoch, ce_reopened = False, ce_completed = True \<rparr>]) target,
        cl_l2 = (case cp of L2Completed _ a b _ _ _ _ \<Rightarrow> boundedUnique (l2 @ [reported_pair a b]) 512 | _ \<Rightarrow> l2),
        cl_l1 = (case cp of L1Accepted _ a _ _ _ _ \<Rightarrow> boundedUnique (l1 @ [a]) 128 | _ \<Rightarrow> l1),
        cl_keys = boundedUnique (coalesce (map_option cl_keys previous) [] @ [key]) 768,
        cl_pending_turn = Some turn, cl_pending_target = Some target,
        cl_handoff = Some (''handoff-'' @ take 24 key),
        cl_pending_kind = JStr (checkpoint_kind_name cp), cl_handoff_failed = Some False,
        cl_terminal = (terminal \<or> coalesce (map_option cl_terminal previous) False),
        cl_root_from = None,
        cl_fingerprint =
          (if terminal then fingerprint
           else if truthy_opt (Option.bind previous cl_fingerprint)
           then Option.bind previous cl_fingerprint else None) \<rparr>)"

definition close_assignment :: "org_checkpoint \<Rightarrow> executor_lifecycle option \<Rightarrow> executor_lifecycle option" where
  "close_assignment cp executor =
     (if is_L1Accepted cp
      then map_option (\<lambda>e. e\<lparr>el_assignment := map_option (\<lambda>a. a\<lparr>ea_state := ClosedAssignment\<rparr>) (el_assignment e)\<rparr>)
             executor
      else executor)"

subsection \<open>Persisting\<close>

text \<open>
  \<open>persist\<close>: a reset of the protocol keeps the acknowledged revision of the stored state, and its
  wake cause unless supervision was off or another wait begins.
\<close>

definition merged_supervision ::
  "autopilot_session \<Rightarrow> autopilot_session \<Rightarrow> protocol_state \<Rightarrow> protocol_state \<Rightarrow> protocol_state" where
  "merged_supervision earlier new old s =
     s\<lparr>ps_ack := opt_or (ps_ack s) (ps_ack old),
       ps_wake :=
         (if \<not> au_enabled new \<or> \<not> au_enabled earlier
             \<or> (ps_lease s \<noteq> None \<and> map_option wl_id (ps_lease s) \<noteq> map_option wl_id (ps_lease old))
          then Some None
          else if ps_wake s = None then ps_wake old else ps_wake s)\<rparr>"

definition persisted :: "autopilot_session option \<Rightarrow> autopilot_session \<Rightarrow> autopilot_session" where
  "persisted earlier new =
     (case (au_supervision new, Option.bind earlier au_supervision) of
        (Some s, Some old) \<Rightarrow> new\<lparr>au_supervision := Some (merged_supervision (the earlier) new old s)\<rparr>
      | _ \<Rightarrow> new)"

subsection \<open>Operations\<close>

text \<open>What the service can see of a session beside its control state.\<close>

record session_view =
  sv_retained :: "retained_plan option"
  sv_activity :: "activity_snapshot option"
  sv_pending :: bool

definition checkpoint_event_type :: "org_checkpoint \<Rightarrow> string" where
  "checkpoint_event_type cp =
     (case cp of L2Completed _ _ _ _ _ _ _ \<Rightarrow> ''org-plan.step-checkpointed''
       | L1Accepted _ _ _ _ _ _ \<Rightarrow> ''org-plan.milestone-checkpointed''
       | TerminalReviewAccepted _ _ _ \<Rightarrow> ''org-plan.terminal-review-checkpointed'')"

definition checkpoint_event :: "string \<Rightarrow> org_checkpoint \<Rightarrow> string \<Rightarrow> string \<Rightarrow> string \<Rightarrow> audit_event" where
  "checkpoint_event session cp turn handoff now =
     \<lparr> ae_session = session, ae_type = checkpoint_event_type cp,
       ae_payload = JObj
         ((case cp of
             L2Completed _ a b p _ _ _ \<Rightarrow> [(''l1Id'', JStr a), (''l2Id'', JStr b), (''position'', JStr p)]
           | L1Accepted _ a p _ _ _ \<Rightarrow> [(''l1Id'', JStr a), (''position'', JStr p)]
           | TerminalReviewAccepted _ _ _ \<Rightarrow> [])
          @ [(''turnId'', JStr turn), (''traceId'', JStr handoff)]),
       ae_at = now \<rparr>"

definition checkpointAccepted ::
  "(string \<Rightarrow> string) \<Rightarrow> (string \<Rightarrow> string \<Rightarrow> int) \<Rightarrow> session_view \<Rightarrow> autopilot_session option
     \<Rightarrow> org_checkpoint \<Rightarrow> string option \<Rightarrow> string
     \<Rightarrow> (record_status \<times> (autopilot_session \<times> audit_event) option) option" where
  "checkpointAccepted digest collate view earlier cp turn occurredAt =
     (case (earlier, sv_retained view, turn) of
        (Some st, Some retained, Some t) \<Rightarrow>
          if t = [] \<or> cp_plan cp \<noteq> rp_identity retained
             \<or> (case au_checkpoints st of None \<Rightarrow> False | Some c \<Rightarrow> cl_plan c \<noteq> rp_identity retained)
          then Some (RecordFailed, None)
          else (case settled_answer digest (au_checkpoints st) (rp_identity retained) cp of
                  Some answer \<Rightarrow> Some (answer, None)
                | None \<Rightarrow> do {
                    fingerprint \<leftarrow> (if is_TerminalReviewAccepted cp
                                    then map_option Some (plan_fingerprint (rp_plan retained)) else Some None);
                    let ledger = recorded_ledger digest collate (au_checkpoints st) (rp_identity retained)
                      fingerprint cp t;
                    let checkpointed = st\<lparr>au_executor := close_assignment cp (au_executor st),
                      au_checkpoints := Some ledger, au_updated := occurredAt\<rparr>;
                    supervision \<leftarrow> (case au_supervision st of
                        None \<Rightarrow> Some None
                      | Some s \<Rightarrow> map_option (\<lambda>k. Some (consumeCheckpointBoundary s k))
                          (progressKeyFor collate (Some checkpointed) (Some retained) (sv_activity view)
                            (sv_pending view) True));
                    Some (Recorded,
                      Some (persisted earlier (checkpointed\<lparr>au_supervision := supervision\<rparr>),
                        checkpoint_event (au_session st) cp t (coalesce (cl_handoff ledger) []) occurredAt)) })
      | _ \<Rightarrow> Some (RecordFailed, None))"

definition checkpointHandoffFailed ::
  "autopilot_session option \<Rightarrow> string option \<Rightarrow> string \<Rightarrow> bool \<times> autopilot_session option" where
  "checkpointHandoffFailed earlier turn now =
     (case Option.bind earlier au_checkpoints of
        None \<Rightarrow> (False, earlier)
      | Some c \<Rightarrow>
          if \<not> truthy_opt (cl_pending_turn c) \<or> cl_pending_turn c \<noteq> turn \<or> cl_handoff_failed c = Some True
          then (False, earlier)
          else (True, map_option (\<lambda>st. persisted earlier
                  (st\<lparr>au_checkpoints := Some (c\<lparr>cl_handoff_failed := Some True\<rparr>), au_updated := now\<rparr>)) earlier))"

subsection \<open>The final of the root\<close>

definition released_kind :: "checkpoint_ledger \<Rightarrow> jv" where
  "released_kind c =
     (if cl_pending_kind c = JNull \<or> cl_pending_kind c = JUndef
      then JStr (if cl_terminal c then ''terminalReviewAccepted'' else ''l1Accepted'')
      else cl_pending_kind c)"

definition released_ledger :: "checkpoint_ledger \<Rightarrow> checkpoint_ledger" where
  "released_ledger c =
     c\<lparr>cl_pending_turn := None, cl_pending_target := None, cl_pending_kind := JNull,
       cl_handoff_failed := Some False,
       cl_root_from := (if released_kind c \<noteq> JStr ''terminalReviewAccepted'' then cl_pending_turn c else None)\<rparr>"

definition reported_event_type :: "checkpoint_ledger \<Rightarrow> string" where
  "reported_event_type c =
     (if released_kind c = JStr ''l2Completed'' then ''org-plan.step-reported''
      else if released_kind c = JStr ''terminalReviewAccepted'' then ''org-plan.terminal-review-reported''
      else ''org-plan.milestone-reported'')"

definition reported_event :: "string \<Rightarrow> checkpoint_ledger \<Rightarrow> string \<Rightarrow> audit_event" where
  "reported_event session c now =
     \<lparr> ae_session = session, ae_type = reported_event_type c,
       ae_payload = JObj ((''turnId'', text_value (cl_pending_turn c))
         # (if truthy_opt (cl_handoff c) then [(''traceId'', text_value (cl_handoff c))] else [])),
       ae_at = now \<rparr>"

definition final_rejected :: "string \<Rightarrow> string \<Rightarrow> audit_event" where
  "final_rejected session now =
     \<lparr> ae_session = session, ae_type = ''autopilot.final-rejected'',
       ae_payload = JObj [(''reason'', JStr ''incompletePlan'')], ae_at = now \<rparr>"

text \<open>What the service does after the final: evaluate at once, or treat it as settled activity.\<close>

datatype final_follow_up = NothingFollows | EvaluateNow | ActivitySettled

text \<open>A final of another turn ends the pending resumption of the root after a provider failure.\<close>

definition end_root_retry :: "autopilot_session option \<Rightarrow> string option \<Rightarrow> autopilot_session option" where
  "end_root_retry earlier turn =
     (case earlier of
        None \<Rightarrow> None
      | Some st \<Rightarrow>
          (case au_retry st of
             None \<Rightarrow> earlier
           | Some r \<Rightarrow>
               if pvr_resume_root r \<and> truthy_opt turn \<and> turn \<noteq> Some (pvr_turn r)
               then Some (persisted earlier (st\<lparr>au_retry := Some (r\<lparr>pvr_resume_root := False\<rparr>)\<rparr>)) else earlier))"

definition explicitly_stopped :: "autopilot_session \<Rightarrow> bool" where
  "explicitly_stopped st \<longleftrightarrow>
     au_stop st \<in> {Some ManualDisabled, Some PlanRemoved, Some PlanReplaced, Some SessionEnded}"

definition checkpoint_boundary :: "session_view \<Rightarrow> autopilot_session \<Rightarrow> bool" where
  "checkpoint_boundary view st \<longleftrightarrow>
     (case au_checkpoints st of
        None \<Rightarrow> False
      | Some c \<Rightarrow> truthy_opt (cl_pending_turn c) \<and> Some (cl_plan c) = map_option rp_identity (sv_retained view))"

definition final_allowed :: "session_view \<Rightarrow> autopilot_session option \<Rightarrow> bool" where
  "final_allowed view state \<longleftrightarrow>
     (case (state, sv_retained view) of
        (Some st, Some retained) \<Rightarrow>
          explicitly_stopped st \<or> checkpoint_boundary view st
          \<or> (au_checkpoints st = None \<and> executionComplete (rp_plan retained))
          \<or> validStructuredBlock (au_blocking st)
      | _ \<Rightarrow> True)"

record final_answer =
  fa_allowed :: bool
  fa_state :: "autopilot_session option"
  fa_events :: "audit_event list"
  fa_next :: final_follow_up

definition foreign_final :: "autopilot_session option \<Rightarrow> string option \<Rightarrow> bool" where
  "foreign_final state turn \<longleftrightarrow>
     truthy_opt turn \<and> truthy_opt (Option.bind (Option.bind state au_checkpoints) cl_pending_turn)
     \<and> Option.bind (Option.bind state au_checkpoints) cl_pending_turn \<noteq> turn"

definition turnCompleted ::
  "session_view \<Rightarrow> string \<Rightarrow> autopilot_session option \<Rightarrow> string option \<Rightarrow> string \<Rightarrow> final_answer" where
  "turnCompleted view session earlier turn now =
     (let state = end_root_retry earlier turn in
      if foreign_final state turn
      then \<lparr> fa_allowed = False, fa_state = state, fa_events = [], fa_next = NothingFollows \<rparr>
      else
        let boundary = (case state of None \<Rightarrow> False | Some st \<Rightarrow> checkpoint_boundary view st);
            allowed = final_allowed view state in
        \<lparr> fa_allowed = allowed,
          fa_state = (case state of
              None \<Rightarrow> None
            | Some st \<Rightarrow>
                if boundary
                then Some (persisted state (st\<lparr>au_checkpoints := map_option released_ledger (au_checkpoints st),
                       au_updated := now\<rparr>))
                else Some st),
          fa_events =
            (case Option.bind state au_checkpoints of
               Some c \<Rightarrow> if boundary then [reported_event session c now] else []
             | None \<Rightarrow> [])
            @ (if allowed then [] else [final_rejected session now]),
          fa_next = (if boundary then EvaluateNow else ActivitySettled) \<rparr>)"

definition recoverCheckpointHandoff ::
  "session_view \<Rightarrow> string \<Rightarrow> autopilot_session option \<Rightarrow> string \<Rightarrow> final_answer" where
  "recoverCheckpointHandoff view session earlier now =
     (let pending = Option.bind (Option.bind earlier au_checkpoints) cl_pending_turn in
      if \<not> truthy_opt pending
      then \<lparr> fa_allowed = False, fa_state = earlier, fa_events = [], fa_next = NothingFollows \<rparr>
      else turnCompleted view session (snd (checkpointHandoffFailed earlier pending now)) None now)"

subsection \<open>Changes of the plan\<close>

text \<open>\<open>None\<close> is a throw: the text of a target is always a JSON array.\<close>

definition epoch_eligible :: "supervised_plan \<Rightarrow> string \<Rightarrow> bool option" where
  "epoch_eligible plan target =
     map_option (\<lambda>parts.
       let l1 = List.find (\<lambda>s. at_index parts 1 = Some (step_id s)) (plan_steps plan) in
       if at_index parts 0 = Some ''l2''
       then (case l1 of None \<Rightarrow> False
             | Some s \<Rightarrow> list_ex (\<lambda>c. at_index parts 2 = Some (child_id c) \<and> child_state c = DONE)
                          (step_children s))
       else if at_index parts 0 = Some ''l1''
       then (case l1 of None \<Rightarrow> False
             | Some s \<Rightarrow> step_state s = DONE \<and> step_review s = Some REVIEWED)
       else plan_execution_complete plan = Some True)
     (text_array target)"

definition reopen_epoch :: "completion_epoch \<Rightarrow> completion_epoch" where
  "reopen_epoch e = e\<lparr>ce_epoch := ce_epoch e + 1, ce_reopened := True, ce_completed := False\<rparr>"

definition reopen_entry :: "supervised_plan \<Rightarrow> completion_epoch \<Rightarrow> completion_epoch option" where
  "reopen_entry plan entry =
     map_option (\<lambda>eligible. if \<not> eligible \<and> \<not> ce_reopened entry then reopen_epoch entry else entry)
       (epoch_eligible plan (ce_target entry))"

definition reopenCheckpointEpochs :: "supervised_plan \<Rightarrow> completion_epoch list \<Rightarrow> completion_epoch list option" where
  "reopenCheckpointEpochs plan epochs = read_all (reopen_entry plan) epochs"

definition stale_review :: "autopilot_session \<Rightarrow> checkpoint_ledger \<Rightarrow> string \<Rightarrow> bool" where
  "stale_review st c fingerprint \<longleftrightarrow>
     cl_terminal c \<and> opt_or (cl_fingerprint c) (au_fingerprint st) \<noteq> Some fingerprint"

definition changed_ledger ::
  "autopilot_session \<Rightarrow> supervised_plan \<Rightarrow> checkpoint_ledger \<Rightarrow> checkpoint_ledger option" where
  "changed_ledger st plan c = do {
     epochs \<leftarrow> reopenCheckpointEpochs plan (cl_epochs c);
     stale \<leftarrow> (if cl_terminal c then map_option (stale_review st c) (plan_fingerprint plan) else Some False);
     Some (if stale
       then c\<lparr>cl_epochs := map (\<lambda>e. if ce_target e = checkpointTarget TargetTerminal \<and> \<not> ce_reopened e
                                   then reopen_epoch e else e) epochs,
              cl_terminal := False, cl_fingerprint := None\<rparr>
       else c\<lparr>cl_epochs := epochs\<rparr>) }"

text \<open>The ledger part of \<open>applyPlanStatusChanged\<close>, for the plan the session retains.\<close>

definition planLedgerChanged ::
  "autopilot_session \<Rightarrow> supervised_plan \<Rightarrow> string \<Rightarrow> autopilot_session option" where
  "planLedgerChanged st plan now =
     (case au_checkpoints st of
        None \<Rightarrow> Some st
      | Some c \<Rightarrow> map_option (\<lambda>c'. if c' = c then st
            else persisted (Some st) (st\<lparr>au_checkpoints := Some c', au_updated := now\<rparr>))
          (changed_ledger st plan c))"

subsection \<open>Whose turn it is\<close>

definition terminalReviewPending :: "autopilot_session \<Rightarrow> string \<Rightarrow> bool" where
  "terminalReviewPending st plan \<longleftrightarrow>
     au_plan st = Some plan
     \<and> (case au_checkpoints st of None \<Rightarrow> False | Some c \<Rightarrow> cl_plan c = plan \<and> \<not> cl_terminal c)"

definition epoch_needs_report :: "checkpoint_ledger option \<Rightarrow> string \<Rightarrow> bool" where
  "epoch_needs_report ledger target =
     (case List.find (\<lambda>e. ce_target e = target) (rev (coalesce (map_option cl_epochs ledger) [])) of
        None \<Rightarrow> False | Some e \<Rightarrow> ce_reopened e \<or> \<not> ce_completed e)"

definition milestone_needs_root :: "checkpoint_ledger option \<Rightarrow> plan_step \<Rightarrow> bool" where
  "milestone_needs_root ledger s \<longleftrightarrow>
     (step_state s = DONE \<and> step_review s \<noteq> Some REVIEWED)
     \<or> (step_state s \<noteq> SUSPENDED
        \<and> list_ex (\<lambda>c. child_state c = DONE
            \<and> (reported_pair (step_id s) (child_id c) \<notin> set (coalesce (map_option cl_l2 ledger) [])
               \<or> epoch_needs_report ledger (checkpointTarget (TargetL2 (step_id s) (child_id c)))))
            (step_children s))
     \<or> (step_state s = DONE \<and> step_review s = Some REVIEWED
        \<and> (step_id s \<notin> set (coalesce (map_option cl_l1 ledger) [])
           \<or> epoch_needs_report ledger (checkpointTarget (TargetL1 (step_id s)))))"

definition pending_run :: "autopilot_session \<Rightarrow> bool" where
  "pending_run st \<longleftrightarrow>
     (case Option.bind (au_supervision st) ps_wake of
        Some (Some cause) \<Rightarrow> truthy_opt (wc_run cause) | _ \<Rightarrow> False)"

definition requiresRootBoundary :: "autopilot_session \<Rightarrow> supervised_plan \<Rightarrow> bool" where
  "requiresRootBoundary st plan \<longleftrightarrow>
     pending_run st
     \<or> (case au_retry st of None \<Rightarrow> False | Some r \<Rightarrow> pvr_resume_root r)
     \<or> (executionComplete plan \<and> terminalReviewPending st (coalesce (au_plan st) []))
     \<or> truthy_opt (Option.bind (au_checkpoints st) cl_root_from)
     \<or> list_ex (milestone_needs_root (au_checkpoints st)) (plan_steps plan)"

subsection \<open>The accepted root turn\<close>

text \<open>The state written when a scheduled control has started a turn (\<open>updateControl\<close>).\<close>

definition rootTurnAccepted ::
  "(string \<Rightarrow> string) \<Rightarrow> (string \<Rightarrow> string \<Rightarrow> int) \<Rightarrow> session_view \<Rightarrow> autopilot_session \<Rightarrow> string
     \<Rightarrow> string \<Rightarrow> string \<Rightarrow> autopilot_session option" where
  "rootTurnAccepted digest collate view st control turn now = do {
     s \<leftarrow> (case au_supervision st of
         Some s \<Rightarrow> Some s
       | None \<Rightarrow> map_option startSupervisionProtocol
           (progressKeyFor collate (Some st) (sv_retained view) (sv_activity view) (sv_pending view) True));
     revision \<leftarrow> supervisionRevision digest collate st (sv_retained view) (sv_activity view) (sv_pending view);
     let accepted = st\<lparr>au_supervision :=
           Some (s\<lparr>ps_ack := Some \<lparr> ack_revision = revision, ack_control = control, ack_turn = turn \<rparr>,
                   ps_wake := Some None\<rparr>),
         au_updated := now\<rparr>;
     Some (case au_checkpoints st of
         Some c \<Rightarrow>
           if truthy_opt (cl_root_from c) \<and> cl_root_from c \<noteq> Some turn
           then accepted\<lparr>au_checkpoints := Some (c\<lparr>cl_root_from := None\<rparr>), au_stop := None\<rparr>
           else accepted
       | None \<Rightarrow> accepted) }"

end
