(* ===== verification/Ledger_Facts.thy ===== *)
theory Ledger_Facts
  imports Checkpoint_Ledger
begin

text \<open>
  What the ledger of plan boundaries guarantees: it stays readable, records every boundary once,
  waits for the final of the turn that reported it, returns to the root, and can report a boundary
  again after the plan reopened it.
\<close>

declare checkpointTarget.simps [simp del]

subsection \<open>Sequences of operations\<close>

datatype ledger_event =
    ReportBoundary session_view org_checkpoint "string option" string
  | RootFinal session_view "string option" string
  | HandoffFailure "string option" string
  | HandoffRecovery session_view string
  | RevisedPlan supervised_plan string
  | RootStarted session_view string string string

text \<open>An operation that throws leaves the stored state as it was.\<close>

fun ledger_step ::
  "(string \<Rightarrow> string) \<Rightarrow> (string \<Rightarrow> string \<Rightarrow> int) \<Rightarrow> autopilot_session \<Rightarrow> ledger_event \<Rightarrow> autopilot_session" where
  "ledger_step digest collate st (ReportBoundary view cp turn now) =
     (case checkpointAccepted digest collate view (Some st) cp turn now of
        Some (_, Some (st', _)) \<Rightarrow> st' | _ \<Rightarrow> st)"
| "ledger_step digest collate st (RootFinal view turn now) =
     coalesce (fa_state (turnCompleted view (au_session st) (Some st) turn now)) st"
| "ledger_step digest collate st (HandoffFailure turn now) =
     coalesce (snd (checkpointHandoffFailed (Some st) turn now)) st"
| "ledger_step digest collate st (HandoffRecovery view now) =
     coalesce (fa_state (recoverCheckpointHandoff view (au_session st) (Some st) now)) st"
| "ledger_step digest collate st (RevisedPlan plan now) = coalesce (planLedgerChanged st plan now) st"
| "ledger_step digest collate st (RootStarted view control turn now) =
     coalesce (rootTurnAccepted digest collate view st control turn now) st"

abbreviation ledger_run where
  "ledger_run digest collate \<equiv> run_steps (ledger_step digest collate)"

subsection \<open>Bounded lists\<close>

lemma boundedUnique_parts:
  "distinct (boundedUnique xs n)" "length (boundedUnique xs n) \<le> n" "set (boundedUnique xs n) \<subseteq> set xs"
proof -
  show "distinct (boundedUnique xs n)"
    using distinct_map_keep_last [of id "unique_first xs" n] by (simp add: boundedUnique_def)
  show "length (boundedUnique xs n) \<le> n" by (simp add: boundedUnique_def length_keep_last)
  show "set (boundedUnique xs n) \<subseteq> set xs"
    using set_keep_last [of n "unique_first xs"] by (simp add: boundedUnique_def)
qed

lemma unique_first_append_new:
  "x \<notin> set xs \<Longrightarrow> unique_first (xs @ [x]) = unique_first xs @ [x]"
  by (induction xs) auto

lemma boundedUnique_has_new:
  assumes "x \<notin> set xs" and "0 < n"
  shows "x \<in> set (boundedUnique (xs @ [x]) n)"
  using assms by (simp add: boundedUnique_def unique_first_append_new keep_last_def)

lemma boundedUnique_drops_nothing:
  assumes "card (set xs) \<le> n" shows "set (boundedUnique xs n) = set xs"
proof -
  have "length (unique_first xs) = card (set xs)"
    by (metis distinct_card distinct_unique_first set_unique_first)
  with assms show ?thesis by (simp add: boundedUnique_def keep_last_def)
qed

lemma boundEpochs_targets:
  assumes "keys_distinct ce_target es"
  shows "keys_distinct ce_target (boundEpochs collate es t)" "set (boundEpochs collate es t) \<subseteq> set es"
    "length (boundEpochs collate es t) \<le> 640"
proof -
  let ?r = "sort_by (by_target collate) (filter (\<lambda>e. ce_target e \<noteq> t) es)"
  have dist: "keys_distinct ce_target (sort_by cmp xs)" if "keys_distinct ce_target xs" for cmp xs
    using that by (metis keys_distinct_def mset_map mset_eq_imp_distinct_iff mset_sort_by)
  have taken: "keys_distinct ce_target (take n ?r)" for n
    using dist [OF keys_distinct_filter [OF assms]] by (simp add: keys_distinct_def take_map [symmetric])
  show "keys_distinct ce_target (boundEpochs collate es t)"
  proof (cases "List.find (\<lambda>e. ce_target e = t) es")
    case None
    then show ?thesis using dist [OF taken [of 640]] by (simp add: boundEpochs_def Let_def)
  next
    case (Some c)
    then have "ce_target c = t" by (auto dest: find_key_Some)
    then have "keys_distinct ce_target (take 639 ?r @ [c])"
      using taken [of 639] by (auto simp: keys_distinct_append1 dest: in_set_takeD)
    from dist [OF this] Some show ?thesis by (simp add: boundEpochs_def Let_def)
  qed
  show "set (boundEpochs collate es t) \<subseteq> set es"
    by (auto simp: boundEpochs_def Let_def find_Some_iff split: option.splits dest!: in_set_takeD)
  show "length (boundEpochs collate es t) \<le> 640"
    by (auto simp: boundEpochs_def Let_def split: option.splits)
qed

text \<open>Nothing is dropped while there are at most 640 different targets.\<close>

lemma boundEpochs_drops_nothing:
  assumes "keys_distinct ce_target es" and "length es \<le> 640"
  shows "set (boundEpochs collate es t) = set es"
proof (cases "List.find (\<lambda>e. ce_target e = t) es")
  case None
  then have "filter (\<lambda>e. ce_target e \<noteq> t) es = es" by (auto simp: find_None_iff filter_id_conv)
  with None assms(2) show ?thesis by (simp add: boundEpochs_def Let_def)
next
  case (Some c)
  then have c: "c \<in> set es" "ce_target c = t" by (auto simp: find_Some_iff)
  then have "length (filter (\<lambda>e. ce_target e \<noteq> t) es) < length es"
    by (intro length_filter_less [of c]) auto
  with assms(2) have "take 639 (sort_by (by_target collate) (filter (\<lambda>e. ce_target e \<noteq> t) es))
      = sort_by (by_target collate) (filter (\<lambda>e. ce_target e \<noteq> t) es)"
    by simp
  with Some have kept: "set (boundEpochs collate es t) = insert c {e \<in> set es. ce_target e \<noteq> t}"
    by (simp add: boundEpochs_def Let_def)
  have "e = c" if "e \<in> set es" "ce_target e = t" for e
    by (rule keys_distinct_inj [OF assms(1) that(1) c(1)]) (simp add: that(2) c(2))
  then have "insert c {e \<in> set es. ce_target e \<noteq> t} = set es" using c(1) by blast
  with kept show ?thesis by (rule trans)
qed

subsection \<open>Ledgers the reader accepts\<close>

definition reported_ok :: "checkpoint_ledger \<Rightarrow> bool" where
  "reported_ok c \<longleftrightarrow>
     distinct (cl_l2 c) \<and> length (cl_l2 c) \<le> 512 \<and> distinct (cl_l1 c) \<and> length (cl_l1 c) \<le> 128
     \<and> (\<forall>s \<in> set (cl_l2 c). bounded s
          \<and> (\<exists>t. legacy_l2_target s = Some t \<and> t \<in> ce_target ` set (cl_epochs c)))
     \<and> (\<forall>s \<in> set (cl_l1 c). bounded s \<and> checkpointTarget (TargetL1 s) \<in> ce_target ` set (cl_epochs c))"

definition slot_ok :: "checkpoint_ledger \<Rightarrow> bool" where
  "slot_ok c \<longleftrightarrow>
     pending_kind_ok (cl_pending_kind c) (cl_pending_turn c)
     \<and> (\<forall>t. cl_pending_turn c = Some t \<longrightarrow> bounded t)
     \<and> (\<forall>t. cl_pending_target c = Some t \<longrightarrow>
          cl_pending_turn c \<noteq> None \<and> (\<exists>k. target_bounded k \<and> t = checkpointTarget k))
     \<and> (\<forall>h. cl_handoff c = Some h \<longrightarrow> bounded h)
     \<and> (\<forall>r. cl_root_from c = Some r \<longrightarrow> bounded r)
     \<and> (\<forall>f. cl_fingerprint c = Some f \<longrightarrow> parsePlanFingerprint (JStr f) = Some f)"

text \<open>A ledger of one plan whose targets lie in \<open>T\<close> and whose epochs are at most \<open>n\<close>.\<close>

definition ledger_within :: "string \<Rightarrow> string set \<Rightarrow> nat \<Rightarrow> checkpoint_ledger \<Rightarrow> bool" where
  "ledger_within plan T n c \<longleftrightarrow>
     cl_plan c = plan \<and> keys_distinct ce_target (cl_epochs c)
     \<and> (\<forall>e \<in> set (cl_epochs c). ce_target e \<in> T \<and> ce_epoch e \<le> n)
     \<and> reported_ok c \<and> distinct (cl_keys c) \<and> length (cl_keys c) \<le> 768
     \<and> (\<forall>k \<in> set (cl_keys c). bounded k) \<and> slot_ok c"

definition target_space :: "string set \<Rightarrow> bool" where
  "target_space T \<longleftrightarrow> finite T \<and> card T \<le> 640 \<and> (\<forall>t \<in> T. \<exists>k. target_bounded k \<and> t = checkpointTarget k)"

lemma bounded_text_of: "bounded s \<Longrightarrow> bounded_text (JStr s) = Some s"
  by (simp add: bounded_def)

lemma distinct_texts_of:
  "distinct ts \<Longrightarrow> length ts \<le> n \<Longrightarrow> \<forall>s \<in> set ts. bounded s \<Longrightarrow>
     distinct_texts n (JArr (map JStr ts)) = Some ts"
proof -
  assume ts: "distinct ts" "length ts \<le> n" "\<forall>s \<in> set ts. bounded s"
  then have "read_all bounded_text (map JStr ts) = Some ts"
    by (induction ts) (simp_all add: bounded_text_of del: bounded_text.simps)
  with ts show ?thesis by (simp add: distinct_texts_def)
qed

lemma epochs_within:
  assumes "target_space T" and "keys_distinct ce_target es"
    and "\<forall>e \<in> set es. ce_target e \<in> T \<and> ce_epoch e \<le> n"
  shows "length es \<le> 640"
proof -
  have "length es = card (ce_target ` set es)"
    using assms(2) by (metis distinct_card keys_distinct_def length_map list.set_map)
  also have "\<dots> \<le> card T"
    using assms by (intro card_mono) (auto simp: target_space_def)
  finally show ?thesis using assms(1) by (simp add: target_space_def)
qed

lemma epoch_reads:
  assumes "target_space T" and "ce_target e \<in> T" and "int (ce_epoch e) \<le> max_safe"
  shows "parse_epoch (epoch_value e) = Some e"
proof -
  from assms(1,2) obtain k where "target_bounded k" "ce_target e = checkpointTarget k"
    by (auto simp: target_space_def)
  then have "canonicalCheckpointTarget (JStr (ce_target e)) = Some (ce_target e)"
    by (simp add: canonical_of_target)
  moreover have "non_negative_integer (nat_json (ce_epoch e)) = Some (ce_epoch e)"
    using assms(3) by (simp add: nat_json_def)
  ultimately show ?thesis by (simp add: parse_epoch_def epoch_value_def optional_def field_of_def)
qed

lemma read_all_defined:
  "\<forall>x \<in> set xs. \<exists>y. f x = Some y \<and> y \<in> S \<Longrightarrow> \<exists>ys. read_all f xs = Some ys \<and> set ys \<subseteq> S"
  by (induction xs) auto

lemma optional_of:
  "(\<forall>x. r = Some x \<longrightarrow> f (g x) = Some x) \<Longrightarrow> (\<forall>x. g x \<noteq> JUndef) \<Longrightarrow>
     optional f (coalesce (map_option g r) JUndef) = Some r"
  by (cases r) (simp_all add: optional_def)

lemma within_reads:
  assumes within: "ledger_within plan T n c" and space: "target_space T"
    and "int n \<le> max_safe" and "bounded plan"
  shows "parseCheckpoints (ledger_value c) = Some c"
proof -
  note parts = within [unfolded ledger_within_def reported_ok_def slot_ok_def]
  have "parse_epoch (epoch_value e) = Some e" if "e \<in> set (cl_epochs c)" for e
    using parts that assms(3) by (intro epoch_reads [OF space]) auto
  then have epochs: "parse_epochs (JArr (map epoch_value (cl_epochs c))) = Some (Some (cl_epochs c))"
    using parts epochs_within [OF space, of "cl_epochs c" n]
    by (intro epochs_written) (auto simp: list_all_iff keys_distinct_def)
  from parts obtain targets where targets: "read_all legacy_l2_target (cl_l2 c) = Some targets"
    "set targets \<subseteq> ce_target ` set (cl_epochs c)"
    using read_all_defined [of "cl_l2 c" legacy_l2_target "ce_target ` set (cl_epochs c)"] by auto
  have turn: "parse_pending_turn (text_value (cl_pending_turn c)) = Some (cl_pending_turn c)"
    using parts by (cases "cl_pending_turn c") (auto simp: parse_pending_turn_def bounded_def)
  have handoff: "parse_handoff (coalesce (map_option JStr (cl_handoff c)) JUndef) = Some (cl_handoff c)"
    using parts by (cases "cl_handoff c") (auto simp: parse_handoff_def bounded_def)
  have opt: "optional canonicalCheckpointTarget (coalesce (map_option JStr (cl_pending_target c)) JUndef)
      = Some (cl_pending_target c)"
    "optional as_bool (coalesce (map_option JBool (cl_handoff_failed c)) JUndef) = Some (cl_handoff_failed c)"
    "optional bounded_text (coalesce (map_option JStr (cl_root_from c)) JUndef) = Some (cl_root_from c)"
    "optional parsePlanFingerprint (coalesce (map_option JStr (cl_fingerprint c)) JUndef) = Some (cl_fingerprint c)"
    using parts canonical_of_target by (intro optional_of; auto simp: bounded_def)+
  have lists: "distinct_texts 512 (JArr (map JStr (cl_l2 c))) = Some (cl_l2 c)"
    "distinct_texts 128 (JArr (map JStr (cl_l1 c))) = Some (cl_l1 c)"
    "distinct_texts 768 (JArr (map JStr (cl_keys c))) = Some (cl_keys c)"
    using parts by (auto intro!: distinct_texts_of)
  have named: "bounded_text (JStr (cl_plan c)) = Some (cl_plan c)"
    using parts assms(4) by (simp add: bounded_def)
  have slot: "pending_kind_ok (cl_pending_kind c) (cl_pending_turn c)" "cl_pending_kind c \<noteq> JUndef"
    "cl_pending_target c = None \<or> cl_pending_turn c \<noteq> None"
    using parts by (auto simp: pending_kind_ok_def)
  have subset: "set (map (\<lambda>i. checkpointTarget (TargetL1 i)) (cl_l1 c) @ targets) \<subseteq> ce_target ` set (cl_epochs c)"
    using parts targets(2) by auto
  show ?thesis
    using epochs targets(1) turn handoff opt lists named slot subset
    by (simp add: parseCheckpoints_def ledger_value_def bind_eq_Some_conv pending_kind_value_def
        field_of_def [of "(''protocolVersion'', JNum 1) # _"] del: reader_rules checkpointTarget.simps)
qed

subsection \<open>What one operation may do to the ledger\<close>

lemma persisted_fields [simp]:
  "au_checkpoints (persisted e st) = au_checkpoints st" "au_plan (persisted e st) = au_plan st"
  "au_retry (persisted e st) = au_retry st" "au_session (persisted e st) = au_session st"
  by (simp_all add: persisted_def split: option.splits)

lemma accepted_recorded:
  assumes "checkpointAccepted digest collate view (Some st) cp turn now = Some (status, Some (st', event))"
  obtains retained t fingerprint where "sv_retained view = Some retained" "turn = Some t" "t \<noteq> []"
    "cp_plan cp = rp_identity retained" "\<forall>c. au_checkpoints st = Some c \<longrightarrow> cl_plan c = rp_identity retained"
    "settled_answer digest (au_checkpoints st) (rp_identity retained) cp = None"
    "\<forall>f. fingerprint = Some f \<longrightarrow> plan_fingerprint (rp_plan retained) = Some f" "status = Recorded"
    "is_TerminalReviewAccepted cp \<longrightarrow> fingerprint \<noteq> None"
    "au_checkpoints st' = Some (recorded_ledger digest collate (au_checkpoints st) (rp_identity retained) fingerprint cp t)"
proof -
  from assms obtain retained t where r: "sv_retained view = Some retained" "turn = Some t"
    by (auto simp: checkpointAccepted_def split: option.splits)
  with assms have guard: "t \<noteq> []" "cp_plan cp = rp_identity retained"
    "\<forall>c. au_checkpoints st = Some c \<longrightarrow> cl_plan c = rp_identity retained"
    by (auto simp: checkpointAccepted_def split: if_splits)
  with assms r have none: "settled_answer digest (au_checkpoints st) (rp_identity retained) cp = None"
    by (cases "settled_answer digest (au_checkpoints st) (rp_identity retained) cp")
      (auto simp: checkpointAccepted_def split: if_splits)
  from assms r guard none obtain fingerprint where f:
    "(if is_TerminalReviewAccepted cp then map_option Some (plan_fingerprint (rp_plan retained)) else Some None)
       = Some fingerprint" "status = Recorded"
    "au_checkpoints st' = Some (recorded_ledger digest collate (au_checkpoints st) (rp_identity retained) fingerprint cp t)"
    by (auto simp: checkpointAccepted_def bind_eq_Some_conv Let_def split: if_splits)
  then have "\<forall>f. fingerprint = Some f \<longrightarrow> plan_fingerprint (rp_plan retained) = Some f"
    "is_TerminalReviewAccepted cp \<longrightarrow> fingerprint \<noteq> None"
    by (auto split: if_splits)
  with r guard none f show ?thesis by (intro that) simp_all
qed

lemma released_again [simp]: "released_ledger (c\<lparr>cl_handoff_failed := b\<rparr>) = released_ledger c"
  by (simp add: released_ledger_def released_kind_def)

lemma retry_ends [simp]:
  "map_option au_checkpoints (end_root_retry (Some st) turn) = Some (au_checkpoints st)"
  by (simp add: end_root_retry_def split: option.splits)

lemma retry_session: "\<exists>st'. end_root_retry (Some st) turn = Some st'
    \<and> au_checkpoints st' = au_checkpoints st"
  using retry_ends [of st turn] by (cases "end_root_retry (Some st) turn") auto

lemma completed_ledger:
  "\<exists>st'. fa_state (turnCompleted view session (Some st) turn now) = Some st'
     \<and> (au_checkpoints st' = au_checkpoints st
        \<or> (\<exists>c t. au_checkpoints st = Some c \<and> au_checkpoints st' = Some (released_ledger c)
             \<and> cl_pending_turn c = Some t \<and> t \<noteq> [] \<and> (turn = None \<or> turn = Some [] \<or> turn = Some t)
             \<and> Some (cl_plan c) = map_option rp_identity (sv_retained view)))"
proof -
  obtain st' where st': "end_root_retry (Some st) turn = Some st'" "au_checkpoints st' = au_checkpoints st"
    using retry_session by blast
  show ?thesis
  proof (cases "\<not> foreign_final (Some st') turn \<and> checkpoint_boundary view st'")
    case True
    then obtain c t where c: "au_checkpoints st = Some c" "cl_pending_turn c = Some t" "t \<noteq> []"
      "Some (cl_plan c) = map_option rp_identity (sv_retained view)"
      using st'(2) by (auto simp: checkpoint_boundary_def truthy_def split: option.splits elim!: truthy_opt.elims)
    with True st' have "turn = None \<or> turn = Some [] \<or> turn = Some t"
      by (cases turn) (auto simp: foreign_final_def truthy_def)
    with True st' c show ?thesis by (auto simp: turnCompleted_def Let_def)
  next
    case False
    with st' show ?thesis by (auto simp: turnCompleted_def Let_def)
  qed
qed

text \<open>The step relation of the ledger that the operations implement.\<close>

inductive ledger_effect ::
  "(string \<Rightarrow> string) \<Rightarrow> (string \<Rightarrow> string \<Rightarrow> int) \<Rightarrow> ledger_event \<Rightarrow> checkpoint_ledger option
     \<Rightarrow> checkpoint_ledger option \<Rightarrow> bool"
  for digest collate
where
  kept: "ledger_effect digest collate ev l l"
| recorded: "sv_retained view = Some r \<Longrightarrow> t \<noteq> [] \<Longrightarrow> cp_plan cp = rp_identity r
    \<Longrightarrow> (\<forall>c. l = Some c \<longrightarrow> cl_plan c = rp_identity r)
    \<Longrightarrow> settled_answer digest l (rp_identity r) cp = None
    \<Longrightarrow> (\<forall>f. fingerprint = Some f \<longrightarrow> plan_fingerprint (rp_plan r) = Some f)
    \<Longrightarrow> ledger_effect digest collate (ReportBoundary view cp (Some t) now) l
          (Some (recorded_ledger digest collate l (rp_identity r) fingerprint cp t))"
| failed: "ev = HandoffFailure turn now \<or> ev = HandoffRecovery view now
    \<Longrightarrow> ledger_effect digest collate ev (Some c) (Some (c\<lparr>cl_handoff_failed := Some True\<rparr>))"
| released: "cl_pending_turn c = Some t \<Longrightarrow> t \<noteq> [] \<Longrightarrow> Some (cl_plan c) = map_option rp_identity (sv_retained view)
    \<Longrightarrow> ev = RootFinal view turn now \<and> (turn = None \<or> turn = Some [] \<or> turn = Some t)
         \<or> ev = HandoffRecovery view now
    \<Longrightarrow> ledger_effect digest collate ev (Some c) (Some (released_ledger c))"
| changed: "changed_ledger st plan c = Some c'
    \<Longrightarrow> ledger_effect digest collate (RevisedPlan plan now) (Some c) (Some c')"
| started: "ledger_effect digest collate (RootStarted view control turn now) (Some c)
    (Some (c\<lparr>cl_root_from := None\<rparr>))"

lemma handoff_ledger:
  "snd (checkpointHandoffFailed (Some st) turn now) = Some st
   \<or> (\<exists>c st'. snd (checkpointHandoffFailed (Some st) turn now) = Some st' \<and> au_checkpoints st = Some c
        \<and> au_checkpoints st' = Some (c\<lparr>cl_handoff_failed := Some True\<rparr>))"
  by (auto simp: checkpointHandoffFailed_def split: option.splits)

lemma started_ledger:
  "rootTurnAccepted digest collate view st control turn now = Some st' \<Longrightarrow>
     au_checkpoints st' = au_checkpoints st
     \<or> (\<exists>c. au_checkpoints st = Some c \<and> au_checkpoints st' = Some (c\<lparr>cl_root_from := None\<rparr>))"
  unfolding rootTurnAccepted_def Let_def
  by (auto simp: bind_eq_Some_conv split: option.splits if_splits)

lemma ledger_step_effect:
  "ledger_effect digest collate ev (au_checkpoints st) (au_checkpoints (ledger_step digest collate st ev))"
proof (cases ev)
  case (ReportBoundary view cp turn now)
  show ?thesis
  proof (cases "\<exists>status st' e. checkpointAccepted digest collate view (Some st) cp turn now = Some (status, Some (st', e))")
    case True
    then obtain status st' e where
      acc: "checkpointAccepted digest collate view (Some st) cp turn now = Some (status, Some (st', e))" by blast
    then show ?thesis
      by (rule accepted_recorded) (use acc in \<open>auto intro: ledger_effect.recorded simp: ReportBoundary\<close>)
  next
    case False
    then have "ledger_step digest collate st ev = st"
      using ReportBoundary by (auto split: option.splits)
    then show ?thesis by (simp add: ledger_effect.kept)
  qed
next
  case (RootFinal view turn now)
  from completed_ledger [of view "au_session st" st turn now] show ?thesis
    using RootFinal by (auto intro: ledger_effect.kept ledger_effect.released)
next
  case (HandoffFailure turn now)
  from handoff_ledger [of st turn now] show ?thesis
    using HandoffFailure by (auto intro: ledger_effect.kept ledger_effect.failed)
next
  case (HandoffRecovery view now)
  obtain st' where st': "snd (checkpointHandoffFailed (Some st) (Option.bind (au_checkpoints st) cl_pending_turn) now) = Some st'"
    "au_checkpoints st' = au_checkpoints st
     \<or> (\<exists>c. au_checkpoints st = Some c \<and> au_checkpoints st' = Some (c\<lparr>cl_handoff_failed := Some True\<rparr>))"
    using handoff_ledger [of st] by (metis option.inject)
  from completed_ledger [of view "au_session st" st' None now] st' show ?thesis
    using HandoffRecovery
    by (auto simp: recoverCheckpointHandoff_def Let_def eq_commute [of "Some _" "au_checkpoints st"]
        intro: ledger_effect.kept ledger_effect.failed ledger_effect.released)
next
  case (RevisedPlan plan now)
  show ?thesis
  proof (cases "au_checkpoints st")
    case None
    with RevisedPlan show ?thesis by (simp add: planLedgerChanged_def ledger_effect.kept)
  next
    case (Some c)
    with RevisedPlan show ?thesis
      by (cases "changed_ledger st plan c")
        (auto simp: planLedgerChanged_def intro: ledger_effect.kept ledger_effect.changed)
  qed
next
  case (RootStarted view control turn now)
  with started_ledger [of digest collate view st control turn now] show ?thesis
    by (cases "rootTurnAccepted digest collate view st control turn now")
      (auto intro: ledger_effect.kept ledger_effect.started)
qed

subsection \<open>The ledger stays readable\<close>

text \<open>What an event must satisfy: bounded identifiers and turns, and a target of the given ones.\<close>

fun event_fits :: "string \<Rightarrow> string set \<Rightarrow> ledger_event \<Rightarrow> bool" where
  "event_fits plan T (ReportBoundary view cp turn now) \<longleftrightarrow>
     cp_plan cp = plan \<and> checkpoint_target cp \<in> T \<and> length (coalesce turn []) \<le> 512
     \<and> (case cp of L2Completed _ a b _ _ _ _ \<Rightarrow> length (reported_pair a b) \<le> 512 | _ \<Rightarrow> True)"
| "event_fits plan T _ \<longleftrightarrow> True"

definition digest_text :: "(string \<Rightarrow> string) \<Rightarrow> bool" where
  "digest_text digest \<longleftrightarrow> (\<forall>s. bounded (digest s))"

lemma fingerprint_parses: "plan_fingerprint plan = Some f \<Longrightarrow> parsePlanFingerprint (JStr f) = Some f"
  by (auto simp: plan_fingerprint_def requirePlanFingerprint_def parsePlanFingerprint_def split: if_splits)

lemma reported_pair_target [simp]:
  "legacy_l2_target (reported_pair a b) = Some (checkpointTarget (TargetL2 a b))"
  using text_array_printed [of "[a, b]"] by (simp add: legacy_l2_target_def reported_pair_def)

lemma reported_pair_ne: "reported_pair a b \<noteq> []"
  using reported_pair_target [of a b] by (auto simp: legacy_l2_target_def text_array_def)

lemma target_in_space:
  assumes "target_space T" and "checkpointTarget k \<in> T" shows "target_bounded k"
  using assms by (auto simp: target_space_def checkpointTarget_inj)

abbreviation opt_within :: "string \<Rightarrow> string set \<Rightarrow> nat \<Rightarrow> checkpoint_ledger option \<Rightarrow> bool" where
  "opt_within plan T n l \<equiv> \<forall>c. l = Some c \<longrightarrow> ledger_within plan T n c"

lemma reported_epoch_le:
  assumes "opt_within plan T n l" shows "reported_epoch l target \<le> n"
proof (cases "epoch_of l target")
  case None
  then show ?thesis by (simp add: reported_epoch_def)
next
  case (Some e)
  then obtain c where "l = Some c" "e \<in> set (cl_epochs c)"
    by (auto simp: epoch_of_def bind_eq_Some_conv dest: find_key_Some)
  with assms Some show ?thesis by (auto simp: reported_epoch_def ledger_within_def)
qed

lemma recorded_epochs:
  assumes "opt_within plan T n l" and "target_space T" and "checkpoint_target cp \<in> T"
  shows "set (cl_epochs (recorded_ledger digest collate l plan fp cp t))
      = insert \<lparr> ce_target = checkpoint_target cp, ce_epoch = reported_epoch l (checkpoint_target cp),
                 ce_reopened = False, ce_completed = True \<rparr>
          {e \<in> set (coalesce (map_option cl_epochs l) []). ce_target e \<noteq> checkpoint_target cp}"
    and "keys_distinct ce_target (cl_epochs (recorded_ledger digest collate l plan fp cp t))"
proof -
  let ?new = "\<lparr> ce_target = checkpoint_target cp, ce_epoch = reported_epoch l (checkpoint_target cp),
                 ce_reopened = False, ce_completed = True \<rparr>"
  let ?es = "filter (\<lambda>e. ce_target e \<noteq> checkpoint_target cp) (coalesce (map_option cl_epochs l) []) @ [?new]"
  have old: "keys_distinct ce_target (coalesce (map_option cl_epochs l) [])"
    "\<forall>e \<in> set (coalesce (map_option cl_epochs l) []). ce_target e \<in> T \<and> ce_epoch e \<le> n"
    using assms(1) by (cases l; simp add: ledger_within_def)+
  then have dist: "keys_distinct ce_target ?es"
    by (auto simp: keys_distinct_append1 keys_distinct_filter)
  have "\<forall>e \<in> set ?es. ce_target e \<in> T \<and> ce_epoch e \<le> n"
    using old(2) assms(3) reported_epoch_le [OF assms(1)] by auto
  then have "length ?es \<le> 640" by (rule epochs_within [OF assms(2) dist])
  from boundEpochs_drops_nothing [OF dist this] boundEpochs_targets(1) [OF dist]
  show "set (cl_epochs (recorded_ledger digest collate l plan fp cp t))
      = insert ?new {e \<in> set (coalesce (map_option cl_epochs l) []). ce_target e \<noteq> checkpoint_target cp}"
    and "keys_distinct ce_target (cl_epochs (recorded_ledger digest collate l plan fp cp t))"
    by (auto simp: recorded_ledger_def Let_def)
qed

lemma recorded_reported:
  assumes "opt_within plan T n l" and "target_space T" and "event_fits plan T (ReportBoundary view cp (Some t) now)"
  shows "reported_ok (recorded_ledger digest collate l plan fp cp t)"
proof -
  let ?c = "recorded_ledger digest collate l plan fp cp t"
  have target: "checkpoint_target cp \<in> T" using assms(3) by simp
  have "set (coalesce (map_option cl_epochs l) []) \<subseteq> set (cl_epochs ?c) \<union> {e. ce_target e = checkpoint_target cp}"
    using recorded_epochs(1) [OF assms(1,2) target] by auto
  then have targets: "ce_target ` set (coalesce (map_option cl_epochs l) []) \<subseteq> ce_target ` set (cl_epochs ?c)"
    "checkpoint_target cp \<in> ce_target ` set (cl_epochs ?c)"
    using recorded_epochs(1) [OF assms(1,2) target] by force+
  have l2: "distinct (coalesce (map_option cl_l2 l) [])" "length (coalesce (map_option cl_l2 l) []) \<le> 512"
    "distinct (coalesce (map_option cl_l1 l) [])" "length (coalesce (map_option cl_l1 l) []) \<le> 128"
    "\<forall>s \<in> set (coalesce (map_option cl_l2 l) []). bounded s
       \<and> (\<exists>t. legacy_l2_target s = Some t \<and> t \<in> ce_target ` set (cl_epochs ?c))"
    "\<forall>s \<in> set (coalesce (map_option cl_l1 l) []). bounded s
       \<and> checkpointTarget (TargetL1 s) \<in> ce_target ` set (cl_epochs ?c)"
    using assms(1) targets(1)
    by (cases l; fastforce simp: ledger_within_def reported_ok_def)+
  show ?thesis
  proof (cases cp)
    case (L2Completed p a b q r s u)
    then have lists: "cl_l2 ?c = boundedUnique (coalesce (map_option cl_l2 l) [] @ [reported_pair a b]) 512"
      "cl_l1 ?c = coalesce (map_option cl_l1 l) []" by (simp_all add: recorded_ledger_def Let_def)
    have new: "bounded (reported_pair a b)" "checkpointTarget (TargetL2 a b) \<in> ce_target ` set (cl_epochs ?c)"
      using assms(3) targets(2) L2Completed reported_pair_ne by (simp_all add: bounded_def)
    show ?thesis
      unfolding reported_ok_def lists
      using l2 new boundedUnique_parts [of "coalesce (map_option cl_l2 l) [] @ [reported_pair a b]" 512]
      by auto
  next
    case (L1Accepted p a q r s u)
    then have lists: "cl_l1 ?c = boundedUnique (coalesce (map_option cl_l1 l) [] @ [a]) 128"
      "cl_l2 ?c = coalesce (map_option cl_l2 l) []" by (simp_all add: recorded_ledger_def Let_def)
    have new: "bounded a" "checkpointTarget (TargetL1 a) \<in> ce_target ` set (cl_epochs ?c)"
      using target_in_space [OF assms(2), of "TargetL1 a"] target targets(2) L1Accepted
      by simp_all
    show ?thesis
      unfolding reported_ok_def lists
      using l2 new boundedUnique_parts [of "coalesce (map_option cl_l1 l) [] @ [a]" 128]
      by auto
  next
    case (TerminalReviewAccepted p q r)
    then have "cl_l2 ?c = coalesce (map_option cl_l2 l) []" "cl_l1 ?c = coalesce (map_option cl_l1 l) []"
      by (simp_all add: recorded_ledger_def Let_def)
    with l2 show ?thesis by (simp add: reported_ok_def)
  qed
qed

lemma checkpoint_target_kind: "\<exists>k. checkpoint_target cp = checkpointTarget k"
  by (cases cp) auto

lemma recorded_slot:
  assumes "opt_within plan T n l" and "target_space T" and "event_fits plan T (ReportBoundary view cp (Some t) now)"
    and "t \<noteq> []" and "\<forall>f. fp = Some f \<longrightarrow> plan_fingerprint p = Some f"
  shows "slot_ok (recorded_ledger digest collate l plan fp cp t)"
proof -
  let ?c = "recorded_ledger digest collate l plan fp cp t"
  obtain k where "checkpoint_target cp = checkpointTarget k" using checkpoint_target_kind by blast
  with assms(2,3) have target: "\<exists>k. target_bounded k \<and> checkpoint_target cp = checkpointTarget k"
    using target_in_space by auto
  have kind: "pending_kind_ok (JStr (checkpoint_kind_name cp)) (Some t)"
    by (cases cp) (simp_all add: pending_kind_ok_def pending_kind_names_def)
  have "\<forall>f. Option.bind l cl_fingerprint = Some f \<longrightarrow> parsePlanFingerprint (JStr f) = Some f"
    using assms(1) by (cases l) (auto simp: ledger_within_def slot_ok_def)
  then have print: "\<forall>f. cl_fingerprint ?c = Some f \<longrightarrow> parsePlanFingerprint (JStr f) = Some f"
    using assms(5) fingerprint_parses by (auto simp: recorded_ledger_def Let_def)
  have slot: "cl_pending_turn ?c = Some t" "cl_pending_target ?c = Some (checkpoint_target cp)"
    "cl_pending_kind ?c = JStr (checkpoint_kind_name cp)" "cl_root_from ?c = None"
    "cl_handoff ?c = Some (''handoff-''
      @ take 24 (boundary_key digest plan (checkpoint_target cp) (reported_epoch l (checkpoint_target cp))))"
    by (simp_all add: recorded_ledger_def Let_def)
  show ?thesis
    unfolding slot_ok_def slot(1-4)
    using kind target print slot(5) assms(3,4) by (auto simp: bounded_def)
qed

lemma recorded_within:
  assumes "opt_within plan T n l" and "target_space T" and "event_fits plan T (ReportBoundary view cp (Some t) now)"
    and "t \<noteq> []" and "\<forall>f. fp = Some f \<longrightarrow> plan_fingerprint p = Some f" and "digest_text digest"
  shows "ledger_within plan T n (recorded_ledger digest collate l plan fp cp t)"
proof -
  let ?c = "recorded_ledger digest collate l plan fp cp t"
  let ?keys = "coalesce (map_option cl_keys l) []"
  let ?key = "boundary_key digest plan (checkpoint_target cp) (reported_epoch l (checkpoint_target cp))"
  have target: "checkpoint_target cp \<in> T" using assms(3) by simp
  have "\<forall>e \<in> set (coalesce (map_option cl_epochs l) []). ce_target e \<in> T \<and> ce_epoch e \<le> n"
    using assms(1) by (cases l) (simp_all add: ledger_within_def)
  then have epochs: "\<forall>e \<in> set (cl_epochs ?c). ce_target e \<in> T \<and> ce_epoch e \<le> n"
    using recorded_epochs(1) [OF assms(1,2) target] target reported_epoch_le [OF assms(1)] by auto
  have "\<forall>k \<in> set ?keys. bounded k" using assms(1) by (cases l) (simp_all add: ledger_within_def)
  moreover have keys: "cl_keys ?c = boundedUnique (?keys @ [?key]) 768"
    by (simp add: recorded_ledger_def Let_def)
  moreover have "bounded ?key" using assms(6) by (simp add: digest_text_def boundary_key_def)
  ultimately have "\<forall>k \<in> set (cl_keys ?c). bounded k"
    using boundedUnique_parts(3) [of "?keys @ [?key]" 768] by auto
  moreover have "cl_plan ?c = plan" by (simp add: recorded_ledger_def Let_def)
  ultimately show ?thesis
    unfolding ledger_within_def
    using epochs recorded_epochs(2) [OF assms(1,2) target] recorded_reported [OF assms(1-3)]
      recorded_slot [OF assms(1-5)] boundedUnique_parts(1,2) [of "?keys @ [?key]" 768] keys
    by simp
qed

lemma reopen_entry_cases:
  assumes "reopen_entry plan e = Some e'"
  obtains "e' = e" and "epoch_eligible plan (ce_target e) = Some True \<or> ce_reopened e"
  | "e' = reopen_epoch e" and "\<not> ce_reopened e" and "epoch_eligible plan (ce_target e) = Some False"
proof (cases "epoch_eligible plan (ce_target e)")
  case None
  with assms show ?thesis by (simp add: reopen_entry_def)
next
  case (Some z)
  with assms that show ?thesis by (cases "\<not> z \<and> \<not> ce_reopened e") (auto simp: reopen_entry_def)
qed

text \<open>An entry is kept, or opened for its next report.\<close>

definition entry_follows :: "completion_epoch \<Rightarrow> completion_epoch \<Rightarrow> bool" where
  "entry_follows e e' \<longleftrightarrow> e' = e \<or> (e' = reopen_epoch e \<and> \<not> ce_reopened e)"

lemma read_all_related:
  "read_all f xs = Some ys \<Longrightarrow> \<forall>x y. f x = Some y \<longrightarrow> R x y \<Longrightarrow> list_all2 R xs ys"
  by (induction xs arbitrary: ys) (auto simp: bind_eq_Some_conv)

lemma reopen_target [simp]: "ce_target (reopen_epoch e) = ce_target e" "ce_reopened (reopen_epoch e)"
  "\<not> ce_completed (reopen_epoch e)" "ce_epoch (reopen_epoch e) = Suc (ce_epoch e)"
  by (simp_all add: reopen_epoch_def)

lemma changed_ledger_follows:
  assumes "changed_ledger st plan c = Some c'"
  shows "list_all2 entry_follows (cl_epochs c) (cl_epochs c')"
    and "\<exists>terminal fingerprint. c' = c\<lparr>cl_epochs := cl_epochs c', cl_terminal := terminal, cl_fingerprint := fingerprint\<rparr>
      \<and> (fingerprint = cl_fingerprint c \<or> fingerprint = None)"
proof -
  from assms obtain epochs where epochs: "reopenCheckpointEpochs plan (cl_epochs c) = Some epochs"
    and c': "c' = c\<lparr>cl_epochs := epochs\<rparr> \<or> c' = c\<lparr>cl_epochs := map (\<lambda>e. if ce_target e = checkpointTarget TargetTerminal
        \<and> \<not> ce_reopened e then reopen_epoch e else e) epochs, cl_terminal := False, cl_fingerprint := None\<rparr>"
    by (auto simp: changed_ledger_def bind_eq_Some_conv split: if_splits)
  have "\<forall>e e'. reopen_entry plan e = Some e' \<longrightarrow> entry_follows e e'"
    by (auto simp: entry_follows_def elim: reopen_entry_cases)
  with epochs have follows: "list_all2 entry_follows (cl_epochs c) epochs"
    unfolding reopenCheckpointEpochs_def by (rule read_all_related)
  moreover have "list_all2 entry_follows (cl_epochs c) (map (\<lambda>e. if ce_target e = checkpointTarget TargetTerminal
        \<and> \<not> ce_reopened e then reopen_epoch e else e) epochs)"
    using follows by (auto simp: list_all2_conv_all_nth entry_follows_def)
  ultimately show "list_all2 entry_follows (cl_epochs c) (cl_epochs c')" using c' by auto
  from c' show "\<exists>terminal fingerprint. c' = c\<lparr>cl_epochs := cl_epochs c', cl_terminal := terminal, cl_fingerprint := fingerprint\<rparr>
      \<and> (fingerprint = cl_fingerprint c \<or> fingerprint = None)"
    by (elim disjE) (rule exI [of _ "cl_terminal c'"], rule exI [of _ "cl_fingerprint c'"], simp)+
qed

lemma follows_targets: "list_all2 entry_follows es es' \<Longrightarrow> map ce_target es' = map ce_target es"
  by (induction es es' rule: list_all2_induct) (auto simp: entry_follows_def)

lemma follows_in:
  "list_all2 entry_follows es es' \<Longrightarrow> e' \<in> set es' \<Longrightarrow> \<exists>e \<in> set es. entry_follows e e'"
  by (induction es es' rule: list_all2_induct) auto

lemma follows_in_left:
  "list_all2 entry_follows es es' \<Longrightarrow> e \<in> set es \<Longrightarrow> \<exists>e' \<in> set es'. entry_follows e e'"
  by (induction es es' rule: list_all2_induct) auto

lemma changed_within:
  assumes "changed_ledger st p c = Some c'" and "ledger_within plan T n c"
  shows "ledger_within plan T (Suc n) c'"
proof -
  note follows = changed_ledger_follows(1) [OF assms(1)]
  from changed_ledger_follows(2) [OF assms(1)] obtain terminal fingerprint where
    c': "c' = c\<lparr>cl_epochs := cl_epochs c', cl_terminal := terminal, cl_fingerprint := fingerprint\<rparr>"
    "fingerprint = cl_fingerprint c \<or> fingerprint = None" by blast
  from follows_targets [OF follows] have targets: "ce_target ` set (cl_epochs c') = ce_target ` set (cl_epochs c)"
    by (metis list.set_map)
  have same: "cl_plan c' = cl_plan c" "cl_l2 c' = cl_l2 c" "cl_l1 c' = cl_l1 c" "cl_keys c' = cl_keys c"
    "cl_pending_turn c' = cl_pending_turn c" "cl_pending_target c' = cl_pending_target c"
    "cl_pending_kind c' = cl_pending_kind c" "cl_handoff c' = cl_handoff c" "cl_root_from c' = cl_root_from c"
    "cl_fingerprint c' = fingerprint"
    by (subst c'(1); simp)+
  have "\<forall>e \<in> set (cl_epochs c'). ce_target e \<in> T \<and> ce_epoch e \<le> Suc n"
    using follows_in [OF follows] assms(2) by (fastforce simp: ledger_within_def entry_follows_def)
  moreover have "keys_distinct ce_target (cl_epochs c')"
    using follows_targets [OF follows] assms(2) by (simp add: ledger_within_def keys_distinct_def)
  moreover have "reported_ok c'"
    using assms(2) same by (simp add: ledger_within_def reported_ok_def targets)
  moreover have "slot_ok c'"
    using assms(2) same c'(2) by (auto simp: ledger_within_def slot_ok_def)
  ultimately show ?thesis using assms(2) same by (simp add: ledger_within_def)
qed

lemma within_Suc: "ledger_within plan T n c \<Longrightarrow> ledger_within plan T (Suc n) c"
  by (auto simp: ledger_within_def)

lemma effect_within:
  assumes "ledger_effect digest collate ev l l'" and "opt_within plan T n l" and "target_space T"
    and "event_fits plan T ev" and "digest_text digest"
  shows "opt_within plan T (Suc n) l'"
  using assms(1)
proof cases
  case kept
  with assms(2) within_Suc show ?thesis by blast
next
  case (recorded view r t cp fingerprint now)
  then have "rp_identity r = plan" using assms(4) by simp
  with recorded assms(2-5) have "ledger_within plan T n (recorded_ledger digest collate l (rp_identity r) fingerprint cp t)"
    using recorded_within [of l plan T n view cp t now fingerprint "rp_plan r" digest collate] by simp
  with recorded(2) within_Suc show ?thesis by blast
next
  case (failed turn now view c)
  with assms(2) show ?thesis
    by (auto simp: ledger_within_def reported_ok_def slot_ok_def)
next
  case (released c t view turn now)
  with assms(2) show ?thesis
    by (auto simp: ledger_within_def reported_ok_def slot_ok_def released_ledger_def pending_kind_ok_def)
next
  case (changed st p c c' now)
  with changed_within assms(2) show ?thesis by blast
next
  case (started view control turn now c)
  with assms(2) show ?thesis
    by (auto simp: ledger_within_def reported_ok_def slot_ok_def)
qed

lemma run_within:
  assumes "opt_within plan T n (au_checkpoints st)" and "target_space T"
    and "\<forall>ev \<in> set es. event_fits plan T ev" and "digest_text digest"
  shows "opt_within plan T (n + length es) (au_checkpoints (ledger_run digest collate st es))"
  using assms(1,3)
proof (induction es arbitrary: st n)
  case (Cons ev es)
  from effect_within [OF ledger_step_effect [of digest collate ev st] Cons.prems(1) assms(2) _ assms(4)] Cons.prems(2)
  have "opt_within plan T (Suc n) (au_checkpoints (ledger_step digest collate st ev))" by simp
  from Cons.IH [OF this] Cons.prems(2) show ?case by simp
qed simp

lemma distinct_texts_parts:
  assumes "distinct_texts n v = Some ts"
  shows "distinct ts \<and> length ts \<le> n \<and> (\<forall>s \<in> set ts. bounded s)"
proof -
  from assms obtain vs where vs: "read_all bounded_text vs = Some ts" "length vs \<le> n" "distinct ts"
    by (auto simp: distinct_texts_def bind_eq_Some_conv)
  have "list_all2 (\<lambda>v s. bounded s) vs ts"
    by (rule read_all_related [OF vs(1)]) (auto simp: bounded_text_Some bounded_def)
  then have "\<forall>s \<in> set ts. bounded s"
    by (auto simp: list_all2_conv_all_nth in_set_conv_nth)
  with vs show ?thesis by (simp add: read_all_length)
qed

lemma read_all_each:
  "read_all f xs = Some ys \<Longrightarrow> \<forall>x \<in> set xs. \<exists>y \<in> set ys. f x = Some y"
  by (induction xs arbitrary: ys) (auto simp: bind_eq_Some_conv)

lemma reads_within:
  assumes "parseCheckpoints (ledger_value c) = Some c" and "cl_plan c = plan"
    and "\<forall>e \<in> set (cl_epochs c). ce_target e \<in> T \<and> ce_epoch e \<le> n"
  shows "ledger_within plan T n c"
proof -
  obtain f epochs targets where p: "as_record (ledger_value c) = Some f"
    "parse_epochs (field_of f ''completionEpochs'') = Some epochs"
    "cl_l2 c = [] \<or> distinct_texts 512 (field_of f ''reportedL2Ids'') = Some (cl_l2 c)"
    "distinct_texts 128 (field_of f ''reportedL1Ids'') = Some (cl_l1 c)"
    "distinct_texts 768 (field_of f ''acceptedKeys'') = Some (cl_keys c)"
    "parse_pending_turn (field_of f ''pendingTurnId'') = Some (cl_pending_turn c)"
    "optional canonicalCheckpointTarget (field_of f ''pendingTarget'') = Some (cl_pending_target c)"
    "cl_pending_target c = None \<or> cl_pending_turn c \<noteq> None"
    "parse_handoff (field_of f ''activeHandoffId'') = Some (cl_handoff c)"
    "optional bounded_text (field_of f ''rootContinuationFromTurnId'') = Some (cl_root_from c)"
    "optional parsePlanFingerprint (field_of f ''terminalReviewFingerprint'') = Some (cl_fingerprint c)"
    "pending_kind_ok (cl_pending_kind c) (cl_pending_turn c)"
    "read_all legacy_l2_target (cl_l2 c) = Some targets"
    "set (map (\<lambda>i. checkpointTarget (TargetL1 i)) (cl_l1 c) @ targets) \<subseteq> ce_target ` set (cl_epochs c)"
    "case epochs of None \<Rightarrow> True | Some es \<Rightarrow> cl_epochs c = es"
    using ledger_parts [OF assms(1)] by blast
  have "field_of f ''completionEpochs'' = JArr (map epoch_value (cl_epochs c))"
    using p(1) by (auto simp: ledger_value_def field_of_def)
  with p(2,15) have "parse_epochs (JArr (map epoch_value (cl_epochs c))) = Some (Some (cl_epochs c))"
    by (cases epochs) (auto simp: parse_epochs_def bind_eq_Some_conv)
  from epochs_canonical [OF this] have distinct: "keys_distinct ce_target (cl_epochs c)"
    by (simp add: keys_distinct_def)
  have l2: "distinct (cl_l2 c) \<and> length (cl_l2 c) \<le> 512 \<and> (\<forall>s \<in> set (cl_l2 c). bounded s)"
    using p(3) distinct_texts_parts by auto
  have "\<forall>s \<in> set (cl_l2 c). \<exists>t. legacy_l2_target s = Some t \<and> t \<in> ce_target ` set (cl_epochs c)"
    using read_all_each [OF p(13)] p(14) by fastforce
  then have reported: "reported_ok c"
    using l2 p(14) distinct_texts_parts [OF p(4)] by (auto simp: reported_ok_def)
  have "\<forall>t. cl_pending_turn c = Some t \<longrightarrow> bounded t"
    using p(6) by (auto simp: parse_pending_turn_def bounded_text_Some bounded_def split: if_splits)
  moreover have "\<forall>t. cl_pending_target c = Some t \<longrightarrow> (\<exists>k. target_bounded k \<and> t = checkpointTarget k)"
    using p(7) canonical_target_form by (auto simp: optional_Some)
  moreover have "\<forall>h. cl_handoff c = Some h \<longrightarrow> bounded h"
    using p(9) by (auto simp: parse_handoff_def bounded_text_Some bounded_def split: if_splits)
  moreover have "\<forall>r. cl_root_from c = Some r \<longrightarrow> bounded r"
    using p(10) by (auto simp: optional_Some bounded_text_Some bounded_def)
  moreover have "\<forall>g. cl_fingerprint c = Some g \<longrightarrow> parsePlanFingerprint (JStr g) = Some g"
    using p(11) fingerprint_again by (auto simp: optional_Some)
  ultimately have "slot_ok c" using p(8,12) by (auto simp: slot_ok_def)
  with distinct reported assms(2,3) distinct_texts_parts [OF p(5)] show ?thesis
    by (simp add: ledger_within_def)
qed

text \<open>A session without a ledger, or with one of the plan that the reader accepts.\<close>

definition ledger_ready :: "string \<Rightarrow> string set \<Rightarrow> nat \<Rightarrow> autopilot_session \<Rightarrow> bool" where
  "ledger_ready plan T n st \<longleftrightarrow>
     (\<forall>c. au_checkpoints st = Some c \<longrightarrow> parseCheckpoints (ledger_value c) = Some c \<and> cl_plan c = plan
        \<and> (\<forall>e \<in> set (cl_epochs c). ce_target e \<in> T \<and> ce_epoch e \<le> n))"

lemma ready_within: "ledger_ready plan T n st \<Longrightarrow> opt_within plan T n (au_checkpoints st)"
  using reads_within by (auto simp: ledger_ready_def)

text \<open>
  C29: the ledger can always be read back. From a session without a ledger, or with one the reader
  accepts, every sequence of reports, finals, handoff failures and recoveries, plan changes and
  started root turns leaves a ledger the reader accepts unchanged, as long as all reports are of the
  plan and bounded, at most 640 different boundaries are ever named, and epochs stay representable.
  So saving a session never fails because of its ledger.
\<close>
theorem ledger_stays_readable:
  assumes "ledger_ready plan T n st"
    and "target_space T" and "\<forall>ev \<in> set es. event_fits plan T ev" and "digest_text digest"
    and "bounded plan" and "int (n + length es) \<le> max_safe"
    and "au_checkpoints (ledger_run digest collate st es) = Some c"
  shows "parseCheckpoints (ledger_value c) = Some c \<and> cl_plan c = plan"
proof -
  have "opt_within plan T n (au_checkpoints st)" using assms(1) by (rule ready_within)
  from run_within [OF this assms(2-4)] assms(7)
  have "ledger_within plan T (n + length es) c" by blast
  with within_reads [OF _ assms(2,6,5)] show ?thesis by (auto simp: ledger_within_def)
qed

subsection \<open>A boundary is recorded once\<close>

definition closed_in :: "string \<Rightarrow> checkpoint_ledger option \<Rightarrow> bool" where
  "closed_in target l \<longleftrightarrow>
     (\<exists>c. l = Some c \<and> (\<exists>e \<in> set (cl_epochs c). ce_target e = target \<and> ce_completed e \<and> \<not> ce_reopened e))"

text \<open>A change of the plan that leaves the boundary reportable.\<close>

fun keeps_target :: "string \<Rightarrow> ledger_event \<Rightarrow> bool" where
  "keeps_target target (RevisedPlan plan now) \<longleftrightarrow>
     target \<noteq> checkpointTarget TargetTerminal \<and> epoch_eligible plan target = Some True"
| "keeps_target target _ \<longleftrightarrow> True"

lemma changed_keeps:
  assumes "changed_ledger st plan c = Some c'" and "e \<in> set (cl_epochs c)"
    and "ce_target e \<noteq> checkpointTarget TargetTerminal" and "epoch_eligible plan (ce_target e) = Some True"
  shows "e \<in> set (cl_epochs c')"
proof -
  from assms(1) obtain epochs where epochs: "reopenCheckpointEpochs plan (cl_epochs c) = Some epochs"
    and c': "cl_epochs c' = epochs \<or> cl_epochs c' = map (\<lambda>e. if ce_target e = checkpointTarget TargetTerminal
        \<and> \<not> ce_reopened e then reopen_epoch e else e) epochs"
    by (auto simp: changed_ledger_def bind_eq_Some_conv split: if_splits)
  from read_all_each [OF epochs [unfolded reopenCheckpointEpochs_def]] assms(2)
  obtain e' where "e' \<in> set epochs" "reopen_entry plan e = Some e'" by blast
  with assms(4) have "e \<in> set epochs" by (auto elim: reopen_entry_cases)
  with c' assms(3) show ?thesis by force
qed

lemma recorded_closes:
  assumes "opt_within plan T n l" and "target_space T" and "checkpoint_target cp \<in> T"
  shows "closed_in (checkpoint_target cp) (Some (recorded_ledger digest collate l plan fp cp t))"
  by (simp add: closed_in_def recorded_epochs(1) [OF assms])

lemma effect_keeps_closed:
  assumes "ledger_effect digest collate ev l l'" and "opt_within plan T n l" and "target_space T"
    and "event_fits plan T ev" and "closed_in target l" and "keeps_target target ev"
  shows "closed_in target l'"
  using assms(1)
proof cases
  case kept
  with assms(5) show ?thesis by simp
next
  case (recorded view r t cp fingerprint now)
  with assms(4) have fits: "rp_identity r = plan" "checkpoint_target cp \<in> T" by simp_all
  show ?thesis
  proof (cases "checkpoint_target cp = target")
    case True
    with recorded_closes [OF assms(2,3) fits(2)] recorded(2) fits(1) show ?thesis by simp
  next
    case False
    with assms(5) recorded_epochs(1) [OF assms(2,3) fits(2)] recorded(2) fits(1)
    show ?thesis by (auto simp: closed_in_def)
  qed
next
  case (changed st p c c' now)
  with assms(5,6) obtain e where "e \<in> set (cl_epochs c)" "ce_target e = target" "ce_completed e" "\<not> ce_reopened e"
    by (auto simp: closed_in_def)
  with changed_keeps [OF changed(4)] changed assms(6) show ?thesis by (auto simp: closed_in_def)
qed (use assms(5) in \<open>auto simp: closed_in_def released_ledger_def\<close>)

lemma run_keeps_closed:
  assumes "opt_within plan T n (au_checkpoints st)" and "target_space T" and "digest_text digest"
    and "\<forall>ev \<in> set es. event_fits plan T ev \<and> keeps_target target ev" and "closed_in target (au_checkpoints st)"
  shows "closed_in target (au_checkpoints (ledger_run digest collate st es))"
  using assms(1,4,5)
proof (induction es arbitrary: st n)
  case (Cons ev es)
  note effect = ledger_step_effect [of digest collate ev st]
  from effect_within [OF effect Cons.prems(1) assms(2) _ assms(3)] Cons.prems(2)
  have "opt_within plan T (Suc n) (au_checkpoints (ledger_step digest collate st ev))" by simp
  moreover from effect_keeps_closed [OF effect Cons.prems(1) assms(2) _ Cons.prems(3)] Cons.prems(2)
  have "closed_in target (au_checkpoints (ledger_step digest collate st ev))" by simp
  ultimately show ?case using Cons.IH Cons.prems(2) by simp
qed simp

lemma closed_answers:
  assumes "closed_in (checkpoint_target cp) l" and "opt_within plan T n l"
  shows "settled_answer digest l plan cp = Some AlreadyRecorded"
proof -
  from assms(1) obtain c e where c: "l = Some c" "e \<in> set (cl_epochs c)" "ce_target e = checkpoint_target cp"
    "ce_completed e" "\<not> ce_reopened e" by (auto simp: closed_in_def)
  with assms(2) have "epoch_of l (checkpoint_target cp) = Some e"
    by (simp add: epoch_of_def find_key_iff ledger_within_def)
  with c show ?thesis by (simp add: settled_answer_def Let_def)
qed

text \<open>
  C25: a boundary is recorded once. After a checkpoint was recorded, a report of the same boundary is
  answered as already recorded and writes nothing, in whatever turn it comes and whatever happened
  since: other reports, finals, failed and recovered handoffs, and changes of the plan that leave
  the boundary reportable.
\<close>
theorem boundary_is_recorded_once:
  assumes "checkpointAccepted digest collate view (Some st) cp turn now = Some (Recorded, Some (st', event))"
    and "ledger_ready plan T n st" and "target_space T" and "digest_text digest"
    and "event_fits plan T (ReportBoundary view cp turn now)"
    and "\<forall>ev \<in> set es. event_fits plan T ev \<and> keeps_target (checkpoint_target cp) ev"
    and "checkpoint_target cp' = checkpoint_target cp" and "cp_plan cp' = plan"
    and "sv_retained view' = Some r" and "rp_identity r = plan" and "t \<noteq> []"
  shows "checkpointAccepted digest collate view' (Some (ledger_run digest collate st' es)) cp' (Some t) now'
     = Some (AlreadyRecorded, None)"
proof -
  have step: "ledger_step digest collate st (ReportBoundary view cp turn now) = st'" using assms(1) by simp
  note within = ready_within [OF assms(2)]
  from effect_within [OF ledger_step_effect within assms(3,5,4), of collate]
  have within': "opt_within plan T (Suc n) (au_checkpoints st')" unfolding step .
  from assms(1) have "closed_in (checkpoint_target cp) (au_checkpoints st')"
    by (rule accepted_recorded) (use assms(5) recorded_closes [OF within assms(3)] in simp)
  with run_keeps_closed [OF within' assms(3,4,6)]
  have closed: "closed_in (checkpoint_target cp') (au_checkpoints (ledger_run digest collate st' es))"
    using assms(7) by simp
  from run_within [OF within' assms(3) _ assms(4)] assms(6)
  have after: "opt_within plan T (Suc n + length es) (au_checkpoints (ledger_run digest collate st' es))" by simp
  then have "\<forall>c. au_checkpoints (ledger_run digest collate st' es) = Some c \<longrightarrow> cl_plan c = plan"
    by (simp add: ledger_within_def)
  with closed_answers [OF closed after] assms(8-11) show ?thesis
    by (cases "au_checkpoints (ledger_run digest collate st' es)") (auto simp: checkpointAccepted_def)
qed

subsection \<open>One boundary at a time\<close>

definition slot_holds :: "string \<Rightarrow> string \<Rightarrow> jv \<Rightarrow> autopilot_session \<Rightarrow> bool" where
  "slot_holds plan t kind st \<longleftrightarrow>
     (\<exists>c. au_checkpoints st = Some c \<and> cl_plan c = plan \<and> cl_pending_turn c = Some t \<and> cl_pending_kind c = kind)"

text \<open>The finals that may release the slot of a turn: its own, one without a turn, or a recovery.\<close>

fun releases_slot :: "string \<Rightarrow> string \<Rightarrow> ledger_event \<Rightarrow> bool" where
  "releases_slot plan t (RootFinal view turn now) \<longleftrightarrow>
     (turn = None \<or> turn = Some [] \<or> turn = Some t) \<and> map_option rp_identity (sv_retained view) = Some plan"
| "releases_slot plan t (HandoffRecovery view now) \<longleftrightarrow> map_option rp_identity (sv_retained view) = Some plan"
| "releases_slot plan t _ \<longleftrightarrow> False"

lemma pending_settles:
  "Option.bind l cl_pending_turn = Some t \<Longrightarrow> t \<noteq> [] \<Longrightarrow> settled_answer digest l plan cp \<noteq> None"
  by (cases l) (simp_all add: settled_answer_def Let_def truthy_def)

lemma slot_step:
  assumes "slot_holds plan t kind st" and "t \<noteq> []" and "\<not> releases_slot plan t ev"
  shows "slot_holds plan t kind (ledger_step digest collate st ev)"
proof -
  from assms(1) obtain c where c: "au_checkpoints st = Some c" "cl_plan c = plan" "cl_pending_turn c = Some t"
    "cl_pending_kind c = kind" by (auto simp: slot_holds_def)
  from ledger_step_effect [of digest collate ev st] show ?thesis
  proof cases
    case (recorded view r u cp fingerprint now)
    with pending_settles [of "au_checkpoints st" t digest "rp_identity r" cp] c assms(2) show ?thesis by simp
  next
    case (changed st' p c0 c' now)
    from changed_ledger_follows(2) [OF changed(4)] obtain terminal fingerprint where
      c': "c' = c0\<lparr>cl_epochs := cl_epochs c', cl_terminal := terminal, cl_fingerprint := fingerprint\<rparr>" by blast
    have "cl_plan c' = cl_plan c0" "cl_pending_turn c' = cl_pending_turn c0" "cl_pending_kind c' = cl_pending_kind c0"
      by (subst c'; simp)+
    with c changed show ?thesis by (simp add: slot_holds_def)
  next
    case (released c0 u view turn now)
    with c assms(3) show ?thesis by auto
  qed (use c in \<open>auto simp: slot_holds_def\<close>)
qed

interpretation slot: trapping_stepper "ledger_step digest collate" "\<lambda>_. True" "slot_holds plan t kind"
  "\<lambda>ev. t = [] \<or> releases_slot plan t ev"
  by unfold_locales (auto intro: slot_step)

lemma recorded_writes:
  "checkpointAccepted digest collate view (Some st) cp turn now = Some (Recorded, x) \<Longrightarrow> \<exists>y. x = Some y"
  by (auto simp: checkpointAccepted_def settled_answer_def bind_eq_Some_conv Let_def
      split: option.splits if_splits)

text \<open>
  C26: one boundary at a time, and only its own final releases it. While a turn owns a recorded
  boundary, no sequence of operations without a final of that turn, a final without a turn or a
  recovery for that plan changes the slot, and no other boundary is recorded meanwhile.
\<close>
theorem pending_boundary_waits_for_its_final:
  assumes "au_checkpoints st = Some c" and "cl_pending_turn c = Some t" and "t \<noteq> []"
    and "\<forall>ev \<in> set es. \<not> releases_slot (cl_plan c) t ev"
  shows "(\<exists>c'. au_checkpoints (ledger_run digest collate st es) = Some c' \<and> cl_plan c' = cl_plan c
       \<and> cl_pending_turn c' = Some t \<and> cl_pending_kind c' = cl_pending_kind c)
    \<and> checkpointAccepted digest collate view (Some (ledger_run digest collate st es)) cp turn now
        \<noteq> Some (Recorded, x)"
proof -
  have "slot_holds (cl_plan c) t (cl_pending_kind c) st" using assms by (simp add: slot_holds_def)
  then have "slot_holds (cl_plan c) t (cl_pending_kind c) (ledger_run digest collate st es)"
    by (rule slot.trapped_run) (use assms(3,4) in simp)
  then obtain c' where c': "au_checkpoints (ledger_run digest collate st es) = Some c'" "cl_plan c' = cl_plan c"
    "cl_pending_turn c' = Some t" "cl_pending_kind c' = cl_pending_kind c"
    by (auto simp: slot_holds_def)
  have "\<exists>y. x = Some y" if "checkpointAccepted digest collate view (Some (ledger_run digest collate st es)) cp turn now
      = Some (Recorded, x)"
    using that by (rule recorded_writes)
  moreover have False if "checkpointAccepted digest collate view (Some (ledger_run digest collate st es)) cp turn now
      = Some (Recorded, Some (st', event))" for st' event
    using that by (rule accepted_recorded) (use pending_settles [OF _ assms(3)] c' in auto)
  ultimately have "checkpointAccepted digest collate view (Some (ledger_run digest collate st es)) cp turn now
      \<noteq> Some (Recorded, x)" by (metis prod.collapse)
  with c' show ?thesis by blast
qed

definition reported_type :: "org_checkpoint \<Rightarrow> string" where
  "reported_type cp =
     (if is_L2Completed cp then ''org-plan.step-reported''
      else if is_TerminalReviewAccepted cp then ''org-plan.terminal-review-reported''
      else ''org-plan.milestone-reported'')"

text \<open>
  C27: what the final of a reporting turn leaves behind. The final of the turn that reported a
  boundary is allowed, whatever happened to the ledger in between that could not release it; it
  audits the report under the name of its kind, frees the slot and has the session evaluated at
  once. After a completed step or an accepted milestone the continuation needs the root, whatever the
  plan says; after a terminal review the ledger keeps no continuation for the root.
\<close>
theorem reported_boundary_returns_to_root:
  assumes "checkpointAccepted digest collate view (Some st) cp (Some t) now = Some (Recorded, Some (st', event))"
    and "\<forall>ev \<in> set es. \<not> releases_slot (cp_plan cp) t ev"
    and "sv_retained view' = Some r" and "rp_identity r = cp_plan cp"
    and "answer = turnCompleted view' session (Some (ledger_run digest collate st' es)) (Some t) now'"
  shows "fa_allowed answer \<and> fa_next answer = EvaluateNow \<and> map ae_type (fa_events answer) = [reported_type cp]
    \<and> (\<exists>final c. fa_state answer = Some final \<and> au_checkpoints final = Some c \<and> cl_pending_turn c = None
         \<and> (if is_TerminalReviewAccepted cp then cl_root_from c = None
            else \<forall>plan. requiresRootBoundary final plan))"
proof -
  have ne: "t \<noteq> []" and slot: "slot_holds (cp_plan cp) t (JStr (checkpoint_kind_name cp)) st'"
    using assms(1) by (rule accepted_recorded, simp add: slot_holds_def recorded_ledger_def Let_def)+
  have "slot_holds (cp_plan cp) t (JStr (checkpoint_kind_name cp)) (ledger_run digest collate st' es)"
    using slot by (rule slot.trapped_run) (use assms(2) ne in simp)
  then obtain c where c: "au_checkpoints (ledger_run digest collate st' es) = Some c" "cl_plan c = cp_plan cp"
    "cl_pending_turn c = Some t" "cl_pending_kind c = JStr (checkpoint_kind_name cp)"
    by (auto simp: slot_holds_def)
  obtain s where s: "end_root_retry (Some (ledger_run digest collate st' es)) (Some t) = Some s"
    "au_checkpoints s = Some c"
    using retry_session [of "ledger_run digest collate st' es" "Some t"] c(1) by auto
  have own: "\<not> foreign_final (Some s) (Some t)" using s c by (simp add: foreign_final_def)
  have boundary: "checkpoint_boundary view' s"
    using s c ne assms(3,4) by (simp add: checkpoint_boundary_def truthy_def)
  have kind: "released_kind c = JStr (checkpoint_kind_name cp)" using c by (simp add: released_kind_def)
  let ?final = "persisted (Some s) (s\<lparr>au_checkpoints := Some (released_ledger c), au_updated := now'\<rparr>)"
  have answer: "fa_state answer = Some ?final" "fa_allowed answer" "fa_next answer = EvaluateNow"
    "fa_events answer = [reported_event session c now']"
    using s boundary own assms(3) by (simp_all add: assms(5) turnCompleted_def Let_def final_allowed_def)
  have "ae_type (reported_event session c now') = reported_type cp"
    using kind by (cases cp) (simp_all add: reported_event_def reported_event_type_def reported_type_def)
  moreover have "if is_TerminalReviewAccepted cp then cl_root_from (released_ledger c) = None
      else \<forall>plan. requiresRootBoundary ?final plan"
    using kind c(3) ne
    by (cases cp) (auto simp: released_ledger_def requiresRootBoundary_def truthy_def)
  moreover have "cl_pending_turn (released_ledger c) = None" "au_checkpoints ?final = Some (released_ledger c)"
    by (simp_all add: released_ledger_def)
  ultimately show ?thesis
    using answer by (intro conjI exI [of _ ?final] exI [of _ "released_ledger c"]) simp_all
qed

subsection \<open>A reopened boundary can be reported again\<close>

lemma recording_succeeds:
  assumes "au_checkpoints st = Some c" and "settled_answer digest (Some c) (rp_identity r) cp = None"
    and "t \<noteq> []" and "sv_retained view = Some r" and "cp_plan cp = rp_identity r" and "cl_plan c = rp_identity r"
    and "plan_fingerprint (rp_plan r) \<noteq> None"
  shows "\<exists>st' event. checkpointAccepted digest collate view (Some st) cp (Some t) now = Some (Recorded, Some (st', event))"
  using assms
  by (cases "au_supervision st")
    (auto simp: checkpointAccepted_def progressKeyFor_def session_facts_def Let_def)

text \<open>The keys that occur do not collide.\<close>

definition keys_separate :: "(string \<Rightarrow> string) \<Rightarrow> string \<Rightarrow> string set \<Rightarrow> nat \<Rightarrow> bool" where
  "keys_separate digest plan T n \<longleftrightarrow>
     inj_on (\<lambda>(target, epoch). boundary_key digest plan target epoch) (T \<times> {..n})"

text \<open>Every accepted key was spent: on an earlier epoch of its boundary, or on the current one, closed.\<close>

definition keys_spent :: "(string \<Rightarrow> string) \<Rightarrow> string \<Rightarrow> checkpoint_ledger \<Rightarrow> bool" where
  "keys_spent digest plan c \<longleftrightarrow>
     (\<forall>k \<in> set (cl_keys c). \<exists>e \<in> set (cl_epochs c). \<exists>m. k = boundary_key digest plan (ce_target e) m
        \<and> (m < ce_epoch e \<or> m = ce_epoch e \<and> ce_completed e \<and> \<not> ce_reopened e))"

lemma recorded_spent:
  assumes "opt_within plan T n l" and "target_space T" and "checkpoint_target cp \<in> T"
    and "\<forall>c. l = Some c \<longrightarrow> keys_spent digest plan c"
  shows "keys_spent digest plan (recorded_ledger digest collate l plan fp cp t)"
proof -
  let ?c = "recorded_ledger digest collate l plan fp cp t"
  let ?new = "\<lparr> ce_target = checkpoint_target cp, ce_epoch = reported_epoch l (checkpoint_target cp),
                 ce_reopened = False, ce_completed = True \<rparr>"
  let ?key = "boundary_key digest plan (checkpoint_target cp) (reported_epoch l (checkpoint_target cp))"
  note epochs = recorded_epochs(1) [OF assms(1-3), of digest collate fp t]
  have "set (cl_keys ?c) \<subseteq> insert ?key (set (coalesce (map_option cl_keys l) []))"
    using boundedUnique_parts(3) by (fastforce simp: recorded_ledger_def Let_def)
  moreover have "\<exists>e \<in> set (cl_epochs ?c). \<exists>m. k = boundary_key digest plan (ce_target e) m
      \<and> (m < ce_epoch e \<or> m = ce_epoch e \<and> ce_completed e \<and> \<not> ce_reopened e)"
    if "k \<in> set (coalesce (map_option cl_keys l) [])" for k
  proof -
    from that obtain c where l: "l = Some c" and "k \<in> set (cl_keys c)" by (cases l) auto
    with assms(4) obtain e m where e: "e \<in> set (cl_epochs c)" "k = boundary_key digest plan (ce_target e) m"
      "m < ce_epoch e \<or> m = ce_epoch e \<and> ce_completed e \<and> \<not> ce_reopened e"
      by (auto simp: keys_spent_def)
    show ?thesis
    proof (cases "ce_target e = checkpoint_target cp")
      case True
      have "keys_distinct ce_target (cl_epochs c)" using assms(1) l by (simp add: ledger_within_def)
      with e(1) True have "epoch_of l (checkpoint_target cp) = Some e"
        using l by (simp add: epoch_of_def find_key_iff)
      then have "reported_epoch l (checkpoint_target cp) = ce_epoch e" by (simp add: reported_epoch_def)
      with e True have "k = boundary_key digest plan (ce_target ?new) m
        \<and> (m < ce_epoch ?new \<or> m = ce_epoch ?new \<and> ce_completed ?new \<and> \<not> ce_reopened ?new)" by auto
      moreover have "?new \<in> set (cl_epochs ?c)" by (simp add: epochs)
      ultimately show ?thesis by blast
    next
      case False
      then have "e \<in> set (cl_epochs ?c)" unfolding epochs using e(1) l by simp
      with e show ?thesis by blast
    qed
  qed
  moreover have "?new \<in> set (cl_epochs ?c)" by (simp add: epochs)
  then have "\<exists>e \<in> set (cl_epochs ?c). \<exists>m. ?key = boundary_key digest plan (ce_target e) m
      \<and> (m < ce_epoch e \<or> m = ce_epoch e \<and> ce_completed e \<and> \<not> ce_reopened e)"
    by (intro bexI [of _ ?new] exI [of _ "ce_epoch ?new"]) simp_all
  ultimately show ?thesis unfolding keys_spent_def by blast
qed

lemma changed_spent:
  assumes "changed_ledger st p c = Some c'" and "keys_spent digest plan c"
  shows "keys_spent digest plan c'"
proof -
  from changed_ledger_follows(2) [OF assms(1)] obtain terminal fingerprint where
    c': "c' = c\<lparr>cl_epochs := cl_epochs c', cl_terminal := terminal, cl_fingerprint := fingerprint\<rparr>" by blast
  have keys: "cl_keys c' = cl_keys c" by (subst c'; simp)
  have "\<exists>e' \<in> set (cl_epochs c'). entry_follows e e'" if "e \<in> set (cl_epochs c)" for e
    using follows_in_left [OF changed_ledger_follows(1) [OF assms(1)]] that .
  then show ?thesis
    using assms(2) unfolding keys_spent_def keys entry_follows_def
    by (metis less_Suc_eq reopen_target(1,4))
qed

lemma effect_spent:
  assumes "ledger_effect digest collate ev l l'" and "opt_within plan T n l" and "target_space T"
    and "event_fits plan T ev" and "\<forall>c. l = Some c \<longrightarrow> keys_spent digest plan c"
  shows "\<forall>c. l' = Some c \<longrightarrow> keys_spent digest plan c"
  using assms(1)
proof cases
  case (recorded view r t cp fingerprint now)
  with assms(4) have fits: "rp_identity r = plan" "checkpoint_target cp \<in> T" by simp_all
  with recorded_spent [OF assms(2,3) fits(2) assms(5)] recorded(2) show ?thesis by simp
next
  case (changed st p c c' now)
  with changed_spent assms(5) show ?thesis by blast
qed (use assms(5) in \<open>auto simp: keys_spent_def released_ledger_def\<close>)

lemma run_spent:
  assumes "opt_within plan T n (au_checkpoints st)" and "target_space T" and "digest_text digest"
    and "\<forall>ev \<in> set es. event_fits plan T ev"
    and "\<forall>c. au_checkpoints st = Some c \<longrightarrow> keys_spent digest plan c"
  shows "\<forall>c. au_checkpoints (ledger_run digest collate st es) = Some c \<longrightarrow> keys_spent digest plan c"
  using assms(1,4,5)
proof (induction es arbitrary: st n)
  case (Cons ev es)
  note effect = ledger_step_effect [of digest collate ev st]
  from effect_within [OF effect Cons.prems(1) assms(2) _ assms(3)] Cons.prems(2)
  have within: "opt_within plan T (Suc n) (au_checkpoints (ledger_step digest collate st ev))" by simp
  from effect_spent [OF effect Cons.prems(1) assms(2) _ Cons.prems(3)] Cons.prems(2)
  have spent: "\<forall>c. au_checkpoints (ledger_step digest collate st ev) = Some c \<longrightarrow> keys_spent digest plan c" by simp
  from Cons.IH [OF within _ spent] Cons.prems(2) show ?case by simp
qed simp

lemma open_key_unused:
  assumes "ledger_within plan T n c" and "keys_spent digest plan c" and "keys_separate digest plan T n"
    and "e \<in> set (cl_epochs c)" and "ce_reopened e"
  shows "boundary_key digest plan (ce_target e) (ce_epoch e) \<notin> set (cl_keys c)"
proof
  assume "boundary_key digest plan (ce_target e) (ce_epoch e) \<in> set (cl_keys c)"
  with assms(2) obtain d m where d: "d \<in> set (cl_epochs c)"
    "boundary_key digest plan (ce_target e) (ce_epoch e) = boundary_key digest plan (ce_target d) m"
    "m < ce_epoch d \<or> m = ce_epoch d \<and> ce_completed d \<and> \<not> ce_reopened d"
    unfolding keys_spent_def by blast
  have within: "(ce_target e, ce_epoch e) \<in> T \<times> {..n}" "(ce_target d, m) \<in> T \<times> {..n}"
    using assms(1,4) d(1,3) by (auto simp: ledger_within_def)
  have "(ce_target e, ce_epoch e) = (ce_target d, m)"
    using inj_onD [OF assms(3) [unfolded keys_separate_def] _ within] d(2) by simp
  moreover from this have "d = e"
    using assms(1,4) d(1) by (auto simp: ledger_within_def intro: keys_distinct_inj)
  ultimately show False using d(3) assms(5) by auto
qed

lemma open_epoch_needs_report:
  assumes "keys_distinct ce_target (cl_epochs c)" and "e \<in> set (cl_epochs c)" and "ce_reopened e"
  shows "epoch_needs_report (Some c) (ce_target e)"
proof -
  have "keys_distinct ce_target (rev (cl_epochs c))" using assms(1) by (simp add: keys_distinct_def rev_map [symmetric])
  with assms(2) have "List.find (\<lambda>d. ce_target d = ce_target e) (rev (cl_epochs c)) = Some e"
    by (simp add: find_key_iff)
  with assms(3) show ?thesis by (simp add: epoch_needs_report_def)
qed

text \<open>
  C28: a reopened boundary is reported again. In every state reached from a session without a ledger,
  a boundary that a change of the plan has reopened can be recorded once more, with the epoch it was
  reopened with, as soon as no other boundary is pending: its keys of earlier epochs do not stand in
  the way. Meanwhile the next turn is the root's as soon as what was reopened is done in the plan: the
  step, unless its milestone is suspended; the milestone; or the execution of the whole plan, if the
  boundary is the terminal review of the plan the session supervises. As long as it is being worked on
  nothing is said of the root.
\<close>
theorem reopened_boundary_is_reported_again:
  assumes "au_checkpoints start = None" and "target_space T" and "digest_text digest"
    and "\<forall>ev \<in> set es. event_fits plan T ev" and "keys_separate digest plan T (length es)"
    and "au_checkpoints (ledger_run digest collate start es) = Some c"
    and "e \<in> set (cl_epochs c)" and "ce_reopened e" and "ce_target e = checkpoint_target cp"
    and "\<not> (is_TerminalReviewAccepted cp \<and> cl_terminal c)"
    and "\<not> truthy_opt (cl_pending_turn c)" and "cp_plan cp = plan" and "sv_retained view = Some r"
    and "rp_identity r = plan" and "plan_fingerprint (rp_plan r) \<noteq> None" and "t \<noteq> []"
  shows "(\<exists>st' event c'. checkpointAccepted digest collate view (Some (ledger_run digest collate start es)) cp (Some t) now
        = Some (Recorded, Some (st', event)) \<and> au_checkpoints st' = Some c'
        \<and> e\<lparr>ce_reopened := False, ce_completed := True\<rparr> \<in> set (cl_epochs c'))
    \<and> (\<forall>p s l2. s \<in> set (plan_steps p) \<and> step_state s \<noteq> SUSPENDED \<and> l2 \<in> set (step_children s)
         \<and> child_state l2 = DONE \<and> ce_target e = checkpointTarget (TargetL2 (step_id s) (child_id l2))
         \<longrightarrow> requiresRootBoundary (ledger_run digest collate start es) p)
    \<and> (\<forall>p s. s \<in> set (plan_steps p) \<and> step_state s = DONE \<and> ce_target e = checkpointTarget (TargetL1 (step_id s))
         \<longrightarrow> requiresRootBoundary (ledger_run digest collate start es) p)
    \<and> (\<forall>p. is_TerminalReviewAccepted cp \<and> executionComplete p \<and> au_plan (ledger_run digest collate start es) = Some plan
         \<longrightarrow> requiresRootBoundary (ledger_run digest collate start es) p)"
proof -
  let ?st = "ledger_run digest collate start es"
  have start: "opt_within plan T 0 (au_checkpoints start)"
    "\<forall>c. au_checkpoints start = Some c \<longrightarrow> keys_spent digest plan c" using assms(1) by simp_all
  have within: "ledger_within plan T (length es) c"
    using run_within [OF start(1) assms(2,4,3), of collate] assms(6) by simp
  have spent: "keys_spent digest plan c"
    using run_spent [OF start(1) assms(2,3,4) start(2), of collate] assms(6) by blast
  note parts = within [unfolded ledger_within_def]
  have entry: "epoch_of (Some c) (checkpoint_target cp) = Some e"
    using parts assms(7,9) by (simp add: epoch_of_def find_key_iff)
  then have epoch: "reported_epoch (Some c) (checkpoint_target cp) = ce_epoch e" by (simp add: reported_epoch_def)
  have unused: "boundary_key digest plan (checkpoint_target cp) (ce_epoch e) \<notin> set (cl_keys c)"
    using open_key_unused [OF within spent assms(5,7,8)] assms(9) by simp
  have fresh: "settled_answer digest (Some c) plan cp = None"
    using assms(8,10,11) entry epoch unused by (simp add: settled_answer_def Let_def)
  obtain st' event where accepted: "checkpointAccepted digest collate view (Some ?st) cp (Some t) now
      = Some (Recorded, Some (st', event))"
    using recording_succeeds [OF assms(6) _ assms(16) assms(13)] fresh assms(12,14,15) parts by metis
  have "\<exists>c'. au_checkpoints st' = Some c' \<and> e\<lparr>ce_reopened := False, ce_completed := True\<rparr> \<in> set (cl_epochs c')"
    using accepted
  proof (rule accepted_recorded)
    fix retained t' fingerprint
    assume "sv_retained view = Some retained"
      "au_checkpoints st' = Some (recorded_ledger digest collate (au_checkpoints ?st) (rp_identity retained) fingerprint cp t')"
    moreover have "checkpoint_target cp \<in> T" using parts assms(7,9) by auto
    ultimately show ?thesis
      using recorded_epochs(1) [of "Some c" plan T "length es" cp digest collate fingerprint t'] within assms(2,6,9,13,14) epoch
      by auto
  qed
  moreover have "requiresRootBoundary ?st p"
    if "s \<in> set (plan_steps p)" "step_state s \<noteq> SUSPENDED" "l2 \<in> set (step_children s)" "child_state l2 = DONE"
      "ce_target e = checkpointTarget (TargetL2 (step_id s) (child_id l2))" for p s l2
  proof -
    have "epoch_needs_report (Some c) (checkpointTarget (TargetL2 (step_id s) (child_id l2)))"
      using open_epoch_needs_report [of c e] parts assms(7,8) that(5) by simp
    with that have "milestone_needs_root (Some c) s" by (auto simp: milestone_needs_root_def list_ex_iff)
    with that(1) assms(6) show ?thesis by (auto simp: requiresRootBoundary_def list_ex_iff)
  qed
  moreover have "requiresRootBoundary ?st p"
    if "s \<in> set (plan_steps p)" "step_state s = DONE" "ce_target e = checkpointTarget (TargetL1 (step_id s))" for p s
  proof -
    have "epoch_needs_report (Some c) (checkpointTarget (TargetL1 (step_id s)))"
      using open_epoch_needs_report [of c e] parts assms(7,8) that(3) by simp
    with that(2) have "milestone_needs_root (Some c) s" by (auto simp: milestone_needs_root_def)
    with that(1) assms(6) show ?thesis by (auto simp: requiresRootBoundary_def list_ex_iff)
  qed
  moreover have "requiresRootBoundary ?st p"
    if "is_TerminalReviewAccepted cp" "executionComplete p" "au_plan ?st = Some plan" for p
    using that assms(6,10) parts by (simp add: requiresRootBoundary_def terminalReviewPending_def)
  ultimately show ?thesis using accepted by blast
qed

subsection \<open>A milestone reported, released and reopened\<close>

definition short_digest :: "string \<Rightarrow> string" where
  "short_digest s = CHR ''x'' # take 60 s"

definition ledger_view :: session_view where
  "ledger_view = \<lparr> sv_retained = Some \<lparr> rp_plan = small_plan WIP, rp_identity = ''p'' \<rparr>,
     sv_activity = None, sv_pending = False \<rparr>"

definition first_milestone :: org_checkpoint where
  "first_milestone = L1Accepted ''p'' ''a'' ''L1'' CommitNotRequired None None"

definition ledger_start :: autopilot_session where
  "ledger_start = (disabledAutopilot ''s'' ''u'')\<lparr>au_enabled := True, au_plan := Some ''p''\<rparr>"

definition ledger_events :: "ledger_event list" where
  "ledger_events = [ReportBoundary ledger_view first_milestone (Some ''t'') ''n'',
     RootFinal ledger_view (Some ''t'') ''n'', RevisedPlan (small_plan WIP) ''n'']"

abbreviation "flat \<equiv> \<lambda>(_::string) (_::string). 0::int"


abbreviation "sample_run \<equiv> ledger_run short_digest flat"

abbreviation "sample_space \<equiv> {checkpoint_target first_milestone}"

lemma sample_space: "target_space sample_space"
  by (auto simp: target_space_def first_milestone_def bounded_def intro: exI [of _ "TargetL1 ''a''"])

lemma sample_digest: "digest_text short_digest"
  by (auto simp: digest_text_def short_digest_def bounded_def min_def)

lemma sample_fits: "\<forall>ev \<in> set ledger_events. event_fits ''p'' sample_space ev"
  by (simp add: ledger_events_def first_milestone_def)

lemma sample_ready: "ledger_ready ''p'' sample_space 0 ledger_start"
  by (simp add: ledger_ready_def ledger_start_def disabledAutopilot_def)

lemma sample_separate: "keys_separate short_digest ''p'' sample_space 3"
proof -
  have "distinct (map (boundary_key short_digest ''p'' (checkpoint_target first_milestone)) [0, 1, 2, 3])"
    by code_simp
  moreover have "{..3} = set [0, 1, 2, 3 :: nat]" by auto
  ultimately have "inj_on (boundary_key short_digest ''p'' (checkpoint_target first_milestone)) {..3}"
    by (simp only: distinct_map)
  then show ?thesis by (auto simp: keys_separate_def inj_on_def)
qed

lemma sample_recorded:
  "\<exists>st event. checkpointAccepted short_digest flat ledger_view (Some ledger_start) first_milestone (Some ''t'') ''n''
     = Some (Recorded, Some (st, event))"
proof -
  have "map_option (map_prod id Option.is_none)
      (checkpointAccepted short_digest flat ledger_view (Some ledger_start) first_milestone (Some ''t'') ''n'')
    = Some (Recorded, False)" by code_simp
  then show ?thesis by (auto simp: Option.is_none_def)
qed

theorem ledger_stays_readable_witness:
  "\<exists>c. au_checkpoints (sample_run ledger_start ledger_events) = Some c
     \<and> parseCheckpoints (ledger_value c) = Some c"
proof -
  have "Option.is_none (au_checkpoints (sample_run ledger_start ledger_events)) = False" by code_simp
  then obtain c where c: "au_checkpoints (sample_run ledger_start ledger_events) = Some c"
    by (auto simp: Option.is_none_def)
  have "int (0 + length ledger_events) \<le> max_safe" "bounded ''p''"
    by (simp_all add: ledger_events_def max_safe_def bounded_def)
  with ledger_stays_readable [OF sample_ready sample_space sample_fits sample_digest _ _ c] c show ?thesis
    by blast
qed

theorem boundary_is_recorded_once_witness:
  "\<exists>st event. checkpointAccepted short_digest flat ledger_view (Some ledger_start) first_milestone (Some ''t'') ''n''
       = Some (Recorded, Some (st, event))
     \<and> checkpointAccepted short_digest flat ledger_view
         (Some (sample_run st [RootFinal ledger_view (Some ''t'') ''n''])) first_milestone (Some ''u'') ''n''
       = Some (AlreadyRecorded, None)"
proof -
  from sample_recorded obtain st event where rec:
    "checkpointAccepted short_digest flat ledger_view (Some ledger_start) first_milestone (Some ''t'') ''n''
     = Some (Recorded, Some (st, event))" by blast
  have "event_fits ''p'' sample_space (ReportBoundary ledger_view first_milestone (Some ''t'') ''n'')"
    "cp_plan first_milestone = ''p''" "map_option rp_identity (sv_retained ledger_view) = Some ''p''"
    by (simp_all add: first_milestone_def ledger_view_def)
  with boundary_is_recorded_once [OF rec sample_ready sample_space sample_digest,
      where es = "[RootFinal ledger_view (Some ''t'') ''n'']" and cp' = first_milestone and t = "''u''"
        and view' = ledger_view]
  show ?thesis using rec by (auto simp: ledger_view_def)
qed

theorem pending_boundary_waits_for_its_final_witness:
  "\<exists>c c'. au_checkpoints (sample_run ledger_start (take 1 ledger_events)) = Some c \<and> cl_pending_turn c = Some ''t''
     \<and> au_checkpoints (sample_run (sample_run ledger_start (take 1 ledger_events))
         [RootFinal ledger_view (Some ''o'') ''n'', HandoffFailure (Some ''t'') ''n'']) = Some c'
     \<and> cl_pending_turn c' = Some ''t''"
proof -
  have "Option.bind (au_checkpoints (sample_run ledger_start (take 1 ledger_events))) cl_pending_turn = Some ''t''"
    by code_simp
  then obtain c where c: "au_checkpoints (sample_run ledger_start (take 1 ledger_events)) = Some c"
    "cl_pending_turn c = Some ''t''" by (auto simp: bind_eq_Some_conv)
  have "cl_plan c = ''p''"
  proof -
    have "map_option cl_plan (au_checkpoints (sample_run ledger_start (take 1 ledger_events))) = Some ''p''" by code_simp
    with c(1) show ?thesis by simp
  qed
  then have "\<forall>ev \<in> set [RootFinal ledger_view (Some ''o'') ''n'', HandoffFailure (Some ''t'') ''n''].
      \<not> releases_slot (cl_plan c) ''t'' ev" by simp
  from pending_boundary_waits_for_its_final [OF c _ this] c show ?thesis by blast
qed

theorem reported_boundary_returns_to_root_witness:
  "\<exists>st event final. checkpointAccepted short_digest flat ledger_view (Some ledger_start) first_milestone (Some ''t'') ''n''
       = Some (Recorded, Some (st, event))
     \<and> fa_state (turnCompleted ledger_view ''s'' (Some (sample_run st [HandoffFailure (Some ''t'') ''n''])) (Some ''t'') ''n'')
       = Some final
     \<and> requiresRootBoundary final (small_plan WIP)"
proof -
  from sample_recorded obtain st event where rec:
    "checkpointAccepted short_digest flat ledger_view (Some ledger_start) first_milestone (Some ''t'') ''n''
     = Some (Recorded, Some (st, event))" by blast
  from reported_boundary_returns_to_root [OF rec, where es = "[HandoffFailure (Some ''t'') ''n'']"
      and view' = ledger_view and r = "\<lparr> rp_plan = small_plan WIP, rp_identity = ''p'' \<rparr>"
      and session = "''s''" and now' = "''n''"]
  show ?thesis using rec
    by (auto simp: ledger_view_def first_milestone_def simp del: ledger_step.simps run_steps.simps)
qed

theorem reopened_boundary_is_reported_again_witness:
  "\<exists>st event. checkpointAccepted short_digest flat ledger_view (Some (sample_run ledger_start ledger_events))
      first_milestone (Some ''v'') ''n'' = Some (Recorded, Some (st, event))"
proof -
  have "map_option (\<lambda>c. (map (\<lambda>e. (ce_target e, ce_reopened e)) (cl_epochs c), cl_pending_turn c))
      (au_checkpoints (sample_run ledger_start ledger_events)) = Some ([(checkpoint_target first_milestone, True)], None)"
    by code_simp
  then obtain c e where c: "au_checkpoints (sample_run ledger_start ledger_events) = Some c"
    "e \<in> set (cl_epochs c)" "ce_reopened e" "ce_target e = checkpoint_target first_milestone"
    "cl_pending_turn c = None"
    by (auto simp: map_eq_Cons_conv)
  have start: "au_checkpoints ledger_start = None" by (simp add: ledger_start_def disabledAutopilot_def)
  have separate: "keys_separate short_digest ''p'' sample_space (length ledger_events)"
    using sample_separate by (simp add: ledger_events_def numeral_3_eq_3)
  have "\<not> is_TerminalReviewAccepted first_milestone" "cp_plan first_milestone = ''p''"
    "sv_retained ledger_view = Some \<lparr> rp_plan = small_plan WIP, rp_identity = ''p'' \<rparr>"
    by (simp_all add: first_milestone_def ledger_view_def)
  with reopened_boundary_is_reported_again [OF start sample_space sample_digest sample_fits separate c(1-4),
      where view = ledger_view and t = "''v''"] c(5) small_plan_fingerprint
  show ?thesis by fastforce
qed

end
