(* ===== verification/Executor_Journal.thy ===== *)
theory Executor_Journal
  imports Checkpoint_Ledger
begin

text \<open>
  The executor of the current milestone and its journal of commands, as the service of
  src/server/features/autopilot/application/service.ts keeps them: which roster entry is the
  executor, how its processes are refreshed, the durable commands and process actions with their
  fences, and the authorised replacement of a physical writer.

  \<open>digest\<close> stands for SHA-256 in hexadecimal, \<open>collate\<close> for \<open>localeCompare\<close>, \<open>dp\<close> for \<open>Date.parse\<close>
  (\<open>None\<close> is NaN); \<open>record_bytes\<close> is the size of a session record. The result \<open>None\<close> of an operation
  is a throw.
\<close>

subsection \<open>Processes\<close>

definition executorProcessKey :: "executor_process \<Rightarrow> string" where
  "executorProcessKey p = json_text (OArr [OText (xp_thread p), OText (xp_path p), OText (xp_id p),
     OText (xp_item p), (case xp_os_pid p of None \<Rightarrow> ONull | Some n \<Rightarrow> OInt (int n))])"

text \<open>\<open>new Map(entries)\<close>: the last entry of a key counts.\<close>

definition prior_process :: "executor_process list \<Rightarrow> executor_process \<Rightarrow> executor_process option" where
  "prior_process stored p =
     List.find (\<lambda>q. executorProcessKey q = executorProcessKey p) (rev stored)"

definition elapsed_between :: "(string \<Rightarrow> int option) \<Rightarrow> string \<Rightarrow> string \<Rightarrow> rat option" where
  "elapsed_between dp since now =
     (case (dp since, dp now) of (Some a, Some b) \<Rightarrow> Some (of_int (b - a)) | _ \<Rightarrow> None)"

definition refreshed_state :: "executor_process \<Rightarrow> executor_process \<Rightarrow> process_state" where
  "refreshed_state old p =
     (if xp_state old = ResultConsumed \<or> xp_state old = TerminatedForBudget then xp_state old
      else if xp_ownership old = BySupervisor \<and> xp_state p = Running then DetachedActive
      else xp_state p)"

text \<open>\<open>None\<close>: an elapsed time that is not a number, which no store accepts.\<close>

definition refresh_process ::
  "(string \<Rightarrow> int option) \<Rightarrow> string \<Rightarrow> executor_process list \<Rightarrow> executor_process \<Rightarrow> executor_process option" where
  "refresh_process dp now stored p =
     (case prior_process stored p of
        None \<Rightarrow> Some p
      | Some old \<Rightarrow> map_option (\<lambda>e.
          p\<lparr>xp_observed := xp_observed old, xp_elapsed := max (xp_elapsed p) e,
            xp_ownership := (if xp_ownership old = BySupervisor then BySupervisor else xp_ownership p),
            xp_state := refreshed_state old p\<rparr>)
          (elapsed_between dp (xp_observed old) now))"

definition refreshPersistedProcesses ::
  "(string \<Rightarrow> int option) \<Rightarrow> executor_process list \<Rightarrow> executor_process list \<Rightarrow> string
     \<Rightarrow> executor_process list option" where
  "refreshPersistedProcesses dp stored observed now =
     (if observed = [] then Some stored else read_all (refresh_process dp now stored) observed)"

subsection \<open>The executor of the current milestone\<close>

definition child_thread :: "subagent \<Rightarrow> string" where
  "child_thread c = coalesce (sa_thread c) (sa_id c)"

definition child_generation :: "subagent \<Rightarrow> nat" where
  "child_generation c = coalesce (sa_generation c) 1"

definition roster :: "activity_snapshot option \<Rightarrow> subagent list" where
  "roster activity = coalesce (map_option as_subagents activity) []"

definition running_process :: "executor_process \<Rightarrow> bool" where
  "running_process p \<longleftrightarrow> xp_state p = Running \<or> xp_state p = DetachedActive"

definition child_busy :: "subagent \<Rightarrow> bool" where
  "child_busy c \<longleftrightarrow> sa_state c = WorkingAgent \<or> sa_state c = AwaitingAgent
     \<or> list_ex running_process (coalesce (sa_processes c) [])"

definition is_replacement :: "executor_replacement \<Rightarrow> subagent \<Rightarrow> bool" where
  "is_replacement r c \<longleftrightarrow>
     sa_task c = Some (ei_canonical (er_identity r)) \<and> child_generation c = ei_generation (er_identity r)
     \<and> Option.bind (sa_path c) path_leaf = Some (ei_name (er_identity r))"

definition is_assigned :: "executor_assignment \<Rightarrow> subagent \<Rightarrow> bool" where
  "is_assigned a c \<longleftrightarrow>
     sa_task c = Some (ea_canonical a) \<and> sa_path c = Some (ea_path a) \<and> child_thread c = ea_thread a
     \<and> child_generation c = ea_generation a"

text \<open>The later generation, then the later activity, then the thread; a difference of NaN is falsy.\<close>

definition newest_first ::
  "(string \<Rightarrow> int option) \<Rightarrow> (string \<Rightarrow> string \<Rightarrow> int) \<Rightarrow> subagent \<Rightarrow> subagent \<Rightarrow> int" where
  "newest_first dp collate l r =
     (let g = int (child_generation r) - int (child_generation l);
          t = (case (dp (sa_last r), dp (sa_last l)) of (Some a, Some b) \<Rightarrow> a - b | _ \<Rightarrow> 0) in
      if g \<noteq> 0 then g else if t \<noteq> 0 then t else collate (child_thread l) (child_thread r))"

definition position_of :: "nat \<Rightarrow> string" where
  "position_of i = CHR ''L'' # nat_text (i + 1)"

definition assignment_at :: "string \<Rightarrow> executor_lifecycle option \<Rightarrow> executor_assignment option" where
  "assignment_at position stored =
     (case Option.bind stored el_assignment of
        None \<Rightarrow> None | Some a \<Rightarrow> if ea_position a = position then Some a else None)"

definition replacement_child :: "executor_lifecycle option \<Rightarrow> subagent list \<Rightarrow> subagent option" where
  "replacement_child stored candidates =
     (case Option.bind stored el_replacement of
        None \<Rightarrow> None | Some r \<Rightarrow> List.find (is_replacement r) candidates)"

definition chosen_child ::
  "(string \<Rightarrow> int option) \<Rightarrow> (string \<Rightarrow> string \<Rightarrow> int) \<Rightarrow> string \<Rightarrow> executor_lifecycle option
     \<Rightarrow> subagent list \<Rightarrow> subagent option" where
  "chosen_child dp collate position stored candidates =
     opt_or (replacement_child stored candidates)
       (case assignment_at position stored of
          Some a \<Rightarrow> List.find (is_assigned a) candidates
        | None \<Rightarrow> (case sort_by (newest_first dp collate) candidates of [] \<Rightarrow> None | c # _ \<Rightarrow> Some c))"

definition child_executor_outcome :: "child_outcome \<Rightarrow> executor_outcome" where
  "child_executor_outcome c =
     (case c of PartialChild \<Rightarrow> PartialOutcome | CancelledChild \<Rightarrow> CancelledOutcome | FailedChild \<Rightarrow> FailedOutcome)"

definition child_verdict :: "plan_step \<Rightarrow> subagent \<Rightarrow> outcome_verdict" where
  "child_verdict step c = classifyExecutorOutcome
     \<lparr> or_objective_complete = step_state step = DONE, or_active = child_busy c,
       or_outcome = map_option child_executor_outcome (sa_outcome c), or_reason = None, or_condition = None \<rparr>"

text \<open>The executor without a roster entry: what was stored, with the state of the milestone.\<close>

definition absent_executor :: "string \<Rightarrow> plan_step \<Rightarrow> executor_lifecycle option \<Rightarrow> executor_lifecycle option" where
  "absent_executor position step stored =
     (case stored of
        None \<Rightarrow> None
      | Some e \<Rightarrow> if el_position e \<noteq> position \<or> el_outcome e = CancelledOutcome then None
                  else Some (e\<lparr>el_l1 := step_state step\<rparr>))"

definition kept_replacement :: "executor_lifecycle option \<Rightarrow> subagent \<Rightarrow> executor_replacement option" where
  "kept_replacement stored c =
     (case Option.bind stored el_replacement of
        None \<Rightarrow> None
      | Some r \<Rightarrow> if child_generation c < ei_generation (er_identity r) then Some r else None)"

definition kept_failures :: "executor_lifecycle option \<Rightarrow> subagent \<Rightarrow> nat" where
  "kept_failures stored c =
     (case stored of
        None \<Rightarrow> 0
      | Some e \<Rightarrow>
          (case el_replacement e of
             Some r \<Rightarrow> if child_generation c \<ge> ei_generation (er_identity r) then 0 else el_failures e
           | None \<Rightarrow> el_failures e))"

text \<open>\<open>adopted\<close>: the physical writer enters by replacement, or nothing was assigned before.\<close>

definition present_executor ::
  "(string \<Rightarrow> int option) \<Rightarrow> string \<Rightarrow> string \<Rightarrow> plan_step \<Rightarrow> nat \<Rightarrow> executor_lifecycle option \<Rightarrow> subagent
     \<Rightarrow> string \<Rightarrow> string \<Rightarrow> executor_assignment option \<Rightarrow> executor_lifecycle option" where
  "present_executor dp now position step attempts stored c path task assigned = do {
     processes \<leftarrow> refreshPersistedProcesses dp
       (case stored of Some e \<Rightarrow> if el_position e = position then el_processes e else [] | None \<Rightarrow> [])
       (coalesce (sa_processes c) []) now;
     let executor =
       \<lparr> el_position = position, el_canonical = task, el_path = path, el_thread = child_thread c,
         el_l1 = step_state step,
         el_l2 = map_option child_state (List.find (\<lambda>l2. child_state l2 = WIP) (step_children step)),
         el_activity = sa_last c, el_processes = processes,
         el_outcome = ov_outcome (child_verdict step c), el_blocking = ov_blocking (child_verdict step c),
         el_generation = (case assigned of None \<Rightarrow> child_generation c | Some a \<Rightarrow> ea_generation a),
         el_count = (case stored of Some e \<Rightarrow> if el_position e = position then el_count e else attempts
                     | None \<Rightarrow> attempts),
         el_failures = kept_failures stored c, el_assignment = assigned,
         el_replacement = kept_replacement stored c,
         el_commands = coalesce (map_option el_commands stored) [] \<rparr>;
     (case assigned of
        Some a \<Rightarrow> Some executor
      | None \<Rightarrow> map_option (\<lambda>a. executor\<lparr>el_assignment := Some a\<rparr>)
          (executorAssignment (executor\<lparr>el_generation := child_generation c\<rparr>) Resumable)) }"

text \<open>The outer \<open>None\<close> is a throw or an unstorable time, the inner one means that there is no executor.\<close>

definition currentExecutor ::
  "(string \<Rightarrow> int option) \<Rightarrow> (string \<Rightarrow> string \<Rightarrow> int) \<Rightarrow> string \<Rightarrow> supervised_plan \<Rightarrow> nat
     \<Rightarrow> executor_lifecycle option \<Rightarrow> activity_snapshot option \<Rightarrow> executor_lifecycle option option" where
  "currentExecutor dp collate now plan attempts stored activity =
     (case currentExecutableL1Index plan of
        None \<Rightarrow> Some None
      | Some i \<Rightarrow>
          let position = position_of i;
              step = plan_steps plan ! i;
              candidates = filter (\<lambda>c. sa_position c = Some position) (roster activity);
              replacement = replacement_child stored candidates;
              assigned = assignment_at position stored in
          (case chosen_child dp collate position stored candidates of
             None \<Rightarrow> Some (absent_executor position step stored)
           | Some c \<Rightarrow>
               (case (sa_path c, sa_task c) of
                  (Some path, Some task) \<Rightarrow>
                    if path = [] \<or> task = [] \<or> sa_outcome c = Some CancelledChild then Some None
                    else map_option Some (present_executor dp now position step attempts stored c path task
                           (if replacement \<noteq> None then None else assigned))
                | _ \<Rightarrow> Some None)))"

definition executorTurnActive :: "executor_lifecycle \<Rightarrow> activity_snapshot option \<Rightarrow> bool" where
  "executorTurnActive executor activity =
     (case activity of
        None \<Rightarrow> False
      | Some a \<Rightarrow>
          as_confidence a = FreshActivity
          \<and> (case List.find (\<lambda>c. child_thread c = el_thread executor \<and> sa_path c = Some (el_path executor)
                  \<and> child_generation c = el_generation executor) (as_subagents a) of
               None \<Rightarrow> False | Some c \<Rightarrow> sa_state c = WorkingAgent \<or> sa_state c = AwaitingAgent))"

definition authoritativeExecutorActive ::
  "autopilot_session \<Rightarrow> supervised_plan option \<Rightarrow> activity_snapshot option \<Rightarrow> bool" where
  "authoritativeExecutorActive st plan activity =
     (case (plan, activity) of
        (Some p, Some a) \<Rightarrow>
          as_confidence a = FreshActivity
          \<and> (case currentExecutableL1Index p of
               None \<Rightarrow> False
             | Some i \<Rightarrow>
                 (case sort_by (\<lambda>l r. int (child_generation r) - int (child_generation l))
                     (filter (\<lambda>c. sa_position c = Some (position_of i)
                        \<and> sa_task c = Some (CHR ''l'' # nat_text (i + 1))
                        \<and> (case au_executor st of
                             None \<Rightarrow> True
                           | Some e \<Rightarrow> child_thread c = el_thread e \<and> sa_path c = Some (el_path e)))
                      (as_subagents a)) of
                    [] \<Rightarrow> False | c # _ \<Rightarrow> child_busy c))
      | _ \<Rightarrow> False)"

subsection \<open>Commands\<close>

record command_fence =
  fe_plan :: string
  fe_fingerprint :: string
  fe_position :: "string option"
  fe_thread :: string

definition unissued_ids :: "command_fence \<Rightarrow> executor_lifecycle \<Rightarrow> nat \<Rightarrow> command_trigger \<Rightarrow> string list" where
  "unissued_ids fence executor generation trigger =
     sort_by code_unit_compare (map ec_id
       (filter (\<lambda>c. ec_superseded_before_issue c \<and> ec_action c = None \<and> ec_plan c = fe_plan fence
          \<and> ec_fingerprint c = fe_fingerprint fence \<and> ec_thread c = fe_thread fence
          \<and> ec_path c = el_path executor \<and> ec_canonical c = el_canonical executor
          \<and> ec_generation c = generation \<and> ec_trigger c = trigger) (el_commands executor)))"

definition command_digest ::
  "(string \<Rightarrow> string) \<Rightarrow> command_fence \<Rightarrow> executor_lifecycle \<Rightarrow> nat \<Rightarrow> command_trigger \<Rightarrow> string" where
  "command_digest digest fence executor generation trigger =
     (let unissued = unissued_ids fence executor generation trigger in
      digest (json_text (OArr
        ([OText (fe_plan fence), OText (fe_fingerprint fence), opt_json (fe_position fence),
          OText (el_canonical executor), OText (el_path executor), OText (fe_thread fence), OInt (int generation)]
         @ (if el_failures executor = 0 then [] else [OInt (int (el_failures executor))])
         @ [OText (name_of trigger_names trigger)]
         @ (if unissued = [] then [] else [OArr (map OText unissued)])))))"

definition executorCommand ::
  "(string \<Rightarrow> string) \<Rightarrow> string \<Rightarrow> command_fence \<Rightarrow> executor_lifecycle \<Rightarrow> nat \<Rightarrow> command_trigger
     \<Rightarrow> executor_command" where
  "executorCommand digest now fence executor generation trigger =
     \<lparr> ec_id = command_digest digest fence executor generation trigger, ec_status = ScheduledCommand,
       ec_plan = fe_plan fence, ec_fingerprint = fe_fingerprint fence,
       ec_position = coalesce (fe_position fence) (el_position executor),
       ec_canonical = el_canonical executor, ec_path = el_path executor, ec_thread = fe_thread fence,
       ec_generation = generation, ec_attempt = el_failures executor, ec_superseded_before_issue = False,
       ec_trigger = trigger, ec_action = None, ec_created = now, ec_updated = now \<rparr>"

text \<open>The identity and fingerprint of the retained plan, or \<open>none\<close>; \<open>None\<close> is a throw.\<close>

definition plan_names :: "retained_plan option \<Rightarrow> (string \<times> string) option" where
  "plan_names retained =
     (case retained of
        None \<Rightarrow> Some (''none'', ''none'')
      | Some r \<Rightarrow> map_option (\<lambda>f. (rp_identity r, f)) (plan_fingerprint (rp_plan r)))"

definition processActionCommand ::
  "(string \<Rightarrow> string) \<Rightarrow> string \<Rightarrow> retained_plan option \<Rightarrow> executor_lifecycle \<Rightarrow> executor_process
     \<Rightarrow> process_action_kind \<Rightarrow> executor_command option" where
  "processActionCommand digest now retained executor process kind =
     map_option (\<lambda>(plan, fingerprint).
       \<lparr> ec_id = digest (json_text (OArr
           [OText plan, OText fingerprint, OText (el_position executor), OText (el_canonical executor),
            OText (el_path executor), OText (el_thread executor), OInt (int (el_generation executor)),
            OText (name_of action_kind_names kind), OText (executorProcessKey process)])),
         ec_status = ScheduledCommand, ec_plan = plan, ec_fingerprint = fingerprint,
         ec_position = el_position executor, ec_canonical = el_canonical executor,
         ec_path = el_path executor, ec_thread = el_thread executor,
         ec_generation = el_generation executor, ec_attempt = 0, ec_superseded_before_issue = False,
         ec_trigger = PartialTrigger, ec_action = Some (kind, executorProcessKey process),
         ec_created = now, ec_updated = now \<rparr>) (plan_names retained)"

definition open_entry :: "executor_command \<Rightarrow> executor_command \<Rightarrow> bool" where
  "open_entry command entry \<longleftrightarrow>
     ec_id entry = ec_id command
     \<and> (unresolved entry \<or> (ec_action command \<noteq> None \<and> ec_status entry = FailedCommand))"

text \<open>
  The fence of a command: it is still the one of the enabled session, its plan revision, its executor
  and the roster. The index of no milestone is \<open>-1\<close>; \<open>None\<close> is a throw of the fingerprint.
\<close>

definition names_milestone :: "string \<Rightarrow> nat option \<Rightarrow> bool" where
  "names_milestone position index \<longleftrightarrow>
     (case js_number (drop 1 position) of
        None \<Rightarrow> False
      | Some n \<Rightarrow> n - 1 = (case index of None \<Rightarrow> - 1 | Some i \<Rightarrow> of_nat i))"

definition executor_matches :: "executor_command \<Rightarrow> nat \<Rightarrow> executor_lifecycle \<Rightarrow> bool" where
  "executor_matches command generation e \<longleftrightarrow>
     el_position e = ec_position command \<and> el_canonical e = ec_canonical command
     \<and> el_path e = ec_path command \<and> el_thread e = ec_thread command
     \<and> (case el_assignment e of None \<Rightarrow> el_generation e | Some a \<Rightarrow> ea_generation a) = generation"

definition roster_matches :: "executor_command \<Rightarrow> nat \<Rightarrow> activity_snapshot option \<Rightarrow> bool" where
  "roster_matches command generation activity =
     (case List.find (\<lambda>c. child_thread c = ec_thread command) (roster activity) of
        None \<Rightarrow> False
      | Some c \<Rightarrow> sa_position c = Some (ec_position command) \<and> sa_task c = Some (ec_canonical command)
                  \<and> child_generation c = generation)"

definition executorCommandCurrent ::
  "session_view \<Rightarrow> autopilot_session \<Rightarrow> executor_command \<Rightarrow> nat \<Rightarrow> bool option" where
  "executorCommandCurrent view st command generation =
     (case (sv_retained view, au_executor st) of
        (Some r, Some e) \<Rightarrow>
          if \<not> au_enabled st
             \<or> (ec_action command = None \<and> \<not> names_milestone (ec_position command) (currentExecutableL1Index (rp_plan r)))
             \<or> \<not> list_ex (open_entry command) (el_commands e) \<or> rp_identity r \<noteq> ec_plan command
          then Some False
          else map_option (\<lambda>f. f = ec_fingerprint command \<and> executor_matches command generation e
                 \<and> roster_matches command generation (sv_activity view)) (plan_fingerprint (rp_plan r))
      | _ \<Rightarrow> Some False)"

definition processActionCurrent ::
  "session_view \<Rightarrow> autopilot_session \<Rightarrow> executor_command \<Rightarrow> executor_process option option" where
  "processActionCurrent view st command =
     map_option (\<lambda>current.
       (case (au_executor st, ec_action command) of
          (Some e, Some (kind, key)) \<Rightarrow>
            if current then List.find (\<lambda>p. executorProcessKey p = key) (el_processes e) else None
        | _ \<Rightarrow> None))
     (executorCommandCurrent view st command (ec_generation command))"

subsection \<open>Writing the journal\<close>

definition journal :: "autopilot_session \<Rightarrow> executor_command list" where
  "journal st = coalesce (map_option el_commands (au_executor st)) []"

definition save_executor :: "string \<Rightarrow> autopilot_session \<Rightarrow> executor_lifecycle \<Rightarrow> autopilot_session" where
  "save_executor now st e = persisted (Some st) (st\<lparr>au_executor := Some e, au_updated := now\<rparr>)"

definition executorCommandTransition ::
  "string \<Rightarrow> autopilot_session \<Rightarrow> string \<Rightarrow> command_status \<Rightarrow> executor_command option \<times> autopilot_session" where
  "executorCommandTransition now st command_id status =
     (case au_executor st of
        None \<Rightarrow> (None, st)
      | Some e \<Rightarrow>
          (case List.find (\<lambda>c. ec_id c = command_id) (el_commands e) of
             None \<Rightarrow> (None, st)
           | Some c \<Rightarrow>
               if canTransitionExecutorCommand (ec_status c) status (ec_action c \<noteq> None)
               then let new = c\<lparr>ec_status := status, ec_updated := now\<rparr> in
                    (Some new, save_executor now st
                      (e\<lparr>el_commands := update_where (\<lambda>d. ec_id d = command_id) (\<lambda>_. new) (el_commands e)\<rparr>))
               else (None, st)))"

definition scheduleExecutorCommand ::
  "(autopilot_session \<Rightarrow> executor_command list \<Rightarrow> nat) \<Rightarrow> string \<Rightarrow> autopilot_session \<Rightarrow> executor_command
     \<Rightarrow> executor_command option \<times> autopilot_session" where
  "scheduleExecutorCommand record_bytes now st command =
     (case au_executor st of
        None \<Rightarrow> (None, st)
      | Some e \<Rightarrow>
          (case List.find (\<lambda>c. ec_id c = ec_id command) (el_commands e) of
             Some existing \<Rightarrow> (Some existing, st)
           | None \<Rightarrow>
               (case retainExecutorCommands (record_bytes st) (el_commands e) command of
                  None \<Rightarrow> (None, st)
                | Some commands \<Rightarrow> (Some command, save_executor now st (e\<lparr>el_commands := commands\<rparr>)))))"

definition persistExecutor :: "string \<Rightarrow> autopilot_session \<Rightarrow> executor_lifecycle \<Rightarrow> bool \<times> autopilot_session" where
  "persistExecutor now st executor =
     (if au_executor st = Some executor then (False, st) else (True, save_executor now st executor))"

definition ownership_mismatch :: "executor_lifecycle option \<Rightarrow> executor_command \<Rightarrow> bool" where
  "ownership_mismatch current c =
     (case current of
        None \<Rightarrow> False
      | Some e \<Rightarrow> ec_position c \<noteq> el_position e \<or> ec_canonical c \<noteq> el_canonical e
                  \<or> ec_path c \<noteq> el_path e \<or> ec_thread c \<noteq> el_thread e)"

definition supersede_command ::
  "string \<Rightarrow> string \<Rightarrow> string \<Rightarrow> executor_lifecycle option \<Rightarrow> executor_command \<Rightarrow> executor_command" where
  "supersede_command now plan fingerprint current c =
     (if (ec_plan c \<noteq> plan \<or> ec_fingerprint c \<noteq> fingerprint \<or> ownership_mismatch current c) \<and> unresolved c
      then c\<lparr>ec_status := SupersededCommand,
             ec_superseded_before_issue := (ec_status c = ScheduledCommand \<or> ec_superseded_before_issue c),
             ec_updated := now\<rparr>
      else c)"

definition superseded_event :: "string \<Rightarrow> string \<Rightarrow> executor_command list \<Rightarrow> audit_event" where
  "superseded_event session now commands =
     \<lparr> ae_session = session, ae_type = ''autopilot.executor-command-superseded'',
       ae_payload = JObj [(''count'', nat_json (length (filter (\<lambda>c. ec_status c = SupersededCommand) commands)))],
       ae_at = now \<rparr>"

definition supersedeExecutorCommands ::
  "string \<Rightarrow> autopilot_session \<Rightarrow> string \<Rightarrow> supervised_plan \<Rightarrow> executor_lifecycle option
     \<Rightarrow> (bool \<times> autopilot_session \<times> audit_event list) option" where
  "supersedeExecutorCommands now st plan_identity plan current =
     (case au_executor st of
        None \<Rightarrow> Some (False, st, [])
      | Some e \<Rightarrow>
          if el_commands e = [] then Some (False, st, [])
          else map_option (\<lambda>fingerprint.
            let commands = map (supersede_command now plan_identity fingerprint current) (el_commands e) in
            if list_ex (\<lambda>c. unresolved c \<and> (ec_plan c \<noteq> plan_identity \<or> ec_fingerprint c \<noteq> fingerprint
                 \<or> ownership_mismatch current c)) (el_commands e)
            then (True, save_executor now st (e\<lparr>el_commands := commands\<rparr>),
                  [superseded_event (au_session st) now commands])
            else (False, st, [])) (plan_fingerprint plan))"

subsection \<open>Process actions\<close>

datatype controller_answer = EffectDone | EffectRefused | EffectThrew

text \<open>
  What is done before the controller is called: either the action is settled, or the controller is
  called with a command that is durably issued.
\<close>

datatype action_start = ActionSettled bool | ActionCall executor_command executor_process

definition begin_process_action ::
  "(string \<Rightarrow> string) \<Rightarrow> (autopilot_session \<Rightarrow> executor_command list \<Rightarrow> nat) \<Rightarrow> string \<Rightarrow> session_view
     \<Rightarrow> autopilot_session \<Rightarrow> executor_lifecycle \<Rightarrow> executor_process \<Rightarrow> process_action_kind
     \<Rightarrow> (action_start \<times> autopilot_session) option" where
  "begin_process_action digest record_bytes now view st executor process kind = do {
     requested \<leftarrow> processActionCommand digest now (sv_retained view) executor process kind;
     (case scheduleExecutorCommand record_bytes now st requested of
        (None, st1) \<Rightarrow> Some (ActionSettled False, st1)
      | (Some command, st1) \<Rightarrow>
          if ec_status command \<in> {CancelledCommand, SupersededCommand} then Some (ActionSettled False, st1)
          else if ec_status command = AcceptedCommand then Some (ActionSettled True, st1)
          else do {
            current \<leftarrow> processActionCurrent view st1 command;
            Some (case current of
                None \<Rightarrow> (ActionSettled False, snd (executorCommandTransition now st1 (ec_id command) SupersededCommand))
              | Some p \<Rightarrow>
                  if ec_status command = IssuedCommand then (ActionCall command p, st1)
                  else (case executorCommandTransition now st1 (ec_id command) IssuedCommand of
                          (Some issued, st2) \<Rightarrow> (ActionCall issued p, st2)
                        | (None, st2) \<Rightarrow> (ActionSettled False, st2))) }) }"

fun acted_process :: "process_action_kind \<Rightarrow> executor_process \<Rightarrow> executor_process" where
  "acted_process TransferAction p = p\<lparr>xp_ownership := BySupervisor, xp_state := DetachedActive\<rparr>"
| "acted_process ConsumeAction p = p\<lparr>xp_state := ResultConsumed\<rparr>"
| "acted_process TerminateAction p = p\<lparr>xp_state := TerminatedForBudget\<rparr>"

text \<open>
  \<open>containOperationFailure\<close> where the store can be read and written: the session goes back to
  monitoring under a new generation, and a failed resumption hands the root a probe.
\<close>

definition containOperationFailure :: "string \<Rightarrow> string \<Rightarrow> bool \<Rightarrow> autopilot_session \<Rightarrow> autopilot_session" where
  "containOperationFailure now key resume st =
     (if \<not> au_enabled st then st
      else
        let protocol = coalesce (au_supervision st) (startSupervisionProtocol key);
            recovery = st\<lparr>au_state := PilotMonitoring, au_generation := au_generation st + 1,
              au_next := None, au_stop := Some ReconcileFailed, au_updated := now\<rparr> in
        if resume \<and> ps_outcome protocol \<noteq> AttentionRequired \<and> ps_outcome protocol \<noteq> SafetyPaused
        then recovery\<lparr>au_supervision := Some (protocol\<lparr>ps_outcome := ProbeRequired, ps_probe := Some key,
               ps_lease := None, ps_retry := None, ps_pause := None\<rparr>)\<rparr>
        else recovery)"

text \<open>What is done with the answer, on the state stored by then; a throw leaves the command issued.\<close>

definition finish_process_action ::
  "string \<Rightarrow> session_view \<Rightarrow> autopilot_session \<Rightarrow> executor_command \<Rightarrow> process_action_kind \<Rightarrow> controller_answer
     \<Rightarrow> (bool \<times> autopilot_session) option" where
  "finish_process_action now view st issued kind answer =
     (case answer of
        EffectThrew \<Rightarrow> Some (False, containOperationFailure now [] False st)
      | EffectRefused \<Rightarrow> Some (False, snd (executorCommandTransition now st (ec_id issued) FailedCommand))
      | EffectDone \<Rightarrow>
          map_option (\<lambda>latest.
            (case (latest, au_executor st) of
               (Some _, Some e) \<Rightarrow>
                 (True, save_executor now st
                   (e\<lparr>el_commands := update_where (\<lambda>c. ec_id c = ec_id issued)
                        (\<lambda>c. c\<lparr>ec_status := AcceptedCommand, ec_updated := now\<rparr>) (el_commands e),
                      el_processes := update_where (\<lambda>p. Some (executorProcessKey p) = map_option snd (ec_action issued))
                        (acted_process kind) (el_processes e)\<rparr>))
             | _ \<Rightarrow> (False, snd (executorCommandTransition now st (ec_id issued) SupersededCommand))))
          (processActionCurrent view st issued))"

subsection \<open>Replacement of the physical writer\<close>

definition validReplacement :: "retained_plan option \<Rightarrow> executor_replacement \<Rightarrow> bool option" where
  "validReplacement retained r =
     (case retained of
        None \<Rightarrow> Some False
      | Some p \<Rightarrow>
          if rp_identity p \<noteq> er_plan r then Some False
          else map_option (\<lambda>f. f = er_fingerprint r
                 \<and> map_option position_of (currentExecutableL1Index (rp_plan p)) = Some (ei_position (er_identity r)))
               (plan_fingerprint (rp_plan p)))"

definition freshExecutorIdentity ::
  "session_view \<Rightarrow> autopilot_session option \<Rightarrow> executor_identity option option" where
  "freshExecutorIdentity view state = do {
     let replacement = Option.bind (Option.bind state au_executor) el_replacement;
     valid \<leftarrow> (case replacement of None \<Rightarrow> Some False | Some r \<Rightarrow> validReplacement (sv_retained view) r);
     if valid then Some (map_option er_identity replacement)
     else (case Option.bind (sv_retained view) (\<lambda>p. currentExecutableL1Index (rp_plan p)) of
        None \<Rightarrow> Some None
      | Some i \<Rightarrow>
          let task = CHR ''l'' # nat_text (i + 1) in
          if (case Option.bind state au_executor of
                None \<Rightarrow> False | Some e \<Rightarrow> el_canonical e = task \<and> el_outcome e \<noteq> CancelledOutcome)
             \<or> list_ex (\<lambda>c. sa_task c = Some task) (roster (sv_activity view))
          then Some None
          else map_option Some (executorIdentity task 1)) }"

text \<open>Every command that is not settled is superseded, without the mark of an unissued one.\<close>

definition retire_command :: "string \<Rightarrow> executor_command \<Rightarrow> executor_command" where
  "retire_command now c = (if unresolved c then c\<lparr>ec_status := SupersededCommand, ec_updated := now\<rparr> else c)"

definition unavailable :: "executor_assignment \<Rightarrow> executor_assignment" where
  "unavailable a = a\<lparr>ea_state := UnavailableAssignment\<rparr>"

datatype replacement_refusal = AttentionNeeded | ExecutorNotAssigned | ExecutorStillActive | PlanMismatch

datatype replacement_answer = ReplacementRefused replacement_refusal | ReplacementGranted executor_identity

definition authorized_event ::
  "string \<Rightarrow> string \<Rightarrow> string \<Rightarrow> executor_assignment \<Rightarrow> executor_identity \<Rightarrow> audit_event" where
  "authorized_event session now task previous identity =
     \<lparr> ae_session = session, ae_type = ''autopilot.executor-replacement-authorized'',
       ae_payload = JObj [(''canonicalTaskName'', JStr task), (''previousTaskName'', JStr (ea_name previous)),
         (''taskName'', JStr (ei_name identity)), (''generation'', nat_json (ei_generation identity)),
         (''evidence'', JStr ''typed-attention-approval'')],
       ae_at = now \<rparr>"

definition authorized_executor ::
  "string \<Rightarrow> string \<Rightarrow> string \<Rightarrow> executor_lifecycle \<Rightarrow> executor_assignment \<Rightarrow> executor_identity
     \<Rightarrow> executor_lifecycle" where
  "authorized_executor now plan fingerprint e previous identity =
     e\<lparr>el_outcome := FailedOutcome, el_assignment := Some (unavailable previous),
       el_replacement := Some \<lparr> er_identity = identity, er_plan = plan, er_fingerprint = fingerprint,
         er_previous = Some (unavailable previous), er_reason = Some HumanPermissionGranted,
         er_evidence = Some ''typed-attention-approval'' \<rparr>,
       el_commands := map (retire_command now) (el_commands e)\<rparr>"

definition standing_replacement :: "retained_plan option \<Rightarrow> executor_lifecycle \<Rightarrow> executor_identity option option" where
  "standing_replacement retained e =
     (case el_replacement e of
        None \<Rightarrow> Some None
      | Some x \<Rightarrow> map_option (\<lambda>v. if v then Some (er_identity x) else None) (validReplacement retained x))"

definition grant_replacement ::
  "string \<Rightarrow> session_view \<Rightarrow> autopilot_session \<Rightarrow> retained_plan \<Rightarrow> string \<Rightarrow> executor_lifecycle \<Rightarrow> string
     \<Rightarrow> (replacement_answer \<times> autopilot_session option \<times> audit_event list) option" where
  "grant_replacement now view st r fingerprint e task =
     (case standing_replacement (Some r) e of
        None \<Rightarrow> None
      | Some (Some identity) \<Rightarrow> Some (ReplacementGranted identity, Some st, [])
      | Some None \<Rightarrow>
          if map_option as_confidence (sv_activity view) \<noteq> Some FreshActivity
             \<or> executorTurnActive e (sv_activity view)
          then Some (ReplacementRefused ExecutorStillActive, Some st, [])
          else do {
            previous \<leftarrow> (case el_assignment e of
                Some a \<Rightarrow> Some a | None \<Rightarrow> executorAssignment e Resumable);
            identity \<leftarrow> executorIdentity task (int (ea_generation previous) + 1);
            Some (ReplacementGranted identity,
              Some (save_executor now st
                (authorized_executor now (rp_identity r) fingerprint e previous identity)),
              [authorized_event (au_session st) now task previous identity]) })"

definition authorizeExecutorReplacement ::
  "string \<Rightarrow> session_view \<Rightarrow> autopilot_session option \<Rightarrow> string
     \<Rightarrow> (replacement_answer \<times> autopilot_session option \<times> audit_event list) option" where
  "authorizeExecutorReplacement now view state task =
     (case state of
        None \<Rightarrow> Some (ReplacementRefused AttentionNeeded, state, [])
      | Some st \<Rightarrow>
          if au_state st \<noteq> PilotAttention
             \<or> map_option sb_reason (au_blocking st) \<noteq> Some PermissionRequired
          then Some (ReplacementRefused AttentionNeeded, state, [])
          else (case sv_retained view of
             None \<Rightarrow> Some (ReplacementRefused PlanMismatch, state, [])
           | Some r \<Rightarrow>
               if au_plan st \<noteq> Some (rp_identity r) then Some (ReplacementRefused PlanMismatch, state, [])
               else do {
                 fingerprint \<leftarrow> plan_fingerprint (rp_plan r);
                 if au_fingerprint st \<noteq> Some fingerprint then Some (ReplacementRefused PlanMismatch, state, [])
                 else (case au_executor st of
                    None \<Rightarrow> Some (ReplacementRefused ExecutorNotAssigned, state, [])
                  | Some e \<Rightarrow>
                      if el_canonical e \<noteq> task \<or> el_l1 e \<noteq> WIP
                      then Some (ReplacementRefused ExecutorNotAssigned, state, [])
                      else grant_replacement now view st r fingerprint e task) }))"

text \<open>The executor an exhausted physical writer is replaced by (\<open>scheduleExecutorReplacement\<close>).\<close>

definition exhausted_executor ::
  "string \<Rightarrow> string \<Rightarrow> string \<Rightarrow> executor_lifecycle \<Rightarrow> executor_assignment \<Rightarrow> executor_identity
     \<Rightarrow> executor_lifecycle" where
  "exhausted_executor now plan fingerprint e previous identity =
     e\<lparr>el_outcome := FailedOutcome, el_assignment := map_option unavailable (el_assignment e),
       el_replacement := Some \<lparr> er_identity = identity, er_plan = plan, er_fingerprint = fingerprint,
         er_previous = Some previous, er_reason = Some ExplicitExecutorRejection,
         er_evidence = Some ''retry-limit-exhausted'' \<rparr>,
       el_commands := map (retire_command now) (el_commands e)\<rparr>"

definition replacement_scheduled_event :: "string \<Rightarrow> string \<Rightarrow> executor_identity \<Rightarrow> audit_event" where
  "replacement_scheduled_event session now identity =
     \<lparr> ae_session = session, ae_type = ''autopilot.executor-replacement-scheduled'',
       ae_payload = JObj [(''canonicalPosition'', JStr (ei_position identity)),
         (''taskName'', JStr (ei_name identity)), (''generation'', nat_json (ei_generation identity))],
       ae_at = now \<rparr>"

definition scheduleExecutorReplacement ::
  "string \<Rightarrow> string \<Rightarrow> session_view \<Rightarrow> autopilot_session option \<Rightarrow> executor_lifecycle
     \<Rightarrow> (autopilot_session \<times> pilot_control \<times> audit_event) option option" where
  "scheduleExecutorReplacement now control_id view state executor =
     (case (state, sv_retained view) of
        (Some st, Some r) \<Rightarrow>
          if \<not> au_enabled st \<or> Option.bind (au_executor st) el_replacement \<noteq> None then Some None
          else do {
            identity \<leftarrow> executorIdentity (el_canonical executor)
              (int (case el_assignment executor of None \<Rightarrow> el_generation executor | Some a \<Rightarrow> ea_generation a) + 1);
            fingerprint \<leftarrow> plan_fingerprint (rp_plan r);
            previous \<leftarrow> (case el_assignment executor of
                Some a \<Rightarrow> Some (unavailable a) | None \<Rightarrow> executorAssignment executor UnavailableAssignment);
            Some (Some
              (persisted state (st\<lparr>au_state := PilotBackoff,
                 au_executor := Some (exhausted_executor now (rp_identity r) fingerprint executor previous identity),
                 au_next := Some now, au_control := Some control_id, au_updated := now\<rparr>),
               \<lparr> co_session = au_session st, co_id = control_id, co_status = ControlScheduled, co_created = now,
                 co_updated = now, co_failure = None, co_turn = None \<rparr>,
               replacement_scheduled_event (au_session st) now identity)) }
      | _ \<Rightarrow> Some None)"

subsection \<open>Ambiguous commands\<close>

definition ambiguous_command :: "string \<Rightarrow> string \<Rightarrow> executor_lifecycle \<Rightarrow> executor_command \<Rightarrow> bool" where
  "ambiguous_command plan fingerprint e c \<longleftrightarrow>
     ec_status c = IssuedCommand \<and> ec_action c = None \<and> ec_plan c = plan \<and> ec_fingerprint c = fingerprint
     \<and> \<not> ownership_mismatch (Some e) c"

definition executorDiagnosisRequired :: "session_view \<Rightarrow> autopilot_session \<Rightarrow> bool option" where
  "executorDiagnosisRequired view st =
     (if map_option ps_outcome (au_supervision st) = Some ProbeRequired then Some True
      else (case (sv_retained view, au_executor st) of
         (Some r, Some e) \<Rightarrow>
           if authoritativeExecutorActive st (Some (rp_plan r)) (sv_activity view) then Some False
           else map_option (\<lambda>f. list_ex (ambiguous_command (rp_identity r) f e) (el_commands e))
                  (plan_fingerprint (rp_plan r))
       | _ \<Rightarrow> Some False))"

end
