(* ===== verification/Journal_Facts.thy ===== *)
theory Journal_Facts
  imports Executor_Journal Executor_Facts
begin

text \<open>
  What the executor journal guarantees: an adopted writer outranks the roster, settled processes and
  commands stay settled, an external process action is only taken under a durably issued command and
  never repeated, and a replacement is granted once.
\<close>

subsection \<open>The assigned writer\<close>

lemma find_set: "List.find P xs = Some x \<Longrightarrow> x \<in> set xs \<and> P x"
  by (auto simp: find_Some_iff)

lemma present_executor_fields:
  assumes "present_executor dp now position step n stored c path task assigned = Some e"
  shows "el_position e = position" "el_canonical e = task" "el_path e = path" "el_thread e = child_thread c"
    "el_generation e = (case assigned of None \<Rightarrow> child_generation c | Some a \<Rightarrow> ea_generation a)"
    "el_commands e = coalesce (map_option el_commands stored) []"
    "\<forall>a. assigned = Some a \<longrightarrow> el_assignment e = Some a"
  using assms
  by (auto simp: present_executor_def bind_eq_Some_conv Let_def split: option.splits)

lemma chosen_in:
  assumes "chosen_child dp collate position stored candidates = Some c" shows "c \<in> set candidates"
proof (cases "replacement_child stored candidates")
  case (Some d)
  with assms have "replacement_child stored candidates = Some c" by (simp add: chosen_child_def)
  then show ?thesis
    by (cases "Option.bind stored el_replacement") (auto simp: replacement_child_def dest: find_set)
next
  case None
  show ?thesis
  proof (cases "assignment_at position stored")
    case (Some a)
    with None assms show ?thesis by (auto simp: chosen_child_def dest: find_set)
  next
    case no: None
    with None assms obtain rest where "sort_by (newest_first dp collate) candidates = c # rest"
      by (auto simp: chosen_child_def split: list.splits)
    then show ?thesis by (metis list.set_intros(1) set_sort_by)
  qed
qed

lemma current_executor_cases:
  assumes "currentExecutor dp collate now plan n stored activity = Some (Some e)"
    and "currentExecutableL1Index plan = Some i"
  obtains (absent) "absent_executor (position_of i) (plan_steps plan ! i) stored = Some e"
  | (present) c path task where "c \<in> set (roster activity)" and "sa_path c = Some path" and "sa_task c = Some task"
      and "chosen_child dp collate (position_of i) stored
             (filter (\<lambda>c. sa_position c = Some (position_of i)) (roster activity)) = Some c"
      and "present_executor dp now (position_of i) (plan_steps plan ! i) n stored c path task
             (if replacement_child stored (filter (\<lambda>c. sa_position c = Some (position_of i)) (roster activity)) \<noteq> None
              then None else assignment_at (position_of i) stored) = Some e"
proof -
  let ?cands = "filter (\<lambda>c. sa_position c = Some (position_of i)) (roster activity)"
  show ?thesis
  proof (cases "chosen_child dp collate (position_of i) stored ?cands")
    case None
    with assms absent show ?thesis by (simp add: currentExecutor_def Let_def)
  next
    case (Some c)
    from Some have "c \<in> set ?cands" by (rule chosen_in)
    moreover from assms Some obtain path task where "sa_path c = Some path" "sa_task c = Some task"
      "present_executor dp now (position_of i) (plan_steps plan ! i) n stored c path task
         (if replacement_child stored ?cands \<noteq> None then None else assignment_at (position_of i) stored) = Some e"
      by (auto simp: currentExecutor_def Let_def split: option.splits if_splits)
    ultimately show ?thesis using Some present by auto
  qed
qed

text \<open>
  C24: an adopted assignment outranks the roster. Where the stored executor is assigned to the current
  milestone, no roster entry takes its place: the executor found is the assigned writer with its
  path, thread, name and generation, or the one exactly authorised by the durable replacement, or
  the stored executor itself when neither is in the roster.
\<close>
theorem adopted_assignment_outranks_roster:
  assumes "currentExecutor dp collate now plan n (Some stored) activity = Some (Some e)"
    and "currentExecutableL1Index plan = Some i"
    and "el_assignment stored = Some a" and "ea_position a = position_of i"
  shows "(el_canonical e = ea_canonical a \<and> el_path e = ea_path a \<and> el_thread e = ea_thread a
      \<and> el_generation e = ea_generation a \<and> el_assignment e = Some a)
    \<or> (\<exists>r. el_replacement stored = Some r \<and> el_canonical e = ei_canonical (er_identity r)
         \<and> el_generation e = ei_generation (er_identity r) \<and> path_leaf (el_path e) = Some (ei_name (er_identity r)))
    \<or> e = stored\<lparr>el_l1 := step_state (plan_steps plan ! i)\<rparr>"
  using assms(1,2)
proof (cases rule: current_executor_cases)
  case absent
  then show ?thesis by (auto simp: absent_executor_def split: if_splits)
next
  case (present c path task)
  let ?cands = "filter (\<lambda>c. sa_position c = Some (position_of i)) (roster activity)"
  have assigned: "assignment_at (position_of i) (Some stored) = Some a"
    using assms(3,4) by (simp add: assignment_at_def)
  show ?thesis
  proof (cases "replacement_child (Some stored) ?cands")
    case None
    with present(4) assigned have "is_assigned a c"
      by (auto simp: chosen_child_def dest!: find_set)
    with present(2,3) None present_executor_fields [OF present(5)] assigned show ?thesis
      by (simp add: is_assigned_def)
  next
    case (Some d)
    with present(4) have "d = c" by (simp add: chosen_child_def)
    with Some obtain r where r: "el_replacement stored = Some r" "is_replacement r c"
      by (auto simp: replacement_child_def split: option.splits dest!: find_set)
    with present(2,3) Some present_executor_fields [OF present(5)] show ?thesis
      by (auto simp: is_replacement_def)
  qed
qed

subsection \<open>Processes\<close>

lemma key_kept [simp]:
  "executorProcessKey (p\<lparr>xp_observed := a, xp_elapsed := b, xp_ownership := c, xp_state := d\<rparr>) = executorProcessKey p"
  by (simp add: executorProcessKey_def)

lemma refresh_process_cases:
  assumes "refresh_process dp now stored p = Some q"
  shows "executorProcessKey q = executorProcessKey p
    \<and> (case prior_process stored p of
         None \<Rightarrow> q = p
       | Some old \<Rightarrow> xp_state q = refreshed_state old p \<and> xp_observed q = xp_observed old
           \<and> (xp_ownership old = BySupervisor \<longrightarrow> xp_ownership q = BySupervisor) \<and> xp_elapsed p \<le> xp_elapsed q)"
  using assms by (auto simp: refresh_process_def split: option.splits)

lemma prior_process_find:
  assumes "keys_distinct executorProcessKey stored" and "old \<in> set stored"
    and "executorProcessKey old = executorProcessKey p"
  shows "prior_process stored p = Some old"
proof -
  have "keys_distinct executorProcessKey (rev stored)"
    using assms(1) by (simp add: keys_distinct_def rev_map [symmetric])
  with assms(2,3) show ?thesis by (simp add: prior_process_def find_key_iff)
qed

lemma read_all_back: "read_all f xs = Some ys \<Longrightarrow> y \<in> set ys \<Longrightarrow> \<exists>x \<in> set xs. f x = Some y"
  by (induction xs arbitrary: ys) (auto simp: bind_eq_Some_conv)

lemma read_all_keys:
  "read_all f xs = Some ys \<Longrightarrow> \<forall>x y. f x = Some y \<longrightarrow> key y = key x \<Longrightarrow> map key ys = map key xs"
  by (induction xs arbitrary: ys) (auto simp: bind_eq_Some_conv)

text \<open>
  Settled processes stay settled. Refreshing the processes of an executor keeps the order and
  identity of what was observed, and for a process known before: a consumed result stays consumed,
  a termination stays a termination, the supervisor's ownership is kept and such a process is never
  taken for one the executor runs, and the first observation keeps its time.
\<close>
theorem settled_processes_stay_settled:
  assumes "refreshPersistedProcesses dp stored observed now = Some ps" and "observed \<noteq> []"
    and "keys_distinct executorProcessKey stored"
  shows "map executorProcessKey ps = map executorProcessKey observed
    \<and> (\<forall>p \<in> set ps. \<forall>old \<in> set stored. executorProcessKey old = executorProcessKey p \<longrightarrow>
         (xp_state old \<in> {ResultConsumed, TerminatedForBudget} \<longrightarrow> xp_state p = xp_state old)
         \<and> (xp_ownership old = BySupervisor \<longrightarrow> xp_ownership p = BySupervisor \<and> xp_state p \<noteq> Running)
         \<and> xp_observed p = xp_observed old)"
proof -
  from assms have read: "read_all (refresh_process dp now stored) observed = Some ps"
    by (simp add: refreshPersistedProcesses_def)
  then have "map executorProcessKey ps = map executorProcessKey observed"
    by (rule read_all_keys) (use refresh_process_cases in blast)
  moreover have "(xp_state old \<in> {ResultConsumed, TerminatedForBudget} \<longrightarrow> xp_state p = xp_state old)
      \<and> (xp_ownership old = BySupervisor \<longrightarrow> xp_ownership p = BySupervisor \<and> xp_state p \<noteq> Running)
      \<and> xp_observed p = xp_observed old"
    if "p \<in> set ps" "old \<in> set stored" "executorProcessKey old = executorProcessKey p" for p old
  proof -
    from read_all_back [OF read that(1)] obtain x where x: "refresh_process dp now stored x = Some p" by blast
    note cases = refresh_process_cases [OF x]
    with prior_process_find [OF assms(3) that(2), of x] that(3)
    have "xp_state p = refreshed_state old x" "xp_observed p = xp_observed old"
      "xp_ownership old = BySupervisor \<longrightarrow> xp_ownership p = BySupervisor" by simp_all
    then show ?thesis by (auto simp: refreshed_state_def)
  qed
  ultimately show ?thesis by blast
qed

subsection \<open>The journal\<close>

datatype journal_event =
    ScheduleCommand executor_command string
  | MoveCommand string command_status string
  | SupersedeCommands string supervised_plan "executor_lifecycle option" string
  | FinishAction session_view executor_command process_action_kind controller_answer string
  | AuthorizeReplacement session_view string string
  | AdoptExecutor "string \<Rightarrow> int option" supervised_plan nat "activity_snapshot option" string

text \<open>An operation that throws leaves the stored state as it was.\<close>

fun journal_step ::
  "(autopilot_session \<Rightarrow> executor_command list \<Rightarrow> nat) \<Rightarrow> (string \<Rightarrow> string \<Rightarrow> int) \<Rightarrow> autopilot_session
     \<Rightarrow> journal_event \<Rightarrow> autopilot_session" where
  "journal_step bytes collate st (ScheduleCommand command now) = snd (scheduleExecutorCommand bytes now st command)"
| "journal_step bytes collate st (MoveCommand command_id status now) =
     snd (executorCommandTransition now st command_id status)"
| "journal_step bytes collate st (SupersedeCommands plan_identity plan current now) =
     (case supersedeExecutorCommands now st plan_identity plan current of
        None \<Rightarrow> st | Some (_, st', _) \<Rightarrow> st')"
| "journal_step bytes collate st (FinishAction view issued kind answer now) =
     (case finish_process_action now view st issued kind answer of None \<Rightarrow> st | Some (_, st') \<Rightarrow> st')"
| "journal_step bytes collate st (AuthorizeReplacement view task now) =
     (case authorizeExecutorReplacement now view (Some st) task of
        Some (_, Some st', _) \<Rightarrow> st' | _ \<Rightarrow> st)"
| "journal_step bytes collate st (AdoptExecutor dp plan n activity now) =
     (case currentExecutor dp collate now plan n (au_executor st) activity of
        Some (Some e) \<Rightarrow> snd (persistExecutor now st e) | _ \<Rightarrow> st)"

abbreviation journal_run where
  "journal_run bytes collate \<equiv> run_steps (journal_step bytes collate)"

text \<open>How the entry of a command may move on.\<close>

definition command_follows :: "executor_command \<Rightarrow> executor_command \<Rightarrow> bool" where
  "command_follows c d \<longleftrightarrow>
     ec_id d = ec_id c \<and> ec_action d = ec_action c \<and> ec_fingerprint d = ec_fingerprint c \<and> ec_plan d = ec_plan c
     \<and> (d = c \<or> canTransitionExecutorCommand (ec_status c) (ec_status d) (ec_action c \<noteq> None)
        \<or> (\<not> closed_status (ec_status c) \<and> ec_status d = AcceptedCommand))"

lemma command_follows_refl [simp]: "command_follows c c"
  by (simp add: command_follows_def)

text \<open>Every entry after an operation is a new one, scheduled, or follows the one of its id.\<close>

definition journal_follows :: "executor_command list \<Rightarrow> executor_command list \<Rightarrow> bool" where
  "journal_follows cs ds \<longleftrightarrow>
     distinct (map ec_id ds)
     \<and> (\<forall>d \<in> set ds. (\<exists>c \<in> set cs. command_follows c d) \<or> ec_id d \<notin> ec_id ` set cs)"

lemma save_executor_fields [simp]:
  "au_executor (save_executor now st e) = Some e" "au_session (save_executor now st e) = au_session st"
  "au_state (save_executor now st e) = au_state st" "au_blocking (save_executor now st e) = au_blocking st"
  "au_plan (save_executor now st e) = au_plan st" "au_fingerprint (save_executor now st e) = au_fingerprint st"
  "au_enabled (save_executor now st e) = au_enabled st"
  by (simp_all add: save_executor_def persisted_def split: option.splits)

lemma journal_of [simp]: "journal (save_executor now st e) = el_commands e"
  by (simp add: journal_def)

lemma follows_map:
  assumes "distinct (map ec_id cs)" and "\<And>c. c \<in> set cs \<Longrightarrow> command_follows c (f c)"
  shows "journal_follows cs (map f cs)"
proof -
  have "map ec_id (map f cs) = map ec_id cs"
    using assms(2) by (auto simp: command_follows_def)
  with assms(1) have "distinct (map ec_id (map f cs))" by (simp only:)
  moreover have "\<forall>d \<in> set (map f cs). \<exists>c \<in> set cs. command_follows c d" using assms(2) by auto
  ultimately show ?thesis unfolding journal_follows_def by blast
qed

lemma follows_same: "distinct (map ec_id cs) \<Longrightarrow> journal_follows cs cs"
  by (auto simp: journal_follows_def intro: command_follows_refl)

lemma retained_follows:
  assumes "distinct (map ec_id cs)" and "retainExecutorCommands b cs new = Some ds" and "ec_id new \<notin> ec_id ` set cs"
  shows "journal_follows cs ds"
proof -
  from assms(1,3) have "distinct (map ec_id (cs @ [new]))" by auto
  with retain_loop_keeps [OF assms(2) [unfolded retainExecutorCommands_def]]
  have "set ds \<subseteq> set (cs @ [new])" "distinct (map ec_id ds)" by simp_all
  with assms(3) show ?thesis by (auto simp: journal_follows_def intro: command_follows_refl)
qed

lemma schedule_follows:
  assumes "distinct (map ec_id (journal st))"
  shows "journal_follows (journal st) (journal (snd (scheduleExecutorCommand bytes now st command)))"
proof (cases "au_executor st")
  case None
  with assms show ?thesis by (simp add: scheduleExecutorCommand_def follows_same)
next
  case (Some e)
  then have "journal st = el_commands e" by (simp add: journal_def)
  with Some assms retained_follows [of "el_commands e" "bytes st" command] show ?thesis
    by (auto simp: scheduleExecutorCommand_def find_key_None follows_same split: option.splits)
qed

lemma transition_follows:
  assumes "distinct (map ec_id (journal st))"
  shows "journal_follows (journal st) (journal (snd (executorCommandTransition now st k status)))"
proof (cases "executorCommandTransition now st k status")
  case (Pair r st')
  show ?thesis
  proof (cases r)
    case None
    with Pair have "st' = st"
      by (auto simp: executorCommandTransition_def Let_def split: option.splits if_splits)
    with Pair assms show ?thesis by (simp add: follows_same)
  next
    case (Some new)
    with Pair obtain e c where e: "au_executor st = Some e" "List.find (\<lambda>c. ec_id c = k) (el_commands e) = Some c"
      "canTransitionExecutorCommand (ec_status c) status (ec_action c \<noteq> None)"
      "new = c\<lparr>ec_status := status, ec_updated := now\<rparr>"
      "st' = save_executor now st (e\<lparr>el_commands := update_where (\<lambda>d. ec_id d = k) (\<lambda>_. new) (el_commands e)\<rparr>)"
      by (auto simp: executorCommandTransition_def Let_def split: option.splits if_splits)
    have j: "journal st = el_commands e" using e(1) by (simp add: journal_def)
    have "command_follows d (if ec_id d = k then new else d)" if "d \<in> set (el_commands e)" for d
    proof (cases "ec_id d = k")
      case True
      from e(2) have "c \<in> set (el_commands e)" "ec_id c = k" by (auto dest: find_set)
      with True that assms j have "d = c" by (auto simp: distinct_map dest: inj_onD)
      with True e(3,4) show ?thesis by (simp add: command_follows_def)
    qed simp
    from follows_map [of "el_commands e" "\<lambda>d. if ec_id d = k then new else d", OF _ this] assms j
    have "journal_follows (el_commands e) (map (\<lambda>d. if ec_id d = k then new else d) (el_commands e))" by simp
    with Pair e(5) j show ?thesis by (simp add: update_where_def)
  qed
qed

lemma supersede_follows:
  assumes "distinct (map ec_id (journal st))"
    and "supersedeExecutorCommands now st plan_identity plan current = Some (b, st', evs)"
  shows "journal_follows (journal st) (journal st')"
proof (cases "st' = st")
  case True
  with assms(1) show ?thesis by (simp add: follows_same)
next
  case False
  with assms(2) obtain e fingerprint where e: "au_executor st = Some e"
    "st' = save_executor now st (e\<lparr>el_commands := map (supersede_command now plan_identity fingerprint current) (el_commands e)\<rparr>)"
    by (auto simp: supersedeExecutorCommands_def Let_def split: option.splits if_splits)
  then have j: "journal st = el_commands e" by (simp add: journal_def)
  have "command_follows c (supersede_command now plan_identity fingerprint current c)" for c
    by (auto simp: command_follows_def supersede_command_def unresolved_def canTransitionExecutorCommand_def)
  with follows_map [of "el_commands e"] assms(1) j e(2) show ?thesis by simp
qed

lemma retire_follows: "command_follows c (retire_command now c)"
  by (auto simp: command_follows_def retire_command_def unresolved_def canTransitionExecutorCommand_def)

lemma current_entry:
  assumes "executorCommandCurrent view st command g = Some True"
  obtains e entry where "au_executor st = Some e" and "entry \<in> set (el_commands e)" and "ec_id entry = ec_id command"
    and "\<not> closed_status (ec_status entry)"
  using assms
  by (auto simp: executorCommandCurrent_def list_ex_iff open_entry_def unresolved_def closed_status_def
      split: option.splits if_splits)

lemma process_current_cases:
  assumes "processActionCurrent view st command = Some (Some p)"
  obtains e kind where "executorCommandCurrent view st command (ec_generation command) = Some True"
    and "au_executor st = Some e" and "p \<in> set (el_processes e)" and "ec_action command = Some (kind, executorProcessKey p)"
proof -
  from assms obtain current where c: "executorCommandCurrent view st command (ec_generation command) = Some current"
    "(case (au_executor st, ec_action command) of
        (Some e, Some (kind, key)) \<Rightarrow>
          if current then List.find (\<lambda>p. executorProcessKey p = key) (el_processes e) else None
      | _ \<Rightarrow> None) = Some p"
    by (auto simp: processActionCurrent_def)
  then obtain e kind key where e: "au_executor st = Some e" "ec_action command = Some (kind, key)" "current"
    "List.find (\<lambda>p. executorProcessKey p = key) (el_processes e) = Some p"
    by (auto split: option.splits if_splits)
  with c that find_set [OF e(4)] show ?thesis by auto
qed

lemma finish_cases:
  assumes "finish_process_action now view st issued kind answer = Some (b, st')"
  obtains (moved) status where "st' = snd (executorCommandTransition now st (ec_id issued) status)"
  | (contained) "st' = containOperationFailure now [] False st" and "answer = EffectThrew"
  | (accepted) e p where "answer = EffectDone" and "b" and "au_executor st = Some e"
      and "processActionCurrent view st issued = Some (Some p)"
      and "st' = save_executor now st
        (e\<lparr>el_commands := update_where (\<lambda>c. ec_id c = ec_id issued)
             (\<lambda>c. c\<lparr>ec_status := AcceptedCommand, ec_updated := now\<rparr>) (el_commands e),
           el_processes := update_where (\<lambda>p. Some (executorProcessKey p) = map_option snd (ec_action issued))
             (acted_process kind) (el_processes e)\<rparr>)"
proof (cases answer)
  case EffectDone
  with assms obtain latest where l: "processActionCurrent view st issued = Some latest"
    "(case (latest, au_executor st) of
       (Some _, Some e) \<Rightarrow>
         (True, save_executor now st
           (e\<lparr>el_commands := update_where (\<lambda>c. ec_id c = ec_id issued)
                (\<lambda>c. c\<lparr>ec_status := AcceptedCommand, ec_updated := now\<rparr>) (el_commands e),
              el_processes := update_where (\<lambda>p. Some (executorProcessKey p) = map_option snd (ec_action issued))
                (acted_process kind) (el_processes e)\<rparr>))
     | _ \<Rightarrow> (False, snd (executorCommandTransition now st (ec_id issued) SupersededCommand))) = (b, st')"
    by (auto simp: finish_process_action_def)
  show ?thesis
  proof (cases latest)
    case None
    with l(2) moved show ?thesis by auto
  next
    case (Some p)
    with l(1) obtain e where "au_executor st = Some e" by (auto elim: process_current_cases)
    with l Some EffectDone show ?thesis by (intro accepted) auto
  qed
qed (use assms moved contained in \<open>auto simp: finish_process_action_def\<close>)

lemma contained_journal [simp]: "journal (containOperationFailure now key resume st) = journal st"
  by (simp add: containOperationFailure_def journal_def Let_def)

lemma finish_follows:
  assumes "distinct (map ec_id (journal st))" and "finish_process_action now view st issued kind answer = Some (b, st')"
  shows "journal_follows (journal st) (journal st')"
  using assms(2)
proof (cases rule: finish_cases)
  case (moved status)
  with transition_follows [OF assms(1)] show ?thesis by simp
next
  case contained
  with assms(1) show ?thesis by (simp add: follows_same)
next
  case (accepted e p)
  then have j: "journal st = el_commands e" by (simp add: journal_def)
  from accepted(4) have "executorCommandCurrent view st issued (ec_generation issued) = Some True"
    by (rule process_current_cases)
  then obtain entry where entry: "entry \<in> set (el_commands e)" "ec_id entry = ec_id issued"
    "\<not> closed_status (ec_status entry)"
    using accepted(3) by (auto elim: current_entry)
  let ?f = "\<lambda>c. if ec_id c = ec_id issued then c\<lparr>ec_status := AcceptedCommand, ec_updated := now\<rparr> else c"
  have "command_follows c (?f c)" if "c \<in> set (el_commands e)" for c
  proof (cases "ec_id c = ec_id issued")
    case True
    have "inj_on ec_id (set (el_commands e))" using assms(1) j by (simp add: distinct_map)
    from inj_onD [OF this, of c entry] True that entry have "c = entry" by simp
    with entry show ?thesis by (simp add: command_follows_def)
  qed simp
  from follows_map [of "el_commands e" ?f, OF _ this] assms(1) j have "journal_follows (el_commands e) (map ?f (el_commands e))"
    by simp
  with accepted(5) j show ?thesis by (simp add: update_where_def)
qed

lemma authorize_cases:
  assumes "authorizeExecutorReplacement now view (Some st) task = Some (answer, state, evs)"
  obtains (unchanged) "state = Some st" and "evs = []"
  | (granted) r e fingerprint previous identity where
      "sv_retained view = Some r" and "au_executor st = Some e" and "plan_fingerprint (rp_plan r) = Some fingerprint"
      and "au_state st = PilotAttention" and "map_option sb_reason (au_blocking st) = Some PermissionRequired"
      and "au_plan st = Some (rp_identity r)" and "au_fingerprint st = Some fingerprint"
      and "el_canonical e = task" and "el_l1 e = WIP"
      and "(case el_assignment e of Some a \<Rightarrow> Some a | None \<Rightarrow> executorAssignment e Resumable) = Some previous"
      and "executorIdentity task (int (ea_generation previous) + 1) = Some identity"
      and "answer = ReplacementGranted identity"
      and "state = Some (save_executor now st (authorized_executor now (rp_identity r) fingerprint e previous identity))"
proof -
  note u = assms [unfolded authorizeExecutorReplacement_def]
  show ?thesis
  proof (cases "state = Some st \<and> evs = []")
    case True
    then show ?thesis using unchanged by blast
  next
    case False
    with u obtain r where r: "sv_retained view = Some r" "au_state st = PilotAttention"
      "map_option sb_reason (au_blocking st) = Some PermissionRequired" "au_plan st = Some (rp_identity r)"
      by (auto split: option.splits if_splits)
    with u False obtain fingerprint where f: "plan_fingerprint (rp_plan r) = Some fingerprint"
      "au_fingerprint st = Some fingerprint" by (auto simp: bind_eq_Some_conv split: if_splits)
    with u r False obtain e where e: "au_executor st = Some e" "el_canonical e = task" "el_l1 e = WIP"
      by (auto split: option.splits if_splits)
    have "grant_replacement now view st r fingerprint e task = Some (answer, state, evs)"
      using u r f e by simp
    with False obtain previous identity where
      "(case el_assignment e of Some a \<Rightarrow> Some a | None \<Rightarrow> executorAssignment e Resumable) = Some previous"
      "executorIdentity task (int (ea_generation previous) + 1) = Some identity"
      "answer = ReplacementGranted identity"
      "state = Some (save_executor now st (authorized_executor now (rp_identity r) fingerprint e previous identity))"
      by (auto simp: grant_replacement_def bind_eq_Some_conv split: if_splits option.split_asm)
    with r f e show ?thesis by (intro granted)
  qed
qed

lemma authorize_follows:
  assumes "distinct (map ec_id (journal st))"
    and "authorizeExecutorReplacement now view (Some st) task = Some (answer, Some st', evs)"
  shows "journal_follows (journal st) (journal st')"
  using assms(2)
proof (cases rule: authorize_cases)
  case unchanged
  with assms(1) show ?thesis by (simp add: follows_same)
next
  case (granted r e fingerprint previous identity)
  then have "journal st = el_commands e" "journal st' = map (retire_command now) (el_commands e)"
    by (simp_all add: journal_def [of st] authorized_executor_def)
  with follows_map [of "el_commands e" "retire_command now"] retire_follows assms(1) show ?thesis by simp
qed

lemma current_executor_commands:
  assumes "currentExecutor dp collate now plan n stored activity = Some (Some e)"
  shows "el_commands e = coalesce (map_option el_commands stored) []"
proof -
  from assms obtain i where "currentExecutableL1Index plan = Some i"
    by (auto simp: currentExecutor_def split: option.splits)
  with assms show ?thesis
  proof (cases rule: current_executor_cases)
    case absent
    then show ?thesis by (auto simp: absent_executor_def split: option.splits if_splits)
  next
    case (present c path task)
    from present_executor_fields(6) [OF present(5)] show ?thesis .
  qed
qed

lemma journal_step_follows:
  assumes "distinct (map ec_id (journal st))"
  shows "journal_follows (journal st) (journal (journal_step bytes collate st ev))"
proof (cases ev)
  case (ScheduleCommand command now)
  with schedule_follows [OF assms] show ?thesis by simp
next
  case (MoveCommand k status now)
  with transition_follows [OF assms] show ?thesis by simp
next
  case (SupersedeCommands i plan current now)
  with supersede_follows [OF assms] assms show ?thesis by (auto simp: follows_same split: option.splits)
next
  case (FinishAction view issued kind answer now)
  with finish_follows [OF assms] assms show ?thesis by (auto simp: follows_same split: option.splits)
next
  case (AuthorizeReplacement view task now)
  show ?thesis
  proof (cases "\<exists>answer st' evs. authorizeExecutorReplacement now view (Some st) task = Some (answer, Some st', evs)")
    case True
    then obtain answer st' evs where
      a: "authorizeExecutorReplacement now view (Some st) task = Some (answer, Some st', evs)" by blast
    with authorize_follows [OF assms a] AuthorizeReplacement show ?thesis by simp
  next
    case False
    then have "journal_step bytes collate st ev = st"
      using AuthorizeReplacement by (auto split: option.splits)
    with assms show ?thesis by (simp add: follows_same)
  qed
next
  case (AdoptExecutor dp plan n activity now)
  show ?thesis
  proof (cases "\<exists>e. currentExecutor dp collate now plan n (au_executor st) activity = Some (Some e)")
    case True
    then obtain e where e: "currentExecutor dp collate now plan n (au_executor st) activity = Some (Some e)" by blast
    have "journal (snd (persistExecutor now st e)) = journal st"
      using current_executor_commands [OF e] by (cases "au_executor st = Some e") (simp_all add: persistExecutor_def journal_def)
    with AdoptExecutor e have "journal (journal_step bytes collate st ev) = journal st" by simp
    with follows_same [OF assms] show ?thesis by simp
  next
    case False
    then have "journal_step bytes collate st ev = st"
      using AdoptExecutor by (auto split: option.splits)
    with assms show ?thesis by (simp add: follows_same)
  qed
qed

lemma closed_follows: "command_follows c d \<Longrightarrow> closed_status (ec_status c) \<Longrightarrow> d = c"
  by (auto simp: command_follows_def canTransitionExecutorCommand_def closed_status_def split: if_splits)

lemma journal_step_closed:
  assumes "distinct (map ec_id (journal st))" and "c \<in> set (journal st)" and "closed_status (ec_status c)"
    and "ec_id c \<in> ec_id ` set (journal (journal_step bytes collate st ev))"
  shows "c \<in> set (journal (journal_step bytes collate st ev))"
proof -
  from assms(4) obtain d where d: "d \<in> set (journal (journal_step bytes collate st ev))" "ec_id d = ec_id c" by auto
  with journal_step_follows [OF assms(1), of bytes collate ev] assms(2)
  obtain b where b: "b \<in> set (journal st)" "command_follows b d"
    unfolding journal_follows_def by (metis imageI)
  from b(2) d(2) have "ec_id b = ec_id c" by (simp add: command_follows_def)
  moreover have "inj_on ec_id (set (journal st))" using assms(1) by (simp add: distinct_map)
  ultimately have "b = c" using b(1) assms(2) by (auto dest: inj_onD)
  with closed_follows b(2) assms(3) d(1) show ?thesis by blast
qed

text \<open>Only the retention of a newly scheduled command drops entries.\<close>

lemma transition_ids: "map ec_id (journal (snd (executorCommandTransition now st k status))) = map ec_id (journal st)"
proof (cases "fst (executorCommandTransition now st k status)")
  case None
  then show ?thesis by (auto simp: executorCommandTransition_def Let_def split: option.splits if_splits)
next
  case (Some new)
  then obtain e where e: "au_executor st = Some e" "ec_id new = k"
    "snd (executorCommandTransition now st k status)
       = save_executor now st (e\<lparr>el_commands := update_where (\<lambda>d. ec_id d = k) (\<lambda>_. new) (el_commands e)\<rparr>)"
    by (auto simp: executorCommandTransition_def Let_def split: option.splits if_splits dest: find_set)
  then have "map ec_id (update_where (\<lambda>d. ec_id d = k) (\<lambda>_. new) (el_commands e)) = map ec_id (el_commands e)"
    by (simp add: update_where_def)
  with e show ?thesis by (simp add: journal_def [of st])
qed

lemma supersede_ids:
  assumes "supersedeExecutorCommands now st plan_identity plan current = Some (b, st', evs)"
  shows "map ec_id (journal st') = map ec_id (journal st)"
proof (cases "st' = st")
  case False
  with assms obtain e fingerprint where e: "au_executor st = Some e"
    "st' = save_executor now st (e\<lparr>el_commands := map (supersede_command now plan_identity fingerprint current) (el_commands e)\<rparr>)"
    by (auto simp: supersedeExecutorCommands_def Let_def split: option.splits if_splits)
  then show ?thesis by (simp add: journal_def [of st] supersede_command_def comp_def if_distrib cong: if_cong)
qed simp

lemma finish_ids:
  assumes "finish_process_action now view st issued kind answer = Some (b, st')"
  shows "map ec_id (journal st') = map ec_id (journal st)"
  using assms
proof (cases rule: finish_cases)
  case (accepted e p)
  then show ?thesis by (simp add: journal_def [of st] map_update_where)
qed (simp_all add: transition_ids)

lemma authorize_ids:
  assumes "authorizeExecutorReplacement now view (Some st) task = Some (answer, Some st', evs)"
  shows "map ec_id (journal st') = map ec_id (journal st)"
  using assms
proof (cases rule: authorize_cases)
  case (granted r e fingerprint previous identity)
  then show ?thesis by (simp add: journal_def [of st] authorized_executor_def retire_command_def comp_def)
qed simp

lemma adopt_ids:
  assumes "currentExecutor dp collate now plan n (au_executor st) activity = Some (Some e)"
  shows "map ec_id (journal (snd (persistExecutor now st e))) = map ec_id (journal st)"
  using current_executor_commands [OF assms]
  by (cases "au_executor st = Some e") (simp_all add: persistExecutor_def journal_def)

lemma schedule_ids:
  assumes "record_fits (bytes st) (journal st @ [command])"
  shows "ec_id ` set (journal st) \<subseteq> ec_id ` set (journal (snd (scheduleExecutorCommand bytes now st command)))"
proof (cases "au_executor st")
  case (Some e)
  with assms have "retainExecutorCommands (bytes st) (el_commands e) command = Some (el_commands e @ [command])"
    by (simp add: retainExecutorCommands_def retain_loop.simps [of _ "el_commands e @ [command]"] journal_def)
  with Some show ?thesis by (auto simp: scheduleExecutorCommand_def journal_def [of st] split: option.splits)
qed (simp add: scheduleExecutorCommand_def)

lemma only_retention_drops:
  assumes "k \<in> ec_id ` set (journal st)" and "k \<notin> ec_id ` set (journal (journal_step bytes collate st ev))"
  obtains command now where "ev = ScheduleCommand command now" and "\<not> record_fits (bytes st) (journal st @ [command])"
proof -
  have same: False if "map ec_id (journal (journal_step bytes collate st ev)) = map ec_id (journal st)"
    using assms arg_cong [OF that, of set] by simp
  show ?thesis
  proof (cases ev)
    case (ScheduleCommand command now)
    with schedule_ids [of bytes st command now] assms that show ?thesis by auto
  next
    case (MoveCommand c status now)
    with same transition_ids show ?thesis by simp
  next
    case (SupersedeCommands i plan current now)
    with same show ?thesis
      by (cases "supersedeExecutorCommands now st i plan current") (auto simp: supersede_ids)
  next
    case (FinishAction view issued kind answer now)
    with same show ?thesis by (cases "finish_process_action now view st issued kind answer") (auto simp: finish_ids)
  next
    case (AuthorizeReplacement view task now)
    show ?thesis
    proof (cases "\<exists>answer st' evs. authorizeExecutorReplacement now view (Some st) task = Some (answer, Some st', evs)")
      case True
      then obtain answer st' evs where
        a: "authorizeExecutorReplacement now view (Some st) task = Some (answer, Some st', evs)" by blast
      with same authorize_ids [OF a] AuthorizeReplacement show ?thesis by simp
    next
      case False
      then have "journal_step bytes collate st ev = st"
        using AuthorizeReplacement by (auto split: option.splits)
      with same show ?thesis by simp
    qed
  next
    case (AdoptExecutor dp plan n activity now)
    show ?thesis
    proof (cases "\<exists>e. currentExecutor dp collate now plan n (au_executor st) activity = Some (Some e)")
      case True
      then obtain e where e: "currentExecutor dp collate now plan n (au_executor st) activity = Some (Some e)" by blast
      with same adopt_ids [OF e] AdoptExecutor show ?thesis by simp
    next
      case False
      then have "journal_step bytes collate st ev = st" using AdoptExecutor by (auto split: option.splits)
      with same show ?thesis by simp
    qed
  qed
qed

text \<open>A closed entry fences its id.\<close>

lemma closed_fences:
  assumes "distinct (map ec_id (journal st))" and "c \<in> set (journal st)" and "closed_status (ec_status c)"
    and "ec_id command = ec_id c"
  shows "executorCommandCurrent view st command g \<noteq> Some True"
proof
  assume "executorCommandCurrent view st command g = Some True"
  then obtain e entry where entry: "au_executor st = Some e"
    "entry \<in> set (el_commands e)" "ec_id entry = ec_id command" "\<not> closed_status (ec_status entry)"
    by (rule current_entry)
  then have "entry \<in> set (journal st)" by (simp add: journal_def)
  moreover have "inj_on ec_id (set (journal st))" using assms(1) by (simp add: distinct_map)
  ultimately have "entry = c" using assms(2,4) entry(3) by (auto dest: inj_onD)
  with entry(4) assms(3) show False by simp
qed

text \<open>
  C22: settled commands keep their evidence and never regain authority while the journal retains them.
  Through every sequence of schedulings, transitions, supersessions, finished actions, authorised
  replacements and adoptions an accepted, cancelled or superseded command stays in the journal exactly
  as it is, and no command of its id passes the ownership fence: up to the end, or up to the first
  step that drops it. Such a step schedules a new command that makes the journal exceed its 32 commands
  or its bytes; no other step ever drops an entry. Nothing is promised for the id after that.
\<close>
theorem settled_commands_never_move:
  assumes "distinct (map ec_id (journal st))" and "c \<in> set (journal st)" and "closed_status (ec_status c)"
  shows "\<exists>n \<le> length es.
    (\<forall>m \<le> n. c \<in> set (journal (journal_run bytes collate st (take m es)))
       \<and> (\<forall>view command g. ec_id command = ec_id c
            \<longrightarrow> executorCommandCurrent view (journal_run bytes collate st (take m es)) command g \<noteq> Some True))
    \<and> (n = length es
       \<or> (\<exists>command now. es ! n = ScheduleCommand command now
            \<and> \<not> record_fits (bytes (journal_run bytes collate st (take n es)))
                 (journal (journal_run bytes collate st (take n es)) @ [command])
            \<and> ec_id c \<notin> ec_id ` set (journal (journal_run bytes collate st (take (Suc n) es)))))"
  using assms(1,2)
proof (induction es arbitrary: st)
  case Nil
  with closed_fences [OF Nil assms(3)] show ?case by simp
next
  case (Cons ev es)
  let ?st = "journal_step bytes collate st ev"
  note here = closed_fences [OF Cons.prems assms(3)]
  show ?case
  proof (cases "ec_id c \<in> ec_id ` set (journal ?st)")
    case True
    have distinct: "distinct (map ec_id (journal ?st))"
      using journal_step_follows [OF Cons.prems(1)] by (simp add: journal_follows_def)
    from Cons.IH [OF this journal_step_closed [OF Cons.prems assms(3) True]] obtain n where
      n: "n \<le> length es"
      "\<forall>m \<le> n. c \<in> set (journal (journal_run bytes collate ?st (take m es)))
         \<and> (\<forall>view command g. ec_id command = ec_id c
              \<longrightarrow> executorCommandCurrent view (journal_run bytes collate ?st (take m es)) command g \<noteq> Some True)"
      "n = length es
       \<or> (\<exists>command now. es ! n = ScheduleCommand command now
            \<and> \<not> record_fits (bytes (journal_run bytes collate ?st (take n es)))
                 (journal (journal_run bytes collate ?st (take n es)) @ [command])
            \<and> ec_id c \<notin> ec_id ` set (journal (journal_run bytes collate ?st (take (Suc n) es))))"
      by blast
    show ?thesis
    proof (rule exI [of _ "Suc n"], intro conjI)
      show "\<forall>m \<le> Suc n. c \<in> set (journal (journal_run bytes collate st (take m (ev # es))))
         \<and> (\<forall>view command g. ec_id command = ec_id c
              \<longrightarrow> executorCommandCurrent view (journal_run bytes collate st (take m (ev # es))) command g \<noteq> Some True)"
      proof (intro allI impI)
        fix m assume "m \<le> Suc n"
        then show "c \<in> set (journal (journal_run bytes collate st (take m (ev # es))))
           \<and> (\<forall>view command g. ec_id command = ec_id c
                \<longrightarrow> executorCommandCurrent view (journal_run bytes collate st (take m (ev # es))) command g \<noteq> Some True)"
          using n(2) here Cons.prems(2) by (cases m) simp_all
      qed
    qed (use n(1,3) in simp_all)
  next
    case False
    from Cons.prems(2) have "ec_id c \<in> ec_id ` set (journal st)" by simp
    from only_retention_drops [OF this False] obtain command now where
      "ev = ScheduleCommand command now" "\<not> record_fits (bytes st) (journal st @ [command])" .
    with False here Cons.prems(2) show ?thesis by (intro exI [of _ 0]) auto
  qed
qed

subsection \<open>Process actions\<close>

lemma schedule_cases:
  assumes "scheduleExecutorCommand bytes now st command = (Some c, st1)"
  shows "ec_id c = ec_id command \<and> (c = command \<or> (st1 = st \<and> c \<in> set (journal st)))"
  using assms
  by (auto simp: scheduleExecutorCommand_def journal_def split: option.splits dest: find_set)

lemma transition_issued:
  assumes "executorCommandTransition now st k status = (Some new, st1)"
  shows "ec_id new = k \<and> ec_status new = status \<and> new \<in> set (journal st1)
    \<and> (\<exists>c \<in> set (journal st). ec_id c = k \<and> ec_action new = ec_action c)"
proof -
  from assms obtain e c where e: "au_executor st = Some e" "List.find (\<lambda>c. ec_id c = k) (el_commands e) = Some c"
    "new = c\<lparr>ec_status := status, ec_updated := now\<rparr>"
    "st1 = save_executor now st (e\<lparr>el_commands := update_where (\<lambda>d. ec_id d = k) (\<lambda>_. new) (el_commands e)\<rparr>)"
    by (auto simp: executorCommandTransition_def Let_def split: option.splits if_splits)
  from find_set [OF e(2)] have c: "c \<in> set (el_commands e)" "ec_id c = k" by simp_all
  then have "new \<in> set (journal st1)" using e by (force simp: update_where_def)
  with e c show ?thesis by (auto simp: journal_def)
qed

lemma call_cases:
  assumes "begin_process_action digest bytes now view st executor process kind = Some (ActionCall command p, st1)"
  obtains requested where "processActionCommand digest now (sv_retained view) executor process kind = Some requested"
    and "ec_id command = ec_id requested"
    and "\<exists>c \<in> set (journal st1). ec_id c = ec_id command \<and> ec_status c = IssuedCommand"
proof -
  from assms obtain requested where req: "processActionCommand digest now (sv_retained view) executor process kind = Some requested"
    by (auto simp: begin_process_action_def bind_eq_Some_conv)
  obtain r st0 where sched: "scheduleExecutorCommand bytes now st requested = (r, st0)" by force
  with assms req obtain c where r: "r = Some c" by (cases r) (auto simp: begin_process_action_def)
  note c = schedule_cases [OF sched [unfolded r]]
  have "ec_status c = IssuedCommand \<and> command = c \<and> st1 = st0
     \<or> (\<exists>issued. executorCommandTransition now st0 (ec_id c) IssuedCommand = (Some issued, st1) \<and> command = issued)"
  proof (cases "executorCommandTransition now st0 (ec_id c) IssuedCommand")
    case (Pair moved st2)
    with assms req sched r show ?thesis
      by (cases moved) (auto simp: begin_process_action_def bind_eq_Some_conv split: if_splits option.splits)
  qed
  then show ?thesis
  proof
    assume i: "ec_status c = IssuedCommand \<and> command = c \<and> st1 = st0"
    have "ec_status requested = ScheduledCommand"
      using req by (auto simp: processActionCommand_def)
    with c i have "c \<in> set (journal st)" "st0 = st" by auto
    with i c that [OF req] show ?thesis by blast
  next
    assume "\<exists>issued. executorCommandTransition now st0 (ec_id c) IssuedCommand = (Some issued, st1) \<and> command = issued"
    then have t: "executorCommandTransition now st0 (ec_id c) IssuedCommand = (Some command, st1)" by simp
    from transition_issued [OF t] c have "ec_id command = ec_id requested"
      "\<exists>c \<in> set (journal st1). ec_id c = ec_id command \<and> ec_status c = IssuedCommand" by auto
    then show ?thesis by (rule that [OF req])
  qed
qed

lemma action_id:
  assumes "processActionCommand digest now retained executor process kind = Some a"
    and "plan_names retained' = plan_names retained"
  shows "\<exists>b. processActionCommand digest now' retained' executor process kind = Some b \<and> ec_id b = ec_id a"
  using assms by (auto simp: processActionCommand_def)

lemma finish_done:
  assumes "finish_process_action now view st issued kind EffectDone = Some (True, st')"
  obtains e p where "au_executor st = Some e" and "processActionCurrent view st issued = Some (Some p)"
    and "st' = save_executor now st
      (e\<lparr>el_commands := update_where (\<lambda>c. ec_id c = ec_id issued)
           (\<lambda>c. c\<lparr>ec_status := AcceptedCommand, ec_updated := now\<rparr>) (el_commands e),
         el_processes := update_where (\<lambda>p. Some (executorProcessKey p) = map_option snd (ec_action issued))
           (acted_process kind) (el_processes e)\<rparr>)"
proof -
  from assms obtain latest where l: "processActionCurrent view st issued = Some latest"
    "(True, st') = (case (latest, au_executor st) of
       (Some _, Some e) \<Rightarrow>
         (True, save_executor now st
           (e\<lparr>el_commands := update_where (\<lambda>c. ec_id c = ec_id issued)
                (\<lambda>c. c\<lparr>ec_status := AcceptedCommand, ec_updated := now\<rparr>) (el_commands e),
              el_processes := update_where (\<lambda>p. Some (executorProcessKey p) = map_option snd (ec_action issued))
                (acted_process kind) (el_processes e)\<rparr>))
     | _ \<Rightarrow> (False, snd (executorCommandTransition now st (ec_id issued) SupersededCommand)))"
    by (auto simp: finish_process_action_def)
  from l(2) obtain p e where "latest = Some p" "au_executor st = Some e" by (auto split: option.splits)
  with l that show ?thesis by simp
qed

text \<open>
  C21: a process action crosses the boundary once. The controller is called only with a command the
  journal durably holds as issued; when its effect was done and the action is still current, the
  state then stored gets exactly the process of that key moved; and asking for the same action again
  under the same plan revision is settled without a call and without a write.
\<close>
theorem process_action_happens_once:
  assumes "begin_process_action digest bytes now view st executor process kind = Some (ActionCall command p, st1)"
    and "finish_process_action now' view' st' command kind EffectDone = Some (True, st2)"
    and "plan_names (sv_retained view'') = plan_names (sv_retained view)"
  shows "(\<exists>c \<in> set (journal st1). ec_id c = ec_id command \<and> ec_status c = IssuedCommand)
    \<and> (\<exists>e e2 key. au_executor st' = Some e \<and> au_executor st2 = Some e2 \<and> map_option snd (ec_action command) = Some key
         \<and> el_processes e2 = update_where (\<lambda>q. executorProcessKey q = key) (acted_process kind) (el_processes e))
    \<and> begin_process_action digest bytes now'' view'' st2 executor process kind = Some (ActionSettled True, st2)"
proof -
  from call_cases [OF assms(1)] obtain requested where
    req: "processActionCommand digest now (sv_retained view) executor process kind = Some requested"
    and id: "ec_id command = ec_id requested"
    and issued: "\<exists>c \<in> set (journal st1). ec_id c = ec_id command \<and> ec_status c = IssuedCommand"
    by metis
  from assms(2) obtain e q where e: "au_executor st' = Some e"
    "processActionCurrent view' st' command = Some (Some q)"
    "st2 = save_executor now' st'
      (e\<lparr>el_commands := update_where (\<lambda>c. ec_id c = ec_id command)
           (\<lambda>c. c\<lparr>ec_status := AcceptedCommand, ec_updated := now'\<rparr>) (el_commands e),
         el_processes := update_where (\<lambda>p. Some (executorProcessKey p) = map_option snd (ec_action command))
           (acted_process kind) (el_processes e)\<rparr>)"
    by (rule finish_done)
  from e(2) obtain k where action: "ec_action command = Some (k, executorProcessKey q)"
    and current: "executorCommandCurrent view' st' command (ec_generation command) = Some True"
    by (rule process_current_cases)
  obtain entry where entry: "entry \<in> set (el_commands e)" "ec_id entry = ec_id command"
    using current_entry [OF current] e(1) by (metis option.inject)
  from action_id [OF req assms(3)] obtain again where
    again: "processActionCommand digest now'' (sv_retained view'') executor process kind = Some again"
    "ec_id again = ec_id command" using id by metis
  let ?accept = "\<lambda>c. c\<lparr>ec_status := AcceptedCommand, ec_updated := now'\<rparr>"
  from entry have "\<exists>a. List.find (\<lambda>c. ec_id c = ec_id command) (el_commands e) = Some a"
    by (auto simp: find_None_iff simp flip: not_None_eq)
  then obtain a where a: "List.find (\<lambda>c. ec_id c = ec_id command) (el_commands e) = Some a" by blast
  have "List.find (\<lambda>c. ec_id c = ec_id command)
      (update_where (\<lambda>c. ec_id c = ec_id command) ?accept (el_commands e)) = Some (?accept a)"
    using a by (simp add: find_update_where)
  then have "scheduleExecutorCommand bytes now'' st2 again = (Some (?accept a), st2)"
    by (simp add: scheduleExecutorCommand_def e(3) again(2))
  then have settled: "begin_process_action digest bytes now'' view'' st2 executor process kind = Some (ActionSettled True, st2)"
    by (simp add: begin_process_action_def again(1))
  have "\<exists>e e2 key. au_executor st' = Some e \<and> au_executor st2 = Some e2 \<and> map_option snd (ec_action command) = Some key
         \<and> el_processes e2 = update_where (\<lambda>q. executorProcessKey q = key) (acted_process kind) (el_processes e)"
    using e(1,3) action by simp
  with issued settled show ?thesis by blast
qed

subsection \<open>Replacement\<close>

lemma not_unresolved_retired: "\<not> unresolved (retire_command now c)"
  by (simp add: retire_command_def unresolved_def)

lemma executorIdentity_fields:
  "executorIdentity task g = Some identity \<Longrightarrow>
     ei_canonical identity = task \<and> ei_position identity = orgPlanAgentDisplayName task \<and> int (ei_generation identity) = g"
  by (auto simp: executorIdentity_def split: if_splits)

text \<open>
  C23: a replacement is granted once. Granting a new physical writer names the next generation after
  the assigned one, marks the old assignment unavailable and leaves no command unresolved; while the
  milestone and the plan stay the same, asking again returns the same identity without a write, and it
  is the identity the root may start.
\<close>
theorem replacement_is_granted_once:
  assumes "authorizeExecutorReplacement now view (Some st) task = Some (ReplacementGranted identity, Some st', [event])"
    and "sv_retained view = Some r" and "currentExecutableL1Index (rp_plan r) = Some i"
    and "orgPlanAgentDisplayName task = position_of i"
    and "au_executor st = Some e" and "el_assignment e = Some a"
  shows "ei_generation identity = ea_generation a + 1 \<and> ei_canonical identity = el_canonical e
    \<and> Option.bind (au_executor st') el_assignment = Some (unavailable a)
    \<and> \<not> list_ex unresolved (journal st') \<and> length (journal st') = length (journal st)
    \<and> authorizeExecutorReplacement now' view (Some st') task = Some (ReplacementGranted identity, Some st', [])
    \<and> freshExecutorIdentity view (Some st') = Some (Some identity)"
  using assms(1)
proof (cases rule: authorize_cases)
  case unchanged
  then show ?thesis by simp
next
  case (granted r' e' fingerprint previous identity')
  from granted assms have same: "r' = r" "e' = e" "previous = a" "identity' = identity" by auto
  let ?e = "authorized_executor now (rp_identity r) fingerprint e a identity"
  from granted same have st': "st' = save_executor now st ?e" by simp
  have id: "ei_canonical identity = task" "ei_position identity = position_of i"
    "ei_generation identity = ea_generation a + 1"
    using executorIdentity_fields [of task "int (ea_generation a) + 1" identity] granted(11) assms(4) same
    by (simp_all flip: of_nat_eq_iff [where 'a = int] del: of_nat_add) 
  have valid: "validReplacement (Some r) (the (el_replacement ?e)) = Some True"
    using granted(3) same id assms(3) by (simp add: validReplacement_def authorized_executor_def)
  have again: "authorizeExecutorReplacement now' view (Some st') task = Some (ReplacementGranted identity, Some st', [])"
    using granted same valid
    by (simp add: authorizeExecutorReplacement_def grant_replacement_def standing_replacement_def st'
        authorized_executor_def)
  have "freshExecutorIdentity view (Some st') = Some (Some identity)"
    using valid assms(2) by (simp add: freshExecutorIdentity_def st' authorized_executor_def)
  moreover have "journal st' = map (retire_command now) (journal st)"
    by (simp add: st' authorized_executor_def journal_def [of st] assms(5))
  moreover have "Option.bind (au_executor st') el_assignment = Some (unavailable a)"
    by (simp add: st' authorized_executor_def)
  ultimately show ?thesis
    using id again granted(8) same by (simp add: list_ex_iff not_unresolved_retired)
qed

subsection \<open>A session at work\<close>

definition work_process :: executor_process where
  "work_process =
     \<lparr> xp_id = ''c'', xp_item = ''i'', xp_thread = ''x'', xp_path = ''/root/l1'', xp_ownership = ByExecutor,
       xp_state = Running, xp_observed = ''o'', xp_elapsed = 0, xp_cpu = None, xp_rss = None,
       xp_os_pid = None, xp_exit = None, xp_artifact = None \<rparr>"

definition sample_writer :: executor_lifecycle where
  "sample_writer =
     \<lparr> el_position = ''L1'', el_canonical = ''l1'', el_path = ''/root/l1'', el_thread = ''x'',
       el_l1 = WIP, el_l2 = None, el_activity = ''a'', el_processes = [work_process], el_outcome = PartialOutcome,
       el_blocking = None, el_generation = 1, el_count = 1, el_failures = 0,
       el_assignment = Some \<lparr> ea_position = ''L1'', ea_canonical = ''l1'', ea_name = ''l1'',
         ea_path = ''/root/l1'', ea_thread = ''x'', ea_generation = 1, ea_state = Resumable \<rparr>,
       el_replacement = None, el_commands = [] \<rparr>"

definition sample_child :: subagent where
  "sample_child =
     \<lparr> sa_id = ''x'', sa_thread = None, sa_nickname = None, sa_role = None, sa_model = None,
       sa_path = Some ''/root/l1'', sa_task = Some ''l1'', sa_position = Some ''L1'', sa_generation = Some 1,
       sa_outcome = None, sa_percent = None, sa_processes = Some [work_process], sa_state = IdleAgent,
       sa_reason = TurnCompletedReason, sa_observed = ''o'', sa_last = ''a'' \<rparr>"

definition sample_activity :: activity_snapshot where
  "sample_activity =
     \<lparr> as_session = ''s'', as_root_thread = None,
       as_root = \<lparr> ra_state = IdleAgent, ra_reason = TurnCompletedReason, ra_percent = None, ra_observed = ''o'', ra_last = ''o'' \<rparr>,
       as_subagents = [sample_child, sample_child\<lparr>sa_id := ''y'', sa_generation := Some 2\<rparr>],
       as_aggregate = IdleAgent, as_confidence = FreshActivity \<rparr>"

definition working_view :: session_view where
  "working_view = \<lparr> sv_retained = Some \<lparr> rp_plan = small_plan WIP, rp_identity = ''p'' \<rparr>,
     sv_activity = Some sample_activity, sv_pending = False \<rparr>"

definition working_session :: autopilot_session where
  "working_session = (disabledAutopilot ''s'' ''u'')
     \<lparr>au_enabled := True, au_plan := Some ''p'', au_executor := Some sample_writer\<rparr>"

theorem adopted_assignment_outranks_roster_witness:
  "\<exists>e. currentExecutor (\<lambda>_. Some 0) (\<lambda>_ _. 0) ''n'' (small_plan WIP) 0 (Some sample_writer) (Some sample_activity) = Some (Some e)
     \<and> el_thread e = ''x''"
proof -
  have run: "map_option (map_option el_thread)
      (currentExecutor (\<lambda>_. Some 0) (\<lambda>_ _. 0) ''n'' (small_plan WIP) 0 (Some sample_writer) (Some sample_activity))
    = Some (Some ''x'')" by code_simp
  then obtain e where e: "currentExecutor (\<lambda>_. Some 0) (\<lambda>_ _. 0) ''n'' (small_plan WIP) 0 (Some sample_writer)
      (Some sample_activity) = Some (Some e)" by auto
  have i: "currentExecutableL1Index (small_plan WIP) = Some 0" by code_simp
  have a: "el_assignment sample_writer = Some (the (el_assignment sample_writer))"
    "ea_position (the (el_assignment sample_writer)) = position_of 0"
    "ea_thread (the (el_assignment sample_writer)) = ''x''" "el_thread sample_writer = ''x''"
    "el_replacement sample_writer = None" by code_simp+
  from adopted_assignment_outranks_roster [OF e i a(1,2)] a e show ?thesis by auto
qed

theorem settled_processes_stay_settled_witness:
  "\<exists>ps. refreshPersistedProcesses (\<lambda>_. Some 0) [work_process\<lparr>xp_state := ResultConsumed\<rparr>] [work_process] ''n'' = Some ps
     \<and> map xp_state ps = [ResultConsumed]"
proof -
  let ?old = "work_process\<lparr>xp_state := ResultConsumed\<rparr>"
  have key: "executorProcessKey ?old = executorProcessKey work_process" by (simp add: executorProcessKey_def)
  obtain p where p: "refreshPersistedProcesses (\<lambda>_. Some 0) [?old] [work_process] ''n'' = Some [p]"
    by (simp add: refreshPersistedProcesses_def refresh_process_def prior_process_def key elapsed_between_def)
  with settled_processes_stay_settled [OF p] key have "xp_state p = ResultConsumed"
    by (simp add: keys_distinct_def)
  with p show ?thesis by simp
qed

definition sample_command :: executor_command where
  "sample_command =
     \<lparr> ec_id = ''k'', ec_status = AcceptedCommand, ec_plan = ''p'', ec_fingerprint = ''f'', ec_position = ''L1'',
       ec_canonical = ''l1'', ec_path = ''/root/l1'', ec_thread = ''x'', ec_generation = 1, ec_attempt = 0,
       ec_superseded_before_issue = False, ec_trigger = PartialTrigger, ec_action = None,
       ec_created = ''n'', ec_updated = ''n'' \<rparr>"

definition accepted_session :: autopilot_session where
  "accepted_session = working_session\<lparr>au_executor := Some (sample_writer\<lparr>el_commands := [sample_command, sample_command\<lparr>ec_id := ''m'', ec_status := ScheduledCommand\<rparr>]\<rparr>)\<rparr>"

definition sample_moves :: "journal_event list" where
  "sample_moves =
     [MoveCommand ''m'' IssuedCommand ''n'',
      MoveCommand ''k'' IssuedCommand ''n'', MoveCommand ''m'' FailedCommand ''n'']"

theorem settled_commands_never_move_witness:
  "sample_command \<in> set (journal (journal_run (\<lambda>_ _. 0) (\<lambda>_ _. 0) accepted_session sample_moves))
    \<and> executorCommandCurrent working_view
        (journal_run (\<lambda>_ _. 0) (\<lambda>_ _. 0) accepted_session sample_moves) sample_command 1 \<noteq> Some True"
proof -
  have start: "distinct (map ec_id (journal accepted_session))"
    "sample_command \<in> set (journal accepted_session)" "closed_status (ec_status sample_command)"
    by (simp_all add: accepted_session_def journal_def closed_status_def sample_command_def)
  from settled_commands_never_move [OF start, of sample_moves "\<lambda>_ _. 0" "\<lambda>_ _. 0"] obtain n where
    n: "n \<le> length sample_moves"
    "sample_command \<in> set (journal (journal_run (\<lambda>_ _. 0) (\<lambda>_ _. 0) accepted_session (take n sample_moves)))
      \<and> (\<forall>view command g. ec_id command = ec_id sample_command
           \<longrightarrow> executorCommandCurrent view (journal_run (\<lambda>_ _. 0) (\<lambda>_ _. 0) accepted_session (take n sample_moves)) command g \<noteq> Some True)"
    "n = length sample_moves \<or> (\<exists>command now. n < length sample_moves \<and> sample_moves ! n = ScheduleCommand command now)"
    by (metis (no_types, lifting) le_neq_implies_less order_refl)
  have "\<not> (n < length sample_moves \<and> sample_moves ! n = ScheduleCommand command now)" for command now
    by (auto simp: sample_moves_def nth_Cons split: nat.splits)
  with n(3) have "n = length sample_moves" by blast
  with n(2) show ?thesis by simp
qed

lemma working_milestone: "currentExecutableL1Index (small_plan WIP) = Some 0"
  by code_simp

theorem replacement_is_granted_once_witness:
  "\<exists>st fingerprint identity st' event. plan_fingerprint (small_plan WIP) = Some fingerprint
     \<and> authorizeExecutorReplacement ''n'' working_view (Some st) ''l1'' = Some (ReplacementGranted identity, Some st', [event])
     \<and> ei_generation identity = 2
     \<and> authorizeExecutorReplacement ''n'' working_view (Some st') ''l1'' = Some (ReplacementGranted identity, Some st', [])"
proof -
  from small_plan_fingerprint obtain f where f: "plan_fingerprint (small_plan WIP) = Some f" by blast
  let ?st = "working_session\<lparr>au_state := PilotAttention, au_fingerprint := Some f,
    au_blocking := Some \<lparr> sb_reason = PermissionRequired, sb_condition = PermissionGranted \<rparr>\<rparr>"
  have identity: "executorIdentity ''l1'' 2 = Some \<lparr> ei_canonical = ''l1'', ei_position = ''L1'', ei_generation = 2, ei_name = ''l1_g2'' \<rparr>"
    by code_simp
  have idle: "\<not> executorTurnActive sample_writer (Some sample_activity)" by code_simp
  have "\<exists>identity st' event. authorizeExecutorReplacement ''n'' working_view (Some ?st) ''l1''
      = Some (ReplacementGranted identity, Some st', [event])"
    using f identity idle
    by (simp add: authorizeExecutorReplacement_def grant_replacement_def standing_replacement_def
        working_view_def working_session_def sample_activity_def [THEN arg_cong, of as_confidence]
        sample_writer_def disabledAutopilot_def)
  then obtain identity st' event where granted:
    "authorizeExecutorReplacement ''n'' working_view (Some ?st) ''l1'' = Some (ReplacementGranted identity, Some st', [event])"
    by blast
  have pos: "orgPlanAgentDisplayName ''l1'' = position_of 0" by code_simp
  show ?thesis
    using replacement_is_granted_once [OF granted _ _ pos, of "\<lparr> rp_plan = small_plan WIP, rp_identity = ''p'' \<rparr>"
        sample_writer "the (el_assignment sample_writer)" "''n''"] granted f working_milestone
    by (force simp: working_view_def working_session_def sample_writer_def)
qed

definition transfer_command :: "string \<Rightarrow> command_status \<Rightarrow> executor_command" where
  "transfer_command f status =
     sample_command\<lparr>ec_status := status, ec_fingerprint := f,
       ec_action := Some (TransferAction, executorProcessKey work_process)\<rparr>"

lemma transfer_fields [simp]:
  "ec_id (transfer_command f s) = ''k''" "ec_status (transfer_command f s) = s" "ec_plan (transfer_command f s) = ''p''"
  "ec_fingerprint (transfer_command f s) = f" "ec_position (transfer_command f s) = ''L1''"
  "ec_canonical (transfer_command f s) = ''l1''" "ec_path (transfer_command f s) = ''/root/l1''"
  "ec_thread (transfer_command f s) = ''x''" "ec_generation (transfer_command f s) = 1"
  "ec_action (transfer_command f s) = Some (TransferAction, executorProcessKey work_process)"
  "(transfer_command f s)\<lparr>ec_status := t, ec_updated := ''n''\<rparr> = transfer_command f t"
  by (simp_all add: transfer_command_def sample_command_def)

lemma transfer_current:
  assumes "plan_fingerprint (small_plan WIP) = Some f" and "au_enabled st" and "s \<in> {ScheduledCommand, IssuedCommand}"
    and "au_executor st = Some (sample_writer\<lparr>el_commands := [transfer_command f s]\<rparr>)"
  shows "processActionCurrent working_view st (transfer_command f t) = Some (Some work_process)"
proof -
  have "roster_matches (transfer_command f t) 1 (Some sample_activity)"
    by (simp add: roster_matches_def roster_def sample_activity_def sample_child_def child_thread_def child_generation_def)
  moreover have "open_entry (transfer_command f t) (transfer_command f s)"
    using assms(3) by (auto simp: open_entry_def unresolved_def)
  moreover have "executor_matches (transfer_command f t) 1 (sample_writer\<lparr>el_commands := [transfer_command f s]\<rparr>)"
    by (simp add: executor_matches_def sample_writer_def)
  ultimately have "executorCommandCurrent working_view st (transfer_command f t) 1 = Some True"
    using assms by (simp add: executorCommandCurrent_def working_view_def del: One_nat_def)
  with assms(4) show ?thesis
    by (simp add: processActionCurrent_def sample_writer_def del: One_nat_def)
qed

lemma transfer_begins:
  assumes "plan_fingerprint (small_plan WIP) = Some f"
  shows "\<exists>st'. begin_process_action (\<lambda>_. ''k'') (\<lambda>_ _. 0) ''n'' working_view working_session sample_writer
       work_process TransferAction = Some (ActionCall (transfer_command f IssuedCommand) work_process, st')
     \<and> au_enabled st' \<and> au_executor st' = Some (sample_writer\<lparr>el_commands := [transfer_command f IssuedCommand]\<rparr>)"
proof -
  let ?st1 = "save_executor ''n'' working_session (sample_writer\<lparr>el_commands := [transfer_command f ScheduledCommand]\<rparr>)"
  let ?st2 = "save_executor ''n'' ?st1 (sample_writer\<lparr>el_commands := [transfer_command f IssuedCommand]\<rparr>)"
  have writer: "au_executor working_session = Some sample_writer" "el_commands sample_writer = []" "au_enabled working_session"
    by (simp_all add: working_session_def sample_writer_def)
  have requested: "processActionCommand (\<lambda>_. ''k'') ''n'' (sv_retained working_view) sample_writer work_process TransferAction
      = Some (transfer_command f ScheduledCommand)"
    using assms
    by (simp add: processActionCommand_def plan_names_def working_view_def sample_writer_def transfer_command_def
        sample_command_def)
  have scheduled: "scheduleExecutorCommand (\<lambda>_ _. 0) ''n'' working_session (transfer_command f ScheduledCommand)
      = (Some (transfer_command f ScheduledCommand), ?st1)"
    by (simp add: scheduleExecutorCommand_def writer retainExecutorCommands_def retain_loop.simps record_fits_def)
  have issued: "executorCommandTransition ''n'' ?st1 ''k'' IssuedCommand = (Some (transfer_command f IssuedCommand), ?st2)"
    by (simp add: executorCommandTransition_def canTransitionExecutorCommand_def update_where_def Let_def)
  have "processActionCurrent working_view ?st1 (transfer_command f ScheduledCommand) = Some (Some work_process)"
    by (rule transfer_current [OF assms]) (simp_all add: writer)
  then show ?thesis
    by (simp add: begin_process_action_def requested scheduled issued writer)
qed

theorem process_action_happens_once_witness:
  "\<exists>f st' st''. begin_process_action (\<lambda>_. ''k'') (\<lambda>_ _. 0) ''n'' working_view working_session sample_writer
       work_process TransferAction = Some (ActionCall (transfer_command f IssuedCommand) work_process, st')
     \<and> finish_process_action ''n'' working_view st' (transfer_command f IssuedCommand) TransferAction EffectDone
         = Some (True, st'')
     \<and> map_option el_processes (au_executor st'') = Some [acted_process TransferAction work_process]"
proof -
  from small_plan_fingerprint obtain f where f: "plan_fingerprint (small_plan WIP) = Some f" by blast
  from transfer_begins [OF f] obtain st' where
    start: "begin_process_action (\<lambda>_. ''k'') (\<lambda>_ _. 0) ''n'' working_view working_session sample_writer
       work_process TransferAction = Some (ActionCall (transfer_command f IssuedCommand) work_process, st')"
    and st': "au_enabled st'" "au_executor st' = Some (sample_writer\<lparr>el_commands := [transfer_command f IssuedCommand]\<rparr>)"
    by blast
  have "processActionCurrent working_view st' (transfer_command f IssuedCommand) = Some (Some work_process)"
    by (rule transfer_current [OF f st'(1) _ st'(2)]) simp
  then obtain st'' where finish: "finish_process_action ''n'' working_view st' (transfer_command f IssuedCommand)
      TransferAction EffectDone = Some (True, st'')"
    by (simp add: finish_process_action_def st'(2))
  have processes: "el_processes sample_writer = [work_process]" by (simp add: sample_writer_def)
  from process_action_happens_once [OF start finish refl] st'(2) have
    "map_option el_processes (au_executor st'') = Some [acted_process TransferAction work_process]"
    by (auto simp: processes update_where_def)
  with start finish show ?thesis by blast
qed

end
