(* ===== verification/Owner_Authorization.thy ===== *)
theory Owner_Authorization
  imports Js_Value
begin

text \<open>
  The authorization of the local owner (src/server/features/auth/domain): opaque identifiers, device
  nicknames, and the aggregate of the devices that hold a passkey. Bytes are a \<open>string\<close>; \<open>dp\<close> stands for
  \<open>Date.parse\<close> (\<open>None\<close> is NaN), and a counter is an integer. A throw is \<open>Inl\<close>.
\<close>

subsection \<open>Identifiers\<close>

datatype auth_error =
    OwnerIdInvalid | DeviceIdInvalid | CredentialIdInvalid | CeremonyIdInvalid | TicketIdInvalid
  | SessionIdInvalid | NicknameInvalid | HandleInvalid | DeviceRequired | DeviceUnknown
  | CredentialTaken | DeviceTaken | CounterInvalid | CounterNotMonotonic | VersionInvalid
  | PublicKeyInvalid | TimestampInvalid

definition opaqueIdOrNull :: "string option \<Rightarrow> string option" where
  "opaqueIdOrNull value =
     (case value of None \<Rightarrow> None | Some s \<Rightarrow> if s \<noteq> [] \<and> js_trim s = s then Some s else None)"

definition opaqueId :: "string \<Rightarrow> auth_error \<Rightarrow> auth_error + string" where
  "opaqueId value err = (case opaqueIdOrNull (Some value) of None \<Rightarrow> Inl err | Some s \<Rightarrow> Inr s)"

definition localOwnerId :: "string \<Rightarrow> auth_error + string" where
  "localOwnerId value = opaqueId value OwnerIdInvalid"

definition authorizedDeviceId :: "string \<Rightarrow> auth_error + string" where
  "authorizedDeviceId value = opaqueId value DeviceIdInvalid"

definition webAuthnCredentialId :: "string \<Rightarrow> auth_error + string" where
  "webAuthnCredentialId value = opaqueId value CredentialIdInvalid"

definition passkeyCeremonyId :: "string \<Rightarrow> auth_error + string" where
  "passkeyCeremonyId value = opaqueId value CeremonyIdInvalid"

definition parseEnrollmentTicketId :: "string option \<Rightarrow> string option" where
  "parseEnrollmentTicketId = opaqueIdOrNull"

definition parseAuthorizationSessionId :: "string option \<Rightarrow> string option" where
  "parseAuthorizationSessionId = opaqueIdOrNull"

definition enrollmentTicketId :: "string \<Rightarrow> auth_error + string" where
  "enrollmentTicketId value =
     (case parseEnrollmentTicketId (Some value) of None \<Rightarrow> Inl TicketIdInvalid | Some s \<Rightarrow> Inr s)"

definition authorizationSessionId :: "string \<Rightarrow> auth_error + string" where
  "authorizationSessionId value =
     (case parseAuthorizationSessionId (Some value) of None \<Rightarrow> Inl SessionIdInvalid | Some s \<Rightarrow> Inr s)"

definition deviceNickname :: "string \<Rightarrow> auth_error + string" where
  "deviceNickname value =
     (let normalized = js_trim value in
      if length normalized < 1 \<or> length normalized > 64 then Inl NicknameInvalid else Inr normalized)"

subsection \<open>Devices\<close>

datatype credential_transport = Ble | Hybrid | InternalTransport | Nfc | Usb

datatype credential_device = SingleDevice | MultiDevice

record local_owner =
  lo_id :: string
  lo_handle :: string

record auth_device =
  ad_id :: string
  ad_credential :: string
  ad_key :: string
  ad_counter :: int
  ad_transports :: "credential_transport list"
  ad_type :: credential_device
  ad_backed :: bool
  ad_nickname :: string
  ad_created :: string
  ad_used :: "string option"
  ad_version :: "int option"

definition copyOwner :: "local_owner \<Rightarrow> auth_error + local_owner" where
  "copyOwner owner = (if lo_handle owner = [] then Inl HandleInvalid else Inr owner)"

definition copyDevice :: "(string \<Rightarrow> int option) \<Rightarrow> auth_device \<Rightarrow> auth_error + auth_device" where
  "copyDevice dp d =
     (if ad_counter d < 0 then Inl CounterInvalid
      else if (case ad_version d of None \<Rightarrow> False | Some v \<Rightarrow> v < 0) then Inl VersionInvalid
      else if ad_key d = [] then Inl PublicKeyInvalid
      else if dp (ad_created d) = None then Inl TimestampInvalid
      else if truthy_opt (ad_used d) \<and> Option.bind (ad_used d) dp = None then Inl TimestampInvalid
      else Inr (d\<lparr>ad_version := Some (coalesce (ad_version d) 0)\<rparr>))"

fun copy_all :: "(string \<Rightarrow> int option) \<Rightarrow> auth_device list \<Rightarrow> auth_error + auth_device list" where
  "copy_all dp [] = Inr []"
| "copy_all dp (d # ds) =
     (case copyDevice dp d of
        Inl e \<Rightarrow> Inl e
      | Inr c \<Rightarrow> (case copy_all dp ds of Inl e \<Rightarrow> Inl e | Inr cs \<Rightarrow> Inr (c # cs)))"

subsection \<open>The aggregate\<close>

record owner_authorization =
  oa_owner :: local_owner
  oa_devices :: "auth_device list"

datatype auth_outcome =
    FirstDeviceAuthorized auth_device | DeviceAuthorized auth_device | DeviceRenamed auth_device
  | DeviceRevoked string

definition assertUniqueCredentials :: "auth_device list \<Rightarrow> auth_error option" where
  "assertUniqueCredentials ds =
     (if card (set (map ad_credential ds)) \<noteq> length ds then Some CredentialTaken else None)"

definition assertUniqueDeviceIds :: "auth_device list \<Rightarrow> auth_error option" where
  "assertUniqueDeviceIds ds =
     (if card (set (map ad_id ds)) \<noteq> length ds then Some DeviceTaken else None)"

definition bootstrap ::
  "(string \<Rightarrow> int option) \<Rightarrow> local_owner \<Rightarrow> auth_device
     \<Rightarrow> auth_error + (owner_authorization \<times> auth_outcome)" where
  "bootstrap dp owner d =
     (case copyDevice dp d of
        Inl e \<Rightarrow> Inl e
      | Inr c \<Rightarrow>
          (case assertUniqueDeviceIds [c] of
             Some e \<Rightarrow> Inl e
           | None \<Rightarrow>
               (case copyOwner owner of
                  Inl e \<Rightarrow> Inl e
                | Inr o' \<Rightarrow>
                    (case copyDevice dp c of
                       Inl e \<Rightarrow> Inl e
                     | Inr c' \<Rightarrow> Inr (\<lparr> oa_owner = o', oa_devices = [c] \<rparr>, FirstDeviceAuthorized c')))))"

definition rehydrate ::
  "(string \<Rightarrow> int option) \<Rightarrow> local_owner \<Rightarrow> auth_device list \<Rightarrow> auth_error + owner_authorization" where
  "rehydrate dp owner ds =
     (if ds = [] then Inl DeviceRequired
      else (case assertUniqueDeviceIds ds of
        Some e \<Rightarrow> Inl e
      | None \<Rightarrow>
          (case assertUniqueCredentials ds of
             Some e \<Rightarrow> Inl e
           | None \<Rightarrow>
               (case copyOwner owner of
                  Inl e \<Rightarrow> Inl e
                | Inr o' \<Rightarrow>
                    (case copy_all dp ds of
                       Inl e \<Rightarrow> Inl e
                     | Inr cs \<Rightarrow> Inr \<lparr> oa_owner = o', oa_devices = cs \<rparr>)))))"

definition requireDevice :: "owner_authorization \<Rightarrow> string \<Rightarrow> auth_error + auth_device" where
  "requireDevice a device =
     (case List.find (\<lambda>d. ad_id d = device) (oa_devices a) of
        None \<Rightarrow> Inl DeviceUnknown | Some d \<Rightarrow> Inr d)"

text \<open>The aggregate method \<open>authorizeDevice\<close>.\<close>

definition authorize ::
  "(string \<Rightarrow> int option) \<Rightarrow> owner_authorization \<Rightarrow> auth_device
     \<Rightarrow> auth_error + (owner_authorization \<times> auth_outcome)" where
  "authorize dp a d =
     (case assertUniqueDeviceIds (oa_devices a @ [d]) of
        Some e \<Rightarrow> Inl e
      | None \<Rightarrow>
          (case assertUniqueCredentials (oa_devices a @ [d]) of
             Some e \<Rightarrow> Inl e
           | None \<Rightarrow>
               (case copyDevice dp d of
                  Inl e \<Rightarrow> Inl e
                | Inr c \<Rightarrow> Inr (a\<lparr>oa_devices := oa_devices a @ [c]\<rparr>, DeviceAuthorized c))))"

definition rename ::
  "(string \<Rightarrow> int option) \<Rightarrow> owner_authorization \<Rightarrow> string \<Rightarrow> string
     \<Rightarrow> auth_error + (owner_authorization \<times> auth_outcome)" where
  "rename dp a device nickname =
     (case requireDevice a device of
        Inl e \<Rightarrow> Inl e
      | Inr d \<Rightarrow>
          let renamed = d\<lparr>ad_nickname := nickname\<rparr> in
          (case copyDevice dp renamed of
             Inl e \<Rightarrow> Inl e
           | Inr c \<Rightarrow> Inr (a\<lparr>oa_devices := update_where (\<lambda>x. ad_id x = device) (\<lambda>_. renamed) (oa_devices a)\<rparr>,
                          DeviceRenamed c)))"

definition recordAssertion ::
  "owner_authorization \<Rightarrow> string \<Rightarrow> int \<Rightarrow> string \<Rightarrow> auth_error + owner_authorization" where
  "recordAssertion a device counter used =
     (case requireDevice a device of
        Inl e \<Rightarrow> Inl e
      | Inr d \<Rightarrow>
          if counter < 0 then Inl CounterInvalid
          else if \<not> (ad_counter d = 0 \<and> counter = 0 \<and> ad_type d = MultiDevice) \<and> counter \<le> ad_counter d
          then Inl CounterNotMonotonic
          else Inr (a\<lparr>oa_devices := update_where (\<lambda>x. ad_id x = device)
                 (\<lambda>_. d\<lparr>ad_counter := counter, ad_used := Some used\<rparr>) (oa_devices a)\<rparr>))"

definition revoke :: "owner_authorization \<Rightarrow> string \<Rightarrow> auth_error + (owner_authorization \<times> auth_outcome)" where
  "revoke a device =
     (case requireDevice a device of
        Inl e \<Rightarrow> Inl e
      | Inr _ \<Rightarrow>
          if length (oa_devices a) = 1 then Inl DeviceRequired
          else Inr (a\<lparr>oa_devices := filter (\<lambda>d. ad_id d \<noteq> device) (oa_devices a)\<rparr>, DeviceRevoked device))"

subsection \<open>What the aggregate keeps\<close>

definition authorization_ok :: "owner_authorization \<Rightarrow> bool" where
  "authorization_ok a \<longleftrightarrow>
     oa_devices a \<noteq> [] \<and> keys_distinct ad_id (oa_devices a) \<and> keys_distinct ad_credential (oa_devices a)"

lemma unique_ids [simp]: "assertUniqueDeviceIds ds = None \<longleftrightarrow> keys_distinct ad_id ds"
  using distinct_card [of "map ad_id ds"] card_distinct [of "map ad_id ds"]
  by (auto simp: assertUniqueDeviceIds_def keys_distinct_def)

lemma unique_credentials [simp]: "assertUniqueCredentials ds = None \<longleftrightarrow> keys_distinct ad_credential ds"
  using distinct_card [of "map ad_credential ds"] card_distinct [of "map ad_credential ds"]
  by (auto simp: assertUniqueCredentials_def keys_distinct_def)

lemma copyDevice_result:
  "copyDevice dp d = Inr c \<Longrightarrow> c = d\<lparr>ad_version := Some (coalesce (ad_version d) 0)\<rparr>"
  by (auto simp: copyDevice_def split: if_splits)

end
