(* ===== verification/Authorization_Store.thy ===== *)
theory Authorization_Store
  imports Owner_Authorization Js_Json
begin

text \<open>
  The durable store of the local owner's authorization
  (src/server/platform/auth/sqlite-authorization-store.ts): devices, passkey ceremonies, enrollment
  tickets and sessions. A table is the list of its rows in the order of their rowid; a transaction
  yields a new database or a throw, and a throw leaves the database as it was.

  \<open>h\<close> stands for SHA-256 in hexadecimal, \<open>rp\<close> is the identifier of the relying party. Texts are
  compared by their code units, as SQLite compares \<open>TEXT\<close>. The transports and flags of a device row
  are kept as the values they encode. Where an insertion violates both unique constraints of the
  devices, the primary key is the one reported.
\<close>

subsection \<open>Tables\<close>

datatype ceremony_purpose = RegistrationCeremony | AuthenticationCeremony | EnrollmentCeremony

record ceremony_row =
  ac_hash :: string
  ac_purpose :: ceremony_purpose
  ac_challenge :: string
  ac_origin :: string
  ac_rp :: string
  ac_expires :: string
  ac_consumed :: "string option"
  ac_ticket :: "string option"

record ticket_row =
  tk_hash :: string
  tk_expires :: string
  tk_consumed :: "string option"
  tk_creator :: "string option"

record web_session =
  ws_hash :: string
  ws_device :: "string option"
  ws_expires :: string
  ws_revoked :: "string option"

record auth_db =
  db_settings :: "(string \<times> string) option"
  db_devices :: "auth_device list"
  db_ceremonies :: "ceremony_row list"
  db_tickets :: "ticket_row list"
  db_sessions :: "web_session list"

datatype store_throw =
    HandleEmpty | RelyingPartyChanged | OwnerNotInitialized | SessionDeviceMismatch
  | CapacityReached | UniqueViolation string | ForeignKeyViolation | DomainThrow auth_error

definition after_text :: "string \<Rightarrow> string \<Rightarrow> bool" where
  "after_text a b \<longleftrightarrow> 0 < code_unit_compare a b"

subsection \<open>Owner\<close>

definition owner_id :: string where
  "owner_id = ''local-owner''"

text \<open>The check of \<open>initializeSchema\<close>; the settings are the pair of \<open>rp_id\<close> and \<open>user_handle\<close>.\<close>

definition open_store :: "string \<Rightarrow> auth_db \<Rightarrow> store_throw + auth_db" where
  "open_store rp db =
     (case db_settings db of
        None \<Rightarrow> Inr db
      | Some (stored, _) \<Rightarrow>
          if stored \<noteq> rp \<and> db_devices db \<noteq> [] then Inl RelyingPartyChanged else Inr db)"

definition initializeOwner :: "string \<Rightarrow> auth_db \<Rightarrow> string \<Rightarrow> store_throw + (local_owner \<times> auth_db)" where
  "initializeOwner rp db handle =
     (if handle = [] then Inl HandleEmpty
      else (case db_settings db of
         None \<Rightarrow> Inr (\<lparr> lo_id = owner_id, lo_handle = handle \<rparr>, db\<lparr>db_settings := Some (rp, handle)\<rparr>)
       | Some (stored, current) \<Rightarrow>
           if stored \<noteq> rp \<and> db_devices db \<noteq> [] then Inl RelyingPartyChanged
           else Inr (\<lparr> lo_id = owner_id, lo_handle = current \<rparr>,
                  if stored \<noteq> rp then db\<lparr>db_settings := Some (rp, current)\<rparr> else db)))"

definition readOwner :: "auth_db \<Rightarrow> local_owner option" where
  "readOwner db = map_option (\<lambda>(_, handle). \<lparr> lo_id = owner_id, lo_handle = handle \<rparr>) (db_settings db)"

subsection \<open>Devices\<close>

definition toDevice :: "auth_device \<Rightarrow> auth_error + auth_device" where
  "toDevice row =
     (case authorizedDeviceId (ad_id row) of
        Inl e \<Rightarrow> Inl e
      | Inr _ \<Rightarrow>
          (case webAuthnCredentialId (ad_credential row) of
             Inl e \<Rightarrow> Inl e
           | Inr _ \<Rightarrow>
               (case deviceNickname (ad_nickname row) of
                  Inl e \<Rightarrow> Inl e
                | Inr n \<Rightarrow> Inr (row\<lparr>ad_nickname := n,
                    ad_used := (if truthy_opt (ad_used row) then ad_used row else None)\<rparr>))))"

fun to_devices :: "auth_device list \<Rightarrow> auth_error + auth_device list" where
  "to_devices [] = Inr []"
| "to_devices (r # rs) =
     (case toDevice r of
        Inl e \<Rightarrow> Inl e
      | Inr d \<Rightarrow> (case to_devices rs of Inl e \<Rightarrow> Inl e | Inr ds \<Rightarrow> Inr (d # ds)))"

definition device_order :: "auth_device \<Rightarrow> auth_device \<Rightarrow> int" where
  "device_order a b =
     (let c = code_unit_compare (ad_created a) (ad_created b) in
      if c \<noteq> 0 then c else code_unit_compare (ad_id a) (ad_id b))"

definition listAuthorizedDevices :: "auth_db \<Rightarrow> auth_error + auth_device list" where
  "listAuthorizedDevices db = to_devices (sort_by device_order (db_devices db))"

definition found_device :: "auth_device option \<Rightarrow> store_throw + auth_device option" where
  "found_device row =
     (case row of
        None \<Rightarrow> Inr None
      | Some r \<Rightarrow> (case toDevice r of Inl e \<Rightarrow> Inl (DomainThrow e) | Inr d \<Rightarrow> Inr (Some d)))"

definition findDevice :: "auth_db \<Rightarrow> string \<Rightarrow> store_throw + auth_device option" where
  "findDevice db device = found_device (List.find (\<lambda>d. ad_id d = device) (db_devices db))"

definition findDeviceByCredentialId :: "auth_db \<Rightarrow> string \<Rightarrow> store_throw + auth_device option" where
  "findDeviceByCredentialId db credential =
     found_device (List.find (\<lambda>d. ad_credential d = credential) (db_devices db))"

definition device_row :: "auth_device \<Rightarrow> auth_device" where
  "device_row d = d\<lparr>ad_version := Some (coalesce (ad_version d) 0)\<rparr>"

definition insertDevice :: "auth_db \<Rightarrow> auth_device \<Rightarrow> store_throw + auth_db" where
  "insertDevice db d =
     (if ad_id d \<in> ad_id ` set (db_devices db) then Inl (UniqueViolation ''auth_devices.id'')
      else if ad_credential d \<in> ad_credential ` set (db_devices db)
      then Inl (UniqueViolation ''auth_devices.credential_id'')
      else Inr (db\<lparr>db_devices := db_devices db @ [device_row d]\<rparr>))"

definition claimFirstDevice ::
  "auth_db \<Rightarrow> local_owner \<Rightarrow> auth_device \<Rightarrow> store_throw + (bool \<times> auth_db)" where
  "claimFirstDevice db owner d =
     (if lo_id owner \<noteq> owner_id \<or> readOwner db = None then Inl OwnerNotInitialized
      else if db_devices db \<noteq> [] then Inr (False, db)
      else (case insertDevice db d of Inl e \<Rightarrow> Inl e | Inr db' \<Rightarrow> Inr (True, db')))"

datatype authorize_answer = DeviceIsAuthorized | NotAuthorized | DuplicateCredential

definition authorizeDevice ::
  "auth_db \<Rightarrow> auth_device \<Rightarrow> store_throw + (authorize_answer \<times> auth_db)" where
  "authorizeDevice db d =
     (if readOwner db = None \<or> db_devices db = [] then Inr (NotAuthorized, db)
      else (case insertDevice db d of
         Inl e \<Rightarrow> if e = UniqueViolation ''auth_devices.credential_id'' then Inr (DuplicateCredential, db) else Inl e
       | Inr db' \<Rightarrow> Inr (DeviceIsAuthorized, db')))"

datatype rename_answer = Renamed | StaleDevice | DeviceNotFound

definition renameDevice ::
  "auth_db \<Rightarrow> string \<Rightarrow> int \<Rightarrow> string \<Rightarrow> store_throw + (rename_answer \<times> auth_db)" where
  "renameDevice db device expected nickname =
     (if list_ex (\<lambda>d. ad_id d = device \<and> ad_version d = Some expected) (db_devices db)
      then Inr (Renamed, db\<lparr>db_devices := update_where (\<lambda>d. ad_id d = device \<and> ad_version d = Some expected)
             (\<lambda>d. d\<lparr>ad_nickname := nickname, ad_version := map_option (\<lambda>v. v + 1) (ad_version d)\<rparr>) (db_devices db)\<rparr>)
      else (case findDevice db device of
         Inl e \<Rightarrow> Inl e
       | Inr found \<Rightarrow> Inr (if found = None then DeviceNotFound else StaleDevice, db)))"

text \<open>The two \<open>UPDATE\<close>s of \<open>advanceCounter\<close>.\<close>

definition synced_zero :: "string \<Rightarrow> int \<Rightarrow> int \<Rightarrow> int \<Rightarrow> auth_device \<Rightarrow> bool" where
  "synced_zero device expected expected_version new d \<longleftrightarrow>
     ad_id d = device \<and> ad_counter d = expected \<and> ad_version d = Some expected_version \<and> new = 0
     \<and> ad_type d = MultiDevice"

definition counter_grows :: "string \<Rightarrow> int \<Rightarrow> int \<Rightarrow> int \<Rightarrow> auth_device \<Rightarrow> bool" where
  "counter_grows device expected expected_version new d \<longleftrightarrow>
     ad_id d = device \<and> ad_counter d = expected \<and> ad_version d = Some expected_version \<and> new > ad_counter d"

definition advanceCounter ::
  "auth_db \<Rightarrow> string \<Rightarrow> int \<Rightarrow> int \<Rightarrow> int \<Rightarrow> string \<Rightarrow> bool \<times> auth_db" where
  "advanceCounter db device expected expected_version new used =
     (if list_ex (synced_zero device expected expected_version new) (db_devices db)
      then (True, db\<lparr>db_devices := update_where (synced_zero device expected expected_version new)
             (\<lambda>d. d\<lparr>ad_used := Some used, ad_version := map_option (\<lambda>v. v + 1) (ad_version d)\<rparr>) (db_devices db)\<rparr>)
      else if list_ex (counter_grows device expected expected_version new) (db_devices db)
      then (True, db\<lparr>db_devices := update_where (counter_grows device expected expected_version new)
             (\<lambda>d. d\<lparr>ad_counter := new, ad_used := Some used, ad_version := map_option (\<lambda>v. v + 1) (ad_version d)\<rparr>)
             (db_devices db)\<rparr>)
      else (False, db))"

datatype revoke_answer = Revoked | FinalDevice | NoSuchDevice

text \<open>Deleting a device sets the reference of its sessions to null.\<close>

definition end_sessions :: "string \<Rightarrow> string \<Rightarrow> web_session list \<Rightarrow> web_session list" where
  "end_sessions device now rows =
     update_where (\<lambda>s. ws_device s = Some device \<and> ws_revoked s = None) (\<lambda>s. s\<lparr>ws_revoked := Some now\<rparr>) rows"

definition unlink_sessions :: "string \<Rightarrow> web_session list \<Rightarrow> web_session list" where
  "unlink_sessions device rows = update_where (\<lambda>s. ws_device s = Some device) (\<lambda>s. s\<lparr>ws_device := None\<rparr>) rows"

definition revokeDevice :: "auth_db \<Rightarrow> string \<Rightarrow> string \<Rightarrow> store_throw + (revoke_answer \<times> auth_db)" where
  "revokeDevice db device now =
     (case findDevice db device of
        Inl e \<Rightarrow> Inl e
      | Inr None \<Rightarrow> Inr (NoSuchDevice, db)
      | Inr (Some _) \<Rightarrow>
          if length (db_devices db) < 2 then Inr (FinalDevice, db)
          else Inr (Revoked, db\<lparr>
                 db_sessions := unlink_sessions device (end_sessions device now (db_sessions db)),
                 db_devices := filter (\<lambda>d. ad_id d \<noteq> device) (db_devices db)\<rparr>))"

subsection \<open>Ceremonies\<close>

record new_ceremony =
  nc_purpose :: ceremony_purpose
  nc_challenge :: string
  nc_origin :: string
  nc_rp :: string
  nc_expires :: string
  nc_ticket :: "string option"

definition pending_ceremonies :: "string option \<Rightarrow> auth_db \<Rightarrow> ceremony_row list" where
  "pending_ceremonies now db =
     filter (\<lambda>c. ac_consumed c = None
        \<and> (case now of None \<Rightarrow> True | Some t \<Rightarrow> truthy t \<longrightarrow> after_text (ac_expires c) t))
       (db_ceremonies db)"

definition saveCeremony ::
  "(string \<Rightarrow> string) \<Rightarrow> auth_db \<Rightarrow> string \<Rightarrow> new_ceremony \<Rightarrow> string option \<Rightarrow> store_throw + auth_db" where
  "saveCeremony h db token c now =
     (let rows = pending_ceremonies now db in
      if length rows \<ge> 64 then Inl CapacityReached
      else if h token \<in> ac_hash ` set rows then Inl (UniqueViolation ''auth_ceremonies.token_hash'')
      else Inr (db\<lparr>db_ceremonies := rows @
             [\<lparr> ac_hash = h token, ac_purpose = nc_purpose c, ac_challenge = nc_challenge c,
                ac_origin = nc_origin c, ac_rp = nc_rp c, ac_expires = nc_expires c, ac_consumed = None,
                ac_ticket = (if truthy_opt (nc_ticket c) then map_option h (nc_ticket c) else None) \<rparr>]\<rparr>))"

definition ceremony_live :: "string \<Rightarrow> ceremony_row \<Rightarrow> bool" where
  "ceremony_live now c \<longleftrightarrow> ac_consumed c = None \<and> after_text (ac_expires c) now"

definition find_ceremony :: "(string \<Rightarrow> string) \<Rightarrow> auth_db \<Rightarrow> string \<Rightarrow> string \<Rightarrow> ceremony_row option" where
  "find_ceremony h db token now =
     List.find (\<lambda>c. ac_hash c = h token \<and> ceremony_live now c) (db_ceremonies db)"

definition readCeremony ::
  "(string \<Rightarrow> string) \<Rightarrow> auth_db \<Rightarrow> string \<Rightarrow> string \<Rightarrow> store_throw + ceremony_row option" where
  "readCeremony h db token now =
     (case find_ceremony h db token now of
        None \<Rightarrow> Inr None
      | Some c \<Rightarrow> (case passkeyCeremonyId token of Inl e \<Rightarrow> Inl (DomainThrow e) | Inr _ \<Rightarrow> Inr (Some c)))"

definition spend_ceremony :: "(string \<Rightarrow> string) \<Rightarrow> string \<Rightarrow> string \<Rightarrow> auth_db \<Rightarrow> auth_db" where
  "spend_ceremony h token now db =
     db\<lparr>db_ceremonies := update_where (\<lambda>c. ac_hash c = h token) (\<lambda>c. c\<lparr>ac_consumed := Some now\<rparr>)
          (db_ceremonies db)\<rparr>"

definition consumeCeremony ::
  "(string \<Rightarrow> string) \<Rightarrow> auth_db \<Rightarrow> string \<Rightarrow> string \<Rightarrow> store_throw + (ceremony_row option \<times> auth_db)" where
  "consumeCeremony h db token now =
     (case find_ceremony h db token now of
        None \<Rightarrow> Inr (None, db)
      | Some c \<Rightarrow>
          (case passkeyCeremonyId token of
             Inl e \<Rightarrow> Inl (DomainThrow e)
           | Inr _ \<Rightarrow> Inr (Some c, db\<lparr>db_ceremonies :=
               update_where (\<lambda>c. ac_hash c = h token \<and> ceremony_live now c)
                 (\<lambda>c. c\<lparr>ac_consumed := Some now\<rparr>) (db_ceremonies db)\<rparr>)))"

subsection \<open>Enrollment tickets\<close>

definition insert_ticket :: "auth_db \<Rightarrow> ticket_row \<Rightarrow> store_throw + auth_db" where
  "insert_ticket db t =
     (if tk_hash t \<in> tk_hash ` set (db_tickets db) then Inl (UniqueViolation ''auth_tickets.token_hash'')
      else Inr (db\<lparr>db_tickets := db_tickets db @ [t]\<rparr>))"

definition saveTicket :: "(string \<Rightarrow> string) \<Rightarrow> auth_db \<Rightarrow> string \<Rightarrow> string \<Rightarrow> store_throw + auth_db" where
  "saveTicket h db token expires =
     insert_ticket db \<lparr> tk_hash = h token, tk_expires = expires, tk_consumed = None, tk_creator = None \<rparr>"

definition issueEnrollmentTicket ::
  "(string \<Rightarrow> string) \<Rightarrow> auth_db \<Rightarrow> string \<Rightarrow> string \<Rightarrow> string \<Rightarrow> store_throw + auth_db" where
  "issueEnrollmentTicket h db token creator expires =
     insert_ticket
       (db\<lparr>db_tickets := filter (\<lambda>t. \<not> (tk_creator t = Some (h creator) \<and> tk_consumed t = None)) (db_tickets db)\<rparr>)
       \<lparr> tk_hash = h token, tk_expires = expires, tk_consumed = None, tk_creator = Some (h creator) \<rparr>"

datatype ticket_status = NoTicket | TicketPending | TicketUsed | TicketExpired

definition enrollmentTicketStatus :: "(string \<Rightarrow> string) \<Rightarrow> auth_db \<Rightarrow> string \<Rightarrow> string \<Rightarrow> ticket_status" where
  "enrollmentTicketStatus h db creator now =
     (case last_opt (filter (\<lambda>t. tk_creator t = Some (h creator)) (db_tickets db)) of
        None \<Rightarrow> NoTicket
      | Some t \<Rightarrow>
          if truthy_opt (tk_consumed t) then TicketUsed
          else if after_text (tk_expires t) now then TicketPending else TicketExpired)"

definition cancelEnrollmentTicket ::
  "(string \<Rightarrow> string) \<Rightarrow> auth_db \<Rightarrow> string \<Rightarrow> string \<Rightarrow> bool \<times> auth_db" where
  "cancelEnrollmentTicket h db creator now =
     (case last_opt (filter (\<lambda>t. tk_creator t = Some (h creator) \<and> tk_consumed t = None
              \<and> after_text (tk_expires t) now) (db_tickets db)) of
        None \<Rightarrow> (False, db)
      | Some t \<Rightarrow> (True, db\<lparr>db_tickets := filter (\<lambda>x. tk_hash x \<noteq> tk_hash t) (db_tickets db)\<rparr>))"

definition consumeTicket :: "(string \<Rightarrow> string) \<Rightarrow> auth_db \<Rightarrow> string \<Rightarrow> string \<Rightarrow> bool \<times> auth_db" where
  "consumeTicket h db token now =
     (let open_row = (\<lambda>t. tk_hash t = h token \<and> tk_consumed t = None \<and> after_text (tk_expires t) now) in
      if list_ex open_row (db_tickets db)
      then (True, db\<lparr>db_tickets := update_where open_row (\<lambda>t. t\<lparr>tk_consumed := Some now\<rparr>) (db_tickets db)\<rparr>)
      else (False, db))"

definition session_live :: "string \<Rightarrow> web_session \<Rightarrow> bool" where
  "session_live now s \<longleftrightarrow> ws_revoked s = None \<and> after_text (ws_expires s) now"

text \<open>A ticket that admits: unspent, unexpired, and its creator still signed in.\<close>

definition ticket_admits :: "auth_db \<Rightarrow> string \<Rightarrow> ticket_row \<Rightarrow> bool" where
  "ticket_admits db now t \<longleftrightarrow>
     tk_consumed t = None \<and> after_text (tk_expires t) now
     \<and> (case tk_creator t of
          None \<Rightarrow> True
        | Some creator \<Rightarrow> list_ex (\<lambda>s. ws_hash s = creator \<and> session_live now s) (db_sessions db))"

definition ticketAvailable :: "(string \<Rightarrow> string) \<Rightarrow> auth_db \<Rightarrow> string \<Rightarrow> string \<Rightarrow> bool" where
  "ticketAvailable h db token now =
     list_ex (\<lambda>t. tk_hash t = h token \<and> ticket_admits db now t) (db_tickets db)"

subsection \<open>Sessions\<close>

record new_session =
  ns_token :: string
  ns_device :: string
  ns_expires :: string

definition saveSession :: "(string \<Rightarrow> string) \<Rightarrow> auth_db \<Rightarrow> new_session \<Rightarrow> store_throw + auth_db" where
  "saveSession h db s =
     (if h (ns_token s) \<in> ws_hash ` set (db_sessions db) then Inl (UniqueViolation ''auth_sessions.token_hash'')
      else if ns_device s \<notin> ad_id ` set (db_devices db) then Inl ForeignKeyViolation
      else Inr (db\<lparr>db_sessions := db_sessions db @
             [\<lparr> ws_hash = h (ns_token s), ws_device = Some (ns_device s), ws_expires = ns_expires s,
                ws_revoked = None \<rparr>]\<rparr>))"

definition sessionDevice :: "(string \<Rightarrow> string) \<Rightarrow> auth_db \<Rightarrow> string \<Rightarrow> string \<Rightarrow> store_throw + string option" where
  "sessionDevice h db token now =
     (case List.find (\<lambda>s. ws_hash s = h token \<and> session_live now s) (db_sessions db) of
        None \<Rightarrow> Inr None
      | Some s \<Rightarrow>
          if truthy_opt (ws_device s)
          then (case authorizedDeviceId (coalesce (ws_device s) []) of
                  Inl e \<Rightarrow> Inl (DomainThrow e) | Inr d \<Rightarrow> Inr (Some d))
          else Inr None)"

definition revokeSession :: "(string \<Rightarrow> string) \<Rightarrow> auth_db \<Rightarrow> string \<Rightarrow> string \<Rightarrow> bool \<times> auth_db" where
  "revokeSession h db token now =
     (let open_row = (\<lambda>s. ws_hash s = h token \<and> ws_revoked s = None) in
      (list_ex open_row (db_sessions db),
       db\<lparr>db_sessions := update_where open_row (\<lambda>s. s\<lparr>ws_revoked := Some now\<rparr>) (db_sessions db)\<rparr>))"

subsection \<open>Completion of a ceremony\<close>

definition purpose_ceremony ::
  "(string \<Rightarrow> string) \<Rightarrow> auth_db \<Rightarrow> string \<Rightarrow> ceremony_purpose \<Rightarrow> string \<Rightarrow> ceremony_row option" where
  "purpose_ceremony h db token purpose now =
     List.find (\<lambda>c. ac_hash c = h token \<and> ac_purpose c = purpose \<and> ceremony_live now c) (db_ceremonies db)"

datatype registration_answer =
    Registered | BootstrapClaimed | TicketUnavailable | CredentialDuplicate | CeremonyUnavailable

definition spend_ticket :: "auth_db \<Rightarrow> string \<Rightarrow> string \<Rightarrow> auth_db option" where
  "spend_ticket db ticket now =
     (if list_ex (\<lambda>t. tk_hash t = ticket \<and> ticket_admits db now t) (db_tickets db)
      then Some (db\<lparr>db_tickets := update_where (\<lambda>t. tk_hash t = ticket \<and> ticket_admits db now t)
             (\<lambda>t. t\<lparr>tk_consumed := Some now\<rparr>) (db_tickets db)\<rparr>)
      else None)"

text \<open>What the ceremony admits: a ticket that is spent, or the first device.\<close>

definition admit_registration ::
  "auth_db \<Rightarrow> ceremony_row \<Rightarrow> string \<Rightarrow> registration_answer + auth_db" where
  "admit_registration db c now =
     (if truthy_opt (ac_ticket c)
      then (case spend_ticket db (coalesce (ac_ticket c) []) now of
              None \<Rightarrow> Inl TicketUnavailable | Some db' \<Rightarrow> Inr db')
      else if db_devices db \<noteq> [] then Inl BootstrapClaimed
      else Inr db)"

definition completeRegistration ::
  "(string \<Rightarrow> string) \<Rightarrow> auth_db \<Rightarrow> string \<Rightarrow> string \<Rightarrow> auth_device \<Rightarrow> new_session
     \<Rightarrow> store_throw + (registration_answer \<times> auth_db)" where
  "completeRegistration h db ceremony now d s =
     (if ns_device s \<noteq> ad_id d then Inl SessionDeviceMismatch
      else (case purpose_ceremony h db ceremony RegistrationCeremony now of
         None \<Rightarrow> Inr (CeremonyUnavailable, db)
       | Some c \<Rightarrow>
           (case admit_registration db c now of
              Inl answer \<Rightarrow> Inr (answer, db)
            | Inr db1 \<Rightarrow>
                (case insertDevice db1 d of
                   Inl e \<Rightarrow> if e = UniqueViolation ''auth_devices.credential_id''
                            then Inr (CredentialDuplicate, db) else Inl e
                 | Inr db2 \<Rightarrow>
                     (case saveSession h db2 s of
                        Inl e \<Rightarrow> Inl e
                      | Inr db3 \<Rightarrow> Inr (Registered, spend_ceremony h ceremony now db3))))))"

definition completeAuthentication ::
  "(string \<Rightarrow> string) \<Rightarrow> auth_db \<Rightarrow> string \<Rightarrow> string \<Rightarrow> auth_device \<Rightarrow> int \<Rightarrow> new_session
     \<Rightarrow> store_throw + (bool \<times> auth_db)" where
  "completeAuthentication h db ceremony now d counter s =
     (if ns_device s \<noteq> ad_id d then Inl SessionDeviceMismatch
      else if purpose_ceremony h db ceremony AuthenticationCeremony now = None then Inr (False, db)
      else (case advanceCounter db (ad_id d) (ad_counter d) (coalesce (ad_version d) 0) counter now of
         (False, db1) \<Rightarrow> Inr (False, db1)
       | (True, db1) \<Rightarrow>
           (case saveSession h db1 s of
              Inl e \<Rightarrow> Inl e
            | Inr db2 \<Rightarrow> Inr (True, spend_ceremony h ceremony now db2))))"

subsection \<open>The calls of the store\<close>

datatype store_call =
    InitializeOwner string
  | ClaimFirstDevice local_owner auth_device
  | AuthorizeDevice auth_device
  | RenameDevice string int string
  | AdvanceCounter string int int int string
  | RevokeDevice string string
  | SaveCeremony string new_ceremony "string option"
  | ConsumeCeremony string string
  | SaveTicket string string
  | IssueTicket string string string
  | CancelTicket string string
  | ConsumeTicket string string
  | CompleteRegistration string string auth_device new_session
  | CompleteAuthentication string string auth_device int new_session
  | SaveSession new_session
  | RevokeSession string string

abbreviation kept :: "'e + ('a \<times> 'd) \<Rightarrow> 'e + 'd" where
  "kept r \<equiv> (case r of Inl e \<Rightarrow> Inl e | Inr (_, db) \<Rightarrow> Inr db)"

fun auth_call :: "(string \<Rightarrow> string) \<Rightarrow> string \<Rightarrow> auth_db \<Rightarrow> store_call \<Rightarrow> store_throw + auth_db" where
  "auth_call h rp db (InitializeOwner handle) = kept (initializeOwner rp db handle)"
| "auth_call h rp db (ClaimFirstDevice owner d) = kept (claimFirstDevice db owner d)"
| "auth_call h rp db (AuthorizeDevice d) = kept (authorizeDevice db d)"
| "auth_call h rp db (RenameDevice device expected nickname) = kept (renameDevice db device expected nickname)"
| "auth_call h rp db (AdvanceCounter device expected version new used) =
     Inr (snd (advanceCounter db device expected version new used))"
| "auth_call h rp db (RevokeDevice device now) = kept (revokeDevice db device now)"
| "auth_call h rp db (SaveCeremony token c now) = saveCeremony h db token c now"
| "auth_call h rp db (ConsumeCeremony token now) = kept (consumeCeremony h db token now)"
| "auth_call h rp db (SaveTicket token expires) = saveTicket h db token expires"
| "auth_call h rp db (IssueTicket token creator expires) = issueEnrollmentTicket h db token creator expires"
| "auth_call h rp db (CancelTicket creator now) = Inr (snd (cancelEnrollmentTicket h db creator now))"
| "auth_call h rp db (ConsumeTicket token now) = Inr (snd (consumeTicket h db token now))"
| "auth_call h rp db (CompleteRegistration ceremony now d s) = kept (completeRegistration h db ceremony now d s)"
| "auth_call h rp db (CompleteAuthentication ceremony now d counter s) =
     kept (completeAuthentication h db ceremony now d counter s)"
| "auth_call h rp db (SaveSession s) = saveSession h db s"
| "auth_call h rp db (RevokeSession token now) = Inr (snd (revokeSession h db token now))"

abbreviation auth_run where
  "auth_run h rp \<equiv> run_commands (auth_call h rp)"

definition empty_auth_db :: auth_db where
  "empty_auth_db = \<lparr> db_settings = None, db_devices = [], db_ceremonies = [], db_tickets = [], db_sessions = [] \<rparr>"

end
