(* ===== verification/Authorization_Endpoints.thy ===== *)
theory Authorization_Endpoints
  imports Authorization_Store
begin

text \<open>
  The HTTP surface of the authorization (src/server/features/auth, src/server/platform/http/
  authorization-boundary.ts): the boundary every API request passes, the attempt gate, and the
  endpoints for registration, sign-in, enrollment tickets, devices, status and sign-out.

  A handler that awaits the WebAuthn library is two definitions, before and after the await; whatever
  others do to the store meanwhile is between them. \<open>h\<close> stands for SHA-256, \<open>b64\<close> for base64url, \<open>utc\<close> for
  the text of a time in milliseconds; random bytes, fresh identifiers and the answers of the library
  are arguments. A throw that reaches the framework is \<open>Inl\<close>.
\<close>

subsection \<open>Replies\<close>

datatype auth_cookie = SessionCookie | LoginCookie | RegistrationCookie

record reply =
  rp_status :: nat
  rp_code :: string
  rp_set :: "(auth_cookie \<times> string) list"
  rp_cleared :: "auth_cookie list"

definition http_answer :: "nat \<Rightarrow> string \<Rightarrow> reply" where
  "http_answer status text = \<lparr> rp_status = status, rp_code = text, rp_set = [], rp_cleared = [] \<rparr>"

datatype http_throw = StoreThrew store_throw | RandomnessInvalid | OptionsInvalid

record relying_party =
  rl_origin :: string
  rl_id :: string

subsection \<open>The boundary\<close>

text \<open>\<open>join\<close>.\<close>

fun join_with :: "string \<Rightarrow> string list \<Rightarrow> string" where
  "join_with sep [] = []"
| "join_with sep [s] = s"
| "join_with sep (s # t # rest) = s @ sep @ join_with sep (t # rest)"

definition cookie_part :: "string \<Rightarrow> string \<times> string list" where
  "cookie_part part = (case split_on (CHR ''='') (js_trim part) of [] \<Rightarrow> ([], []) | k # v \<Rightarrow> (k, v))"

text \<open>The loop of \<open>cookieValue\<close>; an empty or repeated value spoils the cookie.\<close>

fun cookie_loop :: "string \<Rightarrow> string option \<Rightarrow> string list \<Rightarrow> string option" where
  "cookie_loop name found [] = found"
| "cookie_loop name found (part # parts) =
     (case cookie_part part of
        (key, value) \<Rightarrow>
          if key \<noteq> name then cookie_loop name found parts
          else let candidate = join_with ''='' value in
            if candidate = [] \<or> found \<noteq> None then None
            else cookie_loop name (Some candidate) parts)"

definition cookieValue :: "string option \<Rightarrow> string \<Rightarrow> string option" where
  "cookieValue header name =
     (if \<not> truthy_opt header then None
      else cookie_loop name None (split_on (CHR '';'') (coalesce header [])))"

definition authorizationSessionDevice ::
  "(string \<Rightarrow> string) \<Rightarrow> auth_db \<Rightarrow> string option \<Rightarrow> string \<Rightarrow> store_throw + string option" where
  "authorizationSessionDevice h db header now =
     (case parseAuthorizationSessionId (cookieValue header ''gestalt_mobile_session'') of
        None \<Rightarrow> Inr None | Some session \<Rightarrow> sessionDevice h db session now)"

definition publicApi :: "string list" where
  "publicApi = [''GET /api/auth/status'', ''POST /api/auth/login/options'', ''POST /api/auth/login/verify'',
     ''POST /api/auth/logout'', ''POST /api/auth/register/options'', ''POST /api/auth/register/verify'']"

definition isUnsafe :: "string \<Rightarrow> bool" where
  "isUnsafe verb \<longleftrightarrow> verb \<noteq> ''GET'' \<and> verb \<noteq> ''HEAD'' \<and> verb \<noteq> ''OPTIONS''"

record http_request =
  hr_method :: string
  hr_url :: string
  hr_route :: string
  hr_origin :: "string option"
  hr_cookie :: "string option"

text \<open>\<open>None\<close> lets the request pass.\<close>

definition boundary ::
  "(string \<Rightarrow> string) \<Rightarrow> string \<Rightarrow> auth_db \<Rightarrow> string \<Rightarrow> http_request \<Rightarrow> store_throw + reply option" where
  "boundary h origin db now request =
     (if \<not> starts_with ''/api/'' (hr_url request) then Inr None
      else if isUnsafe (hr_method request) \<and> hr_origin request \<noteq> Some origin
      then Inr (Some (http_answer 403 ''ORIGIN_NOT_ALLOWED''))
      else if hr_method request @ '' '' @ hr_route request \<in> set publicApi then Inr None
      else (case authorizationSessionDevice h db (hr_cookie request) now of
         Inl e \<Rightarrow> Inl e
       | Inr (Some _) \<Rightarrow> Inr None
       | Inr None \<Rightarrow> Inr (Some (http_answer 401 ''AUTH_REQUIRED''))))"

subsection \<open>Attempts\<close>

record attempt =
  at_key :: string
  at_count :: nat
  at_expires :: int

definition allow_attempt ::
  "nat \<Rightarrow> int \<Rightarrow> attempt list \<Rightarrow> string \<Rightarrow> int \<Rightarrow> bool \<times> attempt list" where
  "allow_attempt limit window attempts key now =
     (let fresh = \<lparr> at_key = key, at_count = 1, at_expires = now + window \<rparr> in
      case List.find (\<lambda>a. at_key a = key) attempts of
        None \<Rightarrow> (True, map_set at_key fresh attempts)
      | Some old \<Rightarrow>
          if at_expires old \<le> now then (True, map_set at_key fresh attempts)
          else if at_count old \<ge> limit then (False, attempts)
          else (True, update_where (\<lambda>a. at_key a = key) (\<lambda>a. a\<lparr>at_count := at_count a + 1\<rparr>) attempts))"

subsection \<open>Registration\<close>

definition ceremony_lifetime :: int where
  "ceremony_lifetime = 10 * 60 * 1000"

definition session_lifetime :: int where
  "session_lifetime = 30 * 24 * 60 * 60 * 1000"

record pending_registration =
  pg_token :: string
  pg_challenge_bytes :: string
  pg_ticket :: "string option"
  pg_started :: int

text \<open>
  \<open>field\<close> is the validated body: \<open>None\<close> is a refused one, the inner option is the ticket. \<open>owner_bytes\<close>,
  \<open>correlation\<close> and \<open>challenge\<close> are the random bytes.
\<close>

definition register_options ::
  "(string \<Rightarrow> string) \<Rightarrow> (string \<Rightarrow> string) \<Rightarrow> (int \<Rightarrow> string) \<Rightarrow> relying_party \<Rightarrow> string option option
     \<Rightarrow> int \<Rightarrow> string \<Rightarrow> string \<Rightarrow> string \<Rightarrow> auth_db
     \<Rightarrow> http_throw + ((reply + pending_registration) \<times> auth_db)" where
  "register_options h b64 utc rp field now owner_bytes correlation challenge db =
     (case field of
        None \<Rightarrow> Inr (Inl (http_answer 400 ''INVALID_REGISTRATION_REQUEST''), db)
      | Some ticket_field \<Rightarrow>
          let ticket = parseEnrollmentTicketId ticket_field in
          if ticket_field \<noteq> None \<and> ticket = None
          then Inr (Inl (http_answer 400 ''INVALID_REGISTRATION_REQUEST''), db)
          else (case listAuthorizedDevices db of
            Inl e \<Rightarrow> Inl (StoreThrew (DomainThrow e))
          | Inr devices \<Rightarrow>
              if devices \<noteq> [] \<and> (case ticket of None \<Rightarrow> True | Some t \<Rightarrow> \<not> ticketAvailable h db t (utc now))
              then Inr (Inl (http_answer 403 ''ENROLLMENT_NOT_AUTHORIZED''), db)
              else if readOwner db = None \<and> length owner_bytes \<noteq> 32 then Inl RandomnessInvalid
              else (case (if readOwner db = None then initializeOwner (rl_id rp) db owner_bytes
                          else Inr (the (readOwner db), db)) of
                Inl e \<Rightarrow> Inl (StoreThrew e)
              | Inr (_, db1) \<Rightarrow>
                  if length correlation \<noteq> 32 \<or> length challenge \<noteq> 32 then Inl RandomnessInvalid
                  else (case passkeyCeremonyId (b64 correlation) of
                    Inl e \<Rightarrow> Inl (StoreThrew (DomainThrow e))
                  | Inr token \<Rightarrow>
                      Inr (Inr \<lparr> pg_token = token, pg_challenge_bytes = challenge, pg_ticket = ticket,
                                 pg_started = now \<rparr>, db1)))))"

text \<open>The attempt gate stands before both options handlers, with eight attempts in ten minutes for each address.\<close>

definition register_options_request ::
  "(string \<Rightarrow> string) \<Rightarrow> (string \<Rightarrow> string) \<Rightarrow> (int \<Rightarrow> string) \<Rightarrow> relying_party \<Rightarrow> attempt list \<Rightarrow> string
     \<Rightarrow> string option option \<Rightarrow> int \<Rightarrow> string \<Rightarrow> string \<Rightarrow> string \<Rightarrow> auth_db
     \<Rightarrow> (http_throw + ((reply + pending_registration) \<times> auth_db)) \<times> attempt list" where
  "register_options_request h b64 utc rp attempts ip field now owner_bytes correlation challenge db =
     (case allow_attempt 8 (10 * 60 * 1000) attempts (''register:'' @ ip) now of
        (False, attempts') \<Rightarrow> (Inr (Inl (http_answer 400 ''REGISTRATION_NOT_AVAILABLE''), db), attempts')
      | (True, attempts') \<Rightarrow>
          (register_options h b64 utc rp field now owner_bytes correlation challenge db, attempts'))"

definition register_options_sent ::
  "(string \<Rightarrow> string) \<Rightarrow> (int \<Rightarrow> string) \<Rightarrow> relying_party \<Rightarrow> bool \<Rightarrow> pending_registration \<Rightarrow> auth_db
     \<Rightarrow> http_throw + (reply \<times> auth_db)" where
  "register_options_sent h utc rp options_valid p db =
     (if \<not> options_valid then Inl OptionsInvalid
      else (case saveCeremony h db (pg_token p)
              \<lparr> nc_purpose = RegistrationCeremony, nc_challenge = pg_challenge_bytes p, nc_origin = rl_origin rp,
                nc_rp = rl_id rp, nc_expires = utc (pg_started p + ceremony_lifetime), nc_ticket = pg_ticket p \<rparr>
              (Some (utc (pg_started p))) of
         Inl e \<Rightarrow> if e = CapacityReached then Inr (http_answer 400 ''REGISTRATION_NOT_AVAILABLE'', db)
                  else Inl (StoreThrew e)
       | Inr db' \<Rightarrow> Inr ((http_answer 200 ''options'')\<lparr>rp_set := [(RegistrationCookie, pg_token p)]\<rparr>, db')))"

text \<open>What the library verified; \<open>None\<close> is a refused proof.\<close>

record registration_proof =
  vp_credential :: string
  vp_counter :: int
  vp_user :: bool
  vp_key :: string
  vp_transports :: "credential_transport list"
  vp_type :: credential_device
  vp_backed :: bool

record verification =
  vf_token :: string
  vf_nickname :: string
  vf_challenge :: string
  vf_origin :: string
  vf_rp :: string
  vf_now :: int

definition register_verify ::
  "(string \<Rightarrow> string) \<Rightarrow> (int \<Rightarrow> string) \<Rightarrow> string option \<Rightarrow> string option \<Rightarrow> int \<Rightarrow> auth_db
     \<Rightarrow> http_throw + (reply + verification)" where
  "register_verify h utc nickname cookie now db =
     (case (nickname, cookie) of
        (None, _) \<Rightarrow> Inr (Inl (http_answer 400 ''INVALID_REGISTRATION_REQUEST''))
      | (Some _, None) \<Rightarrow> Inr (Inl (http_answer 400 ''REGISTRATION_COOKIE_MISSING''))
      | (Some name, Some token) \<Rightarrow>
          (case deviceNickname name of
             Inl _ \<Rightarrow> Inr (Inl (http_answer 400 ''INVALID_DEVICE_NICKNAME''))
           | Inr nick \<Rightarrow>
               (case passkeyCeremonyId token of
                  Inl e \<Rightarrow> Inl (StoreThrew (DomainThrow e))
                | Inr ident \<Rightarrow>
                    (case readCeremony h db ident (utc now) of
                       Inl e \<Rightarrow> Inl (StoreThrew e)
                     | Inr None \<Rightarrow> Inr (Inl (http_answer 400 ''REGISTRATION_NOT_AVAILABLE''))
                     | Inr (Some c) \<Rightarrow>
                         if ac_purpose c \<noteq> RegistrationCeremony
                         then Inr (Inl (http_answer 400 ''REGISTRATION_NOT_AVAILABLE''))
                         else Inr (Inr \<lparr> vf_token = ident, vf_nickname = nick, vf_challenge = ac_challenge c,
                                vf_origin = ac_origin c, vf_rp = ac_rp c, vf_now = now \<rparr>)))))"

definition proved_device :: "(int \<Rightarrow> string) \<Rightarrow> verification \<Rightarrow> string \<Rightarrow> registration_proof \<Rightarrow> auth_device" where
  "proved_device utc v device p =
     \<lparr> ad_id = device, ad_credential = vp_credential p, ad_key = vp_key p, ad_counter = vp_counter p,
       ad_transports = vp_transports p, ad_type = vp_type p, ad_backed = vp_backed p,
       ad_nickname = vf_nickname v, ad_created = utc (vf_now v), ad_used = None, ad_version = None \<rparr>"

text \<open>\<open>session_bytes\<close> is the number of bytes the session identifier encodes.\<close>

definition register_verified ::
  "(string \<Rightarrow> string) \<Rightarrow> (int \<Rightarrow> string) \<Rightarrow> verification \<Rightarrow> registration_proof option \<Rightarrow> string \<Rightarrow> string \<Rightarrow> nat
     \<Rightarrow> auth_db \<Rightarrow> http_throw + (reply \<times> auth_db)" where
  "register_verified h utc v proved device session session_bytes db =
     (case proved of
        None \<Rightarrow> Inr (http_answer 400 ''REGISTRATION_VERIFICATION_FAILED'', db)
      | Some p \<Rightarrow>
          if \<not> vp_user p then Inr (http_answer 400 ''REGISTRATION_VERIFICATION_FAILED'', db)
          else if session_bytes \<noteq> 32 then Inl RandomnessInvalid
          else (case completeRegistration h db (vf_token v) (utc (vf_now v)) (proved_device utc v device p)
                  \<lparr> ns_token = session, ns_device = device, ns_expires = utc (vf_now v + session_lifetime) \<rparr> of
             Inl e \<Rightarrow> (case e of DomainThrow _ \<Rightarrow> Inr (http_answer 400 ''REGISTRATION_VERIFICATION_FAILED'', db)
                       | _ \<Rightarrow> Inl (StoreThrew e))
           | Inr (outcome, db') \<Rightarrow>
               if outcome = BootstrapClaimed then Inr (http_answer 409 ''BOOTSTRAP_ALREADY_CLAIMED'', db')
               else if outcome \<noteq> Registered then Inr (http_answer 400 ''REGISTRATION_NOT_AVAILABLE'', db')
               else Inr (\<lparr> rp_status = 201, rp_code = ''authenticated'', rp_set = [(SessionCookie, session)],
                           rp_cleared = [RegistrationCookie] \<rparr>, db')))"

subsection \<open>Signing in\<close>

record pending_login =
  pl_token :: string
  pl_challenge :: string
  pl_started :: int

definition login_options ::
  "(string \<Rightarrow> string) \<Rightarrow> int \<Rightarrow> string \<Rightarrow> string \<Rightarrow> auth_db \<Rightarrow> http_throw + (reply + pending_login)" where
  "login_options b64 now correlation challenge db =
     (case listAuthorizedDevices db of
        Inl e \<Rightarrow> Inl (StoreThrew (DomainThrow e))
      | Inr devices \<Rightarrow>
          if devices = [] then Inr (Inl (http_answer 400 ''AUTHENTICATION_FAILED''))
          else if length correlation \<noteq> 32 \<or> length challenge \<noteq> 32 then Inl RandomnessInvalid
          else Inr (Inr \<lparr> pl_token = b64 correlation, pl_challenge = challenge, pl_started = now \<rparr>))"

definition login_options_request ::
  "(string \<Rightarrow> string) \<Rightarrow> attempt list \<Rightarrow> string \<Rightarrow> int \<Rightarrow> string \<Rightarrow> string \<Rightarrow> auth_db
     \<Rightarrow> (http_throw + (reply + pending_login)) \<times> attempt list" where
  "login_options_request b64 attempts ip now correlation challenge db =
     (case allow_attempt 8 (10 * 60 * 1000) attempts (''login:'' @ ip) now of
        (False, attempts') \<Rightarrow> (Inr (Inl (http_answer 400 ''AUTHENTICATION_FAILED'')), attempts')
      | (True, attempts') \<Rightarrow> (login_options b64 now correlation challenge db, attempts'))"

definition login_options_sent ::
  "(string \<Rightarrow> string) \<Rightarrow> (int \<Rightarrow> string) \<Rightarrow> relying_party \<Rightarrow> bool \<Rightarrow> pending_login \<Rightarrow> auth_db
     \<Rightarrow> http_throw + (reply \<times> auth_db)" where
  "login_options_sent h utc rp options_valid p db =
     (if \<not> options_valid then Inl OptionsInvalid
      else (case passkeyCeremonyId (pl_token p) of
         Inl e \<Rightarrow> Inl (StoreThrew (DomainThrow e))
       | Inr token \<Rightarrow>
           (case saveCeremony h db token
              \<lparr> nc_purpose = AuthenticationCeremony, nc_challenge = pl_challenge p, nc_origin = rl_origin rp,
                nc_rp = rl_id rp, nc_expires = utc (pl_started p + ceremony_lifetime), nc_ticket = None \<rparr>
              (Some (utc (pl_started p))) of
              Inl e \<Rightarrow> if e = CapacityReached then Inr (http_answer 400 ''AUTHENTICATION_FAILED'', db)
                       else Inl (StoreThrew e)
            | Inr db' \<Rightarrow> Inr ((http_answer 200 ''options'')\<lparr>rp_set := [(LoginCookie, token)]\<rparr>, db'))))"

record assertion_proof =
  as_credential :: string
  as_counter :: int
  as_user :: bool

record login_verification =
  lv_token :: string
  lv_device :: auth_device
  lv_challenge :: string
  lv_origin :: string
  lv_now :: int

text \<open>\<open>credential\<close> is the identifier in the validated body, \<open>None\<close> a refused one.\<close>

definition login_verify ::
  "(string \<Rightarrow> string) \<Rightarrow> (int \<Rightarrow> string) \<Rightarrow> string option \<Rightarrow> string option \<Rightarrow> int \<Rightarrow> auth_db
     \<Rightarrow> http_throw + (reply + login_verification)" where
  "login_verify h utc credential cookie now db =
     (case (credential, cookie) of
        (Some cred, Some token) \<Rightarrow>
          (case passkeyCeremonyId token of
             Inl e \<Rightarrow> Inl (StoreThrew (DomainThrow e))
           | Inr ident \<Rightarrow>
               (case readCeremony h db ident (utc now) of
                  Inl e \<Rightarrow> Inl (StoreThrew e)
                | Inr None \<Rightarrow> Inr (Inl (http_answer 400 ''AUTHENTICATION_FAILED''))
                | Inr (Some c) \<Rightarrow>
                    if ac_purpose c \<noteq> AuthenticationCeremony
                    then Inr (Inl (http_answer 400 ''AUTHENTICATION_FAILED''))
                    else (case webAuthnCredentialId cred of
                      Inl e \<Rightarrow> Inl (StoreThrew (DomainThrow e))
                    | Inr credential_id \<Rightarrow>
                        (case findDeviceByCredentialId db credential_id of
                           Inl e \<Rightarrow> Inl (StoreThrew e)
                         | Inr None \<Rightarrow> Inr (Inl (http_answer 400 ''AUTHENTICATION_FAILED''))
                         | Inr (Some d) \<Rightarrow>
                             Inr (Inr \<lparr> lv_token = ident, lv_device = d, lv_challenge = ac_challenge c,
                                        lv_origin = ac_origin c, lv_now = now \<rparr>)))))
      | _ \<Rightarrow> Inr (Inl (http_answer 400 ''AUTHENTICATION_FAILED'')))"

definition login_verified ::
  "(string \<Rightarrow> string) \<Rightarrow> (int \<Rightarrow> string) \<Rightarrow> login_verification \<Rightarrow> assertion_proof option \<Rightarrow> string \<Rightarrow> nat
     \<Rightarrow> auth_db \<Rightarrow> http_throw + (reply \<times> auth_db)" where
  "login_verified h utc v proved session session_bytes db =
     (case proved of
        None \<Rightarrow> Inr (http_answer 400 ''AUTHENTICATION_FAILED'', db)
      | Some p \<Rightarrow>
          if \<not> as_user p \<or> as_credential p \<noteq> ad_credential (lv_device v)
          then Inr (http_answer 400 ''AUTHENTICATION_FAILED'', db)
          else if session_bytes \<noteq> 32 then Inl RandomnessInvalid
          else (case completeAuthentication h db (lv_token v) (utc (lv_now v)) (lv_device v) (as_counter p)
                  \<lparr> ns_token = session, ns_device = ad_id (lv_device v),
                    ns_expires = utc (lv_now v + session_lifetime) \<rparr> of
             Inl e \<Rightarrow> Inl (StoreThrew e)
           | Inr (False, db') \<Rightarrow> Inr (http_answer 400 ''AUTHENTICATION_FAILED'', db')
           | Inr (True, db') \<Rightarrow>
               Inr (\<lparr> rp_status = 200, rp_code = ''authenticated'', rp_set = [(SessionCookie, session)],
                      rp_cleared = [LoginCookie] \<rparr>, db')))"

subsection \<open>Tickets, devices and sign-out\<close>

definition signed_in ::
  "(string \<Rightarrow> string) \<Rightarrow> auth_db \<Rightarrow> string option \<Rightarrow> string \<Rightarrow> store_throw + string option" where
  "signed_in h db cookie now =
     (case parseAuthorizationSessionId cookie of
        None \<Rightarrow> Inr None
      | Some session \<Rightarrow>
          (case sessionDevice h db session now of
             Inl e \<Rightarrow> Inl e | Inr None \<Rightarrow> Inr None | Inr (Some _) \<Rightarrow> Inr (Some session)))"

definition create_ticket ::
  "(string \<Rightarrow> string) \<Rightarrow> (string \<Rightarrow> string) \<Rightarrow> (int \<Rightarrow> string) \<Rightarrow> string option \<Rightarrow> int \<Rightarrow> int \<Rightarrow> string \<Rightarrow> auth_db
     \<Rightarrow> http_throw + (reply \<times> auth_db)" where
  "create_ticket h b64 utc cookie now later_now entropy db =
     (case signed_in h db cookie (utc now) of
        Inl e \<Rightarrow> Inl (StoreThrew e)
      | Inr None \<Rightarrow> Inr (http_answer 401 [], db)
      | Inr (Some session) \<Rightarrow>
          if length entropy < 32 then Inl RandomnessInvalid
          else (case enrollmentTicketId (b64 entropy) of
             Inl e \<Rightarrow> Inl (StoreThrew (DomainThrow e))
           | Inr ticket \<Rightarrow>
               (case issueEnrollmentTicket h db ticket session (utc (later_now + ceremony_lifetime)) of
                  Inl e \<Rightarrow> Inl (StoreThrew e)
                | Inr db' \<Rightarrow> Inr (http_answer 201 ticket, db'))))"

definition status_text :: "ticket_status \<Rightarrow> string" where
  "status_text s = (case s of NoTicket \<Rightarrow> ''none'' | TicketPending \<Rightarrow> ''pending'' | TicketUsed \<Rightarrow> ''used''
     | TicketExpired \<Rightarrow> ''expired'')"

definition ticket_status_reply ::
  "(string \<Rightarrow> string) \<Rightarrow> string option \<Rightarrow> string \<Rightarrow> auth_db \<Rightarrow> http_throw + reply" where
  "ticket_status_reply h cookie now db =
     (case signed_in h db cookie now of
        Inl e \<Rightarrow> Inl (StoreThrew e)
      | Inr None \<Rightarrow> Inr (http_answer 401 [])
      | Inr (Some session) \<Rightarrow> Inr (http_answer 200 (status_text (enrollmentTicketStatus h db session now))))"

text \<open>A status still pending after the cancellation is refused by the schema of the reply.\<close>

definition cancel_ticket ::
  "(string \<Rightarrow> string) \<Rightarrow> string option \<Rightarrow> string \<Rightarrow> auth_db \<Rightarrow> http_throw + (reply \<times> auth_db)" where
  "cancel_ticket h cookie now db =
     (case signed_in h db cookie now of
        Inl e \<Rightarrow> Inl (StoreThrew e)
      | Inr None \<Rightarrow> Inr (http_answer 401 [], db)
      | Inr (Some session) \<Rightarrow>
          let db' = snd (cancelEnrollmentTicket h db session now);
              status = enrollmentTicketStatus h db' session now in
          if status = TicketPending then Inl OptionsInvalid
          else Inr (http_answer 200 (status_text status), db'))"

record device_metadata =
  dm_id :: string
  dm_nickname :: string
  dm_created :: string
  dm_used :: "string option"
  dm_current :: bool

definition listAuthorizedDeviceMetadata ::
  "auth_db \<Rightarrow> string option \<Rightarrow> auth_error + device_metadata list" where
  "listAuthorizedDeviceMetadata db current =
     (case listAuthorizedDevices db of
        Inl e \<Rightarrow> Inl e
      | Inr devices \<Rightarrow> Inr (map (\<lambda>d. \<lparr> dm_id = ad_id d, dm_nickname = ad_nickname d, dm_created = ad_created d,
          dm_used = ad_used d, dm_current = (current = Some (ad_id d)) \<rparr>) devices))"

definition renameAuthorizedDevice ::
  "auth_db \<Rightarrow> string \<Rightarrow> string \<Rightarrow> store_throw + (rename_answer \<times> auth_db)" where
  "renameAuthorizedDevice db device nickname =
     (case deviceNickname nickname of
        Inl e \<Rightarrow> Inl (DomainThrow e)
      | Inr name \<Rightarrow>
          (case findDevice db device of
             Inl e \<Rightarrow> Inl e
           | Inr None \<Rightarrow> Inr (DeviceNotFound, db)
           | Inr (Some d) \<Rightarrow> renameDevice db device (coalesce (ad_version d) 0) name))"

definition domain_refusal :: "auth_db \<Rightarrow> store_throw \<Rightarrow> http_throw + (reply \<times> auth_db)" where
  "domain_refusal db e =
     (case e of DomainThrow _ \<Rightarrow> Inr (http_answer 400 ''INVALID_DEVICE_REQUEST'', db) | _ \<Rightarrow> Inl (StoreThrew e))"

text \<open>\<open>device\<close> and \<open>nickname\<close> are the validated parameters, \<open>None\<close> refused ones.\<close>

definition rename_endpoint ::
  "string option \<Rightarrow> string option \<Rightarrow> auth_db \<Rightarrow> http_throw + (reply \<times> auth_db)" where
  "rename_endpoint device nickname db =
     (case (device, nickname) of
        (Some raw, Some name) \<Rightarrow>
          (case authorizedDeviceId raw of
             Inl e \<Rightarrow> domain_refusal db (DomainThrow e)
           | Inr ident \<Rightarrow>
               (case renameAuthorizedDevice db ident name of
                  Inl e \<Rightarrow> domain_refusal db e
                | Inr (Renamed, db') \<Rightarrow> Inr (http_answer 204 [], db')
                | Inr (outcome, db') \<Rightarrow>
                    Inr (http_answer (if outcome = StaleDevice then 409 else 404) ''DEVICE_NOT_AVAILABLE'', db')))
      | _ \<Rightarrow> Inr (http_answer 400 ''INVALID_DEVICE_REQUEST'', db))"

definition revoke_endpoint ::
  "(string \<Rightarrow> string) \<Rightarrow> string option \<Rightarrow> string option \<Rightarrow> string \<Rightarrow> string \<Rightarrow> auth_db
     \<Rightarrow> http_throw + (reply \<times> auth_db)" where
  "revoke_endpoint h device cookie now later_now db =
     (case device of
        None \<Rightarrow> Inr (http_answer 400 ''INVALID_DEVICE_REQUEST'', db)
      | Some raw \<Rightarrow>
          (case authorizedDeviceId raw of
             Inl e \<Rightarrow> domain_refusal db (DomainThrow e)
           | Inr ident \<Rightarrow>
               (case authorizationSessionDevice h db cookie now of
                  Inl e \<Rightarrow> domain_refusal db e
                | Inr current \<Rightarrow>
                    (case revokeDevice db ident later_now of
                       Inl e \<Rightarrow> domain_refusal db e
                     | Inr (FinalDevice, db') \<Rightarrow> Inr (http_answer 409 ''LAST_DEVICE_REQUIRED'', db')
                     | Inr (NoSuchDevice, db') \<Rightarrow> Inr (http_answer 404 ''DEVICE_NOT_AVAILABLE'', db')
                     | Inr (Revoked, db') \<Rightarrow>
                         Inr ((http_answer 204 [])\<lparr>rp_cleared := (if current = Some ident then [SessionCookie] else [])\<rparr>,
                              db')))))"

definition logout :: "(string \<Rightarrow> string) \<Rightarrow> string option \<Rightarrow> string \<Rightarrow> auth_db \<Rightarrow> reply \<times> auth_db" where
  "logout h cookie now db =
     ((http_answer 204 [])\<lparr>rp_cleared := [SessionCookie]\<rparr>,
      case parseAuthorizationSessionId cookie of
        None \<Rightarrow> db | Some session \<Rightarrow> snd (revokeSession h db session now))"

definition auth_status ::
  "(string \<Rightarrow> string) \<Rightarrow> string option \<Rightarrow> string \<Rightarrow> auth_db \<Rightarrow> http_throw + string" where
  "auth_status h cookie now db =
     (case signed_in h db cookie now of
        Inl e \<Rightarrow> Inl (StoreThrew e)
      | Inr (Some _) \<Rightarrow> Inr ''authenticated''
      | Inr None \<Rightarrow>
          (case listAuthorizedDevices db of
             Inl e \<Rightarrow> Inl (StoreThrew (DomainThrow e))
           | Inr devices \<Rightarrow> Inr (if devices \<noteq> [] then ''locked'' else ''bootstrap'')))"

end
