(* ===== verification/Authorization_Facts.thy ===== *)
theory Authorization_Facts
  imports Authorization_Store
begin

text \<open>
  What the authorization store guarantees, whatever sequence of calls it receives: the last device is
  never lost, a revoked session never comes back, an admission is spent by the registration that uses
  it, an assertion cannot be replayed, and the store implements the aggregate of the domain.
\<close>

subsection \<open>The effects of the calls\<close>

text \<open>
  Every call is a sequence of elementary effects on the tables; \<open>K\<close> holds the hashes of the ceremony
  tokens that may be issued.
\<close>

inductive auth_effect :: "string set \<Rightarrow> auth_db \<Rightarrow> auth_db \<Rightarrow> bool" for K where
  settings: "auth_effect K db (db\<lparr>db_settings := x\<rparr>)"
| device_in: "ad_id d \<notin> ad_id ` set (db_devices db) \<Longrightarrow> ad_credential d \<notin> ad_credential ` set (db_devices db) \<Longrightarrow>
    auth_effect K db (db\<lparr>db_devices := db_devices db @ [device_row d]\<rparr>)"
| devices_changed: "(\<And>d. ad_id (f d) = ad_id d \<and> ad_credential (f d) = ad_credential d
      \<and> (ad_version d \<noteq> None \<longrightarrow> ad_version (f d) \<noteq> None)) \<Longrightarrow>
    auth_effect K db (db\<lparr>db_devices := update_where P f (db_devices db)\<rparr>)"
| device_out: "2 \<le> length (db_devices db) \<Longrightarrow>
    auth_effect K db (db\<lparr>db_sessions := unlink_sessions device (end_sessions device now (db_sessions db)),
      db_devices := filter (\<lambda>d. ad_id d \<noteq> device) (db_devices db)\<rparr>)"
| ceremony_in: "ac_hash c \<in> K \<Longrightarrow> ac_consumed c = None \<Longrightarrow> length (pending_ceremonies now db) < 64 \<Longrightarrow>
    ac_hash c \<notin> ac_hash ` set (pending_ceremonies now db) \<Longrightarrow>
    auth_effect K db (db\<lparr>db_ceremonies := pending_ceremonies now db @ [c]\<rparr>)"
| ceremonies_spent: "auth_effect K db (db\<lparr>db_ceremonies :=
      update_where P (\<lambda>c. c\<lparr>ac_consumed := Some now\<rparr>) (db_ceremonies db)\<rparr>)"
| ticket_in: "tk_hash t \<notin> tk_hash ` set (db_tickets db) \<Longrightarrow>
    auth_effect K db (db\<lparr>db_tickets := db_tickets db @ [t]\<rparr>)"
| tickets_spent: "auth_effect K db (db\<lparr>db_tickets := update_where P (\<lambda>t. t\<lparr>tk_consumed := Some now\<rparr>) (db_tickets db)\<rparr>)"
| tickets_dropped: "(\<And>t. t \<in> set (db_tickets db) \<Longrightarrow> tk_consumed t \<noteq> None \<Longrightarrow> P t) \<Longrightarrow>
    auth_effect K db (db\<lparr>db_tickets := filter P (db_tickets db)\<rparr>)"
| session_in: "ws_hash s \<notin> ws_hash ` set (db_sessions db) \<Longrightarrow> ws_device s = Some d \<Longrightarrow>
    d \<in> ad_id ` set (db_devices db) \<Longrightarrow> ws_revoked s = None \<Longrightarrow>
    auth_effect K db (db\<lparr>db_sessions := db_sessions db @ [s]\<rparr>)"
| sessions_ended: "auth_effect K db (db\<lparr>db_sessions :=
      update_where P (\<lambda>s. s\<lparr>ws_revoked := Some now\<rparr>) (db_sessions db)\<rparr>)"

abbreviation "auth_effects K \<equiv> (auth_effect K)\<^sup>*\<^sup>*"

lemmas effect_step = r_into_rtranclp [of "auth_effect K" for K]

lemma insert_effect: "insertDevice db d = Inr db' \<Longrightarrow> auth_effects K db db'"
  by (auto simp: insertDevice_def split: if_splits intro!: effect_step auth_effect.device_in)

lemma settings_effects: "auth_effects K db (db\<lparr>db_settings := x\<rparr>)"
  by (rule effect_step [OF auth_effect.settings])

lemma owner_effect: "initializeOwner rp db handle = Inr (owner, db') \<Longrightarrow> auth_effects K db db'"
  by (auto simp: initializeOwner_def settings_effects split: if_splits option.splits)

lemma claim_effect: "claimFirstDevice db owner d = Inr (b, db') \<Longrightarrow> auth_effects K db db'"
  by (auto simp: claimFirstDevice_def split: if_splits sum.splits dest: insert_effect)

lemma authorize_effect: "authorizeDevice db d = Inr (b, db') \<Longrightarrow> auth_effects K db db'"
  by (auto simp: authorizeDevice_def split: if_splits sum.splits dest: insert_effect)

lemma rename_effect: "renameDevice db device v nickname = Inr (b, db') \<Longrightarrow> auth_effects K db db'"
  by (auto simp: renameDevice_def split: if_splits sum.splits intro!: effect_step auth_effect.devices_changed)

lemma advance_effect: "auth_effects K db (snd (advanceCounter db device c v new used))"
  by (auto simp: advanceCounter_def intro!: effect_step auth_effect.devices_changed)

lemma revoke_effect: "revokeDevice db device now = Inr (b, db') \<Longrightarrow> auth_effects K db db'"
  by (auto simp: revokeDevice_def split: if_splits sum.splits option.splits intro!: effect_step auth_effect.device_out)

lemma save_ceremony_effect: "saveCeremony h db token c now = Inr db' \<Longrightarrow> h token \<in> K \<Longrightarrow> auth_effects K db db'"
  by (auto simp: saveCeremony_def Let_def split: if_splits intro!: effect_step auth_effect.ceremony_in)

lemma consume_ceremony_effect: "consumeCeremony h db token now = Inr (c, db') \<Longrightarrow> auth_effects K db db'"
  by (auto simp: consumeCeremony_def split: option.splits sum.splits intro!: effect_step auth_effect.ceremonies_spent)

lemma spend_ceremony_effect: "auth_effects K db (spend_ceremony h token now db)"
  by (auto simp: spend_ceremony_def intro!: effect_step auth_effect.ceremonies_spent)

lemma insert_ticket_effect: "insert_ticket db t = Inr db' \<Longrightarrow> auth_effects K db db'"
  by (auto simp: insert_ticket_def split: if_splits intro!: effect_step auth_effect.ticket_in)

lemma issue_effect:
  assumes "issueEnrollmentTicket h db token creator expires = Inr db'" shows "auth_effects K db db'"
proof -
  have "auth_effects K db (db\<lparr>db_tickets := filter (\<lambda>t. \<not> (tk_creator t = Some (h creator) \<and> tk_consumed t = None)) (db_tickets db)\<rparr>)"
    by (intro effect_step auth_effect.tickets_dropped) auto
  also have "auth_effects K \<dots> db'" by (rule insert_ticket_effect [OF assms [unfolded issueEnrollmentTicket_def]])
  finally show ?thesis .
qed

lemma save_session_effect: "saveSession h db s = Inr db' \<Longrightarrow> auth_effects K db db'"
  by (auto simp: saveSession_def split: if_splits intro!: effect_step auth_effect.session_in)

lemma revoke_session_effect: "auth_effects K db (snd (revokeSession h db token now))"
  by (auto simp: revokeSession_def Let_def intro!: effect_step auth_effect.sessions_ended)

lemma consume_ticket_effect: "auth_effects K db (snd (consumeTicket h db token now))"
  by (auto simp: consumeTicket_def Let_def intro!: effect_step auth_effect.tickets_spent)

lemma spend_ticket_effect: "spend_ticket db ticket now = Some db' \<Longrightarrow> auth_effects K db db'"
  by (auto simp: spend_ticket_def split: if_splits intro!: effect_step auth_effect.tickets_spent)

lemma admit_effect: "admit_registration db c now = Inr db' \<Longrightarrow> auth_effects K db db'"
  by (auto simp: admit_registration_def split: if_splits option.splits dest: spend_ticket_effect)

lemma last_opt_in: "last_opt xs = Some x \<Longrightarrow> x \<in> set xs"
  by (auto simp: last_opt_eq split: if_splits)

lemma cancel_effect:
  assumes "keys_distinct tk_hash (db_tickets db)"
  shows "auth_effects K db (snd (cancelEnrollmentTicket h db creator now))"
proof (cases "last_opt (filter (\<lambda>t. tk_creator t = Some (h creator) \<and> tk_consumed t = None
    \<and> after_text (tk_expires t) now) (db_tickets db))")
  case None
  then show ?thesis by (simp add: cancelEnrollmentTicket_def)
next
  case (Some t)
  then have t: "t \<in> set (db_tickets db)" "tk_consumed t = None" by (auto dest: last_opt_in)
  have "tk_hash x \<noteq> tk_hash t" if "x \<in> set (db_tickets db)" "tk_consumed x \<noteq> None" for x
    using keys_distinct_inj [OF assms that(1) t(1)] that(2) t(2) by auto
  with Some show ?thesis
    by (auto simp: cancelEnrollmentTicket_def intro!: effect_step auth_effect.tickets_dropped)
qed

lemma registration_cases:
  assumes "completeRegistration h db ceremony now d s = Inr (answer, db')"
  obtains (refused) "db' = db" and "answer \<noteq> Registered"
  | (registered) c db1 db2 db3 where "answer = Registered" and "ns_device s = ad_id d"
      and "purpose_ceremony h db ceremony RegistrationCeremony now = Some c"
      and "admit_registration db c now = Inr db1" and "insertDevice db1 d = Inr db2"
      and "saveSession h db2 s = Inr db3" and "db' = spend_ceremony h ceremony now db3"
proof (cases "purpose_ceremony h db ceremony RegistrationCeremony now")
  case None
  with assms refused show ?thesis by (auto simp: completeRegistration_def split: if_splits)
next
  case (Some c)
  show ?thesis
  proof (cases "admit_registration db c now")
    case (Inl e)
    then have "e \<noteq> Registered" by (auto simp: admit_registration_def split: if_splits option.splits)
    with Inl Some assms refused show ?thesis by (auto simp: completeRegistration_def split: if_splits)
  next
    case admitted: (Inr db1)
    show ?thesis
    proof (cases "insertDevice db1 d")
      case (Inl e)
      with Some admitted assms refused show ?thesis by (auto simp: completeRegistration_def split: if_splits)
    next
      case (Inr db2)
      with Some admitted assms registered show ?thesis
        by (auto simp: completeRegistration_def split: if_splits sum.splits)
    qed
  qed
qed

lemma registration_effect:
  assumes "completeRegistration h db ceremony now d s = Inr (answer, db')" shows "auth_effects K db db'"
  using assms
proof (cases rule: registration_cases)
  case (registered c db1 db2 db3)
  have "auth_effects K db db1" by (rule admit_effect [OF registered(4)])
  also have "auth_effects K db1 db2" by (rule insert_effect [OF registered(5)])
  also have "auth_effects K db2 db3" by (rule save_session_effect [OF registered(6)])
  also have "auth_effects K db3 db'" using spend_ceremony_effect registered(7) by simp
  finally show ?thesis .
qed simp

lemma authentication_cases:
  assumes "completeAuthentication h db ceremony now d counter s = Inr (b, db')"
  obtains (refused) "db' = db" and "\<not> b"
  | (signed_in) db1 db2 where "b" and "ns_device s = ad_id d"
      and "purpose_ceremony h db ceremony AuthenticationCeremony now \<noteq> None"
      and "advanceCounter db (ad_id d) (ad_counter d) (coalesce (ad_version d) 0) counter now = (True, db1)"
      and "saveSession h db1 s = Inr db2" and "db' = spend_ceremony h ceremony now db2"
proof (cases "advanceCounter db (ad_id d) (ad_counter d) (coalesce (ad_version d) 0) counter now")
  case (Pair moved db1)
  show ?thesis
  proof (cases moved)
    case False
    with Pair have "db1 = db" by (auto simp: advanceCounter_def split: if_splits)
    with False Pair assms refused show ?thesis by (auto simp: completeAuthentication_def split: if_splits)
  next
    case True
    with Pair assms refused signed_in show ?thesis
      by (auto simp: completeAuthentication_def split: if_splits sum.splits)
  qed
qed

lemma authentication_effect:
  assumes "completeAuthentication h db ceremony now d counter s = Inr (b, db')" shows "auth_effects K db db'"
  using assms
proof (cases rule: authentication_cases)
  case (signed_in db1 db2)
  have "auth_effects K db db1"
    using advance_effect [of K db "ad_id d" "ad_counter d" "coalesce (ad_version d) 0" counter now] signed_in(4) by simp
  also have "auth_effects K db1 db2" by (rule save_session_effect [OF signed_in(5)])
  also have "auth_effects K db2 db'" using spend_ceremony_effect signed_in(6) by simp
  finally show ?thesis .
qed simp

definition issued_hashes :: "(string \<Rightarrow> string) \<Rightarrow> store_call \<Rightarrow> string set" where
  "issued_hashes h call = (case call of SaveCeremony token c now \<Rightarrow> {h token} | _ \<Rightarrow> {})"

lemma call_effects:
  assumes "keys_distinct tk_hash (db_tickets db)" and "auth_call h rp db call = Inr db'"
    and "issued_hashes h call \<subseteq> K"
  shows "auth_effects K db db'"
  using assms(2,3)
  by (cases call)
     (auto simp: issued_hashes_def split: sum.splits
        intro: owner_effect claim_effect authorize_effect rename_effect advance_effect revoke_effect
          save_ceremony_effect consume_ceremony_effect issue_effect save_session_effect revoke_session_effect
          consume_ticket_effect cancel_effect [OF assms(1)] registration_effect authentication_effect
          insert_ticket_effect simp: saveTicket_def)

subsection \<open>Invariant\<close>

definition session_linked :: "auth_db \<Rightarrow> web_session \<Rightarrow> bool" where
  "session_linked db s \<longleftrightarrow>
     (ws_revoked s = None \<longrightarrow> ws_device s \<noteq> None)
     \<and> (\<forall>d. ws_device s = Some d \<longrightarrow> d \<in> ad_id ` set (db_devices db))"

definition auth_ok :: "auth_db \<Rightarrow> bool" where
  "auth_ok db \<longleftrightarrow>
     keys_distinct ad_id (db_devices db) \<and> keys_distinct ad_credential (db_devices db)
     \<and> keys_distinct ac_hash (db_ceremonies db) \<and> keys_distinct tk_hash (db_tickets db)
     \<and> keys_distinct ws_hash (db_sessions db)
     \<and> (\<forall>d \<in> set (db_devices db). ad_version d \<noteq> None)
     \<and> (\<forall>s \<in> set (db_sessions db). session_linked db s)
     \<and> length (filter (\<lambda>c. ac_consumed c = None) (db_ceremonies db)) \<le> 64"

lemma empty_auth_ok: "auth_ok empty_auth_db"
  by (simp add: auth_ok_def empty_auth_db_def)

lemma open_ceremonies_update:
  "length (filter (\<lambda>c. ac_consumed c = None) (update_where P (\<lambda>c. c\<lparr>ac_consumed := Some now\<rparr>) cs))
     \<le> length (filter (\<lambda>c. ac_consumed c = None) cs)"
  by (induction cs) auto

lemma pending_open: "filter (\<lambda>c. ac_consumed c = None) (pending_ceremonies now db) = pending_ceremonies now db"
  by (auto simp: pending_ceremonies_def intro!: filter_cong)

lemma ended_and_unlinked:
  assumes "s \<in> set (unlink_sessions device (end_sessions device now rows))"
  obtains (other) "s \<in> set rows" and "ws_device s \<noteq> Some device"
  | (ended) s0 where "s0 \<in> set rows" and "ws_device s0 = Some device" and "ws_hash s = ws_hash s0"
      and "ws_device s = None" and "ws_revoked s \<noteq> None"
proof -
  from assms obtain s1 where s1: "s1 \<in> set (end_sessions device now rows)"
    "s = (if ws_device s1 = Some device then s1\<lparr>ws_device := None\<rparr> else s1)"
    by (auto simp: unlink_sessions_def in_set_update_where)
  from s1(1) obtain s0 where s0: "s0 \<in> set rows"
    "s1 = (if ws_device s0 = Some device \<and> ws_revoked s0 = None then s0\<lparr>ws_revoked := Some now\<rparr> else s0)"
    by (auto simp: end_sessions_def in_set_update_where)
  show ?thesis
  proof (cases "ws_device s0 = Some device")
    case True
    with s0 s1 have "ws_hash s = ws_hash s0" "ws_device s = None" "ws_revoked s \<noteq> None"
      by (auto split: if_splits)
    with ended [OF s0(1) True] show ?thesis by blast
  next
    case False
    with s0 s1 other show ?thesis by simp
  qed
qed

lemma unlinked_still_linked:
  assumes "s \<in> set (unlink_sessions device (end_sessions device now (db_sessions db)))"
    and "\<forall>s \<in> set (db_sessions db). session_linked db s"
  shows "session_linked (db\<lparr>db_devices := filter (\<lambda>d. ad_id d \<noteq> device) (db_devices db)\<rparr>) s"
  using assms(1)
proof (cases rule: ended_and_unlinked)
  case other
  with assms(2) show ?thesis by (fastforce simp: session_linked_def)
qed (simp add: session_linked_def)

lemma effect_ok: "auth_effect K db db' \<Longrightarrow> auth_ok db \<Longrightarrow> auth_ok db'"
proof (induction rule: auth_effect.induct)
  case (device_in d db)
  then show ?case
    by (auto simp: auth_ok_def keys_distinct_append1 device_row_def session_linked_def)
next
  case (devices_changed f db P)
  then have "ad_id ` set (update_where P f (db_devices db)) = ad_id ` set (db_devices db)"
    by (metis list.set_map map_update_where)
  with devices_changed show ?case
    by (auto simp: auth_ok_def keys_distinct_update in_set_update_where session_linked_def)
next
  case (device_out db device now)
  have "keys_distinct ws_hash (unlink_sessions device (end_sessions device now (db_sessions db)))"
    using device_out(2) by (simp add: auth_ok_def unlink_sessions_def end_sessions_def keys_distinct_update)
  moreover have "session_linked (db\<lparr>db_devices := filter (\<lambda>d. ad_id d \<noteq> device) (db_devices db)\<rparr>) s"
    if "s \<in> set (unlink_sessions device (end_sessions device now (db_sessions db)))" for s
    using that by (rule unlinked_still_linked) (use device_out(2) in \<open>simp add: auth_ok_def\<close>)
  ultimately show ?case
    using device_out(2) by (auto simp: auth_ok_def keys_distinct_filter session_linked_def)
next
  case (ceremony_in c now db)
  have "keys_distinct ac_hash (pending_ceremonies now db)"
    using ceremony_in(5) by (simp add: auth_ok_def pending_ceremonies_def keys_distinct_filter)
  with ceremony_in show ?case
    by (auto simp: auth_ok_def keys_distinct_append1 pending_open session_linked_def)
next
  case (ceremonies_spent db P now)
  with order_trans [OF open_ceremonies_update] show ?case
    by (auto simp: auth_ok_def keys_distinct_update session_linked_def)
next
  case (session_in s db d)
  then show ?case by (auto simp: auth_ok_def keys_distinct_append1 session_linked_def)
next
  case (sessions_ended db P now)
  then show ?case
    by (auto simp: auth_ok_def keys_distinct_update in_set_update_where session_linked_def split: if_splits)
qed (auto simp: auth_ok_def keys_distinct_append1 keys_distinct_update keys_distinct_filter session_linked_def)

subsection \<open>What lasts\<close>

lemma updated_in: "x \<in> set xs \<Longrightarrow> (if P x then f x else x) \<in> set (update_where P f xs)"
  by (auto simp: in_set_update_where)

locale lasting =
  fixes K :: "string set" and lasts :: "auth_db \<Rightarrow> bool"
  assumes effect_lasts: "auth_effect K db db' \<Longrightarrow> auth_ok db \<Longrightarrow> lasts db \<Longrightarrow> lasts db'"
begin

lemma effects_last: "auth_effects K db db' \<Longrightarrow> auth_ok db \<Longrightarrow> lasts db \<Longrightarrow> auth_ok db' \<and> lasts db'"
  by (induction rule: rtranclp_induct) (auto intro: effect_ok effect_lasts)

lemma call_lasts:
  "auth_call h rp db call = Inr db' \<Longrightarrow> issued_hashes h call \<subseteq> K \<Longrightarrow> auth_ok db \<Longrightarrow> lasts db \<Longrightarrow>
     auth_ok db' \<and> lasts db'"
  using effects_last [OF call_effects [of db h rp call db' K]] by (auto simp: auth_ok_def)

lemma calls_last:
  "\<forall>call \<in> set calls. issued_hashes h call \<subseteq> K \<Longrightarrow> auth_ok db \<Longrightarrow> lasts db \<Longrightarrow>
     auth_ok (auth_run h rp db calls) \<and> lasts (auth_run h rp db calls)"
proof (induction calls arbitrary: db)
  case (Cons call calls)
  show ?case
  proof (cases "auth_call h rp db call")
    case (Inl e)
    with Cons show ?thesis by simp
  next
    case (Inr db')
    with call_lasts [OF Inr] Cons show ?thesis by simp
  qed
qed simp

end

interpretation always: lasting UNIV "\<lambda>_. True"
  by unfold_locales simp

interpretation authorization: fallible_stepper "auth_call h rp" auth_ok for h rp
  by unfold_locales (use always.call_lasts in blast)

interpretation signed_up: lasting UNIV "\<lambda>db. db_devices db \<noteq> []"
proof
  fix db db' assume "auth_effect UNIV db db'" "auth_ok db" "db_devices db \<noteq> []"
  then show "db_devices db' \<noteq> []"
  proof (induction rule: auth_effect.induct)
    case (devices_changed f db P)
    then show ?case by (simp add: update_where_def)
  next
    case (device_out db device now)
    show ?case
    proof
      assume "db_devices (db\<lparr>db_sessions := unlink_sessions device (end_sessions device now (db_sessions db)),
        db_devices := filter (\<lambda>d. ad_id d \<noteq> device) (db_devices db)\<rparr>) = []"
      then have "set (map ad_id (db_devices db)) \<subseteq> {device}" by (auto simp: filter_empty_conv)
      then have "card (set (map ad_id (db_devices db))) \<le> 1" using card_mono [of "{device}"] by simp
      moreover have "card (set (map ad_id (db_devices db))) = length (db_devices db)"
        using device_out(2) distinct_card [of "map ad_id (db_devices db)"] by (simp add: auth_ok_def keys_distinct_def)
      ultimately show False using device_out(1) by simp
    qed
  qed simp_all
qed

definition dead_session :: "string \<Rightarrow> auth_db \<Rightarrow> bool" where
  "dead_session k db \<longleftrightarrow> (\<exists>s \<in> set (db_sessions db). ws_hash s = k \<and> ws_revoked s \<noteq> None)"

interpretation signed_out: lasting UNIV "dead_session k" for k
proof
  fix db db' assume "auth_effect UNIV db db'" "auth_ok db" "dead_session k db"
  then show "dead_session k db'"
  proof (induction rule: auth_effect.induct)
    case (device_out db device now)
    then obtain s where s: "s \<in> set (db_sessions db)" "ws_hash s = k" "ws_revoked s \<noteq> None"
      by (auto simp: dead_session_def)
    then have "s \<in> set (end_sessions device now (db_sessions db))"
      by (force simp: end_sessions_def in_set_update_where)
    then have "(if ws_device s = Some device then s\<lparr>ws_device := None\<rparr> else s)
        \<in> set (unlink_sessions device (end_sessions device now (db_sessions db)))"
      by (auto simp: unlink_sessions_def in_set_update_where)
    with s show ?case
      by (auto simp: dead_session_def intro!: bexI [of _ "if ws_device s = Some device then s\<lparr>ws_device := None\<rparr> else s"])
  next
    case (sessions_ended db P now)
    then obtain s where "s \<in> set (db_sessions db)" "ws_hash s = k" "ws_revoked s \<noteq> None"
      by (auto simp: dead_session_def)
    with updated_in [of s "db_sessions db" P "\<lambda>s. s\<lparr>ws_revoked := Some now\<rparr>"] show ?case
      by (auto simp: dead_session_def intro: bexI [rotated] split: if_splits)
  qed (auto simp: dead_session_def)
qed

definition spent_ticket :: "string \<Rightarrow> auth_db \<Rightarrow> bool" where
  "spent_ticket k db \<longleftrightarrow> (\<exists>t \<in> set (db_tickets db). tk_hash t = k \<and> tk_consumed t \<noteq> None)"

interpretation enrolled: lasting UNIV "spent_ticket k" for k
proof
  fix db db' assume "auth_effect UNIV db db'" "auth_ok db" "spent_ticket k db"
  then show "spent_ticket k db'"
  proof (induction rule: auth_effect.induct)
    case (tickets_spent db P now)
    then obtain t where "t \<in> set (db_tickets db)" "tk_hash t = k" "tk_consumed t \<noteq> None"
      by (auto simp: spent_ticket_def)
    with updated_in [of t "db_tickets db" P "\<lambda>t. t\<lparr>tk_consumed := Some now\<rparr>"] show ?case
      by (auto simp: spent_ticket_def intro: bexI [rotated] split: if_splits)
  qed (auto simp: spent_ticket_def)
qed

definition ceremony_over :: "string \<Rightarrow> auth_db \<Rightarrow> bool" where
  "ceremony_over k db \<longleftrightarrow> (\<forall>c \<in> set (db_ceremonies db). ac_hash c = k \<longrightarrow> ac_consumed c \<noteq> None)"

interpretation completed: lasting "- {k}" "ceremony_over k" for k
proof
  fix db db' assume "auth_effect (- {k}) db db'" "auth_ok db" "ceremony_over k db"
  then show "ceremony_over k db'"
    by (induction rule: auth_effect.induct)
       (auto simp: ceremony_over_def in_set_update_where pending_ceremonies_def split: if_splits)
qed

subsection \<open>Owner and devices\<close>

lemma every_hash [simp]: "issued_hashes h call \<subseteq> UNIV"
  by simp

lemma run_ok: "auth_ok db \<Longrightarrow> auth_ok (auth_run h rp db calls)"
  by (rule authorization.commands_inv)

lemma bootstrap_refused:
  assumes "db_devices db \<noteq> []" and "\<not> truthy_opt (ac_ticket c)"
    and "purpose_ceremony h db ceremony RegistrationCeremony now = Some c"
  shows "completeRegistration h db ceremony now d s \<noteq> Inr (Registered, db')"
  using assms by (auto simp: completeRegistration_def admit_registration_def)

text \<open>
  C7: the owner is never locked out, and nobody can claim an owned relay. Once a device is
  authorized, every sequence of calls leaves at least one; identities, credentials and tokens stay
  unique and at most 64 ceremonies are open. Afterwards claiming the first device is refused, and so
  is every registration whose ceremony carries no ticket.
\<close>
theorem owner_is_never_locked_out:
  assumes "auth_ok db" and "db_devices db \<noteq> []"
  shows "auth_ok (auth_run h rp db calls) \<and> db_devices (auth_run h rp db calls) \<noteq> []
    \<and> (\<forall>owner d. claimFirstDevice (auth_run h rp db calls) owner d
          \<in> {Inl OwnerNotInitialized, Inr (False, auth_run h rp db calls)})
    \<and> (\<forall>ceremony now c d s.
          purpose_ceremony h (auth_run h rp db calls) ceremony RegistrationCeremony now = Some c \<and> \<not> truthy_opt (ac_ticket c)
          \<longrightarrow> completeRegistration h (auth_run h rp db calls) ceremony now d s
                \<in> {Inl SessionDeviceMismatch, Inr (BootstrapClaimed, auth_run h rp db calls)})"
proof -
  from signed_up.calls_last [of calls h db rp] assms have
    "auth_ok (auth_run h rp db calls)" "db_devices (auth_run h rp db calls) \<noteq> []" by simp_all
  then show ?thesis
    by (auto simp: claimFirstDevice_def completeRegistration_def admit_registration_def)
qed

subsection \<open>Revocation\<close>

lemma dead_is_refused:
  assumes "auth_ok db" and "dead_session (h token) db"
  shows "sessionDevice h db token now = Inr None"
    and "tk_creator t = Some (h token) \<Longrightarrow> \<not> ticket_admits db now t"
proof -
  have none: "\<not> (ws_hash s = h token \<and> session_live now s)" if "s \<in> set (db_sessions db)" for s
  proof
    assume s: "ws_hash s = h token \<and> session_live now s"
    from assms(2) obtain r where r: "r \<in> set (db_sessions db)" "ws_hash r = h token" "ws_revoked r \<noteq> None"
      by (auto simp: dead_session_def)
    have "r = s" using keys_distinct_inj [of ws_hash "db_sessions db" r s] assms(1) r s that by (simp add: auth_ok_def)
    with r s show False by (simp add: session_live_def)
  qed
  then have "List.find (\<lambda>s. ws_hash s = h token \<and> session_live now s) (db_sessions db) = None"
    by (simp add: find_None_iff)
  then show "sessionDevice h db token now = Inr None" by (simp add: sessionDevice_def)
  show "tk_creator t = Some (h token) \<Longrightarrow> \<not> ticket_admits db now t"
    using none by (auto simp: ticket_admits_def list_ex_iff)
qed

lemma found_in: "List.find P xs = Some x \<Longrightarrow> x \<in> set xs \<and> P x"
  by (auto simp: find_Some_iff)

lemma session_row:
  assumes "sessionDevice h db token now = Inr (Some device)"
  obtains s where "s \<in> set (db_sessions db)" and "ws_hash s = h token" and "session_live now s"
    and "ws_device s = Some device"
proof -
  from assms obtain s where s: "List.find (\<lambda>s. ws_hash s = h token \<and> session_live now s) (db_sessions db) = Some s"
    "truthy_opt (ws_device s)" "authorizedDeviceId (coalesce (ws_device s) []) = Inr device"
    by (auto simp: sessionDevice_def split: option.splits if_splits sum.splits)
  then obtain d where d: "ws_device s = Some d" by (cases "ws_device s") auto
  with s(3) have "d = device" by (auto simp: authorizedDeviceId_def opaqueId_def opaqueIdOrNull_def split: if_splits)
  with found_in [OF s(1)] d that show ?thesis by blast
qed

lemma revoked_ends_sessions:
  assumes "revokeDevice db device now = Inr (Revoked, db')"
    and "s \<in> set (db_sessions db)" and "ws_device s = Some device"
  shows "dead_session (ws_hash s) db'"
proof -
  from assms(1) have db': "db' = db\<lparr>db_sessions := unlink_sessions device (end_sessions device now (db_sessions db)),
      db_devices := filter (\<lambda>d. ad_id d \<noteq> device) (db_devices db)\<rparr>"
    by (auto simp: revokeDevice_def split: sum.splits option.splits if_splits)
  let ?s1 = "if ws_device s = Some device \<and> ws_revoked s = None then s\<lparr>ws_revoked := Some now\<rparr> else s"
  have "?s1 \<in> set (end_sessions device now (db_sessions db))"
    unfolding end_sessions_def by (rule updated_in [OF assms(2)])
  from updated_in [OF this, of "\<lambda>s. ws_device s = Some device" "\<lambda>s. s\<lparr>ws_device := None\<rparr>"]
  have "?s1\<lparr>ws_device := None\<rparr> \<in> set (db_sessions db')"
    using assms(3) by (auto simp: db' unlink_sessions_def split: if_splits)
  moreover have "ws_revoked ?s1 \<noteq> None" "ws_hash ?s1 = ws_hash s" using assms(3) by auto
  ultimately show ?thesis
    by (auto simp: dead_session_def intro!: bexI [of _ "?s1\<lparr>ws_device := None\<rparr>"])
qed

text \<open>
  C8: a revoked device stays out. Every session that a device had when it was revoked is refused
  from then on, whatever is done to the store and even if the device is authorized again, and so is
  every enrollment ticket that such a session issued.
\<close>
theorem revoked_device_stays_out:
  assumes "auth_ok db" and "sessionDevice h db token t = Inr (Some device)"
    and "revokeDevice db device now = Inr (Revoked, db')"
    and "tk_creator ticket = Some (h token)"
  shows "sessionDevice h (auth_run h rp db' calls) token t' = Inr None
    \<and> \<not> ticket_admits (auth_run h rp db' calls) t' ticket
    \<and> device \<notin> ad_id ` set (db_devices db')"
proof -
  from session_row [OF assms(2)] obtain s where s: "s \<in> set (db_sessions db)" "ws_hash s = h token" "ws_device s = Some device"
    by metis
  from revoked_ends_sessions [OF assms(3) s(1,3)] s(2) have dead: "dead_session (h token) db'" by simp
  have ok: "auth_ok db'"
    using always.effects_last [OF revoke_effect [OF assms(3)] assms(1)] by simp
  from signed_out.calls_last [of calls h db' "h token" rp] ok dead have
    "auth_ok (auth_run h rp db' calls)" "dead_session (h token) (auth_run h rp db' calls)" by simp_all
  with dead_is_refused assms(4) have "sessionDevice h (auth_run h rp db' calls) token t' = Inr None"
    "\<not> ticket_admits (auth_run h rp db' calls) t' ticket" by blast+
  moreover have "device \<notin> ad_id ` set (db_devices db')"
    using assms(3) by (auto simp: revokeDevice_def split: sum.splits option.splits if_splits)
  ultimately show ?thesis by blast
qed

subsection \<open>Admission\<close>

lemma spent_is_refused:
  assumes "auth_ok db" and "spent_ticket k db" shows "spend_ticket db k now = None"
proof -
  from assms(2) obtain t where t: "t \<in> set (db_tickets db)" "tk_hash t = k" "tk_consumed t \<noteq> None"
    by (auto simp: spent_ticket_def)
  have "\<not> (tk_hash x = k \<and> ticket_admits db now x)" if "x \<in> set (db_tickets db)" for x
    using keys_distinct_inj [of tk_hash "db_tickets db" x t] assms(1) t that
    by (auto simp: auth_ok_def ticket_admits_def)
  then show ?thesis by (auto simp: spend_ticket_def list_ex_iff)
qed

lemma spends: 
  assumes "spend_ticket db k now = Some db'"
  shows "spent_ticket k db' \<and> (\<exists>t \<in> set (db_tickets db). tk_hash t = k \<and> ticket_admits db now t)"
proof -
  from assms obtain t where t: "t \<in> set (db_tickets db)" "tk_hash t = k" "ticket_admits db now t"
    and db': "db' = db\<lparr>db_tickets := update_where (\<lambda>t. tk_hash t = k \<and> ticket_admits db now t)
             (\<lambda>t. t\<lparr>tk_consumed := Some now\<rparr>) (db_tickets db)\<rparr>"
    by (auto simp: spend_ticket_def list_ex_iff split: if_splits)
  from updated_in [OF t(1), of "\<lambda>t. tk_hash t = k \<and> ticket_admits db now t" "\<lambda>t. t\<lparr>tk_consumed := Some now\<rparr>"] t
  have "t\<lparr>tk_consumed := Some now\<rparr> \<in> set (db_tickets db')" by (simp add: db')
  then have "spent_ticket k db'"
    using t(2) by (auto simp: spent_ticket_def intro!: bexI [of _ "t\<lparr>tk_consumed := Some now\<rparr>"])
  with t show ?thesis by blast
qed

lemma insert_fields:
  "insertDevice db d = Inr db' \<Longrightarrow> db' = db\<lparr>db_devices := db_devices db @ [device_row d]\<rparr>"
  by (auto simp: insertDevice_def split: if_splits)

lemma save_session_fields:
  "saveSession h db s = Inr db' \<Longrightarrow>
     db' = db\<lparr>db_sessions := db_sessions db @ [\<lparr> ws_hash = h (ns_token s), ws_device = Some (ns_device s),
       ws_expires = ns_expires s, ws_revoked = None \<rparr>]\<rparr>"
  by (auto simp: saveSession_def split: if_splits)

text \<open>
  C9: an admission is spent by the registration that uses it. A device is registered either as the
  first one or on an enrollment ticket that is unspent, unexpired and whose creator is still signed
  in; and after it, whatever is done to the store, no ceremony that carries the same ticket, or none,
  registers another device.
\<close>
theorem admission_is_spent:
  assumes "auth_ok db" and "completeRegistration h db ceremony now d s = Inr (Registered, db')"
    and "purpose_ceremony h db ceremony RegistrationCeremony now = Some c"
    and "purpose_ceremony h (auth_run h rp db' calls) ceremony2 RegistrationCeremony now2 = Some c2"
    and "ac_ticket c2 = ac_ticket c"
  shows "(if truthy_opt (ac_ticket c)
      then \<exists>t \<in> set (db_tickets db). Some (tk_hash t) = ac_ticket c \<and> ticket_admits db now t
      else db_devices db = [])
    \<and> completeRegistration h (auth_run h rp db' calls) ceremony2 now2 d2 s2 \<noteq> Inr (Registered, db'')"
  using assms(2)
proof (cases rule: registration_cases)
  case (registered c' db1 db2 db3)
  with assms(3) have c': "c' = c" by simp
  have ok: "auth_ok db'" using always.effects_last [OF registration_effect [OF assms(2)] assms(1)] by simp
  have db3: "db_tickets db3 = db_tickets db1" "db_devices db3 = db_devices db1 @ [device_row d]"
    using insert_fields [OF registered(5)] save_session_fields [OF registered(6)] by simp_all
  show ?thesis
  proof (cases "truthy_opt (ac_ticket c)")
    case True
    then obtain k where k: "ac_ticket c = Some k" by (cases "ac_ticket c") auto
    with True registered(4) c' have "spend_ticket db k now = Some db1"
      by (auto simp: admit_registration_def split: option.splits)
    note spent = spends [OF this]
    with registered(7) db3(1) have "spent_ticket k db'" by (simp add: spent_ticket_def spend_ceremony_def)
    with enrolled.calls_last [of calls h db' k rp] ok have
      "auth_ok (auth_run h rp db' calls)" "spent_ticket k (auth_run h rp db' calls)" by simp_all
    from spent_is_refused [OF this] True k assms(4,5)
    have "completeRegistration h (auth_run h rp db' calls) ceremony2 now2 d2 s2 \<noteq> Inr (Registered, db'')"
      by (auto simp: completeRegistration_def admit_registration_def)
    with spent k True show ?thesis by auto
  next
    case False
    with registered(4) c' have "db_devices db = []" by (auto simp: admit_registration_def split: if_splits)
    moreover have "db_devices db' \<noteq> []" using registered(7) db3(2) by (simp add: spend_ceremony_def)
    with signed_up.calls_last [of calls h db' rp] ok have "db_devices (auth_run h rp db' calls) \<noteq> []" by simp
    from bootstrap_refused [OF this _ assms(4)] False assms(5)
    have "completeRegistration h (auth_run h rp db' calls) ceremony2 now2 d2 s2 \<noteq> Inr (Registered, db'')" by simp
    ultimately show ?thesis using False by simp
  qed
qed simp

subsection \<open>Signing in\<close>

lemma advanced:
  assumes "advanceCounter db device c v new used = (True, db')"
  obtains d P f where "d \<in> set (db_devices db)" and "ad_id d = device" and "ad_counter d = c" and "ad_version d = Some v"
    and "new > c \<or> (new = 0 \<and> ad_type d = MultiDevice)"
    and "db' = db\<lparr>db_devices := update_where P f (db_devices db)\<rparr>" and "\<And>x. ad_id (f x) = ad_id x"
  using assms
proof (cases "list_ex (synced_zero device c v new) (db_devices db)")
  case True
  then obtain d where "d \<in> set (db_devices db)" "synced_zero device c v new d" by (auto simp: list_ex_iff)
  with True assms show ?thesis
    by (intro that [of d "synced_zero device c v new"
          "\<lambda>d. d\<lparr>ad_used := Some used, ad_version := map_option (\<lambda>v. v + 1) (ad_version d)\<rparr>"]) (auto simp: advanceCounter_def synced_zero_def)
next
  case False
  with assms have "list_ex (counter_grows device c v new) (db_devices db)"
    by (auto simp: advanceCounter_def split: if_splits)
  then obtain d where "d \<in> set (db_devices db)" "counter_grows device c v new d" by (auto simp: list_ex_iff)
  with False assms show ?thesis
    by (intro that [of d "counter_grows device c v new"
          "\<lambda>d. d\<lparr>ad_counter := new, ad_used := Some used, ad_version := map_option (\<lambda>v. v + 1) (ad_version d)\<rparr>"]) (auto simp: advanceCounter_def counter_grows_def split: if_splits)
qed

lemma ceremony_spent:
  "ceremony_over (h token) (spend_ceremony h token now db)"
  by (auto simp: ceremony_over_def spend_ceremony_def in_set_update_where)

lemma over_is_refused:
  "ceremony_over (h token) db \<Longrightarrow> purpose_ceremony h db token purpose now = None"
  by (auto simp: ceremony_over_def purpose_ceremony_def find_None_iff ceremony_live_def)

text \<open>
  C10: signing in spends its proof. A sign-in succeeds only for a device the store holds with exactly
  the counter and version that were verified, and the counter grows unless a synced credential shows
  zero; the new session then names that device; and until a ceremony is issued under the same token
  no call completes that ceremony again.
\<close>
theorem sign_in_spends_its_proof:
  assumes "auth_ok db" and "completeAuthentication h db ceremony now d counter s = Inr (True, db')"
    and "\<forall>call \<in> set calls. h ceremony \<notin> issued_hashes h call"
    and "authorizedDeviceId (ad_id d) = Inr (ad_id d)" and "after_text (ns_expires s) t"
  shows "(\<exists>r \<in> set (db_devices db). ad_id r = ad_id d \<and> ad_counter r = ad_counter d
        \<and> ad_version r = Some (coalesce (ad_version d) 0)
        \<and> (counter > ad_counter d \<or> (counter = 0 \<and> ad_type r = MultiDevice)))
    \<and> sessionDevice h db' (ns_token s) t = Inr (Some (ad_id d))
    \<and> completeAuthentication h (auth_run h rp db' calls) ceremony now2 d2 counter2 s2
        \<in> {Inl SessionDeviceMismatch, Inr (False, auth_run h rp db' calls)}"
  using assms(2)
proof (cases rule: authentication_cases)
  case (signed_in db1 db2)
  from signed_in(4) obtain r P f where r: "r \<in> set (db_devices db)" "ad_id r = ad_id d" "ad_counter r = ad_counter d"
    "ad_version r = Some (coalesce (ad_version d) 0)"
    "counter > ad_counter d \<or> (counter = 0 \<and> ad_type r = MultiDevice)"
    and db1: "db1 = db\<lparr>db_devices := update_where P f (db_devices db)\<rparr>"
    by (rule advanced) blast
  have ok: "auth_ok db'"
    using always.effects_last [OF authentication_effect [OF assms(2)] assms(1)] by simp
  have over: "ceremony_over (h ceremony) db'" using signed_in(6) ceremony_spent by simp
  from completed.calls_last [of calls h "h ceremony" db' rp] ok over assms(3)
  have "ceremony_over (h ceremony) (auth_run h rp db' calls)" by (auto simp: subset_eq)
  from over_is_refused [where h = h and token = ceremony, OF this] have refused: "completeAuthentication h (auth_run h rp db' calls) ceremony now2 d2 counter2 s2
      \<in> {Inl SessionDeviceMismatch, Inr (False, auth_run h rp db' calls)}"
    by (simp add: completeAuthentication_def)
  let ?row = "\<lparr> ws_hash = h (ns_token s), ws_device = Some (ns_device s), ws_expires = ns_expires s, ws_revoked = None \<rparr>"
  from save_session_fields [OF signed_in(5)] signed_in(6) have rows: "db_sessions db' = db_sessions db1 @ [?row]"
    by (simp add: spend_ceremony_def)
  have "h (ns_token s) \<notin> ws_hash ` set (db_sessions db1)" using signed_in(5) by (auto simp: saveSession_def split: if_splits)
  then have "List.find (\<lambda>x. ws_hash x = h (ns_token s) \<and> session_live t x) (db_sessions db1) = None"
    unfolding find_None_iff by (metis imageI)
  with rows assms(5) have "List.find (\<lambda>x. ws_hash x = h (ns_token s) \<and> session_live t x) (db_sessions db') = Some ?row"
    by (simp add: find_append session_live_def)
  moreover have "ad_id d \<noteq> []"
    using assms(4) by (auto simp: authorizedDeviceId_def opaqueId_def opaqueIdOrNull_def)
  ultimately have "sessionDevice h db' (ns_token s) t = Inr (Some (ad_id d))"
    using assms(4) signed_in(2) by (simp add: sessionDevice_def truthy_def)
  with r refused show ?thesis by blast
qed simp

subsection \<open>The store implements the aggregate\<close>

text \<open>The version is the store's own, for its optimistic updates.\<close>

definition unversioned :: "auth_device \<Rightarrow> auth_device" where
  "unversioned d = d\<lparr>ad_version := None\<rparr>"

definition implements :: "auth_db \<Rightarrow> owner_authorization \<Rightarrow> bool" where
  "implements db a \<longleftrightarrow> map unversioned (oa_devices a) = map unversioned (db_devices db)"

lemma unversioned_fields [simp]:
  "ad_id (unversioned d) = ad_id d" "ad_credential (unversioned d) = ad_credential d"
  "ad_counter (unversioned d) = ad_counter d" "ad_type (unversioned d) = ad_type d"
  "unversioned (d\<lparr>ad_version := v\<rparr>) = unversioned d" "unversioned (device_row d) = unversioned d"
  by (simp_all add: unversioned_def device_row_def)

lemma implements_keys:
  assumes "implements db a"
  shows "map ad_id (oa_devices a) = map ad_id (db_devices db)"
    and "map ad_credential (oa_devices a) = map ad_credential (db_devices db)"
    and "length (oa_devices a) = length (db_devices db)"
proof -
  have "map ad_id (map unversioned (oa_devices a)) = map ad_id (map unversioned (db_devices db))"
    "map ad_credential (map unversioned (oa_devices a)) = map ad_credential (map unversioned (db_devices db))"
    "length (map unversioned (oa_devices a)) = length (map unversioned (db_devices db))"
    using assms by (simp_all only: implements_def)
  then show "map ad_id (oa_devices a) = map ad_id (db_devices db)"
    "map ad_credential (oa_devices a) = map ad_credential (db_devices db)"
    "length (oa_devices a) = length (db_devices db)" by (simp_all add: comp_def)
qed

lemma find_unversioned:
  "map unversioned xs = map unversioned ys \<Longrightarrow>
     map_option unversioned (List.find (\<lambda>d. ad_id d = k) xs) = map_option unversioned (List.find (\<lambda>d. ad_id d = k) ys)"
proof (induction xs arbitrary: ys)
  case (Cons x xs)
  then obtain y zs where y: "ys = y # zs" "unversioned x = unversioned y" "map unversioned xs = map unversioned zs"
    by (cases ys) auto
  then have "ad_id x = ad_id y" by (metis unversioned_fields(1))
  with y Cons.IH [of zs] show ?case by simp
qed simp

lemma filter_unversioned:
  "map unversioned (filter (\<lambda>d. P (ad_id d)) xs) = filter (\<lambda>d. P (ad_id d)) (map unversioned xs)"
  by (induction xs) auto

lemma update_unversioned:
  assumes "map unversioned xs = map unversioned ys"
    and "\<And>x y. unversioned x = unversioned y \<Longrightarrow> P x = Q y \<and> (Q y \<longrightarrow> unversioned (f x) = unversioned (g y))"
  shows "map unversioned (update_where P f xs) = map unversioned (update_where Q g ys)"
  using assms(1)
proof (induction xs arbitrary: ys)
  case (Cons x xs)
  then obtain y zs where y: "ys = y # zs" "unversioned x = unversioned y" "map unversioned xs = map unversioned zs"
    by (cases ys) auto
  with assms(2) [OF y(2)] Cons.IH [OF y(3)] show ?case by auto
qed simp

lemma revoke_implements:
  assumes "implements db a" and "revokeDevice db device now = Inr (answer, db')"
  shows "case answer of
      Revoked \<Rightarrow> (\<exists>a'. revoke a device = Inr (a', DeviceRevoked device) \<and> implements db' a')
    | FinalDevice \<Rightarrow> revoke a device = Inl DeviceRequired
    | NoSuchDevice \<Rightarrow> revoke a device = Inl DeviceUnknown"
proof -
  note same = find_unversioned [OF assms(1) [unfolded implements_def], of device]
  note len = implements_keys(3) [OF assms(1)]
  show ?thesis
  proof (cases "List.find (\<lambda>d. ad_id d = device) (db_devices db)")
    case None
    with same have "requireDevice a device = Inl DeviceUnknown" by (simp add: requireDevice_def)
    with None assms(2) show ?thesis by (auto simp: revokeDevice_def findDevice_def found_device_def revoke_def)
  next
    case (Some d)
    with same obtain d' where "requireDevice a device = Inr d'" by (auto simp: requireDevice_def)
    moreover have "db_devices db \<noteq> []" using Some by auto
    moreover have "map unversioned (filter (\<lambda>d. ad_id d \<noteq> device) (oa_devices a))
        = map unversioned (filter (\<lambda>d. ad_id d \<noteq> device) (db_devices db))"
      using assms(1) filter_unversioned [of "\<lambda>i. i \<noteq> device"] by (simp add: implements_def)
    ultimately show ?thesis
      using Some assms(2) len
      by (cases "length (db_devices db)")
         (auto simp: revokeDevice_def findDevice_def found_device_def revoke_def implements_def
            split: sum.splits if_splits)
  qed
qed

lemma copy_copy:
  assumes "copyDevice dp d = Inr c"
  shows "copyDevice dp c = Inr c" and "unversioned c = unversioned d" and "ad_id c = ad_id d"
proof -
  from copyDevice_result [OF assms] have c: "c = d\<lparr>ad_version := Some (coalesce (ad_version d) 0)\<rparr>" .
  then show "unversioned c = unversioned d" "ad_id c = ad_id d" by simp_all
  show "copyDevice dp c = Inr c"
    using assms by (cases "ad_version d") (simp_all add: copyDevice_def c split: if_splits)
qed

lemma copy_renamed:
  assumes "copyDevice dp d = Inr c" shows "\<exists>c'. copyDevice dp (d\<lparr>ad_nickname := n\<rparr>) = Inr c'"
  using assms by (simp add: copyDevice_def split: if_splits)

lemma keys_of_same:
  assumes "map k xs = map k ys" shows "keys_distinct k (xs @ [d]) = keys_distinct k (ys @ [d])"
proof -
  have "k ` set xs = k ` set ys" using arg_cong [OF assms, of set] by simp
  with assms show ?thesis by (simp add: keys_distinct_def)
qed

lemma registration_implements:
  assumes "implements db a" and "auth_ok db" and "completeRegistration h db ceremony now d s = Inr (Registered, db')"
    and "copyDevice dp d = Inr c" and "lo_handle owner \<noteq> []"
  shows "\<exists>a'. implements db' a' \<and>
    (if db_devices db = [] then bootstrap dp owner d = Inr (a', FirstDeviceAuthorized c)
     else authorize dp a d = Inr (a', DeviceAuthorized c))"
  using assms(3)
proof (cases rule: registration_cases)
  case (registered c0 db1 db2 db3)
  have same: "db_devices db1 = db_devices db"
    using registered(4) by (auto simp: admit_registration_def spend_ticket_def split: if_splits option.splits)
  have devices: "db_devices db' = db_devices db @ [device_row d]"
    using insert_fields [OF registered(5)] save_session_fields [OF registered(6)] registered(7) same
    by (simp add: spend_ceremony_def)
  have fresh: "ad_id d \<notin> ad_id ` set (db_devices db)" "ad_credential d \<notin> ad_credential ` set (db_devices db)"
    using registered(5) same by (auto simp: insertDevice_def split: if_splits)
  note c = copy_copy [OF assms(4)]
  show ?thesis
  proof (cases "db_devices db = []")
    case True
    have "bootstrap dp owner d = Inr (\<lparr> oa_owner = owner, oa_devices = [c] \<rparr>, FirstDeviceAuthorized c)"
      using assms(4,5) c by (simp add: bootstrap_def copyOwner_def assertUniqueDeviceIds_def)
    moreover have "implements db' \<lparr> oa_owner = owner, oa_devices = [c] \<rparr>"
      using devices True c by (simp add: implements_def)
    ultimately show ?thesis using True by auto
  next
    case False
    have "keys_distinct ad_id (db_devices db @ [d])" "keys_distinct ad_credential (db_devices db @ [d])"
      using assms(2) fresh by (simp_all add: auth_ok_def keys_distinct_append1)
    then have "keys_distinct ad_id (oa_devices a @ [d])" "keys_distinct ad_credential (oa_devices a @ [d])"
      using keys_of_same [OF implements_keys(1) [OF assms(1)]] keys_of_same [OF implements_keys(2) [OF assms(1)]]
      by simp_all
    then have "assertUniqueDeviceIds (oa_devices a @ [d]) = None" "assertUniqueCredentials (oa_devices a @ [d]) = None"
      by simp_all
    then have "authorize dp a d = Inr (a\<lparr>oa_devices := oa_devices a @ [c]\<rparr>, DeviceAuthorized c)"
      using assms(4) by (simp add: authorize_def del: unique_ids unique_credentials)
    moreover have "implements db' (a\<lparr>oa_devices := oa_devices a @ [c]\<rparr>)"
      using devices assms(1) c by (simp add: implements_def)
    ultimately show ?thesis using False by auto
  qed
qed simp

lemma rename_implements:
  assumes "implements db a" and "auth_ok db" and "renameDevice db device v nickname = Inr (answer, db')"
    and "\<forall>d \<in> set (oa_devices a). copyDevice dp d = Inr d"
  shows "case answer of
      Renamed \<Rightarrow> (\<exists>a' c. rename dp a device nickname = Inr (a', DeviceRenamed c) \<and> implements db' a')
    | StaleDevice \<Rightarrow> db' = db
    | DeviceNotFound \<Rightarrow> rename dp a device nickname = Inl DeviceUnknown"
proof -
  note same = find_unversioned [OF assms(1) [unfolded implements_def], of device]
  let ?row = "\<lambda>d. ad_id d = device \<and> ad_version d = Some v"
  show ?thesis
  proof (cases "list_ex ?row (db_devices db)")
    case True
    then obtain r where r: "r \<in> set (db_devices db)" "ad_id r = device" "ad_version r = Some v" by (auto simp: list_ex_iff)
    with assms(2) have "List.find (\<lambda>d. ad_id d = device) (db_devices db) = Some r"
      by (simp add: auth_ok_def find_key_iff)
    with same obtain d where d: "List.find (\<lambda>d. ad_id d = device) (oa_devices a) = Some d" "unversioned d = unversioned r"
      by auto
    from found_in [OF d(1)] assms(4) copy_renamed [of dp d d nickname] obtain c
      where c: "copyDevice dp (d\<lparr>ad_nickname := nickname\<rparr>) = Inr c" by auto
    let ?a = "a\<lparr>oa_devices := update_where (\<lambda>x. ad_id x = device) (\<lambda>_. d\<lparr>ad_nickname := nickname\<rparr>) (oa_devices a)\<rparr>"
    have renamed: "rename dp a device nickname = Inr (?a, DeviceRenamed c)"
      using d(1) c by (simp add: rename_def requireDevice_def Let_def)
    have upd: "update_where ?row f (db_devices db) = update_where (\<lambda>x. ad_id x = device) (\<lambda>_. f r) (db_devices db)" for f
    proof -
      have "(if ?row x then f x else x) = (if ad_id x = device then f r else x)" if "x \<in> set (db_devices db)" for x
        using keys_distinct_inj [of ad_id "db_devices db" x r] assms(2) that r by (auto simp: auth_ok_def)
      then show ?thesis by (simp add: update_where_def)
    qed
    let ?r = "r\<lparr>ad_nickname := nickname, ad_version := map_option (\<lambda>v. v + 1) (ad_version r)\<rparr>"
    have "unversioned (d\<lparr>ad_nickname := nickname\<rparr>) = (unversioned d)\<lparr>ad_nickname := nickname\<rparr>"
      "unversioned ?r = (unversioned r)\<lparr>ad_nickname := nickname\<rparr>" by (simp_all add: unversioned_def)
    then have new: "unversioned (d\<lparr>ad_nickname := nickname\<rparr>) = unversioned ?r" using d(2) by simp
    have "map unversioned (update_where (\<lambda>x. ad_id x = device) (\<lambda>_. d\<lparr>ad_nickname := nickname\<rparr>) (oa_devices a))
        = map unversioned (update_where (\<lambda>x. ad_id x = device) (\<lambda>_. ?r) (db_devices db))"
      by (rule update_unversioned [OF assms(1) [unfolded implements_def]]) (use new in \<open>metis unversioned_fields(1)\<close>)
    moreover have "db_devices db' = update_where (\<lambda>x. ad_id x = device) (\<lambda>_. ?r) (db_devices db)"
      using assms(3) True upd [of "\<lambda>r. r\<lparr>ad_nickname := nickname, ad_version := map_option (\<lambda>v. v + 1) (ad_version r)\<rparr>"]
      by (auto simp: renameDevice_def)
    ultimately have "implements db' ?a" by (simp add: implements_def)
    with renamed assms(3) True show ?thesis by (auto simp: renameDevice_def)
  next
    case False
    with assms(3) same show ?thesis
      by (auto simp: renameDevice_def findDevice_def found_device_def rename_def requireDevice_def
          split: option.splits sum.splits)
  qed
qed

lemma update_single:
  assumes "keys_distinct ad_id rows" and "r \<in> set rows" and "\<And>x. P x \<Longrightarrow> ad_id x = ad_id r" and "P r"
  shows "update_where P f rows = update_where (\<lambda>x. ad_id x = ad_id r) (\<lambda>_. f r) rows"
proof -
  have "(if P x then f x else x) = (if ad_id x = ad_id r then f r else x)" if "x \<in> set rows" for x
  proof (cases "ad_id x = ad_id r")
    case True
    then have "x = r" by (rule keys_distinct_inj [OF assms(1) that assms(2)])
    with assms(4) show ?thesis by simp
  next
    case False
    with assms(3) show ?thesis by auto
  qed
  then show ?thesis by (simp add: update_where_def)
qed

lemma synced_id: "synced_zero device c v new x \<Longrightarrow> ad_id x = device"
  by (simp add: synced_zero_def)

lemma grown_id: "counter_grows device c v new x \<Longrightarrow> ad_id x = device"
  by (simp add: counter_grows_def)

lemma advanced_row:
  assumes "advanceCounter db device c v new used = (True, db')" and "keys_distinct ad_id (db_devices db)"
  obtains r r' where "List.find (\<lambda>d. ad_id d = device) (db_devices db) = Some r" and "ad_counter r = c"
    and "new > c \<or> (new = 0 \<and> ad_type r = MultiDevice)"
    and "db_devices db' = update_where (\<lambda>x. ad_id x = device) (\<lambda>_. r') (db_devices db)"
    and "unversioned r' = (unversioned r)\<lparr>ad_counter := (if new = 0 \<and> ad_type r = MultiDevice then c else new),
           ad_used := Some used\<rparr>"
proof (cases "list_ex (synced_zero device c v new) (db_devices db)")
  case True
  then obtain r where r: "r \<in> set (db_devices db)" "synced_zero device c v new r" by (auto simp: list_ex_iff)
  let ?f = "\<lambda>d. d\<lparr>ad_used := Some used, ad_version := map_option (\<lambda>v. v + 1) (ad_version d)\<rparr>"
  have fields: "ad_id r = device" "ad_counter r = c" "new = 0" "ad_type r = MultiDevice"
    using r(2) by (simp_all add: synced_zero_def)
  have "db_devices db' = update_where (\<lambda>x. ad_id x = device) (\<lambda>_. ?f r) (db_devices db)"
    using update_single [where rows = "db_devices db" and r = r and P = "synced_zero device c v new" and f = ?f]
      assms r fields(1) True synced_id by (auto simp: advanceCounter_def)
  moreover have "unversioned (?f r) = (unversioned r)\<lparr>ad_counter := c, ad_used := Some used\<rparr>"
    using fields(2) by (simp add: unversioned_def)
  moreover have "List.find (\<lambda>d. ad_id d = device) (db_devices db) = Some r"
    using assms(2) r(1) fields(1) by (simp add: find_key_iff)
  ultimately show ?thesis using fields by (intro that [of r "?f r"]) simp_all
next
  case False
  with assms(1) have some: "list_ex (counter_grows device c v new) (db_devices db)"
    by (auto simp: advanceCounter_def split: if_splits)
  then obtain r where r: "r \<in> set (db_devices db)" "counter_grows device c v new r" by (auto simp: list_ex_iff)
  let ?f = "\<lambda>d. d\<lparr>ad_counter := new, ad_used := Some used, ad_version := map_option (\<lambda>v. v + 1) (ad_version d)\<rparr>"
  have fields: "ad_id r = device" "ad_counter r = c" "new > c" "ad_version r = Some v"
    using r(2) by (simp_all add: counter_grows_def)
  have not_zero: "\<not> (new = 0 \<and> ad_type r = MultiDevice)"
    using False r(1) fields by (auto simp: list_ex_iff synced_zero_def)
  have "db_devices db' = update_where (\<lambda>x. ad_id x = device) (\<lambda>_. ?f r) (db_devices db)"
    using update_single [where rows = "db_devices db" and r = r and P = "counter_grows device c v new" and f = ?f]
      assms r fields(1) False some grown_id by (auto simp: advanceCounter_def)
  moreover have "unversioned (?f r) = (unversioned r)\<lparr>ad_counter := new, ad_used := Some used\<rparr>"
    by (simp add: unversioned_def)
  moreover have "List.find (\<lambda>d. ad_id d = device) (db_devices db) = Some r"
    using assms(2) r(1) fields(1) by (simp add: find_key_iff)
  ultimately show ?thesis using fields not_zero by (intro that [of r "?f r"]) auto
qed

lemma assertion_implements:
  assumes "implements db a" and "auth_ok db" and "advanceCounter db device c v new used = (b, db')"
    and "\<forall>d \<in> set (oa_devices a). copyDevice dp d = Inr d"
  shows "if b
    then (case recordAssertion a device new used of
            Inr a' \<Rightarrow> implements db' a' | Inl e \<Rightarrow> e = CounterNotMonotonic \<and> new = 0 \<and> 0 < c)
    else db' = db"
proof (cases b)
  case True
  from assms(2) have "keys_distinct ad_id (db_devices db)" by (simp add: auth_ok_def)
  with assms(3) True obtain r r' where
    r: "List.find (\<lambda>d. ad_id d = device) (db_devices db) = Some r" "ad_counter r = c"
      "new > c \<or> (new = 0 \<and> ad_type r = MultiDevice)"
    and rows: "db_devices db' = update_where (\<lambda>x. ad_id x = device) (\<lambda>_. r') (db_devices db)"
    and r': "unversioned r' = (unversioned r)\<lparr>ad_counter := (if new = 0 \<and> ad_type r = MultiDevice then c else new),
           ad_used := Some used\<rparr>"
    by (auto elim: advanced_row)
  with find_unversioned [OF assms(1) [unfolded implements_def], of device] obtain d where
    d: "List.find (\<lambda>d. ad_id d = device) (oa_devices a) = Some d" "unversioned d = unversioned r" by auto
  have same: "ad_counter d = c" "ad_type d = ad_type r"
    using d(2) r(2) by (metis unversioned_fields(3), metis unversioned_fields(4))
  have "copyDevice dp d = Inr d" using found_in [OF d(1)] assms(4) by simp
  then have nonneg: "0 \<le> c" using same(1) by (simp add: copyDevice_def split: if_splits)
  show ?thesis
  proof (cases "new = 0 \<and> 0 < c")
    case True
    with d(1) same nonneg have "recordAssertion a device new used = Inl CounterNotMonotonic"
      by (simp add: recordAssertion_def requireDevice_def)
    with True show ?thesis using \<open>b\<close> by simp
  next
    case False
    let ?d = "d\<lparr>ad_counter := new, ad_used := Some used\<rparr>"
    let ?a = "a\<lparr>oa_devices := update_where (\<lambda>x. ad_id x = device) (\<lambda>_. ?d) (oa_devices a)\<rparr>"
    have pos: "\<not> new < 0" "new > c \<or> (c = 0 \<and> new = 0 \<and> ad_type d = MultiDevice)"
      using r(3) nonneg False same by auto
    then have accepted: "recordAssertion a device new used = Inr ?a"
      using d(1) same by (auto simp: recordAssertion_def requireDevice_def)
    have "(if new = 0 \<and> ad_type r = MultiDevice then c else new) = new" using False nonneg pos by auto
    moreover have "unversioned ?d = (unversioned d)\<lparr>ad_counter := new, ad_used := Some used\<rparr>"
      by (simp add: unversioned_def)
    ultimately have new: "unversioned ?d = unversioned r'" using r' d(2) by simp
    have "map unversioned (update_where (\<lambda>x. ad_id x = device) (\<lambda>_. ?d) (oa_devices a))
        = map unversioned (update_where (\<lambda>x. ad_id x = device) (\<lambda>_. r') (db_devices db))"
      by (rule update_unversioned [OF assms(1) [unfolded implements_def]]) (use new in \<open>metis unversioned_fields(1)\<close>)
    with rows have "implements db' ?a" by (simp add: implements_def)
    with accepted show ?thesis using \<open>b\<close> by simp
  qed
qed (use assms(3) in \<open>auto simp: advanceCounter_def split: if_splits\<close>)

text \<open>
  What the store stands for: no aggregate as long as it has no device, and else one with the same
  devices, each of which the domain can copy and leaves as it is.
\<close>

definition represents :: "(string \<Rightarrow> int option) \<Rightarrow> auth_db \<Rightarrow> owner_authorization option \<Rightarrow> bool" where
  "represents dp db m \<longleftrightarrow>
     (case m of
        None \<Rightarrow> db_devices db = []
      | Some a \<Rightarrow> db_devices db \<noteq> [] \<and> implements db a \<and> (\<forall>d \<in> set (oa_devices a). copyDevice dp d = Inr d))"

lemma copied_iff:
  "copyDevice dp d = Inr d \<longleftrightarrow> 0 \<le> ad_counter d \<and> (\<exists>v. ad_version d = Some v \<and> 0 \<le> v) \<and> ad_key d \<noteq> []
     \<and> dp (ad_created d) \<noteq> None \<and> (truthy_opt (ad_used d) \<longrightarrow> Option.bind (ad_used d) dp \<noteq> None)"
proof -
  have "d\<lparr>ad_version := Some (coalesce (ad_version d) 0)\<rparr> = d \<longleftrightarrow> (\<exists>v. ad_version d = Some v)"
    by (cases d; cases "ad_version d") simp_all
  then show ?thesis by (auto simp: copyDevice_def split: option.splits)
qed

lemma represents_registration:
  assumes "auth_ok db" and "represents dp db m" and "completeRegistration h db ceremony now d s = Inr (Registered, db')"
    and "copyDevice dp d = Inr c" and "lo_handle owner \<noteq> []"
  shows "\<exists>a'. represents dp db' (Some a') \<and>
    (case m of None \<Rightarrow> bootstrap dp owner d = Inr (a', FirstDeviceAuthorized c)
     | Some a \<Rightarrow> authorize dp a d = Inr (a', DeviceAuthorized c))"
proof -
  note c = copy_copy(1) [OF assms(4)]
  have some: "db_devices db' \<noteq> []" if "implements db' a'" "oa_devices a' \<noteq> []" for a'
    using implements_keys(3) [OF that(1)] that(2) by auto
  show ?thesis
  proof (cases m)
    case None
    with assms(2) have empty: "db_devices db = []" by (simp add: represents_def)
    then have "implements db \<lparr> oa_owner = owner, oa_devices = [] \<rparr>" by (simp add: implements_def)
    from registration_implements [OF this assms(1,3,4,5)] empty obtain a' where
      a': "implements db' a'" "bootstrap dp owner d = Inr (a', FirstDeviceAuthorized c)" by auto
    then have "oa_devices a' = [c]" by (auto simp: bootstrap_def assms(4) split: option.splits sum.splits)
    with a' some [of a'] c None show ?thesis by (auto simp: represents_def)
  next
    case (Some a)
    with assms(2) have a: "db_devices db \<noteq> []" "implements db a" "\<forall>d \<in> set (oa_devices a). copyDevice dp d = Inr d"
      by (simp_all add: represents_def)
    from registration_implements [OF a(2) assms(1,3,4,5)] a(1) obtain a' where
      a': "implements db' a'" "authorize dp a d = Inr (a', DeviceAuthorized c)" by auto
    then have "oa_devices a' = oa_devices a @ [c]" by (auto simp: authorize_def assms(4) split: option.splits sum.splits)
    with a' a(3) some [of a'] c Some show ?thesis by (auto simp: represents_def)
  qed
qed

lemma represents_revocation:
  assumes "auth_ok db" and "represents dp db m" and "revokeDevice db device now = Inr (answer, db')"
  shows "case answer of
      Revoked \<Rightarrow> (\<exists>a a'. m = Some a \<and> revoke a device = Inr (a', DeviceRevoked device) \<and> represents dp db' (Some a'))
    | FinalDevice \<Rightarrow> db' = db \<and> (\<exists>a. m = Some a \<and> revoke a device = Inl DeviceRequired)
    | NoSuchDevice \<Rightarrow> db' = db \<and> (\<forall>a. m = Some a \<longrightarrow> revoke a device = Inl DeviceUnknown)"
proof (cases m)
  case None
  with assms(2) have "db_devices db = []" by (simp add: represents_def)
  with assms(3) None show ?thesis by (auto simp: revokeDevice_def findDevice_def found_device_def)
next
  case (Some a)
  with assms(2) have a: "db_devices db \<noteq> []" "implements db a" "\<forall>d \<in> set (oa_devices a). copyDevice dp d = Inr d"
    by (simp_all add: represents_def)
  have "db_devices db' \<noteq> []"
    using signed_up.effects_last [OF revoke_effect [OF assms(3)] assms(1) a(1)] by simp
  moreover have "set (oa_devices a') \<subseteq> set (oa_devices a)" if "revoke a device = Inr (a', x)" for a' x
    using that by (auto simp: revoke_def split: sum.splits if_splits)
  moreover have "answer \<noteq> Revoked \<Longrightarrow> db' = db"
    using assms(3) by (auto simp: revokeDevice_def split: sum.splits option.splits if_splits)
  ultimately show ?thesis
    using revoke_implements [OF a(2) assms(3)] a(3) Some
    by (cases answer) (auto simp: represents_def, blast)
qed

lemma represents_renaming:
  assumes "auth_ok db" and "represents dp db m" and "renameDevice db device v nickname = Inr (answer, db')"
  shows "case answer of
      Renamed \<Rightarrow> (\<exists>a a' c. m = Some a \<and> rename dp a device nickname = Inr (a', DeviceRenamed c) \<and> represents dp db' (Some a'))
    | StaleDevice \<Rightarrow> db' = db
    | DeviceNotFound \<Rightarrow> db' = db \<and> (\<forall>a. m = Some a \<longrightarrow> rename dp a device nickname = Inl DeviceUnknown)"
proof (cases m)
  case None
  with assms(2) have "db_devices db = []" by (simp add: represents_def)
  with assms(3) None show ?thesis
    by (auto simp: renameDevice_def findDevice_def found_device_def)
next
  case (Some a)
  with assms(2) have a: "db_devices db \<noteq> []" "implements db a" "\<forall>d \<in> set (oa_devices a). copyDevice dp d = Inr d"
    by (simp_all add: represents_def)
  have "db_devices db' \<noteq> []"
    using signed_up.effects_last [OF rename_effect [OF assms(3)] assms(1) a(1)] by simp
  moreover have "\<forall>d \<in> set (oa_devices a'). copyDevice dp d = Inr d" if "rename dp a device nickname = Inr (a', x)" for a' x
  proof
    fix e assume e: "e \<in> set (oa_devices a')"
    from that obtain d where d: "d \<in> set (oa_devices a)"
      "a' = a\<lparr>oa_devices := update_where (\<lambda>x. ad_id x = device) (\<lambda>_. d\<lparr>ad_nickname := nickname\<rparr>) (oa_devices a)\<rparr>"
      by (auto simp: rename_def requireDevice_def Let_def dest: found_in split: sum.splits option.splits)
    from d(1) a(3) have "copyDevice dp d = Inr d" by blast
    then have "copyDevice dp (d\<lparr>ad_nickname := nickname\<rparr>) = Inr (d\<lparr>ad_nickname := nickname\<rparr>)"
      by (simp add: copied_iff)
    with e d(2) a(3) show "copyDevice dp e = Inr e" by (auto simp: in_set_update_where)
  qed
  moreover have "answer \<noteq> Renamed \<Longrightarrow> db' = db"
    using assms(3) by (auto simp: renameDevice_def split: sum.splits option.splits if_splits)
  ultimately show ?thesis
    using rename_implements [OF a(2) assms(1,3) a(3)] Some
    by (cases answer) (auto simp: represents_def)
qed

lemma represents_assertion:
  assumes "auth_ok db" and "represents dp db m" and "advanceCounter db device counter v new now = (moved, db')"
  shows "if moved
    then \<exists>a. m = Some a \<and>
      (case recordAssertion a device new now of
         Inr a' \<Rightarrow> implements db' a' \<and> (dp now = None \<or> represents dp db' (Some a'))
       | Inl e \<Rightarrow> e = CounterNotMonotonic \<and> new = 0 \<and> 0 < counter)
    else db' = db"
proof (cases m)
  case None
  with assms(2) have "db_devices db = []" by (simp add: represents_def)
  with assms(3) None show ?thesis by (auto simp: advanceCounter_def)
next
  case (Some a)
  with assms(2) have a: "db_devices db \<noteq> []" "implements db a" "\<forall>d \<in> set (oa_devices a). copyDevice dp d = Inr d"
    by (simp_all add: represents_def)
  have "db_devices db' \<noteq> []"
    using signed_up.effects_last [OF advance_effect [of UNIV db device counter v new now] assms(1) a(1)] assms(3) by simp
  moreover have "\<forall>d \<in> set (oa_devices a'). copyDevice dp d = Inr d"
    if "recordAssertion a device new now = Inr a'" "dp now \<noteq> None" for a'
  proof
    fix e assume e: "e \<in> set (oa_devices a')"
    from that(1) obtain d where d: "d \<in> set (oa_devices a)" "\<not> new < 0"
      "a' = a\<lparr>oa_devices := update_where (\<lambda>x. ad_id x = device) (\<lambda>_. d\<lparr>ad_counter := new, ad_used := Some now\<rparr>) (oa_devices a)\<rparr>"
      by (auto simp: recordAssertion_def requireDevice_def Let_def dest: found_in split: sum.splits option.splits if_splits)
    from d(1) a(3) have "copyDevice dp d = Inr d" by blast
    with d(2) that(2) have "copyDevice dp (d\<lparr>ad_counter := new, ad_used := Some now\<rparr>) = Inr (d\<lparr>ad_counter := new, ad_used := Some now\<rparr>)"
      by (simp add: copied_iff)
    with e d(3) a(3) show "copyDevice dp e = Inr e" by (auto simp: in_set_update_where)
  qed
  ultimately show ?thesis
    using assertion_implements [OF a(2) assms(1,3) a(3)] Some
    by (auto simp: represents_def split: sum.splits)
qed

text \<open>
  C11: the store implements the aggregate of the domain, as a simulation. Let the store stand for an
  aggregate, or for none while it has no device. Each of its operations that succeeds is one the
  aggregate allows, and leaves a store that stands for the result: the registration of a device that
  the domain can copy, for an owner with a handle (the first one by bootstrap), a revocation, a new
  nickname, and an assertion at a time the domain can read. A refusal for a missing or final device is
  the aggregate's and changes nothing. The only disagreement is a synced credential that shows the
  counter zero after it had advanced, which the store lets pass.
\<close>
theorem store_implements_aggregate:
  assumes "auth_ok db" and "represents dp db m"
  shows "(\<forall>h ceremony now d s db' c owner.
        completeRegistration h db ceremony now d s = Inr (Registered, db') \<and> copyDevice dp d = Inr c \<and> lo_handle owner \<noteq> []
        \<longrightarrow> (\<exists>a'. represents dp db' (Some a') \<and>
              (case m of None \<Rightarrow> bootstrap dp owner d = Inr (a', FirstDeviceAuthorized c)
               | Some a \<Rightarrow> authorize dp a d = Inr (a', DeviceAuthorized c))))
    \<and> (\<forall>device now answer db'. revokeDevice db device now = Inr (answer, db') \<longrightarrow>
        (case answer of
           Revoked \<Rightarrow> (\<exists>a a'. m = Some a \<and> revoke a device = Inr (a', DeviceRevoked device) \<and> represents dp db' (Some a'))
         | FinalDevice \<Rightarrow> db' = db \<and> (\<exists>a. m = Some a \<and> revoke a device = Inl DeviceRequired)
         | NoSuchDevice \<Rightarrow> db' = db \<and> (\<forall>a. m = Some a \<longrightarrow> revoke a device = Inl DeviceUnknown)))
    \<and> (\<forall>device v nickname answer db'. renameDevice db device v nickname = Inr (answer, db') \<longrightarrow>
        (case answer of
           Renamed \<Rightarrow> (\<exists>a a' c. m = Some a \<and> rename dp a device nickname = Inr (a', DeviceRenamed c) \<and> represents dp db' (Some a'))
         | StaleDevice \<Rightarrow> db' = db
         | DeviceNotFound \<Rightarrow> db' = db \<and> (\<forall>a. m = Some a \<longrightarrow> rename dp a device nickname = Inl DeviceUnknown)))
    \<and> (\<forall>device counter v new now moved db'. advanceCounter db device counter v new now = (moved, db') \<longrightarrow>
        (if moved
         then \<exists>a. m = Some a \<and>
           (case recordAssertion a device new now of
              Inr a' \<Rightarrow> implements db' a' \<and> (dp now = None \<or> represents dp db' (Some a'))
            | Inl e \<Rightarrow> e = CounterNotMonotonic \<and> new = 0 \<and> 0 < counter)
         else db' = db))"
  using represents_registration [OF assms] represents_revocation [OF assms] represents_renaming [OF assms]
    represents_assertion [OF assms]
  by (intro conjI allI impI; (elim conjE)?) assumption+

end
