(* ===== verification/Authorization_Guarantees.thy ===== *)
theory Authorization_Guarantees
  imports Authorization_Endpoints Authorization_Facts
begin

text \<open>
  The authorization as a whole: what the boundary lets pass, which requests can change the devices of
  the owner or sign a browser in, and concrete runs of the store.
\<close>

subsection \<open>The boundary\<close>

lemma live_session_device:
  assumes "auth_ok db" and "sessionDevice h db token now = Inr (Some device)"
  shows "\<exists>s \<in> set (db_sessions db). ws_hash s = h token \<and> session_live now s \<and> ws_device s = Some device
    \<and> device \<in> ad_id ` set (db_devices db)"
proof -
  from session_row [OF assms(2)] obtain s where s: "s \<in> set (db_sessions db)" "ws_hash s = h token"
    "session_live now s" "ws_device s = Some device" by metis
  with assms(1) have "device \<in> ad_id ` set (db_devices db)" by (auto simp: auth_ok_def session_linked_def)
  with s show ?thesis by blast
qed

definition live_cookie :: "(string \<Rightarrow> string) \<Rightarrow> auth_db \<Rightarrow> string option \<Rightarrow> string \<Rightarrow> bool" where
  "live_cookie h db header now \<longleftrightarrow>
     (\<exists>token s d. cookieValue header ''gestalt_mobile_session'' = Some token \<and> s \<in> set (db_sessions db)
        \<and> ws_hash s = h token \<and> session_live now s \<and> ws_device s = Some (ad_id d) \<and> d \<in> set (db_devices db))"

lemma boundary_device:
  assumes "auth_ok db" and "authorizationSessionDevice h db header now = Inr (Some device)"
  shows "live_cookie h db header now"
proof -
  from assms(2) obtain token where token: "parseAuthorizationSessionId (cookieValue header ''gestalt_mobile_session'') = Some token"
    "sessionDevice h db token now = Inr (Some device)"
    by (auto simp: authorizationSessionDevice_def split: option.splits)
  from token(1) have "cookieValue header ''gestalt_mobile_session'' = Some token"
    by (auto simp: parseAuthorizationSessionId_def opaqueIdOrNull_def split: option.splits if_splits)
  with live_session_device [OF assms(1) token(2)] show ?thesis by (auto simp: live_cookie_def)
qed

lemma boundary_passes:
  assumes "auth_ok db" and "boundary h origin db now request = Inr None" and "starts_with ''/api/'' (hr_url request)"
  shows "(hr_method request \<in> {''GET'', ''HEAD'', ''OPTIONS''} \<or> hr_origin request = Some origin)
    \<and> (hr_method request @ '' '' @ hr_route request \<in> set publicApi \<or> live_cookie h db (hr_cookie request) now)"
  using assms boundary_device [OF assms(1)]
  by (auto simp: boundary_def isUnsafe_def split: if_splits sum.splits option.splits)

text \<open>
  The boundary guards the interface. A request for the interface passes only with the relay's own
  origin, unless its method is safe, and only to a public route or with exactly one session cookie
  whose session is live and belongs to an authorized device.
\<close>
theorem boundary_guards_the_api:
  assumes "auth_ok db" and "boundary h origin db now request = Inr None" and "starts_with ''/api/'' (hr_url request)"
  shows "(hr_method request \<in> {''GET'', ''HEAD'', ''OPTIONS''} \<or> hr_origin request = Some origin)
    \<and> (hr_method request @ '' '' @ hr_route request \<in> set publicApi \<or> live_cookie h db (hr_cookie request) now)"
  by (rule boundary_passes [OF assms])

subsection \<open>The server\<close>

datatype auth_event =
    RegisterOptions http_request "attempt list" string "string option option" int string string string string
  | RegisterOptionsSent bool pending_registration
  | RegisterVerified verification "registration_proof option" string string nat
  | LoginOptionsSent bool pending_login
  | LoginVerified login_verification "assertion_proof option" string nat
  | CreateTicketRequest http_request "string option" string int int string
  | CancelTicketRequest http_request "string option" string
  | RenameRequest http_request "string option" "string option" string
  | RevokeRequest http_request "string option" string string
  | LogoutRequest http_request "string option" string

text \<open>The framework hands a request to a handler by its method and route.\<close>

definition routed :: "string \<Rightarrow> string \<Rightarrow> http_request \<Rightarrow> http_request" where
  "routed verb route request = request\<lparr>hr_method := verb, hr_route := route, hr_url := route\<rparr>"

definition after_boundary ::
  "(string \<Rightarrow> string) \<Rightarrow> string \<Rightarrow> string \<Rightarrow> http_request \<Rightarrow> http_throw + ('a \<times> auth_db) \<Rightarrow> auth_db \<Rightarrow> auth_db" where
  "after_boundary h origin now request run db =
     (case boundary h origin db now request of
        Inr None \<Rightarrow> (case run of Inl _ \<Rightarrow> db | Inr (_, db') \<Rightarrow> db')
      | _ \<Rightarrow> db)"

definition resumed :: "http_throw + ('a \<times> auth_db) \<Rightarrow> auth_db \<Rightarrow> auth_db" where
  "resumed run db = (case run of Inl _ \<Rightarrow> db | Inr (_, db') \<Rightarrow> db')"

fun serve ::
  "(string \<Rightarrow> string) \<Rightarrow> (string \<Rightarrow> string) \<Rightarrow> (int \<Rightarrow> string) \<Rightarrow> relying_party \<Rightarrow> auth_db \<Rightarrow> auth_event \<Rightarrow> auth_db" where
  "serve h b64 utc rp db (RegisterOptions request attempts ip field now owner_bytes correlation challenge t) =
     after_boundary h (rl_origin rp) t (routed ''POST'' ''/api/auth/register/options'' request)
       (fst (register_options_request h b64 utc rp attempts ip field now owner_bytes correlation challenge db)) db"
| "serve h b64 utc rp db (RegisterOptionsSent ok p) = resumed (register_options_sent h utc rp ok p db) db"
| "serve h b64 utc rp db (RegisterVerified v proved device session n) =
     resumed (register_verified h utc v proved device session n db) db"
| "serve h b64 utc rp db (LoginOptionsSent ok p) = resumed (login_options_sent h utc rp ok p db) db"
| "serve h b64 utc rp db (LoginVerified v proved session n) = resumed (login_verified h utc v proved session n db) db"
| "serve h b64 utc rp db (CreateTicketRequest request cookie t now later_now entropy) =
     after_boundary h (rl_origin rp) t (routed ''POST'' ''/api/auth/enrollment-tickets'' request)
       (create_ticket h b64 utc cookie now later_now entropy db) db"
| "serve h b64 utc rp db (CancelTicketRequest request cookie t) =
     after_boundary h (rl_origin rp) t (routed ''DELETE'' ''/api/auth/enrollment-tickets/current'' request)
       (cancel_ticket h cookie t db) db"
| "serve h b64 utc rp db (RenameRequest request device nickname t) =
     after_boundary h (rl_origin rp) t (routed ''PATCH'' ''/api/auth/devices/:deviceId'' request)
       (rename_endpoint device nickname db) db"
| "serve h b64 utc rp db (RevokeRequest request device t later) =
     after_boundary h (rl_origin rp) t (routed ''DELETE'' ''/api/auth/devices/:deviceId'' request)
       (revoke_endpoint h device (hr_cookie request) t later db) db"
| "serve h b64 utc rp db (LogoutRequest request cookie t) =
     after_boundary h (rl_origin rp) t (routed ''POST'' ''/api/auth/logout'' request)
       (Inr (logout h cookie t db)) db"

abbreviation served where
  "served h b64 utc rp \<equiv> run_steps (serve h b64 utc rp)"

lemma same_devices:
  "initializeOwner r db handle = Inr (own, db') \<Longrightarrow> db_devices db' = db_devices db"
  "saveCeremony h db token c time = Inr db' \<Longrightarrow> db_devices db' = db_devices db"
  "issueEnrollmentTicket h db token creator expires = Inr db' \<Longrightarrow> db_devices db' = db_devices db"
  "db_devices (snd (cancelEnrollmentTicket h db creator now)) = db_devices db"
  "db_devices (snd (revokeSession h db token now)) = db_devices db"
  by (auto simp: initializeOwner_def saveCeremony_def issueEnrollmentTicket_def insert_ticket_def
      cancelEnrollmentTicket_def revokeSession_def Let_def split: if_splits option.splits)

lemma same_sessions:
  "initializeOwner r db handle = Inr (own, db') \<Longrightarrow> db_sessions db' = db_sessions db"
  "saveCeremony h db token c time = Inr db' \<Longrightarrow> db_sessions db' = db_sessions db"
  "issueEnrollmentTicket h db token creator expires = Inr db' \<Longrightarrow> db_sessions db' = db_sessions db"
  "db_sessions (snd (cancelEnrollmentTicket h db creator now)) = db_sessions db"
  "renameDevice db device v nickname = Inr (b, db') \<Longrightarrow> db_sessions db' = db_sessions db"
  by (auto simp: initializeOwner_def saveCeremony_def issueEnrollmentTicket_def insert_ticket_def
      cancelEnrollmentTicket_def renameDevice_def Let_def split: if_splits option.splits sum.splits)

lemma rename_ids: "renameDevice db device v nickname = Inr (b, db') \<Longrightarrow> map ad_id (db_devices db') = map ad_id (db_devices db)"
  by (auto simp: renameDevice_def map_update_where split: if_splits sum.splits)

subsection \<open>Gaining access\<close>

text \<open>No device is added, and every session that is still open was open before, for the same device.\<close>

definition no_new_access :: "auth_db \<Rightarrow> auth_db \<Rightarrow> bool" where
  "no_new_access db db' \<longleftrightarrow>
     ad_id ` set (db_devices db') \<subseteq> ad_id ` set (db_devices db)
     \<and> (\<forall>s' \<in> set (db_sessions db'). ws_revoked s' = None \<longrightarrow> s' \<in> set (db_sessions db))"

lemma no_new_access_refl [simp]: "no_new_access db db"
  by (simp add: no_new_access_def)

lemma no_new_access_trans: "no_new_access a b \<Longrightarrow> no_new_access b c \<Longrightarrow> no_new_access a c"
  unfolding no_new_access_def by (meson subset_trans)

lemma same_no_new_access:
  assumes "map ad_id (db_devices db') = map ad_id (db_devices db)" and "db_sessions db' = db_sessions db"
  shows "no_new_access db db'"
proof -
  have "ad_id ` set (db_devices db') = ad_id ` set (db_devices db)" using assms(1) by (metis list.set_map)
  with assms(2) show ?thesis by (simp add: no_new_access_def)
qed

lemma revoke_no_new_access: "revokeDevice db device now = Inr (b, db') \<Longrightarrow> no_new_access db db'"
  by (auto simp: revokeDevice_def no_new_access_def split: sum.splits option.splits if_splits
      elim!: ended_and_unlinked)

lemma revoke_session_no_new_access: "no_new_access db (snd (revokeSession h db token now))"
  by (auto simp: revokeSession_def no_new_access_def Let_def in_set_update_where split: if_splits)

definition proves :: "auth_event \<Rightarrow> bool" where
  "proves ev \<longleftrightarrow>
     (case ev of
        RegisterVerified v proved device session n \<Rightarrow>
          (case proved of None \<Rightarrow> False | Some p \<Rightarrow> vp_user p \<and> n = 32)
      | LoginVerified v proved session n \<Rightarrow>
          (case proved of None \<Rightarrow> False
             | Some p \<Rightarrow> as_user p \<and> as_credential p = ad_credential (lv_device v) \<and> n = 32)
      | _ \<Rightarrow> False)"

lemma resumed_no_new_access:
  "(\<And>r db'. run = Inr (r, db') \<Longrightarrow> no_new_access db db') \<Longrightarrow> no_new_access db (resumed run db)"
  by (auto simp: resumed_def split: sum.splits)

lemma passed_no_new_access:
  "(\<And>r db'. run = Inr (r, db') \<Longrightarrow> no_new_access db db') \<Longrightarrow>
     no_new_access db (after_boundary h origin now request run db)"
  by (auto simp: after_boundary_def split: sum.splits option.splits)

lemma options_no_new_access:
  assumes "fst (register_options_request h b64 utc rp attempts ip field now owner_bytes correlation challenge db) = Inr (r, db')"
  shows "no_new_access db db'"
proof -
  from assms have "db' = db \<or> register_options h b64 utc rp field now owner_bytes correlation challenge db = Inr (r, db')"
    by (auto simp: register_options_request_def split: prod.splits bool.splits)
  then have "db' = db \<or> (\<exists>own. initializeOwner (rl_id rp) db owner_bytes = Inr (own, db'))"
    by (auto simp: register_options_def Let_def split: option.splits if_splits sum.splits)
  then show ?thesis using same_devices(1) same_sessions(1) by (auto simp: no_new_access_def)
qed

lemma sent_no_new_access:
  "register_options_sent h utc rp ok p db = Inr (r, db') \<Longrightarrow> no_new_access db db'"
  "login_options_sent h utc rp ok q db = Inr (r, db') \<Longrightarrow> no_new_access db db'"
  by (auto simp: register_options_sent_def login_options_sent_def no_new_access_def same_devices(2) same_sessions(2)
      split: if_splits sum.splits)

lemma ticket_no_new_access:
  "create_ticket h b64 utc cookie now later_now entropy db = Inr (r, db') \<Longrightarrow> no_new_access db db'"
  "cancel_ticket h cookie time db = Inr (r, db') \<Longrightarrow> no_new_access db db'"
  by (auto simp: create_ticket_def cancel_ticket_def no_new_access_def same_devices(3,4) same_sessions(3,4) Let_def
      split: if_splits sum.splits option.splits)

lemma rename_no_new_access:
  assumes "rename_endpoint device nickname db = Inr (r, db')" shows "no_new_access db db'"
proof -
  from assms have "db' = db \<or> (\<exists>d v n b. renameDevice db d v n = Inr (b, db'))"
    by (auto simp: rename_endpoint_def renameAuthorizedDevice_def domain_refusal_def
        split: option.splits sum.splits store_throw.splits rename_answer.splits)
  then show ?thesis using rename_ids same_sessions(5) by (auto intro: same_no_new_access)
qed

lemma revoke_endpoint_cases:
  assumes "revoke_endpoint h device cookie now later db = Inr (r, db')"
  shows "db' = db \<or> (\<exists>d b. revokeDevice db d later = Inr (b, db'))"
  using assms
  by (auto simp: revoke_endpoint_def domain_refusal_def
      split: option.splits sum.splits store_throw.splits revoke_answer.splits)

lemma unproved_no_new_access:
  assumes "\<not> proves ev" shows "no_new_access db (serve h b64 utc rp db ev)"
proof (cases ev)
  case (RegisterVerified v proved device session n)
  with assms have "register_verified h utc v proved device session n db = Inr (r, db') \<Longrightarrow> db' = db" for r db'
    by (auto simp: register_verified_def proves_def split: option.splits if_splits)
  with RegisterVerified show ?thesis by (auto simp: resumed_def split: sum.splits)
next
  case (LoginVerified v proved session n)
  with assms have "login_verified h utc v proved session n db = Inr (r, db') \<Longrightarrow> db' = db" for r db'
    by (auto simp: login_verified_def proves_def split: option.splits if_splits)
  with LoginVerified show ?thesis by (auto simp: resumed_def split: sum.splits)
next
  case (RevokeRequest request device t later)
  have "no_new_access db db'" if "revoke_endpoint h device cookie now later db = Inr (r, db')" for cookie now r db'
    using revoke_endpoint_cases [OF that] revoke_no_new_access by auto
  with RevokeRequest show ?thesis by (simp add: passed_no_new_access)
next
  case (LogoutRequest request cookie t)
  have "no_new_access db db'" if "Inr (logout h cookie t db) = (Inr (r, db') :: http_throw + reply \<times> auth_db)" for r db'
    using that by (auto simp: logout_def revoke_session_no_new_access split: option.splits)
  with LogoutRequest show ?thesis by (auto intro: passed_no_new_access)
qed (simp_all add: passed_no_new_access resumed_no_new_access options_no_new_access sent_no_new_access
       ticket_no_new_access rename_no_new_access)

lemma open_before:
  assumes "no_new_access db db'" and "auth_ok db" and "sessionDevice h db' token t = Inr (Some device)"
  shows "sessionDevice h db token t = Inr (Some device)"
proof -
  from session_row [OF assms(3)] obtain s where s: "s \<in> set (db_sessions db')"
    "ws_hash s = h token" "session_live t s" "ws_device s = Some device" by metis
  with assms(1) have before: "s \<in> set (db_sessions db)" by (auto simp: no_new_access_def session_live_def)
  have "List.find (\<lambda>s. ws_hash s = h token \<and> session_live t s) (db_sessions db) = Some s"
  proof -
    from s before obtain s' where s': "List.find (\<lambda>s. ws_hash s = h token \<and> session_live t s) (db_sessions db) = Some s'"
      by (cases "List.find (\<lambda>s. ws_hash s = h token \<and> session_live t s) (db_sessions db)") (auto simp: find_None_iff)
    with found_in [OF s'] keys_distinct_inj [of ws_hash "db_sessions db" s' s] assms(2) before s(2)
    show ?thesis by (simp add: auth_ok_def)
  qed
  moreover from assms(3) have "authorizedDeviceId device = Inr device \<and> device \<noteq> []"
    by (auto simp: sessionDevice_def authorizedDeviceId_def opaqueId_def opaqueIdOrNull_def
        split: option.splits if_splits sum.splits)
  ultimately show ?thesis using s(4) by (simp add: sessionDevice_def truthy_def)
qed

text \<open>
  C12: access needs a proof. In any sequence of requests in which no passkey of a present user is
  verified, whatever cookies, tickets and identifiers the requests carry, no device is added; and
  every session the relay accepts afterwards it accepted before, for the same device.
\<close>
theorem access_needs_proof:
  assumes "\<forall>ev \<in> set evs. \<not> proves ev" and "auth_ok db"
  shows "ad_id ` set (db_devices (served h b64 utc rp db evs)) \<subseteq> ad_id ` set (db_devices db)
    \<and> (\<forall>token t device. sessionDevice h (served h b64 utc rp db evs) token t = Inr (Some device)
          \<longrightarrow> sessionDevice h db token t = Inr (Some device))"
proof -
  have access: "no_new_access db (served h b64 utc rp db evs)"
    using assms(1)
  proof (induction evs arbitrary: db)
    case (Cons ev evs)
    then show ?case using unproved_no_new_access no_new_access_trans by fastforce
  qed simp
  with open_before [OF access assms(2)] show ?thesis by (auto simp: no_new_access_def)
qed

subsection \<open>Losing access\<close>

abbreviation device_ids where
  "device_ids db \<equiv> ad_id ` set (db_devices db)"

lemma advanced_ids:
  "advanceCounter db device c v new used = (b, db') \<Longrightarrow> map ad_id (db_devices db') = map ad_id (db_devices db)"
  by (auto simp: advanceCounter_def map_update_where split: if_splits)

lemma kept_devices:
  "register_verified h utc v proved device session n db = Inr (r, db') \<Longrightarrow> ad_id ` set (db_devices db) \<subseteq> ad_id ` set (db_devices db')"
  "login_verified h utc w asserted session n db = Inr (r, db') \<Longrightarrow> ad_id ` set (db_devices db) \<subseteq> ad_id ` set (db_devices db')"
proof -
  assume run: "register_verified h utc v proved device session n db = Inr (r, db')"
  then have "db' = db \<or> (\<exists>d s answer. completeRegistration h db (vf_token v) (utc (vf_now v)) d s = Inr (answer, db'))"
    by (auto simp: register_verified_def Let_def split: option.splits if_splits sum.splits store_throw.splits)
  then show "ad_id ` set (db_devices db) \<subseteq> ad_id ` set (db_devices db')"
  proof
    assume "\<exists>d s answer. completeRegistration h db (vf_token v) (utc (vf_now v)) d s = Inr (answer, db')"
    then obtain d s answer where "completeRegistration h db (vf_token v) (utc (vf_now v)) d s = Inr (answer, db')" by blast
    then show ?thesis
    proof (cases rule: registration_cases)
      case (registered c db1 db2 db3)
      have "db_devices db1 = db_devices db"
        using registered(4) by (auto simp: admit_registration_def spend_ticket_def split: if_splits option.splits)
      then show ?thesis
        using insert_fields [OF registered(5)] save_session_fields [OF registered(6)] registered(7)
        by (auto simp: spend_ceremony_def)
    qed simp
  qed simp
next
  assume run: "login_verified h utc w asserted session n db = Inr (r, db')"
  then have "db' = db \<or> (\<exists>c s answer. completeAuthentication h db (lv_token w) (utc (lv_now w)) (lv_device w) c s = Inr (answer, db'))"
    by (auto simp: login_verified_def split: option.splits if_splits sum.splits bool.splits)
  then show "ad_id ` set (db_devices db) \<subseteq> ad_id ` set (db_devices db')"
  proof
    assume "\<exists>c s answer. completeAuthentication h db (lv_token w) (utc (lv_now w)) (lv_device w) c s = Inr (answer, db')"
    then obtain c s answer where
      "completeAuthentication h db (lv_token w) (utc (lv_now w)) (lv_device w) c s = Inr (answer, db')" by blast
    then show ?thesis
    proof (cases rule: authentication_cases)
      case (signed_in db1 db2)
      have "db_devices db' = db_devices db1"
        using save_session_fields [OF signed_in(5)] signed_in(6) by (simp add: spend_ceremony_def)
      moreover have "map ad_id (db_devices db1) = map ad_id (db_devices db)"
        using signed_in(4) by (rule advanced_ids)
      ultimately show ?thesis by (metis list.set_map order_refl)
    qed simp
  qed simp
qed

definition removes :: "string \<Rightarrow> auth_event \<Rightarrow> bool" where
  "removes device ev \<longleftrightarrow> (case ev of RevokeRequest request d t later \<Rightarrow> d = Some device | _ \<Rightarrow> False)"

lemma after_boundary_changes:
  assumes "after_boundary h origin now request run db \<noteq> db"
  obtains r db' where "boundary h origin db now request = Inr None" and "run = Inr (r, db')"
    and "after_boundary h origin now request run db = db'"
  using assms by (auto simp: after_boundary_def split: sum.splits option.splits)

lemma same_ids_kept:
  "map ad_id (db_devices db') = map ad_id (db_devices db) \<Longrightarrow> ad_id ` set (db_devices db') = ad_id ` set (db_devices db)"
  by (metis list.set_map)

lemma untouched_devices:
  "fst (register_options_request h b64 utc rp attempts ip field now owner_bytes correlation challenge db) = Inr (x, db1) \<Longrightarrow> db_devices db1 = db_devices db"
  "register_options_sent h utc rp ok p db = Inr (r, db2) \<Longrightarrow> db_devices db2 = db_devices db"
  "login_options_sent h utc rp ok q db = Inr (r, db3) \<Longrightarrow> db_devices db3 = db_devices db"
  "create_ticket h b64 utc cookie now later_now entropy db = Inr (r, db4) \<Longrightarrow> db_devices db4 = db_devices db"
  "cancel_ticket h cookie time db = Inr (r, db5) \<Longrightarrow> db_devices db5 = db_devices db"
  "db_devices (snd (logout h cookie time db)) = db_devices db"
  by (auto simp: register_options_request_def register_options_def register_options_sent_def login_options_sent_def
      create_ticket_def cancel_ticket_def logout_def same_devices Let_def
      split: if_splits sum.splits option.splits prod.splits bool.splits)

lemma endpoint_removes:
  assumes "revoke_endpoint h device cookie now later db = Inr (r, db')"
    and "lost \<in> ad_id ` set (db_devices db)" and "lost \<notin> ad_id ` set (db_devices db')"
  shows "device = Some lost"
proof -
  from assms obtain d b where d: "device = Some d" "revokeDevice db d later = Inr (b, db')"
    by (auto simp: revoke_endpoint_def domain_refusal_def authorizedDeviceId_def opaqueId_def opaqueIdOrNull_def
        split: option.splits sum.splits store_throw.splits revoke_answer.splits if_splits)
  have "db_devices db' = db_devices db \<or> db_devices db' = filter (\<lambda>x. ad_id x \<noteq> d) (db_devices db)"
    using d(2) by (auto simp: revokeDevice_def split: sum.splits option.splits if_splits)
  with assms(2,3) have "lost = d" by auto
  with d(1) show ?thesis by simp
qed

lemma rename_keeps:
  assumes "rename_endpoint device nickname db = Inr (r, db')" shows "device_ids db' = device_ids db"
proof -
  from assms have "db' = db \<or> (\<exists>d v n b. renameDevice db d v n = Inr (b, db'))"
    by (auto simp: rename_endpoint_def renameAuthorizedDevice_def domain_refusal_def
        split: option.splits sum.splits store_throw.splits rename_answer.splits)
  then show ?thesis using rename_ids same_ids_kept by metis
qed

lemma passed_keeps:
  "(\<And>r db'. run = Inr (r, db') \<Longrightarrow> device_ids db \<subseteq> device_ids db') \<Longrightarrow>
     device_ids db \<subseteq> device_ids (after_boundary h origin now request run db)"
  "(\<And>r db'. run = Inr (r, db') \<Longrightarrow> device_ids db \<subseteq> device_ids db') \<Longrightarrow> device_ids db \<subseteq> device_ids (resumed run db)"
  by (fastforce simp: after_boundary_def resumed_def split: sum.splits option.splits)+

lemma other_requests_keep:
  assumes "\<And>request device t later. ev \<noteq> RevokeRequest request device t later"
  shows "device_ids db \<subseteq> device_ids (serve h b64 utc rp db ev)"
proof (cases ev)
  case (LogoutRequest request cookie t)
  have "device_ids db
      \<subseteq> device_ids (after_boundary h (rl_origin rp) t (routed ''POST'' ''/api/auth/logout'' request) (Inr (logout h cookie t db)) db)"
    by (rule passed_keeps(1)) (use untouched_devices(6) [of h cookie t db] in auto)
  with LogoutRequest show ?thesis by simp
qed (use assms in \<open>simp_all add: passed_keeps kept_devices rename_keeps untouched_devices(1-5)\<close>)

text \<open>
  C13: a device is lost only to its owner. Whatever event the server handles, an authorized device
  leaves the store only by the request to revoke that very device, sent from the relay's own origin
  with the cookie of a live session of an authorized device; and the last device is never lost.
\<close>
theorem devices_leave_only_by_their_owner:
  assumes "auth_ok db" and "lost \<in> device_ids db" and "lost \<notin> device_ids (serve h b64 utc rp db ev)"
  shows "\<exists>request t later. ev = RevokeRequest request (Some lost) t later
      \<and> hr_origin request = Some (rl_origin rp) \<and> live_cookie h db (hr_cookie request) t
      \<and> db_devices (serve h b64 utc rp db ev) \<noteq> []"
proof -
  from assms other_requests_keep obtain request device t later where
    ev: "ev = RevokeRequest request device t later" by blast
  let ?run = "revoke_endpoint h device (hr_cookie request) t later db"
  let ?request = "routed ''DELETE'' ''/api/auth/devices/:deviceId'' request"
  from assms(2,3) ev obtain r db' where run: "boundary h (rl_origin rp) db t ?request = Inr None" "?run = Inr (r, db')"
    "serve h b64 utc rp db ev = db'"
    by (auto simp: after_boundary_def split: sum.splits option.splits)
  have "device = Some lost" using endpoint_removes [OF run(2) assms(2)] assms(3) run(3) by simp
  moreover have "hr_origin request = Some (rl_origin rp) \<and> live_cookie h db (hr_cookie request) t"
    using boundary_passes [OF assms(1) run(1)] by (simp add: routed_def publicApi_def starts_with_def)
  moreover have "db_devices db' \<noteq> []"
  proof -
    from revoke_endpoint_cases [OF run(2)] assms(2,3) run(3) obtain d b where "revokeDevice db d later = Inr (b, db')"
      by auto
    from signed_up.effects_last [OF revoke_effect [OF this]] assms(1,2) show ?thesis by fastforce
  qed
  ultimately show ?thesis using ev run(3) by simp
qed

subsection \<open>A small store\<close>

text \<open>An owner with a phone and a laptop, both signed in, a ticket of the phone and three open ceremonies.\<close>

definition phone :: auth_device where
  "phone = \<lparr> ad_id = ''phone'', ad_credential = ''c1'', ad_key = ''k1'', ad_counter = 5, ad_transports = [InternalTransport],
     ad_type = MultiDevice, ad_backed = True, ad_nickname = ''Phone'', ad_created = ''1'', ad_used = None,
     ad_version = Some 0 \<rparr>"

definition laptop :: auth_device where
  "laptop = \<lparr> ad_id = ''laptop'', ad_credential = ''c2'', ad_key = ''k2'', ad_counter = 3, ad_transports = [Usb],
     ad_type = SingleDevice, ad_backed = False, ad_nickname = ''Laptop'', ad_created = ''1'', ad_used = None,
     ad_version = Some 0 \<rparr>"

definition tablet :: auth_device where
  "tablet = phone\<lparr>ad_id := ''tablet'', ad_credential := ''c3'', ad_version := None\<rparr>"

definition sample_ceremony :: "string \<Rightarrow> ceremony_purpose \<Rightarrow> string option \<Rightarrow> ceremony_row" where
  "sample_ceremony token purpose ticket =
     \<lparr> ac_hash = token, ac_purpose = purpose, ac_challenge = ''x'', ac_origin = ''https://relay'', ac_rp = ''relay'',
       ac_expires = ''9'', ac_consumed = None, ac_ticket = ticket \<rparr>"

definition sample_store :: auth_db where
  "sample_store =
     \<lparr> db_settings = Some (''relay'', ''handle''), db_devices = [phone, laptop],
       db_ceremonies = [sample_ceremony ''ticketed'' RegistrationCeremony (Some ''ticket''),
         sample_ceremony ''bare'' RegistrationCeremony None, sample_ceremony ''login'' AuthenticationCeremony None],
       db_tickets = [\<lparr> tk_hash = ''ticket'', tk_expires = ''9'', tk_consumed = None, tk_creator = Some ''s1'' \<rparr>],
       db_sessions = [\<lparr> ws_hash = ''s1'', ws_device = Some ''phone'', ws_expires = ''9'', ws_revoked = None \<rparr>,
         \<lparr> ws_hash = ''s2'', ws_device = Some ''laptop'', ws_expires = ''9'', ws_revoked = None \<rparr>] \<rparr>"

lemma sample_ok: "auth_ok sample_store"
  by (auto simp: auth_ok_def sample_store_def sample_ceremony_def phone_def laptop_def keys_distinct_def session_linked_def)

definition sample_session :: "string \<Rightarrow> new_session" where
  "sample_session device = \<lparr> ns_token = ''s3'', ns_device = device, ns_expires = ''9'' \<rparr>"

theorem owner_is_never_locked_out_witness:
  "db_devices (auth_run (\<lambda>x. x) ''relay'' sample_store [RevokeDevice ''phone'' ''2'', RevokeDevice ''laptop'' ''2'']) \<noteq> []
    \<and> completeRegistration (\<lambda>x. x)
        (auth_run (\<lambda>x. x) ''relay'' sample_store [RevokeDevice ''phone'' ''2'', RevokeDevice ''laptop'' ''2'']) ''bare'' ''2'' tablet
        (sample_session ''tablet'')
      \<in> {Inl SessionDeviceMismatch, Inr (BootstrapClaimed,
          auth_run (\<lambda>x. x) ''relay'' sample_store [RevokeDevice ''phone'' ''2'', RevokeDevice ''laptop'' ''2''])}"
proof -
  let ?db = "auth_run (\<lambda>x. x) ''relay'' sample_store [RevokeDevice ''phone'' ''2'', RevokeDevice ''laptop'' ''2'']"
  have "db_devices sample_store \<noteq> []" by code_simp
  from owner_is_never_locked_out [OF sample_ok this, of "\<lambda>x. x" "''relay''" "[RevokeDevice ''phone'' ''2'', RevokeDevice ''laptop'' ''2'']"]
  have run: "db_devices ?db \<noteq> []"
    and all: "\<forall>ceremony now c d s.
          purpose_ceremony (\<lambda>x. x) ?db ceremony RegistrationCeremony now = Some c \<and> \<not> truthy_opt (ac_ticket c)
          \<longrightarrow> completeRegistration (\<lambda>x. x) ?db ceremony now d s \<in> {Inl SessionDeviceMismatch, Inr (BootstrapClaimed, ?db)}"
    by blast+
  have "purpose_ceremony (\<lambda>x. x) ?db ''bare'' RegistrationCeremony ''2''
      = Some (sample_ceremony ''bare'' RegistrationCeremony None)"
    "\<not> truthy_opt (ac_ticket (sample_ceremony ''bare'' RegistrationCeremony None))" by code_simp+
  with all run show ?thesis by blast
qed

definition sample_enrolled :: auth_db where
  "sample_enrolled =
     (case completeRegistration (\<lambda>x. x) sample_store ''ticketed'' ''2'' tablet (sample_session ''tablet'') of
        Inr (_, db') \<Rightarrow> db' | Inl _ \<Rightarrow> sample_store)"

definition sample_again :: "store_call list" where
  "sample_again = [SaveCeremony ''again'' \<lparr> nc_purpose = RegistrationCeremony, nc_challenge = ''x'',
     nc_origin = ''https://relay'', nc_rp = ''relay'', nc_expires = ''9'', nc_ticket = Some ''ticket'' \<rparr> (Some ''2'')]"

lemma sample_registered:
  "completeRegistration (\<lambda>x. x) sample_store ''ticketed'' ''2'' tablet (sample_session ''tablet'') = Inr (Registered, sample_enrolled)"
  by code_simp

theorem admission_is_spent_witness:
  "completeRegistration (\<lambda>x. x) (auth_run (\<lambda>x. x) ''relay'' sample_enrolled sample_again) ''again'' ''2'' tablet
     (sample_session ''tablet'') \<noteq> Inr (Registered, sample_enrolled)"
proof -
  have first: "purpose_ceremony (\<lambda>x. x) sample_store ''ticketed'' RegistrationCeremony ''2''
      = Some (sample_ceremony ''ticketed'' RegistrationCeremony (Some ''ticket''))" by code_simp
  have second: "purpose_ceremony (\<lambda>x. x) (auth_run (\<lambda>x. x) ''relay'' sample_enrolled sample_again) ''again'' RegistrationCeremony ''2''
      = Some (sample_ceremony ''again'' RegistrationCeremony (Some ''ticket''))" by code_simp
  have "ac_ticket (sample_ceremony ''again'' RegistrationCeremony (Some ''ticket''))
      = ac_ticket (sample_ceremony ''ticketed'' RegistrationCeremony (Some ''ticket''))" by code_simp
  from admission_is_spent [OF sample_ok sample_registered first second this, THEN conjunct2] show ?thesis .
qed

definition sample_revoked :: auth_db where
  "sample_revoked = (case revokeDevice sample_store ''phone'' ''2'' of Inr (_, db') \<Rightarrow> db' | Inl _ \<Rightarrow> sample_store)"

theorem revoked_device_stays_out_witness:
  "sessionDevice (\<lambda>x. x) (auth_run (\<lambda>x. x) ''relay'' sample_revoked [AuthorizeDevice phone]) ''s1'' ''2'' = Inr None"
proof -
  have run: "revokeDevice sample_store ''phone'' ''2'' = Inr (Revoked, sample_revoked)" by code_simp
  have live: "sessionDevice (\<lambda>x. x) sample_store ''s1'' ''2'' = Inr (Some ''phone'')" by code_simp
  have "tk_creator (hd (db_tickets sample_store)) = Some ''s1''" by code_simp
  from revoked_device_stays_out [where h = "\<lambda>x. x" and token = "''s1''", OF sample_ok live run this, THEN conjunct1]
  show ?thesis .
qed

definition sample_signed_in :: auth_db where
  "sample_signed_in =
     (case completeAuthentication (\<lambda>x. x) sample_store ''login'' ''2'' phone 6 (sample_session ''phone'') of
        Inr (_, db') \<Rightarrow> db' | Inl _ \<Rightarrow> sample_store)"

theorem sign_in_spends_its_proof_witness:
  "sessionDevice (\<lambda>x. x) sample_signed_in (ns_token (sample_session ''phone'')) ''2'' = Inr (Some (ad_id phone))
    \<and> completeAuthentication (\<lambda>x. x) (auth_run (\<lambda>x. x) ''relay'' sample_signed_in [AuthorizeDevice tablet]) ''login'' ''2'' phone 7
         (sample_session ''phone'') \<in> {Inl SessionDeviceMismatch,
           Inr (False, auth_run (\<lambda>x. x) ''relay'' sample_signed_in [AuthorizeDevice tablet])}"
proof -
  have run: "completeAuthentication (\<lambda>x. x) sample_store ''login'' ''2'' phone 6 (sample_session ''phone'')
      = Inr (True, sample_signed_in)" by code_simp
  have none: "\<forall>call \<in> set [AuthorizeDevice tablet]. ''login'' \<notin> issued_hashes (\<lambda>x. x) call"
    by (simp add: issued_hashes_def)
  have ident: "authorizedDeviceId (ad_id phone) = Inr (ad_id phone)" by code_simp
  have open_until: "after_text (ns_expires (sample_session ''phone'')) ''2''" by code_simp
  show ?thesis
    by (rule sign_in_spends_its_proof [where h = "\<lambda>x. x" and rp = "''relay''", OF sample_ok run none ident open_until, THEN conjunct2])
qed

definition sample_owner :: owner_authorization where
  "sample_owner = \<lparr> oa_owner = \<lparr> lo_id = owner_id, lo_handle = ''handle'' \<rparr>, oa_devices = [phone, laptop] \<rparr>"

definition sample_renamed :: auth_db where
  "sample_renamed = (case renameDevice sample_store ''phone'' 0 ''Desk'' of Inr (_, db') \<Rightarrow> db' | Inl _ \<Rightarrow> sample_store)"

theorem store_implements_aggregate_witness:
  "(\<exists>a'. represents (\<lambda>_. Some 0) sample_enrolled (Some a') \<and>
       authorize (\<lambda>_. Some 0) sample_owner tablet = Inr (a', DeviceAuthorized (tablet\<lparr>ad_version := Some 0\<rparr>)))
    \<and> (\<exists>a'. revoke sample_owner ''phone'' = Inr (a', DeviceRevoked ''phone'') \<and> represents (\<lambda>_. Some 0) sample_revoked (Some a'))
    \<and> (\<exists>a' c. rename (\<lambda>_. Some 0) sample_owner ''phone'' ''Desk'' = Inr (a', DeviceRenamed c)
         \<and> represents (\<lambda>_. Some 0) sample_renamed (Some a'))"
proof -
  let ?dp = "\<lambda>_. Some 0 :: int option"
  have same: "represents ?dp sample_store (Some sample_owner)" by code_simp
  have copied: "copyDevice ?dp tablet = Inr (tablet\<lparr>ad_version := Some 0\<rparr>)" by code_simp
  have handle: "lo_handle \<lparr> lo_id = owner_id, lo_handle = ''handle'' \<rparr> \<noteq> []" by simp
  have revoked: "revokeDevice sample_store ''phone'' ''2'' = Inr (Revoked, sample_revoked)" by code_simp
  have renamed: "renameDevice sample_store ''phone'' 0 ''Desk'' = Inr (Renamed, sample_renamed)" by code_simp
  note all = store_implements_aggregate [OF sample_ok same]
  from all [THEN conjunct1, rule_format, OF conjI [OF sample_registered conjI [OF copied handle]]]
    all [THEN conjunct2, THEN conjunct1, rule_format, OF revoked]
    all [THEN conjunct2, THEN conjunct2, THEN conjunct1, rule_format, OF renamed]
  show ?thesis by simp
qed

definition sample_request :: http_request where
  "sample_request = \<lparr> hr_method = ''DELETE'', hr_url = ''/api/auth/devices/laptop'', hr_route = ''/api/auth/devices/:deviceId'',
     hr_origin = Some ''https://relay'', hr_cookie = Some ''a=b; gestalt_mobile_session=s1'' \<rparr>"

theorem boundary_guards_the_api_witness:
  "live_cookie (\<lambda>x. x) sample_store (hr_cookie sample_request) ''2''
    \<and> boundary (\<lambda>x. x) ''https://relay'' sample_store ''2'' (sample_request\<lparr>hr_cookie := Some ''gestalt_mobile_session=s1; gestalt_mobile_session=s1''\<rparr>)
        = Inr (Some (http_answer 401 ''AUTH_REQUIRED''))"
proof -
  have pass: "boundary (\<lambda>x. x) ''https://relay'' sample_store ''2'' sample_request = Inr None" by code_simp
  have api: "starts_with ''/api/'' (hr_url sample_request)" by code_simp
  have "hr_method sample_request @ '' '' @ hr_route sample_request \<notin> set publicApi" by code_simp
  moreover have "boundary (\<lambda>x. x) ''https://relay'' sample_store ''2'' (sample_request\<lparr>hr_cookie := Some ''gestalt_mobile_session=s1; gestalt_mobile_session=s1''\<rparr>)
        = Inr (Some (http_answer 401 ''AUTH_REQUIRED''))" by code_simp
  ultimately show ?thesis using boundary_guards_the_api [OF sample_ok pass api] by simp
qed

definition sample_relay :: relying_party where
  "sample_relay = \<lparr> rl_origin = ''https://relay'', rl_id = ''relay'' \<rparr>"

theorem access_needs_proof_witness:
  "sessionDevice (\<lambda>x. x) sample_store ''s2'' ''2'' = Inr (Some ''laptop'')"
proof -
  let ?evs = "[RevokeRequest sample_request (Some ''phone'') ''2'' ''3'', LogoutRequest sample_request (Some ''s1'') ''3'']"
  have none: "\<forall>ev \<in> set ?evs. \<not> proves ev" by (simp add: proves_def)
  have "sessionDevice (\<lambda>x. x) (served (\<lambda>x. x) (\<lambda>x. x) (\<lambda>x. ''3'') sample_relay sample_store ?evs) ''s2'' ''2'' = Inr (Some ''laptop'')"
    by code_simp
  with access_needs_proof [OF none sample_ok, THEN conjunct2] show ?thesis by blast
qed

theorem devices_leave_only_by_their_owner_witness:
  "\<exists>request t later. RevokeRequest sample_request (Some ''laptop'') ''2'' ''3'' = RevokeRequest request (Some ''laptop'') t later
      \<and> hr_origin request = Some (rl_origin sample_relay) \<and> live_cookie (\<lambda>x. x) sample_store (hr_cookie request) t
      \<and> db_devices (serve (\<lambda>x. x) (\<lambda>x. x) (\<lambda>x. ''3'') sample_relay sample_store
           (RevokeRequest sample_request (Some ''laptop'') ''2'' ''3'')) \<noteq> []"
  by (rule devices_leave_only_by_their_owner [OF sample_ok]) code_simp+

text \<open>
  The one disagreement of store and domain, on concrete values: a synced credential whose counter had
  reached five signs in with the counter zero, which the domain refuses.
\<close>

lemma synced_counter_falls_back:
  "fst (advanceCounter sample_store ''phone'' 5 0 0 ''2'')
    \<and> recordAssertion sample_owner ''phone'' 0 ''2'' = Inl CounterNotMonotonic"
  by code_simp

end
