(* ===== verification/Mcp_Startup.thy ===== *)
theory Mcp_Startup
  imports Json_Read Utc_Instant
begin

text \<open>
  The contract of MCP startup observations (src/shared/contracts/mcp-startup-failure.ts and
  xerj-startup.ts): the allowlist every stored observation is rebuilt from, and the activity row
  shown for it. \<open>dp\<close> is \<open>Date.parse\<close>. The guidance and message texts for the user are not modelled.
\<close>

subsection \<open>Names\<close>

definition startupServers :: "string list" where
  "startupServers = [''context-mode'', ''gestalt-context-mode'', ''gestalt-serena'', ''gestalt-xerj'']"

definition startupPhases :: "string list" where
  "startupPhases = [''artifact'', ''spawn'', ''initialize'', ''startup'', ''readiness'']"

definition startupFailureCodes :: "string list" where
  "startupFailureCodes =
     [''artifact-unavailable'', ''process-exited'', ''protocol-rejected'', ''timeout'',
      ''reauthentication-required'', ''startup-failed'', ''cancelled'', ''readiness-failed'']"

definition startup_signals :: "string list" where
  "startup_signals = [''SIGHUP'', ''SIGINT'', ''SIGQUIT'', ''SIGABRT'', ''SIGKILL'', ''SIGSEGV'', ''SIGTERM'']"

definition startup_statuses :: "string list" where
  "startup_statuses = [''starting'', ''ready'', ''failed'', ''cancelled'']"

definition xerj_reasons :: "string list" where
  "xerj_reasons =
     [''cancelled'', ''timeout'', ''readiness-timeout'', ''unsafe-path'', ''unsupported-installation'',
      ''unsupported-version'', ''unsupported-binary'', ''unsafe-endpoint'', ''credentials-unavailable'',
      ''authentication-failed'', ''backend-unavailable'', ''invalid-backend'', ''invalid-mcp'',
      ''incompatible-mcp'', ''invalid-deadline'', ''invalid-lifecycle-record'', ''lifecycle-busy'',
      ''endpoint-in-use'', ''launch-failed'', ''probe-failed'', ''manager-unavailable'',
      ''invalid-manager-response'', ''unknown'']"

text \<open>\<open>member\<close>.\<close>

fun member_of :: "string list \<Rightarrow> jv \<Rightarrow> string option" where
  "member_of names (JStr s) = (if s \<in> set names then Some s else None)"
| "member_of names _ = None"

definition parseXerjStartupReason :: "jv \<Rightarrow> string" where
  "parseXerjStartupReason v = coalesce (member_of xerj_reasons v) ''unknown''"

definition identifier_char :: "char \<Rightarrow> bool" where
  "identifier_char c \<longleftrightarrow> is_alnum c \<or> c \<in> set ''_.:-''"

fun startupIdentifier :: "jv \<Rightarrow> string option" where
  "startupIdentifier (JStr (c # cs)) =
     (if is_alnum c \<and> list_all identifier_char cs \<and> length cs \<le> 127 then Some (c # cs) else None)"
| "startupIdentifier _ = None"

fun matches_shape :: "string \<Rightarrow> string \<Rightarrow> bool" where
  "matches_shape [] [] = True"
| "matches_shape (p # ps) (c # cs) = ((if p = CHR ''d'' then is_digit c else c = p) \<and> matches_shape ps cs)"
| "matches_shape _ _ = False"

text \<open>The shape of the regular expression, a finite time, and the text that time is written as.\<close>

fun utcTimestamp :: "(string \<Rightarrow> int option) \<Rightarrow> jv \<Rightarrow> string option" where
  "utcTimestamp dp (JStr s) =
     (if matches_shape ''dddd-dd-ddTdd:dd:dd.dddZ'' s
         \<and> (case dp s of None \<Rightarrow> False | Some t \<Rightarrow> toISOString t = s)
      then Some s else None)"
| "utcTimestamp dp _ = None"

fun artifact_digest :: "jv \<Rightarrow> string option" where
  "artifact_digest (JStr s) =
     (case strip_prefix ''sha256:'' s of
        None \<Rightarrow> None
      | Some d \<Rightarrow> if length d = 64 \<and> list_all is_hex_lower d then Some s else None)"
| "artifact_digest _ = None"

fun exit_code :: "jv \<Rightarrow> nat option" where
  "exit_code (JNum r) = (if r = of_int \<lfloor>r\<rfloor> \<and> 0 \<le> r \<and> r \<le> 255 then Some (nat \<lfloor>r\<rfloor>) else None)"
| "exit_code _ = None"

subsection \<open>Failures\<close>

record mcp_failure =
  mf_id :: string
  mf_attempt :: string
  mf_at :: string
  mf_thread :: "string option"
  mf_server :: string
  mf_phase :: string
  mf_code :: string
  mf_runtime :: "string option"
  mf_digest :: "string option"
  mf_exit :: "nat option"
  mf_signal :: "string option"
  mf_readiness :: "string option"

definition is_readiness :: "string \<Rightarrow> string \<Rightarrow> string \<Rightarrow> bool" where
  "is_readiness phase failure_code server \<longleftrightarrow>
     phase = ''readiness'' \<and> failure_code = ''readiness-failed'' \<and> server = ''gestalt-xerj''"

definition parseMcpStartupFailure :: "(string \<Rightarrow> int option) \<Rightarrow> jv \<Rightarrow> mcp_failure option" where
  "parseMcpStartupFailure dp v = do {
     r \<leftarrow> as_record v;
     ident \<leftarrow> startupIdentifier (field_of r ''failureId'');
     attempt \<leftarrow> startupIdentifier (field_of r ''attemptId'');
     occurred \<leftarrow> utcTimestamp dp (field_of r ''occurredAt'');
     guard (field_of r ''schemaVersion'' = JNum 1);
     server \<leftarrow> member_of startupServers (field_of r ''serverName'');
     phase \<leftarrow> member_of startupPhases (field_of r ''phase'');
     failure_code \<leftarrow> member_of startupFailureCodes (field_of r ''code'');
     guard ((phase = ''readiness'' \<or> failure_code = ''readiness-failed'') \<longrightarrow> is_readiness phase failure_code server);
     Some \<lparr> mf_id = ident, mf_attempt = attempt, mf_at = occurred,
            mf_thread = startupIdentifier (field_of r ''threadId''), mf_server = server, mf_phase = phase,
            mf_code = failure_code, mf_runtime = startupIdentifier (field_of r ''runtimeId''),
            mf_digest = artifact_digest (field_of r ''artifactDigest''),
            mf_exit = exit_code (field_of r ''exitCode''),
            mf_signal = member_of startup_signals (field_of r ''signal''),
            mf_readiness = (if is_readiness phase failure_code server
              then Some (parseXerjStartupReason (field_of r ''readinessReason'')) else None) \<rparr> }"

fun exit_json :: "nat option \<Rightarrow> jv" where
  "exit_json None = JNull"
| "exit_json (Some n) = JNum (of_nat n)"

definition failure_json :: "mcp_failure \<Rightarrow> jv" where
  "failure_json f =
     JObj ([(''schemaVersion'', JNum 1), (''failureId'', JStr (mf_id f)), (''attemptId'', JStr (mf_attempt f)),
        (''occurredAt'', JStr (mf_at f)), (''threadId'', text_value (mf_thread f)),
        (''serverName'', JStr (mf_server f)), (''phase'', JStr (mf_phase f)), (''code'', JStr (mf_code f)),
        (''runtimeId'', text_value (mf_runtime f)), (''artifactDigest'', text_value (mf_digest f)),
        (''exitCode'', exit_json (mf_exit f)), (''signal'', text_value (mf_signal f))]
       @ (case mf_readiness f of None \<Rightarrow> [] | Some t \<Rightarrow> [(''readinessReason'', JStr t)]))"

subsection \<open>Statuses\<close>

record mcp_status =
  mt_runtime :: string
  mt_attempt :: string
  mt_thread :: "string option"
  mt_server :: string
  mt_observed :: string
  mt_status :: string
  mt_failure :: "mcp_failure option"
  mt_readiness :: bool

definition failure_agrees :: "mcp_failure \<Rightarrow> string \<Rightarrow> string \<Rightarrow> string option \<Rightarrow> string \<Rightarrow> string \<Rightarrow> string \<Rightarrow> bool" where
  "failure_agrees f runtime attempt thread server observed status \<longleftrightarrow>
     mf_runtime f = Some runtime \<and> mf_attempt f = attempt \<and> mf_thread f = thread \<and> mf_server f = server
     \<and> mf_at f = observed \<and> (status = ''cancelled'' \<longleftrightarrow> mf_code f = ''cancelled'')"

definition parseMcpStartupStatus :: "(string \<Rightarrow> int option) \<Rightarrow> jv \<Rightarrow> mcp_status option" where
  "parseMcpStartupStatus dp v = do {
     r \<leftarrow> as_record v;
     runtime \<leftarrow> startupIdentifier (field_of r ''runtimeId'');
     attempt \<leftarrow> startupIdentifier (field_of r ''attemptId'');
     let thread = (if field_of r ''threadId'' = JNull then None else startupIdentifier (field_of r ''threadId''));
     observed \<leftarrow> utcTimestamp dp (field_of r ''observedAt'');
     guard (field_of r ''schemaVersion'' = JNum 1);
     guard (field_of r ''threadId'' \<noteq> JNull \<longrightarrow> thread \<noteq> None);
     server \<leftarrow> member_of startupServers (field_of r ''serverName'');
     status \<leftarrow> member_of startup_statuses (field_of r ''status'');
     let failure = parseMcpStartupFailure dp (field_of r ''failure'');
     guard (if status = ''failed'' \<or> status = ''cancelled''
            then (case failure of None \<Rightarrow> False
                    | Some f \<Rightarrow> failure_agrees f runtime attempt thread server observed status)
            else field_of r ''failure'' = JNull);
     Some \<lparr> mt_runtime = runtime, mt_attempt = attempt, mt_thread = thread, mt_server = server,
            mt_observed = observed, mt_status = status, mt_failure = failure,
            mt_readiness = (field_of r ''phase'' = JStr ''readiness'' \<and> server = ''gestalt-xerj'') \<rparr> }"

definition status_json :: "mcp_status \<Rightarrow> jv" where
  "status_json s =
     JObj ([(''schemaVersion'', JNum 1), (''runtimeId'', JStr (mt_runtime s)), (''attemptId'', JStr (mt_attempt s)),
        (''threadId'', text_value (mt_thread s)), (''serverName'', JStr (mt_server s)),
        (''observedAt'', JStr (mt_observed s)), (''status'', JStr (mt_status s)),
        (''failure'', (case mt_failure s of None \<Rightarrow> JNull | Some f \<Rightarrow> failure_json f))]
       @ (if mt_readiness s then [(''phase'', JStr ''readiness'')] else []))"

definition mcpStartupActivity :: "mcp_status \<Rightarrow> jv" where
  "mcpStartupActivity s =
     JObj [(''id'', JStr (''mcp-startup:'' @ coalesce (mt_thread s) (''unattributed:'' @ mt_runtime s)
              @ '':'' @ mt_server s)),
       (''label'', JStr (mt_server s @ '' '' @ [CHR 0xB7] @ '' '' @ mt_status s)),
       (''detail'', JStr (case mt_failure s of
            None \<Rightarrow> ''Startup observation: '' @ mt_status s @ ''.''
          | Some f \<Rightarrow>
              if mf_phase f = ''readiness''
              then ''Backend readiness: '' @ coalesce (mf_readiness f) ''unknown'' @ ''.''
              else ''Startup observation: '' @ mf_code f @ ''. Child exit diagnostics are unavailable.'')),
       (''mcpStartup'', status_json s)]"

subsection \<open>What is stored is read back\<close>

lemma member_ofD: "member_of names v = Some s \<Longrightarrow> v = JStr s \<and> s \<in> set names"
  by (cases v) (auto split: if_splits)

lemma identifierD: "startupIdentifier v = Some s \<Longrightarrow> v = JStr s \<and> startupIdentifier (JStr s) = Some s"
  by (cases v rule: startupIdentifier.cases) (auto split: if_splits)

lemma timestampD: "utcTimestamp dp v = Some s \<Longrightarrow> utcTimestamp dp (JStr s) = Some s"
  by (cases v) (auto split: if_splits)

lemma digestD: "artifact_digest v = Some s \<Longrightarrow> artifact_digest (JStr s) = Some s"
  by (cases v) (auto split: if_splits option.splits)

lemma exitD: "exit_code v = Some n \<Longrightarrow> n \<le> 255"
  by (cases v) (auto split: if_splits simp: le_nat_iff nat_le_iff floor_le_iff)

lemma exit_reads: "n \<le> 255 \<Longrightarrow> exit_code (JNum (of_nat n)) = Some n"
  by simp

lemma again:
  "startupIdentifier (text_value (startupIdentifier v)) = startupIdentifier v"
  "artifact_digest (text_value (artifact_digest v)) = artifact_digest v"
  "member_of names (text_value (member_of names v)) = member_of names v"
  "exit_code (exit_json (exit_code v)) = exit_code v"
proof -
  show "startupIdentifier (text_value (startupIdentifier v)) = startupIdentifier v"
    using identifierD [of v] by (cases "startupIdentifier v") auto
  show "artifact_digest (text_value (artifact_digest v)) = artifact_digest v"
    using digestD [of v] by (cases "artifact_digest v") auto
  show "member_of names (text_value (member_of names v)) = member_of names v"
    using member_ofD [of names v] by (cases "member_of names v") auto
  show "exit_code (exit_json (exit_code v)) = exit_code v"
    using exitD [of v] exit_reads by (cases "exit_code v") auto
qed

lemma reason_again: "parseXerjStartupReason (JStr (parseXerjStartupReason v)) = parseXerjStartupReason v"
proof (cases "member_of xerj_reasons v")
  case None
  then show ?thesis by (simp add: parseXerjStartupReason_def xerj_reasons_def)
next
  case (Some s)
  with member_ofD [OF Some] show ?thesis by (simp add: parseXerjStartupReason_def)
qed

lemmas startup_reads = again reason_again

lemma failure_reads_back:
  assumes "parseMcpStartupFailure dp v = Some f" shows "parseMcpStartupFailure dp (failure_json f) = Some f"
proof -
  from assms obtain r where r: "v = JObj r" and parts:
    "startupIdentifier (field_of r ''failureId'') = Some (mf_id f)"
    "startupIdentifier (field_of r ''attemptId'') = Some (mf_attempt f)"
    "utcTimestamp dp (field_of r ''occurredAt'') = Some (mf_at f)"
    "member_of startupServers (field_of r ''serverName'') = Some (mf_server f)"
    "member_of startupPhases (field_of r ''phase'') = Some (mf_phase f)"
    "member_of startupFailureCodes (field_of r ''code'') = Some (mf_code f)"
    "(mf_phase f = ''readiness'' \<or> mf_code f = ''readiness-failed'') \<longrightarrow> is_readiness (mf_phase f) (mf_code f) (mf_server f)"
    and rest: "mf_thread f = startupIdentifier (field_of r ''threadId'')"
    "mf_runtime f = startupIdentifier (field_of r ''runtimeId'')"
    "mf_digest f = artifact_digest (field_of r ''artifactDigest'')" "mf_exit f = exit_code (field_of r ''exitCode'')"
    "mf_signal f = member_of startup_signals (field_of r ''signal'')"
    "mf_readiness f = (if is_readiness (mf_phase f) (mf_code f) (mf_server f)
       then Some (parseXerjStartupReason (field_of r ''readinessReason'')) else None)"
    by (cases v) (auto simp: parseMcpStartupFailure_def bind_eq_Some_conv)
  note named = parts(4-6) [THEN member_ofD] parts(1,2) [THEN identifierD] timestampD [OF parts(3)]
  show ?thesis
    using named parts(7) rest startup_reads
    by (cases f) (auto simp: parseMcpStartupFailure_def failure_json_def field_of_def bind_eq_Some_conv split: if_splits)
qed

lemma status_fields:
  obtains fs where "status_json s = JObj fs" and "field_of fs ''schemaVersion'' = JNum 1"
    and "field_of fs ''runtimeId'' = JStr (mt_runtime s)" and "field_of fs ''attemptId'' = JStr (mt_attempt s)"
    and "field_of fs ''threadId'' = text_value (mt_thread s)" and "field_of fs ''serverName'' = JStr (mt_server s)"
    and "field_of fs ''observedAt'' = JStr (mt_observed s)" and "field_of fs ''status'' = JStr (mt_status s)"
    and "field_of fs ''failure'' = (case mt_failure s of None \<Rightarrow> JNull | Some f \<Rightarrow> failure_json f)"
    and "field_of fs ''phase'' = (if mt_readiness s then JStr ''readiness'' else JUndef)"
  by (rule that [OF status_json_def [THEN trans, OF refl]]; cases "mt_readiness s"; simp add: field_of_def)

text \<open>What the parser keeps of an observation is read back from its stored form unchanged.\<close>

lemma startup_status_reads_back:
  assumes "parseMcpStartupStatus dp v = Some s"
  shows "parseMcpStartupStatus dp (status_json s) = Some s"
proof -
  from assms obtain r where r: "v = JObj r"
    by (cases v) (auto simp: parseMcpStartupStatus_def)
  define thread where "thread = (if field_of r ''threadId'' = JNull then None else startupIdentifier (field_of r ''threadId''))"
  define failure where "failure = parseMcpStartupFailure dp (field_of r ''failure'')"
  define ready where "ready \<longleftrightarrow> field_of r ''phase'' = JStr ''readiness''"
  from assms obtain runtime attempt observed server status where parts:
    "startupIdentifier (field_of r ''runtimeId'') = Some runtime"
    "startupIdentifier (field_of r ''attemptId'') = Some attempt"
    "utcTimestamp dp (field_of r ''observedAt'') = Some observed"
    "member_of startupServers (field_of r ''serverName'') = Some server"
    "member_of startup_statuses (field_of r ''status'') = Some status"
    and fails: "if status = ''failed'' \<or> status = ''cancelled''
       then (case failure of None \<Rightarrow> False | Some f \<Rightarrow> failure_agrees f runtime attempt thread server observed status)
       else field_of r ''failure'' = JNull"
    and s: "\<lparr> mt_runtime = runtime, mt_attempt = attempt, mt_thread = thread, mt_server = server,
            mt_observed = observed, mt_status = status, mt_failure = failure,
            mt_readiness = (ready \<and> server = ''gestalt-xerj'') \<rparr> = s"
    unfolding r parseMcpStartupStatus_def as_record.simps Let_def Option.bind_lunit
      thread_def [symmetric] failure_def [symmetric] ready_def [symmetric]
    unfolding bind_eq_Some_conv guard_Some option.inject
    by (elim exE conjE) (rule that, assumption+)
  have named: "server \<in> set startupServers" "status \<in> set startup_statuses"
    "startupIdentifier (JStr runtime) = Some runtime" "startupIdentifier (JStr attempt) = Some attempt"
    "utcTimestamp dp (JStr observed) = Some observed"
    using parts(4,5) [THEN member_ofD] parts(1,2) [THEN identifierD] timestampD [OF parts(3)] by blast+
  have thread: "startupIdentifier (text_value thread) = thread"
    unfolding thread_def using again(1) by simp
  have null: "text_value thread = JNull \<longleftrightarrow> thread = None" by (cases thread) simp_all
  have again: "parseMcpStartupFailure dp (case failure of None \<Rightarrow> JNull | Some f \<Rightarrow> failure_json f) = failure"
    using failure_reads_back unfolding failure_def
    by (cases "parseMcpStartupFailure dp (field_of r ''failure'')") (simp_all add: parseMcpStartupFailure_def)
  have none: "\<not> (status = ''failed'' \<or> status = ''cancelled'') \<Longrightarrow> failure = None"
    using fails unfolding failure_def by (simp add: parseMcpStartupFailure_def)
  have given: "(if text_value thread = JNull then None else startupIdentifier (text_value thread)) = thread"
    using thread null by simp
  from status_fields [of s] obtain fs where fs: "status_json s = JObj fs" and look:
    "field_of fs ''schemaVersion'' = JNum 1" "field_of fs ''runtimeId'' = JStr runtime"
    "field_of fs ''attemptId'' = JStr attempt" "field_of fs ''threadId'' = text_value thread"
    "field_of fs ''serverName'' = JStr server" "field_of fs ''observedAt'' = JStr observed"
    "field_of fs ''status'' = JStr status"
    "field_of fs ''failure'' = (case failure of None \<Rightarrow> JNull | Some f \<Rightarrow> failure_json f)"
    "field_of fs ''phase'' = (if ready \<and> server = ''gestalt-xerj'' then JStr ''readiness'' else JUndef)"
    unfolding s [symmetric] by auto
  have "guard (if status = ''failed'' \<or> status = ''cancelled''
      then (case failure of None \<Rightarrow> False | Some f \<Rightarrow> failure_agrees f runtime attempt thread server observed status)
      else (case failure of None \<Rightarrow> JNull | Some f \<Rightarrow> failure_json f) = JNull) = Some ()"
    using fails none by (simp split: if_splits)
  then show ?thesis
    using named null unfolding fs parseMcpStartupStatus_def as_record.simps Let_def Option.bind_lunit look given again
    by (simp add: s [symmetric] guard_def)
qed

end
