(* ===== verification/Session_Forget.thy ===== *)
theory Session_Forget
  imports Prelude
begin

text \<open>
  The store of the operations that forget a session
  (src/server/platform/persistence/sqlite-forget-operation-store.ts, the type of
  src/shared/contracts/session-forget.ts, the table of migrate.ts). A row is never deleted: it fences
  the session from the moment forgetting begins, and its identifier for good.
\<close>

subsection \<open>Operations\<close>

datatype forget_phase = ForgetStopping | ForgetCleaning | ForgetFinalizing | ForgetFailed | ForgetCompleted

datatype forget_failure = SessionReleaseUnconfirmed | SessionCleanupFailed | SessionForgetFailed

record forget_op =
  fo_session :: string
  fo_operation :: string
  fo_phase :: forget_phase
  fo_updated :: string
  fo_failure :: "forget_failure option"

datatype forget_error = ForgetInProgress | ForgetOperationChanged | ForgetConstraint

definition find_forget :: "forget_op list \<Rightarrow> string \<Rightarrow> forget_op option" where
  "find_forget rows session = List.find (\<lambda>r. fo_session r = session) rows"

definition assertAvailable :: "forget_op list \<Rightarrow> string \<Rightarrow> forget_error + unit" where
  "assertAvailable rows session = (if find_forget rows session \<noteq> None then Inl ForgetInProgress else Inr ())"

definition pendingIds :: "forget_op list \<Rightarrow> string list" where
  "pendingIds rows = map fo_session (filter (\<lambda>r. fo_phase r \<noteq> ForgetCompleted) rows)"

text \<open>The checks and the unique key of the table, besides its primary key.\<close>

definition forget_row_valid :: "forget_op \<Rightarrow> bool" where
  "forget_row_valid r \<longleftrightarrow> 1 \<le> length (fo_session r) \<and> length (fo_session r) \<le> 256
     \<and> length (fo_operation r) = 36 \<and> length (fo_updated r) \<le> 32"

text \<open>\<open>known\<close>: the session has a row. \<open>operation\<close> and \<open>now\<close> are the random identifier and the time.\<close>

definition begin_rows :: "bool \<Rightarrow> forget_op list \<Rightarrow> string \<Rightarrow> string \<Rightarrow> string \<Rightarrow> forget_error + forget_op list" where
  "begin_rows known rows session operation now =
     (let r = \<lparr> fo_session = session, fo_operation = operation, fo_phase = ForgetStopping, fo_updated = now,
            fo_failure = None \<rparr> in
      if \<not> known \<or> find_forget rows session \<noteq> None then Inr rows
      else if forget_row_valid r \<and> \<not> list_ex (\<lambda>r'. fo_operation r' = operation) rows then Inr (rows @ [r])
      else Inl ForgetConstraint)"

definition update_rows :: "forget_op list \<Rightarrow> forget_op \<Rightarrow> forget_error + forget_op list" where
  "update_rows rows op =
     (let hit = (\<lambda>r. fo_session r = fo_session op \<and> fo_operation r = fo_operation op \<and> fo_phase r \<noteq> ForgetCompleted) in
      if list_ex hit rows \<and> 32 < length (fo_updated op) then Inl ForgetConstraint
      else Inr (update_where hit
        (\<lambda>r. r\<lparr>fo_phase := fo_phase op, fo_updated := fo_updated op, fo_failure := fo_failure op\<rparr>) rows))"

text \<open>Inside the transaction that deletes the session.\<close>

definition finalize_rows :: "forget_op list \<Rightarrow> forget_op \<Rightarrow> forget_error + forget_op list" where
  "finalize_rows rows op =
     (case find_forget rows (fo_session op) of
        None \<Rightarrow> Inl ForgetOperationChanged
      | Some current \<Rightarrow>
          if fo_operation current \<noteq> fo_operation op \<or> fo_phase current \<notin> {ForgetFinalizing, ForgetCompleted}
          then Inl ForgetOperationChanged
          else update_rows rows (op\<lparr>fo_phase := ForgetCompleted\<rparr>))"

subsection \<open>A session that is being forgotten stays so\<close>

definition fenced_by :: "forget_op list \<Rightarrow> string \<Rightarrow> bool" where
  "fenced_by rows session \<longleftrightarrow> find_forget rows session \<noteq> None"

lemma fenced_by_iff: "fenced_by rows session \<longleftrightarrow> session \<in> fo_session ` set rows"
  by (auto simp: fenced_by_def find_forget_def find_None_iff)

text \<open>A fenced session is not available, and until its operation is completed it is pending.\<close>

lemma available_iff: "assertAvailable rows session = Inr () \<longleftrightarrow> \<not> fenced_by rows session"
  by (simp add: assertAvailable_def fenced_by_def)

lemma pending_fenced: "session \<in> set (pendingIds rows) \<Longrightarrow> fenced_by rows session"
  by (auto simp: pendingIds_def fenced_by_iff)

lemma begin_fences:
  assumes "begin_rows known rows session operation now = Inr rows'"
  shows "fenced_by rows' x \<longleftrightarrow> fenced_by rows x \<or> (x = session \<and> known)"
  using assms by (auto simp: begin_rows_def Let_def fenced_by_iff find_forget_def find_None_iff split: if_splits)

lemma update_fences:
  assumes "update_rows rows op = Inr rows'" shows "fenced_by rows' x \<longleftrightarrow> fenced_by rows x"
proof -
  have "fo_session ` set (update_where P (\<lambda>r. r\<lparr>fo_phase := a, fo_updated := b, fo_failure := c\<rparr>) rows)
      = fo_session ` set rows" for P a b c
    by (induction rows) simp_all
  note same = this
  from assms obtain P where "rows' = update_where P
      (\<lambda>r. r\<lparr>fo_phase := fo_phase op, fo_updated := fo_updated op, fo_failure := fo_failure op\<rparr>) rows"
    unfolding update_rows_def Let_def by (auto split: if_splits)
  then show ?thesis unfolding fenced_by_iff by (simp only: same)
qed

lemma finalize_fences:
  assumes "finalize_rows rows op = Inr rows'"
  shows "fenced_by rows' x \<longleftrightarrow> fenced_by rows x" and "fenced_by rows (fo_session op)"
  using assms update_fences by (auto simp: finalize_rows_def fenced_by_def split: option.splits if_splits)

end
