(* ===== verification/Event_Journal.thy ===== *)
theory Event_Journal
  imports Mcp_Startup Autopilot_Store Autopilot_Policy Session_Forget
begin

text \<open>
  The durable journal of session events (src/server/platform/persistence/sqlite-event-journal.ts and
  retention.ts, src/server/platform/events/replay.ts) and the publication of the outbox of automatic
  supervision into it (\<open>flushOutbox\<close> of service.ts, \<open>publish\<close> of composition.ts).

  The rows of \<open>relay_sessions\<close> are reduced to the columns the journal reads. While a session is being
  forgotten, triggers of migrate.ts silently ignore every insert and update of its row. A stored payload is the
  value its text spells. \<open>dp\<close> is \<open>Date.parse\<close>, \<open>jday\<close> is \<open>julianday\<close> of SQLite, \<open>text_bytes\<close> the
  length of the JSON text in bytes, \<open>ellipsis\<close> the character U+2026.
\<close>

subsection \<open>Tables\<close>

record relay_row =
  rr_id :: string
  rr_state :: string
  rr_desired :: string
  rr_turn :: "string option"
  rr_next :: nat

record session_event =
  se_session :: string
  se_sequence :: nat
  se_type :: string
  se_at :: string
  se_payload :: jv

record journal_row =
  jr_event :: session_event
  jr_outbox :: "nat option"

record journal_db =
  jb_sessions :: "relay_row list"
  jb_events :: "journal_row list"
  jb_forget :: "forget_op list"

datatype journal_error = SessionNotFound | InvalidStartupStatus | InvalidCutoff | ForgetRefused forget_error

text \<open>The condition of the triggers \<open>forget_fence_insert\<close> and \<open>forget_fence_update\<close>.\<close>

definition fenced :: "journal_db \<Rightarrow> string \<Rightarrow> bool" where
  "fenced db session \<longleftrightarrow> fenced_by (jb_forget db) session"

definition row_session :: "journal_row \<Rightarrow> string" where
  "row_session r = se_session (jr_event r)"

definition row_sequence :: "journal_row \<Rightarrow> nat" where
  "row_sequence r = se_sequence (jr_event r)"

subsection \<open>Retention\<close>

definition closed_row :: "relay_row \<Rightarrow> bool" where
  "closed_row r \<longleftrightarrow> (rr_state r = ''stopped'' \<or> rr_state r = ''released'') \<and> rr_desired r = ''stopped'' \<and> rr_turn r = None"

definition closedSessionIds :: "journal_db \<Rightarrow> string list" where
  "closedSessionIds db = map rr_id (filter closed_row (jb_sessions db))"

definition eventRetentionMs :: int where
  "eventRetentionMs = 48 * 60 * 60 * 1000"

text \<open>\<open>Inl\<close> is the RangeError of a time before the first representable one.\<close>

definition eventRetentionCutoff :: "(string \<Rightarrow> int option) \<Rightarrow> string \<Rightarrow> journal_error + string option" where
  "eventRetentionCutoff dp occurred =
     (case dp occurred of
        None \<Rightarrow> Inr None
      | Some t \<Rightarrow>
          if \<bar>t - eventRetentionMs\<bar> \<le> max_time then Inr (Some (toISOString (t - eventRetentionMs)))
          else Inl InvalidCutoff)"

definition day_before :: "(string \<Rightarrow> rat option) \<Rightarrow> string \<Rightarrow> string \<Rightarrow> bool" where
  "day_before jday a b =
     (case (jday a, jday b) of (Some x, Some y) \<Rightarrow> x < y | _ \<Rightarrow> False)"

definition session_rows :: "journal_db \<Rightarrow> string \<Rightarrow> journal_row list" where
  "session_rows db session =
     sort_key row_sequence (filter (\<lambda>r. row_session r = session) (jb_events db))"

definition trim_events ::
  "(string \<Rightarrow> int option) \<Rightarrow> (string \<Rightarrow> rat option) \<Rightarrow> nat option \<Rightarrow> journal_db \<Rightarrow> string \<Rightarrow> string
     \<Rightarrow> journal_error + journal_db" where
  "trim_events dp jday retain db session occurred =
     (case retain of
        Some n \<Rightarrow>
          let kept = take n (rev (map row_sequence (session_rows db session))) in
          Inr (db\<lparr>jb_events := filter (\<lambda>r. \<not> (row_session r = session \<and> session \<in> set (closedSessionIds db)
                \<and> row_sequence r \<notin> set kept)) (jb_events db)\<rparr>)
      | None \<Rightarrow>
          (case eventRetentionCutoff dp occurred of
             Inl e \<Rightarrow> Inl e
           | Inr None \<Rightarrow> Inr db
           | Inr (Some cutoff) \<Rightarrow>
               Inr (db\<lparr>jb_events := filter (\<lambda>r. \<not> (row_session r \<in> set (closedSessionIds db)
                     \<and> day_before jday (se_at (jr_event r)) cutoff)) (jb_events db)\<rparr>)))"

subsection \<open>Appending\<close>

definition journal_payload :: "(string \<Rightarrow> int option) \<Rightarrow> string \<Rightarrow> jv \<Rightarrow> jv option" where
  "journal_payload dp kind payload =
     (if kind = ''agent.activity.mcp-startup'' then map_option status_json (parseMcpStartupStatus dp payload)
      else if kind = ''activity.updated''
      then (case as_record payload of
              None \<Rightarrow> Some payload
            | Some f \<Rightarrow>
                (case map_of f ''mcpStartup'' of
                   None \<Rightarrow> Some payload
                 | Some startup \<Rightarrow> map_option mcpStartupActivity (parseMcpStartupStatus dp startup)))
      else Some payload)"

text \<open>The two keys of the table: session and sequence, and session and outbox identifier.\<close>

definition key_taken :: "journal_db \<Rightarrow> string \<Rightarrow> nat \<Rightarrow> nat option \<Rightarrow> bool" where
  "key_taken db session n outbox \<longleftrightarrow>
     list_ex (\<lambda>r. row_session r = session
        \<and> (row_sequence r = n \<or> (outbox \<noteq> None \<and> jr_outbox r = outbox))) (jb_events db)"

definition published_row :: "journal_db \<Rightarrow> string \<Rightarrow> nat option \<Rightarrow> journal_row option" where
  "published_row db session outbox =
     (if outbox = None then None
      else List.find (\<lambda>r. row_session r = session \<and> jr_outbox r = outbox) (jb_events db))"

definition bump_sequence :: "journal_db \<Rightarrow> string \<Rightarrow> journal_db" where
  "bump_sequence db session =
     (if fenced db session then db
      else db\<lparr>jb_sessions := update_where (\<lambda>r. rr_id r = session) (\<lambda>r. r\<lparr>rr_next := rr_next r + 1\<rparr>) (jb_sessions db)\<rparr>)"

definition journal_append ::
  "(string \<Rightarrow> int option) \<Rightarrow> (string \<Rightarrow> rat option) \<Rightarrow> nat option \<Rightarrow> journal_db \<Rightarrow> string \<Rightarrow> string \<Rightarrow> jv
     \<Rightarrow> string \<Rightarrow> nat option \<Rightarrow> journal_error + (session_event \<times> journal_db)" where
  "journal_append dp jday retain db session kind payload occurred outbox =
     (case journal_payload dp kind payload of
        None \<Rightarrow> Inl InvalidStartupStatus
      | Some body \<Rightarrow>
          (case List.find (\<lambda>r. rr_id r = session) (jb_sessions db) of
             None \<Rightarrow> Inl SessionNotFound
           | Some row \<Rightarrow>
               let event = \<lparr> se_session = session, se_sequence = rr_next row, se_type = kind, se_at = occurred,
                     se_payload = body \<rparr>;
                   taken = key_taken db session (rr_next row) outbox in
               (case (if taken then published_row db session outbox else None) of
                  Some existing \<Rightarrow> Inr (jr_event existing, db)
                | None \<Rightarrow>
                    let db1 = (if taken then db
                      else db\<lparr>jb_events := jb_events db @ [\<lparr> jr_event = event, jr_outbox = outbox \<rparr>]\<rparr>) in
                    (case trim_events dp jday retain (bump_sequence db1 session) session occurred of
                       Inl e \<Rightarrow> Inl e
                     | Inr db2 \<Rightarrow> Inr (event, db2)))))"

text \<open>Saving and removing a session; the events of a removed session go with it.\<close>

definition session_save :: "journal_db \<Rightarrow> string \<Rightarrow> string \<Rightarrow> string \<Rightarrow> string option \<Rightarrow> journal_db" where
  "session_save db session state desired turn =
     (if fenced db session then db
      else db\<lparr>jb_sessions :=
        (if list_ex (\<lambda>r. rr_id r = session) (jb_sessions db)
         then update_where (\<lambda>r. rr_id r = session)
                (\<lambda>r. r\<lparr>rr_state := state, rr_desired := desired, rr_turn := turn\<rparr>) (jb_sessions db)
         else jb_sessions db @ [\<lparr> rr_id = session, rr_state = state, rr_desired = desired, rr_turn = turn,
                rr_next = 1 \<rparr>])\<rparr>)"

definition session_remove :: "journal_db \<Rightarrow> string \<Rightarrow> journal_db" where
  "session_remove db session =
     db\<lparr>jb_sessions := filter (\<lambda>r. rr_id r \<noteq> session) (jb_sessions db),
        jb_events := filter (\<lambda>r. row_session r \<noteq> session) (jb_events db)\<rparr>"

text \<open>The store of forget operations, on the tables of the journal. A throw is rolled back.\<close>

definition forget_answer :: "(forget_op list \<Rightarrow> journal_db) \<Rightarrow> string \<Rightarrow> forget_error + forget_op list
    \<Rightarrow> journal_error + (forget_op option \<times> journal_db)" where
  "forget_answer put session answer =
     (case answer of
        Inl e \<Rightarrow> Inl (ForgetRefused e)
      | Inr rows \<Rightarrow> Inr (find_forget rows session, put rows))"

definition forget_begin :: "journal_db \<Rightarrow> string \<Rightarrow> string \<Rightarrow> string \<Rightarrow> journal_error + (forget_op option \<times> journal_db)" where
  "forget_begin db session operation now =
     forget_answer (\<lambda>rows. db\<lparr>jb_forget := rows\<rparr>) session
       (begin_rows (list_ex (\<lambda>r. rr_id r = session) (jb_sessions db)) (jb_forget db) session operation now)"

definition forget_update :: "journal_db \<Rightarrow> forget_op \<Rightarrow> journal_error + (forget_op option \<times> journal_db)" where
  "forget_update db op =
     forget_answer (\<lambda>rows. db\<lparr>jb_forget := rows\<rparr>) (fo_session op) (update_rows (jb_forget db) op)"

definition forget_finalize :: "journal_db \<Rightarrow> forget_op \<Rightarrow> journal_error + (forget_op option \<times> journal_db)" where
  "forget_finalize db op =
     forget_answer (\<lambda>rows. session_remove (db\<lparr>jb_forget := rows\<rparr>) (fo_session op)) (fo_session op)
       (finalize_rows (jb_forget db) op)"

datatype journal_write =
    AppendEvent string string jv string "nat option"
  | SaveRelaySession string string string "string option"
  | RemoveRelaySession string
  | BeginForget string string string
  | UpdateForget forget_op
  | FinalizeForget forget_op

fun journal_call ::
  "(string \<Rightarrow> int option) \<Rightarrow> (string \<Rightarrow> rat option) \<Rightarrow> nat option \<Rightarrow> journal_db \<Rightarrow> journal_write
     \<Rightarrow> journal_error + journal_db" where
  "journal_call dp jday retain db (AppendEvent session kind payload occurred outbox) =
     map_sum (\<lambda>x. x) snd (journal_append dp jday retain db session kind payload occurred outbox)"
| "journal_call dp jday retain db (SaveRelaySession session state desired turn) = Inr (session_save db session state desired turn)"
| "journal_call dp jday retain db (RemoveRelaySession session) = Inr (session_remove db session)"
| "journal_call dp jday retain db (BeginForget session operation now) = map_sum (\<lambda>x. x) snd (forget_begin db session operation now)"
| "journal_call dp jday retain db (UpdateForget op) = map_sum (\<lambda>x. x) snd (forget_update db op)"
| "journal_call dp jday retain db (FinalizeForget op) = map_sum (\<lambda>x. x) snd (forget_finalize db op)"

abbreviation journal_run where
  "journal_run dp jday retain \<equiv> run_commands (journal_call dp jday retain)"

subsection \<open>Reading\<close>

definition currentSequence :: "journal_db \<Rightarrow> string \<Rightarrow> nat" where
  "currentSequence db session = fold max (map row_sequence (session_rows db session)) 0"

definition activityHistory :: "journal_db \<Rightarrow> string \<Rightarrow> nat \<Rightarrow> session_event list" where
  "activityHistory db session through =
     map jr_event (filter (\<lambda>r. se_type (jr_event r) = ''activity.updated'' \<and> row_sequence r \<le> through)
       (session_rows db session))"

datatype replay_answer = Replay "session_event list" | Resync nat

definition replayOrResync :: "session_event list \<Rightarrow> nat \<Rightarrow> replay_answer" where
  "replayOrResync events after =
     (case events of
        [] \<Rightarrow> Replay []
      | e # _ \<Rightarrow>
          if se_sequence e > after + 1 then Resync (se_sequence (last events))
          else Replay (filter (\<lambda>e. se_sequence e > after) events))"

definition rows_after :: "journal_db \<Rightarrow> string \<Rightarrow> nat \<Rightarrow> nat \<Rightarrow> journal_row list" where
  "rows_after db session after current =
     filter (\<lambda>r. after < row_sequence r \<and> row_sequence r \<le> current) (session_rows db session)"

definition replay :: "(jv \<Rightarrow> nat) \<Rightarrow> journal_db \<Rightarrow> string \<Rightarrow> nat \<Rightarrow> replay_answer" where
  "replay text_bytes db session after =
     (let current = currentSequence db session;
          rows = take 201 (rows_after db session after current) in
      if length rows > 200
         \<or> sum_list (map (\<lambda>r. text_bytes (se_payload (jr_event r))) rows) > 512 * 1024
         \<or> (case rows of [] \<Rightarrow> False | r # _ \<Rightarrow> row_sequence r \<noteq> after + 1)
      then Resync current
      else replayOrResync (map jr_event (take 200 (rows_after db session after current))) after)"

definition journal_since :: "journal_db \<Rightarrow> string \<Rightarrow> nat \<Rightarrow> session_event list" where
  "journal_since db session after =
     map jr_event (filter (\<lambda>r. row_sequence r > after) (session_rows db session))"

definition safe_limit :: "int \<Rightarrow> nat" where
  "safe_limit limit = nat (max 1 (min limit 200))"

definition journal_tail :: "journal_db \<Rightarrow> string \<Rightarrow> int \<Rightarrow> session_event list" where
  "journal_tail db session limit =
     rev (map jr_event (take (safe_limit limit) (rev (session_rows db session))))"

definition tailWithTruncation :: "journal_db \<Rightarrow> string \<Rightarrow> int \<Rightarrow> session_event list \<times> bool" where
  "tailWithTruncation db session limit =
     (let events = journal_tail db session (int (safe_limit limit)) in
      (events,
       case events of
         [] \<Rightarrow> False
       | e # _ \<Rightarrow> list_ex (\<lambda>r. row_sequence r < se_sequence e) (session_rows db session)))"

definition autopilotAuditEventTypes :: "string list" where
  "autopilotAuditEventTypes =
     [''autopilot.turn-started'', ''autopilot.turn-failed'', ''autopilot.final-rejected'',
      ''autopilot.executor-resumed'', ''autopilot.process-monitoring'', ''autopilot.process-result-consumed'',
      ''autopilot.process-terminated'', ''autopilot.updated'', ''org-plan.attention-required'',
      ''org-plan.attention-resolved'']"

text \<open>\<open>json_extract\<close> of a field; a text of the payload that is no object has none.\<close>

definition json_extract :: "jv \<Rightarrow> string \<Rightarrow> jv" where
  "json_extract payload k = (case as_record payload of None \<Rightarrow> JUndef | Some f \<Rightarrow> field_of f k)"

definition text_in :: "jv \<Rightarrow> string list \<Rightarrow> bool" where
  "text_in v names \<longleftrightarrow> (case as_string v of None \<Rightarrow> False | Some s \<Rightarrow> s \<in> set names)"

definition renderable :: "session_event \<Rightarrow> bool" where
  "renderable e \<longleftrightarrow>
     se_type e \<in> set autopilotAuditEventTypes
     \<and> (se_type e \<noteq> ''autopilot.updated''
        \<or> text_in (json_extract (se_payload e) ''state'') [''completed'']
        \<or> (text_in (json_extract (se_payload e) ''state'') [''safetyPaused'']
           \<and> text_in (json_extract (se_payload e) ''reason'') [''usageLimitExceeded'', ''providerError''])
        \<or> (text_in (json_extract (se_payload e) ''state'') [''attentionRequired'']
           \<and> text_in (json_extract (se_payload e) ''reason'')
               [''noPlanProgress'', ''reconcileFailed'', ''actionRateExceeded'']))"

definition autopilotAuditTail :: "journal_db \<Rightarrow> string \<Rightarrow> int \<Rightarrow> session_event list \<times> bool" where
  "autopilotAuditTail db session limit =
     (let rows = filter (\<lambda>r. renderable (jr_event r)) (session_rows db session);
          events = map jr_event (rev (take (safe_limit limit) (rev rows))) in
      (events, case events of [] \<Rightarrow> False | e # _ \<Rightarrow> list_ex (\<lambda>r. row_sequence r < se_sequence e) rows))"

definition boundedAttentionReport :: "string \<Rightarrow> jv \<Rightarrow> string option" where
  "boundedAttentionReport ellipsis v =
     (case as_string v of
        None \<Rightarrow> None
      | Some s \<Rightarrow>
          let t = js_trim s in
          if t = [] then None
          else if length t \<le> 4000 then Some t else Some (take 3999 t @ ellipsis))"

text \<open>The final answer of the turn at or after the request, or else its last commentary up to then.\<close>

definition reports :: "string \<Rightarrow> string \<Rightarrow> journal_row \<Rightarrow> bool" where
  "reports turn requested r \<longleftrightarrow>
     (let e = jr_event r; phase = json_extract (se_payload e) ''phase'' in
      se_type e = ''agentMessageCompleted'' \<and> json_extract (se_payload e) ''turnId'' = JStr turn
      \<and> ((phase = JStr ''final_answer'' \<and> 0 \<le> code_unit_compare (se_at e) requested)
         \<or> (phase = JStr ''commentary'' \<and> code_unit_compare (se_at e) requested \<le> 0))
      \<and> as_string (json_extract (se_payload e) ''text'') \<noteq> None)"

definition journal_attention_report :: "string \<Rightarrow> journal_db \<Rightarrow> string \<Rightarrow> string \<Rightarrow> string \<Rightarrow> string option" where
  "journal_attention_report ellipsis db session turn requested =
     (let rows = rev (filter (reports turn requested) (session_rows db session));
          finals = filter (\<lambda>r. json_extract (se_payload (jr_event r)) ''phase'' = JStr ''final_answer'') rows in
      case finals @ rows of
        [] \<Rightarrow> None
      | r # _ \<Rightarrow>
          boundedAttentionReport ellipsis
            (JStr (take 4001 (coalesce (as_string (json_extract (se_payload (jr_event r)) ''text'')) []))))"

subsection \<open>Publishing the outbox\<close>

definition publish_audit ::
  "(string \<Rightarrow> int option) \<Rightarrow> (string \<Rightarrow> rat option) \<Rightarrow> journal_db \<Rightarrow> nat \<times> audit_event
     \<Rightarrow> journal_error + journal_db" where
  "publish_audit dp jday db entry =
     (case entry of
        (i, e) \<Rightarrow>
          if List.find (\<lambda>r. rr_id r = ae_session e) (jb_sessions db) = None then Inr db
          else map_sum (\<lambda>x. x) snd (journal_append dp jday None db (ae_session e) (ae_type e) (ae_payload e) (ae_at e) (Some i)))"

text \<open>
  The loop of \<open>flushOutbox\<close>, which publishes an entry and then acknowledges it. \<open>fuel\<close> counts these two
  steps: a process that dies stops the loop after any of them. A throw of the journal leaves the loop.
\<close>

fun flush_loop ::
  "(string \<Rightarrow> int option) \<Rightarrow> (string \<Rightarrow> rat option) \<Rightarrow> nat \<Rightarrow> (nat \<times> audit_event) list
     \<Rightarrow> pilot_db \<times> journal_db \<Rightarrow> pilot_db \<times> journal_db" where
  "flush_loop dp jday 0 entries s = s"
| "flush_loop dp jday fuel [] s = s"
| "flush_loop dp jday (Suc 0) (entry # entries) (p, j) =
     (case publish_audit dp jday j entry of Inl _ \<Rightarrow> (p, j) | Inr j' \<Rightarrow> (p, j'))"
| "flush_loop dp jday (Suc (Suc fuel)) (entry # entries) (p, j) =
     (case publish_audit dp jday j entry of
        Inl _ \<Rightarrow> (p, j)
      | Inr j' \<Rightarrow> flush_loop dp jday fuel entries (acknowledgeOutbox p (fst entry), j'))"

definition flushOutbox ::
  "(string \<Rightarrow> int option) \<Rightarrow> (string \<Rightarrow> rat option) \<Rightarrow> nat \<Rightarrow> string \<Rightarrow> pilot_db \<times> journal_db \<Rightarrow> pilot_db \<times> journal_db" where
  "flushOutbox dp jday fuel session s = flush_loop dp jday fuel (drainOutbox (fst s) session) s"

end
