(* ===== verification/Event_Journal_Facts.thy ===== *)
theory Event_Journal_Facts
  imports Event_Journal
begin

text \<open>
  What the event journal guarantees: consecutive numbers that are never given twice, a replay that is
  complete or asks for a fresh snapshot, and one event for each entry of the outbox, whatever crashes
  interrupt its publication.
\<close>

subsection \<open>Invariant\<close>

definition row_ok :: "journal_db \<Rightarrow> journal_row \<Rightarrow> bool" where
  "row_ok db r \<longleftrightarrow> 1 \<le> row_sequence r
     \<and> (\<exists>s \<in> set (jb_sessions db). rr_id s = row_session r
         \<and> (row_sequence r < rr_next s \<or> (fenced db (row_session r) \<and> row_sequence r = rr_next s)))"

definition journal_ok :: "journal_db \<Rightarrow> bool" where
  "journal_ok db \<longleftrightarrow>
     keys_distinct rr_id (jb_sessions db)
     \<and> (\<forall>s \<in> set (jb_sessions db). 1 \<le> rr_next s)
     \<and> keys_distinct (\<lambda>r. (row_session r, row_sequence r)) (jb_events db)
     \<and> (\<forall>r \<in> set (jb_events db). row_ok db r)
     \<and> (\<forall>r \<in> set (jb_events db). \<forall>r' \<in> set (jb_events db).
          row_session r = row_session r' \<and> jr_outbox r = jr_outbox r' \<and> jr_outbox r \<noteq> None \<longrightarrow> r = r')"

lemma ok_parts:
  assumes "journal_ok db"
  shows "keys_distinct rr_id (jb_sessions db)"
    and "\<And>s. s \<in> set (jb_sessions db) \<Longrightarrow> 1 \<le> rr_next s"
    and "keys_distinct (\<lambda>r. (row_session r, row_sequence r)) (jb_events db)"
    and "\<And>r. r \<in> set (jb_events db) \<Longrightarrow> row_ok db r"
    and "\<And>r r'. r \<in> set (jb_events db) \<Longrightarrow> r' \<in> set (jb_events db) \<Longrightarrow> row_session r = row_session r' \<Longrightarrow>
       jr_outbox r = jr_outbox r' \<Longrightarrow> jr_outbox r \<noteq> None \<Longrightarrow> r = r'"
  using assms by (simp_all add: journal_ok_def)

lemma journal_okI:
  assumes "keys_distinct rr_id (jb_sessions db)"
    and "\<And>s. s \<in> set (jb_sessions db) \<Longrightarrow> 1 \<le> rr_next s"
    and "keys_distinct (\<lambda>r. (row_session r, row_sequence r)) (jb_events db)"
    and "\<And>r. r \<in> set (jb_events db) \<Longrightarrow> row_ok db r"
    and "\<And>r r'. r \<in> set (jb_events db) \<Longrightarrow> r' \<in> set (jb_events db) \<Longrightarrow> row_session r = row_session r' \<Longrightarrow>
       jr_outbox r = jr_outbox r' \<Longrightarrow> jr_outbox r \<noteq> None \<Longrightarrow> r = r'"
  shows "journal_ok db"
  using assms unfolding journal_ok_def by blast

lemma in_update: "x \<in> set xs \<Longrightarrow> (if P x then f x else x) \<in> set (update_where P f xs)"
  by (auto simp: in_set_update_where)

lemma below_next:
  assumes "journal_ok db" and "s \<in> set (jb_sessions db)" and "rr_id s = session"
    and "r \<in> set (jb_events db)" and "row_session r = session"
  shows "row_sequence r \<le> rr_next s" and "\<not> fenced db session \<Longrightarrow> row_sequence r < rr_next s"
proof -
  from ok_parts(4) [OF assms(1,4)] obtain s' where s': "s' \<in> set (jb_sessions db)" "rr_id s' = row_session r"
    "row_sequence r < rr_next s' \<or> (fenced db (row_session r) \<and> row_sequence r = rr_next s')"
    by (auto simp: row_ok_def)
  with keys_distinct_inj [OF ok_parts(1) [OF assms(1)], of s' s] assms have "s' = s" by simp
  with s'(3) assms(5) show "row_sequence r \<le> rr_next s" "\<not> fenced db session \<Longrightarrow> row_sequence r < rr_next s"
    by auto
qed

lemma find_session: "List.find (\<lambda>r. rr_id r = session) rows = Some row \<Longrightarrow> row \<in> set rows \<and> rr_id row = session"
  by (rule find_key_Some)

definition still_open :: "journal_db \<Rightarrow> string \<Rightarrow> bool" where
  "still_open db session \<longleftrightarrow> session \<notin> set (closedSessionIds db)"

lemma closed_update:
  "(\<And>r. rr_id (f r) = rr_id r \<and> closed_row (f r) = closed_row r) \<Longrightarrow>
     map rr_id (filter closed_row (update_where P f rows)) = map rr_id (filter closed_row rows)"
  by (induction rows) auto

lemma closed_next [simp]: "closed_row (r\<lparr>rr_next := n\<rparr>) = closed_row r"
  by (simp add: closed_row_def)

lemma bump_closed: "closedSessionIds (bump_sequence db session) = closedSessionIds db"
  unfolding closedSessionIds_def bump_sequence_def by (simp add: closed_update del: set_map)

lemma open_same [simp]:
  "still_open (bump_sequence db session) x = still_open db x"
  "still_open (db\<lparr>jb_events := es\<rparr>) x = still_open db x"
  by (simp_all add: still_open_def bump_closed) (simp add: closedSessionIds_def)

lemma snd_answer: "map_sum (\<lambda>x. x) snd r = Inr b \<longleftrightarrow> (\<exists>a. r = Inr (a, b))"
  by (cases r) auto

lemma trimmed:
  assumes "trim_events dp jday retain db session occurred = Inr db'"
  obtains P where "db' = db\<lparr>jb_events := filter P (jb_events db)\<rparr>"
    and "\<And>r. still_open db (row_session r) \<Longrightarrow> P r"
proof (cases retain)
  case None
  show ?thesis
  proof (cases "eventRetentionCutoff dp occurred")
    case (Inr cutoff)
    show ?thesis
    proof (cases cutoff)
      case None
      with Inr \<open>retain = None\<close> assms show ?thesis by (intro that [of "\<lambda>_. True"]) (simp_all add: trim_events_def)
    next
      case (Some c)
      with Inr \<open>retain = None\<close> assms show ?thesis
        by (intro that [of "\<lambda>r. \<not> (row_session r \<in> set (closedSessionIds db) \<and> day_before jday (se_at (jr_event r)) c)"])
           (simp_all add: trim_events_def still_open_def)
    qed
  qed (use assms None in \<open>simp add: trim_events_def\<close>)
next
  case (Some n)
  with assms show ?thesis
    by (intro that [of "\<lambda>r. \<not> (row_session r = session \<and> session \<in> set (closedSessionIds db)
         \<and> row_sequence r \<notin> set (take n (rev (map row_sequence (session_rows db session)))))"])
       (auto simp: trim_events_def Let_def still_open_def)
qed

definition new_row :: "relay_row \<Rightarrow> string \<Rightarrow> jv \<Rightarrow> string \<Rightarrow> nat option \<Rightarrow> journal_row" where
  "new_row row kind body occurred outbox =
     \<lparr> jr_event = \<lparr> se_session = rr_id row, se_sequence = rr_next row, se_type = kind, se_at = occurred, se_payload = body \<rparr>,
       jr_outbox = outbox \<rparr>"

lemma new_row_fields [simp]:
  "row_session (new_row row kind body occurred outbox) = rr_id row"
  "row_sequence (new_row row kind body occurred outbox) = rr_next row"
  "jr_outbox (new_row row kind body occurred outbox) = outbox"
  "se_type (jr_event (new_row row kind body occurred outbox)) = kind"
  "se_at (jr_event (new_row row kind body occurred outbox)) = occurred"
  "se_payload (jr_event (new_row row kind body occurred outbox)) = body"
  "se_sequence (jr_event (new_row row kind body occurred outbox)) = rr_next row"
  by (simp_all add: new_row_def row_session_def row_sequence_def)

lemma taken_is_published:
  assumes "journal_ok db" and "row \<in> set (jb_sessions db)" and "rr_id row = session"
    and "key_taken db session (rr_next row) outbox" and "\<not> fenced db session"
  obtains r where "r \<in> set (jb_events db)" and "row_session r = session" and "jr_outbox r = outbox" and "outbox \<noteq> None"
    and "published_row db session outbox = Some r"
proof -
  from assms(4) obtain r0 where r0: "r0 \<in> set (jb_events db)" "row_session r0 = session"
    "row_sequence r0 = rr_next row \<or> (outbox \<noteq> None \<and> jr_outbox r0 = outbox)"
    by (auto simp: key_taken_def list_ex_iff)
  with below_next(2) [OF assms(1-3) r0(1,2) assms(5)] have out: "outbox \<noteq> None" "jr_outbox r0 = outbox" by auto
  then obtain r where r: "List.find (\<lambda>r. row_session r = session \<and> jr_outbox r = outbox) (jb_events db) = Some r"
    using r0 by (cases "List.find (\<lambda>r. row_session r = session \<and> jr_outbox r = outbox) (jb_events db)")
      (auto simp: find_None_iff)
  then have "r \<in> set (jb_events db) \<and> row_session r = session \<and> jr_outbox r = outbox" by (auto simp: find_Some_iff)
  moreover have "published_row db session outbox = Some r" using r out by (simp add: published_row_def)
  ultimately show ?thesis using out that by blast
qed

lemma append_cases:
  assumes "journal_append dp jday retain db session kind payload occurred outbox = Inr (e, db')" and "journal_ok db"
  obtains (repeated) r where "r \<in> set (jb_events db)" and "row_session r = session" and "jr_outbox r = outbox"
      and "outbox \<noteq> None" and "e = jr_event r" and "db' = db"
  | (lost) row body r P where "row \<in> set (jb_sessions db)" and "rr_id row = session"
      and "journal_payload dp kind payload = Some body" and "fenced db session"
      and "r \<in> set (jb_events db)" and "row_session r = session" and "row_sequence r = rr_next row"
      and "published_row db session outbox = None" and "e = jr_event (new_row row kind body occurred outbox)"
      and "\<And>r. still_open db (row_session r) \<Longrightarrow> P r" and "db' = db\<lparr>jb_events := filter P (jb_events db)\<rparr>"
  | (appended) row body P where "row \<in> set (jb_sessions db)" and "rr_id row = session"
      and "journal_payload dp kind payload = Some body" and "\<not> key_taken db session (rr_next row) outbox"
      and "e = jr_event (new_row row kind body occurred outbox)"
      and "\<And>r. still_open db (row_session r) \<Longrightarrow> P r"
      and "db' = (bump_sequence db session)\<lparr>jb_events := filter P (jb_events db @ [new_row row kind body occurred outbox])\<rparr>"
proof -
  from assms(1) obtain body where body: "journal_payload dp kind payload = Some body"
    by (auto simp: journal_append_def split: option.splits)
  from assms(1) body obtain row where find: "List.find (\<lambda>r. rr_id r = session) (jb_sessions db) = Some row"
    by (auto simp: journal_append_def split: option.splits)
  note row = find_session [OF find]
  let ?new = "new_row row kind body occurred outbox"
  from row have here: "row \<in> set (jb_sessions db)" "rr_id row = session" by simp_all
  show ?thesis
  proof (cases "key_taken db session (rr_next row) outbox")
    case True
    show ?thesis
    proof (cases "published_row db session outbox")
      case (Some r)
      with assms(1) body find True have "e = jr_event r" "db' = db" by (simp_all add: journal_append_def Let_def)
      moreover have "r \<in> set (jb_events db) \<and> row_session r = session \<and> jr_outbox r = outbox" "outbox \<noteq> None"
        using Some by (auto simp: published_row_def find_Some_iff split: if_splits)
      ultimately show ?thesis using repeated by blast
    next
      case None
      with taken_is_published [OF assms(2) here True] have fenced: "fenced db session" by force
      then have same': "bump_sequence db session = db" by (simp add: bump_sequence_def)
      from assms(1) body find True None row same' have
        trim: "trim_events dp jday retain db session occurred = Inr db'" and e: "e = jr_event ?new"
        by (auto simp: journal_append_def Let_def new_row_def split: sum.splits)
      from trimmed [OF trim] obtain P where P: "db' = db\<lparr>jb_events := filter P (jb_events db)\<rparr>"
        "\<And>r. still_open db (row_session r) \<Longrightarrow> P r" by blast
      from True None obtain r where "r \<in> set (jb_events db)" "row_session r = session" "row_sequence r = rr_next row"
        by (auto simp: key_taken_def list_ex_iff published_row_def find_None_iff split: if_splits)
      from lost [OF here body fenced this None e P(2,1)] show ?thesis .
    qed
  next
    case False
    let ?db1 = "bump_sequence (db\<lparr>jb_events := jb_events db @ [?new]\<rparr>) session"
    from assms(1) body find False row have
      trim: "trim_events dp jday retain ?db1 session occurred = Inr db'" and e: "e = jr_event ?new"
      by (auto simp: journal_append_def Let_def new_row_def split: sum.splits)
    from trimmed [OF trim] obtain P where P: "db' = ?db1\<lparr>jb_events := filter P (jb_events ?db1)\<rparr>"
      "\<And>r. still_open ?db1 (row_session r) \<Longrightarrow> P r" by blast
    have "bump_sequence (db\<lparr>jb_events := es\<rparr>) session = (bump_sequence db session)\<lparr>jb_events := es\<rparr>" for es
      by (simp add: bump_sequence_def fenced_def)
    with row body False e P show ?thesis
      by (intro appended [of row body P]) simp_all
  qed
qed

lemma bumped:
  assumes "s' \<in> set (jb_sessions (bump_sequence db session))"
  shows "\<exists>s \<in> set (jb_sessions db). rr_id s = rr_id s'
    \<and> rr_next s' = (if rr_id s = session \<and> \<not> fenced db session then rr_next s + 1 else rr_next s)"
proof (cases "fenced db session")
  case False
  with assms obtain s where "s \<in> set (jb_sessions db)" "s' = (if rr_id s = session then s\<lparr>rr_next := rr_next s + 1\<rparr> else s)"
    by (auto simp: bump_sequence_def in_set_update_where)
  with False show ?thesis by (intro bexI [of _ s]) auto
qed (use assms in \<open>auto simp: bump_sequence_def\<close>)

lemma bump_has:
  assumes "s \<in> set (jb_sessions db)"
  shows "\<exists>s' \<in> set (jb_sessions (bump_sequence db session)). rr_id s' = rr_id s
    \<and> rr_next s' = (if rr_id s = session \<and> \<not> fenced db session then rr_next s + 1 else rr_next s)"
proof (cases "fenced db session")
  case False
  then have "(if rr_id s = session then s\<lparr>rr_next := rr_next s + 1\<rparr> else s) \<in> set (jb_sessions (bump_sequence db session))"
    using assms by (auto simp: bump_sequence_def in_set_update_where)
  then show ?thesis by (rule bexI [rotated]) (use False in auto)
qed (use assms in \<open>auto simp: bump_sequence_def\<close>)

lemma bump_kept [simp]: "jb_forget (bump_sequence db session) = jb_forget db" "jb_events (bump_sequence db session) = jb_events db"
  by (simp_all add: bump_sequence_def)

lemma appended_ok:
  assumes "journal_ok db" and "row \<in> set (jb_sessions db)" and "rr_id row = session"
    and "\<not> key_taken db session (rr_next row) outbox"
  shows "journal_ok ((bump_sequence db session)\<lparr>jb_events := filter P (jb_events db @ [new_row row kind body occurred outbox])\<rparr>)"
proof -
  let ?new = "new_row row kind body occurred outbox" and ?bump = "bump_sequence db session"
  let ?key = "\<lambda>r. (row_session r, row_sequence r)"
  note ok = ok_parts [OF assms(1)]
  have free: "row_sequence r \<noteq> rr_next row" "jr_outbox r = outbox \<Longrightarrow> outbox = None"
    if "r \<in> set (jb_events db)" "row_session r = session" for r
    using assms(4) that by (auto simp: key_taken_def list_ex_iff)
  have "keys_distinct rr_id (jb_sessions ?bump)"
    using ok(1) by (simp add: bump_sequence_def keys_distinct_update)
  moreover have "1 \<le> rr_next s" if "s \<in> set (jb_sessions ?bump)" for s
    using bumped [OF that] ok(2) by (fastforce split: if_splits)
  moreover have "keys_distinct ?key (filter P (jb_events db @ [?new]))"
    by (rule keys_distinct_filter) (use ok(3) free(1) assms(3) in \<open>fastforce simp: keys_distinct_append1\<close>)
  moreover have "row_ok (?bump\<lparr>jb_events := xs\<rparr>) r" if "r \<in> set (jb_events db @ [?new])" for r xs
  proof (cases "r = ?new")
    case True
    with bump_has [OF assms(2), of session] ok(2) [OF assms(2)] assms(3) show ?thesis
      by (cases "fenced db session") (auto simp: row_ok_def fenced_def)
  next
    case False
    with that have "r \<in> set (jb_events db)" by simp
    from ok(4) [OF this] obtain s where s: "1 \<le> row_sequence r" "s \<in> set (jb_sessions db)" "rr_id s = row_session r"
      "row_sequence r < rr_next s \<or> (fenced db (row_session r) \<and> row_sequence r = rr_next s)" by (auto simp: row_ok_def)
    from bump_has [OF s(2), of session] obtain s' where s': "s' \<in> set (jb_sessions ?bump)" "rr_id s' = row_session r"
      "rr_next s' = (if rr_id s = session \<and> \<not> fenced db session then rr_next s + 1 else rr_next s)" using s(3) by auto
    have "row_sequence r < rr_next s' \<or> (fenced db (row_session r) \<and> row_sequence r = rr_next s')"
      using s(3,4) s'(3) by (cases "rr_id s = session \<and> \<not> fenced db session") auto
    with s(1) s'(1,2) show ?thesis by (auto simp: row_ok_def fenced_def)
  qed
  moreover have "r = r'" if "r \<in> set (jb_events db @ [?new])" "r' \<in> set (jb_events db @ [?new])"
    "row_session r = row_session r'" "jr_outbox r = jr_outbox r'" "jr_outbox r \<noteq> None" for r r'
    using that ok(5) free(2) [of r] free(2) [of r'] assms(3) by auto
  ultimately show ?thesis
    by (intro journal_okI) (simp_all del: set_append filter_append set_filter, (meson filter_is_subset subsetD)+)
qed

text \<open>Fewer events, and no session less fenced than before, keep the invariant.\<close>

lemma journal_ok_fewer:
  assumes "journal_ok db" and "jb_sessions db' = jb_sessions db" and "jb_events db' = filter P (jb_events db)"
    and "\<And>x. fenced db x \<Longrightarrow> fenced db' x"
  shows "journal_ok db'"
proof (rule journal_okI)
  note ok = ok_parts [OF assms(1)]
  fix r assume "r \<in> set (jb_events db')"
  then have "r \<in> set (jb_events db)" by (simp add: assms(3))
  from ok(4) [OF this] assms(4) show "row_ok db' r" unfolding row_ok_def assms(2) by blast
next
  fix r r' assume "r \<in> set (jb_events db')" "r' \<in> set (jb_events db')"
    "row_session r = row_session r'" "jr_outbox r = jr_outbox r'" "jr_outbox r \<noteq> None"
  with ok_parts(5) [OF assms(1)] show "r = r'" by (simp add: assms(3))
qed (use ok_parts [OF assms(1)] in \<open>simp_all add: assms(2,3) keys_distinct_filter\<close>)

lemma append_ok:
  assumes "journal_append dp jday retain db session kind payload occurred outbox = Inr (e, db')" and "journal_ok db"
  shows "journal_ok db'"
  using assms
proof (cases rule: append_cases)
  case (appended row body P)
  show ?thesis unfolding appended(7) by (rule appended_ok [OF assms(2) appended(1,2,4)])
next
  case (lost row body r P)
  show ?thesis by (rule journal_ok_fewer [OF assms(2), of _ P]) (simp_all add: lost(11) fenced_def)
qed (use assms(2) in simp)

lemma save_events [simp]:
  "jb_events (session_save db session state desired turn) = jb_events db"
  "jb_forget (session_save db session state desired turn) = jb_forget db"
  "fenced (session_save db session state desired turn) x = fenced db x"
  by (simp_all add: session_save_def fenced_def)

text \<open>A session that is being forgotten is saved in vain.\<close>

lemma save_fenced: "fenced db session \<Longrightarrow> session_save db session state desired turn = db"
  by (simp add: session_save_def)

lemma session_save_ok:
  assumes "journal_ok db" shows "journal_ok (session_save db session state desired turn)"
proof -
  let ?set = "\<lambda>r. r\<lparr>rr_state := state, rr_desired := desired, rr_turn := turn\<rparr>"
  note ok = ok_parts [OF assms]
  consider "fenced db session" | "\<not> fenced db session" "list_ex (\<lambda>r. rr_id r = session) (jb_sessions db)"
    | "\<not> fenced db session" "\<not> list_ex (\<lambda>r. rr_id r = session) (jb_sessions db)" by blast
  then show ?thesis
  proof cases
    case 1
    with assms show ?thesis by (simp add: save_fenced)
  next
    case 2
    then have rows: "jb_sessions (session_save db session state desired turn)
        = update_where (\<lambda>r. rr_id r = session) ?set (jb_sessions db)"
      by (simp add: session_save_def)
    have "\<exists>s' \<in> set (update_where (\<lambda>r. rr_id r = session) ?set (jb_sessions db)). rr_id s' = rr_id s \<and> rr_next s' = rr_next s"
      if "s \<in> set (jb_sessions db)" for s
      using in_update [OF that, of "\<lambda>r. rr_id r = session" ?set] by (rule bexI [rotated]) simp
    then have "row_ok (session_save db session state desired turn) r" if "r \<in> set (jb_events db)" for r
      using ok(4) [OF that] unfolding row_ok_def rows save_events by metis
    then show ?thesis
      using ok(1-3) ok(5) rows
      by (intro journal_okI) (auto simp: keys_distinct_update in_set_update_where save_events)
  next
    case 3
    then have rows: "jb_sessions (session_save db session state desired turn)
        = jb_sessions db @ [\<lparr> rr_id = session, rr_state = state, rr_desired = desired, rr_turn = turn, rr_next = 1 \<rparr>]"
      by (simp add: session_save_def)
    show ?thesis
    proof (rule journal_okI)
      fix r assume "r \<in> set (jb_events (session_save db session state desired turn))"
      with ok(4) show "row_ok (session_save db session state desired turn) r"
        by (auto simp: row_ok_def rows save_events)
    next
      fix r r' assume "r \<in> set (jb_events (session_save db session state desired turn))"
        "r' \<in> set (jb_events (session_save db session state desired turn))"
        "row_session r = row_session r'" "jr_outbox r = jr_outbox r'" "jr_outbox r \<noteq> None"
      with ok(5) show "r = r'" by (simp add: save_events)
    qed (use ok 3 in \<open>auto simp: rows keys_distinct_append1 list_ex_iff save_events\<close>)
  qed
qed

lemma session_remove_ok:
  assumes "journal_ok db" shows "journal_ok (session_remove db session)"
proof -
  note ok = ok_parts [OF assms]
  show ?thesis
  proof (rule journal_okI)
    fix r assume "r \<in> set (jb_events (session_remove db session))"
    then have "r \<in> set (jb_events db)" "row_session r \<noteq> session" by (auto simp: session_remove_def)
    with ok(4) [OF this(1)] show "row_ok (session_remove db session) r"
      by (auto simp: row_ok_def session_remove_def fenced_def)
  next
    fix r r' assume "r \<in> set (jb_events (session_remove db session))" "r' \<in> set (jb_events (session_remove db session))"
      "row_session r = row_session r'" "jr_outbox r = jr_outbox r'" "jr_outbox r \<noteq> None"
    with ok(5) show "r = r'" by (simp add: session_remove_def)
  qed (use ok in \<open>auto simp: session_remove_def keys_distinct_filter\<close>)
qed

text \<open>What the store of forget operations does to the journal: it fences, and its last step removes.\<close>

lemma forget_begun:
  assumes "forget_begin db session operation now = Inr (answer, db')"
  shows "jb_sessions db' = jb_sessions db" and "jb_events db' = jb_events db"
    and "fenced db' x \<longleftrightarrow> fenced db x \<or> (x = session \<and> session \<in> rr_id ` set (jb_sessions db))"
  using assms begin_fences
  by (auto simp: forget_begin_def forget_answer_def fenced_def list_ex_iff split: sum.splits)

lemma forget_updated:
  assumes "forget_update db op = Inr (answer, db')"
  shows "jb_sessions db' = jb_sessions db" and "jb_events db' = jb_events db" and "fenced db' x \<longleftrightarrow> fenced db x"
  using assms update_fences by (auto simp: forget_update_def forget_answer_def fenced_def split: sum.splits)

lemma forget_finalized:
  assumes "forget_finalize db op = Inr (answer, db')"
  obtains rows where "db' = session_remove (db\<lparr>jb_forget := rows\<rparr>) (fo_session op)"
    and "\<And>x. fenced_by rows x \<longleftrightarrow> fenced db x" and "fenced db (fo_session op)"
  using assms finalize_fences
  by (fastforce simp: forget_finalize_def forget_answer_def fenced_def split: sum.splits)

lemma forget_begin_ok:
  assumes "forget_begin db session operation now = Inr (answer, db')" and "journal_ok db" shows "journal_ok db'"
  by (rule journal_ok_fewer [OF assms(2), of _ "\<lambda>_. True"]) (use forget_begun [OF assms(1)] in simp_all)

lemma forget_update_ok:
  assumes "forget_update db op = Inr (answer, db')" and "journal_ok db" shows "journal_ok db'"
  by (rule journal_ok_fewer [OF assms(2), of _ "\<lambda>_. True"]) (use forget_updated [OF assms(1)] in simp_all)

lemma forget_finalize_ok:
  assumes "forget_finalize db op = Inr (answer, db')" and "journal_ok db" shows "journal_ok db'"
proof -
  from forget_finalized [OF assms(1)] obtain rows where
    db': "db' = session_remove (db\<lparr>jb_forget := rows\<rparr>) (fo_session op)" and "\<And>x. fenced_by rows x \<longleftrightarrow> fenced db x" by blast
  then have "journal_ok (db\<lparr>jb_forget := rows\<rparr>)"
    by (intro journal_ok_fewer [OF assms(2), of _ "\<lambda>_. True"]) (simp_all add: fenced_def)
  then show ?thesis unfolding db' by (rule session_remove_ok)
qed

interpretation journalling: fallible_stepper "journal_call dp jday retain" journal_ok for dp jday retain
proof
  fix db call db' assume "journal_ok db" and "journal_call dp jday retain db call = Inr db'"
  then show "journal_ok db'"
  proof (cases call)
    case (AppendEvent session kind payload occurred outbox)
    with \<open>journal_call dp jday retain db call = Inr db'\<close> obtain e where
      "journal_append dp jday retain db session kind payload occurred outbox = Inr (e, db')"
      by (cases "journal_append dp jday retain db session kind payload occurred outbox") auto
    with \<open>journal_ok db\<close> append_ok show ?thesis by blast
  qed (auto simp: session_save_ok session_remove_ok snd_answer elim!: forget_begin_ok forget_update_ok forget_finalize_ok)
qed

definition empty_journal :: journal_db where
  "empty_journal = \<lparr> jb_sessions = [], jb_events = [], jb_forget = [] \<rparr>"

lemma empty_journal_ok: "journal_ok empty_journal"
  by (simp add: journal_ok_def empty_journal_def)

text \<open>A database with one running session and a few events.\<close>

definition sample_journal_calls :: "journal_write list" where
  "sample_journal_calls =
     [SaveRelaySession ''s'' ''ready'' ''running'' None,
      AppendEvent ''s'' ''session.updated'' JNull ''1970-01-01T00:00:00.000Z'' None,
      AppendEvent ''s'' ''autopilot.updated'' JNull ''1970-01-01T00:00:00.000Z'' (Some 7)]"

abbreviation "epoch_parse \<equiv> (\<lambda>_ :: string. Some (0 :: int))"
abbreviation "no_day \<equiv> (\<lambda>_ :: string. None :: rat option)"

subsection \<open>Stored payloads\<close>

text \<open>
  What the journal stores of a startup observation or of an activity row has passed the allowlist
  once and for all: storing it again changes nothing.
\<close>
theorem stored_payload_is_stable:
  assumes "journal_payload dp kind payload = Some body"
  shows "journal_payload dp kind body = Some body"
proof -
  have activity: "journal_payload dp ''activity.updated'' (mcpStartupActivity st) = Some (mcpStartupActivity st)"
    if "parseMcpStartupStatus dp v = Some st" for v st
    using startup_status_reads_back [OF that] by (simp add: journal_payload_def mcpStartupActivity_def)
  consider "kind = ''agent.activity.mcp-startup''" | "kind = ''activity.updated''"
    | "kind \<noteq> ''agent.activity.mcp-startup''" "kind \<noteq> ''activity.updated''" by blast
  then show ?thesis
  proof cases
    case 1
    with assms startup_status_reads_back show ?thesis by (auto simp: journal_payload_def)
  next
    case 2
    show ?thesis
    proof (cases "\<exists>f startup. as_record payload = Some f \<and> map_of f ''mcpStartup'' = Some startup")
      case True
      with assms 2 obtain startup st where "parseMcpStartupStatus dp startup = Some st" "body = mcpStartupActivity st"
        by (auto simp: journal_payload_def)
      with activity 2 show ?thesis by simp
    next
      case False
      with assms 2 have "body = payload" by (auto simp: journal_payload_def split: option.splits)
      with assms show ?thesis by simp
    qed
  qed (use assms in \<open>simp add: journal_payload_def\<close>)
qed

theorem stored_payload_is_stable_witness:
  "\<exists>body. journal_payload epoch_parse ''activity.updated''
       (JObj [(''mcpStartup'', JObj [(''schemaVersion'', JNum 1), (''runtimeId'', JStr ''r1''), (''attemptId'', JStr ''a1''),
          (''threadId'', JNull), (''serverName'', JStr ''gestalt-serena''),
          (''observedAt'', JStr ''1970-01-01T00:00:00.000Z''), (''status'', JStr ''ready''), (''failure'', JNull),
          (''extra'', JStr ''dropped'')])]) = Some body
     \<and> journal_payload epoch_parse ''activity.updated'' body = Some body"
proof -
  let ?p = "JObj [(''mcpStartup'', JObj [(''schemaVersion'', JNum 1), (''runtimeId'', JStr ''r1''), (''attemptId'', JStr ''a1''),
          (''threadId'', JNull), (''serverName'', JStr ''gestalt-serena''),
          (''observedAt'', JStr ''1970-01-01T00:00:00.000Z''), (''status'', JStr ''ready''), (''failure'', JNull),
          (''extra'', JStr ''dropped'')])]"
  have "(case journal_payload epoch_parse ''activity.updated'' ?p of None \<Rightarrow> False | Some _ \<Rightarrow> True)" by code_simp
  then obtain body where "journal_payload epoch_parse ''activity.updated'' ?p = Some body" by (auto split: option.splits)
  with stored_payload_is_stable [OF this] show ?thesis by blast
qed

subsection \<open>Numbers\<close>

text \<open>
  C19: events are numbered once. From an empty database on, whatever is appended, saved, removed and
  forgotten, no two events of a session share a number or an entry of the outbox, and the events of
  sessions that are not closed all stay. An append either answers with the very event that its outbox
  entry was published as and writes nothing, or stores one event under a number above every number of
  the session. Only of a session that is being forgotten an event can be lost: its counter stands
  still, so an append whose number is taken answers with an event that is not stored.
\<close>
theorem events_are_numbered_once:
  assumes "journal_append dp jday retain (journal_run dp jday retain empty_journal calls) session kind payload occurred outbox
      = Inr (e, db')"
  shows "journal_ok db'
    \<and> ((db' = journal_run dp jday retain empty_journal calls
          \<and> (\<exists>r \<in> set (jb_events db'). jr_event r = e \<and> row_session r = session \<and> jr_outbox r = outbox \<and> outbox \<noteq> None))
      \<or> ((\<forall>r \<in> set (jb_events (journal_run dp jday retain empty_journal calls)).
             row_session r = session \<longrightarrow> row_sequence r < se_sequence e)
          \<and> filter (\<lambda>r. still_open db' (row_session r)) (jb_events db')
             = filter (\<lambda>r. still_open db' (row_session r))
                 (jb_events (journal_run dp jday retain empty_journal calls) @ [\<lparr> jr_event = e, jr_outbox = outbox \<rparr>]))
      \<or> (fenced db' session
          \<and> (\<exists>r \<in> set (jb_events (journal_run dp jday retain empty_journal calls)).
               row_session r = session \<and> row_sequence r = se_sequence e)
          \<and> filter (\<lambda>r. still_open db' (row_session r)) (jb_events db')
             = filter (\<lambda>r. still_open db' (row_session r)) (jb_events (journal_run dp jday retain empty_journal calls))))"
proof -
  let ?db = "journal_run dp jday retain empty_journal calls"
  have ok: "journal_ok ?db" by (rule journalling.commands_inv [OF empty_journal_ok])
  have kept: "filter (\<lambda>r. still_open ?db (row_session r)) (filter P xs) = filter (\<lambda>r. still_open ?db (row_session r)) xs"
    if "\<And>r. still_open ?db (row_session r) \<Longrightarrow> P r" for P xs
    using that by (induction xs) auto
  show ?thesis
    using assms ok
  proof (cases rule: append_cases)
    case (repeated r)
    then show ?thesis using ok by blast
  next
    case (lost row body r P)
    have "fenced db' session" using lost(4) by (simp add: lost(11) fenced_def)
    moreover have "row_session r = session \<and> row_sequence r = se_sequence e" using lost(6,7,9) by simp
    moreover have "filter (\<lambda>r. still_open db' (row_session r)) (jb_events db') = filter (\<lambda>r. still_open db' (row_session r)) (jb_events ?db)"
      using kept [OF lost(10)] by (simp add: lost(11))
    ultimately show ?thesis using lost(5) append_ok [OF assms ok] by blast
  next
    case (appended row body P)
    have "filter (\<lambda>r. still_open db' (row_session r)) (jb_events db')
        = filter (\<lambda>r. still_open db' (row_session r)) (jb_events ?db @ [\<lparr> jr_event = e, jr_outbox = outbox \<rparr>])"
      using kept [OF appended(6)] unfolding appended(7) by (simp add: appended(5) new_row_def del: filter_append)
    moreover have "row_sequence r < se_sequence e" if "r \<in> set (jb_events ?db)" "row_session r = session" for r
      using below_next(1) [OF ok appended(1,2) that] appended(4,5) that
      by (auto simp: key_taken_def list_ex_iff)
    ultimately show ?thesis using append_ok [OF assms ok] by blast
  qed
qed

theorem events_are_numbered_once_witness:
  "\<exists>e db'. journal_append epoch_parse no_day None (journal_run epoch_parse no_day None empty_journal sample_journal_calls)
       ''s'' ''session.updated'' JNull ''1970-01-01T00:00:00.000Z'' None = Inr (e, db')
     \<and> journal_ok db' \<and> se_sequence e = 3"
proof -
  let ?answer = "journal_append epoch_parse no_day None (journal_run epoch_parse no_day None empty_journal sample_journal_calls)
       ''s'' ''session.updated'' JNull ''1970-01-01T00:00:00.000Z'' None"
  have "(case ?answer of Inl _ \<Rightarrow> False | Inr (e, _) \<Rightarrow> se_sequence e = 3)" by code_simp
  then obtain e db' where answer: "?answer = Inr (e, db')" and three: "se_sequence e = 3" by (auto split: sum.splits)
  from events_are_numbered_once [OF answer] three answer show ?thesis by blast
qed

subsection \<open>Replay\<close>

definition sequences :: "journal_db \<Rightarrow> string \<Rightarrow> nat set" where
  "sequences db session = row_sequence ` {r \<in> set (jb_events db). row_session r = session}"

text \<open>Open, not being forgotten, and without a gap from a number on.\<close>

definition gapless :: "string \<Rightarrow> nat \<Rightarrow> journal_db \<Rightarrow> bool" where
  "gapless session n db \<longleftrightarrow> still_open db session
     \<and> \<not> fenced db session
     \<and> (\<exists>s \<in> set (jb_sessions db). rr_id s = session \<and> {n..<rr_next s} \<subseteq> sequences db session)"

text \<open>The write neither closes nor removes the session, nor begins to forget it.\<close>

definition keeps_open :: "string \<Rightarrow> journal_write \<Rightarrow> bool" where
  "keeps_open session call \<longleftrightarrow>
     (case call of
        AppendEvent _ _ _ _ _ \<Rightarrow> True
      | SaveRelaySession x state desired turn \<Rightarrow>
          x \<noteq> session \<or> \<not> closed_row \<lparr> rr_id = x, rr_state = state, rr_desired = desired, rr_turn = turn, rr_next = 1 \<rparr>
      | RemoveRelaySession x \<Rightarrow> x \<noteq> session
      | BeginForget x _ _ \<Rightarrow> x \<noteq> session
      | UpdateForget _ \<Rightarrow> True
      | FinalizeForget _ \<Rightarrow> True)"

lemma still_open_iff: "still_open db session \<longleftrightarrow> (\<forall>s \<in> set (jb_sessions db). rr_id s = session \<longrightarrow> \<not> closed_row s)"
  by (auto simp: still_open_def closedSessionIds_def)

lemma gaplessE:
  assumes "gapless session n db"
  obtains s where "s \<in> set (jb_sessions db)" and "rr_id s = session" and "{n..<rr_next s} \<subseteq> sequences db session"
    and "still_open db session" and "\<not> fenced db session"
  using assms by (auto simp: gapless_def)

lemma append_gapless:
  assumes "journal_append dp jday retain db x kind payload occurred outbox = Inr (e, db')" and "journal_ok db"
    and "gapless session n db"
  shows "gapless session n db'"
  using assms(1,2)
proof (cases rule: append_cases)
  case (lost row body r P)
  from assms(3) have "sequences db session \<subseteq> sequences db' session"
    using lost(10) by (auto simp: lost(11) sequences_def gapless_def)
  with assms(3) show ?thesis by (auto simp: gapless_def lost(11) fenced_def)
next
  case (appended row body P)
  from assms(3) obtain s where s: "s \<in> set (jb_sessions db)" "rr_id s = session"
    "{n..<rr_next s} \<subseteq> sequences db session" and open_s: "still_open db session" and free: "\<not> fenced db session"
    by (rule gaplessE)
  have kept: "r \<in> set (jb_events db')"
    if "r \<in> set (jb_events db @ [new_row row kind body occurred outbox])" "row_session r = session" for r
    using that appended(6) open_s unfolding appended(7) by auto
  have old: "sequences db session \<subseteq> sequences db' session"
    unfolding sequences_def using kept by auto
  have new: "rr_next s \<in> sequences db' session" if "x = session"
  proof -
    have "row = s"
      using keys_distinct_inj [OF ok_parts(1) [OF assms(2)] appended(1) s(1)] appended(2) s(2) that by simp
    then have "row_sequence (new_row row kind body occurred outbox) = rr_next s"
      and "row_session (new_row row kind body occurred outbox) = session" using s(2) by simp_all
    with kept show ?thesis unfolding sequences_def by (metis (mono_tags, lifting) image_eqI in_set_conv_decomp mem_Collect_eq)
  qed
  from bump_has [OF s(1), of x] obtain s' where s': "s' \<in> set (jb_sessions (bump_sequence db x))" "rr_id s' = session"
    "rr_next s' = (if x = session then rr_next s + 1 else rr_next s)" using s(2) free by (cases "x = session") auto
  have "still_open db' session" "\<not> fenced db' session"
    using open_s free by (simp_all add: appended(7) fenced_def)
  moreover have "s' \<in> set (jb_sessions db')" using s'(1) by (simp add: appended(7))
  moreover have "{n..<rr_next s'} \<subseteq> sequences db' session"
  proof
    fix i
    assume "i \<in> {n..<rr_next s'}"
    then have "i \<in> {n..<rr_next s} \<or> (x = session \<and> i = rr_next s)" by (auto simp: s'(3) split: if_splits)
    then show "i \<in> sequences db' session" using old new s(3) by blast
  qed
  ultimately show ?thesis using s'(2) by (auto simp: gapless_def)
qed (use assms(3) in simp)

lemma saved_in:
  assumes "t \<in> set (jb_sessions (session_save db x state desired turn))"
    and "t \<in> set (jb_sessions db) \<Longrightarrow> rr_id t \<noteq> x \<Longrightarrow> thesis"
    and "rr_id t = x \<Longrightarrow> rr_state t = state \<Longrightarrow> rr_desired t = desired \<Longrightarrow> rr_turn t = turn \<Longrightarrow> thesis"
    and "fenced db x \<Longrightarrow> t \<in> set (jb_sessions db) \<Longrightarrow> thesis"
  shows thesis
proof -
  consider "fenced db x" | "\<not> fenced db x" "list_ex (\<lambda>r. rr_id r = x) (jb_sessions db)"
    | "\<not> fenced db x" "\<not> list_ex (\<lambda>r. rr_id r = x) (jb_sessions db)" by blast
  then show ?thesis
  proof cases
    case 1
    with assms(1,4) show ?thesis by (simp add: save_fenced)
  next
    case 2
    then have "t \<in> set (update_where (\<lambda>r. rr_id r = x)
        (\<lambda>r. r\<lparr>rr_state := state, rr_desired := desired, rr_turn := turn\<rparr>) (jb_sessions db))"
      using assms(1) by (simp add: session_save_def)
    then obtain r where r: "r \<in> set (jb_sessions db)"
      "t = (if rr_id r = x then r\<lparr>rr_state := state, rr_desired := desired, rr_turn := turn\<rparr> else r)"
      unfolding in_set_update_where by (rule bexE)
    show ?thesis
    proof (cases "rr_id r = x")
      case True
      with r(2) show ?thesis by (intro assms(3)) simp_all
    next
      case False
      with r show ?thesis by (intro assms(2)) simp_all
    qed
  next
    case 3
    with assms(1) have "t \<in> set (jb_sessions db) \<and> rr_id t \<noteq> x
        \<or> t = \<lparr> rr_id = x, rr_state = state, rr_desired = desired, rr_turn = turn, rr_next = 1 \<rparr>"
      by (auto simp: session_save_def list_ex_iff)
    then show ?thesis using assms(2,3) by fastforce
  qed
qed

lemma remove_gapless:
  assumes "gapless session n db" and "x \<noteq> session" shows "gapless session n (session_remove db x)"
proof -
  have "sequences (session_remove db x) session = sequences db session"
    using assms(2) by (auto simp: sequences_def session_remove_def)
  with assms show ?thesis by (auto simp: gapless_def session_remove_def still_open_iff fenced_def)
qed

lemma call_gapless:
  assumes "journal_call dp jday retain db call = Inr db'" and "journal_ok db" and "gapless session n db"
    and "keeps_open session call"
  shows "gapless session n db'"
proof (cases call)
  case (AppendEvent x kind payload occurred outbox)
  with assms(1) obtain e where "journal_append dp jday retain db x kind payload occurred outbox = Inr (e, db')"
    by (cases "journal_append dp jday retain db x kind payload occurred outbox") auto
  with append_gapless assms(2,3) show ?thesis by blast
next
  case (SaveRelaySession x state desired turn)
  let ?set = "\<lambda>r. r\<lparr>rr_state := state, rr_desired := desired, rr_turn := turn\<rparr>"
  from assms(3) obtain s where s: "s \<in> set (jb_sessions db)" "rr_id s = session"
 "{n..<rr_next s} \<subseteq> sequences db session" and open_s: "still_open db session" and free: "\<not> fenced db session"
    by (rule gaplessE)
  have db': "db' = session_save db x state desired turn" using assms(1) SaveRelaySession by simp
  have "sequences db' session = sequences db session" "\<not> fenced db' session"
    using free by (simp_all add: db' sequences_def)
  moreover have "still_open db' session"
    unfolding still_open_iff
  proof (intro ballI impI)
    fix t
    assume t: "t \<in> set (jb_sessions db')" "rr_id t = session"
    from t(1) [unfolded db'] show "\<not> closed_row t"
    proof (rule saved_in)
      assume "rr_id t = x" "rr_state t = state" "rr_desired t = desired" "rr_turn t = turn"
      with assms(4) SaveRelaySession t(2) show ?thesis by (simp add: keeps_open_def closed_row_def)
    qed (use open_s t(2) in \<open>simp_all add: still_open_iff\<close>)
  qed
  moreover have "\<exists>s' \<in> set (jb_sessions db'). rr_id s' = session \<and> rr_next s' = rr_next s"
  proof (cases "list_ex (\<lambda>r. rr_id r = x) (jb_sessions db) \<and> \<not> fenced db x")
    case True
    then have "(if rr_id s = x then ?set s else s) \<in> set (jb_sessions db')"
      using in_update [OF s(1), of "\<lambda>r. rr_id r = x" ?set] by (simp add: db' session_save_def)
    then show ?thesis by (rule bexI [rotated]) (use s(2) in auto)
  qed (use s in \<open>auto simp: db' session_save_def\<close>)
  ultimately show ?thesis using s(3) unfolding gapless_def by metis
next
  case (RemoveRelaySession x)
  then have db': "db' = session_remove db x" and x: "x \<noteq> session" using assms(1,4) by (simp_all add: keeps_open_def)
  from remove_gapless [OF assms(3) x] show ?thesis by (simp add: db')
next
  case (BeginForget x operation now)
  with assms(1) obtain answer where "forget_begin db x operation now = Inr (answer, db')" by (auto simp: snd_answer)
  note begun = forget_begun [OF this]
  have "\<not> fenced db' session"
    using begun(3) assms(3,4) BeginForget by (auto simp: gapless_def keeps_open_def)
  with assms(3) begun(1,2) show ?thesis by (simp add: gapless_def sequences_def still_open_iff)
next
  case (UpdateForget op)
  with assms(1) obtain answer where "forget_update db op = Inr (answer, db')" by (auto simp: snd_answer)
  with assms(3) show ?thesis by (simp add: forget_updated gapless_def sequences_def still_open_iff)
next
  case (FinalizeForget op)
  with assms(1) obtain answer where "forget_finalize db op = Inr (answer, db')" by (auto simp: snd_answer)
  from forget_finalized [OF this] obtain rows where
    db': "db' = session_remove (db\<lparr>jb_forget := rows\<rparr>) (fo_session op)" and
    rows: "\<And>x. fenced_by rows x \<longleftrightarrow> fenced db x" and "fenced db (fo_session op)" by blast
  with assms(3) have "fo_session op \<noteq> session" by (auto simp: gapless_def)
  moreover have "gapless session n (db\<lparr>jb_forget := rows\<rparr>)"
    using assms(3) rows by (simp add: gapless_def sequences_def still_open_iff fenced_def)
  ultimately show ?thesis unfolding db' by (intro remove_gapless)
qed

lemma run_gapless:
  "journal_ok db \<Longrightarrow> gapless session n db \<Longrightarrow> list_all (keeps_open session) calls \<Longrightarrow>
     journal_ok (journal_run dp jday retain db calls) \<and> gapless session n (journal_run dp jday retain db calls)"
proof (induction calls arbitrary: db)
  case (Cons call calls)
  show ?case
  proof (cases "journal_call dp jday retain db call")
    case (Inl err)
    with Cons show ?thesis by simp
  next
    case (Inr db')
    with call_gapless [OF Inr] journalling.fstep_inv [OF _ Inr] Cons show ?thesis by simp
  qed
qed simp

lemma fold_max: "fold max xs (a::nat) \<in> insert a (set xs) \<and> (\<forall>x \<in> set xs. x \<le> fold max xs a) \<and> a \<le> fold max xs a"
proof (induction xs arbitrary: a)
  case (Cons x xs)
  from Cons [of "max x a"] show ?case by (auto simp: max_def split: if_splits)
qed simp

lemma map_filter_rows: "map f (filter (\<lambda>r. P (f r)) rows) = filter P (map f rows)"
  by (induction rows) auto

lemma sequence_list:
  assumes "journal_ok db"
  shows "sorted (map row_sequence (session_rows db session))" and "distinct (map row_sequence (session_rows db session))"
    and "set (map row_sequence (session_rows db session)) = sequences db session"
proof -
  let ?rows = "filter (\<lambda>r. row_session r = session) (jb_events db)"
  have "inj_on row_sequence (set ?rows)" "distinct ?rows"
    using ok_parts(3) [OF assms] by (auto simp: keys_distinct_def distinct_map inj_on_def)
  then show "distinct (map row_sequence (session_rows db session))" by (simp add: session_rows_def distinct_map)
qed (auto simp: session_rows_def sequences_def)

text \<open>The rows after an event from which on the session has no gap.\<close>

lemma rows_without_gap:
  assumes "journal_ok db" and "gapless session n db" and "n \<le> after + 1"
  shows "map row_sequence (rows_after db session after (currentSequence db session))
        = [after + 1..<currentSequence db session + 1]"
    and "map jr_event (rows_after db session after (currentSequence db session)) = journal_since db session after"
proof -
  let ?m = "currentSequence db session" and ?seqs = "map row_sequence (session_rows db session)"
  note list = sequence_list [OF assms(1), of session]
  from assms(2) obtain s where s: "s \<in> set (jb_sessions db)" "rr_id s = session"
    "{n..<rr_next s} \<subseteq> sequences db session" by (rule gaplessE)
  have below: "i < rr_next s" if "i \<in> sequences db session" for i
    using that below_next(2) [OF assms(1) s(1,2)] assms(2) by (auto simp: sequences_def gapless_def)
  have m: "?m \<in> insert 0 (set ?seqs)" "\<forall>i \<in> set ?seqs. i \<le> ?m"
    unfolding currentSequence_def using fold_max [of ?seqs 0] by blast+
  have "map row_sequence (rows_after db session after ?m) = filter (\<lambda>i. after < i \<and> i \<le> ?m) ?seqs"
    unfolding rows_after_def by (rule map_filter_rows)
  also have "\<dots> = [after + 1..<?m + 1]"
  proof (rule sorted_distinct_set_unique)
    show "sorted (filter (\<lambda>i. after < i \<and> i \<le> ?m) ?seqs)"
      using sorted_filter [of id ?seqs] list(1) by simp
    have "i \<in> set ?seqs" if "after < i" "i \<le> ?m" for i
      using that m(1) below [of ?m] s(3) assms(3) unfolding list(3) by force
    then show "set (filter (\<lambda>i. after < i \<and> i \<le> ?m) ?seqs) = set [after + 1..<?m + 1]" by auto
  qed (use list(2) in \<open>simp_all del: upt_Suc\<close>)
  finally show "map row_sequence (rows_after db session after ?m) = [after + 1..<?m + 1]" .
  show "map jr_event (rows_after db session after ?m) = journal_since db session after"
    unfolding rows_after_def journal_since_def using m(2) by (intro arg_cong [where f = "map jr_event"] filter_cong) auto
qed

text \<open>What a replay answers if the rows after an event have no gap.\<close>

lemma replay_of_rows:
  assumes "rows = rows_after db session after (currentSequence db session)"
    and "map row_sequence rows = [after + 1..<currentSequence db session + 1]"
  shows "replay text_bytes db session after =
     (if 200 < length rows \<or> 512 * 1024 < sum_list (map (\<lambda>r. text_bytes (se_payload (jr_event r))) rows)
      then Resync (currentSequence db session) else Replay (map jr_event rows))"
proof -
  have after: "r \<in> set rows \<Longrightarrow> after < se_sequence (jr_event r)" for r
    by (simp add: assms(1) rows_after_def row_sequence_def)
  have first: "rows = r # rest \<Longrightarrow> row_sequence r = after + 1" for r rest
    using assms(2) [symmetric] by (auto simp: upt_eq_Cons_conv simp del: upt_Suc)
  show ?thesis
  proof (cases "200 < length rows")
    case True
    then show ?thesis by (simp add: replay_def Let_def assms(1) [symmetric])
  next
    case False
    then have all: "take 201 rows = rows" "take 200 rows = rows" by simp_all
    have ok: "replayOrResync (map jr_event rows) after = Replay (map jr_event rows)"
    proof (cases rows)
      case (Cons r rest)
      then have "se_sequence (jr_event r) = after + 1" using first by (simp add: row_sequence_def)
      moreover have "filter (\<lambda>e. se_sequence e > after) (map jr_event rows) = map jr_event rows"
        using after by (auto simp: filter_id_conv)
      ultimately show ?thesis using Cons by (simp add: replayOrResync_def)
    qed (simp add: replayOrResync_def)
    have fits: "\<not> (case rows of [] \<Rightarrow> False | r # _ \<Rightarrow> row_sequence r \<noteq> after + 1)"
      using first by (cases rows) auto
    show ?thesis
      unfolding replay_def Let_def assms(1) [symmetric] all ok using False fits by simp
  qed
qed

text \<open>
  C20: a replay has no hole. Take a session that is neither closed nor being forgotten, at any moment
  of the history of the database. Whatever is written from then on while it stays so, a replay after an
  event that was or is still to be numbered yields every later event, in order and without a gap, or
  asks for a new snapshot at the current number; and it asks only if there are more than 200 events or
  more than 512 KiB.
\<close>
theorem replay_has_no_hole:
  assumes "db = journal_run dp jday retain empty_journal before"
    and "still_open db session" and "\<not> fenced db session" and "s \<in> set (jb_sessions db)" and "rr_id s = session"
    and "rr_next s \<le> after + 1"
    and "db' = journal_run dp jday retain db calls" and "list_all (keeps_open session) calls"
  shows "case replay text_bytes db' session after of
      Replay es \<Rightarrow> map se_sequence es = [after + 1..<currentSequence db' session + 1]
        \<and> es = journal_since db' session after
    | Resync k \<Rightarrow> k = currentSequence db' session
        \<and> (200 < k - after \<or> 512 * 1024 < sum_list (map (\<lambda>e. text_bytes (se_payload e)) (journal_since db' session after)))"
proof -
  have "journal_ok db" unfolding assms(1) by (rule journalling.commands_inv [OF empty_journal_ok])
  moreover have "gapless session (rr_next s) db" using assms(2-5) by (auto simp: gapless_def)
  ultimately have ok: "journal_ok db'" "gapless session (rr_next s) db'"
    using run_gapless assms(7,8) by blast+
  let ?rows = "rows_after db' session after (currentSequence db' session)"
  note rows = rows_without_gap [OF ok assms(6)]
  have length: "length ?rows = currentSequence db' session - after"
    using arg_cong [OF rows(1), of length] by (simp del: upt_Suc)
  have numbers: "map se_sequence (map jr_event ?rows) = map row_sequence ?rows" by (simp add: row_sequence_def)
  have sizes: "map (\<lambda>e. text_bytes (se_payload e)) (map jr_event ?rows) = map (\<lambda>r. text_bytes (se_payload (jr_event r))) ?rows"
    by simp
  show ?thesis
    unfolding replay_of_rows [OF refl rows(1)] using length numbers sizes rows by simp
qed

definition sample_journal :: journal_db where
  "sample_journal = journal_run epoch_parse no_day None empty_journal sample_journal_calls"

theorem replay_has_no_hole_witness:
  "replay (\<lambda>_. 4) sample_journal ''s'' 1 = Replay (journal_since sample_journal ''s'' 1)"
proof -
  let ?db = "journal_run epoch_parse no_day None empty_journal (take 1 sample_journal_calls)"
  let ?row = "\<lparr> rr_id = ''s'', rr_state = ''ready'', rr_desired = ''running'', rr_turn = None, rr_next = 1 \<rparr>"
  have open_s: "still_open ?db ''s''" "\<not> fenced ?db ''s''" by code_simp+
  have row: "?row \<in> set (jb_sessions ?db)"
    by (simp add: sample_journal_calls_def empty_journal_def session_save_def fenced_def fenced_by_def find_forget_def)
  have le: "rr_next ?row \<le> 1 + 1" by simp
  have keep: "list_all (keeps_open ''s'') (drop 1 sample_journal_calls)" by code_simp
  have run: "sample_journal = journal_run epoch_parse no_day None ?db (drop 1 sample_journal_calls)"
    by (simp add: sample_journal_def sample_journal_calls_def empty_journal_def session_save_def fenced_def fenced_by_def find_forget_def)
  have no: "\<not> (200 < currentSequence sample_journal ''s'' - 1)" by code_simp
  have "length (journal_since sample_journal ''s'' 1) = 1" by code_simp
  then have few: "\<not> 512 * 1024 < sum_list (map (\<lambda>e. 4 :: nat) (journal_since sample_journal ''s'' 1))" by (simp add: sum_list_triv)
  show ?thesis
    using replay_has_no_hole [OF refl open_s row _ le run keep, of "\<lambda>_. 4"] no few
    by (cases "replay (\<lambda>_. 4) sample_journal ''s'' 1") simp_all
qed

end
