(* ===== verification/Outbox_Publication.thy ===== *)
theory Outbox_Publication
  imports Event_Journal_Facts Autopilot_Store_Facts
begin

text \<open>
  The outbox of automatic supervision and the journal together: events are committed with the state
  that caused them, published later into the journal and acknowledged only then. A step is a commit, a
  flush that may die after any of its writes, another write to the journal, a step of the operation that
  forgets a session, or the removal of a session with everything that refers to it.
\<close>

subsection \<open>Steps\<close>

definition cascade :: "string \<Rightarrow> pilot_db \<times> journal_db \<Rightarrow> pilot_db \<times> journal_db" where
  "cascade session s =
     ((fst s)\<lparr>pd_rows := filter (\<lambda>r. pr_session r \<noteq> session) (pd_rows (fst s)),
              pd_controls := filter (\<lambda>c. co_session c \<noteq> session) (pd_controls (fst s)),
              pd_outbox := filter (\<lambda>(i, e). ae_session e \<noteq> session) (pd_outbox (fst s))\<rparr>,
      session_remove (snd s) session)"

datatype relay_step =
    CommitEvents "autopilot_session option" "pilot_control option" "audit_event list"
  | Flush nat string
  | JournalEvent string string jv string
  | SaveRow string string string "string option"
  | DropSession string
  | BeginForgetting string string string
  | UpdateForgetting forget_op
  | FinalizeForgetting forget_op

fun relay_step_of ::
  "(string \<Rightarrow> int option) \<Rightarrow> (string \<Rightarrow> rat option) \<Rightarrow> (pilot_row \<Rightarrow> store_error + autopilot_session)
     \<Rightarrow> pilot_db \<times> journal_db \<Rightarrow> relay_step \<Rightarrow> pilot_db \<times> journal_db" where
  "relay_step_of dp jday decode s (CommitEvents state control events) =
     (case pilot_commit decode (fst s) state control events of Inl _ \<Rightarrow> s | Inr p \<Rightarrow> (p, snd s))"
| "relay_step_of dp jday decode s (Flush fuel session) = flushOutbox dp jday fuel session s"
| "relay_step_of dp jday decode s (JournalEvent session kind payload occurred) =
     (case journal_append dp jday None (snd s) session kind payload occurred None of
        Inl _ \<Rightarrow> s | Inr (_, j) \<Rightarrow> (fst s, j))"
| "relay_step_of dp jday decode s (SaveRow session state desired turn) =
     (fst s, session_save (snd s) session state desired turn)"
| "relay_step_of dp jday decode s (DropSession session) = cascade session s"
| "relay_step_of dp jday decode s (BeginForgetting session operation now) =
     (case forget_begin (snd s) session operation now of Inl _ \<Rightarrow> s | Inr (_, j) \<Rightarrow> (fst s, j))"
| "relay_step_of dp jday decode s (UpdateForgetting op) =
     (case forget_update (snd s) op of Inl _ \<Rightarrow> s | Inr (_, j) \<Rightarrow> (fst s, j))"
| "relay_step_of dp jday decode s (FinalizeForgetting op) =
     (case forget_finalize (snd s) op of Inl _ \<Rightarrow> s | Inr (_, j) \<Rightarrow> (fst (cascade (fo_session op) s), j))"

abbreviation relay_run where
  "relay_run dp jday decode \<equiv> run_steps (relay_step_of dp jday decode)"

definition leaves_open :: "string \<Rightarrow> relay_step \<Rightarrow> bool" where
  "leaves_open session step \<longleftrightarrow>
     (case step of
        SaveRow x state desired turn \<Rightarrow> keeps_open session (SaveRelaySession x state desired turn)
      | DropSession x \<Rightarrow> x \<noteq> session
      | BeginForgetting x _ _ \<Rightarrow> x \<noteq> session
      | _ \<Rightarrow> True)"

definition publishable :: "(string \<Rightarrow> int option) \<Rightarrow> audit_event \<Rightarrow> bool" where
  "publishable dp e \<longleftrightarrow> journal_payload dp (ae_type e) (ae_payload e) \<noteq> None
     \<and> (case eventRetentionCutoff dp (ae_at e) of Inl _ \<Rightarrow> False | Inr _ \<Rightarrow> True)"

text \<open>A row of the journal is the publication of an event.\<close>

definition publishes :: "(string \<Rightarrow> int option) \<Rightarrow> audit_event \<Rightarrow> journal_row \<Rightarrow> bool" where
  "publishes dp e r \<longleftrightarrow> row_session r = ae_session e \<and> se_type (jr_event r) = ae_type e
     \<and> se_at (jr_event r) = ae_at e \<and> journal_payload dp (ae_type e) (ae_payload e) = Some (se_payload (jr_event r))"

subsection \<open>Invariant\<close>

definition piped :: "(string \<Rightarrow> int option) \<Rightarrow> pilot_db \<times> journal_db \<Rightarrow> bool" where
  "piped dp s \<longleftrightarrow> journal_ok (snd s) \<and> outbox_ok (fst s)
     \<and> (\<forall>r \<in> set (jb_events (snd s)). \<forall>k. jr_outbox r = Some k \<longrightarrow> k < pd_next (fst s))
     \<and> (\<forall>k e r. (k, e) \<in> set (pd_outbox (fst s)) \<longrightarrow> r \<in> set (jb_events (snd s)) \<longrightarrow> row_session r = ae_session e
          \<longrightarrow> jr_outbox r = Some k \<longrightarrow> publishes dp e r)"

definition on_record :: "(string \<Rightarrow> int option) \<Rightarrow> nat \<Rightarrow> audit_event \<Rightarrow> journal_db \<Rightarrow> bool" where
  "on_record dp i e j \<longleftrightarrow> (\<exists>r \<in> set (jb_events j). jr_outbox r = Some i \<and> publishes dp e r)"

text \<open>An event is pending or on record, and its session is open and not being forgotten.\<close>

definition tracked :: "(string \<Rightarrow> int option) \<Rightarrow> nat \<Rightarrow> nat \<Rightarrow> audit_event \<Rightarrow> pilot_db \<times> journal_db \<Rightarrow> bool" where
  "tracked dp n i e s \<longleftrightarrow> gapless (ae_session e) n (snd s) \<and> ((i, e) \<in> set (pd_outbox (fst s)) \<or> on_record dp i e (snd s))"

lemma pipedI:
  assumes "journal_ok j" and "outbox_ok p"
    and "\<And>r k. r \<in> set (jb_events j) \<Longrightarrow> jr_outbox r = Some k \<Longrightarrow> k < pd_next p"
    and "\<And>k e r. (k, e) \<in> set (pd_outbox p) \<Longrightarrow> r \<in> set (jb_events j) \<Longrightarrow> row_session r = ae_session e \<Longrightarrow>
      jr_outbox r = Some k \<Longrightarrow> publishes dp e r"
  shows "piped dp (p, j)"
  using assms by (simp add: piped_def)

lemma pipedD:
  assumes "piped dp (p, j)"
  shows "journal_ok j" and "outbox_ok p"
    and "\<And>r k. r \<in> set (jb_events j) \<Longrightarrow> jr_outbox r = Some k \<Longrightarrow> k < pd_next p"
    and "\<And>k e r. (k, e) \<in> set (pd_outbox p) \<Longrightarrow> r \<in> set (jb_events j) \<Longrightarrow> row_session r = ae_session e \<Longrightarrow>
      jr_outbox r = Some k \<Longrightarrow> publishes dp e r"
  using assms by (simp_all add: piped_def)

lemma outbox_same: "outbox_ok p \<Longrightarrow> (k, e) \<in> set (pd_outbox p) \<Longrightarrow> (k, e') \<in> set (pd_outbox p) \<Longrightarrow> e = e'"
  using inj_onD [of fst "set (pd_outbox p)" "(k, e)" "(k, e')"]
  by (simp add: outbox_ok_def strict_sorted_iff distinct_map)

lemma outbox_below: "outbox_ok p \<Longrightarrow> (k, e) \<in> set (pd_outbox p) \<Longrightarrow> k < pd_next p"
  by (force simp: outbox_ok_def)

text \<open>Fewer rows and fewer pending entries keep the invariant.\<close>

lemma piped_fewer:
  assumes "piped dp (p, j)" and "journal_ok j'" and "outbox_ok p'" and "pd_next p' = pd_next p"
    and "set (jb_events j') \<subseteq> set (jb_events j)" and "set (pd_outbox p') \<subseteq> set (pd_outbox p)"
  shows "piped dp (p', j')"
proof (rule pipedI [OF assms(2,3)])
  note d = pipedD [OF assms(1)]
  show "k < pd_next p'" if "r \<in> set (jb_events j')" "jr_outbox r = Some k" for r k
    unfolding assms(4) using d(3) that assms(5) by blast
  show "publishes dp e r" if "(k, e) \<in> set (pd_outbox p')" "r \<in> set (jb_events j')" "row_session r = ae_session e"
    "jr_outbox r = Some k" for k e r
    using d(4) that assms(5,6) by blast
qed

subsection \<open>Appending\<close>

lemma append_piped:
  assumes "journal_append dp jday None j session kind payload occurred outbox = Inr (ev, j')" and "piped dp (p, j)"
    and "outbox \<noteq> None \<Longrightarrow> \<exists>k e. outbox = Some k \<and> (k, e) \<in> set (pd_outbox p) \<and> session = ae_session e \<and> kind = ae_type e
           \<and> payload = ae_payload e \<and> occurred = ae_at e"
  shows "piped dp (p, j')"
  using assms(1) pipedD(1) [OF assms(2)]
proof (cases rule: append_cases)
  case (appended row body P)
  let ?new = "new_row row kind body occurred outbox"
  note d = pipedD [OF assms(2)]
  have rows: "r \<in> set (jb_events j) \<or> r = ?new" if "r \<in> set (jb_events j')" for r
    using that by (auto simp: appended(7) simp del: filter_append)
  have new: "publishes dp e ?new" if "(k, e) \<in> set (pd_outbox p)" "outbox = Some k" for k e
    using assms(3) outbox_same [OF d(2) that(1)] that(2) appended(2,3) by (auto simp: publishes_def)
  show ?thesis
  proof (rule pipedI [OF append_ok [OF assms(1) d(1)] d(2)])
    fix r k
    assume "r \<in> set (jb_events j')" "jr_outbox r = Some k"
    with rows d(3) assms(3) outbox_below [OF d(2)] show "k < pd_next p" by fastforce
  next
    fix k e r
    assume "(k, e) \<in> set (pd_outbox p)" "r \<in> set (jb_events j')" "row_session r = ae_session e" "jr_outbox r = Some k"
    with rows new d(4) show "publishes dp e r" by fastforce
  qed
next
  case (lost row body r P)
  show ?thesis
    by (rule piped_fewer [OF assms(2) append_ok [OF assms(1) pipedD(1) [OF assms(2)]] pipedD(2) [OF assms(2)] refl])
      (auto simp: lost(11))
qed (use assms(2) in simp)

lemma append_on_record:
  assumes "journal_append dp jday None j session kind payload occurred outbox = Inr (ev, j')" and "journal_ok j"
    and "gapless (ae_session e) n j"
  shows "gapless (ae_session e) n j'" and "on_record dp i e j \<Longrightarrow> on_record dp i e j'"
proof -
  show "gapless (ae_session e) n j'" by (rule append_gapless [OF assms])
  show "on_record dp i e j'" if "on_record dp i e j"
    using assms(1,2)
  proof (cases rule: append_cases)
    case (appended row body P)
    from that obtain r where r: "r \<in> set (jb_events j)" "jr_outbox r = Some i" "publishes dp e r"
      by (auto simp: on_record_def)
    moreover have "P r" using appended(6) assms(3) r(3) by (auto simp: gapless_def publishes_def)
    ultimately show ?thesis by (auto simp: on_record_def appended(7))
  next
    case (lost row body r0 P)
    from that obtain r where r: "r \<in> set (jb_events j)" "jr_outbox r = Some i" "publishes dp e r"
      by (auto simp: on_record_def)
    moreover have "P r" using lost(10) assms(3) r(3) by (auto simp: gapless_def publishes_def)
    ultimately show ?thesis by (auto simp: on_record_def lost(11))
  qed (use that in simp)
qed

lemma published_audit:
  assumes "publish_audit dp jday j (k, e) = Inr j'"
  obtains "j' = j" and "\<forall>s \<in> set (jb_sessions j). rr_id s \<noteq> ae_session e"
  | ev where "journal_append dp jday None j (ae_session e) (ae_type e) (ae_payload e) (ae_at e) (Some k) = Inr (ev, j')"
proof (cases "List.find (\<lambda>r. rr_id r = ae_session e) (jb_sessions j) = None")
  case True
  with assms that(1) show ?thesis by (auto simp: publish_audit_def find_None_iff)
next
  case False
  with assms that(2) show ?thesis
    by (cases "journal_append dp jday None j (ae_session e) (ae_type e) (ae_payload e) (ae_at e) (Some k)")
      (auto simp: publish_audit_def)
qed

lemma publish_piped:
  assumes "publish_audit dp jday j (k, e) = Inr j'" and "piped dp (p, j)" and "(k, e) \<in> set (pd_outbox p)"
  shows "piped dp (p, j')"
  using assms(1)
proof (cases rule: published_audit)
  case (2 ev)
  then show ?thesis by (rule append_piped [OF _ assms(2)]) (use assms(3) in auto)
qed (use assms(2) in simp)

lemma publish_tracked:
  assumes "publish_audit dp jday j (k, e) = Inr j'" and "piped dp (p, j)" and "(k, e) \<in> set (pd_outbox p)"
    and "gapless (ae_session e0) n j"
  shows "gapless (ae_session e0) n j'" and "on_record dp i e0 j \<Longrightarrow> on_record dp i e0 j'"
    and "(k, e) = (i, e0) \<Longrightarrow> on_record dp i e0 j'"
proof -
  note d = pipedD [OF assms(2)]
  from assms(1) have "gapless (ae_session e0) n j' \<and> (on_record dp i e0 j \<longrightarrow> on_record dp i e0 j')
      \<and> ((k, e) = (i, e0) \<longrightarrow> on_record dp i e0 j')"
  proof (cases rule: published_audit)
    case 1
    with assms(4) show ?thesis by (auto simp: gapless_def)
  next
    case (2 ev)
    have "on_record dp i e0 j'" if same: "(k, e) = (i, e0)"
      using 2 d(1)
    proof (cases rule: append_cases)
      case (repeated r)
      with d(4) [OF assms(3)] same show ?thesis by (auto simp: on_record_def)
    next
      case (lost row body r P)
      with assms(4) same show ?thesis by (simp add: gapless_def)
    next
      case (appended row body P)
      let ?new = "new_row row (ae_type e) body (ae_at e) (Some k)"
      have "P ?new" using appended(2,6) assms(4) same by (simp add: gapless_def)
      then have "?new \<in> set (jb_events j')" by (simp add: appended(7))
      moreover have "jr_outbox ?new = Some i \<and> publishes dp e0 ?new"
        using appended(2,3) same by (simp add: publishes_def)
      ultimately show ?thesis unfolding on_record_def by (rule bexI [rotated])
    qed
    with append_on_record [OF 2 d(1) assms(4)] show ?thesis by blast
  qed
  then show "gapless (ae_session e0) n j'" "on_record dp i e0 j \<Longrightarrow> on_record dp i e0 j'"
    "(k, e) = (i, e0) \<Longrightarrow> on_record dp i e0 j'" by blast+
qed

lemma publish_succeeds: "publishable dp e \<Longrightarrow> \<exists>j'. publish_audit dp jday j (k, e) = Inr j'"
  by (auto simp: publishable_def publish_audit_def journal_append_def trim_events_def Let_def split: sum.splits option.splits)

subsection \<open>Flushing\<close>

text \<open>Entries that can still be published: they are pending, each under its own identifier.\<close>

definition due :: "pilot_db \<Rightarrow> (nat \<times> audit_event) list \<Rightarrow> bool" where
  "due p entries \<longleftrightarrow> set entries \<subseteq> set (pd_outbox p) \<and> distinct (map fst entries)"

lemma due_next: "due p ((k, e) # entries) \<Longrightarrow> (k, e) \<in> set (pd_outbox p) \<and> due (acknowledgeOutbox p k) entries"
  by (force simp: due_def acknowledgeOutbox_def)

lemma acknowledged:
  "outbox_ok p \<Longrightarrow> outbox_ok (acknowledgeOutbox p k)" "pd_next (acknowledgeOutbox p k) = pd_next p"
  "set (pd_outbox (acknowledgeOutbox p k)) \<subseteq> set (pd_outbox p)"
  by (auto simp: outbox_ok_def acknowledgeOutbox_def sorted_wrt_map sorted_wrt_filter)

lemma drained_due: "outbox_ok p \<Longrightarrow> due p (drainOutbox p session)"
  unfolding due_def drainOutbox_def by (auto simp: outbox_ok_def strict_sorted_iff intro: distinct_map_filter)

lemma flush_loop_piped:
  "piped dp s \<Longrightarrow> due (fst s) entries \<Longrightarrow> piped dp (flush_loop dp jday fuel entries s)"
proof (induction dp jday fuel entries s rule: flush_loop.induct)
  case (3 dp jday entry entries p j)
  obtain k e where entry: "entry = (k, e)" by (cases entry)
  with 3 due_next [of p k e] have "(k, e) \<in> set (pd_outbox p)" by simp
  with 3 entry show ?case by (auto split: sum.splits intro: publish_piped)
next
  case (4 dp jday fuel entry entries p j)
  obtain k e where entry: "entry = (k, e)" by (cases entry)
  with 4(3) have pending: "(k, e) \<in> set (pd_outbox p)" "due (acknowledgeOutbox p k) entries"
    using due_next [of p k e] by auto
  show ?case
  proof (cases "publish_audit dp jday j entry")
    case (Inr j')
    have inv: "piped dp (p, j')" using publish_piped [OF _ 4(2) pending(1)] Inr entry by simp
    have "piped dp (acknowledgeOutbox p k, j')"
      by (rule piped_fewer [OF inv]) (use pipedD [OF inv] acknowledged in auto)
    with 4(1) Inr entry pending(2) show ?thesis by simp
  qed (use 4 in simp)
qed simp_all

lemma flush_loop_tracked:
  "piped dp s \<Longrightarrow> due (fst s) entries \<Longrightarrow> tracked dp n i e0 s \<Longrightarrow> tracked dp n i e0 (flush_loop dp jday fuel entries s)"
proof (induction dp jday fuel entries s rule: flush_loop.induct)
  case (3 dp jday entry entries p j)
  obtain k e where entry: "entry = (k, e)" by (cases entry)
  with 3 due_next [of p k e] have pending: "(k, e) \<in> set (pd_outbox p)" by simp
  show ?case
  proof (cases "publish_audit dp jday j entry")
    case (Inr j')
    with entry have pub: "publish_audit dp jday j (k, e) = Inr j'" by simp
    from publish_tracked [OF pub 3(1) pending] 3(3) Inr show ?thesis by (auto simp: tracked_def)
  qed (use 3 in simp)
next
  case (4 dp jday fuel entry entries p j)
  obtain k e where entry: "entry = (k, e)" by (cases entry)
  with 4(3) have pending: "(k, e) \<in> set (pd_outbox p)" "due (acknowledgeOutbox p k) entries"
    using due_next [of p k e] by auto
  show ?case
  proof (cases "publish_audit dp jday j entry")
    case (Inr j')
    with entry have pub: "publish_audit dp jday j (k, e) = Inr j'" by simp
    have inv: "piped dp (p, j')" by (rule publish_piped [OF pub 4(2) pending(1)])
    have inv: "piped dp (acknowledgeOutbox p k, j')"
      by (rule piped_fewer [OF inv]) (use pipedD [OF inv] acknowledged in auto)
    note moved = publish_tracked [OF pub 4(2) pending(1)]
    have "k = i \<Longrightarrow> (i, e0) \<in> set (pd_outbox p) \<Longrightarrow> e = e0"
      using outbox_same [OF pipedD(2) [OF 4(2)] pending(1)] by simp
    then have "tracked dp n i e0 (acknowledgeOutbox p k, j')"
      using 4(4) moved by (auto simp: tracked_def acknowledgeOutbox_def)
    with 4(1) Inr entry pending(2) inv show ?thesis by simp
  qed (use 4 in simp)
qed simp_all

text \<open>With fuel for every entry the loop leaves none of them pending.\<close>

lemma flush_loop_empties:
  "2 * length entries \<le> fuel \<Longrightarrow> \<forall>(k, e) \<in> set entries. publishable dp e \<Longrightarrow>
     set (pd_outbox (fst (flush_loop dp jday fuel entries s)))
     = {(k, e) \<in> set (pd_outbox (fst s)). k \<notin> fst ` set entries}"
proof (induction dp jday fuel entries s rule: flush_loop.induct)
  case (4 dp jday fuel entry entries p j)
  obtain k e where entry: "entry = (k, e)" by (cases entry)
  with 4(3) publish_succeeds obtain j' where j': "publish_audit dp jday j (k, e) = Inr j'" by fastforce
  with 4 entry show ?case by (auto simp: acknowledgeOutbox_def)
qed auto

subsection \<open>Every sequence of steps\<close>

lemma append_outbox_entries:
  "pd_next p \<le> pd_next (append_outbox p es) \<and> set (pd_outbox p) \<subseteq> set (pd_outbox (append_outbox p es))
   \<and> (\<forall>(k, e) \<in> set (pd_outbox (append_outbox p es)). (k, e) \<in> set (pd_outbox p) \<or> pd_next p \<le> k)"
  by (induction p es rule: append_outbox.induct) fastforce+

lemma save_outbox:
  "pilot_save decode p st = Inr p' \<Longrightarrow> pd_outbox p' = pd_outbox p \<and> pd_next p' = pd_next p"
  by (auto simp: pilot_save_def Let_def split: sum.splits if_splits option.splits)

lemma commit_outbox:
  assumes "pilot_commit decode p st c es = Inr p'"
  shows "outbox_ok p \<Longrightarrow> outbox_ok p'" and "pd_next p \<le> pd_next p'" and "set (pd_outbox p) \<subseteq> set (pd_outbox p')"
    and "(k, e) \<in> set (pd_outbox p') \<Longrightarrow> (k, e) \<in> set (pd_outbox p) \<or> pd_next p \<le> k"
proof -
  from assms obtain p1 where p1: "p1 = p \<or> (\<exists>st. pilot_save decode p st = Inr p1)"
    and p': "p' = append_outbox (case c of None \<Rightarrow> p1 | Some c \<Rightarrow> saveControl p1 c) es"
    by (rule commit_cases)
  let ?p = "case c of None \<Rightarrow> p1 | Some c \<Rightarrow> saveControl p1 c"
  have same: "pd_outbox ?p = pd_outbox p" "pd_next ?p = pd_next p"
    using p1 save_outbox by (auto simp: saveControl_def split: option.splits)
  show "outbox_ok p'" if "outbox_ok p"
    unfolding p' by (rule append_outbox_ok) (use that same in \<open>simp add: outbox_ok_def\<close>)
  show "pd_next p \<le> pd_next p'" "set (pd_outbox p) \<subseteq> set (pd_outbox p')"
    "(k, e) \<in> set (pd_outbox p') \<Longrightarrow> (k, e) \<in> set (pd_outbox p) \<or> pd_next p \<le> k"
    using append_outbox_entries [of ?p es] same unfolding p' by auto
qed

lemma cascade_piped: "piped dp s \<Longrightarrow> piped dp (cascade x s)"
proof (cases s)
  case (Pair p j)
  assume inv: "piped dp s"
  let ?p = "fst (cascade x (p, j))"
  have "outbox_ok ?p"
    using pipedD(2) [OF inv [unfolded Pair]]
    by (auto simp: outbox_ok_def cascade_def sorted_wrt_map sorted_wrt_filter)
  then have "piped dp (?p, session_remove j x)"
    by (rule piped_fewer [OF inv [unfolded Pair] session_remove_ok [OF pipedD(1) [OF inv [unfolded Pair]]]])
      (auto simp: cascade_def session_remove_def)
  then show ?thesis by (simp add: Pair cascade_def)
qed

lemma finalize_cascade:
  assumes "forget_finalize j op = Inr (answer, j')" and "piped dp (p, j)"
  shows "piped dp (fst (cascade (fo_session op) (p, j)), j')"
proof -
  let ?p = "fst (cascade (fo_session op) (p, j))"
  note inv = cascade_piped [OF assms(2), of "fo_session op"]
  from forget_finalized [OF assms(1)] obtain rows where "j' = session_remove (j\<lparr>jb_forget := rows\<rparr>) (fo_session op)" by blast
  then have "jb_events j' = jb_events (snd (cascade (fo_session op) (p, j)))" by (simp add: cascade_def session_remove_def)
  moreover have whole: "piped dp (?p, snd (cascade (fo_session op) (p, j)))" using inv by simp
  ultimately show ?thesis
    using pipedD(2) [OF whole] forget_finalize_ok [OF assms(1) pipedD(1) [OF assms(2)]]
    by (intro piped_fewer [OF whole]) simp_all
qed

lemma step_piped: "piped dp s \<Longrightarrow> piped dp (relay_step_of dp jday decode s step)"
proof (cases s)
  case (Pair p j)
  assume inv: "piped dp s"
  note d = pipedD [OF inv [unfolded Pair]]
  show ?thesis
  proof (cases step)
    case (CommitEvents st c es)
    show ?thesis
    proof (cases "pilot_commit decode p st c es")
      case (Inr p')
      note out = commit_outbox [OF this]
      have "piped dp (p', j)"
      proof (rule pipedI [OF d(1) out(1) [OF d(2)]])
        show "k < pd_next p'" if "r \<in> set (jb_events j)" "jr_outbox r = Some k" for r k
          using d(3) [OF that] out(2) by simp
        show "publishes dp e r" if "(k, e) \<in> set (pd_outbox p')" "r \<in> set (jb_events j)" "row_session r = ae_session e"
          "jr_outbox r = Some k" for k e r
          using out(4) [OF that(1)] d(3) [OF that(2,4)] d(4) [OF _ that(2-4)] by auto
      qed
      with Inr CommitEvents Pair show ?thesis by simp
    qed (use inv CommitEvents Pair in simp)
  next
    case (Flush fuel session)
    with flush_loop_piped [OF inv drained_due] d(2) Pair show ?thesis by (simp add: flushOutbox_def)
  next
    case (JournalEvent session kind payload occurred)
    with inv Pair append_piped show ?thesis by (fastforce split: sum.splits)
  next
    case (SaveRow x state desired turn)
    have "piped dp (p, session_save j x state desired turn)"
      by (rule piped_fewer [OF inv [unfolded Pair]]) (use d session_save_ok in auto)
    with SaveRow Pair show ?thesis by simp
  next
    case (BeginForgetting x operation now)
    have "piped dp (p, j')" if "forget_begin j x operation now = Inr (answer, j')" for answer j'
      by (rule piped_fewer [OF inv [unfolded Pair]]) (use d forget_begin_ok [OF that] forget_begun [OF that] in auto)
    with BeginForgetting Pair inv show ?thesis by (auto split: sum.splits)
  next
    case (UpdateForgetting op)
    have "piped dp (p, j')" if "forget_update j op = Inr (answer, j')" for answer j'
      by (rule piped_fewer [OF inv [unfolded Pair]]) (use d forget_update_ok [OF that] forget_updated [OF that] in auto)
    with UpdateForgetting Pair inv show ?thesis by (auto split: sum.splits)
  next
    case (FinalizeForgetting op)
    with inv Pair finalize_cascade show ?thesis by (auto split: sum.splits)
  qed (simp add: cascade_piped inv)
qed

interpretation pipeline: stepper "relay_step_of dp jday decode" "piped dp"
  by unfold_locales (rule step_piped)

lemma step_tracked:
  assumes "piped dp s" and "tracked dp n i e s" and "leaves_open (ae_session e) step"
  shows "tracked dp n i e (relay_step_of dp jday decode s step)"
proof (cases s)
  case (Pair p j)
  note d = pipedD [OF assms(1) [unfolded Pair]]
  from assms(2) Pair have gap: "gapless (ae_session e) n j" by (simp add: tracked_def)
  show ?thesis
  proof (cases step)
    case (CommitEvents st c es)
    with assms(2) Pair commit_outbox(3) show ?thesis by (fastforce simp: tracked_def split: sum.splits)
  next
    case (Flush fuel session)
    with flush_loop_tracked [OF assms(1) drained_due assms(2)] d(2) Pair show ?thesis by (simp add: flushOutbox_def)
  next
    case (JournalEvent session kind payload occurred)
    with assms(2) Pair append_on_record [OF _ d(1) gap] show ?thesis by (fastforce simp: tracked_def split: sum.splits)
  next
    case (SaveRow x state desired turn)
    then have "gapless (ae_session e) n (session_save j x state desired turn)"
      using call_gapless [OF _ d(1) gap, of undefined undefined None "SaveRelaySession x state desired turn"] assms(3)
      by (simp add: leaves_open_def)
    with SaveRow assms(2) Pair show ?thesis by (simp add: tracked_def on_record_def)
  next
    case (DropSession x)
    with assms(3) have x: "x \<noteq> ae_session e" by (simp add: leaves_open_def)
    then have "gapless (ae_session e) n (session_remove j x)"
      using call_gapless [OF _ d(1) gap, of undefined undefined None "RemoveRelaySession x"]
      by (simp add: keeps_open_def)
    with DropSession assms(2) Pair x show ?thesis
      by (auto simp: tracked_def on_record_def cascade_def session_remove_def publishes_def)
  next
    case (BeginForgetting x operation now)
    show ?thesis
    proof (cases "forget_begin j x operation now")
      case (Inr answer)
      then obtain a j' where j': "forget_begin j x operation now = Inr (a, j')" by (cases answer) auto
      then have "gapless (ae_session e) n j'"
        using call_gapless [OF _ d(1) gap, of undefined undefined None "BeginForget x operation now"] assms(3) BeginForgetting
        by (simp add: leaves_open_def keeps_open_def)
      with j' forget_begun(2) [OF j'] BeginForgetting assms(2) Pair show ?thesis by (simp add: tracked_def on_record_def)
    qed (use BeginForgetting assms(2) Pair in simp)
  next
    case (UpdateForgetting op)
    show ?thesis
    proof (cases "forget_update j op")
      case (Inr answer)
      then obtain a j' where j': "forget_update j op = Inr (a, j')" by (cases answer) auto
      then have "gapless (ae_session e) n j'"
        using call_gapless [OF _ d(1) gap, of undefined undefined None "UpdateForget op"] by (simp add: keeps_open_def)
      with j' forget_updated(2) [OF j'] UpdateForgetting assms(2) Pair show ?thesis by (simp add: tracked_def on_record_def)
    qed (use UpdateForgetting assms(2) Pair in simp)
  next
    case (FinalizeForgetting op)
    show ?thesis
    proof (cases "forget_finalize j op")
      case (Inr answer)
      then obtain a j' where j': "forget_finalize j op = Inr (a, j')" by (cases answer) auto
      then have gap': "gapless (ae_session e) n j'"
        using call_gapless [OF _ d(1) gap, of undefined undefined None "FinalizeForget op"] by (simp add: keeps_open_def)
      from forget_finalized [OF j'] obtain rows where
        rows: "j' = session_remove (j\<lparr>jb_forget := rows\<rparr>) (fo_session op)" and "fenced j (fo_session op)" by blast
      with gap have "fo_session op \<noteq> ae_session e" by (auto simp: gapless_def)
      with gap' j' rows FinalizeForgetting assms(2) Pair show ?thesis
        by (auto simp: tracked_def on_record_def cascade_def session_remove_def publishes_def)
    qed (use FinalizeForgetting assms(2) Pair in simp)
  qed
qed

lemma run_tracked:
  "piped dp s \<Longrightarrow> tracked dp n i e s \<Longrightarrow> list_all (leaves_open (ae_session e)) steps \<Longrightarrow>
     tracked dp n i e (relay_run dp jday decode s steps)"
proof (induction steps arbitrary: s)
  case (Cons step steps)
  from step_piped [OF Cons.prems(1)] step_tracked [OF Cons.prems(1,2)] Cons.prems(3) Cons.IH show ?case by simp
qed simp

lemma one_row:
  assumes "journal_ok j" and "r \<in> set (jb_events j)" and "jr_outbox r = Some i"
  shows "filter (\<lambda>r'. row_session r' = row_session r \<and> jr_outbox r' = Some i) (jb_events j) = [r]" (is "?rows = _")
proof -
  have "distinct ?rows" using ok_parts(3) [OF assms(1)] by (simp add: keys_distinct_def distinct_map)
  moreover have "set ?rows = {r}" using ok_parts(5) [OF assms(1) _ assms(2)] assms(2,3) by auto
  ultimately show ?thesis by (cases ?rows; cases "tl ?rows") (auto simp del: set_filter)
qed

text \<open>
  C18: an event of the outbox is published exactly once. From empty databases on, take any moment at
  which an event is pending for a session that is neither closed nor being forgotten. Whatever follows
  while the session stays so, flushes that die half way included, a flush that runs to its end leaves
  the event acknowledged and exactly one row of the journal published under its identifier, with the
  type, the time and the payload that were committed. Two steps of fuel are enough for each entry; the
  only demand is that the pending events can be published at all, since one that cannot stops the loop.
\<close>
theorem outbox_is_published_once:
  assumes "s0 = relay_run dp jday decode (empty_db, empty_journal) before"
    and "(i, e) \<in> set (pd_outbox (fst s0))"
    and "still_open (snd s0) (ae_session e)" and "\<not> fenced (snd s0) (ae_session e)" and "r0 \<in> set (jb_sessions (snd s0))" and "rr_id r0 = ae_session e"
    and "s = relay_run dp jday decode s0 steps" and "list_all (leaves_open (ae_session e)) steps"
    and "list_all (publishable dp) (map snd (drainOutbox (fst s) (ae_session e)))"
    and "2 * length (drainOutbox (fst s) (ae_session e)) \<le> fuel"
    and "s' = flushOutbox dp jday fuel (ae_session e) s"
  shows "(i, e) \<notin> set (pd_outbox (fst s'))
    \<and> (\<exists>r. publishes dp e r
        \<and> filter (\<lambda>r. row_session r = ae_session e \<and> jr_outbox r = Some i) (jb_events (snd s')) = [r])"
proof -
  have "piped dp (empty_db, empty_journal)"
    by (rule pipedI) (simp_all add: empty_journal_ok outbox_ok_def empty_db_def, simp_all add: empty_journal_def)
  then have inv0: "piped dp s0" unfolding assms(1) by (rule pipeline.run_inv)
  then have inv: "piped dp s" unfolding assms(7) by (rule pipeline.run_inv)
  have "tracked dp (rr_next r0) i e s0"
    unfolding tracked_def gapless_def using assms(2-6) by auto
  then have "tracked dp (rr_next r0) i e s" unfolding assms(7) by (rule run_tracked [OF inv0 _ assms(8)])
  note drained = drained_due [of "fst s" "ae_session e"]
  have ok: "outbox_ok (fst s)" using inv by (simp add: piped_def)
  have inv': "piped dp s'"
    unfolding assms(11) flushOutbox_def by (rule flush_loop_piped [OF inv drained [OF ok]])
  have "tracked dp (rr_next r0) i e s'"
    unfolding assms(11) flushOutbox_def by (rule flush_loop_tracked [OF inv drained [OF ok]]) fact
  moreover have gone: "(i, e) \<notin> set (pd_outbox (fst s'))"
    using flush_loop_empties [OF assms(10), of dp jday s] assms(9)
    by (force simp: assms(11) flushOutbox_def list_all_iff drainOutbox_def)
  ultimately obtain r where r: "r \<in> set (jb_events (snd s'))" "jr_outbox r = Some i" "publishes dp e r"
    by (auto simp: tracked_def on_record_def)
  have "journal_ok (snd s')" using inv' by (simp add: piped_def)
  from one_row [OF this r(1,2)] r(3) gone show ?thesis by (auto simp: publishes_def)
qed

definition sample_audit :: audit_event where
  "sample_audit = \<lparr> ae_session = ''s'', ae_type = ''autopilot.updated'', ae_payload = JObj [(''state'', JStr ''completed'')],
     ae_at = ''1970-01-01T00:00:00.000Z'' \<rparr>"

abbreviation "sample_decode \<equiv> (\<lambda>row :: pilot_row. Inl ControlMissing :: store_error + autopilot_session)"

theorem outbox_is_published_once_witness:
  "\<exists>r. publishes epoch_parse sample_audit r
     \<and> filter (\<lambda>r. row_session r = ''s'' \<and> jr_outbox r = Some 1)
         (jb_events (snd (flushOutbox epoch_parse no_day 2 ''s''
            (relay_run epoch_parse no_day sample_decode (empty_db, empty_journal)
               [SaveRow ''s'' ''ready'' ''running'' None, CommitEvents None None [sample_audit], Flush 1 ''s''])))) = [r]"
proof -
  let ?before = "[SaveRow ''s'' ''ready'' ''running'' None, CommitEvents None None [sample_audit]]"
  let ?start = "relay_run epoch_parse no_day sample_decode (empty_db, empty_journal) ?before"
  let ?final = "relay_run epoch_parse no_day sample_decode ?start [Flush 1 ''s'']"
  let ?row = "\<lparr> rr_id = ''s'', rr_state = ''ready'', rr_desired = ''running'', rr_turn = None, rr_next = 1 \<rparr>"
  have session: "ae_session sample_audit = ''s''" by (simp add: sample_audit_def)
  have pending: "(1, sample_audit) \<in> set (pd_outbox (fst ?start))" by (simp add: pilot_commit_def empty_db_def)
  have "still_open (snd ?start) ''s''" "\<not> fenced (snd ?start) ''s''" "List.find (\<lambda>r. rr_id r = ''s'') (jb_sessions (snd ?start)) = Some ?row"
    "list_all (leaves_open ''s'') [Flush 1 ''s'']"
    "list_all (publishable epoch_parse) (map snd (drainOutbox (fst ?final) ''s''))"
    "2 * length (drainOutbox (fst ?final) ''s'') \<le> 2"
    by code_simp+
  from outbox_is_published_once [OF refl pending, unfolded session, OF this(1,2) _ _ refl this(4,5,6) refl, of ?row] find_session [OF this(3)]
  show ?thesis by simp
qed

subsection \<open>A session that is being forgotten\<close>

text \<open>
  Once forgetting has begun the counter of the session stands still. Of two events that are flushed then
  the first takes the number and the second is not stored; both are acknowledged.
\<close>
lemma forgetting_loses_events:
  "case relay_run epoch_parse no_day sample_decode (empty_db, empty_journal)
      [SaveRow ''s'' ''ready'' ''running'' None, BeginForgetting ''s'' (replicate 36 CHR ''0'') ''now'',
       CommitEvents None None [sample_audit, sample_audit], Flush 4 ''s''] of
     (p, j) \<Rightarrow> pd_outbox p = [] \<and> map jr_outbox (jb_events j) = [Some 1] \<and> map row_sequence (jb_events j) = [1]"
  by code_simp

end
