(* ===== verification/Json_Parse.thy ===== *)
theory Json_Parse
  imports Json_Read Js_Json
begin

text \<open>
  \<open>JSON.parse\<close>: the strict grammar of the specification, yielding an untyped value or the SyntaxError
  \<open>None\<close>. Of members with the same name the last one counts, at the place of the first. Numbers are
  exact; names that are array indices keep their place.
\<close>

definition put_member :: "(string \<times> jv) list \<Rightarrow> string \<times> jv \<Rightarrow> (string \<times> jv) list" where
  "put_member fs m =
     (if fst m \<in> set (map fst fs) then map (\<lambda>f. if fst f = fst m then m else f) fs else fs @ [m])"

definition object_of :: "(string \<times> jv) list \<Rightarrow> jv" where
  "object_of members = JObj (foldl put_member [] members)"

text \<open>A number is a maximal run of its characters that fits the grammar.\<close>

definition json_number :: "string \<Rightarrow> (jv \<times> string) option" where
  "json_number s =
     (let token = takeWhile (\<lambda>c. is_digit c \<or> c \<in> set ''+-.eE'') s;
          unsigned = (case token of c # u \<Rightarrow> if c = CHR ''-'' then u else token | [] \<Rightarrow> []);
          whole = takeWhile is_digit unsigned;
          fits = (whole \<noteq> [] \<and> (whole = ''0'' \<or> hd whole \<noteq> CHR ''0'')
            \<and> (case dropWhile is_digit unsigned of
                 c # r \<Rightarrow> c = CHR ''.'' \<longrightarrow> takeWhile is_digit r \<noteq> []
               | [] \<Rightarrow> True)) in
      if fits
      then map_option (\<lambda>r. (JNum (if unsigned = token then r else - r), drop (length token) s)) (decimal_number unsigned)
      else None)"

definition json_literal :: "string \<Rightarrow> (jv \<times> string) option" where
  "json_literal s =
     (case strip_prefix ''true'' s of
        Some r \<Rightarrow> Some (JBool True, r)
      | None \<Rightarrow>
          (case strip_prefix ''false'' s of
             Some r \<Rightarrow> Some (JBool False, r)
           | None \<Rightarrow> map_option (\<lambda>r. (JNull, r)) (strip_prefix ''null'' s)))"

text \<open>The fuel is the number of values and members that may still be opened; each takes a character.\<close>

fun json_value :: "nat \<Rightarrow> string \<Rightarrow> (jv \<times> string) option"
and json_elements :: "nat \<Rightarrow> string \<Rightarrow> (jv list \<times> string) option"
and json_members :: "nat \<Rightarrow> string \<Rightarrow> ((string \<times> jv) list \<times> string) option" where
  "json_value 0 s = None"
| "json_value (Suc n) s =
     (case skip_blank s of
        [] \<Rightarrow> None
      | c # r \<Rightarrow>
          if c = quote then map_option (\<lambda>(t, u). (JStr t, u)) (json_string r)
          else if c = CHR ''['' then
            (case skip_blank r of
               [] \<Rightarrow> None
             | d # u \<Rightarrow>
                 if d = CHR '']'' then Some (JArr [], u)
                 else map_option (\<lambda>(vs, w). (JArr vs, w)) (json_elements n r))
          else if c = CHR ''{'' then
            (case skip_blank r of
               [] \<Rightarrow> None
             | d # u \<Rightarrow>
                 if d = CHR ''}'' then Some (JObj [], u)
                 else map_option (\<lambda>(fs, w). (object_of fs, w)) (json_members n r))
          else (case json_literal (c # r) of Some x \<Rightarrow> Some x | None \<Rightarrow> json_number (c # r)))"
| "json_elements 0 s = None"
| "json_elements (Suc n) s =
     (case json_value n s of
        None \<Rightarrow> None
      | Some (v, r) \<Rightarrow>
          (case skip_blank r of
             [] \<Rightarrow> None
           | d # u \<Rightarrow>
               if d = CHR '']'' then Some ([v], u)
               else if d = CHR '','' then map_option (\<lambda>(vs, w). (v # vs, w)) (json_elements n u)
               else None))"
| "json_members 0 s = None"
| "json_members (Suc n) s =
     (case skip_blank s of
        [] \<Rightarrow> None
      | q # r \<Rightarrow>
          if q \<noteq> quote then None
          else (case json_string r of
                  None \<Rightarrow> None
                | Some (k, u) \<Rightarrow>
                    (case skip_blank u of
                       [] \<Rightarrow> None
                     | d # w \<Rightarrow>
                         if d \<noteq> CHR '':'' then None
                         else (case json_value n w of
                                 None \<Rightarrow> None
                               | Some (v, x) \<Rightarrow>
                                   (case skip_blank x of
                                      [] \<Rightarrow> None
                                    | e # y \<Rightarrow>
                                        if e = CHR ''}'' then Some ([(k, v)], y)
                                        else if e = CHR '','' then map_option (\<lambda>(fs, z). ((k, v) # fs, z)) (json_members n y)
                                        else None)))))"

definition json_parse :: "string \<Rightarrow> jv option" where
  "json_parse s =
     (case json_value (length s + 1) s of
        None \<Rightarrow> None
      | Some (v, r) \<Rightarrow> if skip_blank r = [] then Some v else None)"

end
