(* ===== verification/Attention_Contract.thy ===== *)
theory Attention_Contract
  imports Json_Parse Checkpoint_Contract
begin

text \<open>
  The contract of a request for human attention (src/shared/contracts/org-plan-attention.ts): its
  reasons, the decoder of a request and of the answer to it, and the answer as the tool response that is
  sent to the agent. The description of the tool for the agent is not modelled.
\<close>

definition orgPlanAttentionReasons :: "string list" where
  "orgPlanAttentionReasons =
     [''planChange'', ''hardBlock'', ''missingDependency'', ''permissionRequired'', ''externalState'', ''materialAmbiguity'']"

definition orgPlanAttentionResumeConditions :: "string list" where
  "orgPlanAttentionResumeConditions =
     [''userGuidance'', ''planRevision'', ''dependencyInstalled'', ''permissionGranted'', ''externalStateChanged'']"

definition orgPlanAttentionResumeConditionByReason :: "string \<Rightarrow> string option" where
  "orgPlanAttentionResumeConditionByReason =
     map_of [(''planChange'', ''planRevision''), (''hardBlock'', ''externalStateChanged''),
       (''missingDependency'', ''dependencyInstalled''), (''permissionRequired'', ''permissionGranted''),
       (''externalState'', ''externalStateChanged''), (''materialAmbiguity'', ''userGuidance'')]"

record org_attention =
  oa_reason :: string
  oa_summary :: string
  oa_action :: string
  oa_condition :: string
  oa_replacement :: "string option"

datatype attention_action = ResumeAction | DisableAction

record attention_response =
  ar_action :: attention_action
  ar_guidance :: "string option"

subsection \<open>Decoding\<close>

fun isReason :: "jv \<Rightarrow> bool" where
  "isReason (JStr s) = (s \<in> set orgPlanAttentionReasons)"
| "isReason _ = False"

fun isResumeCondition :: "jv \<Rightarrow> bool" where
  "isResumeCondition (JStr s) = (s \<in> set orgPlanAttentionResumeConditions)"
| "isResumeCondition _ = False"

fun isBoundedText :: "jv \<Rightarrow> nat \<Rightarrow> bool" where
  "isBoundedText (JStr s) n = (js_trim s \<noteq> [] \<and> length s \<le> n)"
| "isBoundedText _ n = False"

fun text_of :: "jv \<Rightarrow> string" where
  "text_of (JStr s) = s"
| "text_of _ = []"

definition parseExecutorReplacement :: "jv \<Rightarrow> string option" where
  "parseExecutorReplacement v =
     (case as_record v of
        None \<Rightarrow> None
      | Some f \<Rightarrow>
          if key_count f \<noteq> 1 then None
          else (case field_of f ''canonicalTaskName'' of
                  JStr s \<Rightarrow>
                    (case strip_prefix ''l'' s of
                       None \<Rightarrow> None
                     | Some d \<Rightarrow> if positive_decimal d then Some s else None)
                | _ \<Rightarrow> None))"

definition reason_fits :: "(string \<times> jv) list \<Rightarrow> bool" where
  "reason_fits f \<longleftrightarrow>
     isReason (field_of f ''reason'') \<and> isResumeCondition (field_of f ''resumeCondition'')
     \<and> orgPlanAttentionResumeConditionByReason (text_of (field_of f ''reason''))
       = Some (text_of (field_of f ''resumeCondition''))"

definition parseOrgPlanAttention :: "jv \<Rightarrow> org_attention option" where
  "parseOrgPlanAttention v =
     (case as_record v of
        None \<Rightarrow> None
      | Some f \<Rightarrow>
          let reason = text_of (field_of f ''reason''); condition = text_of (field_of f ''resumeCondition'');
              replacement = parseExecutorReplacement (field_of f ''executorReplacement'') in
          if key_count f = 2 \<and> only_keys [''reason'', ''resumeCondition''] f \<and> reason_fits f
          then Some \<lparr> oa_reason = reason,
                 oa_summary = ''Supervised execution requires human attention ('' @ reason @ '').'',
                 oa_action = ''Satisfy the '' @ condition @ '' resume condition, then resume or disable Autopilot.'',
                 oa_condition = condition, oa_replacement = None \<rparr>
          else if key_count f \<noteq> 4 \<and> key_count f \<noteq> 5 then None
          else if \<not> only_keys [''reason'', ''summary'', ''requestedAction'', ''resumeCondition'', ''executorReplacement''] f
          then None
          else if reason_fits f \<and> isBoundedText (field_of f ''summary'') 600
             \<and> isBoundedText (field_of f ''requestedAction'') 600
             \<and> (field_of f ''executorReplacement'' \<noteq> JUndef \<longrightarrow> replacement \<noteq> None)
             \<and> (replacement \<noteq> None \<longrightarrow> reason = ''permissionRequired'')
          then Some \<lparr> oa_reason = reason, oa_summary = text_of (field_of f ''summary''),
                 oa_action = text_of (field_of f ''requestedAction''), oa_condition = condition,
                 oa_replacement = replacement \<rparr>
          else None)"

fun action_of :: "jv \<Rightarrow> attention_action option" where
  "action_of (JStr s) =
     (if s = ''resume'' then Some ResumeAction else if s = ''disableAutopilot'' then Some DisableAction else None)"
| "action_of _ = None"

definition parseOrgPlanAttentionResponse :: "jv \<Rightarrow> attention_response option" where
  "parseOrgPlanAttentionResponse v =
     (case as_record v of
        None \<Rightarrow> None
      | Some f \<Rightarrow>
          (case action_of (field_of f ''action'') of
             None \<Rightarrow> None
           | Some action \<Rightarrow>
               if \<not> only_keys [''action'', ''guidance''] f then None
               else if field_of f ''guidance'' \<noteq> JUndef \<and> \<not> isBoundedText (field_of f ''guidance'') 1000 then None
               else Some \<lparr> ar_action = action, ar_guidance = as_string (field_of f ''guidance'') \<rparr>))"

definition parseOrgPlanAttentionToolResponse :: "jv \<Rightarrow> attention_response option" where
  "parseOrgPlanAttentionToolResponse v =
     (case as_record v of
        None \<Rightarrow> None
      | Some f \<Rightarrow>
          (case as_array (field_of f ''contentItems'') of
             None \<Rightarrow> None
           | Some items \<Rightarrow>
               if field_of f ''success'' \<noteq> JBool True then None
               else (case items of
                       [item] \<Rightarrow>
                         (case as_record item of
                            None \<Rightarrow> None
                          | Some g \<Rightarrow>
                              (case as_string (field_of g ''text'') of
                                 None \<Rightarrow> None
                               | Some text \<Rightarrow>
                                   if field_of g ''type'' \<noteq> JStr ''inputText'' then None
                                   else (case json_parse text of
                                           None \<Rightarrow> None
                                         | Some value \<Rightarrow> parseOrgPlanAttentionResponse value)))
                     | _ \<Rightarrow> None)))"

definition isOrgPlanAttentionToolResponse :: "jv \<Rightarrow> bool" where
  "isOrgPlanAttentionToolResponse v \<longleftrightarrow> parseOrgPlanAttentionToolResponse v \<noteq> None"

subsection \<open>Writing\<close>

text \<open>The members of an answer, as \<open>JSON.stringify\<close> sees them.\<close>

definition action_name :: "attention_action \<Rightarrow> string" where
  "action_name action = (case action of ResumeAction \<Rightarrow> ''resume'' | DisableAction \<Rightarrow> ''disableAutopilot'')"

definition response_fields :: "attention_response \<Rightarrow> (string \<times> json) list" where
  "response_fields r =
     (''action'', OText (action_name (ar_action r)))
     # (case ar_guidance r of None \<Rightarrow> [] | Some g \<Rightarrow> [(''guidance'', OText g)])"

definition text_response :: "bool \<Rightarrow> string \<Rightarrow> jv" where
  "text_response success text =
     JObj [(''success'', JBool success),
       (''contentItems'', JArr [JObj [(''type'', JStr ''inputText''), (''text'', JStr text)]])]"

definition toOrgPlanAttentionToolResponse :: "attention_response \<Rightarrow> jv" where
  "toOrgPlanAttentionToolResponse r = text_response True (json_text (OObj (response_fields r)))"

definition toOrgPlanAttentionAcknowledgement :: "bool \<Rightarrow> jv" where
  "toOrgPlanAttentionAcknowledgement accepted =
     text_response accepted
       (if accepted then json_text (OObj [(''accepted'', OBool True)])
        else json_text (OObj [(''accepted'', OBool False), (''reason'', OText ''persistenceFailed'')]))"

subsection \<open>What is written is read back\<close>

lemma skip_marks [simp]:
  "skip_blank (CHR ''{'' # s) = CHR ''{'' # s" "skip_blank (CHR ''}'' # s) = CHR ''}'' # s"
  "skip_blank (CHR '':'' # s) = CHR '':'' # s"
  by (simp_all add: skip_blank_def json_blank_def code_def)

lemma value_text: "json_value (Suc n) (quote # escape_text t @ r) = Some (JStr t, r)"
  by (simp add: json_string_escape_text)

lemma last_member:
  "json_members (Suc (Suc n)) (quote # escape_text k @ CHR '':'' # quote # escape_text v @ CHR ''}'' # r) = Some ([(k, JStr v)], r)"
  using value_text [of n v "CHR ''}'' # r"] by (simp add: json_string_escape_text del: json_value.simps)

lemma next_member:
  "json_members (Suc (Suc n)) (quote # escape_text k @ CHR '':'' # quote # escape_text v @ CHR '','' # r)
     = map_option (\<lambda>(fs, w). ((k, JStr v) # fs, w)) (json_members (Suc n) r)"
  using value_text [of n v "CHR '','' # r"] by (simp add: json_string_escape_text del: json_value.simps)

lemma response_text_reads_back:
  "json_parse (json_text (OObj (response_fields r))) = Some (JObj ((''action'', JStr (action_name (ar_action r)))
     # (case ar_guidance r of None \<Rightarrow> [] | Some g \<Rightarrow> [(''guidance'', JStr g)])))"
proof (cases "ar_guidance r")
  case None
  let ?s = "json_text (OObj (response_fields r))"
  obtain n where n: "length ?s = Suc (Suc n)" by (simp add: response_fields_def None)
  have "json_members (Suc (Suc n)) (tl ?s) = Some ([(''action'', JStr (action_name (ar_action r)))], [])"
    using last_member [of n "''action''" "action_name (ar_action r)" "[]"] by (simp add: response_fields_def None)
  then show ?thesis
    unfolding json_parse_def n using None
    by (simp add: response_fields_def object_of_def put_member_def del: json_members.simps)
next
  case (Some g)
  let ?s = "json_text (OObj (response_fields r))"
  obtain n where n: "length ?s = Suc (Suc (Suc n))" by (simp add: response_fields_def Some)
  have "json_members (Suc (Suc (Suc n))) (tl ?s)
      = Some ([(''action'', JStr (action_name (ar_action r))), (''guidance'', JStr g)], [])"
    using next_member [of "Suc n" "''action''" "action_name (ar_action r)"] last_member [of n "''guidance''" g "[]"]
    by (simp add: response_fields_def Some del: json_members.simps)
  then show ?thesis
    unfolding json_parse_def n using Some
    by (simp add: response_fields_def object_of_def put_member_def del: json_members.simps)
qed

text \<open>
  An answer survives the tool protocol. An answer that was decoded from a request is read back
  exactly from the text of the tool response it is sent as, whatever characters its guidance holds.
\<close>
theorem tool_response_reads_back:
  assumes "parseOrgPlanAttentionResponse v = Some r"
  shows "parseOrgPlanAttentionToolResponse (toOrgPlanAttentionToolResponse r) = Some r"
proof -
  from assms have guidance: "case ar_guidance r of None \<Rightarrow> True | Some g \<Rightarrow> isBoundedText (JStr g) 1000"
  proof -
    from assms obtain f where f: "as_record v = Some f" by (auto simp: parseOrgPlanAttentionResponse_def split: option.splits)
    with assms have "field_of f ''guidance'' = JUndef \<or> isBoundedText (field_of f ''guidance'') 1000"
      and "ar_guidance r = as_string (field_of f ''guidance'')"
      by (auto simp: parseOrgPlanAttentionResponse_def split: option.splits if_splits)
    then show ?thesis by (cases "field_of f ''guidance''") auto
  qed
  have action: "action_of (JStr (action_name (ar_action r))) = Some (ar_action r)"
    by (cases "ar_action r") (simp_all add: action_name_def)
  show ?thesis
    using guidance action response_text_reads_back [of r]
    by (cases r; cases "ar_guidance r")
      (simp_all add: toOrgPlanAttentionToolResponse_def text_response_def parseOrgPlanAttentionToolResponse_def
        parseOrgPlanAttentionResponse_def field_of_def only_keys_def del: action_of.simps json_text.simps)
qed

theorem tool_response_reads_back_witness:
  "parseOrgPlanAttentionToolResponse (toOrgPlanAttentionToolResponse
     \<lparr> ar_action = ResumeAction, ar_guidance = Some [quote, backslash, CHR 0x0A] \<rparr>)
   = Some \<lparr> ar_action = ResumeAction, ar_guidance = Some [quote, backslash, CHR 0x0A] \<rparr>"
proof -
  have "parseOrgPlanAttentionResponse (JObj [(''action'', JStr ''resume''), (''guidance'', JStr [quote, backslash, CHR 0x0A])])
      = Some \<lparr> ar_action = ResumeAction, ar_guidance = Some [quote, backslash, CHR 0x0A] \<rparr>"
    by code_simp
  then show ?thesis by (rule tool_response_reads_back)
qed

end
