(* ===== verification/Interaction_Store.thy ===== *)
theory Interaction_Store
  imports Attention_Contract Event_Journal
begin

text \<open>
  The durable store of pending interactions
  (src/server/platform/persistence/sqlite-pending-interaction-store.ts) and the store of idempotent
  results (sqlite-idempotency-store.ts). The table is the list of its rows in the order of their rowid;
  a stored payload is the value its text spells. The states of a resolution and the outcomes are texts,
  as they are in the table. \<open>ellipsis\<close> is the character U+2026.
\<close>

record pending_interaction =
  pi_request :: string
  pi_kind :: string
  pi_payload :: jv
  pi_turn :: "string option"
  pi_requested :: "string option"

record interaction_row =
  ir_session :: string
  ir_request :: string
  ir_kind :: string
  ir_payload :: jv
  ir_turn :: "string option"
  ir_requested :: "string option"
  ir_resolved :: "string option"
  ir_outcome :: "string option"
  ir_key :: "string option"
  ir_state :: string
  ir_report :: "string option"

type_synonym interactions = "interaction_row list"

definition row_at :: "string \<Rightarrow> string \<Rightarrow> interaction_row \<Rightarrow> bool" where
  "row_at session request r \<longleftrightarrow> ir_session r = session \<and> ir_request r = request"

definition find_row :: "interactions \<Rightarrow> string \<Rightarrow> string \<Rightarrow> interaction_row option" where
  "find_row rows session request = List.find (row_at session request) rows"

text \<open>An UPDATE that reports whether it changed exactly one row.\<close>

definition update_one ::
  "(interaction_row \<Rightarrow> bool) \<Rightarrow> (interaction_row \<Rightarrow> interaction_row) \<Rightarrow> interactions \<Rightarrow> bool \<times> interactions" where
  "update_one P f rows = (length (filter P rows) = 1, update_where P f rows)"

subsection \<open>Interactions\<close>

definition safeInteractionOutcome :: "string option \<Rightarrow> string" where
  "safeInteractionOutcome v =
     (case v of
        None \<Rightarrow> ''answered''
      | Some s \<Rightarrow> if s \<in> set [''approved'', ''denied'', ''answered'', ''dismissed'', ''failed''] then s else ''answered'')"

text \<open>The two states a resolution can start in, and go back to.\<close>

definition open_state :: "bool \<Rightarrow> string" where
  "open_state acknowledged = (if acknowledged then ''acknowledged'' else ''active'')"

text \<open>A request for attention is never overwritten.\<close>

definition add_interaction :: "interactions \<Rightarrow> string \<Rightarrow> pending_interaction \<Rightarrow> bool \<Rightarrow> interactions" where
  "add_interaction rows session p acknowledged =
     (case find_row rows session (pi_request p) of
        None \<Rightarrow>
          rows @ [\<lparr> ir_session = session, ir_request = pi_request p, ir_kind = pi_kind p, ir_payload = pi_payload p,
                    ir_turn = pi_turn p, ir_requested = pi_requested p, ir_resolved = None, ir_outcome = None,
                    ir_key = None, ir_state = open_state acknowledged, ir_report = None \<rparr>]
      | Some _ \<Rightarrow>
          update_where (\<lambda>r. row_at session (pi_request p) r \<and> ir_kind r \<noteq> ''orgPlanAttention'')
            (\<lambda>r. r\<lparr>ir_kind := pi_kind p, ir_payload := pi_payload p, ir_turn := pi_turn p, ir_requested := pi_requested p,
                   ir_resolved := None, ir_outcome := None, ir_key := None, ir_state := open_state acknowledged\<rparr>) rows)"

definition resolutionState :: "interactions \<Rightarrow> string \<Rightarrow> string \<Rightarrow> string option" where
  "resolutionState rows session request =
     map_option ir_state (List.find (\<lambda>r. row_at session request r \<and> ir_resolved r = None) rows)"

definition retainAttentionReport :: "string \<Rightarrow> interactions \<Rightarrow> string \<Rightarrow> string \<Rightarrow> jv \<Rightarrow> interactions" where
  "retainAttentionReport ellipsis rows session turn value =
     (case boundedAttentionReport ellipsis value of
        None \<Rightarrow> rows
      | Some report \<Rightarrow>
          update_where (\<lambda>r. ir_session r = session \<and> ir_turn r = Some turn \<and> ir_kind r = ''orgPlanAttention'' \<and> ir_resolved r = None)
            (\<lambda>r. r\<lparr>ir_report := Some report\<rparr>) rows)"

definition interaction_report :: "string \<Rightarrow> interactions \<Rightarrow> string \<Rightarrow> string \<Rightarrow> string option" where
  "interaction_report ellipsis rows session request =
     Option.bind (Option.bind (List.find (\<lambda>r. row_at session request r \<and> ir_kind r = ''orgPlanAttention'') rows) ir_report)
       (\<lambda>t. boundedAttentionReport ellipsis (JStr t))"

definition resolve_interaction :: "interactions \<Rightarrow> string \<Rightarrow> string \<Rightarrow> string \<Rightarrow> string \<Rightarrow> bool \<times> interactions" where
  "resolve_interaction rows session request at_time outcome =
     update_one (\<lambda>r. row_at session request r \<and> ir_resolved r = None)
       (\<lambda>r. r\<lparr>ir_resolved := Some at_time, ir_outcome := Some outcome\<rparr>) rows"

subsection \<open>The claim of an operation\<close>

datatype claim_answer = Claimed | SameClaim | StaleClaim | ResolvedClaim | MissingClaim

definition claimOperation :: "interactions \<Rightarrow> string \<Rightarrow> string \<Rightarrow> string \<Rightarrow> claim_answer \<times> interactions" where
  "claimOperation rows session request key =
     (case find_row rows session request of
        None \<Rightarrow> (MissingClaim, rows)
      | Some r \<Rightarrow>
          if truthy_opt (ir_resolved r) then (if ir_key r = Some key then ResolvedClaim else StaleClaim, rows)
          else if truthy_opt (ir_key r) then (if ir_key r = Some key then SameClaim else StaleClaim, rows)
          else (case update_one (\<lambda>r. row_at session request r \<and> ir_key r = None \<and> ir_resolved r = None)
                       (\<lambda>r. r\<lparr>ir_key := Some key\<rparr>) rows of
                  (changed, rows') \<Rightarrow> (if changed then Claimed else StaleClaim, rows')))"

definition beginDelivery :: "interactions \<Rightarrow> string \<Rightarrow> string \<Rightarrow> string \<Rightarrow> bool \<times> interactions" where
  "beginDelivery rows session request key =
     update_one (\<lambda>r. row_at session request r \<and> ir_key r = Some key \<and> ir_resolved r = None
          \<and> ir_state r \<in> set [''active'', ''acknowledged'', ''delivering''])
       (\<lambda>r. r\<lparr>ir_state := ''delivering''\<rparr>) rows"

definition retryDelivery :: "interactions \<Rightarrow> string \<Rightarrow> string \<Rightarrow> string \<Rightarrow> bool \<Rightarrow> bool \<times> interactions" where
  "retryDelivery rows session request key acknowledged =
     update_one (\<lambda>r. row_at session request r \<and> ir_key r = Some key \<and> ir_resolved r = None \<and> ir_state r = ''delivering'')
       (\<lambda>r. r\<lparr>ir_state := open_state acknowledged\<rparr>) rows"

definition settleOperation ::
  "interactions \<Rightarrow> string \<Rightarrow> string \<Rightarrow> string \<Rightarrow> string \<Rightarrow> string \<Rightarrow> bool \<times> interactions" where
  "settleOperation rows session request key at_time outcome =
     update_one (\<lambda>r. row_at session request r \<and> ir_key r = Some key \<and> ir_resolved r = None \<and> ir_state r = ''delivering'')
       (\<lambda>r. r\<lparr>ir_resolved := Some at_time, ir_outcome := Some outcome,
              ir_state := (if outcome = ''failed'' then ''failed'' else ''resolved'')\<rparr>) rows"

subsection \<open>Reading\<close>

definition list_interactions :: "interactions \<Rightarrow> string \<Rightarrow> pending_interaction list" where
  "list_interactions rows session =
     map (\<lambda>r. \<lparr> pi_request = ir_request r, pi_kind = ir_kind r, pi_payload = ir_payload r,
                pi_turn = (if truthy_opt (ir_turn r) then ir_turn r else None),
                pi_requested = (if truthy_opt (ir_requested r) then ir_requested r else None) \<rparr>)
       (filter (\<lambda>r. ir_session r = session \<and> ir_resolved r = None) rows)"

definition find_interaction :: "interactions \<Rightarrow> string \<Rightarrow> string \<Rightarrow> pending_interaction option" where
  "find_interaction rows session request = List.find (\<lambda>p. pi_request p = request) (list_interactions rows session)"

definition resolved_at :: "interactions \<Rightarrow> string \<Rightarrow> string \<Rightarrow> (string \<times> string) option" where
  "resolved_at rows session request =
     map_option (\<lambda>r. (the (ir_resolved r), safeInteractionOutcome (ir_outcome r)))
       (List.find (\<lambda>r. row_at session request r \<and> ir_resolved r \<noteq> None) rows)"

definition terminalOperation :: "interactions \<Rightarrow> string \<Rightarrow> string \<Rightarrow> (string \<times> string \<times> string option) option" where
  "terminalOperation rows session request =
     (case resolved_at rows session request of
        None \<Rightarrow> None
      | Some (at_time, outcome) \<Rightarrow>
          map_option (\<lambda>r. (at_time, outcome, ir_key r)) (find_row rows session request))"

datatype interaction_snapshot =
    ResolvedInteraction string string "string option" "string option" string string
  | OpenInteraction string string "string option" "string option" jv

definition snapshot_of :: "interaction_row \<Rightarrow> interaction_snapshot" where
  "snapshot_of r =
     (if truthy_opt (ir_resolved r)
      then ResolvedInteraction (ir_request r) (ir_kind r) (ir_turn r) (ir_requested r) (the (ir_resolved r))
             (safeInteractionOutcome (ir_outcome r))
      else OpenInteraction (ir_request r) (ir_kind r) (ir_turn r) (ir_requested r) (ir_payload r))"

text \<open>Open rows first, then by the time of the request, a row without one before the others.\<close>

definition snapshot_order :: "interaction_row \<Rightarrow> interaction_row \<Rightarrow> int" where
  "snapshot_order a b =
     (if (ir_resolved a = None) \<noteq> (ir_resolved b = None) then (if ir_resolved a = None then - 1 else 1)
      else case (ir_requested a, ir_requested b) of
             (None, None) \<Rightarrow> 0
           | (None, Some _) \<Rightarrow> - 1
           | (Some _, None) \<Rightarrow> 1
           | (Some x, Some y) \<Rightarrow> code_unit_compare x y)"

definition interaction_snapshots :: "interactions \<Rightarrow> string \<Rightarrow> interaction_snapshot list" where
  "interaction_snapshots rows session =
     map snapshot_of (sort_by snapshot_order (filter (\<lambda>r. ir_session r = session) rows))"

subsection \<open>Idempotent results\<close>

record stored_result =
  sr_scope :: string
  sr_key :: string
  sr_status :: int
  sr_body :: string

definition get_result :: "stored_result list \<Rightarrow> string \<Rightarrow> string \<Rightarrow> (int \<times> string) option" where
  "get_result rows scope key =
     map_option (\<lambda>r. (sr_status r, sr_body r)) (List.find (\<lambda>r. sr_scope r = scope \<and> sr_key r = key) rows)"

definition put_result :: "stored_result list \<Rightarrow> string \<Rightarrow> string \<Rightarrow> int \<Rightarrow> string \<Rightarrow> stored_result list" where
  "put_result rows scope key status body =
     (if list_ex (\<lambda>r. sr_scope r = scope \<and> sr_key r = key) rows then rows
      else rows @ [\<lparr> sr_scope = scope, sr_key = key, sr_status = status, sr_body = body \<rparr>])"

end
