(* ===== verification/Attention_Resolution.thy ===== *)
theory Attention_Resolution
  imports Interaction_Store
begin

text \<open>
  The answer of a human to a request for attention
  (src/server/features/org-plan-attention/application/resolve.ts, composed as in
  src/server/composition.ts). The run awaits once, while the guidance is sent to the agent; it is split
  there, and the map of promises in flight holds the runs that wait. What the agent's writer and the
  policy answer is an argument of the run; what is asked of them is recorded in a log, with the request and the key of the run.

  The body of a stored result is the time it spells: only \<open>settleAnswered\<close> writes one, and it always is
  \<open>{kind: 'replayed', resolvedAt}\<close>.
\<close>

datatype writer_state = WriterReady | WriterGone | WriterCleared

record port_answers =
  pa_authorize :: bool
  pa_guidance :: bool
  pa_capable :: bool
  pa_available :: bool
  pa_state :: writer_state
  pa_resolve :: bool
  pa_now :: string

datatype attention_effect =
    AskedReplacement string string
  | SentResponse string string string jv
  | SentGuidance string string string string
  | Published string string string string
  | EnabledAutopilot string
  | DisabledAutopilot string

datatype resolution =
    Accepted string
  | Replayed string
  | NoActive
  | StaleOperation
  | ReplacementRejected
  | WriterUnavailable
  | ClearedWriter string
  | LegacyUnsupported

record resolve_input =
  ri_session :: string
  ri_request :: string
  ri_key :: string
  ri_response :: jv

record waiting_run =
  wr_key :: string
  wr_input :: resolve_input
  wr_action :: attention_action

record attention_relay =
  al_rows :: interactions
  al_results :: "stored_result list"
  al_flight :: "waiting_run list"
  al_log :: "attention_effect list"

datatype run_answer = Answer resolution | Joined | Waiting

definition attention_scope :: "string \<Rightarrow> string \<Rightarrow> string" where
  "attention_scope session request = ''org-plan-attention:'' @ session @ '':'' @ request"

definition flight_key :: "resolve_input \<Rightarrow> string" where
  "flight_key i = attention_scope (ri_session i) (ri_request i) @ '':'' @ ri_key i"

definition log_effect :: "attention_relay \<Rightarrow> attention_effect \<Rightarrow> attention_relay" where
  "log_effect s e = s\<lparr>al_log := al_log s @ [e]\<rparr>"

definition settleAnswered ::
  "attention_relay \<Rightarrow> resolve_input \<Rightarrow> attention_action \<Rightarrow> string \<Rightarrow> resolution \<times> attention_relay" where
  "settleAnswered s i action at_time =
     (case settleOperation (al_rows s) (ri_session i) (ri_request i) (ri_key i) at_time ''answered'' of
        (False, rows) \<Rightarrow> (StaleOperation, s\<lparr>al_rows := rows\<rparr>)
      | (True, rows) \<Rightarrow>
          (Accepted at_time,
           log_effect (log_effect (s\<lparr>al_rows := rows,
                         al_results := put_result (al_results s) (attention_scope (ri_session i) (ri_request i)) (ri_key i)
                           202 at_time\<rparr>)
                   (Published (ri_session i) (ri_request i) at_time ''answered''))
             (if action = DisableAction then DisabledAutopilot (ri_session i) else EnabledAutopilot (ri_session i))))"

text \<open>The delivery is given up for now: the same key may try again.\<close>

definition give_up :: "attention_relay \<Rightarrow> resolve_input \<Rightarrow> bool \<Rightarrow> attention_relay" where
  "give_up s i acknowledged =
     s\<lparr>al_rows := snd (retryDelivery (al_rows s) (ri_session i) (ri_request i) (ri_key i) acknowledged)\<rparr>"

text \<open>The executor of a replacement that the answer grants is authorised first; \<open>None\<close> if it is refused.\<close>

definition ask_replacement ::
  "port_answers \<Rightarrow> attention_relay \<Rightarrow> resolve_input \<Rightarrow> attention_response \<Rightarrow> org_attention \<Rightarrow> bool \<times> attention_relay" where
  "ask_replacement p s i decision attention =
     (case (ar_action decision, oa_replacement attention) of
        (ResumeAction, Some task) \<Rightarrow> (pa_authorize p, log_effect s (AskedReplacement (ri_session i) task))
      | _ \<Rightarrow> (True, s))"

definition guidance_text :: "string \<Rightarrow> string" where
  "guidance_text g = ''The user resolved the Autopilot attention request. Guidance:'' @ [CHR 0x0A] @ g"

definition deliver_acknowledged ::
  "port_answers \<Rightarrow> attention_relay \<Rightarrow> resolve_input \<Rightarrow> attention_response \<Rightarrow> org_attention
     \<Rightarrow> run_answer \<times> attention_relay" where
  "deliver_acknowledged p s i decision attention =
     (case beginDelivery (al_rows s) (ri_session i) (ri_request i) (ri_key i) of
        (False, rows) \<Rightarrow> (Answer StaleOperation, s\<lparr>al_rows := rows\<rparr>)
      | (True, rows) \<Rightarrow>
          (case ask_replacement p (s\<lparr>al_rows := rows\<rparr>) i decision attention of
             (False, s1) \<Rightarrow> (Answer ReplacementRejected, give_up s1 i True)
           | (True, s1) \<Rightarrow>
               if ar_action decision = ResumeAction \<and> truthy_opt (ar_guidance decision)
               then (if \<not> pa_guidance p then (Answer WriterUnavailable, give_up s1 i True)
                     else (Waiting,
                       (log_effect s1 (SentGuidance (ri_session i) (ri_request i) (ri_key i) (guidance_text (the (ar_guidance decision)))))
                         \<lparr>al_flight := al_flight s1 @ [\<lparr> wr_key = flight_key i, wr_input = i, wr_action = ar_action decision \<rparr>]\<rparr>))
               else (case settleAnswered s1 i (ar_action decision) (pa_now p) of (r, s2) \<Rightarrow> (Answer r, s2))))"

definition deliver_held ::
  "port_answers \<Rightarrow> attention_relay \<Rightarrow> resolve_input \<Rightarrow> attention_response \<Rightarrow> org_attention
     \<Rightarrow> resolution \<times> attention_relay" where
  "deliver_held p s i decision attention =
     (if \<not> pa_capable p then (LegacyUnsupported, s)
      else if \<not> pa_available p then (WriterUnavailable, s)
      else (case beginDelivery (al_rows s) (ri_session i) (ri_request i) (ri_key i) of
        (False, rows) \<Rightarrow> (StaleOperation, s\<lparr>al_rows := rows\<rparr>)
      | (True, rows) \<Rightarrow>
          (case ask_replacement p (s\<lparr>al_rows := rows\<rparr>) i decision attention of
             (False, s1) \<Rightarrow> (ReplacementRejected, give_up s1 i False)
           | (True, s1) \<Rightarrow>
               (case pa_state p of
                  WriterGone \<Rightarrow> (WriterUnavailable, give_up s1 i False)
                | WriterCleared \<Rightarrow>
                    (case settleOperation (al_rows s1) (ri_session i) (ri_request i) (ri_key i) (pa_now p) ''failed'' of
                       (False, rows) \<Rightarrow> (StaleOperation, s1\<lparr>al_rows := rows\<rparr>)
                     | (True, rows) \<Rightarrow>
                         (ClearedWriter (pa_now p),
                          log_effect (s1\<lparr>al_rows := rows\<rparr>) (Published (ri_session i) (ri_request i) (pa_now p) ''failed'')))
                | WriterReady \<Rightarrow>
                    let s2 = log_effect s1 (SentResponse (ri_session i) (ri_request i) (ri_key i) (ri_response i)) in
                    if \<not> pa_resolve p then (WriterUnavailable, give_up s2 i False)
                    else settleAnswered s2 i (ar_action decision) (pa_now p)))))"

definition deliver :: "port_answers \<Rightarrow> attention_relay \<Rightarrow> resolve_input \<Rightarrow> run_answer \<times> attention_relay" where
  "deliver p s i =
     (case find_interaction (al_rows s) (ri_session i) (ri_request i) of
        None \<Rightarrow> (Answer NoActive, s)
      | Some interaction \<Rightarrow>
          if pi_kind interaction \<noteq> ''orgPlanAttention'' then (Answer NoActive, s)
          else (case (parseOrgPlanAttentionToolResponse (ri_response i), parseOrgPlanAttention (pi_payload interaction)) of
             (Some decision, Some attention) \<Rightarrow>
               (case claimOperation (al_rows s) (ri_session i) (ri_request i) (ri_key i) of
                  (claim, rows) \<Rightarrow>
                    let s1 = s\<lparr>al_rows := rows\<rparr> in
                    (case claim of
                       ResolvedClaim \<Rightarrow>
                         (case resolved_at rows (ri_session i) (ri_request i) of
                            Some (at_time, _) \<Rightarrow> (Answer (Replayed at_time), s1)
                          | None \<Rightarrow> (Answer StaleOperation, s1))
                     | StaleClaim \<Rightarrow> (Answer StaleOperation, s1)
                     | MissingClaim \<Rightarrow> (Answer NoActive, s1)
                     | _ \<Rightarrow>
                         if resolutionState rows (ri_session i) (ri_request i) = Some ''acknowledged''
                         then deliver_acknowledged p s1 i decision attention
                         else (case deliver_held p s1 i decision attention of (r, s2) \<Rightarrow> (Answer r, s2))))
           | _ \<Rightarrow> (Answer StaleOperation, s)))"

definition resolve_attention :: "port_answers \<Rightarrow> attention_relay \<Rightarrow> resolve_input \<Rightarrow> run_answer \<times> attention_relay" where
  "resolve_attention p s i =
     (case get_result (al_results s) (attention_scope (ri_session i) (ri_request i)) (ri_key i) of
        Some (_, body) \<Rightarrow> (Answer (Replayed body), s)
      | None \<Rightarrow>
          (case terminalOperation (al_rows s) (ri_session i) (ri_request i) of
             Some (at_time, outcome, key) \<Rightarrow>
               (Answer (if key = Some (ri_key i)
                  then (if outcome = ''failed'' then ClearedWriter at_time else Replayed at_time)
                  else StaleOperation), s)
           | None \<Rightarrow>
               if list_ex (\<lambda>w. wr_key w = flight_key i) (al_flight s) then (Joined, s)
               else deliver p s i))"

text \<open>The guidance was sent, or could not be; \<open>None\<close> if no run waits under the key.\<close>

definition guidance_answered ::
  "attention_relay \<Rightarrow> string \<Rightarrow> bool \<Rightarrow> string \<Rightarrow> (resolution \<times> attention_relay) option" where
  "guidance_answered s key sent at_time =
     (case List.find (\<lambda>w. wr_key w = key) (al_flight s) of
        None \<Rightarrow> None
      | Some w \<Rightarrow>
          let s1 = s\<lparr>al_flight := filter (\<lambda>w. wr_key w \<noteq> key) (al_flight s)\<rparr> in
          Some (if sent then settleAnswered s1 (wr_input w) (wr_action w) at_time
                else (WriterUnavailable, give_up s1 (wr_input w) True)))"

end
