(* ===== verification/Attention_Facts.thy ===== *)
theory Attention_Facts
  imports Attention_Resolution
begin

text \<open>
  What the resolution of a request for attention guarantees: the first key that claims the request owns
  it for good, everything sent for it is sent under that key, it is settled and published once, an answer
  says what is durable, and a delivery that was given up can be tried again.
\<close>

subsection \<open>Rows only move forward\<close>

definition is_attention :: "interaction_row \<Rightarrow> bool" where
  "is_attention r \<longleftrightarrow> ir_kind r = ''orgPlanAttention''"

definition row_key :: "interaction_row \<Rightarrow> string \<times> string" where
  "row_key r = (ir_session r, ir_request r)"

text \<open>A claim stays, and so does a settlement.\<close>

definition moved_on :: "interaction_row \<Rightarrow> interaction_row \<Rightarrow> bool" where
  "moved_on r r' \<longleftrightarrow> row_key r' = row_key r \<and> ir_kind r' = ir_kind r \<and> ir_payload r' = ir_payload r
     \<and> (ir_key r \<noteq> None \<longrightarrow> ir_key r' = ir_key r)
     \<and> (ir_resolved r \<noteq> None \<longrightarrow> ir_resolved r' = ir_resolved r \<and> ir_outcome r' = ir_outcome r)"

definition rows_later :: "interactions \<Rightarrow> interactions \<Rightarrow> bool" where
  "rows_later rows rows' \<longleftrightarrow> (\<forall>r \<in> set rows. is_attention r \<longrightarrow> (\<exists>r' \<in> set rows'. moved_on r r'))"

lemma moved_on_refl [simp]: "moved_on r r"
  by (simp add: moved_on_def)

lemma moved_on_trans: "moved_on a b \<Longrightarrow> moved_on b c \<Longrightarrow> moved_on a c"
  by (auto simp: moved_on_def)

lemma rows_later_refl [simp]: "rows_later rows rows"
  unfolding rows_later_def using moved_on_refl by blast

lemma rows_later_trans:
  assumes "rows_later a b" and "rows_later b c"
  shows "rows_later a c"
  unfolding rows_later_def
proof (intro ballI impI)
  fix r
  assume "r \<in> set a" "is_attention r"
  with assms(1) obtain r' where r': "r' \<in> set b" "moved_on r r'" by (auto simp: rows_later_def)
  then have "is_attention r'" using \<open>is_attention r\<close> by (simp add: moved_on_def is_attention_def)
  with r'(1) assms(2) obtain r'' where "r'' \<in> set c" "moved_on r' r''" by (auto simp: rows_later_def)
  with r'(2) show "\<exists>r'' \<in> set c. moved_on r r''" by (blast intro: moved_on_trans)
qed

lemma updated_later:
  assumes "\<And>r. r \<in> set rows \<Longrightarrow> P r \<Longrightarrow> is_attention r \<Longrightarrow> moved_on r (f r)"
  shows "rows_later rows (update_where P f rows)"
  unfolding rows_later_def
proof (intro ballI impI)
  fix r
  assume r: "r \<in> set rows" "is_attention r"
  have "(if P r then f r else r) \<in> set (update_where P f rows)" using r(1) by (auto simp: in_set_update_where)
  then show "\<exists>r' \<in> set (update_where P f rows). moved_on r r'"
    by (rule bexI [rotated]) (use assms [OF r(1)] r(2) in simp)
qed

subsection \<open>Well-formed tables\<close>

definition open_states :: "string set" where
  "open_states = {''active'', ''acknowledged'', ''delivering''}"

definition rows_ok :: "interactions \<Rightarrow> bool" where
  "rows_ok rows \<longleftrightarrow> keys_distinct row_key rows \<and> (\<forall>r \<in> set rows. ir_resolved r = None \<longrightarrow> ir_state r \<in> open_states)"

lemma open_state_open [simp]: "open_state b \<in> open_states"
  by (simp add: open_state_def open_states_def)

lemma updated_ok:
  assumes "rows_ok rows" and "\<And>r. P r \<Longrightarrow> row_key (f r) = row_key r"
    and "\<And>r. P r \<Longrightarrow> r \<in> set rows \<Longrightarrow> ir_resolved (f r) = None \<Longrightarrow> ir_state (f r) \<in> open_states"
  shows "rows_ok (update_where P f rows)"
  using assms by (auto simp: rows_ok_def keys_distinct_def map_update_where in_set_update_where)

lemma row_at_key: "row_at s q r \<longleftrightarrow> row_key r = (s, q)"
  by (auto simp: row_at_def row_key_def)

lemma same_row: "rows_ok rows \<Longrightarrow> r \<in> set rows \<Longrightarrow> r' \<in> set rows \<Longrightarrow> row_key r = row_key r' \<Longrightarrow> r = r'"
  by (auto simp: rows_ok_def intro: keys_distinct_inj)

lemma find_row_iff:
  assumes "rows_ok rows"
  shows "find_row rows s q = Some r \<longleftrightarrow> r \<in> set rows \<and> row_key r = (s, q)"
proof
  assume "find_row rows s q = Some r"
  then show "r \<in> set rows \<and> row_key r = (s, q)" by (auto simp: find_row_def find_Some_iff row_at_key)
next
  assume r: "r \<in> set rows \<and> row_key r = (s, q)"
  then obtain r' where r': "find_row rows s q = Some r'"
    by (cases "find_row rows s q") (auto simp: find_row_def find_None_iff row_at_key)
  then have "r' \<in> set rows \<and> row_key r' = (s, q)" by (auto simp: find_row_def find_Some_iff row_at_key)
  with r same_row [OF assms, of r r'] r' show "find_row rows s q = Some r" by simp
qed

text \<open>An update of one row changes at most the row it names, and reports whether it did.\<close>

lemma one_updated:
  assumes "rows_ok rows" and "r \<in> set rows" and "row_key r = (s, q)"
  shows "update_one (\<lambda>r. row_at s q r \<and> C r) f rows = (C r, update_where (\<lambda>r. row_at s q r \<and> C r) f rows)"
proof -
  have only: "r' = r" if "r' \<in> set rows" "row_at s q r'" for r'
    using same_row [OF assms(1) that(1) assms(2)] that(2) assms(3) by (simp add: row_at_key)
  have "distinct rows" using assms(1) by (auto simp: rows_ok_def keys_distinct_def distinct_map)
  then have "distinct (filter (\<lambda>r. row_at s q r \<and> C r) rows)" by simp
  moreover have "set (filter (\<lambda>r. row_at s q r \<and> C r) rows) = (if C r then {r} else {})"
  proof -
    have "r' \<in> set rows \<and> row_at s q r' \<and> C r' \<longleftrightarrow> r' = r \<and> C r" for r'
      using only assms(2,3) row_at_key by metis
    then show ?thesis by simp
  qed
  ultimately have "length (filter (\<lambda>r. row_at s q r \<and> C r) rows) = (if C r then 1 else 0)"
    by (simp add: distinct_card [symmetric])
  then show ?thesis by (simp add: update_one_def)
qed

lemma one_missing:
  assumes "\<forall>r \<in> set rows. row_key r \<noteq> (s, q)"
  shows "update_one (\<lambda>r. row_at s q r \<and> C r) f rows = (False, rows)"
proof -
  have "filter (\<lambda>r. row_at s q r \<and> C r) rows = []" using assms by (auto simp: filter_empty_conv row_at_key)
  then show ?thesis using assms by (simp add: update_one_def update_where_id row_at_key)
qed

lemma one_changed:
  assumes "rows_ok rows" and "update_one (\<lambda>r. row_at s q r \<and> C r) f rows = (True, rows')"
  obtains r where "r \<in> set rows" and "row_key r = (s, q)" and "C r"
    and "rows' = update_where (\<lambda>r. row_at s q r \<and> C r) f rows" and "f r \<in> set rows'"
proof -
  from assms(2) have "\<exists>r \<in> set rows. row_key r = (s, q)" using one_missing [of rows s q C f] by auto
  then obtain r where r: "r \<in> set rows" "row_key r = (s, q)" by blast
  from one_updated [OF assms(1) r, of C f] assms(2) have "C r" "rows' = update_where (\<lambda>r. row_at s q r \<and> C r) f rows"
    by simp_all
  moreover from this r have "f r \<in> set rows'" by (force simp: in_set_update_where row_at_key)
  ultimately show ?thesis using r that by blast
qed

subsection \<open>The operations of the store\<close>

lemma snd_update_one [simp]: "snd (update_one P f rows) = update_where P f rows"
  by (simp add: update_one_def)

lemma begin_moves:
  "rows_ok rows \<Longrightarrow> rows_ok (snd (beginDelivery rows s q k)) \<and> rows_later rows (snd (beginDelivery rows s q k))"
  unfolding beginDelivery_def snd_update_one
  by (intro conjI updated_ok updated_later) (auto simp: row_key_def moved_on_def open_states_def)

lemma retry_moves:
  "rows_ok rows \<Longrightarrow> rows_ok (snd (retryDelivery rows s q k b)) \<and> rows_later rows (snd (retryDelivery rows s q k b))"
  unfolding retryDelivery_def snd_update_one
  by (intro conjI updated_ok updated_later) (auto simp: row_key_def moved_on_def)

lemma settle_moves:
  "rows_ok rows \<Longrightarrow> rows_ok (snd (settleOperation rows s q k t out)) \<and> rows_later rows (snd (settleOperation rows s q k t out))"
  unfolding settleOperation_def snd_update_one
  by (intro conjI updated_ok updated_later) (auto simp: row_key_def moved_on_def)

lemma resolve_moves:
  "rows_ok rows \<Longrightarrow> rows_ok (snd (resolve_interaction rows s q t out)) \<and> rows_later rows (snd (resolve_interaction rows s q t out))"
  unfolding resolve_interaction_def snd_update_one
  by (intro conjI updated_ok updated_later) (auto simp: row_key_def moved_on_def)

lemma report_moves:
  "rows_ok rows \<Longrightarrow> rows_ok (retainAttentionReport ell rows s turn v) \<and> rows_later rows (retainAttentionReport ell rows s turn v)"
proof (cases "boundedAttentionReport ell v")
  case (Some report)
  assume ok: "rows_ok rows"
  then have "r \<in> set rows \<Longrightarrow> ir_resolved r = None \<Longrightarrow> ir_state r \<in> open_states" for r by (simp add: rows_ok_def)
  with ok Some show ?thesis
    by (auto simp: retainAttentionReport_def row_key_def moved_on_def intro!: updated_ok updated_later)
qed (simp add: retainAttentionReport_def)

lemma add_moves:
  assumes "rows_ok rows"
  shows "rows_ok (add_interaction rows s p b) \<and> rows_later rows (add_interaction rows s p b)"
proof (cases "find_row rows s (pi_request p)")
  case None
  then have "(s, pi_request p) \<notin> row_key ` set rows" by (auto simp: find_row_def find_None_iff row_at_key)
  with None assms show ?thesis
    by (auto simp: add_interaction_def rows_ok_def keys_distinct_append1 row_key_def rows_later_def intro: moved_on_refl)
next
  case (Some r)
  with assms show ?thesis
    by (auto simp: add_interaction_def row_key_def row_at_def is_attention_def intro!: updated_ok updated_later)
qed

lemma claim_moves:
  assumes "rows_ok rows"
  shows "rows_ok (snd (claimOperation rows s q k)) \<and> rows_later rows (snd (claimOperation rows s q k))"
proof -
  let ?u = "update_one (\<lambda>r. row_at s q r \<and> ir_key r = None \<and> ir_resolved r = None) (\<lambda>r. r\<lparr>ir_key := Some k\<rparr>) rows"
  have "r \<in> set rows \<Longrightarrow> ir_resolved r = None \<Longrightarrow> ir_state r \<in> open_states" for r using assms by (simp add: rows_ok_def)
  then have "rows_ok (snd ?u) \<and> rows_later rows (snd ?u)"
    unfolding snd_update_one using assms
    by (intro conjI updated_ok updated_later) (auto simp: row_key_def moved_on_def)
  moreover have "snd (claimOperation rows s q k) = rows \<or> snd (claimOperation rows s q k) = snd ?u"
    by (auto simp: claimOperation_def update_one_def split: option.splits)
  ultimately show ?thesis using assms by auto
qed

text \<open>Who owns a request, and how it was settled.\<close>

definition owns :: "interactions \<Rightarrow> string \<Rightarrow> string \<Rightarrow> string \<Rightarrow> bool" where
  "owns rows s q k \<longleftrightarrow> (\<exists>r \<in> set rows. is_attention r \<and> row_key r = (s, q) \<and> ir_key r = Some k)"

definition settled :: "interactions \<Rightarrow> string \<Rightarrow> string \<Rightarrow> string \<Rightarrow> string \<Rightarrow> bool" where
  "settled rows s q t out \<longleftrightarrow>
     (\<exists>r \<in> set rows. is_attention r \<and> row_key r = (s, q) \<and> ir_resolved r = Some t \<and> ir_outcome r = Some out)"

lemma rows_laterD:
  assumes "rows_later rows rows'" and "r \<in> set rows" and "is_attention r"
  obtains r' where "r' \<in> set rows'" and "moved_on r r'" and "is_attention r'"
  using assms by (fastforce simp: rows_later_def moved_on_def is_attention_def)

lemma owns_later: "rows_later rows rows' \<Longrightarrow> owns rows s q k \<Longrightarrow> owns rows' s q k"
  unfolding owns_def by (elim bexE conjE rows_laterD) (auto simp: moved_on_def)

lemma settled_later: "rows_later rows rows' \<Longrightarrow> settled rows s q t out \<Longrightarrow> settled rows' s q t out"
  unfolding settled_def by (elim bexE conjE rows_laterD) (auto simp: moved_on_def)

lemma claimed_owns:
  assumes "rows_ok rows" and "r \<in> set rows" and "row_key r = (s, q)" and "is_attention r"
    and "claimOperation rows s q k = (claim, rows')" and "claim = Claimed \<or> claim = SameClaim"
  shows "owns rows' s q k"
proof -
  have find: "find_row rows s q = Some r" using find_row_iff [OF assms(1)] assms(2,3) by simp
  let ?C = "\<lambda>r. ir_key r = None \<and> ir_resolved r = None"
  note one = one_updated [OF assms(1-3), of ?C "\<lambda>r. r\<lparr>ir_key := Some k\<rparr>"]
  from assms(6) show ?thesis
  proof
    assume claim: "claim = Claimed"
    then have C: "?C r" and rows': "rows' = update_where (\<lambda>r. row_at s q r \<and> ?C r) (\<lambda>r. r\<lparr>ir_key := Some k\<rparr>) rows"
      using assms(5) find one by (auto simp: claimOperation_def split: if_splits)
    have "r\<lparr>ir_key := Some k\<rparr> \<in> set rows'"
      unfolding rows' using assms(2,3) C by (force simp: in_set_update_where row_at_key)
    then show ?thesis unfolding owns_def
      by (rule bexI [rotated]) (use assms(3,4) in \<open>simp add: is_attention_def row_key_def\<close>)
  next
    assume claim: "claim = SameClaim"
    then have "ir_key r = Some k" "rows' = rows"
      using assms(5) find one by (auto simp: claimOperation_def split: if_splits)
    with assms(2-4) show ?thesis by (auto simp: owns_def)
  qed
qed

text \<open>A settlement that succeeds settles the row of the key, which was not resolved before.\<close>

lemma settled_now:
  assumes "rows_ok rows" and "settleOperation rows s q k t out = (True, rows')" and "owns rows s q k"
  shows "settled rows' s q t out" and "owns rows' s q k" and "\<not> settled rows s q t' out'"
    and "\<exists>r \<in> set rows'. is_attention r \<and> row_key r = (s, q) \<and> ir_key r = Some k \<and> ir_resolved r = Some t \<and> ir_outcome r = Some out"
proof -
  let ?C = "\<lambda>r. ir_key r = Some k \<and> ir_resolved r = None \<and> ir_state r = ''delivering''"
  let ?f = "\<lambda>r. r\<lparr>ir_resolved := Some t, ir_outcome := Some out, ir_state := (if out = ''failed'' then ''failed'' else ''resolved'')\<rparr>"
  from assms(2) have "update_one (\<lambda>r. row_at s q r \<and> ?C r) ?f rows = (True, rows')" by (simp add: settleOperation_def)
  from one_changed [OF assms(1) this] obtain r where r: "r \<in> set rows" "row_key r = (s, q)" "?C r" "?f r \<in> set rows'" by blast
  from assms(3) obtain r0 where "r0 \<in> set rows" "row_key r0 = (s, q)" "is_attention r0" by (auto simp: owns_def)
  with same_row [OF assms(1) r(1), of r0] r(2) have att: "is_attention r" by simp
  have att': "is_attention (?f r)" using att by (simp add: is_attention_def)
  have key': "row_key (?f r) = (s, q)" using r(2) by (simp add: row_key_def)
  show "settled rows' s q t out" "owns rows' s q k"
    "\<exists>r \<in> set rows'. is_attention r \<and> row_key r = (s, q) \<and> ir_key r = Some k \<and> ir_resolved r = Some t \<and> ir_outcome r = Some out"
    unfolding settled_def owns_def using r(3,4) att' key' by (intro bexI [of _ "?f r"]; simp)+
  show "\<not> settled rows s q t' out'"
    using same_row [OF assms(1) r(1)] r(2,3) by (fastforce simp: settled_def)
qed

subsection \<open>The relay\<close>

definition publishes_for :: "string \<Rightarrow> string \<Rightarrow> attention_effect \<Rightarrow> bool" where
  "publishes_for s q e \<longleftrightarrow> (case e of Published s' q' _ _ \<Rightarrow> s' = s \<and> q' = q | _ \<Rightarrow> False)"

text \<open>What the table holds of an effect.\<close>

definition recorded :: "interactions \<Rightarrow> attention_effect \<Rightarrow> bool" where
  "recorded rows e \<longleftrightarrow>
     (case e of
        SentResponse s q k _ \<Rightarrow> owns rows s q k
      | SentGuidance s q k _ \<Rightarrow> owns rows s q k
      | Published s q t out \<Rightarrow> settled rows s q t out
      | _ \<Rightarrow> True)"

definition result_backed :: "interactions \<Rightarrow> stored_result \<Rightarrow> bool" where
  "result_backed rows x \<longleftrightarrow>
     (\<exists>r \<in> set rows. is_attention r \<and> attention_scope (ir_session r) (ir_request r) = sr_scope x
        \<and> ir_key r = Some (sr_key x) \<and> ir_resolved r = Some (sr_body x) \<and> ir_outcome r = Some ''answered'')"

definition run_owned :: "interactions \<Rightarrow> waiting_run \<Rightarrow> bool" where
  "run_owned rows w \<longleftrightarrow> owns rows (ri_session (wr_input w)) (ri_request (wr_input w)) (ri_key (wr_input w))"

definition relay_ok :: "attention_relay \<Rightarrow> bool" where
  "relay_ok s \<longleftrightarrow> rows_ok (al_rows s) \<and> list_all (recorded (al_rows s)) (al_log s)
     \<and> list_all (result_backed (al_rows s)) (al_results s) \<and> list_all (run_owned (al_rows s)) (al_flight s)
     \<and> (\<forall>x q. length (filter (publishes_for x q) (al_log s)) \<le> 1)"

lemma recorded_later: "rows_later rows rows' \<Longrightarrow> recorded rows e \<Longrightarrow> recorded rows' e"
  by (cases e) (simp_all add: recorded_def owns_later settled_later)

lemma result_backed_later:
  assumes "rows_later rows rows'" and "result_backed rows x"
  shows "result_backed rows' x"
proof -
  from assms(2) obtain r where r: "r \<in> set rows" "is_attention r" "attention_scope (ir_session r) (ir_request r) = sr_scope x"
    "ir_key r = Some (sr_key x)" "ir_resolved r = Some (sr_body x)" "ir_outcome r = Some ''answered''"
    by (auto simp: result_backed_def)
  from rows_laterD [OF assms(1) r(1,2)] obtain r' where "r' \<in> set rows'" "moved_on r r'" "is_attention r'" .
  with r(3-6) show ?thesis by (auto simp: result_backed_def moved_on_def row_key_def)
qed

lemma relay_okD:
  assumes "relay_ok s"
  shows "rows_ok (al_rows s)" and "e \<in> set (al_log s) \<Longrightarrow> recorded (al_rows s) e"
    and "x \<in> set (al_results s) \<Longrightarrow> result_backed (al_rows s) x" and "w \<in> set (al_flight s) \<Longrightarrow> run_owned (al_rows s) w"
    and "length (filter (publishes_for y q) (al_log s)) \<le> 1"
  using assms by (simp_all add: relay_ok_def list_all_iff)

text \<open>Four changes that keep the invariant: the rows, the results, the runs in flight, the log.\<close>

lemma rows_keep:
  assumes "relay_ok s" and "rows_ok rows \<and> rows_later (al_rows s) rows"
  shows "relay_ok (s\<lparr>al_rows := rows\<rparr>)"
  using assms by (auto simp: relay_ok_def list_all_iff run_owned_def recorded_later result_backed_later owns_later)

lemma flight_keeps:
  "relay_ok s \<Longrightarrow> (\<And>w. w \<in> set ws \<Longrightarrow> run_owned (al_rows s) w) \<Longrightarrow> relay_ok (s\<lparr>al_flight := ws\<rparr>)"
  by (simp add: relay_ok_def list_all_iff)

lemma result_keeps:
  "relay_ok s \<Longrightarrow> result_backed (al_rows s) \<lparr> sr_scope = x, sr_key = k, sr_status = st, sr_body = b \<rparr> \<Longrightarrow>
     relay_ok (s\<lparr>al_results := put_result (al_results s) x k st b\<rparr>)"
  by (auto simp: relay_ok_def list_all_iff put_result_def)

lemma log_keeps:
  assumes "relay_ok s" and "recorded (al_rows s) e" and "\<And>y q. publishes_for y q e \<Longrightarrow> filter (publishes_for y q) (al_log s) = []"
  shows "relay_ok (log_effect s e)"
  using assms by (auto simp: relay_ok_def log_effect_def)

lemma log_rows [simp]: "al_rows (log_effect s e) = al_rows s" "al_flight (log_effect s e) = al_flight s"
  "al_results (log_effect s e) = al_results s" "al_log (log_effect s e) = al_log s @ [e]"
  by (simp_all add: log_effect_def)

lemma unpublished:
  assumes "relay_ok s" and "\<And>t out. \<not> settled (al_rows s) y q t out"
  shows "filter (publishes_for y q) (al_log s) = []"
proof -
  have "\<not> publishes_for y q e" if "e \<in> set (al_log s)" for e
    using relay_okD(2) [OF assms(1) that] assms(2) by (cases e) (auto simp: recorded_def publishes_for_def)
  then show ?thesis by (simp add: filter_empty_conv)
qed

text \<open>Settling and publishing together.\<close>

lemma settle_keeps:
  assumes "relay_ok s" and "settleOperation (al_rows s) y q k t out = (True, rows)" and "owns (al_rows s) y q k"
    and "s' = s\<lparr>al_rows := rows\<rparr> \<or> (out = ''answered'' \<and> s' = s\<lparr>al_rows := rows, al_results := put_result (al_results s) (attention_scope y q) k 202 t\<rparr>)"
  shows "relay_ok (log_effect s' (Published y q t out))"
proof -
  note now = settled_now [OF relay_okD(1) [OF assms(1)] assms(2,3)]
  have rows: "rows_ok rows \<and> rows_later (al_rows s) rows"
    using settle_moves [OF relay_okD(1) [OF assms(1)], of y q k t out] assms(2) by simp
  have kept: "relay_ok (s\<lparr>al_rows := rows\<rparr>)" by (rule rows_keep [OF assms(1) rows])
  have "relay_ok s' \<and> al_rows s' = rows \<and> al_log s' = al_log s"
    using assms(4)
  proof
    assume s': "out = ''answered'' \<and> s' = s\<lparr>al_rows := rows, al_results := put_result (al_results s) (attention_scope y q) k 202 t\<rparr>"
    have "relay_ok ((s\<lparr>al_rows := rows\<rparr>)\<lparr>al_results := put_result (al_results (s\<lparr>al_rows := rows\<rparr>)) (attention_scope y q) k 202 t\<rparr>)"
      by (rule result_keeps [OF kept]) (use now(4) s' in \<open>auto simp: result_backed_def row_key_def\<close>)
    then show ?thesis using s' by simp
  qed (use kept in simp)
  moreover have "filter (publishes_for y q) (al_log s) = []" by (rule unpublished [OF assms(1)]) (rule now(3))
  ultimately show ?thesis
    by (intro log_keeps) (auto simp: recorded_def now(1) publishes_for_def)
qed

subsection \<open>Runs\<close>

abbreviation input_owned :: "attention_relay \<Rightarrow> resolve_input \<Rightarrow> bool" where
  "input_owned s i \<equiv> owns (al_rows s) (ri_session i) (ri_request i) (ri_key i)"

lemma settleAnswered_ok:
  assumes "relay_ok s" and "input_owned s i"
  shows "relay_ok (snd (settleAnswered s i action t))" and "rows_later (al_rows s) (al_rows (snd (settleAnswered s i action t)))"
proof -
  obtain changed rows where settle: "settleOperation (al_rows s) (ri_session i) (ri_request i) (ri_key i) t ''answered'' = (changed, rows)"
    by (cases "settleOperation (al_rows s) (ri_session i) (ri_request i) (ri_key i) t ''answered''")
  have rows: "rows_ok rows \<and> rows_later (al_rows s) rows"
    using settle_moves [OF relay_okD(1) [OF assms(1)], of "ri_session i" "ri_request i" "ri_key i" t "''answered''"] settle by simp
  show "rows_later (al_rows s) (al_rows (snd (settleAnswered s i action t)))"
    using rows settle by (cases changed) (simp_all add: settleAnswered_def)
  show "relay_ok (snd (settleAnswered s i action t))"
  proof (cases changed)
    case True
    let ?s = "s\<lparr>al_rows := rows, al_results := put_result (al_results s) (attention_scope (ri_session i) (ri_request i)) (ri_key i) 202 t\<rparr>"
    have "relay_ok (log_effect ?s (Published (ri_session i) (ri_request i) t ''answered''))"
      by (rule settle_keeps [OF assms(1) _ assms(2)]) (use settle True in auto)
    then have "relay_ok (log_effect (log_effect ?s (Published (ri_session i) (ri_request i) t ''answered''))
        (if action = DisableAction then DisabledAutopilot (ri_session i) else EnabledAutopilot (ri_session i)))"
      by (rule log_keeps; cases action; simp add: recorded_def publishes_for_def)
    then show ?thesis using settle True by (simp add: settleAnswered_def)
  next
    case False
    with settle rows rows_keep [OF assms(1)] show ?thesis by (simp add: settleAnswered_def)
  qed
qed

lemma give_up_ok:
  assumes "relay_ok s"
  shows "relay_ok (give_up s i b)" and "rows_later (al_rows s) (al_rows (give_up s i b))"
  using retry_moves [OF relay_okD(1) [OF assms]] rows_keep [OF assms] by (simp_all add: give_up_def)

lemma ask_ok:
  assumes "relay_ok s"
  shows "relay_ok (snd (ask_replacement p s i d a))" and "al_rows (snd (ask_replacement p s i d a)) = al_rows s"
    and "al_flight (snd (ask_replacement p s i d a)) = al_flight s" and "al_results (snd (ask_replacement p s i d a)) = al_results s"
  using assms by (auto simp: ask_replacement_def recorded_def publishes_for_def split: attention_action.splits option.splits intro!: log_keeps)

definition moves :: "attention_relay \<Rightarrow> attention_relay \<Rightarrow> bool" where
  "moves s s' \<longleftrightarrow> relay_ok s' \<and> rows_later (al_rows s) (al_rows s')"

lemma moves_trans: "moves a b \<Longrightarrow> moves b c \<Longrightarrow> moves a c"
  by (auto simp: moves_def intro: rows_later_trans)

lemma moves_refl: "relay_ok s \<Longrightarrow> moves s s"
  by (simp add: moves_def)

lemma moves_owned: "moves s s' \<Longrightarrow> input_owned s i \<Longrightarrow> input_owned s' i"
  by (auto simp: moves_def intro: owns_later)

lemma moves_ok: "moves s s' \<Longrightarrow> relay_ok s'"
  by (simp add: moves_def)

lemma moves_rows: "relay_ok s \<Longrightarrow> rows_ok rows \<and> rows_later (al_rows s) rows \<Longrightarrow> moves s (s\<lparr>al_rows := rows\<rparr>)"
  by (simp add: moves_def rows_keep)

lemma moves_settle: "relay_ok s \<Longrightarrow> input_owned s i \<Longrightarrow> moves s (snd (settleAnswered s i action t))"
  by (simp add: moves_def settleAnswered_ok)

lemma moves_give_up: "relay_ok s \<Longrightarrow> moves s (give_up s i b)"
  by (simp add: moves_def give_up_ok)

lemma moves_ask: "relay_ok s \<Longrightarrow> moves s (snd (ask_replacement p s i d a))"
  by (simp add: moves_def ask_ok)

lemma moves_log:
  "relay_ok s \<Longrightarrow> recorded (al_rows s) e \<Longrightarrow> (\<And>y q. \<not> publishes_for y q e) \<Longrightarrow> moves s (log_effect s e)"
  unfolding moves_def by (intro conjI log_keeps) simp_all

lemma moves_begin:
  "relay_ok s \<Longrightarrow> beginDelivery (al_rows s) y q k = (b, rows) \<Longrightarrow> moves s (s\<lparr>al_rows := rows\<rparr>)"
  using begin_moves [OF relay_okD(1), of s y q k] moves_rows by auto

lemma acknowledged_moves:
  assumes "relay_ok s" and "input_owned s i"
  shows "moves s (snd (deliver_acknowledged p s i d a))"
proof -
  obtain b rows where start: "beginDelivery (al_rows s) (ri_session i) (ri_request i) (ri_key i) = (b, rows)"
    by (cases "beginDelivery (al_rows s) (ri_session i) (ri_request i) (ri_key i)")
  note m0 = moves_begin [OF assms(1) start]
  obtain asked s1 where ask: "ask_replacement p (s\<lparr>al_rows := rows\<rparr>) i d a = (asked, s1)"
    by (cases "ask_replacement p (s\<lparr>al_rows := rows\<rparr>) i d a")
  have m1: "moves s s1"
    using moves_trans [OF m0 moves_ask [OF moves_ok [OF m0], of p i d a]] ask by simp
  note ok1 = moves_ok [OF m1] and own1 = moves_owned [OF m1 assms(2)]
  let ?e = "SentGuidance (ri_session i) (ri_request i) (ri_key i) (guidance_text (the (ar_guidance d)))"
  let ?w = "\<lparr> wr_key = flight_key i, wr_input = i, wr_action = ar_action d \<rparr>"
  have sent: "moves s1 (log_effect s1 ?e)"
    using own1 by (intro moves_log [OF ok1]) (simp_all add: recorded_def publishes_for_def)
  have "relay_ok ((log_effect s1 ?e)\<lparr>al_flight := al_flight s1 @ [?w]\<rparr>)"
    by (rule flight_keeps [OF moves_ok [OF sent]]) (use own1 relay_okD(4) [OF ok1] in \<open>auto simp: run_owned_def\<close>)
  then have wait: "moves s1 ((log_effect s1 ?e)\<lparr>al_flight := al_flight s1 @ [?w]\<rparr>)" by (simp add: moves_def)
  have "moves s1 (give_up s1 i True)" "moves s1 (snd (settleAnswered s1 i (ar_action d) (pa_now p)))"
    by (rule moves_give_up [OF ok1], rule moves_settle [OF ok1 own1])
  with wait m0 m1 show ?thesis
    unfolding deliver_acknowledged_def start
    by (cases b; cases asked) (auto simp: ask split: prod.splits intro: moves_trans)
qed

lemma held_moves:
  assumes "relay_ok s" and "input_owned s i"
  shows "moves s (snd (deliver_held p s i d a))"
proof -
  obtain b rows where start: "beginDelivery (al_rows s) (ri_session i) (ri_request i) (ri_key i) = (b, rows)"
    by (cases "beginDelivery (al_rows s) (ri_session i) (ri_request i) (ri_key i)")
  note m0 = moves_begin [OF assms(1) start]
  obtain asked s1 where ask: "ask_replacement p (s\<lparr>al_rows := rows\<rparr>) i d a = (asked, s1)"
    by (cases "ask_replacement p (s\<lparr>al_rows := rows\<rparr>) i d a")
  have m1: "moves s s1"
    using moves_trans [OF m0 moves_ask [OF moves_ok [OF m0], of p i d a]] ask by simp
  note ok1 = moves_ok [OF m1] and own1 = moves_owned [OF m1 assms(2)]
  obtain changed rows' where settle: "settleOperation (al_rows s1) (ri_session i) (ri_request i) (ri_key i) (pa_now p) ''failed'' = (changed, rows')"
    by (cases "settleOperation (al_rows s1) (ri_session i) (ri_request i) (ri_key i) (pa_now p) ''failed''")
  have failed: "rows_ok rows' \<and> rows_later (al_rows s1) rows'"
    using settle_moves [OF relay_okD(1) [OF ok1], of "ri_session i" "ri_request i" "ri_key i" "pa_now p" "''failed''"] settle by simp
  have cleared: "moves s1 (log_effect (s1\<lparr>al_rows := rows'\<rparr>) (Published (ri_session i) (ri_request i) (pa_now p) ''failed''))" if changed
    using settle_keeps [OF ok1 _ own1] settle that failed by (auto simp: moves_def)
  let ?e = "SentResponse (ri_session i) (ri_request i) (ri_key i) (ri_response i)"
  have sent: "moves s1 (log_effect s1 ?e)"
    using own1 by (intro moves_log [OF ok1]) (simp_all add: recorded_def publishes_for_def)
  note ok2 = moves_ok [OF sent] and own2 = moves_owned [OF sent own1]
  have rest: "moves s1 (give_up s1 i False)" "moves s1 (s1\<lparr>al_rows := rows'\<rparr>)"
    "moves (log_effect s1 ?e) (give_up (log_effect s1 ?e) i False)"
    "moves (log_effect s1 ?e) (snd (settleAnswered (log_effect s1 ?e) i (ar_action d) (pa_now p)))"
    by (rule moves_give_up [OF ok1], rule moves_rows [OF ok1 failed], rule moves_give_up [OF ok2], rule moves_settle [OF ok2 own2])
  have after: "moves s (snd (case pa_state p of
      WriterGone \<Rightarrow> (WriterUnavailable, give_up s1 i False)
    | WriterCleared \<Rightarrow>
        (case (changed, rows') of
           (False, rows) \<Rightarrow> (StaleOperation, s1\<lparr>al_rows := rows\<rparr>)
         | (True, rows) \<Rightarrow>
             (ClearedWriter (pa_now p),
              log_effect (s1\<lparr>al_rows := rows\<rparr>) (Published (ri_session i) (ri_request i) (pa_now p) ''failed'')))
    | WriterReady \<Rightarrow>
        let s2 = log_effect s1 ?e in
        if \<not> pa_resolve p then (WriterUnavailable, give_up s2 i False)
        else settleAnswered s2 i (ar_action d) (pa_now p)))"
    using rest cleared moves_trans [OF m1] moves_trans [OF sent]
    by (cases "pa_state p"; cases changed) (auto simp: Let_def)
  show ?thesis
    unfolding deliver_held_def start
    using after rest(1) m0 moves_trans [OF m1] moves_refl [OF assms(1)] settle
    by (cases b; cases asked; cases "pa_state p"; cases changed) (auto simp: ask)
qed

lemma found_row:
  assumes "rows_ok rows" and "find_interaction rows s q = Some p"
  obtains r where "r \<in> set rows" and "row_key r = (s, q)" and "ir_kind r = pi_kind p" and "ir_resolved r = None"
    and "ir_payload r = pi_payload p"
proof -
  from assms(2) have "p \<in> set (list_interactions rows s)" "pi_request p = q"
    by (auto simp: find_interaction_def find_Some_iff)
  then obtain r where "r \<in> set rows" "ir_session r = s" "ir_resolved r = None" "ir_request r = q" "pi_kind p = ir_kind r"
    "pi_payload p = ir_payload r"
    by (auto simp: list_interactions_def)
  then show ?thesis by (intro that) (simp_all add: row_key_def)
qed

lemma snd_wrap [simp]: "snd (case x of (r, s) \<Rightarrow> (f r, s)) = snd x"
  by (cases x) simp

lemma deliver_moves:
  assumes "relay_ok s"
  shows "moves s (snd (deliver p s i))"
proof (cases "find_interaction (al_rows s) (ri_session i) (ri_request i)")
  case None
  with assms show ?thesis by (simp add: deliver_def moves_refl)
next
  case (Some n)
  from found_row [OF relay_okD(1) [OF assms] Some] obtain r where
    r: "r \<in> set (al_rows s)" "row_key r = (ri_session i, ri_request i)" "ir_kind r = pi_kind n" by blast
  obtain claim rows where claim: "claimOperation (al_rows s) (ri_session i) (ri_request i) (ri_key i) = (claim, rows)"
    by (cases "claimOperation (al_rows s) (ri_session i) (ri_request i) (ri_key i)")
  have m: "moves s (s\<lparr>al_rows := rows\<rparr>)"
    using moves_rows [OF assms] claim_moves [OF relay_okD(1) [OF assms], of "ri_session i" "ri_request i" "ri_key i"] claim by simp
  have own: "input_owned (s\<lparr>al_rows := rows\<rparr>) i" if "claim = Claimed \<or> claim = SameClaim" "pi_kind n = ''orgPlanAttention''"
    using claimed_owns [OF relay_okD(1) [OF assms] r(1,2) _ claim that(1)] that(2) r(3) by (simp add: is_attention_def)
  have "moves s (snd (deliver_acknowledged p (s\<lparr>al_rows := rows\<rparr>) i d a))"
    "moves s (snd (deliver_held p (s\<lparr>al_rows := rows\<rparr>) i d a))"
    if "claim = Claimed \<or> claim = SameClaim" "pi_kind n = ''orgPlanAttention''" for d a
    using own [OF that] acknowledged_moves [OF moves_ok [OF m]] held_moves [OF moves_ok [OF m]] moves_trans [OF m] by blast+
  then show ?thesis
    using m moves_refl [OF assms]
    by (cases claim) (auto simp: deliver_def Some claim Let_def split: option.splits)
qed

lemma resolve_attention_moves: "relay_ok s \<Longrightarrow> moves s (snd (resolve_attention p s i))"
  by (auto simp: resolve_attention_def deliver_moves moves_refl split: option.splits prod.splits)

lemma guidance_moves:
  assumes "relay_ok s" and "guidance_answered s key sent t = Some (r, s')"
  shows "moves s s'"
proof -
  from assms(2) obtain w where w: "List.find (\<lambda>w. wr_key w = key) (al_flight s) = Some w"
    by (auto simp: guidance_answered_def split: option.splits)
  let ?s = "s\<lparr>al_flight := filter (\<lambda>w. wr_key w \<noteq> key) (al_flight s)\<rparr>"
  have "relay_ok ?s" by (rule flight_keeps [OF assms(1)]) (use relay_okD(4) [OF assms(1)] in auto)
  moreover have "w \<in> set (al_flight s)" using w by (auto simp: find_Some_iff)
  then have "input_owned ?s (wr_input w)" using relay_okD(4) [OF assms(1)] by (simp add: run_owned_def)
  ultimately have "moves ?s (snd (settleAnswered ?s (wr_input w) (wr_action w) t))" "moves ?s (give_up ?s (wr_input w) True)"
    by (simp_all add: moves_settle moves_give_up)
  then show ?thesis
    using assms(2) w by (auto simp: guidance_answered_def Let_def moves_def split: if_splits)
qed

subsection \<open>Every sequence of steps\<close>

text \<open>
  A run may be answered, answered after its guidance, or die with the relay. A run that dies in the
  middle has made some of its calls to the store: these are steps of their own, by any key.
\<close>

datatype attention_step =
    AnswerRequest port_answers resolve_input
  | GuidanceAnswered string bool string
  | RelayDies
  | AddInteraction string pending_interaction bool
  | ResolveOtherwise string string string string
  | KeepReport string string jv
  | BareClaim string string string
  | BareBegin string string string
  | BareRetry string string string bool
  | BareSettle string string string string string

fun attention_step_of :: "string \<Rightarrow> attention_relay \<Rightarrow> attention_step \<Rightarrow> attention_relay" where
  "attention_step_of ell s (AnswerRequest p i) = snd (resolve_attention p s i)"
| "attention_step_of ell s (GuidanceAnswered key sent t) =
     (case guidance_answered s key sent t of None \<Rightarrow> s | Some (_, s') \<Rightarrow> s')"
| "attention_step_of ell s RelayDies = s\<lparr>al_flight := []\<rparr>"
| "attention_step_of ell s (AddInteraction y p b) = s\<lparr>al_rows := add_interaction (al_rows s) y p b\<rparr>"
| "attention_step_of ell s (ResolveOtherwise y q t out) = s\<lparr>al_rows := snd (resolve_interaction (al_rows s) y q t out)\<rparr>"
| "attention_step_of ell s (KeepReport y turn v) = s\<lparr>al_rows := retainAttentionReport ell (al_rows s) y turn v\<rparr>"
| "attention_step_of ell s (BareClaim y q k) = s\<lparr>al_rows := snd (claimOperation (al_rows s) y q k)\<rparr>"
| "attention_step_of ell s (BareBegin y q k) = s\<lparr>al_rows := snd (beginDelivery (al_rows s) y q k)\<rparr>"
| "attention_step_of ell s (BareRetry y q k b) = s\<lparr>al_rows := snd (retryDelivery (al_rows s) y q k b)\<rparr>"
| "attention_step_of ell s (BareSettle y q k t out) = s\<lparr>al_rows := snd (settleOperation (al_rows s) y q k t out)\<rparr>"

abbreviation attention_run where
  "attention_run ell \<equiv> run_steps (attention_step_of ell)"

definition empty_relay :: attention_relay where
  "empty_relay = \<lparr> al_rows = [], al_results = [], al_flight = [], al_log = [] \<rparr>"

lemma empty_relay_ok: "relay_ok empty_relay"
  by (simp add: empty_relay_def relay_ok_def rows_ok_def)

lemma step_moves:
  assumes "relay_ok s"
  shows "moves s (attention_step_of ell s step)"
proof (cases step)
  case (AnswerRequest p i)
  with resolve_attention_moves [OF assms] show ?thesis by simp
next
  case (GuidanceAnswered key sent t)
  with guidance_moves [OF assms] moves_refl [OF assms] show ?thesis by (auto split: option.splits)
next
  case RelayDies
  have "relay_ok (s\<lparr>al_flight := []\<rparr>)" by (rule flight_keeps [OF assms]) simp
  with RelayDies show ?thesis by (simp add: moves_def)
qed (use relay_okD(1) [OF assms] in \<open>simp_all add: moves_rows [OF assms] add_moves resolve_moves report_moves claim_moves
      begin_moves retry_moves settle_moves del: snd_update_one\<close>)

interpretation attending: stepper "attention_step_of ell" relay_ok for ell
  by unfold_locales (rule moves_ok [OF step_moves])

interpretation owning: trapping_stepper "attention_step_of ell" relay_ok "\<lambda>s. relay_ok s \<and> owns (al_rows s) y q k" "\<lambda>_. False"
  for ell y q k
  by unfold_locales (use step_moves in \<open>auto simp: moves_def intro: owns_later\<close>)

interpretation settling: trapping_stepper "attention_step_of ell" relay_ok "\<lambda>s. relay_ok s \<and> settled (al_rows s) y q t out" "\<lambda>_. False"
  for ell y q t out
  by unfold_locales (use step_moves in \<open>auto simp: moves_def intro: settled_later\<close>)

text \<open>
  C14: a request is settled and published once. Whatever is answered, retried, added or resolved, and
  however often the relay dies, for every request at most one settlement is published; the table holds
  it with the same time and outcome; and every response and every guidance that was sent went out under
  the one key that owns the request.
\<close>
theorem attention_is_settled_once:
  "length (filter (publishes_for y q) (al_log (attention_run ell empty_relay steps))) \<le> 1
   \<and> list_all (recorded (al_rows (attention_run ell empty_relay steps))) (al_log (attention_run ell empty_relay steps))"
  using attending.run_inv [OF empty_relay_ok, of ell steps] by (simp add: relay_ok_def)

text \<open>
  C15: the first key keeps the request. Once a key has claimed a request for attention it owns it through
  everything that follows; any other key is stale, can neither begin a delivery nor settle, and a
  settlement that was made is never changed.
\<close>
theorem first_key_keeps_the_request:
  assumes "s = attention_run ell empty_relay before" and "owns (al_rows s) y q k"
    and "rows = al_rows (attention_run ell s steps)" and "k' \<noteq> k"
  shows "owns rows y q k
    \<and> claimOperation rows y q k' = (StaleClaim, rows) \<and> beginDelivery rows y q k' = (False, rows)
    \<and> settleOperation rows y q k' t out = (False, rows)
    \<and> (settled (al_rows s) y q t' out' \<longrightarrow> settled rows y q t' out')"
proof -
  have ok: "relay_ok s" unfolding assms(1) by (rule attending.run_inv [OF empty_relay_ok])
  then have ok': "rows_ok rows" unfolding assms(3) using attending.run_inv relay_okD(1) by blast
  have own: "owns rows y q k"
    using owning.trapped_run [of s y q k steps ell] ok assms(2,3) by simp
  have kept: "settled (al_rows s) y q t' out' \<Longrightarrow> settled rows y q t' out'"
    using settling.trapped_run [of s y q t' out' steps ell] ok assms(3) by simp
  from own obtain r where r: "r \<in> set rows" "row_key r = (y, q)" and key: "ir_key r = Some k" by (auto simp: owns_def)
  have same: "update_where (\<lambda>r. row_at y q r \<and> C r) f rows = rows" if "\<not> C r" for C f
    using that same_row [OF ok' r(1)] r(2) by (intro update_where_id) (auto simp: row_at_key)
  have "find_row rows y q = Some r" using find_row_iff [OF ok'] r by simp
  then have "claimOperation rows y q k' = (StaleClaim, rows)"
    using one_updated [OF ok' r, of "\<lambda>r. ir_key r = None \<and> ir_resolved r = None"] key assms(4)
      same [of "\<lambda>r. ir_key r = None \<and> ir_resolved r = None"]
    by (simp add: claimOperation_def)
  moreover have "beginDelivery rows y q k' = (False, rows)" "settleOperation rows y q k' t out = (False, rows)"
    using key assms(4) unfolding beginDelivery_def settleOperation_def one_updated [OF ok' r] by (simp_all add: same)
  ultimately show ?thesis using own kept by blast
qed

subsection \<open>Answers\<close>

definition is_final :: "attention_effect \<Rightarrow> bool" where
  "is_final e \<longleftrightarrow>
     (case e of Published _ _ _ _ \<Rightarrow> True | EnabledAutopilot _ \<Rightarrow> True | DisabledAutopilot _ \<Rightarrow> True | _ \<Rightarrow> False)"

definition finals :: "attention_relay \<Rightarrow> attention_effect list" where
  "finals s = filter is_final (al_log s)"

definition settled_by :: "interactions \<Rightarrow> resolve_input \<Rightarrow> string \<Rightarrow> string \<Rightarrow> bool" where
  "settled_by rows i t out \<longleftrightarrow>
     (\<exists>r \<in> set rows. row_key r = (ri_session i, ri_request i) \<and> ir_key r = Some (ri_key i)
        \<and> ir_resolved r = Some t \<and> ir_outcome r = Some out)"

definition policy_effect :: "resolve_input \<Rightarrow> attention_action \<Rightarrow> attention_effect" where
  "policy_effect i action =
     (if action = DisableAction then DisabledAutopilot (ri_session i) else EnabledAutopilot (ri_session i))"

text \<open>An answer, against what the run left behind.\<close>

definition truthful :: "attention_relay \<Rightarrow> resolve_input \<Rightarrow> attention_action \<Rightarrow> resolution \<Rightarrow> attention_relay \<Rightarrow> bool" where
  "truthful s i action a s' \<longleftrightarrow>
     (case a of
        Accepted t \<Rightarrow> settled_by (al_rows s') i t ''answered''
          \<and> finals s' = finals s @ [Published (ri_session i) (ri_request i) t ''answered'', policy_effect i action]
      | ClearedWriter t \<Rightarrow> settled_by (al_rows s') i t ''failed''
          \<and> (finals s' = finals s \<or> finals s' = finals s @ [Published (ri_session i) (ri_request i) t ''failed''])
      | Replayed t \<Rightarrow> s' = s
          \<and> (\<exists>r \<in> set (al_rows s). attention_scope (ir_session r) (ir_request r) = attention_scope (ri_session i) (ri_request i)
               \<and> ir_key r = Some (ri_key i) \<and> ir_resolved r = Some t \<and> ir_outcome r \<noteq> Some ''failed'')
      | _ \<Rightarrow> finals s' = finals s \<and> al_results s' = al_results s)"

lemma finals_simps [simp]:
  "finals (s\<lparr>al_rows := rows\<rparr>) = finals s" "finals (s\<lparr>al_flight := ws\<rparr>) = finals s" "finals (s\<lparr>al_results := rs\<rparr>) = finals s"
  "finals (log_effect s e) = finals s @ (if is_final e then [e] else [])"
  "finals (give_up s i b) = finals s" "al_results (give_up s i b) = al_results s"
  by (simp_all add: finals_def give_up_def)

lemma ask_finals [simp]: "finals (snd (ask_replacement p s i d a)) = finals s"
  by (simp add: ask_replacement_def is_final_def split: attention_action.splits option.splits)

lemma truthful_from:
  "truthful s1 i action a s' \<Longrightarrow> finals s1 = finals s \<Longrightarrow> al_results s1 = al_results s \<Longrightarrow> (\<And>t. a \<noteq> Replayed t) \<Longrightarrow> truthful s i action a s'"
  by (cases a) (simp_all add: truthful_def, blast)

lemma settleAnswered_truthful:
  assumes "relay_ok s" and "input_owned s i"
  shows "truthful s i action (fst (settleAnswered s i action t)) (snd (settleAnswered s i action t))"
    and "fst (settleAnswered s i action t) \<noteq> Replayed t'"
proof -
  obtain changed rows where settle: "settleOperation (al_rows s) (ri_session i) (ri_request i) (ri_key i) t ''answered'' = (changed, rows)"
    by (cases "settleOperation (al_rows s) (ri_session i) (ri_request i) (ri_key i) t ''answered''")
  have "settled_by rows i t ''answered''" if changed
    using settled_now(4) [OF relay_okD(1) [OF assms(1)] _ assms(2)] settle that by (fastforce simp: settled_by_def)
  then show "truthful s i action (fst (settleAnswered s i action t)) (snd (settleAnswered s i action t))"
    using settle by (cases changed) (auto simp: settleAnswered_def truthful_def policy_effect_def is_final_def)
  show "fst (settleAnswered s i action t) \<noteq> Replayed t'"
    using settle by (cases changed) (simp_all add: settleAnswered_def)
qed

lemma held_truthful:
  assumes "relay_ok s" and "input_owned s i"
  shows "truthful s i (ar_action d) (fst (deliver_held p s i d a)) (snd (deliver_held p s i d a))"
    and "fst (deliver_held p s i d a) \<noteq> Replayed t'"
proof -
  obtain b rows where start: "beginDelivery (al_rows s) (ri_session i) (ri_request i) (ri_key i) = (b, rows)"
    by (cases "beginDelivery (al_rows s) (ri_session i) (ri_request i) (ri_key i)")
  note m0 = moves_begin [OF assms(1) start]
  obtain asked s1 where ask: "ask_replacement p (s\<lparr>al_rows := rows\<rparr>) i d a = (asked, s1)"
    by (cases "ask_replacement p (s\<lparr>al_rows := rows\<rparr>) i d a")
  have m1: "moves s s1"
    using moves_trans [OF m0 moves_ask [OF moves_ok [OF m0], of p i d a]] ask by simp
  note ok1 = moves_ok [OF m1] and own1 = moves_owned [OF m1 assms(2)]
  have f1: "finals s1 = finals s" "al_results s1 = al_results s"
    using ask_finals [of p "s\<lparr>al_rows := rows\<rparr>" i d a] ask_ok(4) [OF moves_ok [OF m0], of p i d a] ask by simp_all
  obtain changed rows' where settle: "settleOperation (al_rows s1) (ri_session i) (ri_request i) (ri_key i) (pa_now p) ''failed'' = (changed, rows')"
    by (cases "settleOperation (al_rows s1) (ri_session i) (ri_request i) (ri_key i) (pa_now p) ''failed''")
  have failed: "settled_by rows' i (pa_now p) ''failed''" if changed
    using settled_now(4) [OF relay_okD(1) [OF ok1] _ own1] settle that by (fastforce simp: settled_by_def)
  let ?e = "SentResponse (ri_session i) (ri_request i) (ri_key i) (ri_response i)"
  have sent: "moves s1 (log_effect s1 ?e)"
    using own1 by (intro moves_log [OF ok1]) (simp_all add: recorded_def publishes_for_def)
  note answered = settleAnswered_truthful [OF moves_ok [OF sent] moves_owned [OF sent own1], where action = "ar_action d" and t = "pa_now p"]
  have "truthful s i (ar_action d) (fst (settleAnswered (log_effect s1 ?e) i (ar_action d) (pa_now p)))
      (snd (settleAnswered (log_effect s1 ?e) i (ar_action d) (pa_now p)))"
    by (rule truthful_from [OF answered(1)]) (use answered(2) f1 in \<open>simp_all add: is_final_def\<close>)
  with failed f1 start ask settle
  show "truthful s i (ar_action d) (fst (deliver_held p s i d a)) (snd (deliver_held p s i d a))"
    by (cases "pa_capable p \<and> pa_available p"; cases b; cases asked; cases "pa_state p"; cases changed; cases "pa_resolve p")
      (auto simp: deliver_held_def Let_def truthful_def is_final_def)
  show "fst (deliver_held p s i d a) \<noteq> Replayed t'"
    using answered(2) start ask settle
    by (cases "pa_capable p \<and> pa_available p"; cases b; cases asked; cases "pa_state p"; cases changed; cases "pa_resolve p")
      (auto simp: deliver_held_def Let_def)
qed

lemma acknowledged_truthful:
  assumes "relay_ok s" and "input_owned s i" and "deliver_acknowledged p s i d a = (Answer r, s')"
  shows "truthful s i (ar_action d) r s'" and "r \<noteq> Replayed t'"
proof -
  obtain b rows where start: "beginDelivery (al_rows s) (ri_session i) (ri_request i) (ri_key i) = (b, rows)"
    by (cases "beginDelivery (al_rows s) (ri_session i) (ri_request i) (ri_key i)")
  note m0 = moves_begin [OF assms(1) start]
  obtain asked s1 where ask: "ask_replacement p (s\<lparr>al_rows := rows\<rparr>) i d a = (asked, s1)"
    by (cases "ask_replacement p (s\<lparr>al_rows := rows\<rparr>) i d a")
  have m1: "moves s s1"
    using moves_trans [OF m0 moves_ask [OF moves_ok [OF m0], of p i d a]] ask by simp
  have f1: "finals s1 = finals s" "al_results s1 = al_results s"
    using ask_finals [of p "s\<lparr>al_rows := rows\<rparr>" i d a] ask_ok(4) [OF moves_ok [OF m0], of p i d a] ask by simp_all
  note answered = settleAnswered_truthful [OF moves_ok [OF m1] moves_owned [OF m1 assms(2)], where action = "ar_action d" and t = "pa_now p"]
  obtain r1 s2 where run: "settleAnswered s1 i (ar_action d) (pa_now p) = (r1, s2)"
    by (cases "settleAnswered s1 i (ar_action d) (pa_now p)")
  have "truthful s i (ar_action d) r1 s2"
    by (rule truthful_from [of s1]) (use answered f1 run in simp_all)
  moreover have "r1 \<noteq> Replayed t" for t using answered(2) run by simp
  ultimately have "truthful s i (ar_action d) r s' \<and> r \<noteq> Replayed t'"
    using assms(3) start ask run f1
    by (cases b; cases asked) (auto simp: deliver_acknowledged_def truthful_def split: if_splits)
  then show "truthful s i (ar_action d) r s'" "r \<noteq> Replayed t'" by simp_all
qed

text \<open>A delivery has no stored answer to replay; it answers from what it does itself.\<close>

lemma claim_of_open:
  assumes "rows_ok rows" and "r \<in> set rows" and "row_key r = (y, q)" and "ir_resolved r = None"
  shows "fst (claimOperation rows y q k) \<noteq> ResolvedClaim"
proof -
  have "find_row rows y q = Some r" using find_row_iff [OF assms(1)] assms(2,3) by simp
  then show ?thesis using assms(4) by (auto simp: claimOperation_def split: prod.splits)
qed

lemma deliver_truthful:
  assumes "relay_ok s" and "deliver p s i = (Answer r, s')"
  obtains action where "truthful s i action r s'"
    and "\<And>d. parseOrgPlanAttentionToolResponse (ri_response i) = Some d \<Longrightarrow> action = ar_action d"
proof -
  have idle: "truthful s i action r s'" if "r \<in> {NoActive, StaleOperation}" "finals s' = finals s" "al_results s' = al_results s" for action
    using that by (auto simp: truthful_def)
  show ?thesis
  proof (cases "find_interaction (al_rows s) (ri_session i) (ri_request i)")
    case None
    with assms(2) idle that show ?thesis by (cases "parseOrgPlanAttentionToolResponse (ri_response i)") (auto simp: deliver_def)
  next
    case (Some n)
    from found_row [OF relay_okD(1) [OF assms(1)] Some] obtain x where
      x: "x \<in> set (al_rows s)" "row_key x = (ri_session i, ri_request i)" "ir_kind x = pi_kind n" "ir_resolved x = None" by blast
    obtain claim rows where claim: "claimOperation (al_rows s) (ri_session i) (ri_request i) (ri_key i) = (claim, rows)"
      by (cases "claimOperation (al_rows s) (ri_session i) (ri_request i) (ri_key i)")
    have unresolved: "claim \<noteq> ResolvedClaim"
      using claim_of_open [OF relay_okD(1) [OF assms(1)] x(1,2,4), of "ri_key i"] claim by simp
    show ?thesis
    proof (cases "pi_kind n = ''orgPlanAttention'' \<and> parseOrgPlanAttentionToolResponse (ri_response i) \<noteq> None
        \<and> parseOrgPlanAttention (pi_payload n) \<noteq> None \<and> (claim = Claimed \<or> claim = SameClaim)")
      case False
      then have "r \<in> {NoActive, StaleOperation}" "finals s' = finals s" "al_results s' = al_results s"
        using assms(2) unresolved
        by (auto simp: deliver_def Some claim Let_def split: option.splits if_splits claim_answer.splits)
      with idle that show ?thesis by (cases "parseOrgPlanAttentionToolResponse (ri_response i)") auto
    next
      case True
      then obtain d a where d: "parseOrgPlanAttentionToolResponse (ri_response i) = Some d"
        and a: "parseOrgPlanAttention (pi_payload n) = Some a" by auto
      let ?s = "s\<lparr>al_rows := rows\<rparr>"
      have m: "moves s ?s"
        using moves_rows [OF assms(1)] claim_moves [OF relay_okD(1) [OF assms(1)], of "ri_session i" "ri_request i" "ri_key i"] claim by simp
      have own: "input_owned ?s i"
        using claimed_owns [OF relay_okD(1) [OF assms(1)] x(1,2) _ claim] True x(3) by (simp add: is_attention_def)
      have run: "(if resolutionState rows (ri_session i) (ri_request i) = Some ''acknowledged''
          then deliver_acknowledged p ?s i d a
          else (case deliver_held p ?s i d a of (r, s2) \<Rightarrow> (Answer r, s2))) = (Answer r, s')"
        using assms(2) True by (auto simp: deliver_def Some claim Let_def d a)
      have "truthful ?s i (ar_action d) r s' \<and> (\<forall>t. r \<noteq> Replayed t)"
      proof (cases "resolutionState rows (ri_session i) (ri_request i) = Some ''acknowledged''")
        case True
        with run acknowledged_truthful [OF moves_ok [OF m] own] show ?thesis by simp
      next
        case False
        with run have held: "deliver_held p ?s i d a = (r, s')" by (cases "deliver_held p ?s i d a") auto
        note true = held_truthful [OF moves_ok [OF m] own, where d = d and p = p and a = a]
        have "truthful ?s i (ar_action d) r s'" using true(1) unfolding held fst_conv snd_conv .
        moreover have "r \<noteq> Replayed t" for t using true(2) unfolding held fst_conv .
        ultimately show ?thesis by (intro conjI allI)
      qed
      then have "truthful s i (ar_action d) r s'" by (elim conjE) (rule truthful_from [of ?s], simp_all)
      with that d show ?thesis by auto
    qed
  qed
qed

lemma resolved_atD:
  assumes "resolved_at rows y q = Some (t, out)"
  obtains row where "row \<in> set rows" and "row_key row = (y, q)" and "ir_resolved row = Some t"
    and "out = safeInteractionOutcome (ir_outcome row)"
proof -
  from assms obtain row where find: "List.find (\<lambda>r. row_at y q r \<and> ir_resolved r \<noteq> None) rows = Some row"
    and out: "t = the (ir_resolved row)" "out = safeInteractionOutcome (ir_outcome row)"
    by (auto simp: resolved_at_def)
  from find have "row \<in> set rows" "row_key row = (y, q)" "ir_resolved row \<noteq> None" by (auto simp: find_Some_iff row_at_key)
  with out that show ?thesis by auto
qed

lemma terminalD:
  assumes "terminalOperation rows y q = Some (t, out, key)"
  shows "resolved_at rows y q = Some (t, out)" and "\<exists>row. find_row rows y q = Some row \<and> key = ir_key row"
  using assms by (auto simp: terminalOperation_def split: option.splits)

text \<open>
  C16: an answer says what is durable. After any history, an answer of a run that does not have to wait
  is true of what the run leaves behind: accepted means settled as answered under the caller's key,
  published and followed by the policy the response asks for; cleared means settled as failed under that key; replayed means that an answer
  of that key was settled before and nothing was done; and every other answer means that nothing was
  published, no policy changed and no result was stored.
\<close>
theorem answers_say_what_is_durable:
  assumes "s = attention_run ell empty_relay steps" and "resolve_attention p s i = (Answer r, s')"
    and "parseOrgPlanAttentionToolResponse (ri_response i) = Some d"
  shows "truthful s i (ar_action d) r s'"
proof -
  have ok: "relay_ok s" unfolding assms(1) by (rule attending.run_inv [OF empty_relay_ok])
  let ?scope = "attention_scope (ri_session i) (ri_request i)"
  consider (stored) st body where "get_result (al_results s) ?scope (ri_key i) = Some (st, body)"
    | (terminal) t out key where "get_result (al_results s) ?scope (ri_key i) = None"
        "terminalOperation (al_rows s) (ri_session i) (ri_request i) = Some (t, out, key)"
    | (fresh) "get_result (al_results s) ?scope (ri_key i) = None"
        "terminalOperation (al_rows s) (ri_session i) (ri_request i) = None"
    by (cases "get_result (al_results s) ?scope (ri_key i)"; cases "terminalOperation (al_rows s) (ri_session i) (ri_request i)") auto
  then show ?thesis
  proof cases
    case stored
    then obtain x where "List.find (\<lambda>x. sr_scope x = ?scope \<and> sr_key x = ri_key i) (al_results s) = Some x" "sr_body x = body"
      by (auto simp: get_result_def)
    then have "x \<in> set (al_results s)" "sr_scope x = ?scope" "sr_key x = ri_key i" "sr_body x = body"
      by (auto simp: find_Some_iff)
    with relay_okD(3) [OF ok, of x] have "\<exists>r \<in> set (al_rows s). attention_scope (ir_session r) (ir_request r) = ?scope
        \<and> ir_key r = Some (ri_key i) \<and> ir_resolved r = Some body \<and> ir_outcome r \<noteq> Some ''failed''"
      by (auto simp: result_backed_def)
    with stored assms(2) show ?thesis by (auto simp: resolve_attention_def truthful_def)
  next
    case terminal
    from resolved_atD [OF terminalD(1) [OF terminal(2)]] obtain row where row: "row \<in> set (al_rows s)"
      "row_key row = (ri_session i, ri_request i)" "ir_resolved row = Some t" "out = safeInteractionOutcome (ir_outcome row)" .
    have "find_row (al_rows s) (ri_session i) (ri_request i) = Some row"
      using find_row_iff [OF relay_okD(1) [OF ok]] row by simp
    with terminalD(2) [OF terminal(2)] have key: "key = ir_key row" by simp
    have failed: "out = ''failed'' \<longleftrightarrow> ir_outcome row = Some ''failed''"
      using row(4) by (auto simp: safeInteractionOutcome_def split: option.splits if_splits)
    have r: "r = (if key = Some (ri_key i) then (if out = ''failed'' then ClearedWriter t else Replayed t) else StaleOperation)" "s' = s"
      using assms(2) terminal by (auto simp: resolve_attention_def)
    have "settled_by (al_rows s) i t ''failed''" if "key = Some (ri_key i)" "out = ''failed''"
      using row key failed that by (auto simp: settled_by_def)
    moreover have "\<exists>r \<in> set (al_rows s). attention_scope (ir_session r) (ir_request r) = ?scope \<and> ir_key r = Some (ri_key i)
        \<and> ir_resolved r = Some t \<and> ir_outcome r \<noteq> Some ''failed''" if "key = Some (ri_key i)" "out \<noteq> ''failed''"
      using row key failed that by (intro bexI [of _ row]) (auto simp: row_key_def)
    ultimately show ?thesis using r by (simp add: truthful_def)
  next
    case fresh
    with assms(2) have "deliver p s i = (Answer r, s')" by (auto simp: resolve_attention_def split: if_splits)
    from deliver_truthful [OF ok this] obtain action where "truthful s i action r s'"
      and "\<And>d. parseOrgPlanAttentionToolResponse (ri_response i) = Some d \<Longrightarrow> action = ar_action d" by blast
    with assms(3) show ?thesis by auto
  qed
qed

subsection \<open>Trying again\<close>

definition cooperative :: "port_answers \<Rightarrow> bool" where
  "cooperative p \<longleftrightarrow> pa_authorize p \<and> pa_guidance p \<and> pa_capable p \<and> pa_available p \<and> pa_state p = WriterReady \<and> pa_resolve p"

text \<open>A request that is claimed, not resolved, and can be read.\<close>

definition open_request :: "interactions \<Rightarrow> resolve_input \<Rightarrow> org_attention \<Rightarrow> bool" where
  "open_request rows i a \<longleftrightarrow>
     (\<exists>r \<in> set rows. is_attention r \<and> row_key r = (ri_session i, ri_request i) \<and> ir_key r = Some (ri_key i)
        \<and> ir_resolved r = None \<and> parseOrgPlanAttention (ir_payload r) = Some a)"

lemma open_updated:
  assumes "open_request rows i a"
    and "\<And>r. row_key (f r) = row_key r \<and> ir_kind (f r) = ir_kind r \<and> ir_key (f r) = ir_key r \<and> ir_resolved (f r) = ir_resolved r
        \<and> ir_payload (f r) = ir_payload r"
  shows "open_request (update_where P f rows) i a"
proof -
  from assms(1) obtain r where r: "r \<in> set rows" "is_attention r" "row_key r = (ri_session i, ri_request i)" "ir_key r = Some (ri_key i)"
    "ir_resolved r = None" "parseOrgPlanAttention (ir_payload r) = Some a" by (auto simp: open_request_def)
  have "(if P r then f r else r) \<in> set (update_where P f rows)" using r(1) by (auto simp: in_set_update_where)
  then show ?thesis
    unfolding open_request_def by (rule bexI [rotated]) (use r assms(2) in \<open>simp add: is_attention_def\<close>)
qed

lemma begin_open: "open_request rows i a \<Longrightarrow> beginDelivery rows y q k = (b, rows') \<Longrightarrow> open_request rows' i a"
  using open_updated [of rows i a "\<lambda>r. r\<lparr>ir_state := ''delivering''\<rparr>"]
  by (auto simp: beginDelivery_def update_one_def row_key_def)

lemma give_up_open: "open_request (al_rows s) i a \<Longrightarrow> open_request (al_rows (give_up s j b)) i a"
  using open_updated [of "al_rows s" i a "\<lambda>r. r\<lparr>ir_state := open_state b\<rparr>"]
  by (simp add: give_up_def retryDelivery_def row_key_def)

lemma claimed_open:
  assumes "rows_ok rows" and "r \<in> set rows" and "row_key r = (ri_session i, ri_request i)" and "is_attention r"
    and "ir_resolved r = None" and "parseOrgPlanAttention (ir_payload r) = Some a"
    and "claimOperation rows (ri_session i) (ri_request i) (ri_key i) = (claim, rows')" and "claim = Claimed \<or> claim = SameClaim"
  shows "open_request rows' i a"
proof -
  have find: "find_row rows (ri_session i) (ri_request i) = Some r" using find_row_iff [OF assms(1)] assms(2,3) by simp
  let ?C = "\<lambda>r. ir_key r = None \<and> ir_resolved r = None"
  note one = one_updated [OF assms(1-3), of ?C "\<lambda>r. r\<lparr>ir_key := Some (ri_key i)\<rparr>"]
  from assms(8) show ?thesis
  proof
    assume "claim = Claimed"
    then have C: "?C r" and rows': "rows' = update_where (\<lambda>r. row_at (ri_session i) (ri_request i) r \<and> ?C r) (\<lambda>r. r\<lparr>ir_key := Some (ri_key i)\<rparr>) rows"
      using assms(7) find one by (auto simp: claimOperation_def split: if_splits)
    have "r\<lparr>ir_key := Some (ri_key i)\<rparr> \<in> set rows'"
      unfolding rows' using assms(2,3) C by (force simp: in_set_update_where row_at_key)
    then show ?thesis unfolding open_request_def
      by (rule bexI [rotated]) (use assms(3-6) in \<open>simp add: is_attention_def row_key_def\<close>)
  next
    assume "claim = SameClaim"
    then have "ir_key r = Some (ri_key i)" "rows' = rows"
      using assms(7) find one by (auto simp: claimOperation_def split: if_splits)
    with assms(2-6) show ?thesis by (auto simp: open_request_def)
  qed
qed

abbreviation gave_up :: "resolution \<Rightarrow> bool" where
  "gave_up r \<equiv> r = WriterUnavailable \<or> r = ReplacementRejected"

lemma settleAnswered_answers: "fst (settleAnswered s i action t) = Accepted t \<or> fst (settleAnswered s i action t) = StaleOperation"
  by (auto simp: settleAnswered_def split: prod.splits bool.splits)

lemma gave_up_delivery:
  assumes "open_request (al_rows s) i a"
  shows "deliver_held p s i d a' = (r, s') \<Longrightarrow> gave_up r \<Longrightarrow>
      open_request (al_rows s') i a \<and> al_flight s' = al_flight s \<and> al_results s' = al_results s"
    and "deliver_acknowledged p s i d a' = (Answer r, s') \<Longrightarrow> gave_up r \<Longrightarrow>
      open_request (al_rows s') i a \<and> al_flight s' = al_flight s \<and> al_results s' = al_results s"
proof -
  obtain b rows where start: "beginDelivery (al_rows s) (ri_session i) (ri_request i) (ri_key i) = (b, rows)"
    by (cases "beginDelivery (al_rows s) (ri_session i) (ri_request i) (ri_key i)")
  have rows: "open_request rows i a" by (rule begin_open [OF assms start])
  obtain asked s1 where ask: "ask_replacement p (s\<lparr>al_rows := rows\<rparr>) i d a' = (asked, s1)"
    by (cases "ask_replacement p (s\<lparr>al_rows := rows\<rparr>) i d a'")
  have s1: "al_rows s1 = rows" "al_flight s1 = al_flight s" "al_results s1 = al_results s"
    using ask by (auto simp: ask_replacement_def split: attention_action.splits option.splits)
  have up: "open_request (al_rows (give_up x i c)) i a \<and> al_flight (give_up x i c) = al_flight s \<and> al_results (give_up x i c) = al_results s"
    if "al_rows x = rows" "al_flight x = al_flight s" "al_results x = al_results s" for x c
    using that give_up_open [of x i a i c] rows by (simp add: give_up_def)
  have no: "\<not> gave_up (fst (settleAnswered x i y t))" for x y t
    using settleAnswered_answers [of x i y t] by auto
  show "deliver_held p s i d a' = (r, s') \<Longrightarrow> gave_up r \<Longrightarrow>
      open_request (al_rows s') i a \<and> al_flight s' = al_flight s \<and> al_results s' = al_results s"
    using up [of s1] up [of "log_effect s1 (SentResponse (ri_session i) (ri_request i) (ri_key i) (ri_response i))"] s1 start ask assms
      no [of "log_effect s1 (SentResponse (ri_session i) (ri_request i) (ri_key i) (ri_response i))" "ar_action d" "pa_now p"]
    by (cases b; cases asked; cases "pa_state p")
      (auto simp: deliver_held_def Let_def split: if_splits prod.splits bool.splits)
  show "deliver_acknowledged p s i d a' = (Answer r, s') \<Longrightarrow> gave_up r \<Longrightarrow>
      open_request (al_rows s') i a \<and> al_flight s' = al_flight s \<and> al_results s' = al_results s"
    using up [of s1] s1 start ask no [of s1 "ar_action d" "pa_now p"]
    by (cases b; cases asked) (auto simp: deliver_acknowledged_def split: if_splits prod.splits)
qed

lemma gave_up_run:
  assumes "relay_ok s" and "resolve_attention p s i = (Answer r, s')" and "gave_up r"
  obtains d a where "parseOrgPlanAttentionToolResponse (ri_response i) = Some d" and "open_request (al_rows s') i a"
    and "get_result (al_results s') (attention_scope (ri_session i) (ri_request i)) (ri_key i) = None"
    and "\<not> list_ex (\<lambda>w. wr_key w = flight_key i) (al_flight s')"
proof -
  have fresh: "get_result (al_results s) (attention_scope (ri_session i) (ri_request i)) (ri_key i) = None"
    "\<not> list_ex (\<lambda>w. wr_key w = flight_key i) (al_flight s)" and run: "deliver p s i = (Answer r, s')"
    using assms(2,3) by (auto simp: resolve_attention_def split: option.splits prod.splits if_splits)
  from run assms(3) obtain n where n: "find_interaction (al_rows s) (ri_session i) (ri_request i) = Some n"
    by (auto simp: deliver_def split: option.splits)
  from found_row [OF relay_okD(1) [OF assms(1)] n] obtain x where
    x: "x \<in> set (al_rows s)" "row_key x = (ri_session i, ri_request i)" "ir_kind x = pi_kind n" "ir_resolved x = None"
       "ir_payload x = pi_payload n" by blast
  obtain claim rows where claim: "claimOperation (al_rows s) (ri_session i) (ri_request i) (ri_key i) = (claim, rows)"
    by (cases "claimOperation (al_rows s) (ri_session i) (ri_request i) (ri_key i)")
  from run assms(3) have kind: "pi_kind n = ''orgPlanAttention''" and mine: "claim = Claimed \<or> claim = SameClaim"
    by (auto simp: deliver_def n claim Let_def split: option.splits if_splits claim_answer.splits)
  from run assms(3) obtain d a where d: "parseOrgPlanAttentionToolResponse (ri_response i) = Some d"
    and a: "parseOrgPlanAttention (pi_payload n) = Some a"
    by (auto simp: deliver_def n claim split: option.splits if_splits)
  let ?s = "s\<lparr>al_rows := rows\<rparr>"
  have "open_request rows i a"
    using claimed_open [OF relay_okD(1) [OF assms(1)] x(1,2) _ x(4) _ claim mine] x(3,5) kind a by (simp add: is_attention_def)
  then have opened: "open_request (al_rows ?s) i a" by simp
  have "open_request (al_rows s') i a \<and> al_flight s' = al_flight ?s \<and> al_results s' = al_results ?s"
  proof (cases "resolutionState rows (ri_session i) (ri_request i) = Some ''acknowledged''")
    case True
    with run mine kind have "deliver_acknowledged p ?s i d a = (Answer r, s')"
      by (auto simp: deliver_def n claim Let_def d a)
    from gave_up_delivery(2) [OF opened this assms(3)] show ?thesis .
  next
    case False
    with run mine kind have "deliver_held p ?s i d a = (r, s')"
      by (cases "deliver_held p ?s i d a") (auto simp: deliver_def n claim Let_def d a)
    from gave_up_delivery(1) [OF opened this assms(3)] show ?thesis .
  qed
  with fresh d show ?thesis by (intro that [of d a]) simp_all
qed

lemma cooperative_run:
  assumes "relay_ok s" and "parseOrgPlanAttentionToolResponse (ri_response i) = Some d" and "open_request (al_rows s) i a"
    and "get_result (al_results s) (attention_scope (ri_session i) (ri_request i)) (ri_key i) = None"
    and "\<not> list_ex (\<lambda>w. wr_key w = flight_key i) (al_flight s)" and "cooperative p" and "ri_key i \<noteq> []"
  shows "\<exists>s'. resolve_attention p s i = (Answer (Accepted (pa_now p)), s')
      \<or> (resolve_attention p s i = (Waiting, s') \<and> (\<forall>t. \<exists>s''. guidance_answered s' (flight_key i) True t = Some (Accepted t, s'')))"
proof -
  note ok = relay_okD(1) [OF assms(1)]
  from assms(3) obtain r where r: "r \<in> set (al_rows s)" "is_attention r" and rkey: "row_key r = (ri_session i, ri_request i)"
    and key: "ir_key r = Some (ri_key i)" "ir_resolved r = None" "parseOrgPlanAttention (ir_payload r) = Some a"
    by (auto simp: open_request_def)
  have only: "x = r" if "x \<in> set (al_rows s)" "row_at (ri_session i) (ri_request i) x" for x
    using same_row [OF ok that(1) r(1)] that(2) rkey by (simp add: row_at_key)
  have find: "find_row (al_rows s) (ri_session i) (ri_request i) = Some r" using find_row_iff [OF ok] r(1) rkey by simp
  have "List.find (\<lambda>x. row_at (ri_session i) (ri_request i) x \<and> ir_resolved x \<noteq> None) (al_rows s) = None"
    unfolding find_None_iff using only key(2) by metis
  then have none: "terminalOperation (al_rows s) (ri_session i) (ri_request i) = None"
    by (simp add: terminalOperation_def resolved_at_def)
  obtain n where n: "find_interaction (al_rows s) (ri_session i) (ri_request i) = Some n"
  proof (cases "find_interaction (al_rows s) (ri_session i) (ri_request i)")
    case None
    have "ir_request r = ri_request i" "r \<in> set (filter (\<lambda>r. ir_session r = ri_session i \<and> ir_resolved r = None) (al_rows s))"
      using r(1) rkey key(2) by (simp_all add: row_key_def)
    with None show ?thesis by (force simp: find_interaction_def list_interactions_def find_None_iff)
  qed
  from found_row [OF ok n] obtain x where "x \<in> set (al_rows s)" "row_key x = (ri_session i, ri_request i)"
    "ir_kind x = pi_kind n" "ir_payload x = pi_payload n" by blast
  with only [of x] r(2) have kind: "pi_kind n = ''orgPlanAttention''" and payload: "pi_payload n = ir_payload r"
    by (auto simp: row_at_key is_attention_def)
  have claim: "claimOperation (al_rows s) (ri_session i) (ri_request i) (ri_key i) = (SameClaim, al_rows s)"
    using find key assms(7) by (simp add: claimOperation_def truthy_def)
  let ?C = "\<lambda>r. ir_key r = Some (ri_key i) \<and> ir_resolved r = None \<and> ir_state r \<in> set [''active'', ''acknowledged'', ''delivering'']"
  define rows where "rows = update_where (\<lambda>r. row_at (ri_session i) (ri_request i) r \<and> ?C r) (\<lambda>r. r\<lparr>ir_state := ''delivering''\<rparr>) (al_rows s)"
  have "ir_state r \<in> open_states" using ok r(1) key(2) by (auto simp: rows_ok_def)
  then have C: "?C r" using key by (simp add: open_states_def)
  have start: "beginDelivery (al_rows s) (ri_session i) (ri_request i) (ri_key i) = (True, rows)"
    unfolding beginDelivery_def one_updated [OF ok r(1) rkey] rows_def using C by simp
  let ?r = "r\<lparr>ir_state := ''delivering''\<rparr>"
  have r': "?r \<in> set rows" "row_key ?r = (ri_session i, ri_request i)"
  proof -
    have "(if row_at (ri_session i) (ri_request i) r \<and> ?C r then ?r else r) \<in> set rows"
      unfolding rows_def in_set_update_where using r(1) by blast
    moreover have "row_at (ri_session i) (ri_request i) r" using rkey by (simp only: row_at_key)
    ultimately show "?r \<in> set rows" using C by (simp only: if_True simp_thms)
  qed (use rkey in \<open>simp add: row_key_def\<close>)
  have ok': "rows_ok rows" using begin_moves [OF ok, of "ri_session i" "ri_request i" "ri_key i"] start by simp
  have settle: "\<exists>rows'. settleOperation rows (ri_session i) (ri_request i) (ri_key i) t out = (True, rows')" for t out
    unfolding settleOperation_def one_updated [OF ok' r'] using key by simp
  have answered: "\<exists>s'. settleAnswered x i action t = (Accepted t, s')" if "al_rows x = rows" for x action t
    using settle [of t "''answered''"] that by (auto simp: settleAnswered_def)
  obtain s1 where ask: "ask_replacement p (s\<lparr>al_rows := rows\<rparr>) i d a = (True, s1)"
    using assms(6) by (cases "ar_action d"; cases "oa_replacement a") (auto simp: ask_replacement_def cooperative_def)
  then have s1: "al_rows s1 = rows" "al_flight s1 = al_flight s"
    by (auto simp: ask_replacement_def split: attention_action.splits option.splits)
  have run: "resolve_attention p s i =
      (if resolutionState (al_rows s) (ri_session i) (ri_request i) = Some ''acknowledged''
       then deliver_acknowledged p s i d a
       else (case deliver_held p s i d a of (r, s2) \<Rightarrow> (Answer r, s2)))"
    using assms(2,4,5) none n kind key(3) claim by (simp add: resolve_attention_def deliver_def payload)
  show ?thesis
  proof (cases "resolutionState (al_rows s) (ri_session i) (ri_request i) = Some ''acknowledged''")
    case True
    show ?thesis
    proof (cases "ar_action d = ResumeAction \<and> truthy_opt (ar_guidance d)")
      case guided: True
      let ?e = "SentGuidance (ri_session i) (ri_request i) (ri_key i) (guidance_text (the (ar_guidance d)))"
      let ?w = "\<lparr> wr_key = flight_key i, wr_input = i, wr_action = ar_action d \<rparr>"
      let ?s = "(log_effect s1 ?e)\<lparr>al_flight := al_flight s1 @ [?w]\<rparr>"
      have wait: "resolve_attention p s i = (Waiting, ?s)"
        using run True guided assms(6) by (simp add: deliver_acknowledged_def start ask cooperative_def)
      have "List.find (\<lambda>w. wr_key w = flight_key i) (al_flight s) = None" using assms(5) by (auto simp: find_None_iff list_ex_iff)
      then have "List.find (\<lambda>w. wr_key w = flight_key i) (al_flight ?s) = Some ?w"
        by (simp add: s1(2) find_append)
      then have "\<exists>s''. guidance_answered ?s (flight_key i) True t = Some (Accepted t, s'')" for t
        using answered [of "?s\<lparr>al_flight := filter (\<lambda>w. wr_key w \<noteq> flight_key i) (al_flight ?s)\<rparr>" "ar_action d" t] s1(1)
        by (simp add: guidance_answered_def Let_def)
      with wait show ?thesis by blast
    next
      case False
      with run True answered [OF s1(1), of "ar_action d" "pa_now p"] show ?thesis
        by (auto simp: deliver_acknowledged_def start ask)
    qed
  next
    case False
    with run answered [of "log_effect s1 (SentResponse (ri_session i) (ri_request i) (ri_key i) (ri_response i))" "ar_action d" "pa_now p"]
      assms(6) s1(1) show ?thesis
      by (auto simp: deliver_held_def start ask cooperative_def Let_def)
  qed
qed

text \<open>
  C17: a delivery that was given up can be tried again. After any history, when a run answers that the
  writer is unavailable or that the replacement is refused, then with a writer and a policy that cooperate
  the same request under the same key is accepted, at once or as soon as its guidance has been sent.
\<close>
theorem given_up_delivery_can_be_retried:
  assumes "s = attention_run ell empty_relay steps" and "resolve_attention p s i = (Answer r, s')"
    and "r = WriterUnavailable \<or> r = ReplacementRejected" and "ri_key i \<noteq> []" and "cooperative p'"
  shows "\<exists>s2. resolve_attention p' s' i = (Answer (Accepted (pa_now p')), s2)
      \<or> (resolve_attention p' s' i = (Waiting, s2) \<and> (\<forall>t. \<exists>s3. guidance_answered s2 (flight_key i) True t = Some (Accepted t, s3)))"
proof -
  have ok: "relay_ok s" unfolding assms(1) by (rule attending.run_inv [OF empty_relay_ok])
  from gave_up_run [OF ok assms(2,3)] obtain d a where
    d: "parseOrgPlanAttentionToolResponse (ri_response i) = Some d" "open_request (al_rows s') i a"
    "get_result (al_results s') (attention_scope (ri_session i) (ri_request i)) (ri_key i) = None"
    "\<not> list_ex (\<lambda>w. wr_key w = flight_key i) (al_flight s')" .
  have "relay_ok s'" using resolve_attention_moves [OF ok, of p i] assms(2) by (simp add: moves_def)
  from cooperative_run [OF this d assms(5,4)] show ?thesis .
qed

subsection \<open>A small history\<close>

definition sample_request :: pending_interaction where
  "sample_request = \<lparr> pi_request = ''r'', pi_kind = ''orgPlanAttention'',
     pi_payload = JObj [(''reason'', JStr ''hardBlock''), (''resumeCondition'', JStr ''externalStateChanged'')],
     pi_turn = None, pi_requested = None \<rparr>"

definition sample_ports :: "bool \<Rightarrow> port_answers" where
  "sample_ports available = \<lparr> pa_authorize = True, pa_guidance = True, pa_capable = True, pa_available = available,
     pa_state = WriterReady, pa_resolve = True, pa_now = ''t'' \<rparr>"

definition sample_answer :: "string \<Rightarrow> resolve_input" where
  "sample_answer key = \<lparr> ri_session = ''s'', ri_request = ''r'', ri_key = key,
     ri_response = toOrgPlanAttentionToolResponse \<lparr> ar_action = DisableAction, ar_guidance = None \<rparr> \<rparr>"

abbreviation "added_request \<equiv> attention_run [] empty_relay [AddInteraction ''s'' sample_request False]"
abbreviation "claimed_request \<equiv> attention_run [] empty_relay
  [AddInteraction ''s'' sample_request False, AnswerRequest (sample_ports False) (sample_answer ''k'')]"

theorem first_key_keeps_the_request_witness:
  "owns (al_rows (attention_run [] claimed_request [AnswerRequest (sample_ports True) (sample_answer ''other'')])) ''s'' ''r'' ''k''"
proof -
  have "list_ex (\<lambda>r. ir_kind r = ''orgPlanAttention'' \<and> ir_session r = ''s'' \<and> ir_request r = ''r'' \<and> ir_key r = Some ''k'')
      (al_rows claimed_request)" by code_simp
  then have own: "owns (al_rows claimed_request) ''s'' ''r'' ''k''"
    by (fastforce simp: owns_def list_ex_iff is_attention_def row_key_def)
  have "''other'' \<noteq> ''k''" by simp
  from first_key_keeps_the_request [OF refl own refl this] show ?thesis by (rule conjunct1)
qed

theorem answers_say_what_is_durable_witness:
  "\<exists>s'. resolve_attention (sample_ports True) added_request (sample_answer ''k'') = (Answer (Accepted ''t''), s')
     \<and> settled_by (al_rows s') (sample_answer ''k'') ''t'' ''answered''"
proof -
  let ?run = "resolve_attention (sample_ports True) added_request (sample_answer ''k'')"
  have "fst ?run = Answer (Accepted ''t'')" by code_simp
  then obtain s' where run: "?run = (Answer (Accepted ''t''), s')" by (cases ?run) auto
  have "parseOrgPlanAttentionToolResponse (ri_response (sample_answer ''k''))
      = Some \<lparr> ar_action = DisableAction, ar_guidance = None \<rparr>" by code_simp
  from answers_say_what_is_durable [OF refl run this] run show ?thesis by (auto simp: truthful_def)
qed

theorem given_up_delivery_can_be_retried_witness:
  "\<exists>s' s2. resolve_attention (sample_ports False) added_request (sample_answer ''k'') = (Answer WriterUnavailable, s')
     \<and> resolve_attention (sample_ports True) s' (sample_answer ''k'') = (Answer (Accepted ''t''), s2)"
proof -
  let ?run = "resolve_attention (sample_ports False) added_request (sample_answer ''k'')"
  have "fst ?run = Answer WriterUnavailable" by code_simp
  then obtain s' where run: "?run = (Answer WriterUnavailable, s')" by (cases ?run) auto
  have key: "ri_key (sample_answer ''k'') \<noteq> []" and coop: "cooperative (sample_ports True)"
    by (simp_all add: sample_answer_def cooperative_def sample_ports_def)
  have "fst (resolve_attention (sample_ports True) (snd ?run) (sample_answer ''k'')) \<noteq> Waiting" by code_simp
  with given_up_delivery_can_be_retried [OF refl run _ key coop] run show ?thesis by (auto simp: sample_ports_def)
qed

text \<open>
  An acknowledged request whose relay dies while its guidance is being sent is tried again as a held one:
  the state is \<open>delivering\<close> and no longer says that the tool call was acknowledged. A writer that knows
  no such call reports it as cleared, and the answered request is settled as failed.
\<close>

lemma interrupted_guidance_fails:
  "fst (resolve_attention ((sample_ports True)\<lparr>pa_state := WriterCleared\<rparr>)
      (attention_run [] empty_relay
         [AddInteraction ''s'' sample_request True,
          AnswerRequest (sample_ports True) ((sample_answer ''k'')\<lparr>ri_response :=
            toOrgPlanAttentionToolResponse \<lparr> ar_action = ResumeAction, ar_guidance = Some ''go'' \<rparr>\<rparr>), RelayDies])
      ((sample_answer ''k'')\<lparr>ri_response :=
            toOrgPlanAttentionToolResponse \<lparr> ar_action = ResumeAction, ar_guidance = Some ''go'' \<rparr>\<rparr>))
   = Answer (ClearedWriter ''t'')"
  by code_simp

end
