(* ===== verification/Observations.thy ===== *)
theory Observations
  imports Plan_Guarantees Protocol_Store Lifecycle_Store Checkpoint_Contract
begin

text \<open>
  Concrete inputs on which the code does something that its own contracts, comments or counterparts
  do not say.
\<close>

text \<open>A path inside the workspace whose first name starts with two dots is refused.\<close>

lemma dotted_name_is_refused:
  "\<not> isPlanPathWithinWorkspace ''/w/..plans/todo.org'' ''/w''"
  by code_simp

text \<open>
  A local instant of the first hour of the year 1 is normalised to a text of the year 0, which the
  normaliser itself refuses.
\<close>

lemma normalised_instant_is_refused:
  "normalizeUtcIsoInstant ''0001-01-01T00:00:00+01:00'' = Some ''0000-12-31T23:00:00Z''
    \<and> normalizeUtcIsoInstant ''0000-12-31T23:00:00Z'' = None"
  by code_simp

text \<open>A pending kind that is an array of one name passes the check of its text and is kept as the array.\<close>

lemma array_is_a_pending_kind:
  "pending_kind_ok (pending_kind_value (JArr [JStr ''l1Accepted'']) (Some ''turn'') False) (Some ''turn'')
    \<and> pending_kind_value (JArr [JStr ''l1Accepted'']) (Some ''turn'') False = JArr [JStr ''l1Accepted'']"
  by code_simp

text \<open>A wait lease without any condition is read, though no wait without a condition can be registered.\<close>

lemma empty_lease_is_read:
  "parseWaitLease (\<lambda>_. None) (JObj [(''id'', JStr ''w''), (''probeKey'', JStr ''p''), (''wakeConditions'', JArr [])])
     \<noteq> None"
  by code_simp

text \<open>A parked protocol without a lease is read, though no operation parks without one.\<close>

lemma parked_without_lease_is_read:
  "map_option (\<lambda>s. (ps_outcome s, ps_lease s))
     (parseSupervisionProtocolState (\<lambda>_. None)
       (JObj [(''progressKey'', JStr ''k''), (''outcome'', JStr ''parked''), (''unchangedContinuations'', JNum 0),
         (''probeKey'', JNull), (''lastReportId'', JNull), (''retryKey'', JNull), (''waitLease'', JNull),
         (''safetyPauseReason'', JNull)]))
     = Some (Parked, None)"
  by code_simp

end
