(* ===== verification/Spec2Isabelle.thy ===== *)
theory Spec2Isabelle
  imports Plan_Guarantees Policy_Admission Progress_Key Protocol_Store Executor_Facts
    Lifecycle_Store Checkpoint_Rules Autopilot_Facts Autopilot_Store_Facts Takeover_Facts Ledger_Facts
    Journal_Facts Authorization_Guarantees Outbox_Publication Attention_Facts Observations
begin

text \<open>
  Gestalt Mobile is a relay: a server that runs coding agents on a host and a web client that steers
  them. A session belongs to a workspace and runs an agent; it can be given an org file as a plan, and
  then an automatic supervisor keeps an executor working on the plan until it is done, parked, or in
  need of a human. This development models the logic of the server that decides what runs, what is
  durable, and who may ask for it. It is a shallow embedding: a definition keeps the name and the
  branches of the function it models, one definition per function or handler.

  \<^bold>\<open>Conventions.\<close> A text is a \<open>string\<close>, a list of code units below 256, where UTF-16 and Latin-1
  agree. An untyped value of the sources is a \<open>jv\<close> (Js\_Value): undefined, null, boolean, number
  (rational), text, array or object. A record of the sources is a record whose fields carry a prefix, an
  enumeration a datatype, a value that may be missing an option, a throw the left side of a sum. A
  table is the list of its rows; a transaction yields a new database or a throw, which leaves the
  database as it was. A handler that awaits is split at the await, and what others do meanwhile is an
  argument. What is not code of this repository is a parameter: \<open>dp\<close> or \<open>date_parse\<close> for \<open>Date.parse\<close>,
  \<open>collate\<close> for \<open>localeCompare\<close>, \<open>digest\<close> or \<open>h\<close> for SHA-256 in hexadecimal, \<open>b64\<close> for base64url,
  \<open>utc\<close> for \<open>toISOString\<close> of the clock, \<open>text_bytes\<close> and \<open>row_bytes\<close> for encoded sizes, \<open>jday\<close> for
  \<open>julianday\<close> of SQLite, \<open>decode\<close> for the reader of a stored row, \<open>ellipsis\<close> for U+2026. No theorem
  assumes anything of them that its statement does not say. Loops over data are structural
  recursions; fuel occurs in \<open>retain_loop\<close>, for which \<open>retention_loop_returns\<close> gives a sufficient
  number of rounds, in \<open>flush_loop\<close>, where it counts the writes a process lives for, and in \<open>json_value\<close>,
  where it counts the values and members that may still be opened: each takes a character, so that
  \<open>json_parse\<close> starts with one more than the length of the text.

  \<^bold>\<open>Shared.\<close> Prelude: string and array operations, rows with a key, and the interfaces of everything
  that keeps state: \<open>stepper\<close> (an invariant that each step keeps), \<open>trapping_stepper\<close> (with states that
  only some commands leave) and \<open>fallible_stepper\<close> (operations that throw). Js\_Value, Js\_Json,
  Json\_Read, Json\_Parse: the runtime the sources rely on, values, validators, JSON text. Utc\_Instant: ISO instants.

  \<^bold>\<open>Plans\<close> (features/plans). Plan\_Model (domain/supervised-plan.ts, shared/org-plan-position.ts),
  Plan\_Text and Plan\_Parser (application/parse-supervised-plan.ts, parse-model-policy.ts):
  \<open>parseSupervisedPlan\<close> from the text of the file to the read model or the reason why it is
  unavailable. Policy\_Admission (domain/model-policy-admission.ts). Plan\_Facts and Plan\_Guarantees,
  on the plan of Plan\_Sample: the rows are the headings, identifiers are unique, work in progress and
  suspension are consistent.

  \<^bold>\<open>Automatic supervision\<close> (features/autopilot). Supervision\_Protocol, Progress\_Key and Protocol\_Store
  (domain/supervision-protocol.ts): the machine of continuations, probes, waits, retries and pauses,
  the key of semantic progress, and the reader of the stored form. Executor\_Lifecycle,
  Executor\_Facts, Lifecycle\_Store and Lifecycle\_Writer (domain/supervised-lifecycle.ts,
  executor-commands.ts, plan-fingerprint.ts): the executor of a milestone, its command history, the
  decision what to do next, reading and writing the durable record. Autopilot\_Session
  (domain/autopilot-session.ts, shared/contracts/provider-failure.ts, autopilot-recovery.ts) and
  Autopilot\_Policy with Autopilot\_Facts (application/policy.ts): the control state and the pure
  decision. Autopilot\_Store and its facts (platform/persistence/sqlite-autopilot-store.ts): saving,
  the claim of a control, the outbox, the quarantine of what cannot be read. Plan\_Fingerprint and
  Session\_Progress: the revision and the progress key the service (application/service.ts) computes.
  Supervision\_Takeover and Takeover\_Facts (application/takeover-supervision.ts,
  platform/persistence/sqlite-supervision-takeover-store.ts): a new supervisor fences and stops every
  previous writer before it commits ownership. Executor\_Journal and Journal\_Facts (service.ts): which
  roster entry is the executor, the durable commands and process actions and their fences (up to the
  retention of 32 commands, which drops settled ones), the authorised replacement. Checkpoint\_Ledger and Ledger\_Facts (service.ts): plan boundaries that were
  reported, their release with the final of the turn, and their reopening.

  \<^bold>\<open>Boundaries and activity.\<close> Checkpoint\_Contract and Checkpoint\_Rules
  (shared/contracts/org-plan-checkpoint.ts, features/org-plan-checkpoint/application/validate.ts): when
  a reported boundary is true of the plan. Agent\_Activity and its facts (features/agent-activity/
  model.ts): the reducer from observed facts to the roster of agents that supervision reads.

  \<^bold>\<open>Attention\<close> (features/org-plan-attention). Attention\_Contract
  (shared/contracts/org-plan-attention.ts), Interaction\_Store (platform/persistence/
  sqlite-pending-interaction-store.ts, sqlite-idempotency-store.ts), Attention\_Resolution
  (application/resolve.ts) and Attention\_Facts: a request for a human is answered under one operation
  key and settled once, whatever is retried, dies or runs at the same time.

  \<^bold>\<open>Session events.\<close> Event\_Journal and Event\_Journal\_Facts (platform/persistence/
  sqlite-event-journal.ts, retention.ts, platform/events/replay.ts, shared/contracts/attention-report.ts),
  Mcp\_Startup (shared/contracts/mcp-startup-failure.ts, xerj-startup.ts), Session\_Forget
  (platform/persistence/sqlite-forget-operation-store.ts, the triggers of migrate.ts), and
  Outbox\_Publication (\<open>flushOutbox\<close> of service.ts, \<open>publish\<close> of server/composition.ts): numbers given
  once, a replay without holes, and each event of the outbox published exactly once across crashes, as
  long as the session is not being forgotten. From the moment it is, the database ignores every insert
  and update of its row; \<open>events_are_numbered_once\<close> and \<open>forgetting_loses_events\<close> say what that costs.

  \<^bold>\<open>Owner authorization\<close> (features/auth). Owner\_Authorization (domain), Authorization\_Store
  (platform/auth/sqlite-authorization-store.ts), Authorization\_Endpoints (the endpoints and
  platform/http/authorization-boundary.ts), Authorization\_Facts and Authorization\_Guarantees: the owner
  is never locked out, revoked devices and spent proofs stay out, requests without a verified passkey
  gain no access, and the store simulates the aggregate (\<open>represents\<close>).

  \<^bold>\<open>Findings.\<close> Observations and lemmas of the component theories hold concrete inputs on which the
  code does what its contracts, comments or counterparts do not say.

  \<^bold>\<open>How the parts meet.\<close> The parser produces the plan; its fingerprint, the roster of agents and the
  ledger feed the decision of the autopilot; a decision is committed as control, state and outbox
  events in one transaction; commands and process actions are journalled before the agent is called; a
  boundary reported by the executor is validated against the plan and recorded once; the outbox is
  published into the journal of session events, from which clients replay. Theorems that span parts are
  \<open>expanded_signal_validates\<close> (parser, checkpoint contract and validation), \<open>takeover_stops_every_writer\<close>
  (use case and store), \<open>process_action_happens_once\<close> (journal and controller), \<open>store_implements_aggregate\<close>
  and \<open>access_needs_proof\<close> (endpoints, store and domain), \<open>outbox_is_published_once\<close> (store of
  supervision and event journal).

  \<^bold>\<open>Not modelled.\<close> Of service.ts: enabling and disabling, the evaluation loop with its timers, the
  firing of a scheduled turn, the lifecycle enforcement that calls the agent, split-brain
  reconciliation, and the wait, snapshot and control events of \<open>persist\<close>; these are sequences of calls
  into the modelled operations and into the agent. The composition of the server and its contracts,
  which are wiring and request schemas. The agent runtimes (Codex, Kimi) and their protocols, which talk
  to processes outside the repository. The SQL of migrations but for its keys, cascades and triggers, the
  use case that drives a forget operation, and columns a modelled operation does not read. The client, whose state is a projection of events. Files, git, scratch space, retrieval,
  skills, host tests, catalogue, maintenance and the static assets, which are calls to the operating
  system with little state of their own. Numbers outside the safe integers, and code units above 255.
\<close>

end
